(* ===== verification/TE_Prelude.thy ===== *)
theory TE_Prelude
  imports Complex_Main "HOL-Library.Word"
begin

text \<open>
  Shared vocabulary of the development.

  \<^item> Go maps are association lists (\<open>gomap\<close>): a key occurs once (\<open>mwf\<close>), the order of the list
    stands for the iteration order of a \<^verbatim>\<open>range\<close> loop, which Go leaves unspecified, so every lemma is
    about an arbitrary order.
  \<^item> Go strings are byte strings: \<^typ>\<open>string\<close> has one \<^typ>\<open>char\<close> per byte; \<^verbatim>\<open>[]byte(s)\<close> and
    \<^verbatim>\<open>string(b)\<close> are \<open>bytes\<close> and \<open>str\<close>.
  \<^item> Instants and durations are nanosecond counts (\<^typ>\<open>int\<close>). Every reading of \<^verbatim>\<open>time.Now()\<close> is an
    argument of the operation that makes it.
  \<^item> Reachable states of a component are \<open>reach init step\<close>; invariants are proved by
    \<open>reach_invariant\<close>.
\<close>

named_theorems map_simps \<open>lookups and well-formedness of Go maps\<close>
named_theorems wire_simps \<open>evaluation of the wire primitives\<close>

subsection \<open>Integers\<close>

text \<open>Integer division in Go truncates towards zero.\<close>

definition go_div :: "int \<Rightarrow> int \<Rightarrow> int" where
  "go_div a b = (if (a < 0) \<noteq> (b < 0) then - (\<bar>a\<bar> div \<bar>b\<bar>) else \<bar>a\<bar> div \<bar>b\<bar>)"

subsection \<open>Go maps\<close>

type_synonym ('k, 'v) gomap = "('k \<times> 'v) list"

definition mwf :: "('k, 'v) gomap \<Rightarrow> bool" where
  "mwf m \<longleftrightarrow> distinct (map fst m)"

definition mdel :: "'k \<Rightarrow> ('k, 'v) gomap \<Rightarrow> ('k, 'v) gomap" where
  "mdel k m = filter (\<lambda>p. fst p \<noteq> k) m"

definition mput :: "'k \<Rightarrow> 'v \<Rightarrow> ('k, 'v) gomap \<Rightarrow> ('k, 'v) gomap" where
  "mput k v m = (k, v) # mdel k m"

text \<open>\<open>mupd\<close> is a write through the pointer a map entry holds.\<close>

definition mupd :: "'k \<Rightarrow> ('v \<Rightarrow> 'v) \<Rightarrow> ('k, 'v) gomap \<Rightarrow> ('k, 'v) gomap" where
  "mupd k f m = map (\<lambda>p. if fst p = k then (k, f (snd p)) else p) m"

text \<open>\<open>mkeep\<close> is a \<^verbatim>\<open>range\<close> loop that deletes the entries that fail a test.\<close>

definition mkeep :: "('k \<Rightarrow> 'v \<Rightarrow> bool) \<Rightarrow> ('k, 'v) gomap \<Rightarrow> ('k, 'v) gomap" where
  "mkeep P m = filter (\<lambda>p. P (fst p) (snd p)) m"

lemma mwf_Nil [simp, map_simps]: "mwf []"
  by (simp add: mwf_def)

lemma map_of_mdel [simp, map_simps]: "map_of (mdel k m) x = (if x = k then None else map_of m x)"
  by (induction m) (auto simp: mdel_def)

lemma map_of_mput [simp, map_simps]: "map_of (mput k v m) x = (if x = k then Some v else map_of m x)"
  by (simp add: mput_def)

lemma map_of_mupd [simp, map_simps]:
  "map_of (mupd k f m) x = (if x = k then map_option f (map_of m k) else map_of m x)"
  by (induction m) (auto simp: mupd_def)

lemma fst_mupd [simp]: "map fst (mupd k f m) = map fst m"
  by (induction m) (auto simp: mupd_def)

lemma length_mupd [simp]: "length (mupd k f m) = length m"
  by (simp add: mupd_def)

lemma mwf_mupd [simp, map_simps]: "mwf (mupd k f m) = mwf m"
  by (simp add: mwf_def)

lemma mwf_filter [simp]: "mwf m \<Longrightarrow> mwf (filter P m)"
  by (simp add: mwf_def distinct_map_filter)

lemma mwf_mdel [simp, map_simps]: "mwf m \<Longrightarrow> mwf (mdel k m)"
  by (simp add: mdel_def)

lemma mwf_mkeep [simp, map_simps]: "mwf m \<Longrightarrow> mwf (mkeep P m)"
  by (simp add: mkeep_def)

lemma mwf_mput [simp, map_simps]: "mwf m \<Longrightarrow> mwf (mput k v m)"
  by (auto simp: mput_def mwf_def mdel_def distinct_map_filter)

lemma in_set_mwf: "mwf m \<Longrightarrow> (k, v) \<in> set m \<longleftrightarrow> map_of m k = Some v"
  by (simp add: mwf_def)

lemma map_of_mkeep [simp, map_simps]:
  "mwf m \<Longrightarrow> map_of (mkeep P m) x =
     (case map_of m x of None \<Rightarrow> None | Some v \<Rightarrow> if P x v then Some v else None)"
proof (induction m)
  case Nil
  then show ?case by (simp add: mkeep_def)
next
  case (Cons p m)
  obtain k v where p: "p = (k, v)" by (cases p)
  from Cons.prems p have "k \<notin> fst ` set m" and wf: "mwf m"
    by (auto simp: mwf_def)
  then have "map_of m k = None"
    by (simp add: map_of_eq_None_iff)
  with Cons.IH [OF wf] p show ?case
    by (auto simp: mkeep_def split: option.splits)
qed

lemma set_mdel [simp]: "set (mdel k m) = {p \<in> set m. fst p \<noteq> k}"
  by (simp add: mdel_def)

lemma set_mput: "set (mput k v m) = insert (k, v) {p \<in> set m. fst p \<noteq> k}"
  by (simp add: mput_def)

lemma mdel_absent: "map_of m k = None \<Longrightarrow> mdel k m = m"
  by (induction m) (auto simp: mdel_def split: if_splits)

lemma length_mdel_present:
  assumes "mwf m" and "map_of m k = Some v"
  shows "Suc (length (mdel k m)) = length m"
  using assms
proof (induction m)
  case Nil
  then show ?case by simp
next
  case (Cons p m)
  obtain a b where p: "p = (a, b)" by (cases p)
  from Cons.prems p have nin: "a \<notin> fst ` set m" and wf: "mwf m"
    by (auto simp: mwf_def)
  show ?case
  proof (cases "a = k")
    case True
    with nin have "mdel k m = m"
      by (intro mdel_absent) (simp add: map_of_eq_None_iff)
    with True p show ?thesis by (simp add: mdel_def)
  next
    case False
    with Cons p wf show ?thesis by (simp add: mdel_def)
  qed
qed

lemma length_mput:
  "mwf m \<Longrightarrow> length (mput k v m) = (if map_of m k = None then Suc (length m) else length m)"
  by (auto simp: mput_def mdel_absent length_mdel_present)

lemma filter_mdel_count:
  "mwf m \<Longrightarrow> map_of m k = Some v \<Longrightarrow>
     length (filter P m) = length (filter P (mdel k m)) + (if P (k, v) then 1 else 0)"
proof (induction m)
  case Nil
  then show ?case by simp
next
  case (Cons p m)
  obtain a b where p: "p = (a, b)" by (cases p)
  from Cons.prems p have nin: "a \<notin> fst ` set m" and wf: "mwf m"
    by (auto simp: mwf_def)
  show ?case
  proof (cases "a = k")
    case True
    with nin have "mdel k m = m"
      by (intro mdel_absent) (simp add: map_of_eq_None_iff)
    with True p Cons.prems show ?thesis by (simp add: mdel_def)
  next
    case False
    with Cons p wf show ?thesis by (auto simp: mdel_def)
  qed
qed

subsection \<open>Bytes, strings and 16-bit lengths\<close>

type_synonym byte = "8 word"

definition byte_of_char :: "char \<Rightarrow> byte" where
  "byte_of_char c = word_of_nat (of_char c)"

definition char_of_byte :: "byte \<Rightarrow> char" where
  "char_of_byte b = char_of (unat b)"

definition bytes :: "string \<Rightarrow> byte list" where
  "bytes s = map byte_of_char s"

definition str :: "byte list \<Rightarrow> string" where
  "str bs = map char_of_byte bs"

lemma unat_word8_of_nat: "n < 256 \<Longrightarrow> unat (word_of_nat n :: byte) = n"
  by (simp add: unat_of_nat take_bit_nat_eq_self)

lemma unat_word16_of_nat: "n < 65536 \<Longrightarrow> unat (word_of_nat n :: 16 word) = n"
  by (simp add: unat_of_nat take_bit_nat_eq_self)

lemma char_of_byte_of_char [simp]: "char_of_byte (byte_of_char c) = c"
proof -
  have "unat (word_of_nat (of_char c) :: byte) = of_char c"
    by (rule unat_word8_of_nat) simp
  then show ?thesis by (simp add: char_of_byte_def byte_of_char_def)
qed

lemma byte_of_char_of_byte [simp]: "byte_of_char (char_of_byte b) = b"
proof -
  have "unat b < 256"
    using unsigned_less [of b, where ?'a = nat] by simp
  then show ?thesis by (simp add: char_of_byte_def byte_of_char_def)
qed

lemma str_bytes [simp]: "str (bytes s) = s"
  by (simp add: str_def bytes_def comp_def)

lemma bytes_str [simp]: "bytes (str bs) = bs"
  by (simp add: str_def bytes_def comp_def)

lemma length_bytes [simp]: "length (bytes s) = length s"
  by (simp add: bytes_def)

lemma length_str [simp]: "length (str bs) = length bs"
  by (simp add: str_def)

lemma bytes_eq_iff [simp]: "bytes s = bytes t \<longleftrightarrow> s = t"
  by (metis str_bytes)

lemma str_eq_iff [simp]: "str a = str b \<longleftrightarrow> a = b"
  by (metis bytes_str)

lemma bytes_Nil [simp]: "bytes [] = []" and str_Nil [simp]: "str [] = []"
  by (simp_all add: bytes_def str_def)

lemma bytes_take [simp]: "bytes (take n s) = take n (bytes s)"
  by (simp add: bytes_def take_map)

text \<open>\<^verbatim>\<open>byte(n)\<close> and \<^verbatim>\<open>uint16(n)\<close> keep the low bits of a length; \<^verbatim>\<open>binary.BigEndian\<close> stores a
  \<^verbatim>\<open>uint16\<close> high byte first.\<close>

definition PutUint16 :: "16 word \<Rightarrow> byte list" where
  "PutUint16 v = [ucast (drop_bit 8 v), ucast v]"

definition Uint16 :: "byte \<Rightarrow> byte \<Rightarrow> 16 word" where
  "Uint16 hi lo = or (push_bit 8 (ucast hi)) (ucast lo)"

lemma length_PutUint16 [simp]: "length (PutUint16 v) = 2"
  by (simp add: PutUint16_def)

lemma Uint16_PutUint16 [simp, wire_simps]: "Uint16 (PutUint16 v ! 0) (PutUint16 v ! Suc 0) = v"
  by (rule bit_word_eqI)
    (auto simp: Uint16_def PutUint16_def bit_or_iff bit_push_bit_iff bit_ucast_iff bit_drop_bit_eq)

lemma PutUint16_Uint16 [simp, wire_simps]: "PutUint16 (Uint16 hi lo) = [hi, lo]"
proof -
  have "ucast (drop_bit 8 (Uint16 hi lo)) = hi"
    by (rule bit_word_eqI)
      (auto simp: Uint16_def bit_or_iff bit_push_bit_iff bit_ucast_iff bit_drop_bit_eq
        dest: bit_imp_le_length)
  moreover have "ucast (Uint16 hi lo) = lo"
    by (rule bit_word_eqI)
      (auto simp: Uint16_def bit_or_iff bit_push_bit_iff bit_ucast_iff)
  ultimately show ?thesis by (simp add: PutUint16_def)
qed

subsection \<open>Lists and options\<close>

lemma map_of_Some_mem: "map_of m k = Some v \<Longrightarrow> (k, v) \<in> set m"
  by (rule map_of_SomeD)

lemma take_eq_self_append [simp]: "take (length xs) (xs @ ys) = xs"
  by simp

lemma find_append: "find P (xs @ ys) = (case find P xs of Some x \<Rightarrow> Some x | None \<Rightarrow> find P ys)"
  by (induction xs) auto

lemma sum_list_filter_partition:
  fixes f :: "'a \<Rightarrow> nat"
  shows "sum_list (map f (filter P xs)) + sum_list (map f (filter (\<lambda>x. \<not> P x) xs)) =
     sum_list (map f xs)"
  by (induction xs) auto

subsection \<open>Reachability\<close>

inductive reach :: "('s \<Rightarrow> bool) \<Rightarrow> ('s \<Rightarrow> 's \<Rightarrow> bool) \<Rightarrow> 's \<Rightarrow> bool"
  for ini :: "'s \<Rightarrow> bool" and step :: "'s \<Rightarrow> 's \<Rightarrow> bool" where
  reach_init: "ini s \<Longrightarrow> reach ini step s"
| reach_step: "reach ini step s \<Longrightarrow> step s t \<Longrightarrow> reach ini step t"

lemma reach_invariant:
  assumes "reach ini step s"
    and "\<And>s. ini s \<Longrightarrow> I s"
    and "\<And>s t. reach ini step s \<Longrightarrow> I s \<Longrightarrow> step s t \<Longrightarrow> I t"
  shows "I s"
  using assms(1) by (induction rule: reach.induct) (auto intro: assms(2,3))

subsection \<open>Tables whose entries expire\<close>

text \<open>Several components sweep a map and delete the entries that are too old. The contract: the sweep
  keeps exactly the live entries, unchanged, and reports how many it removed; an entry once expired
  stays expired.\<close>

locale expiring_table =
  fixes expired :: "int \<Rightarrow> 'v \<Rightarrow> bool"
    and sweep :: "int \<Rightarrow> ('k, 'v) gomap \<Rightarrow> nat \<times> ('k, 'v) gomap"
  assumes sweep_lookup: "mwf m \<Longrightarrow> map_of (snd (sweep now m)) k =
      (case map_of m k of None \<Rightarrow> None | Some v \<Rightarrow> if expired now v then None else Some v)"
    and sweep_wf: "mwf m \<Longrightarrow> mwf (snd (sweep now m))"
    and sweep_count: "mwf m \<Longrightarrow> fst (sweep now m) + length (snd (sweep now m)) = length m"
    and expired_mono: "expired now v \<Longrightarrow> now \<le> now' \<Longrightarrow> expired now' v"
begin

lemma live_kept: "mwf m \<Longrightarrow> map_of m k = Some v \<Longrightarrow> \<not> expired now v \<Longrightarrow> map_of (snd (sweep now m)) k = Some v"
  by (simp add: sweep_lookup)

lemma none_expired: "mwf m \<Longrightarrow> map_of (snd (sweep now m)) k = Some v \<Longrightarrow> \<not> expired now v \<and> map_of m k = Some v"
  by (auto simp: sweep_lookup split: option.splits if_splits)

lemma absorb:
  assumes "mwf m" and "now \<le> now'"
  shows "map_of (snd (sweep now' (snd (sweep now m)))) = map_of (snd (sweep now' m))"
  using assms expired_mono by (auto simp: sweep_lookup sweep_wf fun_eq_iff split: option.splits)

lemma sweep_again:
  assumes "mwf m"
  shows "fst (sweep now (snd (sweep now m))) = 0"
proof -
  let ?m = "snd (sweep now m)" and ?n = "snd (sweep now (snd (sweep now m)))"
  have wf: "mwf ?m" "mwf ?n"
    using assms by (simp_all add: sweep_wf)
  have "map_of ?n = map_of ?m"
    using absorb [OF assms order_refl, of now] .
  then have "set ?n = set ?m"
    using in_set_mwf [OF wf(1)] in_set_mwf [OF wf(2)] by auto
  moreover have "distinct ?m" "distinct ?n"
    using wf by (simp_all add: mwf_def distinct_map)
  ultimately have "length ?n = length ?m"
    by (metis distinct_card)
  with sweep_count [OF wf(1), of now] show ?thesis by simp
qed

end

lemma sweep_mkeep_count: "length (filter (\<lambda>p. Q (snd p)) m) + length (mkeep (\<lambda>k v. \<not> Q v) m) = length m"
  unfolding mkeep_def using sum_length_filter_compl [of "\<lambda>p. Q (snd p)" m] by simp

end
