(* ===== verification/TE_Errs.thy ===== *)
theory TE_Errs
  imports TE_Prelude
begin

text \<open>
  The error values of \<^verbatim>\<open>src/pkg/errs/errors.go\<close>, the other error values the program creates or
  inspects, and the result type of every fallible operation of the development.

  \<open>CodedErr\<close> is \<^verbatim>\<open>*errs.Error\<close>; \<open>WrapErr\<close> is \<^verbatim>\<open>fmt.Errorf("text: %w", err)\<close>; \<open>PlainErr\<close> is
  \<^verbatim>\<open>errors.New\<close> and \<^verbatim>\<open>fmt.Errorf\<close> without \<^verbatim>\<open>%w\<close>; \<open>StatusErr\<close> is a gRPC status; \<open>NetErr\<close> is a
  \<^verbatim>\<open>net.Error\<close> with its \<^verbatim>\<open>Timeout()\<close> and \<^verbatim>\<open>Temporary()\<close> answers. A message keeps the constant text of
  the source's format string; the formatted arguments are left out.
\<close>

datatype Code =
    CodeUnknown | CodeNotFound | CodeAlreadyExists | CodeUnauthorized | CodeForbidden
  | CodeTimeout | CodeUnavailable | CodeInternal | CodeCanceled | CodeDeadline
  | CodeInvalidArg | CodeConnectionLost

fun code_string :: "Code \<Rightarrow> string" where
  "code_string CodeUnknown = ''UNKNOWN''"
| "code_string CodeNotFound = ''NOT_FOUND''"
| "code_string CodeAlreadyExists = ''ALREADY_EXISTS''"
| "code_string CodeUnauthorized = ''UNAUTHORIZED''"
| "code_string CodeForbidden = ''FORBIDDEN''"
| "code_string CodeTimeout = ''TIMEOUT''"
| "code_string CodeUnavailable = ''UNAVAILABLE''"
| "code_string CodeInternal = ''INTERNAL''"
| "code_string CodeCanceled = ''CANCELED''"
| "code_string CodeDeadline = ''DEADLINE_EXCEEDED''"
| "code_string CodeInvalidArg = ''INVALID_ARGUMENT''"
| "code_string CodeConnectionLost = ''CONNECTION_LOST''"

datatype GrpcCode =
    GInvalidArgument | GNotFound | GAlreadyExists | GInternal | GUnauthenticated
  | GResourceExhausted | GUnavailable

datatype goerror =
    CodedErr Code string "goerror option"
  | WrapErr string goerror
  | PlainErr string
  | StatusErr GrpcCode string
  | NetErr bool bool
  | EOF | ErrUnexpectedEOF | ErrShortWrite | ErrBackpressure
  | CtxCanceled | CtxDeadline | NetClosed
  | ForeignErr nat

abbreviation NetTimeout :: goerror where
  "NetTimeout \<equiv> NetErr True True"

definition New :: "Code \<Rightarrow> string \<Rightarrow> goerror" where
  "New code message = CodedErr code message None"

definition Wrap :: "Code \<Rightarrow> string \<Rightarrow> goerror \<Rightarrow> goerror" where
  "Wrap code message cause = CodedErr code message (Some cause)"

text \<open>\<open>Unwrap\<close> is the value of the \<^verbatim>\<open>Unwrap\<close> method, where the error has one.\<close>

fun Unwrap :: "goerror \<Rightarrow> goerror option" where
  "Unwrap (CodedErr c m cause) = cause"
| "Unwrap (WrapErr m e) = Some e"
| "Unwrap e = None"

fun GetCode :: "goerror \<Rightarrow> Code" where
  "GetCode (CodedErr c m cause) = c"
| "GetCode (WrapErr m e) = GetCode e"
| "GetCode e = CodeUnknown"

definition IsNotFound :: "goerror \<Rightarrow> bool" where
  "IsNotFound e \<longleftrightarrow> GetCode e = CodeNotFound"

definition IsUnauthorized :: "goerror \<Rightarrow> bool" where
  "IsUnauthorized e \<longleftrightarrow> GetCode e = CodeUnauthorized"

fun IsTemporary :: "goerror \<Rightarrow> bool" where
  "IsTemporary (NetErr timeout temporary) = temporary"
| "IsTemporary CtxDeadline = True"
| "IsTemporary e = False"

subsection \<open>Results\<close>

text \<open>A call returns a value, returns an error, or panics. \<open>rbind\<close> is sequencing with the early
  return \<^verbatim>\<open>if err != nil { return ..., err }\<close>.\<close>

datatype 'a result = Ok 'a | Err goerror | Panic

fun rbind :: "'a result \<Rightarrow> ('a \<Rightarrow> 'b result) \<Rightarrow> 'b result" where
  "rbind (Ok a) f = f a"
| "rbind (Err e) f = Err e"
| "rbind Panic f = Panic"

fun is_ok :: "'a result \<Rightarrow> bool" where
  "is_ok (Ok a) = True"
| "is_ok r = False"

lemma rbind_eq_Ok_iff: "rbind r f = Ok b \<longleftrightarrow> (\<exists>a. r = Ok a \<and> f a = Ok b)"
  by (cases r) auto

lemma rbind_eq_Panic_iff: "rbind r f = Panic \<longleftrightarrow> r = Panic \<or> (\<exists>a. r = Ok a \<and> f a = Panic)"
  by (cases r) auto

lemma rbind_assoc: "rbind (rbind r f) g = rbind r (\<lambda>a. rbind (f a) g)"
  by (cases r) auto

lemma GetCode_simps [simp]: "GetCode (New c m) = c" "GetCode (Wrap c m e) = c"
  by (simp_all add: New_def Wrap_def)

text \<open>The code survives any chain of \<^verbatim>\<open>%w\<close> wrappings.\<close>

lemma GetCode_foldr_wrap: "GetCode (foldr WrapErr ms e) = GetCode e"
  by (induction ms) auto

end
