(* ===== verification/TE_Domain.thy ===== *)
theory TE_Domain
  imports TE_Errs
begin

text \<open>
  The data of \<^verbatim>\<open>src/internal/domain\<close>: tunnel identifiers and routes, sessions, relays, leases,
  health reports, registry events, agent profiles, ACL rules, and the validation functions of
  \<^verbatim>\<open>validate.go\<close> with the two regular expressions they use.
\<close>

type_synonym time = int
type_synonym duration = int

subsection \<open>Tunnels (tunnel.go)\<close>

definition NewTunnelID :: "string \<Rightarrow> string" where
  "NewTunnelID agentID = ''t-'' @ agentID"

definition TunnelID_AgentID :: "string \<Rightarrow> string" where
  "TunnelID_AgentID tid = (if length tid > 2 \<and> take 2 tid = ''t-'' then drop 2 tid else tid)"

record TunnelRoute =
  rt_Label :: string
  rt_LocalAddr :: string
  rt_TunnelType :: string

record ActiveTunnel =
  at_ID :: string
  at_AgentID :: string
  at_Routes :: "TunnelRoute list"
  at_PublicHosts :: "(string, string) gomap"
  at_CreatedAt :: time

definition NewActiveTunnel :: "time \<Rightarrow> string \<Rightarrow> TunnelRoute list \<Rightarrow> ActiveTunnel" where
  "NewActiveTunnel now agentID routes =
     \<lparr> at_ID = NewTunnelID agentID, at_AgentID = agentID, at_Routes = routes,
       at_PublicHosts = [], at_CreatedAt = now \<rparr>"

definition RouteMap :: "ActiveTunnel \<Rightarrow> (string, string) gomap" where
  "RouteMap t = fold (\<lambda>r m. mput (rt_Label r) (rt_LocalAddr r) m) (at_Routes t) []"

subsection \<open>Sessions (session.go)\<close>

record Session =
  ss_TunnelID :: string
  ss_AgentID :: string
  ss_OwnerRelayID :: string
  ss_LeaseID :: string
  ss_PublicAddr :: string
  ss_LocalAddr :: string
  ss_RemoteAddr :: string
  ss_CreatedAt :: time
  ss_LastHeartbeat :: time
  ss_ResumeToken :: string
  ss_ResumeDeadline :: "time option"

text \<open>The zero value of \<^verbatim>\<open>time.Time\<close> is the first of January of year 1, in nanoseconds before the
  Unix epoch.\<close>

definition zero_time :: time where
  "zero_time = - 62135596800 * 1000000000"

definition Unix :: "time \<Rightarrow> int" where
  "Unix t = t div 1000000000"

definition NewSession :: "time \<Rightarrow> string \<Rightarrow> string \<Rightarrow> string \<Rightarrow> Session" where
  "NewSession now tunnelID agentID localAddr =
     \<lparr> ss_TunnelID = tunnelID, ss_AgentID = agentID, ss_OwnerRelayID = [], ss_LeaseID = [],
       ss_PublicAddr = [], ss_LocalAddr = localAddr, ss_RemoteAddr = [], ss_CreatedAt = now,
       ss_LastHeartbeat = now, ss_ResumeToken = [], ss_ResumeDeadline = None \<rparr>"

definition IsExpired :: "time \<Rightarrow> duration \<Rightarrow> Session \<Rightarrow> bool" where
  "IsExpired now ttl s \<longleftrightarrow> now - ss_LastHeartbeat s > ttl"

definition Touch :: "time \<Rightarrow> Session \<Rightarrow> Session" where
  "Touch now s = s\<lparr>ss_LastHeartbeat := now\<rparr>"

subsection \<open>Relays, leases, health and events (registry.go)\<close>

datatype RegistryEventType =
    RegistryEventUnknown | RegistryEventTunnelUpserted | RegistryEventTunnelDeleted
  | RegistryEventLeaseAcquired | RegistryEventLeaseReleased | RegistryEventRelayUpserted
  | RegistryEventRelayHealthUpdated

record WatchOptions =
  wo_TunnelID :: string
  wo_RelayID :: string
  wo_IncludeExisting :: bool

record RelayInfo =
  ri_RelayID :: string
  ri_AdvertiseAddr :: string
  ri_State :: string
  ri_ActiveTunnels :: int
  ri_ActiveStreams :: int
  ri_LastSeen :: time
  ri_Region :: string

record Lease =
  le_LeaseID :: string
  le_TunnelID :: string
  le_RelayID :: string
  le_ExpiresAt :: time
  le_Version :: int

record LeaseRequest =
  lr_TunnelID :: string
  lr_RelayID :: string
  lr_TTL :: duration

record RelayHealth =
  rh_AdvertiseAddr :: string
  rh_RTTMillis :: int
  rh_HeartbeatLatencyMillis :: int
  rh_ActiveTunnels :: int
  rh_ActiveStreams :: int
  rh_BytesPerSecond :: int
  rh_PacketLossPct :: real
  rh_CPUUtilizationPct :: real
  rh_MemoryUtilizationPct :: real
  rh_RecordedAt :: time
  rh_Region :: string

record RegistryEvent =
  ev_Type :: RegistryEventType
  ev_Tunnel :: "Session option"
  ev_Lease :: "Lease option"
  ev_Relay :: "RelayInfo option"
  ev_Health :: "RelayHealth option"

subsection \<open>Agents and access rules (user.go)\<close>

record AgentProfile =
  ap_ID :: nat
  ap_UserID :: nat
  ap_Name :: string
  ap_AgentID :: string
  ap_TokenHash :: string
  ap_Scopes :: "string list"
  ap_TokenExpiresAt :: "time option"
  ap_LastUsedAt :: "time option"
  ap_FailedAuthCount :: int
  ap_LockedUntil :: "time option"
  ap_CreatedAt :: time
  ap_UpdatedAt :: time

record TunnelACL =
  acl_ID :: nat
  acl_TunnelID :: string
  acl_ACLType :: string
  acl_CIDR :: string
  acl_CreatedAt :: time

subsection \<open>Regular expressions and validation (validate.go)\<close>

text \<open>The fragment of RE2 the two patterns use: a character class with a repetition range
  (\<open>None\<close> is no upper bound), concatenation and the optional group. \<open>re_prefixes\<close> returns every
  way to split the input into a matched prefix and the rest, so an anchored match is one that
  leaves nothing.\<close>

datatype regex = Class "char \<Rightarrow> bool" nat "nat option" | Cat regex regex | Opt regex

fun class_rests :: "(char \<Rightarrow> bool) \<Rightarrow> nat \<Rightarrow> nat option \<Rightarrow> string \<Rightarrow> string list" where
  "class_rests P lo hi [] = (if lo = 0 then [[]] else [])"
| "class_rests P lo hi (c # cs) =
     (if lo = 0 then [c # cs] else []) @
     (if P c \<and> hi \<noteq> Some 0 then class_rests P (lo - 1) (map_option (\<lambda>h. h - 1) hi) cs else [])"

fun re_rests :: "regex \<Rightarrow> string \<Rightarrow> string list" where
  "re_rests (Class P lo hi) s = class_rests P lo hi s"
| "re_rests (Cat a b) s = concat (map (re_rests b) (re_rests a s))"
| "re_rests (Opt a) s = re_rests a s @ [s]"

definition MatchString :: "regex \<Rightarrow> string \<Rightarrow> bool" where
  "MatchString r s \<longleftrightarrow> [] \<in> set (re_rests r s)"

definition in_range :: "char \<Rightarrow> char \<Rightarrow> char \<Rightarrow> bool" where
  "in_range a z c \<longleftrightarrow> (of_char a :: nat) \<le> of_char c \<and> (of_char c :: nat) \<le> of_char z"

definition label_char :: "char \<Rightarrow> bool" where
  "label_char c \<longleftrightarrow> in_range (CHR ''a'') (CHR ''z'') c \<or> in_range (CHR ''0'') (CHR ''9'') c"

definition labelRegexp :: regex where
  "labelRegexp = Cat (Class label_char 1 (Some 1))
     (Opt (Cat (Class (\<lambda>c. label_char c \<or> c = CHR ''-'') 0 (Some 62)) (Class label_char 1 (Some 1))))"

definition alpha_char :: "char \<Rightarrow> bool" where
  "alpha_char c \<longleftrightarrow> in_range (CHR ''a'') (CHR ''z'') c \<or> in_range (CHR ''A'') (CHR ''Z'') c"

definition host_char :: "char \<Rightarrow> bool" where
  "host_char c \<longleftrightarrow> alpha_char c \<or> in_range (CHR ''0'') (CHR ''9'') c \<or> c \<in> set ''.-''"

definition mailbox_char :: "char \<Rightarrow> bool" where
  "mailbox_char c \<longleftrightarrow> alpha_char c \<or> in_range (CHR ''0'') (CHR ''9'') c \<or> c \<in> set ''._%+-''"

definition emailRegexp :: regex where
  "emailRegexp = Cat (Class mailbox_char 1 None)
     (Cat (Class (\<lambda>c. c = CHR ''@'') 1 (Some 1))
     (Cat (Class host_char 1 None)
     (Cat (Class (\<lambda>c. c = CHR ''.'') 1 (Some 1)) (Class alpha_char 2 None))))"

definition ValidateLabel :: "string \<Rightarrow> unit result" where
  "ValidateLabel label =
     (if label = [] then Err (New CodeInvalidArg ''label cannot be empty'')
      else if length label > 64 then Err (New CodeInvalidArg ''label too long'')
      else if \<not> MatchString labelRegexp label
        then Err (New CodeInvalidArg ''label is not a valid DNS-safe name'')
      else Ok ())"

definition ValidateLocalAddr :: "string \<Rightarrow> unit result" where
  "ValidateLocalAddr addr =
     (if addr = [] then Err (New CodeInvalidArg ''local_addr cannot be empty'')
      else if length addr > 256 then Err (New CodeInvalidArg ''local_addr too long'')
      else Ok ())"

definition ValidateEmail :: "string \<Rightarrow> unit result" where
  "ValidateEmail email =
     (if email = [] then Err (New CodeInvalidArg ''email cannot be empty'')
      else if length email > 254 then Err (New CodeInvalidArg ''email too long (max 254 chars)'')
      else if \<not> MatchString emailRegexp email
        then Err (New CodeInvalidArg ''email is not a valid address'')
      else Ok ())"

subsection \<open>Lemmas\<close>

lemma TunnelID_AgentID_NewTunnelID: "a \<noteq> [] \<Longrightarrow> TunnelID_AgentID (NewTunnelID a) = a"
  by (cases a) (auto simp: TunnelID_AgentID_def NewTunnelID_def)

lemma NewTunnelID_inject [simp]: "NewTunnelID a = NewTunnelID b \<longleftrightarrow> a = b"
  by (simp add: NewTunnelID_def)

text \<open>\<open>RouteMap\<close> keeps, for each label, the address of its last route.\<close>

lemma RouteMap_fold_lookup:
  "map_of (fold (\<lambda>r m. mput (rt_Label r) (rt_LocalAddr r) m) rs m) l =
     (case find (\<lambda>r. rt_Label r = l) (rev rs) of
        Some r \<Rightarrow> Some (rt_LocalAddr r) | None \<Rightarrow> map_of m l)"
proof (induction rs arbitrary: m)
  case Nil
  then show ?case by simp
next
  case (Cons r rs)
  show ?case
    by (auto simp: Cons.IH find_append split: option.splits)
qed

lemma mem_class_rests:
  "r \<in> set (class_rests P lo hi s) \<longleftrightarrow>
     (\<exists>p. s = p @ r \<and> list_all P p \<and> lo \<le> length p \<and> (case hi of None \<Rightarrow> True | Some h \<Rightarrow> length p \<le> h))"
proof (induction P lo hi s rule: class_rests.induct)
  case (1 P lo hi)
  then show ?case by (auto split: option.splits)
next
  case (2 P lo hi c cs)
  have split: "(\<exists>p. c # cs = p @ r \<and> Q p) \<longleftrightarrow> (r = c # cs \<and> Q []) \<or> (\<exists>p. cs = p @ r \<and> Q (c # p))" for Q
    by (auto simp: Cons_eq_append_conv)
  have hi: "(case hi of None \<Rightarrow> True | Some h \<Rightarrow> Suc n \<le> h) \<longleftrightarrow> hi \<noteq> Some 0 \<and>
      (case map_option (\<lambda>h. h - 1) hi of None \<Rightarrow> True | Some h \<Rightarrow> n \<le> h)" for n
    by (cases hi) auto
  show ?case
    unfolding split using 2
    by (simp add: hi le_diff_conv) (cases "P c \<and> hi \<noteq> Some 0", auto split: option.splits)
qed

lemma mem_Class_rests [simp]:
  "r \<in> set (re_rests (Class P lo hi) s) \<longleftrightarrow>
     (\<exists>p. s = p @ r \<and> list_all P p \<and> lo \<le> length p \<and> (case hi of None \<Rightarrow> True | Some h \<Rightarrow> length p \<le> h))"
  by (simp add: mem_class_rests)

lemma MatchString_label:
  "MatchString labelRegexp s \<longleftrightarrow> s \<noteq> [] \<and> length s \<le> 64 \<and> label_char (hd s) \<and> label_char (last s) \<and>
     list_all (\<lambda>c. label_char c \<or> c = CHR ''-'') s" (is "_ \<longleftrightarrow> ?R")
proof
  assume "MatchString labelRegexp s"
  then obtain p r where s: "s = p @ r" and p: "list_all label_char p" "length p = 1"
    and r: "r = [] \<or> (\<exists>q z. r = q @ z \<and> list_all (\<lambda>c. label_char c \<or> c = CHR ''-'') q \<and> length q \<le> 62 \<and>
      list_all label_char z \<and> length z = 1)"
    by (auto simp: MatchString_def labelRegexp_def simp del: re_rests.simps(1)) (metis le_antisym)+
  from p obtain a where a: "p = [a]" "label_char a" by (auto simp: length_Suc_conv)
  from r show ?R
    by (auto simp: s a length_Suc_conv list_all_iff)
next
  assume R: ?R
  show "MatchString labelRegexp s"
  proof (cases "length s = 1")
    case True
    with R obtain a where "s = [a]" "label_char a" by (auto simp: length_Suc_conv)
    then show ?thesis by (simp add: MatchString_def labelRegexp_def)
  next
    case False
    with R have "s = hd s # butlast (tl s) @ [last s]"
      by (cases s) (auto split: if_splits)
    then obtain a q z where s: "s = [a] @ q @ [z]" by auto
    with R have "list_all (\<lambda>c. label_char c \<or> c = CHR ''-'') q" "length q \<le> 62" "label_char a" "label_char z"
      by (simp_all add: list_all_iff)
    then have "q @ [z] \<in> set (re_rests (Class label_char 1 (Some 1)) s)"
      and "[z] \<in> set (re_rests (Class (\<lambda>c. label_char c \<or> c = CHR ''-'') 0 (Some 62)) (q @ [z]))"
      and "[] \<in> set (re_rests (Class label_char 1 (Some 1)) [z])"
      unfolding s mem_Class_rests by auto
    then show ?thesis
      unfolding MatchString_def labelRegexp_def by (auto simp del: mem_Class_rests re_rests.simps(1))
  qed
qed

text \<open>\<^verbatim>\<open>ValidateLabel\<close> accepts exactly the strings of 1 to 64 lower-case letters, digits and hyphens that
  start and end with a letter or digit, which is what the pattern in \<^verbatim>\<open>validate.go\<close> says.\<close>

theorem ValidateLabel_iff:
  "ValidateLabel l = Ok () \<longleftrightarrow> 1 \<le> length l \<and> length l \<le> 64 \<and> label_char (hd l) \<and> label_char (last l) \<and>
     list_all (\<lambda>c. label_char c \<or> c = CHR ''-'') l"
  by (auto simp: ValidateLabel_def MatchString_label Suc_le_eq)

end
