(* ===== verification/TE_Wire.thy ===== *)
theory TE_Wire
  imports TE_Domain
begin

text \<open>
  The standard-library primitives the wire code is written with, and the contract of a frame codec.

  \<^item> \<open>reader\<close> is an \<^verbatim>\<open>io.Reader\<close> as \<^verbatim>\<open>io.ReadFull\<close> sees it: the bytes it will deliver and the error
    it ends with. \<open>ReadFull\<close> returns that error untouched when nothing was read, and turns an EOF
    in the middle into \<open>ErrUnexpectedEOF\<close>.
  \<^item> \<open>writer\<close> is an \<^verbatim>\<open>io.Writer\<close>: the bytes accepted so far, the room left before it fails
    (\<open>None\<close>: never) and the error it fails with.
  \<^item> A frame buffer is filled in place: \<open>set_byte\<close>, \<open>set_u16\<close> and \<open>copy_at\<close> are
    \<^verbatim>\<open>buf[i] = b\<close>, \<^verbatim>\<open>binary.BigEndian.PutUint16(buf[i:i+2], v)\<close> and \<^verbatim>\<open>copy(buf[i:], bs)\<close>, with their
    index panics; \<open>put_byte\<close>, \<open>put_u16\<close>, \<open>put_bytes\<close> do the same at the running offset and
    advance it.
  \<^item> The locale \<open>wire_codec\<close> states what a frame promises (decoding inverts encoding, a decoded
    frame is the encoding of its value, decoding never panics) and derives unique decodability.
\<close>

subsection \<open>Readers\<close>

record reader =
  rd_data :: "byte list"
  rd_err :: goerror

type_synonym 'a parser = "reader \<Rightarrow> ('a \<times> reader) result"

definition ReadFull :: "nat \<Rightarrow> byte list parser" where
  "ReadFull n r =
     (if n \<le> length (rd_data r) then Ok (take n (rd_data r), r\<lparr>rd_data := drop n (rd_data r)\<rparr>)
      else if rd_data r = [] then Err (rd_err r)
      else Err (if rd_err r = EOF then ErrUnexpectedEOF else rd_err r))"

definition preturn :: "'a \<Rightarrow> 'a parser" where
  "preturn a r = Ok (a, r)"

definition pfail :: "goerror \<Rightarrow> 'a parser" where
  "pfail e r = Err e"

definition pbind :: "'a parser \<Rightarrow> ('a \<Rightarrow> 'b parser) \<Rightarrow> 'b parser" where
  "pbind p f r = rbind (p r) (\<lambda>(a, r'). f a r')"

text \<open>\<open>pctx msg p\<close> is \<^verbatim>\<open>if err != nil { return fmt.Errorf("msg: %w", err) }\<close>.\<close>

definition pctx :: "string \<Rightarrow> 'a parser \<Rightarrow> 'a parser" where
  "pctx msg p r = (case p r of Ok x \<Rightarrow> Ok x | Err e \<Rightarrow> Err (WrapErr msg e) | Panic \<Rightarrow> Panic)"

text \<open>\<open>preplicate n p\<close> is the loop \<^verbatim>\<open>for i := 0; i < n; i++\<close> that appends what \<open>p\<close> reads.\<close>

fun preplicate :: "nat \<Rightarrow> 'a parser \<Rightarrow> 'a list parser" where
  "preplicate 0 p = preturn []"
| "preplicate (Suc n) p = pbind p (\<lambda>x. pbind (preplicate n p) (\<lambda>xs. preturn (x # xs)))"

text \<open>Two equivalent presentations are used: success as an equation on the whole input, and the
  data an accepting run has consumed.\<close>

definition accepts :: "'a parser \<Rightarrow> byte list \<Rightarrow> 'a \<Rightarrow> bool" where
  "accepts p bs a \<longleftrightarrow> (\<forall>rest e. p \<lparr>rd_data = bs @ rest, rd_err = e\<rparr> = Ok (a, \<lparr>rd_data = rest, rd_err = e\<rparr>))"

definition consumes :: "'a parser \<Rightarrow> ('a \<Rightarrow> byte list \<Rightarrow> bool) \<Rightarrow> bool" where
  "consumes p Q \<longleftrightarrow> (\<forall>r a r'. p r = Ok (a, r') \<longrightarrow>
     (\<exists>bs. rd_data r = bs @ rd_data r' \<and> rd_err r' = rd_err r \<and> Q a bs))"

definition safe :: "'a parser \<Rightarrow> bool" where
  "safe p \<longleftrightarrow> (\<forall>r. p r \<noteq> Panic)"

lemma accepts_return: "accepts (preturn a) [] a"
  by (simp add: accepts_def preturn_def)

lemma accepts_ReadFull: "length bs = n \<Longrightarrow> accepts (ReadFull n) bs bs"
  by (simp add: accepts_def ReadFull_def)

lemma accepts_ctx: "accepts p bs a \<Longrightarrow> accepts (pctx m p) bs a"
  by (simp add: accepts_def pctx_def)

lemma accepts_bind: "accepts p bs a \<Longrightarrow> accepts (f a) cs b \<Longrightarrow> accepts (pbind p f) (bs @ cs) b"
  by (simp add: accepts_def pbind_def)

lemma accepts_bind_eq:
  "accepts p bs a \<Longrightarrow> accepts (f a) cs b \<Longrightarrow> ds = bs @ cs \<Longrightarrow> accepts (pbind p f) ds b"
  by (simp add: accepts_bind)

lemma accepts_bind_iff: "accepts p bs a \<Longrightarrow> accepts (pbind p f) (bs @ cs) b \<longleftrightarrow> accepts (f a) cs b"
  by (simp add: accepts_def pbind_def)

lemma accepts_return_iff [wire_simps]: "accepts (preturn a) [] b \<longleftrightarrow> a = b"
  by (auto simp: accepts_def preturn_def)

lemma accepts_last: "accepts p bs a \<Longrightarrow> g a = b \<Longrightarrow> accepts (pbind p (\<lambda>x. preturn (g x))) bs b"
  using accepts_bind [OF _ accepts_return] by fastforce

lemma accepts_replicate:
  "(\<And>x. x \<in> set xs \<Longrightarrow> accepts p (f x) x) \<Longrightarrow> accepts (preplicate (length xs) p) (concat (map f xs)) xs"
proof (induction xs)
  case Nil
  then show ?case by (simp add: accepts_return)
next
  case (Cons x xs)
  have "accepts p (f x) x" and "accepts (preplicate (length xs) p) (concat (map f xs)) xs"
    using Cons by simp_all
  then have "accepts (pbind (preplicate (length xs) p) (\<lambda>ys. preturn (x # ys))) (concat (map f xs)) (x # xs)"
    using accepts_bind [where cs = "[]"] accepts_return by fastforce
  with \<open>accepts p (f x) x\<close> show ?case
    by (simp add: accepts_bind)
qed

lemma consumesI:
  "(\<And>r a r'. p r = Ok (a, r') \<Longrightarrow> \<exists>bs. rd_data r = bs @ rd_data r' \<and> rd_err r' = rd_err r \<and> Q a bs)
    \<Longrightarrow> consumes p Q"
  by (simp add: consumes_def)

lemma consumes_return: "Q a [] \<Longrightarrow> consumes (preturn a) Q"
  by (simp add: consumes_def preturn_def)

lemma consumes_fail: "consumes (pfail e) Q"
  by (simp add: consumes_def pfail_def)

lemma consumes_ReadFull:
  assumes "\<And>bs. length bs = n \<Longrightarrow> Q bs bs"
  shows "consumes (ReadFull n) Q"
proof (rule consumesI)
  fix r a r'
  assume "ReadFull n r = Ok (a, r')"
  then have "a = take n (rd_data r)" "r' = r\<lparr>rd_data := drop n (rd_data r)\<rparr>" "length a = n"
    by (auto simp: ReadFull_def split: if_splits)
  then show "\<exists>bs. rd_data r = bs @ rd_data r' \<and> rd_err r' = rd_err r \<and> Q a bs"
    using assms [of a] by (intro exI [of _ a]) simp
qed

lemma consumes_ctx: "consumes p Q \<Longrightarrow> consumes (pctx m p) Q"
  by (auto simp: consumes_def pctx_def split: result.splits)

lemma consumes_bind:
  assumes "consumes p R" and "\<And>a bs. R a bs \<Longrightarrow> consumes (f a) (\<lambda>b cs. Q b (bs @ cs))"
  shows "consumes (pbind p f) Q"
proof (rule consumesI)
  fix r b r'
  assume "pbind p f r = Ok (b, r')"
  then obtain a r1 where "p r = Ok (a, r1)" and f: "f a r1 = Ok (b, r')"
    by (auto simp: pbind_def rbind_eq_Ok_iff)
  with assms(1) obtain bs where bs: "rd_data r = bs @ rd_data r1" "rd_err r1 = rd_err r" "R a bs"
    unfolding consumes_def by blast
  from assms(2) [OF bs(3)] f obtain cs where "rd_data r1 = cs @ rd_data r'" "rd_err r' = rd_err r1" "Q b (bs @ cs)"
    unfolding consumes_def by blast
  with bs show "\<exists>bs. rd_data r = bs @ rd_data r' \<and> rd_err r' = rd_err r \<and> Q b bs"
    by auto
qed

lemma list_of_length_3: "length xs = 3 \<Longrightarrow> xs = [xs ! 0, xs ! 1, xs ! 2]"
  by (auto simp: numeral_eq_Suc length_Suc_conv)

lemma list_of_length_4: "length xs = 4 \<Longrightarrow> xs = [xs ! 0, xs ! 1, xs ! 2, xs ! 3]"
  by (auto simp: numeral_eq_Suc length_Suc_conv)

lemma consumes_if: "(c \<Longrightarrow> consumes p Q) \<Longrightarrow> (\<not> c \<Longrightarrow> consumes q Q) \<Longrightarrow> consumes (if c then p else q) Q"
  by simp

lemma consumes_mono: "consumes p R \<Longrightarrow> (\<And>a bs. R a bs \<Longrightarrow> Q a bs) \<Longrightarrow> consumes p Q"
  unfolding consumes_def by blast

lemma consumes_replicate:
  assumes "consumes p (\<lambda>x bs. V x \<and> bs = f x)"
  shows "consumes (preplicate n p) (\<lambda>xs bs. length xs = n \<and> list_all V xs \<and> bs = concat (map f xs))"
proof (induction n)
  case 0
  then show ?case by (simp add: consumes_return)
next
  case (Suc n)
  show ?case
    unfolding preplicate.simps
    by (rule consumes_bind [OF assms], rule consumes_bind [OF Suc], rule consumes_return) simp
qed

lemma safe_return: "safe (preturn a)" and safe_fail: "safe (pfail e)" and safe_ReadFull: "safe (ReadFull n)"
  by (simp_all add: safe_def preturn_def pfail_def ReadFull_def)

lemma safe_ctx: "safe p \<Longrightarrow> safe (pctx m p)"
  by (auto simp: safe_def pctx_def split: result.splits)

lemma safe_bind: "safe p \<Longrightarrow> (\<And>a. safe (f a)) \<Longrightarrow> safe (pbind p f)"
  by (auto simp: safe_def pbind_def rbind_eq_Panic_iff)

lemma safe_if: "safe p \<Longrightarrow> safe q \<Longrightarrow> safe (if c then p else q)"
  by simp

lemma safe_replicate: "safe p \<Longrightarrow> safe (preplicate n p)"
  by (induction n) (auto intro!: safe_bind safe_return)

lemmas safe_intros = safe_return safe_fail safe_ReadFull safe_ctx safe_bind safe_if safe_replicate

subsection \<open>Writers\<close>

record writer =
  wr_out :: "byte list"
  wr_room :: "nat option"
  wr_err :: goerror

definition Write :: "writer \<Rightarrow> byte list \<Rightarrow> unit result \<times> writer" where
  "Write w bs = (case wr_room w of
       None \<Rightarrow> (Ok (), w\<lparr>wr_out := wr_out w @ bs\<rparr>)
     | Some n \<Rightarrow>
         if length bs \<le> n then (Ok (), w\<lparr>wr_out := wr_out w @ bs, wr_room := Some (n - length bs)\<rparr>)
         else (Err (wr_err w), w\<lparr>wr_out := wr_out w @ take n bs, wr_room := Some 0\<rparr>))"

text \<open>\<open>send_frame\<close> is the common end of the encoders: an error or panic while the buffer is built
  leaves the writer alone, a finished buffer goes out in one \<^verbatim>\<open>Write\<close>.\<close>

definition send_frame :: "writer \<Rightarrow> byte list result \<Rightarrow> unit result \<times> writer" where
  "send_frame w frame = (case frame of Ok buf \<Rightarrow> Write w buf | Err e \<Rightarrow> (Err e, w) | Panic \<Rightarrow> (Panic, w))"

lemma send_frame_OkD:
  "send_frame w frame = (Ok (), w') \<Longrightarrow> \<exists>buf. frame = Ok buf \<and> wr_out w' = wr_out w @ buf"
  by (auto simp: send_frame_def Write_def split: result.splits option.splits if_splits)

subsection \<open>Buffers\<close>

definition set_byte :: "nat \<Rightarrow> byte \<Rightarrow> byte list \<Rightarrow> byte list result" where
  "set_byte i b buf = (if i < length buf then Ok (buf[i := b]) else Panic)"

definition copy_at :: "nat \<Rightarrow> byte list \<Rightarrow> byte list \<Rightarrow> byte list result" where
  "copy_at i bs buf =
     (if i \<le> length buf
      then Ok (take i buf @ take (length buf - i) bs @ drop (i + length bs) buf) else Panic)"

definition set_u16 :: "nat \<Rightarrow> 16 word \<Rightarrow> byte list \<Rightarrow> byte list result" where
  "set_u16 i v buf = (if i + 2 \<le> length buf then copy_at i (PutUint16 v) buf else Panic)"

type_synonym cursor = "byte list \<times> nat"

definition put_byte :: "byte \<Rightarrow> cursor \<Rightarrow> cursor result" where
  "put_byte b c = rbind (set_byte (snd c) b (fst c)) (\<lambda>buf. Ok (buf, snd c + 1))"

definition put_u16 :: "16 word \<Rightarrow> cursor \<Rightarrow> cursor result" where
  "put_u16 v c = rbind (set_u16 (snd c) v (fst c)) (\<lambda>buf. Ok (buf, snd c + 2))"

definition put_bytes :: "byte list \<Rightarrow> cursor \<Rightarrow> cursor result" where
  "put_bytes bs c = rbind (copy_at (snd c) bs (fst c)) (\<lambda>buf. Ok (buf, snd c + length bs))"

text \<open>\<open>put_each f xs\<close> is the loop that writes one entry after the other.\<close>

fun put_each :: "('a \<Rightarrow> cursor \<Rightarrow> cursor result) \<Rightarrow> 'a list \<Rightarrow> cursor \<Rightarrow> cursor result" where
  "put_each f [] c = Ok c"
| "put_each f (x # xs) c = rbind (f x c) (put_each f xs)"

text \<open>A buffer in the middle of the work: \<open>pre\<close> is written, \<open>k\<close> zero bytes are left.\<close>

definition fill :: "byte list \<Rightarrow> nat \<Rightarrow> byte list" where
  "fill pre k = pre @ replicate k 0"

definition curs :: "byte list \<Rightarrow> nat \<Rightarrow> cursor" where
  "curs pre k = (fill pre k, length pre)"

definition make_buf :: "nat \<Rightarrow> byte list" where
  "make_buf n = replicate n 0"

lemma make_buf_fill: "make_buf k = fill [] k"
  by (simp add: fill_def make_buf_def)

lemma curs_start: "(make_buf k, 0) = curs [] k"
  by (simp add: curs_def make_buf_fill)

lemma fill_0 [simp]: "fill pre 0 = pre"
  by (simp add: fill_def)

lemma set_byte_fill: "i = length pre \<Longrightarrow> 0 < k \<Longrightarrow> set_byte i b (fill pre k) = Ok (fill (pre @ [b]) (k - 1))"
  by (cases k) (auto simp: set_byte_def fill_def list_update_append)

lemma copy_at_fill: "i = length pre \<Longrightarrow> length bs \<le> k \<Longrightarrow>
    copy_at i bs (fill pre k) = Ok (fill (pre @ bs) (k - length bs))"
  by (auto simp: copy_at_def fill_def)

lemma set_u16_fill: "i = length pre \<Longrightarrow> 2 \<le> k \<Longrightarrow>
    set_u16 i v (fill pre k) = Ok (fill (pre @ PutUint16 v) (k - 2))"
  by (simp add: set_u16_def copy_at_fill) (simp add: fill_def)

lemmas fill_simps = make_buf_fill set_byte_fill copy_at_fill set_u16_fill

lemma put_byte_curs: "0 < k \<Longrightarrow> put_byte b (curs pre k) = Ok (curs (pre @ [b]) (k - 1))"
  by (simp add: put_byte_def curs_def fill_simps)

lemma put_u16_curs: "2 \<le> k \<Longrightarrow> put_u16 v (curs pre k) = Ok (curs (pre @ PutUint16 v) (k - 2))"
  by (simp add: put_u16_def curs_def fill_simps)

lemma put_bytes_curs: "length bs \<le> k \<Longrightarrow> put_bytes bs (curs pre k) = Ok (curs (pre @ bs) (k - length bs))"
  by (simp add: put_bytes_def curs_def fill_simps)

lemmas put_curs = put_byte_curs put_u16_curs put_bytes_curs

lemma put_each_curs:
  assumes "\<And>x pre k. x \<in> set xs \<Longrightarrow> length (g x) \<le> k \<Longrightarrow>
      f x (curs pre k) = Ok (curs (pre @ g x) (k - length (g x)))"
    and "length (concat (map g xs)) \<le> k"
  shows "put_each f xs (curs pre k) = Ok (curs (pre @ concat (map g xs)) (k - length (concat (map g xs))))"
  using assms
proof (induction xs arbitrary: pre k)
  case Nil
  then show ?case by simp
next
  case (Cons x xs)
  from Cons.prems(2) have le: "length (g x) \<le> k" "length (concat (map g xs)) \<le> k - length (g x)"
    by simp_all
  have "put_each f (x # xs) (curs pre k) = put_each f xs (curs (pre @ g x) (k - length (g x)))"
    using Cons.prems(1) [of x] le by simp
  also have "\<dots> = Ok (curs ((pre @ g x) @ concat (map g xs)) (k - length (g x) - length (concat (map g xs))))"
    using Cons.prems(1) le by (intro Cons.IH) auto
  finally show ?case by simp
qed

definition cursor_bytes :: "cursor \<Rightarrow> byte list result" where
  "cursor_bytes c = (if snd c \<le> length (fst c) then Ok (take (snd c) (fst c)) else Panic)"

lemma cursor_bytes_curs [simp]: "cursor_bytes (curs pre k) = Ok pre"
  by (simp add: cursor_bytes_def curs_def fill_def)

lemma fst_curs_0 [simp]: "fst (curs pre 0) = pre"
  by (simp add: curs_def)

text \<open>Reading a slice: \<^verbatim>\<open>data[i]\<close> and \<^verbatim>\<open>data[i:j]\<close>.\<close>

definition go_at :: "byte list \<Rightarrow> nat \<Rightarrow> byte result" where
  "go_at data i = (if i < length data then Ok (data ! i) else Panic)"

definition go_slice :: "byte list \<Rightarrow> nat \<Rightarrow> nat \<Rightarrow> byte list result" where
  "go_slice data i j = (if i \<le> j \<and> j \<le> length data then Ok (take (j - i) (drop i data)) else Panic)"

subsection \<open>The contract of a frame\<close>

locale wire_codec =
  fixes valid :: "'m \<Rightarrow> bool"
    and enc :: "'m \<Rightarrow> byte list"
    and dec :: "'m parser"
  assumes dec_enc: "valid m \<Longrightarrow> accepts dec (enc m) m"
    and enc_dec: "consumes dec (\<lambda>m bs. valid m \<and> bs = enc m)"
    and dec_safe: "safe dec"
begin

lemma roundtrip:
  "valid m \<Longrightarrow> dec \<lparr>rd_data = enc m @ rest, rd_err = e\<rparr> = Ok (m, \<lparr>rd_data = rest, rd_err = e\<rparr>)"
  using dec_enc by (simp add: accepts_def)

lemma canonical:
  "dec r = Ok (m, r') \<Longrightarrow> valid m \<and> rd_data r = enc m @ rd_data r' \<and> rd_err r' = rd_err r"
  using enc_dec unfolding consumes_def by blast

lemma prefix_free:
  assumes "valid m" and "valid n" and "enc m @ xs = enc n @ ys"
  shows "m = n \<and> xs = ys"
proof -
  have "dec \<lparr>rd_data = enc m @ xs, rd_err = EOF\<rparr> = Ok (m, \<lparr>rd_data = xs, rd_err = EOF\<rparr>)"
    using assms(1) by (rule roundtrip)
  moreover have "dec \<lparr>rd_data = enc m @ xs, rd_err = EOF\<rparr> = Ok (n, \<lparr>rd_data = ys, rd_err = EOF\<rparr>)"
    unfolding assms(3) using assms(2) by (rule roundtrip)
  ultimately show ?thesis by simp
qed

lemma enc_inj: "valid m \<Longrightarrow> valid n \<Longrightarrow> enc m = enc n \<Longrightarrow> m = n"
  using prefix_free [of m n "[]" "[]"] by simp

text \<open>A frame cut short anywhere is an error, never another frame.\<close>

lemma truncated:
  assumes "valid m" and "k < length (enc m)"
  shows "\<exists>e'. dec \<lparr>rd_data = take k (enc m), rd_err = e\<rparr> = Err e'"
proof (cases "dec \<lparr>rd_data = take k (enc m), rd_err = e\<rparr>")
  case (Ok p)
  obtain n r' where p: "p = (n, r')" by (cases p)
  from Ok p have n: "valid n" "take k (enc m) = enc n @ rd_data r'"
    using canonical [of "\<lparr>rd_data = take k (enc m), rd_err = e\<rparr>" n r'] by simp_all
  then have "enc m @ [] = enc n @ (rd_data r' @ drop k (enc m))"
    by (metis append_Nil2 append_assoc append_take_drop_id)
  with n(1) assms(1) have "drop k (enc m) = []"
    using prefix_free [of m n "[]" "rd_data r' @ drop k (enc m)"] by (metis append_is_Nil_conv)
  with assms(2) show ?thesis by simp
next
  case (Err e')
  then show ?thesis by blast
next
  case Panic
  then show ?thesis using dec_safe by (simp add: safe_def)
qed

text \<open>A stream of frames is read back frame by frame.\<close>

lemma sequence:
  assumes "list_all valid ms"
  shows "preplicate (length ms) dec \<lparr>rd_data = concat (map enc ms) @ rest, rd_err = e\<rparr> =
     Ok (ms, \<lparr>rd_data = rest, rd_err = e\<rparr>)"
proof -
  have "accepts (preplicate (length ms) dec) (concat (map enc ms)) ms"
    using assms by (intro accepts_replicate dec_enc) (simp add: list_all_iff)
  then show ?thesis by (simp add: accepts_def)
qed

lemma dec_Ok_iff:
  "dec r = Ok (m, r') \<longleftrightarrow> valid m \<and> rd_data r = enc m @ rd_data r' \<and> rd_err r' = rd_err r"
proof
  assume "valid m \<and> rd_data r = enc m @ rd_data r' \<and> rd_err r' = rd_err r"
  then show "dec r = Ok (m, r')"
    using roundtrip [of m "rd_data r'" "rd_err r'"] by (cases r; cases r') simp
qed (rule canonical)

end

end
