(* ===== verification/TE_Transport.thy ===== *)
theory TE_Transport
  imports TE_Wire
begin

text \<open>
  The frames of \<^verbatim>\<open>src/internal/transport/transport.go\<close>. For each frame: the message record, the
  encoder (its buffer arithmetic with the index panics it could have, then one \<^verbatim>\<open>Write\<close>), the
  decoder, the byte layout its comment documents (\<open>..._frame\<close>), and the interpretation of
  \<open>wire_codec\<close>. \<^verbatim>\<open>QUICDial\<close> and \<^verbatim>\<open>QUICListen\<close> only call the QUIC library and are not modelled.
\<close>

definition ProtocolVersion :: "16 word" where "ProtocolVersion = 3"

definition MsgHello :: byte where "MsgHello = 0x00"
definition MsgAuth :: byte where "MsgAuth = 0x01"
definition MsgAuthResponse :: byte where "MsgAuthResponse = 0x02"
definition MsgData :: byte where "MsgData = 0x03"
definition MsgHeartbeat :: byte where "MsgHeartbeat = 0x04"
definition MsgClose :: byte where "MsgClose = 0x05"
definition MsgAuthV2 :: byte where "MsgAuthV2 = 0x06"
definition MsgAuthRespV2 :: byte where "MsgAuthRespV2 = 0x07"
definition MsgStreamLabel :: byte where "MsgStreamLabel = 0x08"
definition MsgSessionResume :: byte where "MsgSessionResume = 0x09"
definition MsgSessionResumeResp :: byte where "MsgSessionResumeResp = 0x0A"
definition MsgUDPDatagram :: byte where "MsgUDPDatagram = 0x0B"

definition AuthStatusOK :: byte where "AuthStatusOK = 0x00"
definition AuthStatusError :: byte where "AuthStatusError = 0x01"
definition AuthStatusVersionError :: byte where "AuthStatusVersionError = 0x02"
definition ResumeStatusResumed :: byte where "ResumeStatusResumed = 0x10"
definition ResumeStatusExpired :: byte where "ResumeStatusExpired = 0x11"
definition ResumeStatusNotFound :: byte where "ResumeStatusNotFound = 0x12"

definition TunnelTypeTCP :: string where "TunnelTypeTCP = ''tcp''"
definition TunnelTypeUDP :: string where "TunnelTypeUDP = ''udp''"

definition maxTokenLen :: nat where "maxTokenLen = 4096"
definition maxTunnelIDLen :: nat where "maxTunnelIDLen = 256"
definition maxPublicURLLen :: nat where "maxPublicURLLen = 512"
definition maxLabelLen :: nat where "maxLabelLen = 64"
definition maxLocalAddrLen :: nat where "maxLocalAddrLen = 256"
definition maxTunnelCount :: nat where "maxTunnelCount = 32"
definition maxVersionLen :: nat where "maxVersionLen = 64"
definition maxResumeTokenLen :: nat where "maxResumeTokenLen = 512"
definition maxRegionLen :: nat where "maxRegionLen = 64"
definition maxSrcAddrLen :: nat where "maxSrcAddrLen = 64"
definition maxUDPPayloadLen :: nat where "maxUDPPayloadLen = 65535"
definition maxSuggestedGWs :: nat where "maxSuggestedGWs = 8"

lemmas max_defs = maxTokenLen_def maxTunnelIDLen_def maxPublicURLLen_def maxLabelLen_def
  maxLocalAddrLen_def maxTunnelCount_def maxVersionLen_def maxResumeTokenLen_def maxRegionLen_def
  maxSrcAddrLen_def maxUDPPayloadLen_def maxSuggestedGWs_def

lemmas msg_defs = MsgHello_def MsgAuth_def MsgAuthResponse_def MsgData_def MsgHeartbeat_def
  MsgClose_def MsgAuthV2_def MsgAuthRespV2_def MsgStreamLabel_def MsgSessionResume_def
  MsgSessionResumeResp_def MsgUDPDatagram_def

subsection \<open>Reading strings\<close>

text \<open>\<open>read_str\<close> reads a string of known length; \<open>read_opt\<close> skips the read when the length is 0,
  as the decoders do for the optional fields. The length prefixes are one byte or two.\<close>

definition read_str :: "string \<Rightarrow> nat \<Rightarrow> string parser" where
  "read_str msg n = pbind (pctx msg (ReadFull n)) (\<lambda>buf. preturn (str buf))"

definition read_opt :: "string \<Rightarrow> nat \<Rightarrow> string parser" where
  "read_opt msg n = (if n > 0 then read_str msg n else preturn [])"

definition read_len8 :: "string \<Rightarrow> nat parser" where
  "read_len8 msg = pbind (pctx msg (ReadFull 1)) (\<lambda>buf. preturn (unat (buf ! 0)))"

definition read_len16 :: "string \<Rightarrow> nat parser" where
  "read_len16 msg = pbind (pctx msg (ReadFull 2)) (\<lambda>buf. preturn (unat (Uint16 (buf ! 0) (buf ! 1))))"

definition len8 :: "nat \<Rightarrow> byte" where "len8 n = word_of_nat n"
definition len16 :: "nat \<Rightarrow> 16 word" where "len16 n = word_of_nat n"

lemma unat_len8 [simp]: "n < 256 \<Longrightarrow> unat (len8 n) = n"
  by (simp add: len8_def unat_word8_of_nat)

lemma unat_len16 [simp]: "n < 65536 \<Longrightarrow> unat (len16 n) = n"
  by (simp add: len16_def unat_word16_of_nat)

lemma len8_unat [simp]: "len8 (unat w) = w"
  by (simp add: len8_def)

lemma len16_unat [simp]: "len16 (unat w) = w"
  by (simp add: len16_def)

lemma unat_byte_bound: "unat (b :: byte) < 256"
  using unsigned_less [of b, where ?'a = nat] by simp

lemma unat_u16_bound: "unat (b :: 16 word) < 65536"
  using unsigned_less [of b, where ?'a = nat] by simp

lemma accepts_read_str: "length s = n \<Longrightarrow> accepts (read_str m n) (bytes s) s"
  unfolding read_str_def
  by (rule accepts_bind_eq [OF accepts_ctx [OF accepts_ReadFull [of "bytes s"]], where cs = "[]"])
    (use accepts_return [of s] in simp_all)

lemma accepts_read_opt: "length s = n \<Longrightarrow> accepts (read_opt m n) (bytes s) s"
  using accepts_return [of s] by (cases s) (simp_all add: read_opt_def accepts_read_str)

lemma accepts_read_len8: "n < 256 \<Longrightarrow> accepts (read_len8 m) [len8 n] n"
  unfolding read_len8_def
  by (rule accepts_bind_eq [OF accepts_ctx [OF accepts_ReadFull], where cs = "[]"])
    (use accepts_return [of n] in simp_all)

lemma accepts_read_len16: "n < 65536 \<Longrightarrow> accepts (read_len16 m) (PutUint16 (len16 n)) n"
  unfolding read_len16_def
  by (rule accepts_bind_eq [OF accepts_ctx [OF accepts_ReadFull], where cs = "[]"])
    (use accepts_return [of n] in simp_all)

lemma consumes_read_str: "consumes (read_str m n) (\<lambda>s bs. length s = n \<and> bs = bytes s)"
  unfolding read_str_def
  by (rule consumes_bind [OF consumes_ctx [OF consumes_ReadFull [where Q = "\<lambda>b bs. b = bs \<and> length b = n"]]])
    (auto intro: consumes_return)

lemma consumes_read_opt: "consumes (read_opt m n) (\<lambda>s bs. length s = n \<and> bs = bytes s)"
  by (auto simp: read_opt_def consumes_read_str intro: consumes_return)

lemma consumes_read_len8: "consumes (read_len8 m) (\<lambda>n bs. n < 256 \<and> bs = [len8 n])"
  unfolding read_len8_def
  by (rule consumes_bind [OF consumes_ctx [OF consumes_ReadFull [where Q = "\<lambda>b bs. b = bs \<and> length b = 1"]]])
    (auto intro!: consumes_return simp: unat_byte_bound length_Suc_conv)

lemma consumes_read_len16: "consumes (read_len16 m) (\<lambda>n bs. n < 65536 \<and> bs = PutUint16 (len16 n))"
  unfolding read_len16_def
  by (rule consumes_bind [OF consumes_ctx [OF consumes_ReadFull [where Q = "\<lambda>b bs. b = bs \<and> length b = 2"]]])
    (auto intro!: consumes_return simp: unat_u16_bound length_Suc_conv numeral_2_eq_2)

lemma safe_reads: "safe (read_str m n)" "safe (read_opt m n)" "safe (read_len8 m)" "safe (read_len16 m)"
  by (auto simp: read_str_def read_opt_def read_len8_def read_len16_def intro!: safe_intros)

text \<open>A header of fixed size read in one go.\<close>

lemma consumes_header:
  "consumes (pctx m (ReadFull n)) (\<lambda>b bs. b = bs \<and> length b = n)"
  by (rule consumes_ctx, rule consumes_ReadFull) simp

lemma accepts_header: "length bs = n \<Longrightarrow> accepts (pctx m (ReadFull n)) bs bs"
  by (rule accepts_ctx, rule accepts_ReadFull)

text \<open>Evaluating a decoder on the bytes of a frame, field by field.\<close>

lemma acc_str [wire_simps]:
  "length s = n \<Longrightarrow> accepts (pbind (read_str m n) f) (bytes s @ cs) b \<longleftrightarrow> accepts (f s) cs b"
  "length s = n \<Longrightarrow> accepts (pbind (read_str m n) f) (bytes s) b \<longleftrightarrow> accepts (f s) [] b"
  using accepts_bind_iff [OF accepts_read_str, of s n m f cs b]
    accepts_bind_iff [OF accepts_read_str, of s n m f "[]" b] by simp_all

lemma acc_opt [wire_simps]:
  "length s = n \<Longrightarrow> accepts (pbind (read_opt m n) f) (bytes s @ cs) b \<longleftrightarrow> accepts (f s) cs b"
  "length s = n \<Longrightarrow> accepts (pbind (read_opt m n) f) (bytes s) b \<longleftrightarrow> accepts (f s) [] b"
  using accepts_bind_iff [OF accepts_read_opt, of s n m f cs b]
    accepts_bind_iff [OF accepts_read_opt, of s n m f "[]" b] by simp_all

lemma acc_len8 [wire_simps]:
  "n < 256 \<Longrightarrow> accepts (pbind (read_len8 m) f) (len8 n # cs) b \<longleftrightarrow> accepts (f n) cs b"
  using accepts_bind_iff [OF accepts_read_len8, of n m f cs b] by simp

lemma acc_len16 [wire_simps]:
  "n < 65536 \<Longrightarrow> accepts (pbind (read_len16 m) f) (PutUint16 (len16 n) @ cs) b \<longleftrightarrow> accepts (f n) cs b"
  by (rule accepts_bind_iff [OF accepts_read_len16])

lemmas consumes_reads = consumes_read_str consumes_read_opt consumes_read_len8 consumes_read_len16

subsection \<open>Hello\<close>

record HelloMessage =
  hm_Version :: "16 word"
  hm_ClientVersion :: string

definition hello_buf :: "string \<Rightarrow> byte list result" where
  "hello_buf clientVersion =
     (let vb = bytes clientVersion;
          vb = (if length vb > maxVersionLen then take maxVersionLen vb else vb) in
      rbind (set_byte 0 MsgHello (make_buf (5 + length vb))) (\<lambda>buf.
      rbind (set_u16 1 ProtocolVersion buf) (\<lambda>buf.
      rbind (set_u16 3 (len16 (length vb)) buf) (\<lambda>buf.
      copy_at 5 vb buf))))"

definition EncodeHello :: "writer \<Rightarrow> string \<Rightarrow> unit result \<times> writer" where
  "EncodeHello w clientVersion = send_frame w (hello_buf clientVersion)"

definition DecodeHello :: "HelloMessage parser" where
  "DecodeHello =
     pbind (pctx ''failed to read hello frame'' (ReadFull 4)) (\<lambda>header.
     let version = Uint16 (header ! 0) (header ! 1);
         cvLen = unat (Uint16 (header ! 2) (header ! 3)) in
     if cvLen > maxVersionLen then pfail (New CodeInvalidArg ''client version string too long'')
     else pbind (read_opt ''failed to read client version'' cvLen) (\<lambda>cv.
     preturn \<lparr> hm_Version = version, hm_ClientVersion = cv \<rparr>))"

text \<open>The decoder starts after the type byte, which \<^verbatim>\<open>ReadMessageType\<close> has consumed.\<close>

definition hello_valid :: "HelloMessage \<Rightarrow> bool" where
  "hello_valid m \<longleftrightarrow> length (hm_ClientVersion m) \<le> maxVersionLen"

definition hello_body :: "HelloMessage \<Rightarrow> byte list" where
  "hello_body m = PutUint16 (hm_Version m) @ PutUint16 (len16 (length (hm_ClientVersion m))) @
     bytes (hm_ClientVersion m)"

lemma hello_buf_frame:
  "hello_buf v = Ok (MsgHello # hello_body \<lparr> hm_Version = ProtocolVersion, hm_ClientVersion = take maxVersionLen v \<rparr>)"
  by (simp add: hello_buf_def Let_def fill_simps hello_body_def)

interpretation hello_codec: wire_codec hello_valid hello_body DecodeHello
proof unfold_locales
  fix m assume v: "hello_valid m"
  let ?n = "length (hm_ClientVersion m)"
  have len: "?n \<le> maxVersionLen" "?n < 65536"
    using v by (simp_all add: hello_valid_def max_defs)
  then show "accepts DecodeHello (hello_body m) m"
    unfolding DecodeHello_def hello_body_def append_assoc [symmetric]
    by (intro accepts_bind_eq [OF accepts_header _ refl])
      (auto simp: Let_def nth_append intro!: accepts_last accepts_read_opt)
next
  show "consumes DecodeHello (\<lambda>m bs. hello_valid m \<and> bs = hello_body m)"
    unfolding DecodeHello_def Let_def
    by (intro consumes_bind [OF consumes_header] consumes_if consumes_fail
        consumes_bind [OF consumes_read_opt] consumes_return)
      (auto simp: hello_valid_def hello_body_def dest!: list_of_length_4)
next
  show "safe DecodeHello"
    by (auto simp: DecodeHello_def Let_def intro!: safe_intros safe_reads)
qed

subsection \<open>Auth\<close>

record AuthMessage =
  am_Token :: string

definition auth_buf :: "string \<Rightarrow> byte list result" where
  "auth_buf token =
     (if length (bytes token) > maxTokenLen then Err (New CodeInvalidArg ''token too long'')
      else rbind (set_byte 0 MsgAuth (make_buf (3 + length (bytes token)))) (\<lambda>buf.
      rbind (set_u16 1 (len16 (length (bytes token))) buf) (\<lambda>buf.
      copy_at 3 (bytes token) buf)))"

definition EncodeAuth :: "writer \<Rightarrow> string \<Rightarrow> unit result \<times> writer" where
  "EncodeAuth w token = send_frame w (auth_buf token)"

definition DecodeAuth :: "AuthMessage parser" where
  "DecodeAuth =
     pbind (pctx ''failed to read auth header'' (ReadFull 3)) (\<lambda>header.
     if header ! 0 \<noteq> MsgAuth then pfail (New CodeInvalidArg ''expected auth message type 0x01'')
     else let tokenLen = unat (Uint16 (header ! 1) (header ! 2)) in
     if tokenLen > maxTokenLen then pfail (New CodeInvalidArg ''token too long'')
     else pbind (read_str ''failed to read auth token'' tokenLen) (\<lambda>token.
     preturn \<lparr> am_Token = token \<rparr>))"

definition auth_valid :: "AuthMessage \<Rightarrow> bool" where
  "auth_valid m \<longleftrightarrow> length (am_Token m) \<le> maxTokenLen"

definition auth_frame :: "AuthMessage \<Rightarrow> byte list" where
  "auth_frame m = MsgAuth # PutUint16 (len16 (length (am_Token m))) @ bytes (am_Token m)"

lemma auth_buf_frame:
  "auth_buf token = (if auth_valid \<lparr> am_Token = token \<rparr> then Ok (auth_frame \<lparr> am_Token = token \<rparr>)
     else Err (New CodeInvalidArg ''token too long''))"
  by (simp add: auth_buf_def auth_valid_def auth_frame_def fill_simps)

lemma accepts_header_Cons:
  "length (b # bs) = n \<Longrightarrow> accepts (f (b # bs)) cs a \<Longrightarrow>
     accepts (pbind (pctx m (ReadFull n)) f) (b # bs @ cs) a"
  using accepts_bind [OF accepts_header, of "b # bs" n f cs a m] by simp

interpretation auth_codec: wire_codec auth_valid auth_frame DecodeAuth
proof unfold_locales
  fix m assume "auth_valid m"
  then have "length (am_Token m) \<le> maxTokenLen" "length (am_Token m) < 65536"
    by (simp_all add: auth_valid_def max_defs)
  then show "accepts DecodeAuth (auth_frame m) m"
    unfolding DecodeAuth_def auth_frame_def
    by (intro accepts_header_Cons) (auto simp: Let_def intro!: accepts_last accepts_read_str)
next
  show "consumes DecodeAuth (\<lambda>m bs. auth_valid m \<and> bs = auth_frame m)"
    unfolding DecodeAuth_def Let_def
    by (intro consumes_bind [OF consumes_header] consumes_if consumes_fail
        consumes_bind [OF consumes_read_str] consumes_return)
      (auto simp: auth_valid_def auth_frame_def dest!: list_of_length_3)
next
  show "safe DecodeAuth"
    by (auto simp: DecodeAuth_def Let_def intro!: safe_intros safe_reads)
qed

subsection \<open>Auth response\<close>

record AuthResponseMessage =
  ar_Status :: byte
  ar_TunnelID :: string
  ar_PublicURL :: string

definition authresp_buf :: "byte \<Rightarrow> string \<Rightarrow> string \<Rightarrow> byte list result" where
  "authresp_buf status tunnelID publicURL =
     (let idBytes = bytes tunnelID; urlBytes = bytes publicURL in
      if length idBytes > maxTunnelIDLen then Err (New CodeInvalidArg ''tunnel_id too long'')
      else if length urlBytes > maxPublicURLLen then Err (New CodeInvalidArg ''public_url too long'')
      else rbind (set_byte 0 MsgAuthResponse (make_buf (6 + length idBytes + length urlBytes))) (\<lambda>buf.
      rbind (set_byte 1 status buf) (\<lambda>buf.
      rbind (set_u16 2 (len16 (length idBytes)) buf) (\<lambda>buf.
      rbind (set_u16 4 (len16 (length urlBytes)) buf) (\<lambda>buf.
      rbind (copy_at 6 idBytes buf) (\<lambda>buf.
      copy_at (6 + length idBytes) urlBytes buf))))))"

definition EncodeAuthResponse :: "writer \<Rightarrow> byte \<Rightarrow> string \<Rightarrow> string \<Rightarrow> unit result \<times> writer" where
  "EncodeAuthResponse w status tunnelID publicURL = send_frame w (authresp_buf status tunnelID publicURL)"

definition DecodeAuthResponse :: "AuthResponseMessage parser" where
  "DecodeAuthResponse =
     pbind (pctx ''failed to read auth response header'' (ReadFull 6)) (\<lambda>header.
     if header ! 0 \<noteq> MsgAuthResponse then pfail (New CodeInvalidArg ''expected auth response type 0x02'')
     else let status = header ! 1;
              idLen = unat (Uint16 (header ! 2) (header ! 3));
              urlLen = unat (Uint16 (header ! 4) (header ! 5)) in
     if idLen > maxTunnelIDLen then pfail (New CodeInvalidArg ''tunnel_id too long'')
     else if urlLen > maxPublicURLLen then pfail (New CodeInvalidArg ''public_url too long'')
     else pbind (read_opt ''failed to read auth response tunnel_id'' idLen) (\<lambda>tunnelID.
     pbind (read_opt ''failed to read auth response public_url'' urlLen) (\<lambda>publicURL.
     preturn \<lparr> ar_Status = status, ar_TunnelID = tunnelID, ar_PublicURL = publicURL \<rparr>)))"

definition authresp_valid :: "AuthResponseMessage \<Rightarrow> bool" where
  "authresp_valid m \<longleftrightarrow> length (ar_TunnelID m) \<le> maxTunnelIDLen \<and> length (ar_PublicURL m) \<le> maxPublicURLLen"

definition authresp_frame :: "AuthResponseMessage \<Rightarrow> byte list" where
  "authresp_frame m = MsgAuthResponse # ([ar_Status m] @ PutUint16 (len16 (length (ar_TunnelID m))) @
     PutUint16 (len16 (length (ar_PublicURL m)))) @ bytes (ar_TunnelID m) @ bytes (ar_PublicURL m)"

lemma authresp_buf_frame:
  "authresp_buf st tid url =
     (let m = \<lparr> ar_Status = st, ar_TunnelID = tid, ar_PublicURL = url \<rparr> in
      if authresp_valid m then Ok (authresp_frame m)
      else Err (New CodeInvalidArg (if length tid > maxTunnelIDLen then ''tunnel_id too long'' else ''public_url too long'')))"
  by (simp add: authresp_buf_def authresp_valid_def authresp_frame_def fill_simps Let_def)

lemma list_of_length_6: "length xs = 6 \<Longrightarrow> xs = [xs ! 0, xs ! 1, xs ! 2, xs ! 3, xs ! 4, xs ! 5]"
  by (auto simp: numeral_eq_Suc length_Suc_conv)

interpretation authresp_codec: wire_codec authresp_valid authresp_frame DecodeAuthResponse
proof unfold_locales
  fix m assume "authresp_valid m"
  then have "length (ar_TunnelID m) \<le> maxTunnelIDLen" "length (ar_PublicURL m) \<le> maxPublicURLLen"
    "length (ar_TunnelID m) < 65536" "length (ar_PublicURL m) < 65536"
    by (simp_all add: authresp_valid_def max_defs)
  then show "accepts DecodeAuthResponse (authresp_frame m) m"
    unfolding DecodeAuthResponse_def authresp_frame_def
    by (intro accepts_header_Cons)
      (auto simp: Let_def nth_append nth_Cons' intro!: accepts_bind accepts_last accepts_read_opt)
next
  show "consumes DecodeAuthResponse (\<lambda>m bs. authresp_valid m \<and> bs = authresp_frame m)"
    unfolding DecodeAuthResponse_def Let_def
    by (intro consumes_bind [OF consumes_header] consumes_if consumes_fail
        consumes_bind [OF consumes_read_opt] consumes_return)
      (auto simp: authresp_valid_def authresp_frame_def dest!: list_of_length_6)
next
  show "safe DecodeAuthResponse"
    by (auto simp: DecodeAuthResponse_def Let_def intro!: safe_intros safe_reads)
qed

subsection \<open>Auth v2\<close>

record TunnelEntry =
  te_Label :: string
  te_LocalAddr :: string
  te_TunnelType :: string

record AuthV2Message =
  a2_Token :: string
  a2_Tunnels :: "TunnelEntry list"
  a2_PreferredRegion :: string

definition entry_size :: "TunnelEntry \<Rightarrow> nat" where
  "entry_size t = 1 + length (te_Label t) + 2 + length (te_LocalAddr t) + 1 + length (te_TunnelType t)"

definition put_entry :: "TunnelEntry \<Rightarrow> cursor \<Rightarrow> cursor result" where
  "put_entry t c =
     (if length (te_Label t) > maxLabelLen then Err (New CodeInvalidArg ''label too long'')
      else if length (te_LocalAddr t) > maxLocalAddrLen then Err (New CodeInvalidArg ''local_addr too long'')
      else if length (te_TunnelType t) > maxLabelLen then Err (New CodeInvalidArg ''tunnel_type too long'')
      else rbind (put_byte (len8 (length (te_Label t))) c) (\<lambda>c.
      rbind (put_bytes (bytes (te_Label t)) c) (\<lambda>c.
      rbind (put_u16 (len16 (length (te_LocalAddr t))) c) (\<lambda>c.
      rbind (put_bytes (bytes (te_LocalAddr t)) c) (\<lambda>c.
      rbind (put_byte (len8 (length (te_TunnelType t))) c) (\<lambda>c.
      put_bytes (bytes (te_TunnelType t)) c))))))"

definition authv2_buf :: "AuthV2Message \<Rightarrow> byte list result" where
  "authv2_buf msg =
     (let tokenBytes = bytes (a2_Token msg); regionBytes = bytes (a2_PreferredRegion msg) in
      if length tokenBytes > maxTokenLen then Err (New CodeInvalidArg ''token too long'')
      else if length (a2_Tunnels msg) > maxTunnelCount then Err (New CodeInvalidArg ''too many tunnels'')
      else if length regionBytes > maxRegionLen then Err (New CodeInvalidArg ''region too long'')
      else let size = 1 + 2 + length tokenBytes + 1 + 1 + length regionBytes
                 + sum_list (map entry_size (a2_Tunnels msg)) in
      rbind (put_byte MsgAuthV2 (make_buf size, 0)) (\<lambda>c.
      rbind (put_u16 (len16 (length tokenBytes)) c) (\<lambda>c.
      rbind (put_bytes tokenBytes c) (\<lambda>c.
      rbind (put_byte (len8 (length (a2_Tunnels msg))) c) (\<lambda>c.
      rbind (put_each put_entry (a2_Tunnels msg) c) (\<lambda>c.
      rbind (put_byte (len8 (length regionBytes)) c) (\<lambda>c.
      rbind (put_bytes regionBytes c) cursor_bytes)))))))"

definition EncodeAuthV2 :: "writer \<Rightarrow> AuthV2Message \<Rightarrow> unit result \<times> writer" where
  "EncodeAuthV2 w msg = send_frame w (authv2_buf msg)"

definition read_entry :: "TunnelEntry parser" where
  "read_entry =
     pbind (read_len8 ''failed to read label len'') (\<lambda>labelLen.
     if labelLen > maxLabelLen then pfail (New CodeInvalidArg ''label too long'')
     else pbind (read_str ''failed to read label'' labelLen) (\<lambda>label.
     pbind (read_len16 ''failed to read local_addr len'') (\<lambda>addrLen.
     if addrLen > maxLocalAddrLen then pfail (New CodeInvalidArg ''local_addr too long'')
     else pbind (read_str ''failed to read local_addr'' addrLen) (\<lambda>addr.
     pbind (read_len8 ''failed to read tunnel_type len'') (\<lambda>typeLen.
     if typeLen > maxLabelLen then pfail (New CodeInvalidArg ''tunnel_type too long'')
     else pbind (read_opt ''failed to read tunnel_type'' typeLen) (\<lambda>tunnelType.
     preturn \<lparr> te_Label = label, te_LocalAddr = addr, te_TunnelType = tunnelType \<rparr>))))))"

definition DecodeAuthV2 :: "AuthV2Message parser" where
  "DecodeAuthV2 =
     pbind (pctx ''failed to read auth v2 header'' (ReadFull 3)) (\<lambda>header.
     if header ! 0 \<noteq> MsgAuthV2 then pfail (New CodeInvalidArg ''expected auth v2 type 0x06'')
     else let tokenLen = unat (Uint16 (header ! 1) (header ! 2)) in
     if tokenLen > maxTokenLen then pfail (New CodeInvalidArg ''token too long'')
     else pbind (read_str ''failed to read auth v2 token'' tokenLen) (\<lambda>token.
     pbind (read_len8 ''failed to read tunnel count'') (\<lambda>tunnelCount.
     if tunnelCount > maxTunnelCount then pfail (New CodeInvalidArg ''too many tunnels'')
     else pbind (preplicate tunnelCount read_entry) (\<lambda>tunnels.
     pbind (read_len8 ''failed to read region len'') (\<lambda>regionLen.
     if regionLen > maxRegionLen then pfail (New CodeInvalidArg ''region too long'')
     else pbind (read_opt ''failed to read region'' regionLen) (\<lambda>preferredRegion.
     preturn \<lparr> a2_Token = token, a2_Tunnels = tunnels, a2_PreferredRegion = preferredRegion \<rparr>))))))"

definition entry_valid :: "TunnelEntry \<Rightarrow> bool" where
  "entry_valid t \<longleftrightarrow> length (te_Label t) \<le> maxLabelLen \<and> length (te_LocalAddr t) \<le> maxLocalAddrLen \<and>
     length (te_TunnelType t) \<le> maxLabelLen"

definition entry_frame :: "TunnelEntry \<Rightarrow> byte list" where
  "entry_frame t = [len8 (length (te_Label t))] @ bytes (te_Label t) @
     PutUint16 (len16 (length (te_LocalAddr t))) @ bytes (te_LocalAddr t) @
     [len8 (length (te_TunnelType t))] @ bytes (te_TunnelType t)"

definition authv2_valid :: "AuthV2Message \<Rightarrow> bool" where
  "authv2_valid m \<longleftrightarrow> length (a2_Token m) \<le> maxTokenLen \<and> length (a2_Tunnels m) \<le> maxTunnelCount \<and>
     length (a2_PreferredRegion m) \<le> maxRegionLen \<and> list_all entry_valid (a2_Tunnels m)"

definition authv2_frame :: "AuthV2Message \<Rightarrow> byte list" where
  "authv2_frame m = MsgAuthV2 # PutUint16 (len16 (length (a2_Token m))) @ bytes (a2_Token m) @
     [len8 (length (a2_Tunnels m))] @ concat (map entry_frame (a2_Tunnels m)) @
     [len8 (length (a2_PreferredRegion m))] @ bytes (a2_PreferredRegion m)"

lemma length_entry_frame: "length (entry_frame t) = entry_size t"
  by (simp add: entry_frame_def entry_size_def)

lemma length_concat_entries: "length (concat (map entry_frame ts)) = sum_list (map entry_size ts)"
  by (induction ts) (simp_all add: length_entry_frame)

lemma put_entry_ok:
  "entry_valid t \<Longrightarrow> entry_size t \<le> k \<Longrightarrow> put_entry t (curs pre k) = Ok (curs (pre @ entry_frame t) (k - entry_size t))"
  by (auto simp: put_entry_def entry_valid_def entry_frame_def entry_size_def put_curs)

lemma put_entry_err: "\<not> entry_valid t \<Longrightarrow> \<exists>e. put_entry t c = Err e"
  by (auto simp: put_entry_def entry_valid_def)

lemma put_entries:
  "sum_list (map entry_size ts) \<le> k \<Longrightarrow>
     (if list_all entry_valid ts
      then put_each put_entry ts (curs pre k) =
        Ok (curs (pre @ concat (map entry_frame ts)) (k - sum_list (map entry_size ts)))
      else \<exists>e. put_each put_entry ts (curs pre k) = Err e)"
proof (induction ts arbitrary: pre k)
  case Nil
  then show ?case by simp
next
  case (Cons t ts)
  from Cons.prems have le: "entry_size t \<le> k" "sum_list (map entry_size ts) \<le> k - entry_size t"
    by simp_all
  show ?case
  proof (cases "entry_valid t")
    case True
    with Cons.IH [OF le(2), of "pre @ entry_frame t"] le(1) show ?thesis
      by (simp add: put_entry_ok)
  next
    case False
    then obtain e where "put_entry t (curs pre k) = Err e"
      using put_entry_err by blast
    with False show ?thesis by simp
  qed
qed

lemma authv2_buf_frame:
  "if authv2_valid m then authv2_buf m = Ok (authv2_frame m) else \<exists>e. authv2_buf m = Err e"
proof -
  let ?k = "1 + length (a2_PreferredRegion m) + sum_list (map entry_size (a2_Tunnels m))"
  let ?pre = "MsgAuthV2 # PutUint16 (len16 (length (a2_Token m))) @ bytes (a2_Token m) @ [len8 (length (a2_Tunnels m))]"
  have "sum_list (map entry_size (a2_Tunnels m)) \<le> ?k"
    by simp
  from put_entries [OF this, of ?pre] show ?thesis
    by (auto simp: authv2_buf_def authv2_valid_def authv2_frame_def Let_def curs_start put_curs)
qed

interpretation entry_codec: wire_codec entry_valid entry_frame read_entry
proof unfold_locales
  fix t assume "entry_valid t"
  then have "length (te_Label t) \<le> maxLabelLen" "length (te_LocalAddr t) \<le> maxLocalAddrLen"
    "length (te_TunnelType t) \<le> maxLabelLen" "length (te_Label t) < 256" "length (te_LocalAddr t) < 65536"
    "length (te_TunnelType t) < 256"
    by (simp_all add: entry_valid_def max_defs)
  then show "accepts read_entry (entry_frame t) t"
    unfolding read_entry_def entry_frame_def
    by (simp add: wire_simps)
next
  show "consumes read_entry (\<lambda>t bs. entry_valid t \<and> bs = entry_frame t)"
    unfolding read_entry_def
    by (intro consumes_if consumes_fail consumes_bind [OF consumes_read_str] consumes_bind [OF consumes_read_opt]
        consumes_bind [OF consumes_read_len8] consumes_bind [OF consumes_read_len16] consumes_return)
      (auto simp: entry_valid_def entry_frame_def)
next
  show "safe read_entry"
    by (auto simp: read_entry_def intro!: safe_intros safe_reads)
qed

interpretation authv2_codec: wire_codec authv2_valid authv2_frame DecodeAuthV2
proof unfold_locales
  fix m assume "authv2_valid m"
  then have v: "length (a2_Token m) \<le> maxTokenLen" "length (a2_Tunnels m) \<le> maxTunnelCount"
    "length (a2_PreferredRegion m) \<le> maxRegionLen" "length (a2_Token m) < 65536"
    "length (a2_Tunnels m) < 256" "length (a2_PreferredRegion m) < 256" "list_all entry_valid (a2_Tunnels m)"
    by (simp_all add: authv2_valid_def max_defs)
  then have "accepts (preplicate (length (a2_Tunnels m)) read_entry) (concat (map entry_frame (a2_Tunnels m))) (a2_Tunnels m)"
    by (intro accepts_replicate entry_codec.dec_enc) (simp add: list_all_iff)
  with v show "accepts DecodeAuthV2 (authv2_frame m) m"
    unfolding DecodeAuthV2_def authv2_frame_def
    by (intro accepts_header_Cons) (simp_all add: wire_simps Let_def accepts_bind_iff)
next
  show "consumes DecodeAuthV2 (\<lambda>m bs. authv2_valid m \<and> bs = authv2_frame m)"
    unfolding DecodeAuthV2_def Let_def
    by (intro consumes_bind [OF consumes_header] consumes_if consumes_fail consumes_bind [OF consumes_read_str]
        consumes_bind [OF consumes_read_opt] consumes_bind [OF consumes_read_len8]
        consumes_bind [OF consumes_replicate [OF entry_codec.enc_dec]] consumes_return)
      (auto simp: authv2_valid_def authv2_frame_def dest!: list_of_length_3)
next
  show "safe DecodeAuthV2"
    by (auto simp: DecodeAuthV2_def Let_def intro!: safe_intros safe_reads entry_codec.dec_safe)
qed

subsection \<open>Auth v2 response\<close>

record TunnelHostEntry =
  th_Label :: string
  th_Hostname :: string

record AuthV2ResponseMessage =
  r2_Status :: byte
  r2_TunnelID :: string
  r2_Tunnels :: "TunnelHostEntry list"
  r2_ResumeToken :: string
  r2_AssignedRegion :: string
  r2_SuggestedGateways :: "string list"

definition host_size :: "TunnelHostEntry \<Rightarrow> nat" where
  "host_size t = 1 + length (th_Label t) + 2 + length (th_Hostname t)"

definition put_host :: "TunnelHostEntry \<Rightarrow> cursor \<Rightarrow> cursor result" where
  "put_host t c =
     rbind (put_byte (len8 (length (th_Label t))) c) (\<lambda>c.
     rbind (put_bytes (bytes (th_Label t)) c) (\<lambda>c.
     rbind (put_u16 (len16 (length (th_Hostname t))) c) (\<lambda>c.
     put_bytes (bytes (th_Hostname t)) c)))"

definition gw_size :: "string \<Rightarrow> nat" where
  "gw_size gw = 2 + length gw"

definition put_gw :: "string \<Rightarrow> cursor \<Rightarrow> cursor result" where
  "put_gw gw c = rbind (put_u16 (len16 (length (bytes gw))) c) (put_bytes (bytes gw))"

definition authv2resp_buf :: "AuthV2ResponseMessage \<Rightarrow> byte list result" where
  "authv2resp_buf msg =
     (let idBytes = bytes (r2_TunnelID msg);
          resumeBytes = bytes (r2_ResumeToken msg);
          regionBytes = bytes (r2_AssignedRegion msg) in
      if length idBytes > maxTunnelIDLen then Err (New CodeInvalidArg ''tunnel_id too long'')
      else if length (r2_Tunnels msg) > maxTunnelCount
        then Err (New CodeInvalidArg ''too many tunnels in response'')
      else if length resumeBytes > maxResumeTokenLen then Err (New CodeInvalidArg ''resume_token too long'')
      else if length regionBytes > maxRegionLen then Err (New CodeInvalidArg ''assigned_region too long'')
      else if length (r2_SuggestedGateways msg) > maxSuggestedGWs
        then Err (New CodeInvalidArg ''too many suggested gateways'')
      else let size = 1 + 1 + 2 + length idBytes + 1 + sum_list (map host_size (r2_Tunnels msg))
                 + (2 + length resumeBytes + 1 + length regionBytes + 1)
                 + sum_list (map gw_size (r2_SuggestedGateways msg)) in
      rbind (put_byte MsgAuthRespV2 (make_buf size, 0)) (\<lambda>c.
      rbind (put_byte (r2_Status msg) c) (\<lambda>c.
      rbind (put_u16 (len16 (length idBytes)) c) (\<lambda>c.
      rbind (put_bytes idBytes c) (\<lambda>c.
      rbind (put_byte (len8 (length (r2_Tunnels msg))) c) (\<lambda>c.
      rbind (put_each put_host (r2_Tunnels msg) c) (\<lambda>c.
      rbind (put_u16 (len16 (length resumeBytes)) c) (\<lambda>c.
      rbind (put_bytes resumeBytes c) (\<lambda>c.
      rbind (put_byte (len8 (length regionBytes)) c) (\<lambda>c.
      rbind (put_bytes regionBytes c) (\<lambda>c.
      rbind (put_byte (len8 (length (r2_SuggestedGateways msg))) c) (\<lambda>c.
      rbind (put_each put_gw (r2_SuggestedGateways msg) c) cursor_bytes))))))))))))"

definition EncodeAuthV2Response :: "writer \<Rightarrow> AuthV2ResponseMessage \<Rightarrow> unit result \<times> writer" where
  "EncodeAuthV2Response w msg = send_frame w (authv2resp_buf msg)"

definition read_host :: "TunnelHostEntry parser" where
  "read_host =
     pbind (read_len8 ''failed to read response label len'') (\<lambda>labelLen.
     pbind (read_str ''failed to read response label'' labelLen) (\<lambda>label.
     pbind (read_len16 ''failed to read response hostname len'') (\<lambda>hostLen.
     if hostLen > maxPublicURLLen then pfail (New CodeInvalidArg ''hostname too long'')
     else pbind (read_str ''failed to read response hostname'' hostLen) (\<lambda>host.
     preturn \<lparr> th_Label = label, th_Hostname = host \<rparr>))))"

definition read_gw :: "string parser" where
  "read_gw =
     pbind (read_len16 ''failed to read suggested gw addr len'') (\<lambda>addrLen.
     if addrLen > maxPublicURLLen then pfail (New CodeInvalidArg ''suggested gateway addr too long'')
     else pbind (read_str ''failed to read suggested gw addr'' addrLen) (\<lambda>addr. preturn addr))"

definition DecodeAuthV2Response :: "AuthV2ResponseMessage parser" where
  "DecodeAuthV2Response =
     pbind (pctx ''failed to read auth v2 response header'' (ReadFull 4)) (\<lambda>header.
     if header ! 0 \<noteq> MsgAuthRespV2 then pfail (New CodeInvalidArg ''expected auth v2 response type 0x07'')
     else let status = header ! 1; idLen = unat (Uint16 (header ! 2) (header ! 3)) in
     if idLen > maxTunnelIDLen then pfail (New CodeInvalidArg ''tunnel_id too long'')
     else pbind (read_opt ''failed to read auth v2 response tunnel_id'' idLen) (\<lambda>tunnelID.
     pbind (read_len8 ''failed to read tunnel count in response'') (\<lambda>tunnelCount.
     if tunnelCount > maxTunnelCount then pfail (New CodeInvalidArg ''too many tunnels in response'')
     else pbind (preplicate tunnelCount read_host) (\<lambda>tunnels.
     pbind (read_len16 ''failed to read resume_token len'') (\<lambda>resumeLen.
     if resumeLen > maxResumeTokenLen then pfail (New CodeInvalidArg ''resume_token too long'')
     else pbind (read_opt ''failed to read resume_token'' resumeLen) (\<lambda>resumeToken.
     pbind (read_len8 ''failed to read assigned_region len'') (\<lambda>regionLen.
     if regionLen > maxRegionLen then pfail (New CodeInvalidArg ''assigned_region too long'')
     else pbind (read_opt ''failed to read assigned_region'' regionLen) (\<lambda>assignedRegion.
     pbind (read_len8 ''failed to read suggested gateway count'') (\<lambda>gwCount.
     if gwCount > maxSuggestedGWs then pfail (New CodeInvalidArg ''too many suggested gateways'')
     else pbind (preplicate gwCount read_gw) (\<lambda>suggestedGWs.
     preturn \<lparr> r2_Status = status, r2_TunnelID = tunnelID, r2_Tunnels = tunnels, r2_ResumeToken = resumeToken,
       r2_AssignedRegion = assignedRegion, r2_SuggestedGateways = suggestedGWs \<rparr>))))))))))"

definition host_valid :: "TunnelHostEntry \<Rightarrow> bool" where
  "host_valid t \<longleftrightarrow> length (th_Label t) < 256 \<and> length (th_Hostname t) \<le> maxPublicURLLen"

definition host_frame :: "TunnelHostEntry \<Rightarrow> byte list" where
  "host_frame t = [len8 (length (th_Label t))] @ bytes (th_Label t) @
     PutUint16 (len16 (length (th_Hostname t))) @ bytes (th_Hostname t)"

definition gw_valid :: "string \<Rightarrow> bool" where
  "gw_valid gw \<longleftrightarrow> length gw \<le> maxPublicURLLen"

definition gw_frame :: "string \<Rightarrow> byte list" where
  "gw_frame gw = PutUint16 (len16 (length gw)) @ bytes gw"

text \<open>\<open>authv2resp_sendable\<close> is what the encoder checks, \<open>authv2resp_valid\<close> what the decoder accepts.\<close>

definition authv2resp_sendable :: "AuthV2ResponseMessage \<Rightarrow> bool" where
  "authv2resp_sendable m \<longleftrightarrow> length (r2_TunnelID m) \<le> maxTunnelIDLen \<and> length (r2_Tunnels m) \<le> maxTunnelCount \<and>
     length (r2_ResumeToken m) \<le> maxResumeTokenLen \<and> length (r2_AssignedRegion m) \<le> maxRegionLen \<and>
     length (r2_SuggestedGateways m) \<le> maxSuggestedGWs"

definition authv2resp_valid :: "AuthV2ResponseMessage \<Rightarrow> bool" where
  "authv2resp_valid m \<longleftrightarrow> authv2resp_sendable m \<and> list_all host_valid (r2_Tunnels m) \<and>
     list_all gw_valid (r2_SuggestedGateways m)"

definition authv2resp_frame :: "AuthV2ResponseMessage \<Rightarrow> byte list" where
  "authv2resp_frame m = MsgAuthRespV2 # ([r2_Status m] @ PutUint16 (len16 (length (r2_TunnelID m)))) @
     bytes (r2_TunnelID m) @ [len8 (length (r2_Tunnels m))] @ concat (map host_frame (r2_Tunnels m)) @
     PutUint16 (len16 (length (r2_ResumeToken m))) @ bytes (r2_ResumeToken m) @
     [len8 (length (r2_AssignedRegion m))] @ bytes (r2_AssignedRegion m) @
     [len8 (length (r2_SuggestedGateways m))] @ concat (map gw_frame (r2_SuggestedGateways m))"

lemma length_host_frame [simp]: "length (host_frame t) = host_size t"
  by (simp add: host_frame_def host_size_def)

lemma length_gw_frame [simp]: "length (gw_frame g) = gw_size g"
  by (simp add: gw_frame_def gw_size_def)

lemma length_concat_hosts: "length (concat (map host_frame ts)) = sum_list (map host_size ts)"
  by (induction ts) simp_all

lemma length_concat_gws: "length (concat (map gw_frame gs)) = sum_list (map gw_size gs)"
  by (induction gs) simp_all

lemma put_hosts:
  "sum_list (map host_size ts) \<le> k \<Longrightarrow> put_each put_host ts (curs pre k) =
     Ok (curs (pre @ concat (map host_frame ts)) (k - sum_list (map host_size ts)))"
  using put_each_curs [of ts host_frame put_host k pre]
  by (simp add: length_concat_hosts put_host_def host_frame_def host_size_def put_curs)

lemma put_gws:
  "sum_list (map gw_size gs) \<le> k \<Longrightarrow> put_each put_gw gs (curs pre k) =
     Ok (curs (pre @ concat (map gw_frame gs)) (k - sum_list (map gw_size gs)))"
  using put_each_curs [of gs gw_frame put_gw k pre]
  by (simp add: length_concat_gws put_gw_def gw_frame_def gw_size_def put_curs)

lemma authv2resp_buf_frame:
  "if authv2resp_sendable m then authv2resp_buf m = Ok (authv2resp_frame m) else \<exists>e. authv2resp_buf m = Err e"
  by (auto simp: authv2resp_buf_def authv2resp_sendable_def authv2resp_frame_def Let_def curs_start put_curs
      put_hosts put_gws)

interpretation host_codec: wire_codec host_valid host_frame read_host
proof unfold_locales
  fix t assume "host_valid t"
  then have "length (th_Label t) < 256" "length (th_Hostname t) \<le> maxPublicURLLen" "length (th_Hostname t) < 65536"
    by (simp_all add: host_valid_def max_defs)
  then show "accepts read_host (host_frame t) t"
    unfolding read_host_def host_frame_def by (simp add: wire_simps)
next
  show "consumes read_host (\<lambda>t bs. host_valid t \<and> bs = host_frame t)"
    unfolding read_host_def
    by (intro consumes_if consumes_fail consumes_bind [OF consumes_read_str]
        consumes_bind [OF consumes_read_len8] consumes_bind [OF consumes_read_len16] consumes_return)
      (auto simp: host_valid_def host_frame_def)
next
  show "safe read_host"
    by (auto simp: read_host_def intro!: safe_intros safe_reads)
qed

interpretation gw_codec: wire_codec gw_valid gw_frame read_gw
proof unfold_locales
  fix g assume "gw_valid g"
  then have "length g \<le> maxPublicURLLen" "length g < 65536"
    by (simp_all add: gw_valid_def max_defs)
  then show "accepts read_gw (gw_frame g) g"
    unfolding read_gw_def gw_frame_def by (simp add: wire_simps)
next
  show "consumes read_gw (\<lambda>g bs. gw_valid g \<and> bs = gw_frame g)"
    unfolding read_gw_def
    by (intro consumes_if consumes_fail consumes_bind [OF consumes_read_str]
        consumes_bind [OF consumes_read_len16] consumes_return)
      (auto simp: gw_valid_def gw_frame_def)
next
  show "safe read_gw"
    by (auto simp: read_gw_def intro!: safe_intros safe_reads)
qed

interpretation authv2resp_codec: wire_codec authv2resp_valid authv2resp_frame DecodeAuthV2Response
proof unfold_locales
  fix m assume "authv2resp_valid m"
  then have v: "length (r2_TunnelID m) \<le> maxTunnelIDLen" "length (r2_Tunnels m) \<le> maxTunnelCount"
    "length (r2_ResumeToken m) \<le> maxResumeTokenLen" "length (r2_AssignedRegion m) \<le> maxRegionLen"
    "length (r2_SuggestedGateways m) \<le> maxSuggestedGWs" "length (r2_TunnelID m) < 65536"
    "length (r2_Tunnels m) < 256" "length (r2_ResumeToken m) < 65536" "length (r2_AssignedRegion m) < 256"
    "length (r2_SuggestedGateways m) < 256" "list_all host_valid (r2_Tunnels m)"
    "list_all gw_valid (r2_SuggestedGateways m)"
    by (simp_all add: authv2resp_valid_def authv2resp_sendable_def max_defs)
  then have "accepts (preplicate (length (r2_Tunnels m)) read_host) (concat (map host_frame (r2_Tunnels m))) (r2_Tunnels m)"
    "accepts (preplicate (length (r2_SuggestedGateways m)) read_gw) (concat (map gw_frame (r2_SuggestedGateways m)))
      (r2_SuggestedGateways m)"
    by (auto intro!: accepts_replicate host_codec.dec_enc gw_codec.dec_enc simp: list_all_iff)
  with v show "accepts DecodeAuthV2Response (authv2resp_frame m) m"
    unfolding DecodeAuthV2Response_def authv2resp_frame_def
    by (intro accepts_header_Cons)
      (simp_all add: wire_simps Let_def accepts_bind_iff nth_append accepts_last)
next
  show "consumes DecodeAuthV2Response (\<lambda>m bs. authv2resp_valid m \<and> bs = authv2resp_frame m)"
    unfolding DecodeAuthV2Response_def Let_def
    by (intro consumes_bind [OF consumes_header] consumes_if consumes_fail consumes_bind [OF consumes_read_opt]
        consumes_bind [OF consumes_read_len8] consumes_bind [OF consumes_read_len16]
        consumes_bind [OF consumes_replicate [OF host_codec.enc_dec]]
        consumes_bind [OF consumes_replicate [OF gw_codec.enc_dec]] consumes_return)
      (auto simp: authv2resp_valid_def authv2resp_sendable_def authv2resp_frame_def dest!: list_of_length_4)
next
  show "safe DecodeAuthV2Response"
    by (auto simp: DecodeAuthV2Response_def Let_def
        intro!: safe_intros safe_reads host_codec.dec_safe gw_codec.dec_safe)
qed

subsection \<open>Session resume\<close>

record SessionResumeMessage =
  sr_Token :: string

record SessionResumeRespMessage =
  rr_Status :: byte
  rr_TunnelID :: string
  rr_NewToken :: string

definition resume_buf :: "string \<Rightarrow> byte list result" where
  "resume_buf token =
     (if length (bytes token) > maxResumeTokenLen then Err (New CodeInvalidArg ''resume token too long'')
      else rbind (set_byte 0 MsgSessionResume (make_buf (3 + length (bytes token)))) (\<lambda>buf.
      rbind (set_u16 1 (len16 (length (bytes token))) buf) (\<lambda>buf.
      copy_at 3 (bytes token) buf)))"

definition EncodeSessionResume :: "writer \<Rightarrow> string \<Rightarrow> unit result \<times> writer" where
  "EncodeSessionResume w token = send_frame w (resume_buf token)"

definition DecodeSessionResume :: "SessionResumeMessage parser" where
  "DecodeSessionResume =
     pbind (pctx ''failed to read session resume header'' (ReadFull 3)) (\<lambda>header.
     if header ! 0 \<noteq> MsgSessionResume then pfail (New CodeInvalidArg ''expected session resume type 0x09'')
     else let tokenLen = unat (Uint16 (header ! 1) (header ! 2)) in
     if tokenLen > maxResumeTokenLen then pfail (New CodeInvalidArg ''resume token too long'')
     else pbind (read_str ''failed to read resume token'' tokenLen) (\<lambda>token.
     preturn \<lparr> sr_Token = token \<rparr>))"

definition resumeresp_buf :: "SessionResumeRespMessage \<Rightarrow> byte list result" where
  "resumeresp_buf msg =
     (let idBytes = bytes (rr_TunnelID msg); ntBytes = bytes (rr_NewToken msg) in
      if length idBytes > maxTunnelIDLen then Err (New CodeInvalidArg ''tunnel_id too long'')
      else if length ntBytes > maxResumeTokenLen then Err (New CodeInvalidArg ''new resume token too long'')
      else rbind (put_byte MsgSessionResumeResp (make_buf (1 + 1 + 2 + length idBytes + 2 + length ntBytes), 0)) (\<lambda>c.
      rbind (put_byte (rr_Status msg) c) (\<lambda>c.
      rbind (put_u16 (len16 (length idBytes)) c) (\<lambda>c.
      rbind (put_bytes idBytes c) (\<lambda>c.
      rbind (put_u16 (len16 (length ntBytes)) c) (\<lambda>c.
      rbind (put_bytes ntBytes c) (\<lambda>c. Ok (fst c))))))))"

definition EncodeSessionResumeResp :: "writer \<Rightarrow> SessionResumeRespMessage \<Rightarrow> unit result \<times> writer" where
  "EncodeSessionResumeResp w msg = send_frame w (resumeresp_buf msg)"

definition DecodeSessionResumeResp :: "SessionResumeRespMessage parser" where
  "DecodeSessionResumeResp =
     pbind (pctx ''failed to read session resume resp header'' (ReadFull 4)) (\<lambda>header.
     if header ! 0 \<noteq> MsgSessionResumeResp
       then pfail (New CodeInvalidArg ''expected session resume resp type 0x0A'')
     else let status = header ! 1; idLen = unat (Uint16 (header ! 2) (header ! 3)) in
     if idLen > maxTunnelIDLen then pfail (New CodeInvalidArg ''tunnel_id too long'')
     else pbind (read_opt ''failed to read resume resp tunnel_id'' idLen) (\<lambda>tunnelID.
     pbind (read_len16 ''failed to read new token len'') (\<lambda>ntLen.
     if ntLen > maxResumeTokenLen then pfail (New CodeInvalidArg ''new resume token too long'')
     else pbind (read_opt ''failed to read new resume token'' ntLen) (\<lambda>newToken.
     preturn \<lparr> rr_Status = status, rr_TunnelID = tunnelID, rr_NewToken = newToken \<rparr>))))"

definition resume_valid :: "SessionResumeMessage \<Rightarrow> bool" where
  "resume_valid m \<longleftrightarrow> length (sr_Token m) \<le> maxResumeTokenLen"

definition resume_frame :: "SessionResumeMessage \<Rightarrow> byte list" where
  "resume_frame m = MsgSessionResume # PutUint16 (len16 (length (sr_Token m))) @ bytes (sr_Token m)"

definition resumeresp_valid :: "SessionResumeRespMessage \<Rightarrow> bool" where
  "resumeresp_valid m \<longleftrightarrow> length (rr_TunnelID m) \<le> maxTunnelIDLen \<and> length (rr_NewToken m) \<le> maxResumeTokenLen"

definition resumeresp_frame :: "SessionResumeRespMessage \<Rightarrow> byte list" where
  "resumeresp_frame m = MsgSessionResumeResp # ([rr_Status m] @ PutUint16 (len16 (length (rr_TunnelID m)))) @
     bytes (rr_TunnelID m) @ PutUint16 (len16 (length (rr_NewToken m))) @ bytes (rr_NewToken m)"

lemma resume_buf_frame:
  "resume_buf token = (if resume_valid \<lparr> sr_Token = token \<rparr> then Ok (resume_frame \<lparr> sr_Token = token \<rparr>)
     else Err (New CodeInvalidArg ''resume token too long''))"
  by (simp add: resume_buf_def resume_valid_def resume_frame_def fill_simps)

lemma resumeresp_buf_frame:
  "if resumeresp_valid m then resumeresp_buf m = Ok (resumeresp_frame m) else \<exists>e. resumeresp_buf m = Err e"
  by (auto simp: resumeresp_buf_def resumeresp_valid_def resumeresp_frame_def Let_def curs_start put_curs)

interpretation resume_codec: wire_codec resume_valid resume_frame DecodeSessionResume
proof unfold_locales
  fix m assume "resume_valid m"
  then have "length (sr_Token m) \<le> maxResumeTokenLen" "length (sr_Token m) < 65536"
    by (simp_all add: resume_valid_def max_defs)
  then show "accepts DecodeSessionResume (resume_frame m) m"
    unfolding DecodeSessionResume_def resume_frame_def
    by (intro accepts_header_Cons) (simp_all add: wire_simps Let_def)
next
  show "consumes DecodeSessionResume (\<lambda>m bs. resume_valid m \<and> bs = resume_frame m)"
    unfolding DecodeSessionResume_def Let_def
    by (intro consumes_bind [OF consumes_header] consumes_if consumes_fail
        consumes_bind [OF consumes_read_str] consumes_return)
      (auto simp: resume_valid_def resume_frame_def dest!: list_of_length_3)
next
  show "safe DecodeSessionResume"
    by (auto simp: DecodeSessionResume_def Let_def intro!: safe_intros safe_reads)
qed

interpretation resumeresp_codec: wire_codec resumeresp_valid resumeresp_frame DecodeSessionResumeResp
proof unfold_locales
  fix m assume "resumeresp_valid m"
  then have "length (rr_TunnelID m) \<le> maxTunnelIDLen" "length (rr_NewToken m) \<le> maxResumeTokenLen"
    "length (rr_TunnelID m) < 65536" "length (rr_NewToken m) < 65536"
    by (simp_all add: resumeresp_valid_def max_defs)
  then show "accepts DecodeSessionResumeResp (resumeresp_frame m) m"
    unfolding DecodeSessionResumeResp_def resumeresp_frame_def
    by (intro accepts_header_Cons) (simp_all add: wire_simps Let_def nth_append)
next
  show "consumes DecodeSessionResumeResp (\<lambda>m bs. resumeresp_valid m \<and> bs = resumeresp_frame m)"
    unfolding DecodeSessionResumeResp_def Let_def
    by (intro consumes_bind [OF consumes_header] consumes_if consumes_fail consumes_bind [OF consumes_read_opt]
        consumes_bind [OF consumes_read_len16] consumes_return)
      (auto simp: resumeresp_valid_def resumeresp_frame_def dest!: list_of_length_4)
next
  show "safe DecodeSessionResumeResp"
    by (auto simp: DecodeSessionResumeResp_def Let_def intro!: safe_intros safe_reads)
qed

subsection \<open>Heartbeat, message type and stream label\<close>

definition EncodeHeartbeat :: "writer \<Rightarrow> unit result \<times> writer" where
  "EncodeHeartbeat w = Write w [MsgHeartbeat]"

definition ReadMessageType :: "byte parser" where
  "ReadMessageType = pbind (ReadFull 1) (\<lambda>buf. preturn (buf ! 0))"

definition label_buf :: "string \<Rightarrow> byte list result" where
  "label_buf label =
     (if length (bytes label) > maxLabelLen then Err (New CodeInvalidArg ''label too long'')
      else rbind (set_byte 0 MsgStreamLabel (make_buf (2 + length (bytes label)))) (\<lambda>buf.
      rbind (set_byte 1 (len8 (length (bytes label))) buf) (\<lambda>buf.
      copy_at 2 (bytes label) buf)))"

definition EncodeStreamLabel :: "writer \<Rightarrow> string \<Rightarrow> unit result \<times> writer" where
  "EncodeStreamLabel w label = send_frame w (label_buf label)"

definition DecodeStreamLabel :: "string parser" where
  "DecodeStreamLabel =
     pbind (pctx ''failed to read stream label header'' (ReadFull 2)) (\<lambda>header.
     if header ! 0 \<noteq> MsgStreamLabel then pfail (New CodeInvalidArg ''expected stream label type 0x08'')
     else let labelLen = unat (header ! 1) in
     if labelLen > maxLabelLen then pfail (New CodeInvalidArg ''label too long'')
     else pbind (read_str ''failed to read stream label'' labelLen) (\<lambda>label. preturn label))"

definition label_valid :: "string \<Rightarrow> bool" where
  "label_valid l \<longleftrightarrow> length l \<le> maxLabelLen"

definition label_frame :: "string \<Rightarrow> byte list" where
  "label_frame l = MsgStreamLabel # [len8 (length l)] @ bytes l"

lemma label_buf_frame:
  "label_buf l = (if label_valid l then Ok (label_frame l) else Err (New CodeInvalidArg ''label too long''))"
  by (simp add: label_buf_def label_valid_def label_frame_def fill_simps)

lemma list_of_length_2: "length xs = 2 \<Longrightarrow> xs = [xs ! 0, xs ! 1]"
  by (auto simp: numeral_eq_Suc length_Suc_conv)

interpretation label_codec: wire_codec label_valid label_frame DecodeStreamLabel
proof unfold_locales
  fix l assume "label_valid l"
  then have "length l \<le> maxLabelLen" "length l < 256"
    by (simp_all add: label_valid_def max_defs)
  then show "accepts DecodeStreamLabel (label_frame l) l"
    unfolding DecodeStreamLabel_def label_frame_def
    by (intro accepts_header_Cons) (simp_all add: wire_simps Let_def)
next
  show "consumes DecodeStreamLabel (\<lambda>l bs. label_valid l \<and> bs = label_frame l)"
    unfolding DecodeStreamLabel_def Let_def
    by (intro consumes_bind [OF consumes_header] consumes_if consumes_fail
        consumes_bind [OF consumes_read_str] consumes_return)
      (auto simp: label_valid_def label_frame_def dest!: list_of_length_2)
next
  show "safe DecodeStreamLabel"
    by (auto simp: DecodeStreamLabel_def Let_def intro!: safe_intros safe_reads)
qed

subsection \<open>UDP datagrams\<close>

record UDPDatagramMessage =
  ud_Label :: string
  ud_SrcAddr :: string
  ud_Payload :: "byte list"

definition EncodeUDPDatagram :: "UDPDatagramMessage \<Rightarrow> byte list result" where
  "EncodeUDPDatagram msg =
     (let lb = bytes (ud_Label msg); ab = bytes (ud_SrcAddr msg) in
      if length lb > maxLabelLen then Err (New CodeInvalidArg ''label too long'')
      else if length ab > maxSrcAddrLen then Err (New CodeInvalidArg ''src_addr too long'')
      else if length (ud_Payload msg) > maxUDPPayloadLen then Err (New CodeInvalidArg ''UDP payload too long'')
      else rbind (put_byte MsgUDPDatagram
             (make_buf (1 + 1 + length lb + 1 + length ab + 2 + length (ud_Payload msg)), 0)) (\<lambda>c.
      rbind (put_byte (len8 (length lb)) c) (\<lambda>c.
      rbind (put_bytes lb c) (\<lambda>c.
      rbind (put_byte (len8 (length ab)) c) (\<lambda>c.
      rbind (put_bytes ab c) (\<lambda>c.
      rbind (put_u16 (len16 (length (ud_Payload msg))) c) (\<lambda>c.
      rbind (put_bytes (ud_Payload msg) c) (\<lambda>c. Ok (fst c)))))))))"

definition DecodeUDPDatagram :: "byte list \<Rightarrow> UDPDatagramMessage result" where
  "DecodeUDPDatagram data =
     (if length data < 6 then Err (New CodeInvalidArg ''UDP datagram too short'')
      else rbind (go_at data 0) (\<lambda>t.
      if t \<noteq> MsgUDPDatagram then Err (New CodeInvalidArg ''expected UDP datagram type 0x0B'')
      else let off = 1 in
      rbind (go_at data off) (\<lambda>b. let labelLen = unat b; off = off + 1 in
      if off + labelLen > length data then Err (New CodeInvalidArg ''truncated label'')
      else rbind (go_slice data off (off + labelLen)) (\<lambda>label. let off = off + labelLen in
      if off \<ge> length data then Err (New CodeInvalidArg ''truncated src_addr len'')
      else rbind (go_at data off) (\<lambda>b. let srcAddrLen = unat b; off = off + 1 in
      if off + srcAddrLen > length data then Err (New CodeInvalidArg ''truncated src_addr'')
      else rbind (go_slice data off (off + srcAddrLen)) (\<lambda>srcAddr. let off = off + srcAddrLen in
      if off + 2 > length data then Err (New CodeInvalidArg ''truncated payload len'')
      else rbind (go_slice data off (off + 2)) (\<lambda>pl.
        let payloadLen = unat (Uint16 (pl ! 0) (pl ! 1)); off = off + 2 in
      if off + payloadLen > length data then Err (New CodeInvalidArg ''truncated payload'')
      else rbind (go_slice data off (off + payloadLen)) (\<lambda>payload.
      Ok \<lparr> ud_Label = str label, ud_SrcAddr = str srcAddr, ud_Payload = payload \<rparr>))))))))"

definition udp_valid :: "UDPDatagramMessage \<Rightarrow> bool" where
  "udp_valid m \<longleftrightarrow> length (ud_Label m) \<le> maxLabelLen \<and> length (ud_SrcAddr m) \<le> maxSrcAddrLen \<and>
     length (ud_Payload m) \<le> maxUDPPayloadLen"

definition udp_frame :: "UDPDatagramMessage \<Rightarrow> byte list" where
  "udp_frame m = [MsgUDPDatagram, len8 (length (ud_Label m))] @ bytes (ud_Label m) @
     [len8 (length (ud_SrcAddr m))] @ bytes (ud_SrcAddr m) @
     PutUint16 (len16 (length (ud_Payload m))) @ ud_Payload m"

definition udp_empty :: "UDPDatagramMessage \<Rightarrow> bool" where
  "udp_empty m \<longleftrightarrow> ud_Label m = [] \<and> ud_SrcAddr m = [] \<and> ud_Payload m = []"

lemma udp_buf_frame:
  "if udp_valid m then EncodeUDPDatagram m = Ok (udp_frame m) else \<exists>e. EncodeUDPDatagram m = Err e"
  by (auto simp: EncodeUDPDatagram_def udp_valid_def udp_frame_def Let_def curs_start put_curs)

lemma go_at_append: "i = length xs \<Longrightarrow> go_at (xs @ b # ys) i = Ok b"
  by (simp add: go_at_def)

lemma go_slice_append: "i = length xs \<Longrightarrow> j = i + length ys \<Longrightarrow> go_slice (xs @ ys @ zs) i j = Ok ys"
  by (simp add: go_slice_def)

lemma DecodeUDPDatagram_frame:
  assumes v: "udp_valid m" and ne: "\<not> udp_empty m"
  shows "DecodeUDPDatagram (udp_frame m @ junk) = Ok m"
proof -
  let ?l = "bytes (ud_Label m)" and ?a = "bytes (ud_SrcAddr m)" and ?p = "ud_Payload m"
  let ?d = "udp_frame m @ junk"
  define u where "u = PutUint16 (len16 (length ?p))"
  have d: "?d = [MsgUDPDatagram, len8 (length ?l)] @ ?l @ len8 (length ?a) # ?a @ u @ ?p @ junk"
    by (simp add: udp_frame_def u_def)
  have at0: "go_at ?d 0 = Ok MsgUDPDatagram" and at1: "go_at ?d 1 = Ok (len8 (length ?l))"
    by (simp_all add: d go_at_def)
  have sl: "go_slice ?d 2 (2 + length ?l) = Ok ?l"
    unfolding d by (rule go_slice_append) simp_all
  have at2: "go_at ?d (2 + length ?l) = Ok (len8 (length ?a))"
    unfolding d append_assoc [symmetric] append_Cons [symmetric]
    using go_at_append [of "2 + length ?l" "[MsgUDPDatagram, len8 (length ?l)] @ ?l" "len8 (length ?a)"] by simp
  have sa: "go_slice ?d (3 + length ?l) (3 + length ?l + length ?a) = Ok ?a"
    using go_slice_append [of "3 + length ?l" "[MsgUDPDatagram, len8 (length ?l)] @ ?l @ [len8 (length ?a)]"
        "3 + length ?l + length ?a" ?a "u @ ?p @ junk"] by (simp add: d)
  have su: "go_slice ?d (3 + length ?l + length ?a) (5 + length ?l + length ?a) = Ok u"
    using go_slice_append [of "3 + length ?l + length ?a" "[MsgUDPDatagram, len8 (length ?l)] @ ?l @ [len8 (length ?a)] @ ?a"
        "5 + length ?l + length ?a" u "?p @ junk"] by (simp add: d u_def)
  have sp: "go_slice ?d (5 + length ?l + length ?a) (5 + length ?l + length ?a + length ?p) = Ok ?p"
    using go_slice_append [of "5 + length ?l + length ?a" "[MsgUDPDatagram, len8 (length ?l)] @ ?l @ [len8 (length ?a)] @ ?a @ u"
        "5 + length ?l + length ?a + length ?p" ?p junk] by (simp add: d u_def)
  have len: "length ?d = 5 + length ?l + length ?a + length ?p + length junk"
    by (simp add: d u_def)
  have long: "\<not> length ?d < 6"
    using ne unfolding len udp_empty_def by (cases "ud_Label m"; cases "ud_SrcAddr m"; cases "?p") auto
  have small: "unat (len8 (length ?l)) = length ?l" "unat (len8 (length ?a)) = length ?a"
    "unat (Uint16 (u ! 0) (u ! 1)) = length ?p"
    using v by (simp_all add: udp_valid_def max_defs u_def)
  show ?thesis
    using at0 at1 sl at2 sa su sp small long len
    by (simp add: DecodeUDPDatagram_def Let_def numeral_eq_Suc)
qed

subsection \<open>Properties\<close>

text \<open>C11: Whatever \<^verbatim>\<open>EncodeAuthV2\<close> writes successfully, \<^verbatim>\<open>DecodeAuthV2\<close> reads back as the same message,
  and leaves whatever follows the frame on the stream unread.\<close>

theorem AuthV2_roundtrip:
  assumes "EncodeAuthV2 w m = (Ok (), w')"
  shows "\<exists>bs. wr_out w' = wr_out w @ bs \<and>
    DecodeAuthV2 \<lparr> rd_data = bs @ rest, rd_err = e \<rparr> = Ok (m, \<lparr> rd_data = rest, rd_err = e \<rparr>)"
proof -
  obtain buf where buf: "authv2_buf m = Ok buf" "wr_out w' = wr_out w @ buf"
    using send_frame_OkD assms unfolding EncodeAuthV2_def by blast
  with authv2_buf_frame [of m] have "authv2_valid m" and "buf = authv2_frame m"
    by (auto split: if_splits)
  with buf authv2_codec.roundtrip show ?thesis by blast
qed

definition auth_example :: AuthV2Message where
  "auth_example = \<lparr> a2_Token = ''tok'',
     a2_Tunnels = [\<lparr> te_Label = ''web'', te_LocalAddr = ''localhost:80'', te_TunnelType = ''tcp'' \<rparr>],
     a2_PreferredRegion = ''eu'' \<rparr>"

definition fresh_writer :: writer where
  "fresh_writer = \<lparr> wr_out = [], wr_room = None, wr_err = EOF \<rparr>"

lemma auth_example_valid: "authv2_valid auth_example"
  by (simp add: auth_example_def authv2_valid_def entry_valid_def max_defs)

lemma auth_example_sent:
  "EncodeAuthV2 fresh_writer auth_example = (Ok (), fresh_writer\<lparr>wr_out := authv2_frame auth_example\<rparr>)"
  using authv2_buf_frame [of auth_example]
  by (simp add: EncodeAuthV2_def send_frame_def auth_example_valid Write_def fresh_writer_def)

theorem AuthV2_roundtrip_witness:
  "\<exists>bs. authv2_frame auth_example = bs \<and>
    DecodeAuthV2 \<lparr> rd_data = bs @ [7], rd_err = EOF \<rparr> = Ok (auth_example, \<lparr> rd_data = [7], rd_err = EOF \<rparr>)"
  using AuthV2_roundtrip [OF auth_example_sent, of "[7]" EOF] by (simp add: fresh_writer_def)

text \<open>\<^verbatim>\<open>EncodeAuthV2\<close> computes its buffer size exactly: it never indexes out of range, it writes the
  documented byte layout in one \<^verbatim>\<open>Write\<close> when every field is within its limit, and otherwise it
  returns an error and writes nothing.\<close>

theorem EncodeAuthV2_layout:
  "\<exists>e. EncodeAuthV2 w m = (if authv2_valid m then Write w (authv2_frame m) else (Err e, w))"
  using authv2_buf_frame [of m] by (auto simp: EncodeAuthV2_def send_frame_def)


text \<open>An auth frame that is cut short at any byte is rejected with an error; it is never taken for
  another message, and decoding never panics on it.\<close>

theorem DecodeAuthV2_truncated:
  assumes "authv2_valid m" and "k < length (authv2_frame m)"
  shows "\<exists>e'. DecodeAuthV2 \<lparr> rd_data = take k (authv2_frame m), rd_err = e \<rparr> = Err e'"
  using assms by (rule authv2_codec.truncated)

theorem DecodeAuthV2_truncated_witness:
  "\<exists>e'. DecodeAuthV2 \<lparr> rd_data = take 5 (authv2_frame auth_example), rd_err = EOF \<rparr> = Err e'"
proof -
  have "5 < length (authv2_frame auth_example)"
    by (simp add: authv2_frame_def auth_example_def entry_frame_def)
  then show ?thesis
    using DecodeAuthV2_truncated [OF auth_example_valid] by blast
qed

text \<open>An auth response within the limits of the decoder round-trips: the gateway's encoder writes
  it without a panic, and the agent decodes the same tunnel id, hostnames, resume token, region and
  suggested gateways.\<close>

theorem AuthV2Response_roundtrip:
  assumes "authv2resp_valid m"
  shows "EncodeAuthV2Response w m = Write w (authv2resp_frame m) \<and>
    DecodeAuthV2Response \<lparr> rd_data = authv2resp_frame m @ rest, rd_err = e \<rparr> =
      Ok (m, \<lparr> rd_data = rest, rd_err = e \<rparr>)"
  using assms authv2resp_buf_frame [of m] authv2resp_codec.roundtrip [of m]
  by (auto simp: EncodeAuthV2Response_def send_frame_def authv2resp_valid_def)

definition response_example :: "string \<Rightarrow> AuthV2ResponseMessage" where
  "response_example host = \<lparr> r2_Status = AuthStatusOK, r2_TunnelID = ''t-a'',
     r2_Tunnels = [\<lparr> th_Label = ''web'', th_Hostname = host \<rparr>], r2_ResumeToken = ''r'',
     r2_AssignedRegion = [], r2_SuggestedGateways = [''gw:4433''] \<rparr>"

theorem AuthV2Response_roundtrip_witness:
  "DecodeAuthV2Response \<lparr> rd_data = authv2resp_frame (response_example ''web-a.example''), rd_err = EOF \<rparr> =
      Ok (response_example ''web-a.example'', \<lparr> rd_data = [], rd_err = EOF \<rparr>)"
  using AuthV2Response_roundtrip [of "response_example ''web-a.example''" fresh_writer "[]" EOF]
  by (simp add: response_example_def authv2resp_valid_def authv2resp_sendable_def host_valid_def gw_valid_def max_defs)

text \<open>The response encoder checks fewer limits than the decoder: a response whose label exceeds 255
  bytes, or whose hostname or suggested gateway exceeds 512 bytes, is written without an error, but
  the decoder does not give that response back, whatever follows it on the stream.\<close>

theorem AuthV2Response_unchecked_limits:
  assumes "authv2resp_sendable m" and "\<not> authv2resp_valid m"
  shows "EncodeAuthV2Response w m = Write w (authv2resp_frame m) \<and>
    DecodeAuthV2Response \<lparr> rd_data = authv2resp_frame m @ rest, rd_err = e \<rparr> \<noteq> Ok (m, r')"
  using assms authv2resp_buf_frame [of m] authv2resp_codec.dec_Ok_iff
  by (auto simp: EncodeAuthV2Response_def send_frame_def)

theorem AuthV2Response_unchecked_limits_witness:
  "let m = response_example (replicate 600 (CHR ''h'')) in
     EncodeAuthV2Response fresh_writer m = Write fresh_writer (authv2resp_frame m) \<and>
     DecodeAuthV2Response \<lparr> rd_data = authv2resp_frame m @ [], rd_err = EOF \<rparr> \<noteq> Ok (m, \<lparr> rd_data = [], rd_err = EOF \<rparr>)"
proof -
  let ?m = "response_example (replicate 600 (CHR ''h''))"
  have "authv2resp_sendable ?m" "\<not> authv2resp_valid ?m"
    by (simp_all add: response_example_def authv2resp_valid_def authv2resp_sendable_def host_valid_def max_defs)
  from AuthV2Response_unchecked_limits [OF this] show ?thesis
    unfolding Let_def by blast
qed

text \<open>The small frames round-trip whenever the encoder succeeds: the v1 auth request, the v1 auth
  response, the session-resume request and the stream label. In each case the decoder returns the
  fields that were sent and leaves the rest of the stream alone.\<close>

theorem small_frames_roundtrip:
  "(auth_buf token = Ok bs1 \<longrightarrow> DecodeAuth \<lparr> rd_data = bs1 @ rest, rd_err = e \<rparr> =
      Ok (\<lparr> am_Token = token \<rparr>, \<lparr> rd_data = rest, rd_err = e \<rparr>)) \<and>
   (authresp_buf st tid url = Ok bs2 \<longrightarrow> DecodeAuthResponse \<lparr> rd_data = bs2 @ rest, rd_err = e \<rparr> =
      Ok (\<lparr> ar_Status = st, ar_TunnelID = tid, ar_PublicURL = url \<rparr>, \<lparr> rd_data = rest, rd_err = e \<rparr>)) \<and>
   (resume_buf token = Ok bs3 \<longrightarrow> DecodeSessionResume \<lparr> rd_data = bs3 @ rest, rd_err = e \<rparr> =
      Ok (\<lparr> sr_Token = token \<rparr>, \<lparr> rd_data = rest, rd_err = e \<rparr>)) \<and>
   (label_buf l = Ok bs4 \<longrightarrow> DecodeStreamLabel \<lparr> rd_data = bs4 @ rest, rd_err = e \<rparr> =
      Ok (l, \<lparr> rd_data = rest, rd_err = e \<rparr>))"
  using auth_codec.roundtrip authresp_codec.roundtrip resume_codec.roundtrip label_codec.roundtrip
  by (auto simp: auth_buf_frame authresp_buf_frame resume_buf_frame label_buf_frame Let_def split: if_splits)

theorem small_frames_roundtrip_witness:
  "label_buf ''web'' = Ok (label_frame ''web'') \<and>
   DecodeStreamLabel \<lparr> rd_data = label_frame ''web'' @ [1, 2], rd_err = EOF \<rparr> =
     Ok (''web'', \<lparr> rd_data = [1, 2], rd_err = EOF \<rparr>) \<and>
   DecodeAuth \<lparr> rd_data = auth_frame \<lparr> am_Token = ''t'' \<rparr> @ [1, 2], rd_err = EOF \<rparr> =
     Ok (\<lparr> am_Token = ''t'' \<rparr>, \<lparr> rd_data = [1, 2], rd_err = EOF \<rparr>)"
proof -
  have "label_buf ''web'' = Ok (label_frame ''web'')" and "auth_buf ''t'' = Ok (auth_frame \<lparr> am_Token = ''t'' \<rparr>)"
    by (simp_all add: label_buf_frame label_valid_def auth_buf_frame auth_valid_def max_defs)
  then show ?thesis
    using small_frames_roundtrip [of "''t''" "auth_frame \<lparr> am_Token = ''t'' \<rparr>" "[1, 2]" EOF 0 "[]" "[]" "[]" "[]"
        "''web''" "label_frame ''web''"] by simp
qed

text \<open>The hello frame: the encoder never fails to build it, it always announces the protocol version
  3, and after the type byte has been read the decoder returns that version and the client version
  cut to its first 64 bytes.\<close>

theorem Hello_roundtrip:
  "\<exists>bs. EncodeHello w v = Write w (MsgHello # bs) \<and>
     pbind ReadMessageType (\<lambda>_. DecodeHello) \<lparr> rd_data = (MsgHello # bs) @ rest, rd_err = e \<rparr> =
       Ok (\<lparr> hm_Version = 3, hm_ClientVersion = take 64 v \<rparr>, \<lparr> rd_data = rest, rd_err = e \<rparr>)"
proof -
  let ?m = "\<lparr> hm_Version = ProtocolVersion, hm_ClientVersion = take maxVersionLen v \<rparr>"
  have "EncodeHello w v = Write w (MsgHello # hello_body ?m)"
    by (simp add: EncodeHello_def hello_buf_frame send_frame_def)
  moreover have "DecodeHello \<lparr> rd_data = hello_body ?m @ rest, rd_err = e \<rparr> =
      Ok (?m, \<lparr> rd_data = rest, rd_err = e \<rparr>)"
    by (rule hello_codec.roundtrip) (simp add: hello_valid_def)
  ultimately show ?thesis
    by (auto simp: pbind_def ReadMessageType_def ReadFull_def preturn_def ProtocolVersion_def maxVersionLen_def)
qed

text \<open>A v1 auth response is never mistaken for a v2 one: the agent's v2 decoder answers every v1
  response frame with the wrong-type error.\<close>

theorem DecodeAuthV2Response_rejects_v1:
  "DecodeAuthV2Response \<lparr> rd_data = authresp_frame m @ rest, rd_err = e \<rparr> =
     Err (New CodeInvalidArg ''expected auth v2 response type 0x07'')"
proof -
  obtain a b where ab: "PutUint16 (len16 (length (ar_TunnelID m))) = [a, b]"
    by (simp add: PutUint16_def)
  have "MsgAuthResponse \<noteq> MsgAuthRespV2"
    by (simp add: MsgAuthResponse_def MsgAuthRespV2_def)
  then show ?thesis
    by (simp add: DecodeAuthV2Response_def authresp_frame_def ab pbind_def pctx_def ReadFull_def pfail_def
        numeral_eq_Suc)
qed

text \<open>A UDP datagram the encoder accepts decodes to the same label, source address and payload,
  except for the datagram whose three fields are all empty: its encoding is 5 bytes long and the
  decoder rejects everything under 6 bytes.\<close>

theorem UDPDatagram_roundtrip:
  assumes "EncodeUDPDatagram m = Ok data"
  shows "DecodeUDPDatagram data =
    (if udp_empty m then Err (New CodeInvalidArg ''UDP datagram too short'') else Ok m)"
proof -
  have v: "udp_valid m" and d: "data = udp_frame m"
    using assms udp_buf_frame [of m] by (auto split: if_splits)
  show ?thesis
  proof (cases "udp_empty m")
    case True
    then show ?thesis
      by (simp add: d udp_frame_def udp_empty_def DecodeUDPDatagram_def)
  next
    case False
    with v show ?thesis
      using DecodeUDPDatagram_frame [of m "[]"] by (simp add: d)
  qed
qed

theorem UDPDatagram_roundtrip_witness:
  "let m = \<lparr> ud_Label = ''dns'', ud_SrcAddr = ''10.0.0.1:53'', ud_Payload = [1, 2, 3] \<rparr> in
     DecodeUDPDatagram (udp_frame m) = Ok m"
  using UDPDatagram_roundtrip [of "\<lparr> ud_Label = ''dns'', ud_SrcAddr = ''10.0.0.1:53'', ud_Payload = [1, 2, 3] \<rparr>"]
    udp_buf_frame [of "\<lparr> ud_Label = ''dns'', ud_SrcAddr = ''10.0.0.1:53'', ud_Payload = [1, 2, 3] \<rparr>"]
  by (simp add: udp_valid_def udp_empty_def max_defs)

text \<open>\<^verbatim>\<open>DecodeUDPDatagram\<close> never panics: on any byte string from the network every index and slice
  expression is within bounds.\<close>

theorem DecodeUDPDatagram_no_panic: "DecodeUDPDatagram data \<noteq> Panic"
  by (auto simp: DecodeUDPDatagram_def Let_def rbind_eq_Panic_iff go_at_def go_slice_def split: if_splits)

end
