(* ===== verification/TE_Relay.thy ===== *)
theory TE_Relay
  imports TE_Wire "HOL-Library.Sublist"
begin

text \<open>
  The byte relay of \<^verbatim>\<open>src/internal/relay/relay.go\<close>.

  \<^item> \<open>Stats\<close> and its methods; counters are unbounded integers.
  \<^item> \<open>writeChunk\<close> over any destination \<open>wr\<close> (a state and the result of one \<^verbatim>\<open>Write\<close>); that it returns
    is proved from the documented contract of \<^verbatim>\<open>io.Writer\<close>.
  \<^item> \<open>relay_step\<close> is one atomic action of the two goroutines of \<^verbatim>\<open>relayOneWay\<close>, of the channel between
    them, of the errgroup that cancels both on the first error, or of the parent context. Sources may
    return any bytes and any error on each \<^verbatim>\<open>Read\<close>; the destination is a \<open>writer\<close>, which accepts bytes
    up to an arbitrary point and then fails. Timers are the nondeterministic choice of the timeout
    step. Read and write deadlines, buffer pooling and logging have no effect on the bytes relayed
    and are not represented. \<open>rl_read\<close> is a history variable: all bytes returned by the source.
\<close>

subsection \<open>Errors of the network\<close>

fun isIdleTimeout :: "goerror \<Rightarrow> bool" where
  "isIdleTimeout (NetErr timeout temporary) = timeout"
| "isIdleTimeout CtxDeadline = True"
| "isIdleTimeout (WrapErr m e) = isIdleTimeout e"
| "isIdleTimeout (CodedErr c m (Some e)) = isIdleTimeout e"
| "isIdleTimeout e = False"

fun errors_Is :: "goerror \<Rightarrow> goerror \<Rightarrow> bool" where
  "errors_Is (WrapErr m e) target = (WrapErr m e = target \<or> errors_Is e target)"
| "errors_Is (CodedErr c m (Some e)) target = (CodedErr c m (Some e) = target \<or> errors_Is e target)"
| "errors_Is e target = (e = target)"

subsection \<open>Statistics\<close>

record Stats =
  st_BytesSent :: int
  st_BytesReceived :: int
  st_DroppedFrames :: int
  st_QueueTimeouts :: int
  st_WriteTimeouts :: int
  st_MaxQueueDepth :: nat

definition newStats :: Stats where
  "newStats = \<lparr> st_BytesSent = 0, st_BytesReceived = 0, st_DroppedFrames = 0, st_QueueTimeouts = 0,
     st_WriteTimeouts = 0, st_MaxQueueDepth = 0 \<rparr>"

definition AddSent :: "int \<Rightarrow> Stats \<Rightarrow> Stats" where
  "AddSent n s = s\<lparr>st_BytesSent := st_BytesSent s + n\<rparr>"

definition AddReceived :: "int \<Rightarrow> Stats \<Rightarrow> Stats" where
  "AddReceived n s = s\<lparr>st_BytesReceived := st_BytesReceived s + n\<rparr>"

definition AddDroppedFrames :: "int \<Rightarrow> Stats \<Rightarrow> Stats" where
  "AddDroppedFrames n s = s\<lparr>st_DroppedFrames := st_DroppedFrames s + n\<rparr>"

definition AddQueueTimeout :: "Stats \<Rightarrow> Stats" where
  "AddQueueTimeout s = s\<lparr>st_QueueTimeouts := st_QueueTimeouts s + 1\<rparr>"

definition AddWriteTimeout :: "Stats \<Rightarrow> Stats" where
  "AddWriteTimeout s = s\<lparr>st_WriteTimeouts := st_WriteTimeouts s + 1\<rparr>"

definition ObserveQueueDepth :: "nat \<Rightarrow> Stats \<Rightarrow> Stats" where
  "ObserveQueueDepth depth s =
     (if depth > st_MaxQueueDepth s then s\<lparr>st_MaxQueueDepth := depth\<rparr> else s)"

text \<open>The two calls of \<^verbatim>\<open>relayOneWay\<close> differ in the counter they pass as \<^verbatim>\<open>addBytes\<close>.\<close>

datatype direction = DirSent | DirReceived

fun addBytes :: "direction \<Rightarrow> int \<Rightarrow> Stats \<Rightarrow> Stats" where
  "addBytes DirSent = AddSent"
| "addBytes DirReceived = AddReceived"

fun st_bytes :: "direction \<Rightarrow> Stats \<Rightarrow> int" where
  "st_bytes DirSent s = st_BytesSent s"
| "st_bytes DirReceived s = st_BytesReceived s"

lemmas stats_defs = AddSent_def AddReceived_def AddDroppedFrames_def AddQueueTimeout_def AddWriteTimeout_def
  ObserveQueueDepth_def newStats_def

subsection \<open>Writing one chunk\<close>

partial_function (option) writeChunk_from ::
  "('w \<Rightarrow> byte list \<Rightarrow> (nat \<times> goerror option) \<times> 'w) \<Rightarrow> 'w \<Rightarrow> byte list \<Rightarrow> nat \<Rightarrow> (goerror option \<times> 'w) option" where
  "writeChunk_from wr dst chunk written =
     (if written < length chunk
      then (case wr dst (drop written chunk) of ((n, err), dst') \<Rightarrow>
        (case err of Some e \<Rightarrow> Some (Some e, dst')
         | None \<Rightarrow> writeChunk_from wr dst' chunk (written + n)))
      else Some (None, dst))"

definition writeChunk ::
  "('w \<Rightarrow> byte list \<Rightarrow> (nat \<times> goerror option) \<times> 'w) \<Rightarrow> 'w \<Rightarrow> byte list \<Rightarrow> (goerror option \<times> 'w) option" where
  "writeChunk wr dst chunk = writeChunk_from wr dst chunk 0"

text \<open>The documented contract of \<^verbatim>\<open>io.Writer\<close>: it writes at most what it was given, and a short write
  comes with an error.\<close>

definition io_writer :: "('w \<Rightarrow> byte list \<Rightarrow> (nat \<times> goerror option) \<times> 'w) \<Rightarrow> bool" where
  "io_writer wr \<longleftrightarrow> (\<forall>w bs. fst (fst (wr w bs)) \<le> length bs \<and>
     (fst (fst (wr w bs)) < length bs \<longrightarrow> snd (fst (wr w bs)) \<noteq> None))"

definition WriteN :: "writer \<Rightarrow> byte list \<Rightarrow> (nat \<times> goerror option) \<times> writer" where
  "WriteN w bs = (case wr_room w of
       None \<Rightarrow> ((length bs, None), w\<lparr>wr_out := wr_out w @ bs\<rparr>)
     | Some n \<Rightarrow>
         if length bs \<le> n
         then ((length bs, None), w\<lparr>wr_out := wr_out w @ bs, wr_room := Some (n - length bs)\<rparr>)
         else ((n, Some (wr_err w)), w\<lparr>wr_out := wr_out w @ take n bs, wr_room := Some 0\<rparr>))"

lemma io_writer_WriteN: "io_writer WriteN"
  by (auto simp: io_writer_def WriteN_def split: option.splits)

text \<open>Under the contract one \<^verbatim>\<open>Write\<close> settles the loop.\<close>

lemma writeChunk_one_write:
  assumes "io_writer wr"
  shows "writeChunk wr dst chunk =
     (if chunk = [] then Some (None, dst)
      else Some (snd (fst (wr dst chunk)), snd (wr dst chunk)))"
proof (cases "chunk = []")
  case True
  then show ?thesis
    by (simp add: writeChunk_def writeChunk_from.simps)
next
  case False
  obtain n err dst' where wr: "wr dst chunk = ((n, err), dst')"
    by (metis prod.collapse)
  have n: "n \<le> length chunk" "n < length chunk \<longrightarrow> err \<noteq> None"
    using assms wr unfolding io_writer_def by (metis fst_conv snd_conv)+
  show ?thesis
  proof (cases err)
    case None
    with n have "n = length chunk" by simp
    then have "writeChunk_from wr dst' chunk n = Some (None, dst')"
      by (simp add: writeChunk_from.simps)
    with False wr None show ?thesis
      by (simp add: writeChunk_def writeChunk_from.simps [of wr dst])
  next
    case (Some e)
    with False wr show ?thesis
      by (simp add: writeChunk_def writeChunk_from.simps [of wr dst])
  qed
qed

subsection \<open>One direction of a relay\<close>

record relayOptions =
  ro_bufferSize :: nat
  ro_queueSize :: nat

definition defaultRelayOptions :: relayOptions where
  "defaultRelayOptions = \<lparr> ro_bufferSize = 32 * 1024, ro_queueSize = 16 \<rparr>"

datatype rphase = RRead | REnqueue "byte list" "goerror option" | RDone "goerror option"
datatype wphase = WRecv | WWrite "byte list" | WDone "goerror option"

record relay =
  rl_reader :: rphase
  rl_writer :: wphase
  rl_chunks :: "byte list list"
  rl_dst :: writer
  rl_cancelled :: bool
  rl_err :: "goerror option"
  rl_stats :: Stats
  rl_read :: "byte list"

definition relay_init :: "writer \<Rightarrow> relay" where
  "relay_init dst = \<lparr> rl_reader = RRead, rl_writer = WRecv, rl_chunks = [], rl_dst = dst,
     rl_cancelled = False, rl_err = None, rl_stats = newStats, rl_read = [] \<rparr>"

text \<open>A goroutine of the errgroup returns: the first error is kept and cancels the group.\<close>

definition group_return :: "goerror option \<Rightarrow> relay \<Rightarrow> relay" where
  "group_return e s = (case e of None \<Rightarrow> s
     | Some x \<Rightarrow> if rl_err s = None then s\<lparr>rl_err := Some x, rl_cancelled := True\<rparr> else s)"

definition reader_return :: "goerror option \<Rightarrow> relay \<Rightarrow> relay" where
  "reader_return e s = group_return e (s\<lparr>rl_reader := RDone e\<rparr>)"

definition writer_return :: "goerror option \<Rightarrow> relay \<Rightarrow> relay" where
  "writer_return e s = group_return e (s\<lparr>rl_writer := WDone e\<rparr>)"

text \<open>The end of the reader's loop body, where the error of \<^verbatim>\<open>Read\<close> is looked at.\<close>

definition after_read :: "goerror option \<Rightarrow> relay \<Rightarrow> relay" where
  "after_read err s = (case err of None \<Rightarrow> s\<lparr>rl_reader := RRead\<rparr>
     | Some e \<Rightarrow> if errors_Is e EOF then reader_return None s else reader_return (Some e) s)"

definition note_write_error :: "goerror \<Rightarrow> Stats \<Rightarrow> Stats" where
  "note_write_error e st = (if isIdleTimeout e then AddWriteTimeout st else st)"

inductive relay_step :: "relayOptions \<Rightarrow> direction \<Rightarrow> relay \<Rightarrow> relay \<Rightarrow> bool"
  for opts :: relayOptions and dir :: direction where
  read_data: "rl_reader s = RRead \<Longrightarrow> bs \<noteq> [] \<Longrightarrow> length bs \<le> ro_bufferSize opts \<Longrightarrow>
    relay_step opts dir s (s\<lparr>rl_reader := REnqueue bs err, rl_read := rl_read s @ bs,
      rl_stats := ObserveQueueDepth (length (rl_chunks s) + 1) (rl_stats s)\<rparr>)"
| read_nothing: "rl_reader s = RRead \<Longrightarrow> relay_step opts dir s (after_read err s)"
| enqueue: "rl_reader s = REnqueue bs err \<Longrightarrow> length (rl_chunks s) < ro_queueSize opts \<Longrightarrow>
    relay_step opts dir s (after_read err (s\<lparr>rl_chunks := rl_chunks s @ [bs]\<rparr>))"
| enqueue_cancelled: "rl_reader s = REnqueue bs err \<Longrightarrow> rl_cancelled s \<Longrightarrow> e \<in> {CtxCanceled, CtxDeadline} \<Longrightarrow>
    relay_step opts dir s (reader_return (Some e) s)"
| enqueue_timeout: "rl_reader s = REnqueue bs err \<Longrightarrow>
    relay_step opts dir s (reader_return (Some ErrBackpressure)
      (s\<lparr>rl_stats := AddQueueTimeout (AddDroppedFrames 1 (rl_stats s))\<rparr>))"
| recv: "rl_writer s = WRecv \<Longrightarrow> rl_chunks s = c # cs \<Longrightarrow>
    relay_step opts dir s (s\<lparr>rl_chunks := cs, rl_writer := WWrite c\<rparr>)"
| write_done: "rl_writer s = WWrite c \<Longrightarrow> writeChunk WriteN (rl_dst s) c = Some (None, dst') \<Longrightarrow>
    relay_step opts dir s (s\<lparr>rl_dst := dst', rl_writer := WRecv,
      rl_stats := addBytes dir (int (length c)) (rl_stats s)\<rparr>)"
| write_error: "rl_writer s = WWrite c \<Longrightarrow> writeChunk WriteN (rl_dst s) c = Some (Some e, dst') \<Longrightarrow>
    relay_step opts dir s (writer_return (Some e)
      (s\<lparr>rl_dst := dst', rl_stats := note_write_error e (rl_stats s)\<rparr>))"
| drained: "rl_writer s = WRecv \<Longrightarrow> rl_chunks s = [] \<Longrightarrow> rl_reader s = RDone r \<Longrightarrow>
    relay_step opts dir s (writer_return None s)"
| recv_cancelled: "rl_writer s = WRecv \<Longrightarrow> rl_cancelled s \<Longrightarrow> e \<in> {CtxCanceled, CtxDeadline} \<Longrightarrow>
    relay_step opts dir s (writer_return (Some e) s)"
| parent_cancel: "relay_step opts dir s (s\<lparr>rl_cancelled := True\<rparr>)"

inductive_cases relay_stepE: "relay_step opts dir s t"

definition relay_reach :: "relayOptions \<Rightarrow> direction \<Rightarrow> relay \<Rightarrow> bool" where
  "relay_reach opts dir =
     reach (\<lambda>s. \<exists>room err. s = relay_init \<lparr> wr_out = [], wr_room = room, wr_err = err \<rparr>) (relay_step opts dir)"

definition relay_finished :: "relay \<Rightarrow> bool" where
  "relay_finished s \<longleftrightarrow> (\<exists>r w. rl_reader s = RDone r \<and> rl_writer s = WDone w)"

subsection \<open>The end of a bidirectional relay\<close>

text \<open>What \<^verbatim>\<open>bidirectionalWithOptions\<close> makes of the errgroup's error, given the error of the outer
  context and the number of write timeouts.\<close>

definition relay_result :: "goerror option \<Rightarrow> goerror option \<Rightarrow> int \<Rightarrow> goerror option" where
  "relay_result err ctxErr writeTimeouts =
     (let err = (case err of Some e \<Rightarrow> if isIdleTimeout e \<and> writeTimeouts = 0 then None else Some e | None \<Rightarrow> None)
      in case err of Some e \<Rightarrow> if errors_Is e NetClosed \<and> ctxErr \<noteq> None then ctxErr else Some e | None \<Rightarrow> None)"

subsection \<open>Bandwidth limiting\<close>

text \<open>\<open>wait burst n\<close> is \<^verbatim>\<open>limiter.WaitN(ctx, n)\<close> of a \<^verbatim>\<open>rate.Limiter\<close> with that burst.\<close>

definition min64 :: "int \<Rightarrow> int \<Rightarrow> int" where
  "min64 a b = (if a < b then a else b)"

definition bandwidth_burst :: "int \<Rightarrow> int option" where
  "bandwidth_burst bandwidthBps = (if bandwidthBps \<le> 0 then None else Some (min64 bandwidthBps (32 * 1024)))"

definition bandwidthReader_Read ::
  "(int \<Rightarrow> int \<Rightarrow> goerror option) \<Rightarrow> int \<Rightarrow> nat \<times> goerror option \<Rightarrow> nat \<times> goerror option" where
  "bandwidthReader_Read wait burst inner =
     (case inner of (n, err) \<Rightarrow>
        if n > 0 then (case wait burst (int n) of Some waitErr \<Rightarrow> (n, Some waitErr) | None \<Rightarrow> (n, err))
        else (n, err))"

subsection \<open>The invariant of one direction\<close>

definition reader_holds :: "relay \<Rightarrow> byte list" where
  "reader_holds s = (case rl_reader s of REnqueue bs err \<Rightarrow> bs | _ \<Rightarrow> [])"

definition writer_holds :: "relay \<Rightarrow> byte list" where
  "writer_holds s = (case rl_writer s of WWrite c \<Rightarrow> c | _ \<Rightarrow> [])"

definition reader_failed :: "relay \<Rightarrow> bool" where
  "reader_failed s \<longleftrightarrow> (\<exists>e. rl_reader s = RDone (Some e))"

definition writer_failed :: "relay \<Rightarrow> bool" where
  "writer_failed s \<longleftrightarrow> (\<exists>e. rl_writer s = WDone (Some e))"

text \<open>\<open>held\<close> is every byte accounted for: delivered, held by the writer, queued, held by the reader.
  It is all that was read, unless the reader has failed.\<close>

definition held :: "relay \<Rightarrow> byte list" where
  "held s = wr_out (rl_dst s) @ writer_holds s @ concat (rl_chunks s) @ reader_holds s"

definition inflight :: "relay \<Rightarrow> bool" where
  "inflight s \<longleftrightarrow> prefix (held s) (rl_read s) \<and> (\<not> reader_failed s \<longrightarrow> held s = rl_read s)"

definition relay_inv :: "relayOptions \<Rightarrow> direction \<Rightarrow> relay \<Rightarrow> bool" where
  "relay_inv opts dir s \<longleftrightarrow>
     (\<not> writer_failed s \<longrightarrow> inflight s \<and> st_bytes dir (rl_stats s) = int (length (wr_out (rl_dst s)))) \<and>
     prefix (wr_out (rl_dst s)) (rl_read s) \<and>
     st_bytes dir (rl_stats s) \<le> int (length (wr_out (rl_dst s))) \<and>
     length (rl_chunks s) \<le> ro_queueSize opts \<and> st_MaxQueueDepth (rl_stats s) \<le> ro_queueSize opts + 1 \<and>
     (rl_err s = None \<longrightarrow> \<not> reader_failed s \<and> \<not> writer_failed s) \<and>
     (rl_writer s = WDone None \<longrightarrow> rl_chunks s = [] \<and> (\<exists>r. rl_reader s = RDone r))"

lemma writeChunk_WriteN_ok:
  "writeChunk WriteN w c = Some (None, w') \<Longrightarrow> wr_out w' = wr_out w @ c"
  by (auto simp: writeChunk_one_write [OF io_writer_WriteN] WriteN_def split: if_splits option.splits)

lemma writeChunk_WriteN_err:
  "writeChunk WriteN w c = Some (Some e, w') \<Longrightarrow> \<exists>n. wr_out w' = wr_out w @ take n c"
  by (auto simp: writeChunk_one_write [OF io_writer_WriteN] WriteN_def split: if_splits option.splits)

lemma addBytes_simps [simp]:
  "st_bytes dir (addBytes dir n st) = st_bytes dir st + n"
  "st_MaxQueueDepth (addBytes dir n st) = st_MaxQueueDepth st"
  by (cases dir; simp add: stats_defs)+

lemma stats_simps [simp]:
  "st_bytes dir (ObserveQueueDepth d st) = st_bytes dir st"
  "st_bytes dir (AddQueueTimeout st) = st_bytes dir st"
  "st_bytes dir (AddDroppedFrames n st) = st_bytes dir st"
  "st_bytes dir (note_write_error e st) = st_bytes dir st"
  "st_MaxQueueDepth (AddQueueTimeout st) = st_MaxQueueDepth st"
  "st_MaxQueueDepth (AddDroppedFrames n st) = st_MaxQueueDepth st"
  "st_MaxQueueDepth (note_write_error e st) = st_MaxQueueDepth st"
  "st_MaxQueueDepth (ObserveQueueDepth d st) = max d (st_MaxQueueDepth st)"
  "st_bytes dir newStats = 0"
  by (cases dir; simp add: stats_defs note_write_error_def)+

lemmas relay_defs = relay_inv_def inflight_def held_def reader_holds_def writer_holds_def reader_failed_def writer_failed_def
  reader_return_def writer_return_def group_return_def after_read_def

lemma relay_inv_init: "relay_inv opts dir (relay_init \<lparr> wr_out = [], wr_room = room, wr_err = err \<rparr>)"
  by (auto simp: relay_defs relay_init_def) (simp_all add: newStats_def)

lemma relay_inv_writing:
  assumes "relay_inv opts dir s" and "rl_writer s = WWrite c"
  shows "prefix (wr_out (rl_dst s) @ c) (rl_read s)"
proof -
  have "held s = (wr_out (rl_dst s) @ c) @ concat (rl_chunks s) @ reader_holds s"
    using assms(2) by (simp add: held_def writer_holds_def)
  moreover have "prefix (held s) (rl_read s)"
    using assms by (simp add: relay_inv_def inflight_def writer_failed_def)
  ultimately show ?thesis
    by (metis append_prefixD)
qed

lemma relay_inv_step:
  assumes "relay_inv opts dir s" and "relay_step opts dir s t"
  shows "relay_inv opts dir t"
  using assms(2)
proof cases
  case (read_data bs err)
  then have "held t = held s @ bs" "rl_read t = rl_read s @ bs"
    by (simp_all add: held_def reader_holds_def writer_holds_def)
  with read_data assms(1) show ?thesis
    by (auto simp: relay_inv_def inflight_def reader_failed_def writer_failed_def)
next
  case (read_nothing err)
  with assms(1) show ?thesis
    by (auto simp: relay_defs split: option.splits wphase.splits)
next
  case (enqueue bs err)
  with assms(1) show ?thesis
    by (auto simp: relay_defs split: option.splits wphase.splits)
next
  case (enqueue_cancelled bs err e)
  then have "held s = held t @ bs" "rl_read t = rl_read s" "reader_failed t" "rl_err t \<noteq> None"
    by (auto simp: held_def reader_holds_def writer_holds_def reader_return_def group_return_def reader_failed_def)
  with enqueue_cancelled assms(1) show ?thesis
    by (auto simp: relay_inv_def inflight_def reader_failed_def writer_failed_def reader_return_def group_return_def
        dest: append_prefixD) (metis prefixI)?
next
  case (enqueue_timeout bs err)
  then have "held s = held t @ bs" "rl_read t = rl_read s" "reader_failed t" "rl_err t \<noteq> None"
    by (auto simp: held_def reader_holds_def writer_holds_def reader_return_def group_return_def reader_failed_def)
  with enqueue_timeout assms(1) show ?thesis
    by (auto simp: relay_inv_def inflight_def reader_failed_def writer_failed_def reader_return_def group_return_def
        dest: append_prefixD) (metis prefixI)?
next
  case (recv c cs)
  with assms(1) show ?thesis
    by (auto simp: relay_defs split: rphase.splits)
next
  case (write_done c dst')
  then have dst: "wr_out dst' = wr_out (rl_dst s) @ c"
    using writeChunk_WriteN_ok by blast
  with write_done have "held t = held s"
    by (simp add: held_def reader_holds_def writer_holds_def)
  with write_done dst relay_inv_writing [OF assms(1)] assms(1) show ?thesis
    by (auto simp: relay_inv_def inflight_def reader_failed_def writer_failed_def)
next
  case (write_error c e dst')
  obtain n where n: "wr_out dst' = wr_out (rl_dst s) @ take n c"
    using writeChunk_WriteN_err write_error by blast
  have "prefix ((wr_out (rl_dst s) @ take n c) @ drop n c) (rl_read s)"
    using relay_inv_writing [OF assms(1)] write_error by simp
  then have "prefix (wr_out dst') (rl_read s)"
    unfolding n by (rule append_prefixD)
  with write_error n assms(1) show ?thesis
    by (auto simp: relay_inv_def reader_failed_def writer_failed_def writer_return_def group_return_def)
next
  case (drained r)
  with assms(1) show ?thesis
    by (auto simp: relay_defs split: rphase.splits)
next
  case (recv_cancelled e)
  with assms(1) show ?thesis
    by (auto simp: relay_defs split: rphase.splits)
next
  case parent_cancel
  with assms(1) show ?thesis
    by (auto simp: relay_defs split: rphase.splits wphase.splits)
qed

lemma relay_inv_reach: "relay_reach opts dir s \<Longrightarrow> relay_inv opts dir s"
  unfolding relay_reach_def
  by (erule reach_invariant) (auto intro: relay_inv_init relay_inv_step)

subsection \<open>Draining\<close>

text \<open>The work left for the writer once the reader has returned.\<close>

definition relay_work :: "relay \<Rightarrow> nat" where
  "relay_work s = (case rl_writer s of
     WRecv \<Rightarrow> 2 * length (rl_chunks s) + 1 | WWrite c \<Rightarrow> 2 * length (rl_chunks s) + 2 | WDone e \<Rightarrow> 0)"

lemma relay_step_work:
  assumes "rl_reader s = RDone r" and "relay_step opts dir s t" and "t \<noteq> s\<lparr>rl_cancelled := True\<rparr>"
  shows "rl_reader t = RDone r \<and> relay_work t < relay_work s"
  using assms(2) by cases (use assms(1,3) in \<open>auto simp: relay_work_def writer_return_def group_return_def\<close>)

lemma writeChunk_WriteN_total: "\<exists>err dst'. writeChunk WriteN dst c = Some (err, dst')"
  by (simp add: writeChunk_one_write [OF io_writer_WriteN])

lemma relay_step_enabled:
  assumes "rl_reader s = RDone r" and "\<not> relay_finished s"
  shows "\<exists>t. relay_step opts dir s t \<and> t \<noteq> s\<lparr>rl_cancelled := True\<rparr>"
proof (cases "rl_writer s")
  case WRecv
  show ?thesis
  proof (cases "rl_chunks s")
    case Nil
    have "writer_return None s \<noteq> s\<lparr>rl_cancelled := True\<rparr>"
      using WRecv by (auto simp: writer_return_def group_return_def dest: arg_cong [where f = rl_writer])
    with relay_step.drained [OF WRecv Nil assms(1)] show ?thesis by blast
  next
    case (Cons c cs)
    have "s\<lparr>rl_chunks := cs, rl_writer := WWrite c\<rparr> \<noteq> s\<lparr>rl_cancelled := True\<rparr>"
      using WRecv by (auto dest: arg_cong [where f = rl_writer])
    with relay_step.recv [OF WRecv Cons] show ?thesis by blast
  qed
next
  case (WWrite c)
  obtain err dst' where w: "writeChunk WriteN (rl_dst s) c = Some (err, dst')"
    using writeChunk_WriteN_total by blast
  show ?thesis
  proof (cases err)
    case None
    let ?t = "s\<lparr>rl_dst := dst', rl_writer := WRecv, rl_stats := addBytes dir (int (length c)) (rl_stats s)\<rparr>"
    have "?t \<noteq> s\<lparr>rl_cancelled := True\<rparr>"
      using WWrite by (auto dest: arg_cong [where f = rl_writer])
    with relay_step.write_done [OF WWrite, of dst'] w None show ?thesis by blast
  next
    case (Some e)
    let ?t = "writer_return (Some e) (s\<lparr>rl_dst := dst', rl_stats := note_write_error e (rl_stats s)\<rparr>)"
    have "?t \<noteq> s\<lparr>rl_cancelled := True\<rparr>"
      using WWrite by (auto simp: writer_return_def group_return_def dest: arg_cong [where f = rl_writer])
    with relay_step.write_error [OF WWrite, of e dst'] w Some show ?thesis by blast
  qed
next
  case (WDone w)
  with assms show ?thesis by (simp add: relay_finished_def)
qed

subsection \<open>Properties\<close>

text \<open>In every reachable state of a relay direction, whatever the interleaving of the two goroutines,
  the timeouts, the cancellation and the failures of either side, the bytes the destination has
  received are a prefix of the bytes read from the source: nothing is lost in the middle,
  duplicated or reordered.\<close>

theorem relay_delivers_prefix:
  assumes "relay_reach opts dir s"
  shows "prefix (wr_out (rl_dst s)) (rl_read s)"
  using relay_inv_reach [OF assms] by (simp add: relay_inv_def)

definition relay_example :: relay where
  "relay_example = (relay_init \<lparr> wr_out = [], wr_room = None, wr_err = EOF \<rparr>)
     \<lparr>rl_reader := REnqueue [1, 2] (Some EOF), rl_read := [1, 2], rl_stats := ObserveQueueDepth 1 newStats\<rparr>"

lemma relay_example_reach: "relay_reach defaultRelayOptions DirSent relay_example"
proof -
  let ?s = "relay_init \<lparr> wr_out = [], wr_room = None, wr_err = EOF \<rparr>"
  have "relay_step defaultRelayOptions DirSent ?s
      (?s\<lparr>rl_reader := REnqueue [1, 2] (Some EOF), rl_read := rl_read ?s @ [1, 2],
        rl_stats := ObserveQueueDepth (length (rl_chunks ?s) + 1) (rl_stats ?s)\<rparr>)"
    by (rule relay_step.read_data) (simp_all add: relay_init_def defaultRelayOptions_def)
  moreover have "relay_reach defaultRelayOptions DirSent ?s"
    unfolding relay_reach_def by (rule reach_init) blast
  ultimately show ?thesis
    unfolding relay_reach_def relay_example_def by (auto intro: reach_step simp: relay_init_def)
qed

theorem relay_delivers_prefix_witness: "prefix (wr_out (rl_dst relay_example)) (rl_read relay_example)"
  using relay_delivers_prefix [OF relay_example_reach] .

text \<open>When a relay direction has finished without an error, every byte read from the source has been
  written to the destination, in order, and the byte counter of its direction is exactly their
  number.\<close>

theorem relay_clean_end:
  assumes "relay_reach opts dir s" and "relay_finished s" and "rl_err s = None"
  shows "wr_out (rl_dst s) = rl_read s \<and> st_bytes dir (rl_stats s) = int (length (rl_read s))"
proof -
  obtain r w where rw: "rl_reader s = RDone r" "rl_writer s = WDone w"
    using assms(2) by (auto simp: relay_finished_def)
  moreover have inv: "relay_inv opts dir s"
    using assms(1) by (rule relay_inv_reach)
  ultimately have "w = None" "\<not> reader_failed s" "\<not> writer_failed s"
    using assms(3) by (cases w; auto simp: relay_inv_def writer_failed_def)+
  with inv rw have "held s = rl_read s" "held s = wr_out (rl_dst s)"
    "st_bytes dir (rl_stats s) = int (length (wr_out (rl_dst s)))"
    by (auto simp: relay_inv_def inflight_def held_def reader_holds_def writer_holds_def)
  then show ?thesis by simp
qed

definition relay_example_end :: relay where
  "relay_example_end = \<lparr> rl_reader = RDone None, rl_writer = WDone None, rl_chunks = [],
     rl_dst = \<lparr> wr_out = [1, 2], wr_room = None, wr_err = EOF \<rparr>, rl_cancelled = False, rl_err = None,
     rl_stats = AddSent 2 (ObserveQueueDepth 1 newStats), rl_read = [1, 2] \<rparr>"

lemma relay_reach_step: "relay_reach opts dir s \<Longrightarrow> relay_step opts dir s t \<Longrightarrow> relay_reach opts dir t"
  unfolding relay_reach_def by (rule reach_step)

definition relay_example1 :: relay where
  "relay_example1 = relay_example\<lparr>rl_chunks := [[1, 2]], rl_reader := RDone None\<rparr>"

definition relay_example2 :: relay where
  "relay_example2 = relay_example1\<lparr>rl_chunks := [], rl_writer := WWrite [1, 2]\<rparr>"

definition relay_example3 :: relay where
  "relay_example3 = relay_example_end\<lparr>rl_writer := WRecv\<rparr>"

lemmas relay_example_defs = relay_example_def relay_example1_def relay_example2_def relay_example3_def relay_example_end_def
  relay_init_def

lemma relay_example_steps:
  "relay_step defaultRelayOptions DirSent relay_example relay_example1"
  "relay_step defaultRelayOptions DirSent relay_example1 relay_example2"
  "relay_step defaultRelayOptions DirSent relay_example2 relay_example3"
  "relay_step defaultRelayOptions DirSent relay_example3 relay_example_end"
proof -
  show "relay_step defaultRelayOptions DirSent relay_example relay_example1"
    using relay_step.enqueue [of relay_example "[1, 2]" "Some EOF" defaultRelayOptions DirSent]
    by (simp add: relay_example_defs defaultRelayOptions_def after_read_def reader_return_def group_return_def)
  show "relay_step defaultRelayOptions DirSent relay_example1 relay_example2"
    unfolding relay_example2_def by (rule relay_step.recv) (simp_all add: relay_example_defs)
  show "relay_step defaultRelayOptions DirSent relay_example2 relay_example3"
    using relay_step.write_done [of relay_example2 "[1, 2]" "rl_dst relay_example_end" defaultRelayOptions DirSent]
    by (simp add: relay_example_defs writeChunk_one_write [OF io_writer_WriteN] WriteN_def)
  show "relay_step defaultRelayOptions DirSent relay_example3 relay_example_end"
    using relay_step.drained [of relay_example3 None defaultRelayOptions DirSent]
    by (simp add: relay_example_defs writer_return_def group_return_def)
qed

lemma relay_example_end_reach: "relay_reach defaultRelayOptions DirSent relay_example_end"
  using relay_example_reach relay_example_steps by (metis relay_reach_step)

theorem relay_clean_end_witness:
  "relay_finished relay_example_end \<and> wr_out (rl_dst relay_example_end) = rl_read relay_example_end"
  using relay_clean_end [OF relay_example_end_reach]
  by (simp add: relay_finished_def relay_example_end_def)



text \<open>The relay's memory is bounded: with the default options the channel never holds more than 16
  chunks, and the queue depth reported in the statistics never exceeds 17.\<close>

theorem relay_queue_bounded:
  assumes "relay_reach defaultRelayOptions dir s"
  shows "length (rl_chunks s) \<le> 16 \<and> st_MaxQueueDepth (rl_stats s) \<le> 17"
  using relay_inv_reach [OF assms] by (simp add: relay_inv_def defaultRelayOptions_def)

theorem relay_queue_bounded_witness:
  "length (rl_chunks relay_example) \<le> 16 \<and> st_MaxQueueDepth (rl_stats relay_example) \<le> 17"
  using relay_queue_bounded [OF relay_example_reach] .

text \<open>\<^verbatim>\<open>writeChunk\<close> returns on every destination that keeps the documented contract of \<^verbatim>\<open>io.Writer\<close>: a
  non-empty chunk is settled by a single \<^verbatim>\<open>Write\<close>, whose error is returned as it is, and an empty
  chunk writes nothing.\<close>

theorem writeChunk_returns:
  assumes "io_writer wr"
  shows "writeChunk wr dst chunk =
     (if chunk = [] then Some (None, dst) else Some (snd (fst (wr dst chunk)), snd (wr dst chunk)))"
  using assms by (rule writeChunk_one_write)

theorem writeChunk_returns_witness:
  "writeChunk WriteN \<lparr> wr_out = [], wr_room = Some 1, wr_err = NetClosed \<rparr> [5, 6] =
     Some (Some NetClosed, \<lparr> wr_out = [5], wr_room = Some 0, wr_err = NetClosed \<rparr>)"
  using writeChunk_returns [OF io_writer_WriteN, of "\<lparr> wr_out = [], wr_room = Some 1, wr_err = NetClosed \<rparr>" "[5, 6]"]
  by (simp add: WriteN_def)

text \<open>Bandwidth limiting below 32 KiB/s fails on large reads: the limiter's burst is the configured
  rate, and \<^verbatim>\<open>rate.Limiter.WaitN\<close> is documented to return an error when asked for more than its
  burst, so a read of more bytes than the rate (the relay reads up to 32 KiB at once) returns an
  error and ends the relay although the peer is healthy.\<close>

theorem bandwidth_read_over_burst_fails:
  assumes "\<And>burst n. n > burst \<Longrightarrow> wait burst n \<noteq> None"
    and "0 < bps" and "bps < int n" and "n \<le> 32 * 1024"
  shows "\<exists>burst e. bandwidth_burst bps = Some burst \<and> bandwidthReader_Read wait burst (n, None) = (n, Some e)"
proof -
  have "bandwidth_burst bps = Some bps"
    using assms(2-4) by (simp add: bandwidth_burst_def min64_def)
  moreover obtain e where "wait bps (int n) = Some e"
    using assms(1,3) by blast
  ultimately show ?thesis
    using assms(2,3) by (simp add: bandwidthReader_Read_def)
qed

theorem bandwidth_read_over_burst_fails_witness:
  "\<exists>burst e. bandwidth_burst 1000 = Some burst \<and>
     bandwidthReader_Read (\<lambda>burst n. if n > burst then Some (ForeignErr 1) else None) burst (4096, None) = (4096, Some e)"
  using bandwidth_read_over_burst_fails [of "\<lambda>burst n. if n > burst then Some (ForeignErr 1) else None" 1000 4096]
  by simp

end
