(* ===== verification/TE_Stream.thy ===== *)
theory TE_Stream
  imports TE_Errs
begin

text \<open>
  The stream manager of \<^verbatim>\<open>src/internal/stream/manager.go\<close>. A \<open>Stream\<close> carries what the \<^verbatim>\<open>Close\<close> of its
  underlying connection will return (\<open>sm_closeErr\<close>); the manager's state is its map and
  \<open>mg_closed\<close>, the identifiers whose underlying connection has been closed, in order. A stream
  identifier is the UUID \<^verbatim>\<open>generateStreamID\<close> returns, an argument of \<open>Manager_Open\<close>.
\<close>

datatype State = StateOpen | StateClosed

record Stream =
  sm_ID :: string
  sm_TunnelID :: string
  sm_CreatedAt :: int
  sm_state :: State
  sm_closeErr :: "goerror option"

record Manager =
  mg_streams :: "(string, Stream) gomap"
  mg_closed :: "string list"

definition NewManager :: Manager where
  "NewManager = \<lparr> mg_streams = [], mg_closed = [] \<rparr>"

text \<open>\<open>Stream_Close\<close> returns the error, the stream and whether the connection's \<^verbatim>\<open>Close\<close> was called.\<close>

definition Stream_Close :: "Stream \<Rightarrow> goerror option \<times> Stream \<times> bool" where
  "Stream_Close s =
     (if sm_state s = StateClosed then (None, s, False)
      else (sm_closeErr s, s\<lparr>sm_state := StateClosed\<rparr>, True))"

definition Manager_Open :: "string \<Rightarrow> int \<Rightarrow> string \<Rightarrow> goerror option \<Rightarrow> Manager \<Rightarrow> Stream \<times> Manager" where
  "Manager_Open newID now tunnelID closeErr m =
     (let s = \<lparr> sm_ID = newID, sm_TunnelID = tunnelID, sm_CreatedAt = now, sm_state = StateOpen,
                sm_closeErr = closeErr \<rparr>
      in (s, m\<lparr>mg_streams := mput newID s (mg_streams m)\<rparr>))"

definition Manager_Get :: "string \<Rightarrow> Manager \<Rightarrow> Stream result" where
  "Manager_Get i m = (case map_of (mg_streams m) i of
     None \<Rightarrow> Err (New CodeNotFound ''stream not found'') | Some s \<Rightarrow> Ok s)"

definition log_close :: "string \<Rightarrow> bool \<Rightarrow> Manager \<Rightarrow> Manager" where
  "log_close i called m = (if called then m\<lparr>mg_closed := mg_closed m @ [i]\<rparr> else m)"

definition Manager_Close :: "string \<Rightarrow> Manager \<Rightarrow> unit result \<times> Manager" where
  "Manager_Close i m = (case map_of (mg_streams m) i of
     None \<Rightarrow> (Err (New CodeNotFound ''stream not found''), m)
   | Some s \<Rightarrow> (case Stream_Close s of (err, s', called) \<Rightarrow>
       let m = log_close i called (m\<lparr>mg_streams := mupd i (\<lambda>_. s') (mg_streams m)\<rparr>) in
       case err of
         Some e \<Rightarrow> (Err (WrapErr ''failed to close stream'' e), m)
       | None \<Rightarrow> (Ok (), m\<lparr>mg_streams := mdel i (mg_streams m)\<rparr>)))"

definition Manager_List :: "Manager \<Rightarrow> Stream list" where
  "Manager_List m = map snd (mg_streams m)"

definition Manager_ListByTunnel :: "string \<Rightarrow> Manager \<Rightarrow> Stream list" where
  "Manager_ListByTunnel tunnelID m = filter (\<lambda>s. sm_TunnelID s = tunnelID) (map snd (mg_streams m))"

text \<open>The range loops close a stream and delete its entry, for the streams that satisfy \<open>P\<close>.\<close>

fun close_range :: "(Stream \<Rightarrow> bool) \<Rightarrow> (string \<times> Stream) list \<Rightarrow> Manager \<Rightarrow> Manager" where
  "close_range P [] m = m"
| "close_range P ((i, s) # rest) m =
     close_range P rest
       (if P s then (case Stream_Close s of (err, s', called) \<Rightarrow>
          log_close i called (m\<lparr>mg_streams := mdel i (mg_streams m)\<rparr>)) else m)"

definition CloseAll :: "Manager \<Rightarrow> Manager" where
  "CloseAll m = close_range (\<lambda>s. True) (mg_streams m) m"

definition CloseByTunnel :: "string \<Rightarrow> Manager \<Rightarrow> Manager" where
  "CloseByTunnel tunnelID m = close_range (\<lambda>s. sm_TunnelID s = tunnelID) (mg_streams m) m"

definition Manager_Count :: "Manager \<Rightarrow> nat" where
  "Manager_Count m = length (mg_streams m)"

definition CountByTunnel :: "string \<Rightarrow> Manager \<Rightarrow> nat" where
  "CountByTunnel tunnelID m = length (filter (\<lambda>p. sm_TunnelID (snd p) = tunnelID) (mg_streams m))"

subsection \<open>Invariant\<close>

text \<open>Entries are keyed by their stream's identifier, no connection is closed twice, and a registered
  stream's connection has been closed exactly if its state says so.\<close>

definition manager_inv :: "Manager \<Rightarrow> bool" where
  "manager_inv m \<longleftrightarrow> mwf (mg_streams m) \<and> distinct (mg_closed m) \<and>
     (\<forall>(i, s) \<in> set (mg_streams m). sm_ID s = i \<and> (i \<in> set (mg_closed m) \<longleftrightarrow> sm_state s = StateClosed))"

lemma manager_inv_lookup:
  "manager_inv m \<longleftrightarrow> mwf (mg_streams m) \<and> distinct (mg_closed m) \<and>
     (\<forall>i s. map_of (mg_streams m) i = Some s \<longrightarrow> sm_ID s = i \<and> (i \<in> set (mg_closed m) \<longleftrightarrow> sm_state s = StateClosed))"
  unfolding manager_inv_def by (auto simp: in_set_mwf) (auto simp flip: in_set_mwf)

lemma manager_inv_new: "manager_inv NewManager"
  by (simp add: manager_inv_def NewManager_def)

lemma manager_inv_open:
  "manager_inv m \<Longrightarrow> i \<notin> set (mg_closed m) \<Longrightarrow> manager_inv (snd (Manager_Open i now t e m))"
  by (auto simp: manager_inv_lookup Manager_Open_def Let_def split: if_splits)

lemma manager_inv_close: "manager_inv m \<Longrightarrow> manager_inv (snd (Manager_Close i m))"
  by (auto simp: manager_inv_lookup Manager_Close_def Stream_Close_def log_close_def Let_def
      split: option.splits if_splits)

definition close_one :: "string \<Rightarrow> Stream \<Rightarrow> Manager \<Rightarrow> Manager" where
  "close_one i s m = log_close i (sm_state s = StateOpen) (m\<lparr>mg_streams := mdel i (mg_streams m)\<rparr>)"

lemma close_range_Cons:
  "close_range P ((i, s) # rest) m = close_range P rest (if P s then close_one i s m else m)"
  by (cases "sm_state s") (simp_all add: close_one_def Stream_Close_def)

lemma manager_inv_close_one:
  "manager_inv m \<Longrightarrow> map_of (mg_streams m) i = Some s \<Longrightarrow> manager_inv (close_one i s m)"
  by (cases "sm_state s") (auto simp: manager_inv_lookup close_one_def log_close_def)

text \<open>A range loop over entries of the map leaves the others and logs the open ones it closed.\<close>

lemma close_range_spec:
  assumes "manager_inv m" and "\<And>i s. (i, s) \<in> set es \<Longrightarrow> map_of (mg_streams m) i = Some s" and "distinct (map fst es)"
  shows "manager_inv (close_range P es m) \<and>
    mg_streams (close_range P es m) = filter (\<lambda>p. \<not> (p \<in> set es \<and> P (snd p))) (mg_streams m) \<and>
    mg_closed (close_range P es m) =
      mg_closed m @ map fst (filter (\<lambda>p. P (snd p) \<and> sm_state (snd p) = StateOpen) es)"
  using assms
proof (induction es arbitrary: m)
  case Nil
  then show ?case by simp
next
  case (Cons p es)
  obtain i s where p: "p = (i, s)" by (cases p)
  let ?m = "if P s then close_one i s m else m"
  have mem: "map_of (mg_streams m) i = Some s"
    using Cons.prems(2) p by simp
  have inv: "manager_inv ?m"
    using Cons.prems(1) mem by (simp add: manager_inv_close_one)
  have rest: "map_of (mg_streams ?m) j = Some u" if "(j, u) \<in> set es" for j u
  proof -
    have "j \<noteq> i" using Cons.prems(3) p that by force
    with Cons.prems(2) [of j u] that show ?thesis
      by (simp add: close_one_def log_close_def)
  qed
  have wf: "mwf (mg_streams m)"
    using Cons.prems(1) by (simp add: manager_inv_def)
  have only: "q \<in> set (mg_streams m) \<Longrightarrow> fst q = i \<longleftrightarrow> q = (i, s)" for q
    using mem wf in_set_mwf [OF wf, of "fst q" "snd q"] by auto
  have streams: "mg_streams ?m = filter (\<lambda>q. \<not> (q = (i, s) \<and> P (snd q))) (mg_streams m)"
    using filter_cong [OF refl, of "mg_streams m" "\<lambda>q. fst q \<noteq> i" "\<lambda>q. q \<noteq> (i, s)"] only
    by (auto simp: close_one_def log_close_def mdel_def)
  have closed: "mg_closed ?m = mg_closed m @ (if P s \<and> sm_state s = StateOpen then [i] else [])"
    by (simp add: close_one_def log_close_def)
  have eq: "close_range P (p # es) m = close_range P es ?m"
    by (simp only: p close_range_Cons)
  have "distinct (map fst es)"
    using Cons.prems(3) by simp
  from Cons.IH [OF inv rest this] show ?case
    unfolding eq streams closed by (auto simp: p intro!: filter_cong)
qed

lemma close_range_all:
  assumes "manager_inv m"
  shows "manager_inv (close_range P (mg_streams m) m) \<and>
    mg_streams (close_range P (mg_streams m) m) = filter (\<lambda>p. \<not> P (snd p)) (mg_streams m) \<and>
    mg_closed (close_range P (mg_streams m) m) =
      mg_closed m @ map fst (filter (\<lambda>p. P (snd p) \<and> sm_state (snd p) = StateOpen) (mg_streams m))"
proof -
  have wf: "mwf (mg_streams m)"
    using assms by (simp add: manager_inv_def)
  have "filter (\<lambda>p. \<not> (p \<in> set (mg_streams m) \<and> P (snd p))) (mg_streams m) = filter (\<lambda>p. \<not> P (snd p)) (mg_streams m)"
    by (rule filter_cong) simp_all
  with close_range_spec [OF assms, of "mg_streams m" P] wf show ?thesis
    by (simp add: mwf_def)
qed

subsection \<open>Properties\<close>

text \<open>\<^verbatim>\<open>CloseByTunnel\<close> closes exactly one tunnel's streams: afterwards none of that tunnel's streams is
  registered, the counts of all other tunnels are unchanged, the connection of each of its open
  streams was closed exactly once, and no connection is ever closed twice.\<close>

theorem CloseByTunnel_exact:
  assumes "manager_inv m"
  shows "manager_inv (CloseByTunnel t m) \<and>
    CountByTunnel t' (CloseByTunnel t m) = (if t' = t then 0 else CountByTunnel t' m) \<and>
    mg_closed (CloseByTunnel t m) = mg_closed m @
      map fst (filter (\<lambda>p. sm_TunnelID (snd p) = t \<and> sm_state (snd p) = StateOpen) (mg_streams m)) \<and>
    distinct (mg_closed (CloseByTunnel t m))"
proof -
  have "filter (\<lambda>p. sm_TunnelID (snd p) \<noteq> t \<and> sm_TunnelID (snd p) = t') es =
      (if t' = t then [] else filter (\<lambda>p. sm_TunnelID (snd p) = t') es)"
    for es :: "(string \<times> Stream) list"
    by (induction es) auto
  then have "CountByTunnel t' (CloseByTunnel t m) = (if t' = t then 0 else CountByTunnel t' m)"
    using close_range_all [OF assms, of "\<lambda>s. sm_TunnelID s = t"]
    by (simp add: CloseByTunnel_def CountByTunnel_def)
  moreover have "manager_inv (CloseByTunnel t m)"
    using close_range_all [OF assms, of "\<lambda>s. sm_TunnelID s = t"] by (simp add: CloseByTunnel_def)
  moreover from this have "distinct (mg_closed (CloseByTunnel t m))"
    by (simp add: manager_inv_def)
  ultimately show ?thesis
    using close_range_all [OF assms, of "\<lambda>s. sm_TunnelID s = t"] by (simp add: CloseByTunnel_def)
qed

definition manager_example :: Manager where
  "manager_example = snd (Manager_Open ''s2'' 0 ''t2'' None (snd (Manager_Open ''s1'' 0 ''t1'' (Some NetClosed) NewManager)))"

lemma manager_example_inv: "manager_inv manager_example"
  unfolding manager_example_def
  by (intro manager_inv_open manager_inv_new) (simp_all add: Manager_Open_def NewManager_def Let_def)

lemma manager_example_streams:
  "mg_streams manager_example =
    [(''s2'', \<lparr> sm_ID = ''s2'', sm_TunnelID = ''t2'', sm_CreatedAt = 0, sm_state = StateOpen, sm_closeErr = None \<rparr>),
     (''s1'', \<lparr> sm_ID = ''s1'', sm_TunnelID = ''t1'', sm_CreatedAt = 0, sm_state = StateOpen, sm_closeErr = Some NetClosed \<rparr>)]"
  "mg_closed manager_example = []"
  by (simp_all add: manager_example_def Manager_Open_def NewManager_def mput_def mdel_def Let_def)

theorem CloseByTunnel_exact_witness:
  "CountByTunnel ''t1'' manager_example = 1 \<and> CountByTunnel ''t1'' (CloseByTunnel ''t1'' manager_example) = 0 \<and>
   CountByTunnel ''t2'' (CloseByTunnel ''t1'' manager_example) = 1 \<and>
   mg_closed (CloseByTunnel ''t1'' manager_example) = [''s1'']"
  using CloseByTunnel_exact [OF manager_example_inv, of "''t1''" "''t1''"]
    CloseByTunnel_exact [OF manager_example_inv, of "''t1''" "''t2''"]
  by (simp add: CountByTunnel_def [of _ manager_example] manager_example_streams)

text \<open>Closing a stream whose connection fails to close reports the error and keeps the stream
  registered; closing it again succeeds, removes it, and does not close the connection again.\<close>

theorem Manager_Close_retry:
  assumes "manager_inv m" and "map_of (mg_streams m) i = Some s" and "Manager_Close i m = (Err e, m1)"
  shows "\<exists>s'. Manager_Get i m1 = Ok s' \<and> sm_state s' = StateClosed \<and>
    (\<exists>m2. Manager_Close i m1 = (Ok (), m2) \<and> map_of (mg_streams m2) i = None \<and>
      mg_closed m2 = mg_closed m1 \<and> manager_inv m2)"
proof -
  have open_s: "sm_state s = StateOpen"
    using assms(2,3) by (cases "sm_state s") (simp_all add: Manager_Close_def Stream_Close_def Let_def)
  have err: "sm_closeErr s \<noteq> None"
    using assms(2,3) open_s by (cases "sm_closeErr s") (simp_all add: Manager_Close_def Stream_Close_def Let_def)
  have m1: "m1 = snd (Manager_Close i m)"
    using assms(3) by simp
  have streams: "mg_streams m1 = mupd i (\<lambda>_. s\<lparr>sm_state := StateClosed\<rparr>) (mg_streams m)"
    using assms(2) open_s err
    by (cases "sm_closeErr s") (simp_all add: m1 Manager_Close_def Stream_Close_def log_close_def Let_def)
  have get: "map_of (mg_streams m1) i = Some (s\<lparr>sm_state := StateClosed\<rparr>)"
    using assms(2) by (simp add: streams)
  have "manager_inv m1"
    unfolding m1 by (rule manager_inv_close [OF assms(1)])
  then have inv: "manager_inv (snd (Manager_Close i m1))"
    by (rule manager_inv_close)
  have "fst (Manager_Close i m1) = Ok ()"
    "map_of (mg_streams (snd (Manager_Close i m1))) i = None" "mg_closed (snd (Manager_Close i m1)) = mg_closed m1"
    using get by (simp_all add: Manager_Close_def Stream_Close_def log_close_def Let_def)
  moreover have "Manager_Get i m1 = Ok (s\<lparr>sm_state := StateClosed\<rparr>)"
    using get by (simp add: Manager_Get_def)
  ultimately show ?thesis
    using inv by (cases "Manager_Close i m1") auto
qed

theorem Manager_Close_retry_witness:
  "fst (Manager_Close ''s1'' manager_example) = Err (WrapErr ''failed to close stream'' NetClosed) \<and>
   (\<exists>s'. Manager_Get ''s1'' (snd (Manager_Close ''s1'' manager_example)) = Ok s' \<and> sm_state s' = StateClosed)"
proof -
  let ?s = "\<lparr> sm_ID = ''s1'', sm_TunnelID = ''t1'', sm_CreatedAt = 0, sm_state = StateOpen, sm_closeErr = Some NetClosed \<rparr>"
  have s: "map_of (mg_streams manager_example) ''s1'' = Some ?s"
    by (simp add: manager_example_streams)
  then have err: "fst (Manager_Close ''s1'' manager_example) = Err (WrapErr ''failed to close stream'' NetClosed)"
    by (simp add: Manager_Close_def Stream_Close_def Let_def)
  then show ?thesis
    using Manager_Close_retry [OF manager_example_inv s] by (cases "Manager_Close ''s1'' manager_example") auto
qed

end
