(* ===== verification/TE_Router.thy ===== *)
theory TE_Router
  imports TE_Domain "HOL-Library.Multiset"
begin

text \<open>
  Hostname routing in a gateway: the local table of \<^verbatim>\<open>src/internal/gateway/router.go\<close>, the mirror of
  the other gateways' tunnels in \<^verbatim>\<open>distributed_router.go\<close>, and the relay scores of
  \<^verbatim>\<open>relay_scorer.go\<close>. Scores are real numbers where the code has \<^verbatim>\<open>float64\<close>. \<^verbatim>\<open>sort.Slice\<close> leaves the
  order of equal scores open; the model's sort is one such order.
\<close>

subsection \<open>The local router\<close>

record routeKey =
  rk_TunnelID :: string
  rk_Label :: string

record TunnelRouter =
  tr_hostMap :: "(string, routeKey) gomap"
  tr_domain :: string

definition NewTunnelRouter :: "string \<Rightarrow> TunnelRouter" where
  "NewTunnelRouter base = \<lparr> tr_hostMap = [], tr_domain = base \<rparr>"

definition TrimPrefix :: "string \<Rightarrow> string \<Rightarrow> string" where
  "TrimPrefix s p = (if take (length p) s = p then drop (length p) s else s)"

definition HostnameForTunnel :: "TunnelRouter \<Rightarrow> string \<Rightarrow> string" where
  "HostnameForTunnel r tunnelID = TrimPrefix tunnelID ''t-'' @ ''.'' @ tr_domain r"

definition HostnameForLabel :: "TunnelRouter \<Rightarrow> string \<Rightarrow> string \<Rightarrow> string" where
  "HostnameForLabel r tunnelID label = label @ ''-'' @ TrimPrefix tunnelID ''t-'' @ ''.'' @ tr_domain r"

definition Router_Register :: "string \<Rightarrow> TunnelRouter \<Rightarrow> string \<times> TunnelRouter" where
  "Router_Register tunnelID r =
     (let hostname = HostnameForTunnel r tunnelID in
      (hostname, r\<lparr>tr_hostMap := mput hostname \<lparr> rk_TunnelID = tunnelID, rk_Label = ''default'' \<rparr> (tr_hostMap r)\<rparr>))"

definition RegisterLabel :: "string \<Rightarrow> string \<Rightarrow> TunnelRouter \<Rightarrow> string \<times> TunnelRouter" where
  "RegisterLabel tunnelID label r =
     (let hostname = HostnameForLabel r tunnelID label in
      (hostname, r\<lparr>tr_hostMap := mput hostname \<lparr> rk_TunnelID = tunnelID, rk_Label = label \<rparr> (tr_hostMap r)\<rparr>))"

definition Router_Deregister :: "string \<Rightarrow> TunnelRouter \<Rightarrow> TunnelRouter" where
  "Router_Deregister tunnelID r = r\<lparr>tr_hostMap := mdel (HostnameForTunnel r tunnelID) (tr_hostMap r)\<rparr>"

definition DeregisterLabel :: "string \<Rightarrow> string \<Rightarrow> TunnelRouter \<Rightarrow> TunnelRouter" where
  "DeregisterLabel tunnelID label r =
     r\<lparr>tr_hostMap := mdel (HostnameForLabel r tunnelID label) (tr_hostMap r)\<rparr>"

definition drop_tunnel_hosts :: "string \<Rightarrow> (string, routeKey) gomap \<Rightarrow> (string, routeKey) gomap" where
  "drop_tunnel_hosts tunnelID m = mkeep (\<lambda>host key. rk_TunnelID key \<noteq> tunnelID) m"

definition DeregisterAll :: "string \<Rightarrow> TunnelRouter \<Rightarrow> TunnelRouter" where
  "DeregisterAll tunnelID r = r\<lparr>tr_hostMap := drop_tunnel_hosts tunnelID (tr_hostMap r)\<rparr>"

definition Router_Lookup :: "TunnelRouter \<Rightarrow> string \<Rightarrow> string option" where
  "Router_Lookup r hostname = map_option rk_TunnelID (map_of (tr_hostMap r) hostname)"

definition LookupWithLabel :: "TunnelRouter \<Rightarrow> string \<Rightarrow> (string \<times> string) option" where
  "LookupWithLabel r hostname =
     map_option (\<lambda>key. (rk_TunnelID key, rk_Label key)) (map_of (tr_hostMap r) hostname)"

definition HasHostname :: "TunnelRouter \<Rightarrow> string \<Rightarrow> bool" where
  "HasHostname r hostname \<longleftrightarrow> Router_Lookup r hostname \<noteq> None"

definition Router_List :: "TunnelRouter \<Rightarrow> (string, string) gomap" where
  "Router_List r = map (\<lambda>(k, v). (k, rk_TunnelID v)) (tr_hostMap r)"

subsection \<open>Relay scores\<close>

record RelayScorer =
  sc_scores :: "(string, real) gomap"
  sc_regions :: "(string, string) gomap"
  sc_addrs :: "(string, string) gomap"
  sc_alpha :: real

definition NewRelayScorer :: RelayScorer where
  "NewRelayScorer = \<lparr> sc_scores = [], sc_regions = [], sc_addrs = [], sc_alpha = 3 / 10 \<rparr>"

definition computeScore :: "RelayHealth \<Rightarrow> real" where
  "computeScore h =
     (let rttScore = 1 / (1 + real_of_int (rh_RTTMillis h) / 500);
          lossScore = max 0 (1 - rh_PacketLossPct h / 100);
          utilScore = max 0 (1 - (rh_CPUUtilizationPct h + rh_MemoryUtilizationPct h) / 200)
      in 4 / 10 * rttScore + 4 / 10 * lossScore + 2 / 10 * utilScore)"

definition Scorer_Update :: "string \<Rightarrow> RelayHealth \<Rightarrow> RelayScorer \<Rightarrow> RelayScorer" where
  "Scorer_Update relayID h rs =
     (let newScore = computeScore h;
          score = (case map_of (sc_scores rs) relayID of
            Some prev \<Rightarrow> sc_alpha rs * newScore + (1 - sc_alpha rs) * prev | None \<Rightarrow> newScore);
          rs = rs\<lparr>sc_scores := mput relayID score (sc_scores rs)\<rparr>;
          rs = (if rh_Region h \<noteq> [] then rs\<lparr>sc_regions := mput relayID (rh_Region h) (sc_regions rs)\<rparr> else rs)
      in if rh_AdvertiseAddr h \<noteq> [] then rs\<lparr>sc_addrs := mput relayID (rh_AdvertiseAddr h) (sc_addrs rs)\<rparr> else rs)"

definition Score :: "RelayScorer \<Rightarrow> string \<Rightarrow> real" where
  "Score rs relayID = (case map_of (sc_scores rs) relayID of Some s \<Rightarrow> s | None \<Rightarrow> 0)"

definition str_at :: "(string, string) gomap \<Rightarrow> string \<Rightarrow> string" where
  "str_at m k = (case map_of m k of Some v \<Rightarrow> v | None \<Rightarrow> [])"

definition best_entry :: "(string \<times> real) list \<Rightarrow> string \<times> real" where
  "best_entry es = fold (\<lambda>(relayID, score) (best, bestScore).
     if score > bestScore then (relayID, score) else (best, bestScore)) es ([], - 1)"

definition BestRelay :: "RelayScorer \<Rightarrow> string" where
  "BestRelay rs = str_at (sc_addrs rs) (fst (best_entry (sc_scores rs)))"

definition region_candidates :: "RelayScorer \<Rightarrow> string \<Rightarrow> (string \<times> real) list" where
  "region_candidates rs region =
     map (\<lambda>(relayID, score). (str_at (sc_addrs rs) relayID, score))
       (filter (\<lambda>(relayID, score). (region = [] \<or> str_at (sc_regions rs) relayID = region) \<and>
          str_at (sc_addrs rs) relayID \<noteq> []) (sc_scores rs))"

definition BestRelaysForRegion :: "RelayScorer \<Rightarrow> string \<Rightarrow> nat \<Rightarrow> string list" where
  "BestRelaysForRegion rs region n =
     map fst (take n (sort_key (\<lambda>c. - snd c) (region_candidates rs region)))"

subsection \<open>The distributed router\<close>

record remoteRoute =
  rr_RouteTunnelID :: string
  rr_RouteLabel :: string
  rr_OwnerRelayID :: string
  rr_OwnerAddr :: string

record DistributedRouter =
  dr_routes :: "(string, remoteRoute) gomap"
  dr_relays :: "(string, string) gomap"
  dr_selfRelayID :: string
  dr_router :: TunnelRouter
  dr_scorer :: RelayScorer

definition NewDistributedRouter :: "string \<Rightarrow> TunnelRouter \<Rightarrow> DistributedRouter" where
  "NewDistributedRouter selfRelayID localRouter =
     \<lparr> dr_routes = [], dr_relays = [], dr_selfRelayID = selfRelayID, dr_router = localRouter,
       dr_scorer = NewRelayScorer \<rparr>"

definition Dist_Lookup :: "DistributedRouter \<Rightarrow> string \<Rightarrow> remoteRoute option" where
  "Dist_Lookup d hostname = (case map_of (dr_routes d) hostname of
     None \<Rightarrow> None | Some r \<Rightarrow> if rr_OwnerRelayID r = dr_selfRelayID d then None else Some r)"

definition upsertTunnelRoutes :: "string \<Rightarrow> string \<Rightarrow> DistributedRouter \<Rightarrow> DistributedRouter" where
  "upsertTunnelRoutes tunnelID ownerRelayID d =
     d\<lparr>dr_routes := mput (HostnameForTunnel (dr_router d) tunnelID)
        \<lparr> rr_RouteTunnelID = tunnelID, rr_RouteLabel = ''default'', rr_OwnerRelayID = ownerRelayID,
          rr_OwnerAddr = str_at (dr_relays d) ownerRelayID \<rparr> (dr_routes d)\<rparr>"

definition drop_tunnel_routes :: "string \<Rightarrow> (string, remoteRoute) gomap \<Rightarrow> (string, remoteRoute) gomap" where
  "drop_tunnel_routes tunnelID m = mkeep (\<lambda>host route. rr_RouteTunnelID route \<noteq> tunnelID) m"

definition removeTunnelRoutes :: "string \<Rightarrow> DistributedRouter \<Rightarrow> DistributedRouter" where
  "removeTunnelRoutes tunnelID d = d\<lparr>dr_routes := drop_tunnel_routes tunnelID (dr_routes d)\<rparr>"

definition UpdateRelayAddr :: "string \<Rightarrow> string \<Rightarrow> DistributedRouter \<Rightarrow> DistributedRouter" where
  "UpdateRelayAddr relayID addr d =
     (if relayID = [] \<or> addr = [] then d
      else d\<lparr>dr_relays := mput relayID addr (dr_relays d),
             dr_routes := map (\<lambda>(host, route). (host,
               if rr_OwnerRelayID route = relayID then route\<lparr>rr_OwnerAddr := addr\<rparr> else route)) (dr_routes d)\<rparr>)"

text \<open>The health value built from a relay's metadata: every other field is zero.\<close>

definition relay_metadata_health :: "RelayInfo \<Rightarrow> RelayHealth" where
  "relay_metadata_health ri =
     \<lparr> rh_AdvertiseAddr = ri_AdvertiseAddr ri, rh_RTTMillis = 0, rh_HeartbeatLatencyMillis = 0,
       rh_ActiveTunnels = 0, rh_ActiveStreams = 0, rh_BytesPerSecond = 0, rh_PacketLossPct = 0,
       rh_CPUUtilizationPct = 0, rh_MemoryUtilizationPct = 0, rh_RecordedAt = zero_time,
       rh_Region = ri_Region ri \<rparr>"

definition learn_relay :: "RelayInfo option \<Rightarrow> DistributedRouter \<Rightarrow> DistributedRouter" where
  "learn_relay relay d = (case relay of
     Some ri \<Rightarrow> if ri_AdvertiseAddr ri \<noteq> []
       then d\<lparr>dr_relays := mput (ri_RelayID ri) (ri_AdvertiseAddr ri) (dr_relays d)\<rparr> else d
   | None \<Rightarrow> d)"

definition score_relay :: "string \<Rightarrow> RelayHealth \<Rightarrow> DistributedRouter \<Rightarrow> DistributedRouter" where
  "score_relay key h d = d\<lparr>dr_scorer := Scorer_Update key h (dr_scorer d)\<rparr>"

definition handleEvent :: "RegistryEvent \<Rightarrow> DistributedRouter \<Rightarrow> DistributedRouter" where
  "handleEvent event d = (case ev_Type event of
     RegistryEventRelayUpserted \<Rightarrow> (case ev_Relay event of
         Some ri \<Rightarrow> if ri_AdvertiseAddr ri \<noteq> []
           then score_relay (ri_RelayID ri) (relay_metadata_health ri) (learn_relay (Some ri) d) else d
       | None \<Rightarrow> d)
   | RegistryEventRelayHealthUpdated \<Rightarrow>
       (let d = learn_relay (ev_Relay event) d in
        case ev_Health event of
          Some h \<Rightarrow> score_relay (rh_AdvertiseAddr h) h d
        | None \<Rightarrow> (case ev_Relay event of
            Some ri \<Rightarrow> score_relay (ri_RelayID ri) (relay_metadata_health ri) d | None \<Rightarrow> d))
   | RegistryEventTunnelUpserted \<Rightarrow> (case ev_Tunnel event of
         None \<Rightarrow> d
       | Some t \<Rightarrow>
           let owner = (case ev_Lease event of
               Some l \<Rightarrow> if ss_OwnerRelayID t = [] then le_RelayID l else ss_OwnerRelayID t
             | None \<Rightarrow> ss_OwnerRelayID t)
           in if owner = [] \<or> owner = dr_selfRelayID d then d
              else upsertTunnelRoutes (ss_TunnelID t) owner d)
   | RegistryEventLeaseAcquired \<Rightarrow> (case ev_Lease event of
         None \<Rightarrow> d
       | Some l \<Rightarrow> if le_RelayID l = [] \<or> le_RelayID l = dr_selfRelayID d then d
           else upsertTunnelRoutes (le_TunnelID l) (le_RelayID l) d)
   | RegistryEventLeaseReleased \<Rightarrow> (case ev_Lease event of
         None \<Rightarrow> d | Some l \<Rightarrow> removeTunnelRoutes (le_TunnelID l) d)
   | RegistryEventTunnelDeleted \<Rightarrow> (case ev_Tunnel event of
         None \<Rightarrow> d | Some t \<Rightarrow> removeTunnelRoutes (ss_TunnelID t) d)
   | RegistryEventUnknown \<Rightarrow> d)"

text \<open>\<open>Run\<close> folds the events of the watch stream.\<close>

definition Dist_Run :: "RegistryEvent list \<Rightarrow> DistributedRouter \<Rightarrow> DistributedRouter" where
  "Dist_Run events d = fold handleEvent events d"

subsection \<open>Host tables\<close>

text \<open>Both routers keep a table from hostnames to routes and remove a tunnel by sweeping the table.\<close>

locale host_table =
  fixes tunnel_of :: "'r \<Rightarrow> string"
    and drop_hosts :: "string \<Rightarrow> (string, 'r) gomap \<Rightarrow> (string, 'r) gomap"
  assumes drop_lookup: "mwf m \<Longrightarrow> map_of (drop_hosts t m) h =
      (case map_of m h of None \<Rightarrow> None | Some r \<Rightarrow> if tunnel_of r = t then None else Some r)"
    and drop_wf: "mwf m \<Longrightarrow> mwf (drop_hosts t m)"
begin

lemma dropped: "mwf m \<Longrightarrow> map_of (drop_hosts t m) h = Some r \<Longrightarrow> tunnel_of r \<noteq> t"
  by (auto simp: drop_lookup split: option.splits if_splits)

lemma others_kept: "mwf m \<Longrightarrow> map_of m h = Some r \<Longrightarrow> tunnel_of r \<noteq> t \<Longrightarrow> map_of (drop_hosts t m) h = Some r"
  by (simp add: drop_lookup)

text \<open>Adding routes of a tunnel at unused hostnames and dropping the tunnel restores the table.\<close>

lemma drop_after_puts:
  assumes "mwf m" and "\<And>h r. map_of m h = Some r \<Longrightarrow> tunnel_of r \<noteq> t"
    and "\<And>h r. (h, r) \<in> set hs \<Longrightarrow> tunnel_of r = t \<and> map_of m h = None"
  shows "map_of (drop_hosts t (fold (\<lambda>(h, r). mput h r) hs m)) = map_of m"
proof -
  have *: "mwf (fold (\<lambda>(h, r). mput h r) hs n) \<and>
      (\<forall>h. map_of (fold (\<lambda>(h, r). mput h r) hs n) h = map_of n h \<or>
        (\<exists>r. map_of (fold (\<lambda>(h, r). mput h r) hs n) h = Some r \<and> (h, r) \<in> set hs))" if "mwf n" for n hs
    using that
  proof (induction hs arbitrary: n)
    case (Cons p hs)
    obtain h r where p: "p = (h, r)" by (cases p)
    from Cons.IH [of "mput h r n"] Cons.prems show ?case
      by (auto simp: p split: if_splits)
  qed simp
  let ?n = "fold (\<lambda>(h, r). mput h r) hs m"
  show ?thesis
  proof
    fix h
    have wf: "mwf ?n" and "map_of ?n h = map_of m h \<or> (\<exists>r. map_of ?n h = Some r \<and> (h, r) \<in> set hs)"
      using * [OF assms(1), of hs] by blast+
    then consider "map_of ?n h = map_of m h" | r where "map_of ?n h = Some r" "(h, r) \<in> set hs" by blast
    then show "map_of (drop_hosts t ?n) h = map_of m h"
    proof cases
      case 1
      then show ?thesis
        using assms(2) [of h] by (simp add: drop_lookup [OF wf] split: option.split)
    next
      case (2 r)
      then show ?thesis
        using assms(3) [of h r] by (simp add: drop_lookup [OF wf])
    qed
  qed
qed

end

interpretation local_hosts: host_table rk_TunnelID drop_tunnel_hosts
  by unfold_locales (auto simp: drop_tunnel_hosts_def split: option.splits)

interpretation remote_hosts: host_table rr_RouteTunnelID drop_tunnel_routes
  by unfold_locales (auto simp: drop_tunnel_routes_def split: option.splits)

subsection \<open>Hostnames\<close>

lemma TrimPrefix_NewTunnelID [simp]: "TrimPrefix (NewTunnelID a) ''t-'' = a"
  by (simp add: TrimPrefix_def NewTunnelID_def)

lemma HostnameForTunnel_inject:
  "HostnameForTunnel r (NewTunnelID a) = HostnameForTunnel r (NewTunnelID b) \<longleftrightarrow> a = b"
  by (simp add: HostnameForTunnel_def)

lemma append_Cons_split_unique:
  "c \<notin> set xs \<Longrightarrow> c \<notin> set ys \<Longrightarrow> xs @ c # us = ys @ c # vs \<longleftrightarrow> xs = ys \<and> us = vs"
proof (induction xs arbitrary: ys)
  case Nil
  then show ?case by (cases ys) auto
next
  case (Cons x xs)
  then show ?case by (cases ys) auto
qed

lemma HostnameForLabel_inject:
  assumes "CHR ''-'' \<notin> set l" and "CHR ''-'' \<notin> set k"
  shows "HostnameForLabel r (NewTunnelID a) l = HostnameForLabel r (NewTunnelID b) k \<longleftrightarrow> l = k \<and> a = b"
  using append_Cons_split_unique [OF assms, of "a @ ''.'' @ tr_domain r" "b @ ''.'' @ tr_domain r"]
  by (simp add: HostnameForLabel_def)

subsection \<open>The mirror of remote tunnels\<close>

text \<open>What an event says about a remote tunnel: its new owner, or that it is gone.\<close>

definition route_effect :: "string \<Rightarrow> RegistryEvent \<Rightarrow> (string \<times> string option) option" where
  "route_effect self event = (case ev_Type event of
     RegistryEventTunnelUpserted \<Rightarrow> (case ev_Tunnel event of
         None \<Rightarrow> None
       | Some t \<Rightarrow>
           let owner = (if ss_OwnerRelayID t = [] \<and> ev_Lease event \<noteq> None
                        then le_RelayID (the (ev_Lease event)) else ss_OwnerRelayID t)
           in if owner = [] \<or> owner = self then None else Some (ss_TunnelID t, Some owner))
   | RegistryEventLeaseAcquired \<Rightarrow> (case ev_Lease event of
         None \<Rightarrow> None
       | Some l \<Rightarrow> if le_RelayID l = [] \<or> le_RelayID l = self then None else Some (le_TunnelID l, Some (le_RelayID l)))
   | RegistryEventLeaseReleased \<Rightarrow> map_option (\<lambda>l. (le_TunnelID l, None)) (ev_Lease event)
   | RegistryEventTunnelDeleted \<Rightarrow> map_option (\<lambda>t. (ss_TunnelID t, None)) (ev_Tunnel event)
   | _ \<Rightarrow> None)"

text \<open>The specification: the owner the last relevant event of the stream gives a tunnel.\<close>

definition remote_owner :: "string \<Rightarrow> RegistryEvent list \<Rightarrow> string \<Rightarrow> string option" where
  "remote_owner self events = fold (\<lambda>event m. case route_effect self event of
     None \<Rightarrow> m | Some (t, owner) \<Rightarrow> m(t := owner)) events (\<lambda>t. None)"

lemma dist_frame [simp]:
  "dr_routes (learn_relay x d) = dr_routes d" "dr_selfRelayID (learn_relay x d) = dr_selfRelayID d"
  "dr_router (learn_relay x d) = dr_router d"
  "dr_routes (score_relay k h d) = dr_routes d" "dr_selfRelayID (score_relay k h d) = dr_selfRelayID d"
  "dr_router (score_relay k h d) = dr_router d"
  "dr_selfRelayID (upsertTunnelRoutes t w d) = dr_selfRelayID d" "dr_router (upsertTunnelRoutes t w d) = dr_router d"
  "dr_selfRelayID (removeTunnelRoutes t d) = dr_selfRelayID d" "dr_router (removeTunnelRoutes t d) = dr_router d"
  by (simp_all add: learn_relay_def score_relay_def upsertTunnelRoutes_def removeTunnelRoutes_def split: option.split)

lemma handleEvent_frame [simp]:
  "dr_selfRelayID (handleEvent e d) = dr_selfRelayID d" "dr_router (handleEvent e d) = dr_router d"
  by (cases "ev_Type e"; simp add: handleEvent_def Let_def split: option.split)+

lemma handleEvent_routes:
  "dr_routes (handleEvent e d) = (case route_effect (dr_selfRelayID d) e of
     None \<Rightarrow> dr_routes d
   | Some (t, Some owner) \<Rightarrow> dr_routes (upsertTunnelRoutes t owner d)
   | Some (t, None) \<Rightarrow> drop_tunnel_routes t (dr_routes d))"
  by (cases "ev_Type e"; cases "ev_Tunnel e"; cases "ev_Lease e")
    (simp_all add: handleEvent_def route_effect_def Let_def removeTunnelRoutes_def split: option.split)

text \<open>A route sits at the default hostname of its own tunnel.\<close>

definition dist_inv :: "DistributedRouter \<Rightarrow> bool" where
  "dist_inv d \<longleftrightarrow> mwf (dr_routes d) \<and> (\<forall>h r. map_of (dr_routes d) h = Some r \<longrightarrow>
     h = HostnameForTunnel (dr_router d) (rr_RouteTunnelID r) \<and> (\<exists>a. rr_RouteTunnelID r = NewTunnelID a) \<and>
     rr_OwnerRelayID r \<noteq> dr_selfRelayID d)"

definition dist_abs :: "DistributedRouter \<Rightarrow> string \<Rightarrow> string option" where
  "dist_abs d t = map_option rr_OwnerRelayID (map_of (dr_routes d) (HostnameForTunnel (dr_router d) t))"

definition event_ok :: "string \<Rightarrow> RegistryEvent \<Rightarrow> bool" where
  "event_ok self e \<longleftrightarrow> (case route_effect self e of None \<Rightarrow> True | Some (t, w) \<Rightarrow> t = NewTunnelID (TrimPrefix t ''t-''))"

lemma route_effect_not_self: "route_effect self e = Some (t, Some w) \<Longrightarrow> w \<noteq> self"
  by (auto simp: route_effect_def Let_def split: RegistryEventType.splits option.splits if_splits)

lemma dist_inv_host:
  assumes "dist_inv d" and "map_of (dr_routes d) (HostnameForTunnel (dr_router d) (NewTunnelID a)) = Some r"
  shows "rr_RouteTunnelID r = NewTunnelID a"
proof -
  obtain b where "HostnameForTunnel (dr_router d) (NewTunnelID a) = HostnameForTunnel (dr_router d) (rr_RouteTunnelID r)"
    "rr_RouteTunnelID r = NewTunnelID b"
    using assms unfolding dist_inv_def by blast
  then show ?thesis by (simp add: HostnameForTunnel_inject)
qed

lemma dist_abs_drop:
  assumes "dist_inv d" and "dr_routes d' = drop_tunnel_routes (NewTunnelID b) (dr_routes d)" and "dr_router d' = dr_router d"
  shows "dist_abs d' (NewTunnelID a) = ((dist_abs d)(NewTunnelID b := None)) (NewTunnelID a)"
proof (cases "map_of (dr_routes d) (HostnameForTunnel (dr_router d) (NewTunnelID a))")
  case None
  then show ?thesis
    using assms by (simp add: dist_abs_def dist_inv_def remote_hosts.drop_lookup)
next
  case (Some r)
  with dist_inv_host [OF assms(1) Some] assms show ?thesis
    by (simp add: dist_abs_def dist_inv_def remote_hosts.drop_lookup)
qed

lemma dist_step:
  assumes "dist_inv d" and "event_ok (dr_selfRelayID d) e"
  shows "dist_inv (handleEvent e d) \<and>
    (\<forall>a. dist_abs (handleEvent e d) (NewTunnelID a) =
      (case route_effect (dr_selfRelayID d) e of None \<Rightarrow> dist_abs d | Some (t, w) \<Rightarrow> (dist_abs d)(t := w)) (NewTunnelID a))"
proof (cases "route_effect (dr_selfRelayID d) e")
  case None
  then show ?thesis
    using assms by (simp add: handleEvent_routes dist_inv_def dist_abs_def)
next
  case (Some p)
  obtain t w where p: "p = (t, w)" by (cases p)
  with Some assms(2) obtain b where t: "t = NewTunnelID b"
    by (auto simp: event_ok_def)
  show ?thesis
  proof (cases w)
    case None
    with Some p have "dr_routes (handleEvent e d) = drop_tunnel_routes t (dr_routes d)"
      by (simp add: handleEvent_routes)
    with assms(1) Some p None t dist_abs_drop [OF assms(1), of "handleEvent e d" b] show ?thesis
      by (auto simp: dist_inv_def remote_hosts.drop_lookup remote_hosts.drop_wf split: option.splits if_splits)
  next
    case (Some owner)
    with \<open>route_effect (dr_selfRelayID d) e = Some p\<close> p
    have r: "dr_routes (handleEvent e d) = dr_routes (upsertTunnelRoutes t owner d)" and "owner \<noteq> dr_selfRelayID d"
      by (simp_all add: handleEvent_routes route_effect_not_self)
    with assms(1) \<open>route_effect (dr_selfRelayID d) e = Some p\<close> p Some t show ?thesis
      by (auto simp: dist_inv_def dist_abs_def upsertTunnelRoutes_def HostnameForTunnel_inject split: if_splits)
  qed
qed

lemma dist_run:
  assumes "dist_inv d" and "list_all (event_ok (dr_selfRelayID d)) es"
    and "\<forall>a. dist_abs d (NewTunnelID a) = m (NewTunnelID a)"
  shows "dist_inv (Dist_Run es d) \<and> (\<forall>a. dist_abs (Dist_Run es d) (NewTunnelID a) =
    fold (\<lambda>event m. case route_effect (dr_selfRelayID d) event of
       None \<Rightarrow> m | Some (t, owner) \<Rightarrow> m(t := owner)) es m (NewTunnelID a))"
  using assms
proof (induction es arbitrary: d m)
  case Nil
  then show ?case by (simp add: Dist_Run_def)
next
  case (Cons e es)
  let ?m = "case route_effect (dr_selfRelayID d) e of None \<Rightarrow> m | Some (t, owner) \<Rightarrow> m(t := owner)"
  have step: "dist_inv (handleEvent e d)" "\<forall>a. dist_abs (handleEvent e d) (NewTunnelID a) = ?m (NewTunnelID a)"
    using dist_step [of d e] Cons.prems by (auto split: option.splits)
  from Cons.IH [OF step(1) _ step(2)] Cons.prems(2) show ?case
    by (simp add: Dist_Run_def)
qed

subsection \<open>Scores\<close>

definition sane_health :: "RelayHealth \<Rightarrow> bool" where
  "sane_health h \<longleftrightarrow> 0 \<le> rh_RTTMillis h \<and> 0 \<le> rh_PacketLossPct h \<and>
     0 \<le> rh_CPUUtilizationPct h + rh_MemoryUtilizationPct h"

lemma computeScore_bounds:
  assumes "sane_health h"
  shows "0 \<le> computeScore h \<and> computeScore h \<le> 1"
proof -
  define a where "a = 1 / (1 + real_of_int (rh_RTTMillis h) / 500)"
  define b where "b = max 0 (1 - rh_PacketLossPct h / 100)"
  define c where "c = max 0 (1 - (rh_CPUUtilizationPct h + rh_MemoryUtilizationPct h) / 200)"
  have "0 \<le> a" "a \<le> 1"
    using assms by (auto simp: a_def sane_health_def divide_le_eq)
  moreover have "0 \<le> b" "b \<le> 1" "0 \<le> c" "c \<le> 1"
    using assms by (auto simp: b_def c_def sane_health_def)
  moreover have "computeScore h = 4 / 10 * a + 4 / 10 * b + 2 / 10 * c"
    by (simp add: computeScore_def a_def b_def c_def Let_def)
  ultimately show ?thesis by simp
qed

definition scorer_inv :: "RelayScorer \<Rightarrow> bool" where
  "scorer_inv rs \<longleftrightarrow> mwf (sc_scores rs) \<and> 0 \<le> sc_alpha rs \<and> sc_alpha rs \<le> 1 \<and>
     (\<forall>k v. map_of (sc_scores rs) k = Some v \<longrightarrow> 0 \<le> v \<and> v \<le> 1)"

lemma Scorer_Update_frame [simp]:
  "sc_alpha (Scorer_Update k h rs) = sc_alpha rs"
  "map_of (sc_scores (Scorer_Update k h rs)) j = (if j = k then Some (case map_of (sc_scores rs) k of
     Some prev \<Rightarrow> sc_alpha rs * computeScore h + (1 - sc_alpha rs) * prev | None \<Rightarrow> computeScore h)
     else map_of (sc_scores rs) j)"
  "mwf (sc_scores rs) \<Longrightarrow> mwf (sc_scores (Scorer_Update k h rs))"
  by (simp_all add: Scorer_Update_def Let_def)

lemma convex_unit:
  fixes a x y :: real
  assumes "0 \<le> a" "a \<le> 1" "0 \<le> x" "x \<le> 1" "0 \<le> y" "y \<le> 1"
  shows "0 \<le> a * x + (1 - a) * y \<and> a * x + (1 - a) * y \<le> 1"
  using assms convex_bound_le [of x 1 y a "1 - a"] by simp

lemma scorer_inv_Update: "scorer_inv rs \<Longrightarrow> sane_health h \<Longrightarrow> scorer_inv (Scorer_Update k h rs)"
  using computeScore_bounds [of h]
  by (auto simp: scorer_inv_def convex_unit split: option.splits)

lemma scorer_inv_New: "scorer_inv NewRelayScorer"
  by (simp add: scorer_inv_def NewRelayScorer_def)

lemma scorer_inv_fold:
  "scorer_inv rs \<Longrightarrow> list_all (\<lambda>(k, h). sane_health h) us \<Longrightarrow>
     scorer_inv (fold (\<lambda>(k, h). Scorer_Update k h) us rs)"
  by (induction us arbitrary: rs) (auto simp: scorer_inv_Update)

lemma scorer_repeat:
  assumes "map_of (sc_scores rs) k = Some v"
  shows "map_of (sc_scores ((Scorer_Update k h ^^ n) rs)) k =
    Some (computeScore h + (1 - sc_alpha rs) ^ n * (v - computeScore h)) \<and>
    sc_alpha ((Scorer_Update k h ^^ n) rs) = sc_alpha rs"
proof (induction n)
  case 0
  then show ?case using assms by simp
next
  case (Suc n)
  then show ?case by (simp add: algebra_simps)
qed

subsection \<open>Properties\<close>

text \<open>\<^verbatim>\<open>DeregisterAll\<close> removes exactly one tunnel from the local table: afterwards no hostname routes to
  it, and every other hostname routes as before.\<close>

theorem DeregisterAll_exact:
  assumes "mwf (tr_hostMap r)"
  shows "LookupWithLabel (DeregisterAll t r) h =
    (case LookupWithLabel r h of None \<Rightarrow> None | Some (t', l) \<Rightarrow> if t' = t then None else Some (t', l))"
  using local_hosts.drop_lookup [OF assms]
  by (simp add: LookupWithLabel_def DeregisterAll_def split: option.split)

definition router_example :: TunnelRouter where
  "router_example = snd (RegisterLabel ''t-b'' ''api'' (snd (RegisterLabel ''t-a'' ''web'' (NewTunnelRouter ''example.com''))))"

theorem DeregisterAll_exact_witness:
  "LookupWithLabel (DeregisterAll ''t-a'' router_example) ''web-a.example.com'' = None \<and>
   LookupWithLabel (DeregisterAll ''t-a'' router_example) ''api-b.example.com'' = Some (''t-b'', ''api'')"
proof -
  have "mwf (tr_hostMap router_example)"
    by (simp add: router_example_def RegisterLabel_def NewTunnelRouter_def Let_def)
  from DeregisterAll_exact [OF this, of "''t-a''"] show ?thesis
    by (simp add: router_example_def RegisterLabel_def NewTunnelRouter_def Let_def LookupWithLabel_def
        HostnameForLabel_def TrimPrefix_def)
qed

text \<open>With labels that contain no hyphen, agents cannot interfere: registering a label returns its
  hostname, that hostname routes to the registering tunnel and label, and the hostname of every
  other agent or label routes as before.\<close>

theorem RegisterLabel_isolated:
  assumes "CHR ''-'' \<notin> set l" and "CHR ''-'' \<notin> set l'" and "RegisterLabel (NewTunnelID a) l r = (h, r')"
  shows "LookupWithLabel r' h = Some (NewTunnelID a, l) \<and>
    (l' \<noteq> l \<or> b \<noteq> a \<longrightarrow> LookupWithLabel r' (HostnameForLabel r' (NewTunnelID b) l') =
      LookupWithLabel r (HostnameForLabel r (NewTunnelID b) l'))"
proof -
  have h: "h = HostnameForLabel r (NewTunnelID a) l"
    and r': "r' = r\<lparr>tr_hostMap := mput h \<lparr> rk_TunnelID = NewTunnelID a, rk_Label = l \<rparr> (tr_hostMap r)\<rparr>"
    using assms(3) by (auto simp: RegisterLabel_def Let_def)
  have "HostnameForLabel r' t k = HostnameForLabel r t k" for t k
    by (simp add: r' HostnameForLabel_def)
  then show ?thesis
    using HostnameForLabel_inject [OF assms(2,1), of r b a] by (auto simp: LookupWithLabel_def r' h)
qed

theorem RegisterLabel_isolated_witness:
  "LookupWithLabel (snd (RegisterLabel (NewTunnelID ''c'') ''ssh'' router_example))
     (fst (RegisterLabel (NewTunnelID ''c'') ''ssh'' router_example)) = Some (''t-c'', ''ssh'')"
  using RegisterLabel_isolated [of "''ssh''" "''web''" "''c''" router_example
      "fst (RegisterLabel (NewTunnelID ''c'') ''ssh'' router_example)"
      "snd (RegisterLabel (NewTunnelID ''c'') ''ssh'' router_example)" "''a''"]
  by (simp add: NewTunnelID_def)

text \<open>Hyphens make hostnames ambiguous: label \<open>a\<close> of agent \<open>b-c\<close> and label \<open>a-b\<close> of agent \<open>c\<close> have the
  same hostname, as do the default hostname of agent \<open>l-c\<close> and label \<open>l\<close> of agent \<open>c\<close>, so the later
  registration silently takes over the public hostname of the earlier tunnel.\<close>

theorem RegisterLabel_takeover:
  "let h = HostnameForLabel r (NewTunnelID c) (a @ ''-'' @ b);
       r1 = snd (RegisterLabel (NewTunnelID c) (a @ ''-'' @ b) r);
       r2 = snd (RegisterLabel (NewTunnelID (b @ ''-'' @ c)) a r1);
       r3 = snd (Router_Register (NewTunnelID (a @ ''-'' @ b @ ''-'' @ c)) r1)
   in LookupWithLabel r1 h = Some (NewTunnelID c, a @ ''-'' @ b) \<and>
      LookupWithLabel r2 h = Some (NewTunnelID (b @ ''-'' @ c), a) \<and>
      LookupWithLabel r3 h = Some (NewTunnelID (a @ ''-'' @ b @ ''-'' @ c), ''default'')"
  by (simp add: RegisterLabel_def Router_Register_def LookupWithLabel_def HostnameForLabel_def HostnameForTunnel_def
      TrimPrefix_def NewTunnelID_def Let_def)

text \<open>Relay scores stay between 0 and 1: whatever sequence of health reports with non-negative round
  trip times, loss and utilisation is ingested, for whatever relays, every score the scorer
  returns is in the documented range.\<close>

theorem Score_range:
  assumes "list_all (\<lambda>(k, h). sane_health h) us"
  shows "0 \<le> Score (fold (\<lambda>(k, h). Scorer_Update k h) us NewRelayScorer) k \<and>
    Score (fold (\<lambda>(k, h). Scorer_Update k h) us NewRelayScorer) k \<le> 1"
  using scorer_inv_fold [OF scorer_inv_New assms] by (auto simp: Score_def scorer_inv_def split: option.split)

definition health_example :: RelayHealth where
  "health_example = \<lparr> rh_AdvertiseAddr = ''gw-2:443'', rh_RTTMillis = 500, rh_HeartbeatLatencyMillis = 0,
     rh_ActiveTunnels = 1, rh_ActiveStreams = 2, rh_BytesPerSecond = 0, rh_PacketLossPct = 50,
     rh_CPUUtilizationPct = 100, rh_MemoryUtilizationPct = 100, rh_RecordedAt = 0, rh_Region = ''eu'' \<rparr>"

theorem Score_range_witness:
  "Score (fold (\<lambda>(k, h). Scorer_Update k h) [(''r2'', health_example)] NewRelayScorer) ''r2'' \<le> 1"
  using Score_range [of "[(''r2'', health_example)]" "''r2''"] by (simp add: sane_health_def health_example_def)

text \<open>The score follows the reports: after \<open>n\<close> identical reports the distance between a relay's score
  and the score of the report is the initial distance times 0.7 to the power \<open>n\<close>, so the score
  converges to what is reported and forgets the past geometrically.\<close>

theorem Score_converges:
  assumes "map_of (sc_scores rs) k = Some v" and "sc_alpha rs = sc_alpha NewRelayScorer"
  shows "Score ((Scorer_Update k h ^^ n) rs) k - computeScore h = (7 / 10) ^ n * (v - computeScore h)"
  using scorer_repeat [OF assms(1), of n h] assms(2) by (simp add: Score_def NewRelayScorer_def)

theorem Score_converges_witness:
  "Score ((Scorer_Update ''r2'' health_example ^^ 2) (NewRelayScorer\<lparr>sc_scores := [(''r2'', 1)]\<rparr>)) ''r2''
     - computeScore health_example = 49 / 100 * (1 - computeScore health_example)"
  using Score_converges [of "NewRelayScorer\<lparr>sc_scores := [(''r2'', 1)]\<rparr>" "''r2''" 1 2 health_example]
  by (simp add: NewRelayScorer_def power2_eq_square)

text \<open>\<^verbatim>\<open>BestRelaysForRegion\<close> returns the addresses of the best relays of the region: it takes as many as
  asked for and known, in order of falling score, and no known candidate it leaves out has a better
  score than one it returns.\<close>

theorem BestRelaysForRegion_best:
  "\<exists>chosen rest. BestRelaysForRegion rs region n = map fst chosen \<and>
     mset (chosen @ rest) = mset (region_candidates rs region) \<and>
     length chosen = min n (length (region_candidates rs region)) \<and>
     sorted_wrt (\<lambda>a b. snd a \<ge> snd b) (chosen @ rest)"
proof -
  let ?cs = "sort_key (\<lambda>c. - snd c) (region_candidates rs region)"
  have "sorted (map (\<lambda>c. - snd c) ?cs)" by simp
  then have "sorted_wrt (\<lambda>a b. snd a \<ge> snd b) (take n ?cs @ drop n ?cs)"
    by (simp add: sorted_map)
  moreover have "mset (take n ?cs @ drop n ?cs) = mset (region_candidates rs region)"
    by (metis append_take_drop_id mset_sort)
  moreover have "length (take n ?cs) = min n (length (region_candidates rs region))"
    by (simp add: min.commute)
  ultimately show ?thesis
    unfolding BestRelaysForRegion_def by blast
qed


definition lease_event :: "RegistryEventType \<Rightarrow> string \<Rightarrow> string \<Rightarrow> RegistryEvent" where
  "lease_event ty t relay = \<lparr> ev_Type = ty, ev_Tunnel = None,
     ev_Lease = Some \<lparr> le_LeaseID = ''l'', le_TunnelID = t, le_RelayID = relay, le_ExpiresAt = 0, le_Version = 1 \<rparr>,
     ev_Relay = None, ev_Health = None \<rparr>"


text \<open>A route learnt before its owner's address keeps an empty address: when the lease event of a tunnel
  arrives before the event that announces the owning relay (the order of the registry's snapshot),
  the announcement does not refresh the route, so connections cannot be proxied to the owner.\<close>

theorem relay_announcement_leaves_route_stale:
  assumes "map_of (dr_relays d) owner = None" and "owner \<noteq> []" and "owner \<noteq> dr_selfRelayID d"
    and "ev_Type e = RegistryEventRelayUpserted" and "ev_Relay e = Some ri" and "ri_RelayID ri = owner"
    and "ri_AdvertiseAddr ri \<noteq> []"
  shows "let d1 = handleEvent (lease_event RegistryEventLeaseAcquired t owner) d; d2 = handleEvent e d1 in
    map_of (dr_relays d2) owner = Some (ri_AdvertiseAddr ri) \<and>
    (\<exists>route. Dist_Lookup d2 (HostnameForTunnel (dr_router d) t) = Some route \<and>
      rr_OwnerRelayID route = owner \<and> rr_OwnerAddr route = [])"
  using assms
  by (auto simp: Let_def handleEvent_def lease_event_def upsertTunnelRoutes_def learn_relay_def score_relay_def
      Dist_Lookup_def str_at_def)

definition relay_event :: "string \<Rightarrow> string \<Rightarrow> RegistryEvent" where
  "relay_event i addr = \<lparr> ev_Type = RegistryEventRelayUpserted, ev_Tunnel = None, ev_Lease = None,
     ev_Relay = Some \<lparr> ri_RelayID = i, ri_AdvertiseAddr = addr, ri_State = ''active'', ri_ActiveTunnels = 0,
       ri_ActiveStreams = 0, ri_LastSeen = 0, ri_Region = [] \<rparr>, ev_Health = None \<rparr>"

theorem relay_announcement_leaves_route_stale_witness:
  "let d = NewDistributedRouter ''r0'' (NewTunnelRouter ''x'');
       d2 = handleEvent (relay_event ''r2'' ''gw-2:443'') (handleEvent (lease_event RegistryEventLeaseAcquired ''t-a'' ''r2'') d)
   in \<exists>route. Dist_Lookup d2 (HostnameForTunnel (dr_router d) ''t-a'') = Some route \<and> rr_OwnerAddr route = []"
  using relay_announcement_leaves_route_stale [of "NewDistributedRouter ''r0'' (NewTunnelRouter ''x'')" "''r2''"
      "relay_event ''r2'' ''gw-2:443''" "the (ev_Relay (relay_event ''r2'' ''gw-2:443''))" "''t-a''"]
  by (auto simp: relay_event_def NewDistributedRouter_def Let_def)

text \<open>Health reports never lower the score a relay was seeded with: the seed is stored under the relay's
  id, a report under the address inside the report, so however bad the reports are, the seeded entry
  keeps its score of 1 and its address stays at the top of the candidates.\<close>

theorem health_report_misses_seeded_score:
  assumes "map_of (sc_scores (dr_scorer d)) i = None" and "i \<noteq> a"
    and "list_all (\<lambda>e. ev_Type e = RegistryEventRelayHealthUpdated \<and>
      (\<exists>h. ev_Health e = Some h \<and> rh_AdvertiseAddr h = a)) es" and "addr \<noteq> []"
  shows "Score (dr_scorer (Dist_Run es (handleEvent (relay_event i addr) d))) i = 1"
proof -
  let ?d = "handleEvent (relay_event i addr) d"
  have seed: "map_of (sc_scores (dr_scorer ?d)) i = Some 1"
    using assms(1,4) by (simp add: handleEvent_def relay_event_def score_relay_def learn_relay_def
        relay_metadata_health_def computeScore_def)
  have step: "map_of (sc_scores (dr_scorer (handleEvent e d))) i = map_of (sc_scores (dr_scorer d)) i"
    if "ev_Type e = RegistryEventRelayHealthUpdated" "ev_Health e = Some h" "rh_AdvertiseAddr h = a" for e h d
    using that assms(2) by (auto simp: handleEvent_def score_relay_def learn_relay_def split: option.split)
  have "map_of (sc_scores (dr_scorer (fold handleEvent es d))) i = map_of (sc_scores (dr_scorer d)) i" for d
    using assms(3) by (induction es arbitrary: d) (auto simp: step)
  with seed show ?thesis
    by (simp add: Dist_Run_def Score_def)
qed

definition health_event :: "RelayHealth \<Rightarrow> RegistryEvent" where
  "health_event h = \<lparr> ev_Type = RegistryEventRelayHealthUpdated, ev_Tunnel = None, ev_Lease = None,
     ev_Relay = None, ev_Health = Some h \<rparr>"

theorem health_report_misses_seeded_score_witness:
  "Score (dr_scorer (Dist_Run [health_event health_example]
     (handleEvent (relay_event ''r2'' ''gw-2:443'') (NewDistributedRouter ''r0'' (NewTunnelRouter ''x''))))) ''r2'' = 1"
  using health_report_misses_seeded_score [of "NewDistributedRouter ''r0'' (NewTunnelRouter ''x'')" "''r2''" "''gw-2:443''"
      "[health_event health_example]" "''gw-2:443''"]
  by (simp add: NewDistributedRouter_def NewRelayScorer_def health_event_def health_example_def)

end
