(* ===== verification/TE_Memstore.thy ===== *)
theory TE_Memstore
  imports TE_Domain
begin

text \<open>
  The in-memory repositories of \<^verbatim>\<open>src/internal/store/memstore\<close>: sessions by tunnel id
  (\<^verbatim>\<open>session_repo.go\<close>) and token hashes by agent (\<^verbatim>\<open>token_repo.go\<close>). \<^verbatim>\<open>Register\<close> fills in the zero
  timestamps of the caller's session, so the model returns that session as well. The locale
  \<open>session_store\<close> is the part of \<^verbatim>\<open>domain.SessionRepository\<close> the registry server relies on.
\<close>

type_synonym session_repo = "(string, Session) gomap"

definition stamp_session :: "time \<Rightarrow> time \<Rightarrow> Session \<Rightarrow> Session" where
  "stamp_session now1 now2 s =
     (let s = (if ss_CreatedAt s = zero_time then s\<lparr>ss_CreatedAt := now1\<rparr> else s)
      in if ss_LastHeartbeat s = zero_time then s\<lparr>ss_LastHeartbeat := now2\<rparr> else s)"

definition mem_Register :: "time \<Rightarrow> time \<Rightarrow> Session \<Rightarrow> session_repo \<Rightarrow> unit result \<times> Session \<times> session_repo" where
  "mem_Register now1 now2 session r =
     (if ss_TunnelID session = [] then (Err (New CodeInvalidArg ''tunnel_id is required''), session, r)
      else if map_of r (ss_TunnelID session) \<noteq> None
        then (Err (CodedErr CodeAlreadyExists ''tunnel already registered'' None), session, r)
      else let session = stamp_session now1 now2 session
           in (Ok (), session, mput (ss_TunnelID session) session r))"

definition mem_Deregister :: "string \<Rightarrow> session_repo \<Rightarrow> unit result \<times> session_repo" where
  "mem_Deregister tunnelID r =
     (if map_of r tunnelID = None then (Err (PlainErr ''tunnel not found''), r)
      else (Ok (), mdel tunnelID r))"

definition mem_Get :: "string \<Rightarrow> session_repo \<Rightarrow> Session result" where
  "mem_Get tunnelID r = (case map_of r tunnelID of
     None \<Rightarrow> Err (New CodeNotFound ''tunnel not found'') | Some s \<Rightarrow> Ok s)"

definition mem_List :: "session_repo \<Rightarrow> Session list" where
  "mem_List r = map snd r"

definition mem_Heartbeat :: "time \<Rightarrow> string \<Rightarrow> session_repo \<Rightarrow> unit result \<times> session_repo" where
  "mem_Heartbeat now tunnelID r =
     (if map_of r tunnelID = None then (Err (New CodeNotFound ''tunnel not found''), r)
      else (Ok (), mupd tunnelID (Touch now) r))"

text \<open>The sweep of \<^verbatim>\<open>CleanupExpired\<close>: a range loop over the entries that deletes and counts.\<close>

fun cleanup_range :: "(Session \<Rightarrow> bool) \<Rightarrow> (string \<times> Session) list \<Rightarrow> nat \<Rightarrow> session_repo \<Rightarrow> nat \<times> session_repo" where
  "cleanup_range expired [] n r = (n, r)"
| "cleanup_range expired ((i, s) # rest) n r =
     (if expired s then cleanup_range expired rest (n + 1) (mdel i r) else cleanup_range expired rest n r)"

definition mem_CleanupExpired :: "duration \<Rightarrow> time \<Rightarrow> session_repo \<Rightarrow> nat \<times> session_repo" where
  "mem_CleanupExpired ttl now r = cleanup_range (IsExpired now ttl) r 0 r"

definition resumable :: "time \<Rightarrow> string \<Rightarrow> Session \<Rightarrow> bool" where
  "resumable now token s \<longleftrightarrow> ss_ResumeToken s = token \<and>
     (case ss_ResumeDeadline s of None \<Rightarrow> False | Some d \<Rightarrow> d > now)"

definition mem_GetResumable :: "time \<Rightarrow> string \<Rightarrow> session_repo \<Rightarrow> Session result" where
  "mem_GetResumable now token r =
     (if token = [] then Err (New CodeInvalidArg ''resume token required'')
      else case find (\<lambda>p. resumable now token (snd p)) r of
        Some p \<Rightarrow> Ok (snd p) | None \<Rightarrow> Err (New CodeNotFound ''resumable session not found''))"

definition mem_SetResumable :: "string \<Rightarrow> string \<Rightarrow> time \<Rightarrow> session_repo \<Rightarrow> unit result \<times> session_repo" where
  "mem_SetResumable tunnelID token deadline r =
     (if map_of r tunnelID = None then (Err (New CodeNotFound ''session not found''), r)
      else (Ok (), mupd tunnelID (\<lambda>s. s\<lparr>ss_ResumeToken := token, ss_ResumeDeadline := Some deadline\<rparr>) r))"

subsection \<open>Tokens\<close>

type_synonym token_repo = "(string, string) gomap"

definition tok_Create :: "string \<Rightarrow> string \<Rightarrow> token_repo \<Rightarrow> token_repo" where
  "tok_Create agentID tokenHash r = mput agentID tokenHash r"

definition tok_GetByAgentID :: "string \<Rightarrow> token_repo \<Rightarrow> string result" where
  "tok_GetByAgentID agentID r = (case map_of r agentID of
     None \<Rightarrow> Err (PlainErr ''token not found for agent'') | Some h \<Rightarrow> Ok h)"

definition tok_List :: "token_repo \<Rightarrow> (string, string) gomap" where
  "tok_List r = fold (\<lambda>(agentID, hash) m. mput hash agentID m) r []"

definition tok_Delete :: "string \<Rightarrow> token_repo \<Rightarrow> token_repo" where
  "tok_Delete agentID r = mdel agentID r"

subsection \<open>Invariant\<close>

definition repo_inv :: "session_repo \<Rightarrow> bool" where
  "repo_inv r \<longleftrightarrow> mwf r \<and> (\<forall>k s. map_of r k = Some s \<longrightarrow> ss_TunnelID s = k \<and> k \<noteq> [])"

lemma stamp_TunnelID [simp]: "ss_TunnelID (stamp_session a b s) = ss_TunnelID s"
  by (simp add: stamp_session_def Let_def)

lemma repo_inv_Nil: "repo_inv []"
  by (simp add: repo_inv_def)

lemma repo_inv_Register: "repo_inv r \<Longrightarrow> repo_inv (snd (snd (mem_Register a b s r)))"
  by (auto simp: repo_inv_def mem_Register_def Let_def split: if_splits)

lemma repo_inv_Deregister: "repo_inv r \<Longrightarrow> repo_inv (snd (mem_Deregister t r))"
  by (auto simp: repo_inv_def mem_Deregister_def split: if_splits)

lemma repo_inv_Heartbeat: "repo_inv r \<Longrightarrow> repo_inv (snd (mem_Heartbeat now t r))"
  by (auto simp: repo_inv_def mem_Heartbeat_def Touch_def split: if_splits)

lemma repo_inv_SetResumable: "repo_inv r \<Longrightarrow> repo_inv (snd (mem_SetResumable t tok d r))"
  by (auto simp: repo_inv_def mem_SetResumable_def split: if_splits)

text \<open>The loop of \<^verbatim>\<open>CleanupExpired\<close> against its reference: keep the entries that have not expired.\<close>

lemma cleanup_range_spec:
  assumes "mwf r" and "set es \<subseteq> set r" and "distinct (map fst es)"
  shows "cleanup_range P es n r =
    (n + length (filter (\<lambda>p. P (snd p)) es), filter (\<lambda>p. \<not> (p \<in> set es \<and> P (snd p))) r)"
  using assms
proof (induction es arbitrary: n r)
  case Nil
  then show ?case by simp
next
  case (Cons p es)
  obtain i s where p: "p = (i, s)" by (cases p)
  show ?case
  proof (cases "P s")
    case True
    have "set es \<subseteq> set (mdel i r)"
      using Cons.prems(2,3) p by force
    then have IH: "cleanup_range P es (n + 1) (mdel i r) = (n + 1 + length (filter (\<lambda>p. P (snd p)) es),
        filter (\<lambda>p. \<not> (p \<in> set es \<and> P (snd p))) (mdel i r))"
      using Cons.prems by (intro Cons.IH) simp_all
    have "u = s" if "(i, u) \<in> set r" for u
      using Cons.prems(1,2) that p in_set_mwf [of r i u] in_set_mwf [of r i s] by auto
    then have only: "q \<in> set r \<Longrightarrow> fst q = i \<longleftrightarrow> q = p" for q
      using Cons.prems(2) p by (cases q) auto
    have "filter (\<lambda>p. \<not> (p \<in> set es \<and> P (snd p))) (mdel i r) =
        filter (\<lambda>q. \<not> (q \<in> set (p # es) \<and> P (snd q))) r"
      unfolding mdel_def filter_filter by (rule filter_cong [OF refl]) (use True p only in auto)
    with IH True show ?thesis by (simp add: p)
  next
    case False
    with Cons.IH [of r n] Cons.prems show ?thesis
      by (simp add: p) (rule filter_cong [OF refl], auto)
  qed
qed

lemma mem_CleanupExpired_eq:
  assumes "mwf r"
  shows "mem_CleanupExpired ttl now r =
    (length (filter (\<lambda>p. IsExpired now ttl (snd p)) r), mkeep (\<lambda>k s. \<not> IsExpired now ttl s) r)"
proof -
  have "filter (\<lambda>p. \<not> (p \<in> set r \<and> IsExpired now ttl (snd p))) r = mkeep (\<lambda>k s. \<not> IsExpired now ttl s) r"
    unfolding mkeep_def by (rule filter_cong) simp_all
  with cleanup_range_spec [OF assms order_refl, of "IsExpired now ttl" 0] assms show ?thesis
    by (simp add: mem_CleanupExpired_def mwf_def)
qed

interpretation sessions_expiry: expiring_table "\<lambda>now s. IsExpired now ttl s" "mem_CleanupExpired ttl" for ttl
proof unfold_locales
  fix m :: session_repo and now k
  assume wf: "mwf m"
  show "map_of (snd (mem_CleanupExpired ttl now m)) k =
      (case map_of m k of None \<Rightarrow> None | Some v \<Rightarrow> if IsExpired now ttl v then None else Some v)"
    using wf by (simp add: mem_CleanupExpired_eq split: option.splits)
  show "mwf (snd (mem_CleanupExpired ttl now m))"
    using wf by (simp add: mem_CleanupExpired_eq)
  show "fst (mem_CleanupExpired ttl now m) + length (snd (mem_CleanupExpired ttl now m)) = length m"
    using wf by (simp add: mem_CleanupExpired_eq sweep_mkeep_count)
qed (auto simp: IsExpired_def)

subsection \<open>The contract of a session store\<close>

locale session_store =
  fixes inv :: "'s \<Rightarrow> bool"
    and lookup :: "'s \<Rightarrow> string \<Rightarrow> Session option"
    and register :: "time \<Rightarrow> time \<Rightarrow> Session \<Rightarrow> 's \<Rightarrow> unit result \<times> Session \<times> 's"
    and deregister :: "string \<Rightarrow> 's \<Rightarrow> unit result \<times> 's"
    and heartbeat :: "time \<Rightarrow> string \<Rightarrow> 's \<Rightarrow> unit result \<times> 's"
  assumes register_new: "inv s \<Longrightarrow> ss_TunnelID x \<noteq> [] \<Longrightarrow> lookup s (ss_TunnelID x) = None \<Longrightarrow>
      \<exists>x' s'. register n1 n2 x s = (Ok (), x', s') \<and> inv s' \<and> ss_TunnelID x' = ss_TunnelID x \<and>
        lookup s' = (lookup s)(ss_TunnelID x \<mapsto> x')"
    and register_dup: "inv s \<Longrightarrow> ss_TunnelID x \<noteq> [] \<Longrightarrow> lookup s (ss_TunnelID x) \<noteq> None \<Longrightarrow>
      \<exists>e. register n1 n2 x s = (Err e, x, s) \<and> GetCode e = CodeAlreadyExists"
    and deregister_known: "inv s \<Longrightarrow> lookup s t \<noteq> None \<Longrightarrow>
      \<exists>s'. deregister t s = (Ok (), s') \<and> inv s' \<and> lookup s' = (lookup s)(t := None)"
    and heartbeat_known: "inv s \<Longrightarrow> lookup s t = Some x \<Longrightarrow>
      \<exists>s'. heartbeat now t s = (Ok (), s') \<and> inv s' \<and> lookup s' = (lookup s)(t \<mapsto> Touch now x)"
    and heartbeat_unknown: "inv s \<Longrightarrow> lookup s t = None \<Longrightarrow>
      \<exists>e. heartbeat now t s = (Err e, s) \<and> GetCode e = CodeNotFound"
begin

text \<open>A tunnel can be registered again after it was deregistered, and only then.\<close>

lemma register_cycle:
  assumes "inv s" and "ss_TunnelID x \<noteq> []" and "lookup s (ss_TunnelID x) = None"
  shows "\<exists>x1 s1 e s2. register n1 n2 x s = (Ok (), x1, s1) \<and> inv s1 \<and> lookup s1 (ss_TunnelID x) = Some x1 \<and>
     register n3 n4 x s1 = (Err e, x, s1) \<and> GetCode e = CodeAlreadyExists \<and>
     deregister (ss_TunnelID x) s1 = (Ok (), s2) \<and> inv s2 \<and> lookup s2 = lookup s"
proof -
  obtain x1 s1 where 1: "register n1 n2 x s = (Ok (), x1, s1)" "inv s1"
    "lookup s1 = (lookup s)(ss_TunnelID x \<mapsto> x1)"
    using register_new [OF assms] by blast
  then have l: "lookup s1 (ss_TunnelID x) = Some x1" by simp
  obtain e where 2: "register n3 n4 x s1 = (Err e, x, s1)" "GetCode e = CodeAlreadyExists"
    using register_dup [OF 1(2) assms(2)] l by (metis option.distinct(1))
  obtain s2 where 3: "deregister (ss_TunnelID x) s1 = (Ok (), s2)" "inv s2"
    "lookup s2 = (lookup s1)(ss_TunnelID x := None)"
    using deregister_known [OF 1(2)] l by (metis option.distinct(1))
  have "lookup s2 = lookup s"
    using 1(3) 3(3) assms(3) by (auto simp: fun_eq_iff)
  with 1 2 3 l show ?thesis by blast
qed

lemma heartbeat_other:
  "inv s \<Longrightarrow> lookup s t = Some x \<Longrightarrow> u \<noteq> t \<Longrightarrow> lookup (snd (heartbeat now t s)) u = lookup s u"
  using heartbeat_known [of s t x now] by auto

end

interpretation mem_store: session_store repo_inv map_of mem_Register mem_Deregister mem_Heartbeat
proof unfold_locales
  fix s :: session_repo and x :: Session and n1 n2
  assume a: "repo_inv s" "ss_TunnelID x \<noteq> []" "map_of s (ss_TunnelID x) = None"
  then show "\<exists>x' s'. mem_Register n1 n2 x s = (Ok (), x', s') \<and> repo_inv s' \<and> ss_TunnelID x' = ss_TunnelID x \<and>
        map_of s' = (map_of s)(ss_TunnelID x \<mapsto> x')"
    using repo_inv_Register [of s n1 n2 x] by (auto simp: mem_Register_def Let_def fun_eq_iff)
next
  fix s :: session_repo and x :: Session and n1 n2
  assume "repo_inv s" "ss_TunnelID x \<noteq> []" "map_of s (ss_TunnelID x) \<noteq> None"
  then show "\<exists>e. mem_Register n1 n2 x s = (Err e, x, s) \<and> GetCode e = CodeAlreadyExists"
    by (auto simp: mem_Register_def)
next
  fix s :: session_repo and t
  assume "repo_inv s" "map_of s t \<noteq> None"
  then show "\<exists>s'. mem_Deregister t s = (Ok (), s') \<and> repo_inv s' \<and> map_of s' = (map_of s)(t := None)"
    using repo_inv_Deregister [of s t] by (auto simp: mem_Deregister_def fun_eq_iff)
next
  fix s :: session_repo and t x now
  assume "repo_inv s" "map_of s t = Some x"
  then show "\<exists>s'. mem_Heartbeat now t s = (Ok (), s') \<and> repo_inv s' \<and> map_of s' = (map_of s)(t \<mapsto> Touch now x)"
    using repo_inv_Heartbeat [of s now t] by (auto simp: mem_Heartbeat_def fun_eq_iff)
next
  fix s :: session_repo and t now
  assume "repo_inv s" "map_of s t = None"
  then show "\<exists>e. mem_Heartbeat now t s = (Err e, s) \<and> GetCode e = CodeNotFound"
    by (auto simp: mem_Heartbeat_def)
qed

subsection \<open>Properties\<close>

text \<open>\<^verbatim>\<open>CleanupExpired\<close> removes exactly the sessions whose last heartbeat is more than the TTL ago,
  leaves every other session untouched, returns the number it removed, and finds nothing to remove
  when it runs again at the same time.\<close>

theorem CleanupExpired_exact:
  assumes "mwf r"
  shows "map_of (snd (mem_CleanupExpired ttl now r)) k =
      (case map_of r k of None \<Rightarrow> None | Some s \<Rightarrow> if now - ss_LastHeartbeat s > ttl then None else Some s) \<and>
    fst (mem_CleanupExpired ttl now r) + length (snd (mem_CleanupExpired ttl now r)) = length r \<and>
    fst (mem_CleanupExpired ttl now (snd (mem_CleanupExpired ttl now r))) = 0"
  using sessions_expiry.sweep_lookup [OF assms] sessions_expiry.sweep_count [OF assms]
    sessions_expiry.sweep_again [OF assms] by (simp add: IsExpired_def split: option.split)

definition session_example :: Session where
  "session_example = (NewSession 100 ''t-a'' ''a'' ''localhost:80'')"

theorem CleanupExpired_exact_witness:
  "fst (mem_CleanupExpired 30 120 [(''t-a'', session_example)]) = 0 \<and>
   fst (mem_CleanupExpired 30 131 [(''t-a'', session_example)]) = 1"
  using CleanupExpired_exact [of "[(''t-a'', session_example)]" 30 120 "''t-a''"]
    CleanupExpired_exact [of "[(''t-a'', session_example)]" 30 131 "''t-a''"]
  by (simp add: mwf_def mem_CleanupExpired_def session_example_def NewSession_def IsExpired_def)

text \<open>A session whose heartbeat was just accepted survives every cleanup that runs within the TTL,
  however the cleanup and the heartbeats of other tunnels are interleaved before it: if the
  heartbeat at time \<open>h\<close> succeeds, then a cleanup at any time up to \<open>h + ttl\<close> keeps the session, with
  that heartbeat.\<close>

theorem Heartbeat_keeps_alive:
  assumes "repo_inv r" and "mem_Heartbeat h t r = (Ok (), r')" and "now \<le> h + ttl"
  shows "\<exists>s. map_of r t = Some s \<and> map_of (snd (mem_CleanupExpired ttl now r')) t = Some (Touch h s)"
proof -
  obtain s where s: "map_of r t = Some s"
    using assms(2) by (cases "map_of r t") (simp_all add: mem_Heartbeat_def)
  then have r': "repo_inv r'" "map_of r' t = Some (Touch h s)"
    using mem_store.heartbeat_known [OF assms(1) s, of h] assms(2) by auto
  have "\<not> IsExpired now ttl (Touch h s)"
    using assms(3) by (simp add: IsExpired_def Touch_def)
  with r' have "map_of (snd (mem_CleanupExpired ttl now r')) t = Some (Touch h s)"
    by (intro sessions_expiry.live_kept) (simp_all add: repo_inv_def)
  with s show ?thesis by blast
qed

theorem Heartbeat_keeps_alive_witness:
  "\<exists>s. map_of (snd (mem_CleanupExpired 30 150 (snd (mem_Heartbeat 120 ''t-a'' [(''t-a'', session_example)])))) ''t-a'' =
     Some (Touch 120 s)"
proof -
  have inv: "repo_inv [(''t-a'', session_example)]"
    by (simp add: repo_inv_def mwf_def session_example_def NewSession_def)
  have "mem_Heartbeat 120 ''t-a'' [(''t-a'', session_example)] = (Ok (), [(''t-a'', Touch 120 session_example)])"
    by (simp add: mem_Heartbeat_def mupd_def)
  from Heartbeat_keeps_alive [OF inv this, of 150 30] this show ?thesis
    by auto
qed

text \<open>The life of a registration: registering a new tunnel succeeds, registering it again fails with
  the code ALREADY_EXISTS and changes nothing, and after deregistering it the store is as it was.\<close>

theorem Register_cycle:
  assumes "repo_inv r" and "ss_TunnelID x \<noteq> []" and "map_of r (ss_TunnelID x) = None"
  shows "\<exists>x1 r1 e r2. mem_Register n1 n2 x r = (Ok (), x1, r1) \<and> mem_Get (ss_TunnelID x) r1 = Ok x1 \<and>
     mem_Register n3 n4 x r1 = (Err e, x, r1) \<and> GetCode e = CodeAlreadyExists \<and>
     mem_Deregister (ss_TunnelID x) r1 = (Ok (), r2) \<and> map_of r2 = map_of r"
  using mem_store.register_cycle [OF assms, of n1 n2 n3 n4] by (fastforce simp: mem_Get_def)

theorem Register_cycle_witness:
  "\<exists>x1 r1. mem_Register 1 2 session_example [] = (Ok (), x1, r1) \<and> mem_Get ''t-a'' r1 = Ok x1"
  using Register_cycle [OF repo_inv_Nil, of session_example 1 2 3 4]
  by (auto simp: session_example_def NewSession_def)

text \<open>Session resume in the store: after \<^verbatim>\<open>SetResumable\<close> gave a tunnel a token no other session has,
  \<^verbatim>\<open>GetResumable\<close> returns that tunnel's session exactly until the deadline, and NOT_FOUND from the
  deadline on.\<close>

theorem SetResumable_GetResumable:
  assumes "repo_inv r" and "tok \<noteq> []"
    and "\<And>k s. map_of r k = Some s \<Longrightarrow> k \<noteq> t \<Longrightarrow> ss_ResumeToken s \<noteq> tok"
    and "mem_SetResumable t tok d r = (Ok (), r')"
  shows "if now < d then \<exists>s. mem_GetResumable now tok r' = Ok s \<and> ss_TunnelID s = t
    else mem_GetResumable now tok r' = Err (New CodeNotFound ''resumable session not found'')"
proof -
  let ?f = "\<lambda>s. s\<lparr>ss_ResumeToken := tok, ss_ResumeDeadline := Some d\<rparr>"
  obtain x where x: "map_of r t = Some x" and r': "r' = mupd t ?f r"
    using assms(4) by (auto simp: mem_SetResumable_def split: if_splits)
  have inv': "repo_inv r'"
    using repo_inv_SetResumable [OF assms(1), of t tok d] assms(4) by simp
  then have wf: "mwf r'" by (simp add: repo_inv_def)
  have lookup: "map_of r' k = (if k = t then Some (?f x) else map_of r k)" for k
    by (simp add: r' x)
  have res: "resumable now tok s \<longleftrightarrow> k = t \<and> now < d" if "(k, s) \<in> set r'" for k s
  proof -
    have "map_of r' k = Some s"
      using that in_set_mwf [OF wf] by blast
    then show ?thesis
      using assms(3) [of k s] lookup [of k] by (cases "k = t") (auto simp: resumable_def)
  qed
  let ?P = "\<lambda>p. resumable now tok (snd p)"
  show ?thesis
  proof (cases "find ?P r'")
    case None
    have "(t, ?f x) \<in> set r'"
      using lookup [of t] in_set_mwf [OF wf] by simp
    moreover have "\<forall>p \<in> set r'. \<not> ?P p"
      using None by (auto simp: find_None_iff)
    ultimately have "\<not> now < d"
      using res by fastforce
    with None assms(2) show ?thesis by (simp add: mem_GetResumable_def)
  next
    case (Some p)
    then have p: "(fst p, snd p) \<in> set r'" "?P p"
      by (auto simp: find_Some_iff)
    then have "fst p = t" "now < d" "map_of r' (fst p) = Some (snd p)"
      using res [OF p(1)] in_set_mwf [OF wf] by blast+
    with Some assms(2) inv' show ?thesis
      by (simp add: mem_GetResumable_def repo_inv_def)
  qed
qed

theorem SetResumable_GetResumable_witness:
  "\<exists>s. mem_GetResumable 5 ''r'' (snd (mem_SetResumable ''t-a'' ''r'' 10 [(''t-a'', session_example)])) = Ok s \<and>
     ss_TunnelID s = ''t-a''"
proof -
  have inv: "repo_inv [(''t-a'', session_example)]"
    by (simp add: repo_inv_def mwf_def session_example_def NewSession_def)
  let ?r = "[(''t-a'', session_example\<lparr>ss_ResumeToken := ''r'', ss_ResumeDeadline := Some 10\<rparr>)]"
  have set: "mem_SetResumable ''t-a'' ''r'' 10 [(''t-a'', session_example)] = (Ok (), ?r)"
    by (simp add: mem_SetResumable_def mupd_def)
  have "if 5 < (10::int) then \<exists>s. mem_GetResumable 5 ''r'' ?r = Ok s \<and> ss_TunnelID s = ''t-a''
      else mem_GetResumable 5 ''r'' ?r = Err (New CodeNotFound ''resumable session not found'')"
    by (rule SetResumable_GetResumable [OF inv _ _ set]) (simp_all split: if_splits)
  then show ?thesis
    by (simp add: set)
qed

end
