(* ===== verification/TE_Coordinator.thy ===== *)
theory TE_Coordinator
  imports TE_Domain
begin

text \<open>
  The in-memory coordinator of \<^verbatim>\<open>src/internal/registry/mem_coordinator.go\<close>: leases, relays, health
  reports and the fan-out of events to subscribers.

  A new lease's UUID and every clock reading are arguments. Events published by \<^verbatim>\<open>go m.Publish(...)\<close> wait in
  \<open>mc_pending\<close> until \<open>deliver\<close> runs one of them, in any order; \<^verbatim>\<open>ReportRelayHealth\<close> and
  \<^verbatim>\<open>ReleaseExpiredLeases\<close> publish directly. A subscriber's buffered channel is the list of the events
  it has not received yet. The lease version is an unbounded integer.
\<close>

record healthEventSub =
  hs_relayID :: string
  hs_ch :: "RelayHealth list"

record MemCoordinator =
  mc_leasesByID :: "(string, Lease) gomap"
  mc_leaseByTunnel :: "(string, string) gomap"
  mc_relays :: "(string, RelayInfo) gomap"
  mc_relayHealth :: "(string, RelayHealth) gomap"
  mc_eventSubs :: "(int, RegistryEvent list) gomap"
  mc_healthSubs :: "(int, healthEventSub) gomap"
  mc_nextID :: int
  mc_pending :: "RegistryEvent list"

definition NewMemCoordinator :: MemCoordinator where
  "NewMemCoordinator = \<lparr> mc_leasesByID = [], mc_leaseByTunnel = [], mc_relays = [], mc_relayHealth = [],
     mc_eventSubs = [], mc_healthSubs = [], mc_nextID = 0, mc_pending = [] \<rparr>"

definition leaseEvent :: "RegistryEventType \<Rightarrow> Lease \<Rightarrow> RegistryEvent" where
  "leaseEvent ty l = \<lparr> ev_Type = ty, ev_Tunnel = None, ev_Lease = Some l, ev_Relay = None, ev_Health = None \<rparr>"

subsection \<open>Events\<close>

definition Publish :: "RegistryEvent \<Rightarrow> MemCoordinator \<Rightarrow> MemCoordinator" where
  "Publish event m = m\<lparr>mc_eventSubs :=
     map (\<lambda>(i, ch). (i, if length ch < 64 then ch @ [event] else ch)) (mc_eventSubs m)\<rparr>"

definition go_Publish :: "RegistryEvent \<Rightarrow> MemCoordinator \<Rightarrow> MemCoordinator" where
  "go_Publish event m = m\<lparr>mc_pending := mc_pending m @ [event]\<rparr>"

definition deliver :: "nat \<Rightarrow> MemCoordinator \<Rightarrow> MemCoordinator" where
  "deliver i m = (if i < length (mc_pending m)
     then Publish (mc_pending m ! i) (m\<lparr>mc_pending := take i (mc_pending m) @ drop (i + 1) (mc_pending m)\<rparr>) else m)"

definition Subscribe :: "MemCoordinator \<Rightarrow> int \<times> MemCoordinator" where
  "Subscribe m = (let i = mc_nextID m + 1 in
     (i, m\<lparr>mc_nextID := i, mc_eventSubs := mput i [] (mc_eventSubs m)\<rparr>))"

definition Unsubscribe :: "int \<Rightarrow> MemCoordinator \<Rightarrow> MemCoordinator" where
  "Unsubscribe i m = m\<lparr>mc_eventSubs := mdel i (mc_eventSubs m)\<rparr>"

definition SubscribeHealth :: "string \<Rightarrow> MemCoordinator \<Rightarrow> int \<times> RelayHealth option \<times> MemCoordinator" where
  "SubscribeHealth relayID m = (let i = mc_nextID m + 1 in
     (i, map_of (mc_relayHealth m) relayID,
      m\<lparr>mc_nextID := i, mc_healthSubs := mput i \<lparr> hs_relayID = relayID, hs_ch = [] \<rparr> (mc_healthSubs m)\<rparr>))"

definition publishHealth :: "string \<Rightarrow> RelayHealth \<Rightarrow> MemCoordinator \<Rightarrow> MemCoordinator" where
  "publishHealth relayID health m = m\<lparr>mc_healthSubs :=
     map (\<lambda>(i, sub). (i,
       if hs_relayID sub \<noteq> [] \<and> hs_relayID sub \<noteq> relayID then sub
       else if length (hs_ch sub) < 32 then sub\<lparr>hs_ch := hs_ch sub @ [health]\<rparr> else sub)) (mc_healthSubs m)\<rparr>"

subsection \<open>Leases\<close>

definition currentLeaseLocked :: "string \<Rightarrow> time \<Rightarrow> MemCoordinator \<Rightarrow> Lease option \<times> MemCoordinator" where
  "currentLeaseLocked tunnelID now m = (case map_of (mc_leaseByTunnel m) tunnelID of
     None \<Rightarrow> (None, m)
   | Some leaseID \<Rightarrow> (case map_of (mc_leasesByID m) leaseID of
       None \<Rightarrow> (None, m\<lparr>mc_leaseByTunnel := mdel tunnelID (mc_leaseByTunnel m)\<rparr>)
     | Some lease \<Rightarrow>
         if le_ExpiresAt lease < now
         then (None, m\<lparr>mc_leasesByID := mdel leaseID (mc_leasesByID m),
                       mc_leaseByTunnel := mdel tunnelID (mc_leaseByTunnel m)\<rparr>)
         else (Some lease, m)))"

definition CurrentLease :: "string \<Rightarrow> time \<Rightarrow> MemCoordinator \<Rightarrow> Lease option \<times> MemCoordinator" where
  "CurrentLease tunnelID now m = currentLeaseLocked tunnelID now m"

definition touch_relay :: "string \<Rightarrow> time \<Rightarrow> MemCoordinator \<Rightarrow> MemCoordinator" where
  "touch_relay relayID now m = m\<lparr>mc_relays := mupd relayID (\<lambda>r. r\<lparr>ri_LastSeen := now\<rparr>) (mc_relays m)\<rparr>"

definition AcquireLease :: "string \<Rightarrow> time \<Rightarrow> LeaseRequest \<Rightarrow> MemCoordinator \<Rightarrow> Lease result \<times> MemCoordinator" where
  "AcquireLease newID now req m =
     (if lr_TunnelID req = [] \<or> lr_RelayID req = []
      then (Err (StatusErr GInvalidArgument ''tunnel_id and relay_id are required''), m)
      else case currentLeaseLocked (lr_TunnelID req) now m of (existing, m) \<Rightarrow>
        if existing \<noteq> None \<and> le_RelayID (the existing) \<noteq> lr_RelayID req
        then (Err (StatusErr GAlreadyExists ''tunnel already leased by relay''), m)
        else
          let lease = (case existing of
                None \<Rightarrow> \<lparr> le_LeaseID = newID, le_TunnelID = lr_TunnelID req, le_RelayID = lr_RelayID req,
                          le_ExpiresAt = zero_time, le_Version = 1 \<rparr>
              | Some l \<Rightarrow> l\<lparr>le_RelayID := lr_RelayID req, le_Version := le_Version l + 1\<rparr>);
              lease = lease\<lparr>le_ExpiresAt := now + lr_TTL req\<rparr>;
              m = m\<lparr>mc_leasesByID := mput (le_LeaseID lease) lease (mc_leasesByID m),
                    mc_leaseByTunnel := mput (le_TunnelID lease) (le_LeaseID lease) (mc_leaseByTunnel m)\<rparr>
          in (Ok lease, go_Publish (leaseEvent RegistryEventLeaseAcquired lease) (touch_relay (lr_RelayID req) now m)))"

definition RenewLease :: "string \<Rightarrow> duration \<Rightarrow> time \<Rightarrow> MemCoordinator \<Rightarrow> Lease result \<times> MemCoordinator" where
  "RenewLease leaseID ttl now m =
     (if leaseID = [] then (Err (StatusErr GInvalidArgument ''lease_id is required''), m)
      else case map_of (mc_leasesByID m) leaseID of
        None \<Rightarrow> (Err (StatusErr GNotFound ''lease not found''), m)
      | Some lease \<Rightarrow>
          if le_ExpiresAt lease < now then (Err (StatusErr GNotFound ''lease not found''), m)
          else let lease = lease\<lparr>le_ExpiresAt := now + ttl, le_Version := le_Version lease + 1\<rparr>
               in (Ok lease, go_Publish (leaseEvent RegistryEventLeaseAcquired lease)
                    (m\<lparr>mc_leasesByID := mupd leaseID (\<lambda>_. lease) (mc_leasesByID m)\<rparr>)))"

definition forget_lease :: "string \<Rightarrow> Lease \<Rightarrow> MemCoordinator \<Rightarrow> MemCoordinator" where
  "forget_lease leaseID lease m =
     (let m = m\<lparr>mc_leasesByID := mdel leaseID (mc_leasesByID m)\<rparr>
      in if map_of (mc_leaseByTunnel m) (le_TunnelID lease) = Some leaseID
         then m\<lparr>mc_leaseByTunnel := mdel (le_TunnelID lease) (mc_leaseByTunnel m)\<rparr> else m)"

definition ReleaseLease :: "string \<Rightarrow> MemCoordinator \<Rightarrow> Lease result \<times> MemCoordinator" where
  "ReleaseLease leaseID m =
     (if leaseID = [] then (Err (StatusErr GInvalidArgument ''lease_id is required''), m)
      else case map_of (mc_leasesByID m) leaseID of
        None \<Rightarrow> (Err (StatusErr GNotFound ''lease not found''), m)
      | Some lease \<Rightarrow> (Ok lease,
          go_Publish (leaseEvent RegistryEventLeaseReleased lease) (forget_lease leaseID lease m)))"

fun expire_range :: "time \<Rightarrow> (string \<times> Lease) list \<Rightarrow> Lease list \<Rightarrow> MemCoordinator \<Rightarrow> Lease list \<times> MemCoordinator" where
  "expire_range now [] expired m = (expired, m)"
| "expire_range now ((leaseID, lease) # rest) expired m =
     (if le_ExpiresAt lease < now
      then expire_range now rest (expired @ [lease]) (forget_lease leaseID lease m)
      else expire_range now rest expired m)"

definition ReleaseExpiredLeases :: "time \<Rightarrow> MemCoordinator \<Rightarrow> Lease list \<times> MemCoordinator" where
  "ReleaseExpiredLeases now m = (case expire_range now (mc_leasesByID m) [] m of
     (expired, m) \<Rightarrow> (expired, fold (\<lambda>l. Publish (leaseEvent RegistryEventLeaseReleased l)) expired m))"

subsection \<open>Relays\<close>

definition ensureRelayLocked :: "string \<Rightarrow> time \<Rightarrow> MemCoordinator \<Rightarrow> RelayInfo \<times> MemCoordinator" where
  "ensureRelayLocked relayID now m = (case map_of (mc_relays m) relayID of
     Some relay \<Rightarrow> (relay, m)
   | None \<Rightarrow> let relay = \<lparr> ri_RelayID = relayID, ri_AdvertiseAddr = [], ri_State = ''active'', ri_ActiveTunnels = 0,
                          ri_ActiveStreams = 0, ri_LastSeen = now, ri_Region = [] \<rparr>
             in (relay, m\<lparr>mc_relays := mput relayID relay (mc_relays m)\<rparr>))"

definition ReportRelayHealth ::
  "string \<Rightarrow> string \<Rightarrow> RelayHealth \<Rightarrow> time \<Rightarrow> MemCoordinator \<Rightarrow> (RelayInfo \<times> RelayHealth) result \<times> MemCoordinator" where
  "ReportRelayHealth relayID advertiseAddr health now m =
     (if relayID = [] then (Err (StatusErr GInvalidArgument ''relay_id is required''), m)
      else case ensureRelayLocked relayID now m of (relay, m) \<Rightarrow>
        let relay = relay\<lparr>ri_ActiveTunnels := rh_ActiveTunnels health, ri_ActiveStreams := rh_ActiveStreams health,
                          ri_LastSeen := rh_RecordedAt health\<rparr>;
            relay = (if advertiseAddr \<noteq> [] then relay\<lparr>ri_AdvertiseAddr := advertiseAddr\<rparr> else relay);
            m = m\<lparr>mc_relays := mput relayID relay (mc_relays m),
                  mc_relayHealth := mput relayID health (mc_relayHealth m)\<rparr>
        in (Ok (relay, health), publishHealth relayID health
             (Publish \<lparr> ev_Type = RegistryEventRelayHealthUpdated, ev_Tunnel = None, ev_Lease = None,
                ev_Relay = Some relay, ev_Health = Some health \<rparr> m)))"

definition GetRelayHealth :: "string \<Rightarrow> MemCoordinator \<Rightarrow> RelayHealth option" where
  "GetRelayHealth relayID m = map_of (mc_relayHealth m) relayID"

definition Snapshot :: "string \<Rightarrow> string \<Rightarrow> time \<Rightarrow> MemCoordinator \<Rightarrow> RegistryEvent list" where
  "Snapshot tunnelID relayID now m =
     map (\<lambda>(i, l). leaseEvent RegistryEventLeaseAcquired l)
       (filter (\<lambda>(i, l). \<not> le_ExpiresAt l < now \<and> (tunnelID = [] \<or> le_TunnelID l = tunnelID) \<and>
          (relayID = [] \<or> le_RelayID l = relayID)) (mc_leasesByID m)) @
     map (\<lambda>(i, r). \<lparr> ev_Type = RegistryEventRelayUpserted, ev_Tunnel = None, ev_Lease = None, ev_Relay = Some r, ev_Health = None \<rparr>)
       (filter (\<lambda>(i, r). relayID = [] \<or> ri_RelayID r = relayID) (mc_relays m)) @
     map (\<lambda>(i, h). \<lparr> ev_Type = RegistryEventRelayHealthUpdated, ev_Tunnel = None, ev_Lease = None,
            ev_Relay = map_of (mc_relays m) i, ev_Health = Some h \<rparr>)
       (filter (\<lambda>(i, h). relayID = [] \<or> i = relayID) (mc_relayHealth m))"

subsection \<open>Invariant of the lease tables\<close>

definition lease_inv :: "MemCoordinator \<Rightarrow> bool" where
  "lease_inv m \<longleftrightarrow> mwf (mc_leasesByID m) \<and> mwf (mc_leaseByTunnel m) \<and>
     (\<forall>i l. map_of (mc_leasesByID m) i = Some l \<longrightarrow> le_LeaseID l = i \<and> i \<noteq> [] \<and> le_TunnelID l \<noteq> [] \<and>
        le_RelayID l \<noteq> [] \<and> map_of (mc_leaseByTunnel m) (le_TunnelID l) = Some i) \<and>
     (\<forall>t i. map_of (mc_leaseByTunnel m) t = Some i \<longrightarrow> (\<exists>l. map_of (mc_leasesByID m) i = Some l \<and> le_TunnelID l = t))"

lemma lease_invI:
  assumes "mwf (mc_leasesByID m)" and "mwf (mc_leaseByTunnel m)"
    and "\<And>i l. map_of (mc_leasesByID m) i = Some l \<Longrightarrow> le_LeaseID l = i \<and> i \<noteq> [] \<and> le_TunnelID l \<noteq> [] \<and>
        le_RelayID l \<noteq> [] \<and> map_of (mc_leaseByTunnel m) (le_TunnelID l) = Some i"
    and "\<And>t i. map_of (mc_leaseByTunnel m) t = Some i \<Longrightarrow> \<exists>l. map_of (mc_leasesByID m) i = Some l \<and> le_TunnelID l = t"
  shows "lease_inv m"
  using assms by (simp add: lease_inv_def)

lemma lease_invD1:
  "lease_inv m \<Longrightarrow> map_of (mc_leasesByID m) i = Some l \<Longrightarrow> le_LeaseID l = i \<and> i \<noteq> [] \<and> le_TunnelID l \<noteq> [] \<and>
     le_RelayID l \<noteq> [] \<and> map_of (mc_leaseByTunnel m) (le_TunnelID l) = Some i"
  by (simp add: lease_inv_def)

lemma lease_invD2:
  "lease_inv m \<Longrightarrow> map_of (mc_leaseByTunnel m) t = Some i \<Longrightarrow> \<exists>l. map_of (mc_leasesByID m) i = Some l \<and> le_TunnelID l = t"
  by (simp add: lease_inv_def)

lemma lease_inv_mwf: "lease_inv m \<Longrightarrow> mwf (mc_leasesByID m)" "lease_inv m \<Longrightarrow> mwf (mc_leaseByTunnel m)"
  by (simp_all add: lease_inv_def)

text \<open>\<open>until now l\<close> is the lease as long as it has not expired; \<open>holder\<close> is the lease that is in force for a
  tunnel at a time.\<close>

definition until :: "time \<Rightarrow> Lease \<Rightarrow> Lease option" where
  "until now l = (if le_ExpiresAt l < now then None else Some l)"

definition stored_lease :: "MemCoordinator \<Rightarrow> string \<Rightarrow> Lease option" where
  "stored_lease m t = (case map_of (mc_leaseByTunnel m) t of None \<Rightarrow> None | Some i \<Rightarrow> map_of (mc_leasesByID m) i)"

definition holder :: "MemCoordinator \<Rightarrow> time \<Rightarrow> string \<Rightarrow> Lease option" where
  "holder m now t = (case stored_lease m t of None \<Rightarrow> None | Some l \<Rightarrow> until now l)"

lemma stored_leaseD:
  assumes "lease_inv m" and "stored_lease m t = Some l"
  shows "le_TunnelID l = t \<and> le_LeaseID l \<noteq> [] \<and> le_RelayID l \<noteq> [] \<and> t \<noteq> [] \<and>
     map_of (mc_leasesByID m) (le_LeaseID l) = Some l \<and> map_of (mc_leaseByTunnel m) t = Some (le_LeaseID l)"
proof -
  obtain i where i: "map_of (mc_leaseByTunnel m) t = Some i" "map_of (mc_leasesByID m) i = Some l"
    using assms(2) by (auto simp: stored_lease_def split: option.splits)
  with lease_invD1 [OF assms(1) i(2)] lease_invD2 [OF assms(1) i(1)] show ?thesis by auto
qed

lemma stored_lease_iff:
  "lease_inv m \<Longrightarrow> map_of (mc_leasesByID m) i = Some l \<Longrightarrow> stored_lease m (le_TunnelID l) = Some l \<and> le_LeaseID l = i"
  using lease_invD1 [of m i l] by (simp add: stored_lease_def)

lemma lease_of_other_tunnel:
  assumes "lease_inv m" and "stored_lease m t = Some l" and "u \<noteq> t"
  shows "map_of (mc_leaseByTunnel m) u \<noteq> Some (le_LeaseID l)"
  using lease_invD2 [OF assms(1), of u "le_LeaseID l"] stored_leaseD [OF assms(1,2)] assms(3) by auto

lemma lease_inv_New: "lease_inv NewMemCoordinator"
  by (simp add: lease_inv_def NewMemCoordinator_def)

lemma publish_frame [simp]:
  "mc_leasesByID (Publish e m) = mc_leasesByID m" "mc_leaseByTunnel (Publish e m) = mc_leaseByTunnel m"
  "mc_leasesByID (go_Publish e m) = mc_leasesByID m" "mc_leaseByTunnel (go_Publish e m) = mc_leaseByTunnel m"
  "mc_leasesByID (touch_relay r now m) = mc_leasesByID m" "mc_leaseByTunnel (touch_relay r now m) = mc_leaseByTunnel m"
  "mc_leasesByID (publishHealth r h m) = mc_leasesByID m" "mc_leaseByTunnel (publishHealth r h m) = mc_leaseByTunnel m"
  "mc_leasesByID (deliver i m) = mc_leasesByID m" "mc_leaseByTunnel (deliver i m) = mc_leaseByTunnel m"
  by (simp_all add: Publish_def go_Publish_def touch_relay_def publishHealth_def deliver_def)

text \<open>Two states with the same lease tables agree on everything about leases.\<close>

lemma lease_tables_cong:
  assumes "mc_leasesByID m' = mc_leasesByID m" and "mc_leaseByTunnel m' = mc_leaseByTunnel m"
  shows "lease_inv m' = lease_inv m" and "stored_lease m' = stored_lease m"
  unfolding lease_inv_def stored_lease_def fun_eq_iff assms by simp_all

text \<open>The three ways the tables change: a lease is removed, replaced, or added for a free tunnel.\<close>

lemma stored_remove:
  assumes "lease_inv m" and "stored_lease m t = Some l"
    and "mc_leasesByID m' = mdel (le_LeaseID l) (mc_leasesByID m)" and "mc_leaseByTunnel m' = mdel t (mc_leaseByTunnel m)"
  shows "lease_inv m'" and "stored_lease m' = (stored_lease m)(t := None)"
proof -
  note l = stored_leaseD [OF assms(1,2)]
  show "lease_inv m'"
  proof (rule lease_invI)
    fix i k assume "map_of (mc_leasesByID m') i = Some k"
    then have k: "map_of (mc_leasesByID m) i = Some k" "i \<noteq> le_LeaseID l"
      by (auto simp: assms(3) split: if_splits)
    with lease_invD1 [OF assms(1) k(1)] l show "le_LeaseID k = i \<and> i \<noteq> [] \<and> le_TunnelID k \<noteq> [] \<and>
        le_RelayID k \<noteq> [] \<and> map_of (mc_leaseByTunnel m') (le_TunnelID k) = Some i"
      by (auto simp: assms(4))
  next
    fix u i assume "map_of (mc_leaseByTunnel m') u = Some i"
    then have u: "map_of (mc_leaseByTunnel m) u = Some i" "u \<noteq> t"
      by (auto simp: assms(4) split: if_splits)
    with lease_invD2 [OF assms(1) u(1)] lease_of_other_tunnel [OF assms(1,2) u(2)]
    show "\<exists>k. map_of (mc_leasesByID m') i = Some k \<and> le_TunnelID k = u"
      by (auto simp: assms(3))
  qed (simp_all add: assms lease_inv_mwf)
  show "stored_lease m' = (stored_lease m)(t := None)"
    using lease_of_other_tunnel [OF assms(1,2)] unfolding stored_lease_def assms(3,4)
    by (auto simp: fun_eq_iff split: option.split)
qed

lemma stored_replace:
  assumes "lease_inv m" and "stored_lease m t = Some l"
    and "le_LeaseID l' = le_LeaseID l" and "le_TunnelID l' = t" and "le_RelayID l' \<noteq> []"
    and "mwf (mc_leasesByID m')" and "map_of (mc_leasesByID m') = (map_of (mc_leasesByID m))(le_LeaseID l \<mapsto> l')"
    and "mwf (mc_leaseByTunnel m')" and "map_of (mc_leaseByTunnel m') = map_of (mc_leaseByTunnel m)"
  shows "lease_inv m'" and "stored_lease m' = (stored_lease m)(t \<mapsto> l')"
proof -
  note l = stored_leaseD [OF assms(1,2)]
  show "lease_inv m'"
  proof (rule lease_invI)
    fix i k assume k: "map_of (mc_leasesByID m') i = Some k"
    show "le_LeaseID k = i \<and> i \<noteq> [] \<and> le_TunnelID k \<noteq> [] \<and>
        le_RelayID k \<noteq> [] \<and> map_of (mc_leaseByTunnel m') (le_TunnelID k) = Some i"
    proof (cases "i = le_LeaseID l")
      case True
      with k have "k = l'" by (simp add: assms(7))
      with True l show ?thesis by (simp add: assms(3-5,9))
    next
      case False
      with k have "map_of (mc_leasesByID m) i = Some k" by (simp add: assms(7))
      from lease_invD1 [OF assms(1) this] show ?thesis by (simp add: assms(9))
    qed
  next
    fix u i assume "map_of (mc_leaseByTunnel m') u = Some i"
    then have u: "map_of (mc_leaseByTunnel m) u = Some i" by (simp add: assms(9))
    from lease_invD2 [OF assms(1) u] obtain k where k: "map_of (mc_leasesByID m) i = Some k" "le_TunnelID k = u"
      by blast
    show "\<exists>k. map_of (mc_leasesByID m') i = Some k \<and> le_TunnelID k = u"
    proof (cases "i = le_LeaseID l")
      case True
      with k l have "k = l" by simp
      with True k l show ?thesis by (simp add: assms(4,7))
    next
      case False
      with k show ?thesis by (simp add: assms(7))
    qed
  qed (rule assms)+
  show "stored_lease m' = (stored_lease m)(t \<mapsto> l')"
  proof
    fix u
    show "stored_lease m' u = ((stored_lease m)(t \<mapsto> l')) u"
      using lease_of_other_tunnel [OF assms(1,2), of u] l unfolding stored_lease_def assms(7,9)
      by (cases "u = t") (auto split: option.split)
  qed
qed

lemma stored_add:
  assumes "lease_inv m" and "stored_lease m t = None" and "map_of (mc_leasesByID m) i = None"
    and "le_LeaseID l = i" and "le_TunnelID l = t" and "le_RelayID l \<noteq> []" and "i \<noteq> []" and "t \<noteq> []"
    and "mc_leasesByID m' = mput i l (mc_leasesByID m)" and "mc_leaseByTunnel m' = mput t i (mc_leaseByTunnel m)"
  shows "lease_inv m'" and "stored_lease m' = (stored_lease m)(t \<mapsto> l)"
proof -
  have no_i: "map_of (mc_leaseByTunnel m) u \<noteq> Some i" for u
    using lease_invD2 [OF assms(1), of u i] assms(3) by auto
  show "lease_inv m'"
  proof (rule lease_invI)
    fix j k assume "map_of (mc_leasesByID m') j = Some k"
    then show "le_LeaseID k = j \<and> j \<noteq> [] \<and> le_TunnelID k \<noteq> [] \<and>
        le_RelayID k \<noteq> [] \<and> map_of (mc_leaseByTunnel m') (le_TunnelID k) = Some j"
      using lease_invD1 [OF assms(1), of j k] stored_lease_iff [OF assms(1), of j k] assms(2-8)
      by (auto simp: assms(9,10) split: if_splits)
  next
    fix u j assume "map_of (mc_leaseByTunnel m') u = Some j"
    then show "\<exists>k. map_of (mc_leasesByID m') j = Some k \<and> le_TunnelID k = u"
      using lease_invD2 [OF assms(1), of u j] no_i [of u] assms(5) by (auto simp: assms(9,10) split: if_splits)
  qed (simp_all add: assms lease_inv_mwf)
  show "stored_lease m' = (stored_lease m)(t \<mapsto> l)"
    using no_i unfolding stored_lease_def assms(9,10) by (auto simp: fun_eq_iff split: option.split)
qed

subsection \<open>The abstract lease table\<close>

text \<open>The specification: a table of at most one lease per tunnel, where an expired lease counts as absent.\<close>

type_synonym lease_table = "string \<Rightarrow> Lease option"

definition table_holder :: "lease_table \<Rightarrow> time \<Rightarrow> string \<Rightarrow> Lease option" where
  "table_holder T now t = (case T t of None \<Rightarrow> None | Some l \<Rightarrow> until now l)"

definition spec_acquire :: "string \<Rightarrow> time \<Rightarrow> LeaseRequest \<Rightarrow> lease_table \<Rightarrow> Lease result \<times> lease_table" where
  "spec_acquire newID now req T = (case table_holder T now (lr_TunnelID req) of
     None \<Rightarrow> let l = \<lparr> le_LeaseID = newID, le_TunnelID = lr_TunnelID req, le_RelayID = lr_RelayID req,
                       le_ExpiresAt = now + lr_TTL req, le_Version = 1 \<rparr> in (Ok l, T(lr_TunnelID req \<mapsto> l))
   | Some k \<Rightarrow> if le_RelayID k \<noteq> lr_RelayID req
       then (Err (StatusErr GAlreadyExists ''tunnel already leased by relay''), T)
       else let l = k\<lparr>le_Version := le_Version k + 1, le_ExpiresAt := now + lr_TTL req\<rparr>
            in (Ok l, T(lr_TunnelID req \<mapsto> l)))"

definition spec_renew :: "Lease \<Rightarrow> duration \<Rightarrow> time \<Rightarrow> lease_table \<Rightarrow> Lease result \<times> lease_table" where
  "spec_renew k ttl now T =
     (if le_ExpiresAt k < now then (Err (StatusErr GNotFound ''lease not found''), T)
      else let l = k\<lparr>le_ExpiresAt := now + ttl, le_Version := le_Version k + 1\<rparr> in (Ok l, T(le_TunnelID k \<mapsto> l)))"

locale lease_service =
  fixes inv :: "'s \<Rightarrow> bool"
    and tab :: "'s \<Rightarrow> lease_table"
    and fresh :: "'s \<Rightarrow> string \<Rightarrow> bool"
    and acquire :: "string \<Rightarrow> time \<Rightarrow> LeaseRequest \<Rightarrow> 's \<Rightarrow> Lease result \<times> 's"
    and renew :: "string \<Rightarrow> duration \<Rightarrow> time \<Rightarrow> 's \<Rightarrow> Lease result \<times> 's"
    and release :: "string \<Rightarrow> 's \<Rightarrow> Lease result \<times> 's"
  assumes acquire_inv: "inv s \<Longrightarrow> fresh s i \<Longrightarrow> inv (snd (acquire i now req s))"
    and acquire_refines: "inv s \<Longrightarrow> fresh s i \<Longrightarrow> lr_TunnelID req \<noteq> [] \<Longrightarrow> lr_RelayID req \<noteq> [] \<Longrightarrow>
      (fst (acquire i now req s), tab (snd (acquire i now req s))) = spec_acquire i now req (tab s)"
    and renew_refines: "inv s \<Longrightarrow> tab s t = Some l \<Longrightarrow>
      inv (snd (renew (le_LeaseID l) ttl now s)) \<and>
      (fst (renew (le_LeaseID l) ttl now s), tab (snd (renew (le_LeaseID l) ttl now s))) = spec_renew l ttl now (tab s)"
    and release_refines: "inv s \<Longrightarrow> tab s t = Some l \<Longrightarrow>
      inv (snd (release (le_LeaseID l) s)) \<and> fst (release (le_LeaseID l) s) = Ok l \<and>
      tab (snd (release (le_LeaseID l) s)) = (tab s)(t := None)"
    and tab_key: "inv s \<Longrightarrow> tab s t = Some l \<Longrightarrow> le_TunnelID l = t"
begin

text \<open>A lease granted to one relay keeps the others out until it expires.\<close>

lemma exclusive:
  assumes "inv s" and "tab s t = Some l" and "now \<le> le_ExpiresAt l"
    and "fresh s i" and "t \<noteq> []" and "r \<noteq> []" and "r \<noteq> le_RelayID l"
  shows "fst (acquire i now \<lparr> lr_TunnelID = t, lr_RelayID = r, lr_TTL = ttl \<rparr> s) =
      Err (StatusErr GAlreadyExists ''tunnel already leased by relay'') \<and>
    tab (snd (acquire i now \<lparr> lr_TunnelID = t, lr_RelayID = r, lr_TTL = ttl \<rparr> s)) = tab s"
  using acquire_refines [OF assms(1,4), of "\<lparr> lr_TunnelID = t, lr_RelayID = r, lr_TTL = ttl \<rparr>" now] assms
  by (auto simp: spec_acquire_def table_holder_def until_def)

lemma grant:
  assumes "inv s" and "fresh s i" and "t \<noteq> []" and "r \<noteq> []" and "table_holder (tab s) now t = None"
  shows "\<exists>l. fst (acquire i now \<lparr> lr_TunnelID = t, lr_RelayID = r, lr_TTL = ttl \<rparr> s) = Ok l \<and>
    le_RelayID l = r \<and> le_ExpiresAt l = now + ttl \<and> le_LeaseID l = i \<and>
    tab (snd (acquire i now \<lparr> lr_TunnelID = t, lr_RelayID = r, lr_TTL = ttl \<rparr> s)) = (tab s)(t \<mapsto> l)"
  using acquire_refines [OF assms(1,2), of "\<lparr> lr_TunnelID = t, lr_RelayID = r, lr_TTL = ttl \<rparr>" now] assms
  by (auto simp: spec_acquire_def Let_def)

text \<open>After a release the tunnel is free for everybody at once.\<close>

lemma release_then_grant:
  assumes "inv s" and "tab s t = Some l" and "fresh (snd (release (le_LeaseID l) s)) i" and "t \<noteq> []" and "r \<noteq> []"
  shows "\<exists>k. fst (acquire i now \<lparr> lr_TunnelID = t, lr_RelayID = r, lr_TTL = ttl \<rparr> (snd (release (le_LeaseID l) s))) = Ok k \<and>
    le_RelayID k = r"
proof -
  have "inv (snd (release (le_LeaseID l) s))" "table_holder (tab (snd (release (le_LeaseID l) s))) now t = None"
    using release_refines [OF assms(1,2)] by (simp_all add: table_holder_def)
  from grant [OF this(1) assms(3-5) this(2)] show ?thesis by blast
qed

end

lemma holder_table: "holder m now t = table_holder (stored_lease m) now t"
  by (simp add: holder_def table_holder_def)

lemma currentLeaseLocked_spec:
  assumes "lease_inv m" and "currentLeaseLocked t now m = (existing, m')"
  shows "existing = holder m now t \<and> lease_inv m' \<and>
    stored_lease m' = (if existing = None then (stored_lease m)(t := None) else stored_lease m) \<and>
    (\<forall>i. map_of (mc_leasesByID m) i = None \<longrightarrow> map_of (mc_leasesByID m') i = None)"
proof (cases "stored_lease m t")
  case None
  then have "map_of (mc_leaseByTunnel m) t = None"
    using lease_invD2 [OF assms(1), of t] by (auto simp: stored_lease_def split: option.splits)
  with assms None show ?thesis
    by (auto simp: currentLeaseLocked_def holder_def fun_eq_iff)
next
  case (Some l)
  note l = stored_leaseD [OF assms(1) Some]
  show ?thesis
  proof (cases "le_ExpiresAt l < now")
    case True
    with assms(2) l have ex: "existing = None" and tabs: "mc_leasesByID m' = mdel (le_LeaseID l) (mc_leasesByID m)"
      "mc_leaseByTunnel m' = mdel t (mc_leaseByTunnel m)"
      by (auto simp: currentLeaseLocked_def)
    from stored_remove [OF assms(1) Some tabs] ex Some True tabs show ?thesis
      by (simp add: holder_def until_def)
  next
    case False
    with assms(2) l have "existing = Some l" "m' = m"
      by (simp_all add: currentLeaseLocked_def)
    with False assms(1) Some show ?thesis
      by (simp add: holder_def until_def)
  qed
qed

lemma AcquireLease_spec:
  assumes "lease_inv m" and "map_of (mc_leasesByID m) i = None" and "i \<noteq> []"
    and "lr_TunnelID req \<noteq> []" and "lr_RelayID req \<noteq> []"
  shows "lease_inv (snd (AcquireLease i now req m)) \<and>
    (fst (AcquireLease i now req m), stored_lease (snd (AcquireLease i now req m))) = spec_acquire i now req (stored_lease m)"
proof -
  let ?t = "lr_TunnelID req"
  obtain existing m1 where cur: "currentLeaseLocked ?t now m = (existing, m1)"
    by (cases "currentLeaseLocked ?t now m")
  note c = currentLeaseLocked_spec [OF assms(1) cur]
  have h: "table_holder (stored_lease m) now ?t = existing"
    using c by (simp add: holder_table)
  show ?thesis
  proof (cases existing)
    case None
    let ?l = "\<lparr> le_LeaseID = i, le_TunnelID = ?t, le_RelayID = lr_RelayID req, le_ExpiresAt = now + lr_TTL req, le_Version = 1 \<rparr>"
    let ?m = "snd (AcquireLease i now req m)"
    have r: "fst (AcquireLease i now req m) = Ok ?l"
      and tabs: "mc_leasesByID ?m = mput i ?l (mc_leasesByID m1)" "mc_leaseByTunnel ?m = mput ?t i (mc_leaseByTunnel m1)"
      using assms(4,5) cur None by (simp_all add: AcquireLease_def Let_def)
    have "stored_lease m1 ?t = None" "map_of (mc_leasesByID m1) i = None"
      using c None assms(2) by simp_all
    from stored_add [OF _ this _ _ _ assms(3,4) tabs] c None assms(5)
    have "lease_inv ?m" "stored_lease ?m = (stored_lease m1)(?t \<mapsto> ?l)" by simp_all
    with r c None show ?thesis
      unfolding spec_acquire_def h None Let_def by simp
  next
    case (Some k)
    with c have k: "stored_lease m1 ?t = Some k" "stored_lease m1 = stored_lease m"
      by (auto simp: holder_def until_def split: option.splits if_splits)
    have inv1: "lease_inv m1"
      using c by simp
    note kd = stored_leaseD [OF inv1 k(1)]
    show ?thesis
    proof (cases "le_RelayID k = lr_RelayID req")
      case False
      with assms(4,5) cur inv1 k(2) show ?thesis
        unfolding spec_acquire_def h Some by (simp add: AcquireLease_def Some)
    next
      case True
      let ?l = "k\<lparr>le_Version := le_Version k + 1, le_ExpiresAt := now + lr_TTL req\<rparr>"
      let ?m = "snd (AcquireLease i now req m)"
      have upd: "k\<lparr>le_RelayID := lr_RelayID req, le_Version := v\<rparr> = k\<lparr>le_Version := v\<rparr>" for v
        using True by (cases k) simp
      have r: "fst (AcquireLease i now req m) = Ok ?l"
        and tabs: "mc_leasesByID ?m = mput (le_LeaseID k) ?l (mc_leasesByID m1)"
          "mc_leaseByTunnel ?m = mput (le_TunnelID k) (le_LeaseID k) (mc_leaseByTunnel m1)"
        using assms(4,5) cur Some True by (simp_all add: AcquireLease_def Let_def upd)
      have byID: "map_of (mc_leasesByID ?m) = (map_of (mc_leasesByID m1))(le_LeaseID k \<mapsto> ?l)"
        unfolding tabs by (rule ext) simp
      have byTunnel: "map_of (mc_leaseByTunnel ?m) = map_of (mc_leaseByTunnel m1)"
        unfolding tabs using kd by (intro ext) simp
      have wf: "mwf (mc_leasesByID ?m)" "mwf (mc_leaseByTunnel ?m)"
        unfolding tabs using lease_inv_mwf [OF inv1] by simp_all
      have l: "le_LeaseID ?l = le_LeaseID k" "le_TunnelID ?l = ?t" "le_RelayID ?l \<noteq> []"
        using kd by simp_all
      have "lease_inv ?m" "stored_lease ?m = (stored_lease m1)(?t \<mapsto> ?l)"
        using stored_replace [OF inv1 k(1) l wf(1) byID wf(2) byTunnel] by blast+
      with r True k(2) show ?thesis
        unfolding spec_acquire_def h Some Let_def by simp
    qed
  qed
qed

lemma AcquireLease_inv:
  assumes "lease_inv m" and "map_of (mc_leasesByID m) i = None" and "i \<noteq> []"
  shows "lease_inv (snd (AcquireLease i now req m))"
  using AcquireLease_spec [OF assms, of req now] assms(1)
  by (cases "lr_TunnelID req = [] \<or> lr_RelayID req = []") (auto simp: AcquireLease_def)

lemma RenewLease_spec:
  assumes "lease_inv m" and "stored_lease m t = Some l"
  shows "lease_inv (snd (RenewLease (le_LeaseID l) ttl now m)) \<and>
    (fst (RenewLease (le_LeaseID l) ttl now m), stored_lease (snd (RenewLease (le_LeaseID l) ttl now m))) =
      spec_renew l ttl now (stored_lease m)"
proof -
  note l = stored_leaseD [OF assms]
  show ?thesis
  proof (cases "le_ExpiresAt l < now")
    case True
    with l assms(1) show ?thesis
      by (simp add: RenewLease_def spec_renew_def)
  next
    case False
    let ?l = "l\<lparr>le_ExpiresAt := now + ttl, le_Version := le_Version l + 1\<rparr>"
    let ?m = "snd (RenewLease (le_LeaseID l) ttl now m)"
    have r: "fst (RenewLease (le_LeaseID l) ttl now m) = Ok ?l"
      and tabs: "mc_leasesByID ?m = mupd (le_LeaseID l) (\<lambda>_. ?l) (mc_leasesByID m)" "mc_leaseByTunnel ?m = mc_leaseByTunnel m"
      using l False by (simp_all add: RenewLease_def Let_def)
    have byID: "map_of (mc_leasesByID ?m) = (map_of (mc_leasesByID m))(le_LeaseID l \<mapsto> ?l)"
      unfolding tabs using l by (intro ext) simp
    have byTunnel: "map_of (mc_leaseByTunnel ?m) = map_of (mc_leaseByTunnel m)"
      unfolding tabs ..
    have wf: "mwf (mc_leasesByID ?m)" "mwf (mc_leaseByTunnel ?m)"
      unfolding tabs using lease_inv_mwf [OF assms(1)] by simp_all
    have l': "le_LeaseID ?l = le_LeaseID l" "le_TunnelID ?l = t" "le_RelayID ?l \<noteq> []"
      using l by simp_all
    have "lease_inv ?m \<and> stored_lease ?m = (stored_lease m)(t \<mapsto> ?l)"
      using stored_replace [OF assms l' wf(1) byID wf(2) byTunnel] by blast
    with r False l show ?thesis
      by (simp add: spec_renew_def Let_def)
  qed
qed

lemma forget_lease_tables:
  assumes "lease_inv m" and "stored_lease m t = Some l"
  shows "mc_leasesByID (forget_lease (le_LeaseID l) l m) = mdel (le_LeaseID l) (mc_leasesByID m)"
    and "mc_leaseByTunnel (forget_lease (le_LeaseID l) l m) = mdel t (mc_leaseByTunnel m)"
  using stored_leaseD [OF assms] by (simp_all add: forget_lease_def Let_def)

lemma ReleaseLease_spec:
  assumes "lease_inv m" and "stored_lease m t = Some l"
  shows "lease_inv (snd (ReleaseLease (le_LeaseID l) m)) \<and> fst (ReleaseLease (le_LeaseID l) m) = Ok l \<and>
    stored_lease (snd (ReleaseLease (le_LeaseID l) m)) = (stored_lease m)(t := None)"
proof -
  note l = stored_leaseD [OF assms]
  let ?m = "snd (ReleaseLease (le_LeaseID l) m)"
  have "fst (ReleaseLease (le_LeaseID l) m) = Ok l"
    and tabs: "mc_leasesByID ?m = mdel (le_LeaseID l) (mc_leasesByID m)" "mc_leaseByTunnel ?m = mdel t (mc_leaseByTunnel m)"
    using l forget_lease_tables [OF assms] by (simp_all add: ReleaseLease_def)
  with stored_remove [OF assms tabs] show ?thesis by simp
qed

interpretation mem_leases: lease_service lease_inv stored_lease
  "\<lambda>m i. i \<noteq> [] \<and> map_of (mc_leasesByID m) i = None" AcquireLease RenewLease ReleaseLease
proof unfold_locales
  fix s i now req
  assume "lease_inv s" "i \<noteq> [] \<and> map_of (mc_leasesByID s) i = None"
  then show "lease_inv (snd (AcquireLease i now req s))"
    by (simp add: AcquireLease_inv)
next
  fix s i and req :: LeaseRequest and now
  assume "lease_inv s" "i \<noteq> [] \<and> map_of (mc_leasesByID s) i = None" "lr_TunnelID req \<noteq> []" "lr_RelayID req \<noteq> []"
  then show "(fst (AcquireLease i now req s), stored_lease (snd (AcquireLease i now req s))) = spec_acquire i now req (stored_lease s)"
    using AcquireLease_spec by simp
qed (use RenewLease_spec ReleaseLease_spec stored_leaseD in blast)+

subsection \<open>Expiry\<close>

lemma forget_lease_known:
  assumes "lease_inv m" and "map_of (mc_leasesByID m) i = Some l"
  shows "lease_inv (forget_lease i l m) \<and> stored_lease (forget_lease i l m) = (stored_lease m)(le_TunnelID l := None) \<and>
    mc_leasesByID (forget_lease i l m) = mdel i (mc_leasesByID m)"
proof -
  have st: "stored_lease m (le_TunnelID l) = Some l" and i: "i = le_LeaseID l"
    using stored_lease_iff [OF assms] by simp_all
  show ?thesis
    using stored_remove [OF assms(1) st forget_lease_tables [OF assms(1) st]] forget_lease_tables [OF assms(1) st]
    by (simp add: i)
qed

lemma expire_range_spec:
  assumes "lease_inv m" and "\<And>i l. (i, l) \<in> set es \<Longrightarrow> map_of (mc_leasesByID m) i = Some l" and "distinct (map fst es)"
    and "expire_range now es acc m = (expired, m')"
  shows "lease_inv m' \<and> expired = acc @ map snd (filter (\<lambda>p. le_ExpiresAt (snd p) < now) es) \<and>
    stored_lease m' = (\<lambda>t. if \<exists>l \<in> snd ` set es. le_TunnelID l = t \<and> le_ExpiresAt l < now then None else stored_lease m t)"
  using assms
proof (induction es arbitrary: acc m)
  case Nil
  then show ?case by simp
next
  case (Cons p es)
  obtain i l where p: "p = (i, l)" by (cases p)
  have known: "map_of (mc_leasesByID m) i = Some l"
    using Cons.prems(2) p by simp
  show ?case
  proof (cases "le_ExpiresAt l < now")
    case True
    note f = forget_lease_known [OF Cons.prems(1) known]
    have rest: "map_of (mc_leasesByID (forget_lease i l m)) j = Some k" if "(j, k) \<in> set es" for j k
      using Cons.prems(2) [of j k] Cons.prems(3) that f p by (force simp: image_iff)
    have run: "expire_range now es (acc @ [l]) (forget_lease i l m) = (expired, m')"
      using Cons.prems(4) True by (simp add: p)
    have "distinct (map fst es)"
      using Cons.prems(3) by simp
    from Cons.IH [OF _ rest this run] f True show ?thesis
      by (auto simp: p fun_eq_iff)
  next
    case False
    have run: "expire_range now es acc m = (expired, m')"
      using Cons.prems(4) False by (simp add: p)
    from Cons.IH [OF Cons.prems(1) _ _ run] Cons.prems(2,3) False show ?thesis
      by (auto simp: p fun_eq_iff)
  qed
qed

lemma fold_Publish_frame:
  "mc_leasesByID (fold (\<lambda>l. Publish (f l)) ls m) = mc_leasesByID m \<and>
   mc_leaseByTunnel (fold (\<lambda>l. Publish (f l)) ls m) = mc_leaseByTunnel m"
  by (induction ls arbitrary: m) simp_all

lemma ReleaseExpiredLeases_spec:
  assumes "lease_inv m"
  shows "lease_inv (snd (ReleaseExpiredLeases now m)) \<and>
    fst (ReleaseExpiredLeases now m) = map snd (filter (\<lambda>p. le_ExpiresAt (snd p) < now) (mc_leasesByID m)) \<and>
    stored_lease (snd (ReleaseExpiredLeases now m)) = (\<lambda>t. table_holder (stored_lease m) now t)"
proof -
  obtain expired m' where run: "expire_range now (mc_leasesByID m) [] m = (expired, m')"
    by (cases "expire_range now (mc_leasesByID m) [] m")
  have wf: "mwf (mc_leasesByID m)"
    using assms by (rule lease_inv_mwf)
  have known: "(i, l) \<in> set (mc_leasesByID m) \<longleftrightarrow> map_of (mc_leasesByID m) i = Some l" for i l
    using wf by (rule in_set_mwf)
  have dist: "distinct (map fst (mc_leasesByID m))"
    using wf by (simp add: mwf_def)
  note e = expire_range_spec [OF assms known [THEN iffD1] dist run]
  let ?m = "snd (ReleaseExpiredLeases now m)"
  have tabs: "mc_leasesByID ?m = mc_leasesByID m'" "mc_leaseByTunnel ?m = mc_leaseByTunnel m'"
    using run fold_Publish_frame [of "leaseEvent RegistryEventLeaseReleased" expired m']
    by (simp_all add: ReleaseExpiredLeases_def)
  have "stored_lease m' t = table_holder (stored_lease m) now t" for t
  proof (cases "stored_lease m t")
    case None
    then show ?thesis by (simp add: e table_holder_def)
  next
    case (Some l)
    have "(\<exists>k \<in> snd ` set (mc_leasesByID m). le_TunnelID k = t \<and> le_ExpiresAt k < now) \<longleftrightarrow> le_ExpiresAt l < now"
    proof
      assume "\<exists>k \<in> snd ` set (mc_leasesByID m). le_TunnelID k = t \<and> le_ExpiresAt k < now"
      then obtain i k where k: "(i, k) \<in> set (mc_leasesByID m)" "le_TunnelID k = t" "le_ExpiresAt k < now" by force
      with stored_lease_iff [OF assms, of i k] known [of i k] Some show "le_ExpiresAt l < now" by simp
    next
      assume "le_ExpiresAt l < now"
      then show "\<exists>k \<in> snd ` set (mc_leasesByID m). le_TunnelID k = t \<and> le_ExpiresAt k < now"
        using stored_leaseD [OF assms Some] known [of "le_LeaseID l" l] by force
    qed
    with Some show ?thesis by (simp add: e table_holder_def until_def)
  qed
  then have "stored_lease m' = (\<lambda>t. table_holder (stored_lease m) now t)" ..
  moreover have "lease_inv ?m" "stored_lease ?m = stored_lease m'"
    using lease_tables_cong [OF tabs] e by simp_all
  moreover have "fst (ReleaseExpiredLeases now m) = expired"
    by (simp add: ReleaseExpiredLeases_def run)
  ultimately show ?thesis using e by simp
qed

subsection \<open>Runs\<close>

text \<open>The operations clients and the cleanup loop call, in any order and at any time.\<close>

datatype coord_op =
    OpAcquire string LeaseRequest
  | OpRenew string duration
  | OpRelease string
  | OpExpire
  | OpCurrent string
  | OpReport string string RelayHealth
  | OpSubscribe
  | OpUnsubscribe int
  | OpDeliver nat

fun exec_op :: "time \<Rightarrow> coord_op \<Rightarrow> MemCoordinator \<Rightarrow> MemCoordinator" where
  "exec_op now (OpAcquire i req) m = snd (AcquireLease i now req m)"
| "exec_op now (OpRenew i ttl) m = snd (RenewLease i ttl now m)"
| "exec_op now (OpRelease i) m = snd (ReleaseLease i m)"
| "exec_op now OpExpire m = snd (ReleaseExpiredLeases now m)"
| "exec_op now (OpCurrent t) m = snd (CurrentLease t now m)"
| "exec_op now (OpReport r a h) m = snd (ReportRelayHealth r a h now m)"
| "exec_op now OpSubscribe m = snd (Subscribe m)"
| "exec_op now (OpUnsubscribe i) m = Unsubscribe i m"
| "exec_op now (OpDeliver i) m = deliver i m"

fun coord_run :: "(time \<times> coord_op) list \<Rightarrow> MemCoordinator \<Rightarrow> MemCoordinator" where
  "coord_run [] m = m"
| "coord_run ((now, op) # rest) m = coord_run rest (exec_op now op m)"

text \<open>Every new lease gets an identifier that is not in use (a UUID).\<close>

fun op_fresh :: "coord_op \<Rightarrow> MemCoordinator \<Rightarrow> bool" where
  "op_fresh (OpAcquire i req) m \<longleftrightarrow> i \<noteq> [] \<and> map_of (mc_leasesByID m) i = None"
| "op_fresh op m \<longleftrightarrow> True"

fun run_fresh :: "(time \<times> coord_op) list \<Rightarrow> MemCoordinator \<Rightarrow> bool" where
  "run_fresh [] m \<longleftrightarrow> True"
| "run_fresh ((now, op) # rest) m \<longleftrightarrow> op_fresh op m \<and> run_fresh rest (exec_op now op m)"

text \<open>An operation by somebody else: it neither renews nor releases the lease, nor does the owner acquire
  its tunnel again.\<close>

fun op_foreign :: "Lease \<Rightarrow> coord_op \<Rightarrow> bool" where
  "op_foreign l (OpAcquire i req) \<longleftrightarrow> lr_TunnelID req \<noteq> le_TunnelID l \<or> lr_RelayID req \<noteq> le_RelayID l"
| "op_foreign l (OpRenew i ttl) \<longleftrightarrow> i \<noteq> le_LeaseID l"
| "op_foreign l (OpRelease i) \<longleftrightarrow> i \<noteq> le_LeaseID l"
| "op_foreign l op \<longleftrightarrow> True"

lemma other_frame [simp]:
  "mc_leasesByID (snd (Subscribe m)) = mc_leasesByID m" "mc_leaseByTunnel (snd (Subscribe m)) = mc_leaseByTunnel m"
  "mc_leasesByID (Unsubscribe i m) = mc_leasesByID m" "mc_leaseByTunnel (Unsubscribe i m) = mc_leaseByTunnel m"
  "mc_leasesByID (snd (ReportRelayHealth r a h now m)) = mc_leasesByID m"
  "mc_leaseByTunnel (snd (ReportRelayHealth r a h now m)) = mc_leaseByTunnel m"
  by (simp_all add: Subscribe_def Unsubscribe_def ReportRelayHealth_def ensureRelayLocked_def Let_def split: option.split)

lemma RenewLease_unknown: "map_of (mc_leasesByID m) i = None \<Longrightarrow> snd (RenewLease i ttl now m) = m"
  by (simp add: RenewLease_def)

lemma ReleaseLease_unknown: "map_of (mc_leasesByID m) i = None \<Longrightarrow> snd (ReleaseLease i m) = m"
  by (simp add: ReleaseLease_def)

lemma exec_op_inv:
  assumes "lease_inv m" and "op_fresh op m"
  shows "lease_inv (exec_op now op m)"
proof (cases op)
  case (OpAcquire i req)
  with assms show ?thesis by (simp add: AcquireLease_inv)
next
  case (OpRenew i ttl)
  show ?thesis
  proof (cases "map_of (mc_leasesByID m) i")
    case None
    with assms(1) OpRenew show ?thesis by (simp add: RenewLease_unknown)
  next
    case (Some l)
    with RenewLease_spec [OF assms(1), of "le_TunnelID l" l] stored_lease_iff [OF assms(1) Some] OpRenew show ?thesis
      by auto
  qed
next
  case (OpRelease i)
  show ?thesis
  proof (cases "map_of (mc_leasesByID m) i")
    case None
    with assms(1) OpRelease show ?thesis by (simp add: ReleaseLease_unknown)
  next
    case (Some l)
    with ReleaseLease_spec [OF assms(1), of "le_TunnelID l" l] stored_lease_iff [OF assms(1) Some] OpRelease show ?thesis
      by auto
  qed
next
  case OpExpire
  with ReleaseExpiredLeases_spec [OF assms(1)] show ?thesis by simp
next
  case (OpCurrent t)
  with currentLeaseLocked_spec [OF assms(1)] show ?thesis
    by (metis CurrentLease_def exec_op.simps(5) prod.collapse)
qed (use assms(1) lease_tables_cong(1) [of "exec_op now op m" m] in simp_all)

lemma exec_op_foreign:
  assumes inv: "lease_inv m" and fresh: "op_fresh op m" and l: "stored_lease m t = Some l"
    and time: "now \<le> le_ExpiresAt l" and foreign: "op_foreign l op"
  shows "stored_lease (exec_op now op m) t = Some l"
proof (cases op)
  case (OpAcquire i req)
  have tl: "le_TunnelID l = t"
    using stored_leaseD [OF inv l] by simp
  show ?thesis
  proof (cases "lr_TunnelID req = [] \<or> lr_RelayID req = []")
    case True
    with OpAcquire l show ?thesis by (auto simp: AcquireLease_def)
  next
    case False
    then have "stored_lease (exec_op now op m) = snd (spec_acquire i now req (stored_lease m))"
      using AcquireLease_spec [OF inv, of i req now] fresh OpAcquire by (metis exec_op.simps(1) op_fresh.simps(1) snd_conv)
    then show ?thesis
      using foreign OpAcquire l time tl
      by (cases "lr_TunnelID req = t") (auto simp: spec_acquire_def table_holder_def until_def Let_def split: option.split)
  qed
next
  case (OpRenew i ttl)
  show ?thesis
  proof (cases "map_of (mc_leasesByID m) i")
    case None
    with l OpRenew show ?thesis by (simp add: RenewLease_unknown)
  next
    case (Some k)
    have k: "stored_lease m (le_TunnelID k) = Some k" "le_LeaseID k = i"
      using stored_lease_iff [OF inv Some] by simp_all
    with foreign OpRenew l have "le_TunnelID k \<noteq> t" by auto
    moreover have "stored_lease (exec_op now op m) = snd (spec_renew k ttl now (stored_lease m))"
      using RenewLease_spec [OF inv k(1), of ttl now] k(2) OpRenew by (metis exec_op.simps(2) snd_conv)
    ultimately show ?thesis
      using l by (simp add: spec_renew_def Let_def)
  qed
next
  case (OpRelease i)
  show ?thesis
  proof (cases "map_of (mc_leasesByID m) i")
    case None
    with l OpRelease show ?thesis by (simp add: ReleaseLease_unknown)
  next
    case (Some k)
    have k: "stored_lease m (le_TunnelID k) = Some k" "le_LeaseID k = i"
      using stored_lease_iff [OF inv Some] by simp_all
    with foreign OpRelease l have "le_TunnelID k \<noteq> t" by auto
    with ReleaseLease_spec [OF inv k(1)] k(2) OpRelease l show ?thesis by simp
  qed
next
  case OpExpire
  with ReleaseExpiredLeases_spec [OF inv, of now] l time show ?thesis
    by (simp add: table_holder_def until_def)
next
  case (OpCurrent u)
  obtain e m' where cur: "currentLeaseLocked u now m = (e, m')"
    by (cases "currentLeaseLocked u now m")
  from currentLeaseLocked_spec [OF inv cur] l time OpCurrent cur show ?thesis
    by (auto simp: CurrentLease_def holder_def until_def)
qed (use l lease_tables_cong(2) [of "exec_op now op m" m] in simp_all)

lemma coord_run_inv: "lease_inv m \<Longrightarrow> run_fresh ops m \<Longrightarrow> lease_inv (coord_run ops m)"
  by (induction ops arbitrary: m) (auto simp: exec_op_inv)

lemma coord_run_foreign:
  assumes "lease_inv m" and "run_fresh ops m" and "stored_lease m t = Some l"
    and "list_all (\<lambda>(now, op). now \<le> le_ExpiresAt l \<and> op_foreign l op) ops"
  shows "stored_lease (coord_run ops m) t = Some l"
  using assms
proof (induction ops arbitrary: m)
  case Nil
  then show ?case by simp
next
  case (Cons p ops)
  obtain now op where p: "p = (now, op)" by (cases p)
  have inv: "lease_inv (exec_op now op m)"
    using Cons.prems p by (intro exec_op_inv) simp_all
  have keep: "stored_lease (exec_op now op m) t = Some l"
    using Cons.prems p by (intro exec_op_foreign) simp_all
  show ?case
    using Cons.IH [OF inv _ keep] Cons.prems p by simp
qed

subsection \<open>Properties\<close>

text \<open>At any point of any run of the coordinator there is at most one lease per tunnel in its tables: two
  stored leases of the same tunnel are the same lease, and it is the one the tunnel index points to.\<close>

theorem one_lease_per_tunnel:
  assumes "run_fresh ops NewMemCoordinator" and "m = coord_run ops NewMemCoordinator"
    and "map_of (mc_leasesByID m) i = Some l" and "map_of (mc_leasesByID m) j = Some k"
    and "le_TunnelID l = le_TunnelID k"
  shows "i = j \<and> l = k \<and> map_of (mc_leaseByTunnel m) (le_TunnelID l) = Some i"
proof -
  have inv: "lease_inv m"
    using coord_run_inv [OF lease_inv_New assms(1)] assms(2) by simp
  from lease_invD1 [OF inv assms(3)] lease_invD1 [OF inv assms(4)] assms(3-5) show ?thesis by auto
qed

definition ops_example :: "(time \<times> coord_op) list" where
  "ops_example = [(0, OpAcquire ''l1'' \<lparr> lr_TunnelID = ''t-a'', lr_RelayID = ''r1'', lr_TTL = 30 \<rparr>)]"

definition lease_example :: Lease where
  "lease_example = \<lparr> le_LeaseID = ''l1'', le_TunnelID = ''t-a'', le_RelayID = ''r1'', le_ExpiresAt = 30, le_Version = 1 \<rparr>"

lemma ops_example_run:
  "run_fresh ops_example NewMemCoordinator"
  "mc_leasesByID (coord_run ops_example NewMemCoordinator) = [(''l1'', lease_example)]"
  "stored_lease (coord_run ops_example NewMemCoordinator) ''t-a'' = Some lease_example"
  by (simp_all add: ops_example_def lease_example_def NewMemCoordinator_def AcquireLease_def currentLeaseLocked_def
      Let_def stored_lease_def mput_def mdel_def)

theorem one_lease_per_tunnel_witness:
  "map_of (mc_leaseByTunnel (coord_run ops_example NewMemCoordinator)) ''t-a'' = Some ''l1''"
  using one_lease_per_tunnel [OF ops_example_run(1) refl, of "''l1''" lease_example "''l1''" lease_example]
  by (simp add: ops_example_run) (simp add: lease_example_def)

text \<open>C14: \<^verbatim>\<open>AcquireLease\<close> implements the abstract lease table in every reachable state: a free or expired
  tunnel is granted as a new lease of version 1 until now plus the TTL, a tunnel held by another
  relay is refused with ALREADY_EXISTS and the table unchanged, and a tunnel held by the caller is
  extended with its version increased and its lease id kept.\<close>

theorem AcquireLease_refines:
  assumes "run_fresh ops NewMemCoordinator" and "m = coord_run ops NewMemCoordinator"
    and "map_of (mc_leasesByID m) i = None" and "i \<noteq> []" and "lr_TunnelID req \<noteq> []" and "lr_RelayID req \<noteq> []"
  shows "(fst (AcquireLease i now req m), stored_lease (snd (AcquireLease i now req m))) = spec_acquire i now req (stored_lease m)"
proof -
  have "lease_inv m"
    using coord_run_inv [OF lease_inv_New assms(1)] assms(2) by simp
  then show ?thesis
    using mem_leases.acquire_refines assms(3-6) by blast
qed

theorem AcquireLease_refines_witness:
  "fst (AcquireLease ''l2'' 31 \<lparr> lr_TunnelID = ''t-a'', lr_RelayID = ''r2'', lr_TTL = 30 \<rparr> (coord_run ops_example NewMemCoordinator)) =
     Ok \<lparr> le_LeaseID = ''l2'', le_TunnelID = ''t-a'', le_RelayID = ''r2'', le_ExpiresAt = 61, le_Version = 1 \<rparr>"
  using AcquireLease_refines [OF ops_example_run(1) refl, of "''l2''" "\<lparr> lr_TunnelID = ''t-a'', lr_RelayID = ''r2'', lr_TTL = 30 \<rparr>" 31]
  by (simp add: ops_example_run spec_acquire_def table_holder_def) (simp add: lease_example_def until_def Let_def)

text \<open>C4: Leases are exclusive: once a relay has been granted a tunnel, no sequence of operations by others
  (acquiring, renewing or releasing other leases, expiry sweeps, health reports, subscriptions, event
  deliveries) takes the lease away before it expires, and every attempt of another relay to acquire
  the tunnel until then is refused.\<close>

theorem lease_exclusive:
  assumes "run_fresh ops0 NewMemCoordinator" and "m0 = coord_run ops0 NewMemCoordinator"
    and "map_of (mc_leasesByID m0) i = None" and "i \<noteq> []" and "lr_TunnelID req \<noteq> []" and "lr_RelayID req \<noteq> []"
    and "AcquireLease i now0 req m0 = (Ok l, m1)"
    and "run_fresh ops m1" and "list_all (\<lambda>(now, op). now \<le> now0 + lr_TTL req \<and> op_foreign l op) ops"
    and "m2 = coord_run ops m1" and "now \<le> now0 + lr_TTL req"
    and "j \<noteq> []" and "map_of (mc_leasesByID m2) j = None" and "r \<noteq> []" and "r \<noteq> lr_RelayID req"
  shows "holder m2 now (lr_TunnelID req) = Some l \<and>
    fst (AcquireLease j now \<lparr> lr_TunnelID = lr_TunnelID req, lr_RelayID = r, lr_TTL = ttl \<rparr> m2) =
      Err (StatusErr GAlreadyExists ''tunnel already leased by relay'')"
proof -
  let ?t = "lr_TunnelID req"
  have inv0: "lease_inv m0"
    using coord_run_inv [OF lease_inv_New assms(1)] assms(2) by simp
  have spec: "lease_inv m1" "(Ok l, stored_lease m1) = spec_acquire i now0 req (stored_lease m0)"
    using AcquireLease_spec [OF inv0 assms(3-6), of now0] assms(7) by simp_all
  then have l: "stored_lease m1 ?t = Some l" "le_ExpiresAt l = now0 + lr_TTL req" "le_RelayID l = lr_RelayID req"
    by (auto simp: spec_acquire_def Let_def split: option.splits if_splits)
  have l2: "stored_lease m2 ?t = Some l" and inv2: "lease_inv m2"
    using coord_run_foreign [OF spec(1) assms(8) l(1)] coord_run_inv [OF spec(1) assms(8)] assms(9,10) l(2) by simp_all
  have "fst (AcquireLease j now \<lparr> lr_TunnelID = ?t, lr_RelayID = r, lr_TTL = ttl \<rparr> m2) =
      Err (StatusErr GAlreadyExists ''tunnel already leased by relay'')"
    using mem_leases.exclusive [OF inv2 l2, of now j r ttl] assms(5,11-15) l(2,3) by simp
  moreover have "holder m2 now ?t = Some l"
    using l2 l(2) assms(11) by (simp add: holder_def until_def)
  ultimately show ?thesis by blast
qed

theorem lease_exclusive_witness:
  "fst (AcquireLease ''l2'' 20 \<lparr> lr_TunnelID = ''t-a'', lr_RelayID = ''r2'', lr_TTL = 30 \<rparr>
     (coord_run [(10, OpExpire)] (snd (AcquireLease ''l1'' 0 \<lparr> lr_TunnelID = ''t-a'', lr_RelayID = ''r1'', lr_TTL = 30 \<rparr> NewMemCoordinator)))) =
   Err (StatusErr GAlreadyExists ''tunnel already leased by relay'')"
proof -
  let ?req = "\<lparr> lr_TunnelID = ''t-a'', lr_RelayID = ''r1'', lr_TTL = 30 \<rparr>"
  let ?m1 = "snd (AcquireLease ''l1'' 0 ?req NewMemCoordinator)"
  have run: "fst (AcquireLease ''l1'' 0 ?req NewMemCoordinator) = Ok lease_example"
    and ids: "mc_leasesByID ?m1 = [(''l1'', lease_example)]"
    by (simp_all add: lease_example_def NewMemCoordinator_def AcquireLease_def currentLeaseLocked_def Let_def mput_def mdel_def)
  have ok: "AcquireLease ''l1'' 0 ?req NewMemCoordinator = (Ok lease_example, ?m1)"
    using run by (metis prod.collapse)
  have free: "map_of (mc_leasesByID (coord_run [(10, OpExpire)] ?m1)) ''l2'' = None"
    using fold_Publish_frame
    by (simp add: ReleaseExpiredLeases_def ids lease_example_def)
  have empty: "map_of (mc_leasesByID NewMemCoordinator) ''l1'' = None"
    by (simp add: NewMemCoordinator_def)
  show ?thesis
    using lease_exclusive [of "[]" NewMemCoordinator "''l1''" ?req 0 lease_example ?m1 "[(10, OpExpire)]"
        "coord_run [(10, OpExpire)] ?m1" 20 "''l2''" "''r2''" 30] ok free empty by simp
qed

text \<open>The cleanup sweep removes exactly the expired leases: it returns the stored leases whose expiry has
  passed, and afterwards the tables hold, for every tunnel, the lease that was still in force.\<close>

theorem ReleaseExpiredLeases_exact:
  assumes "run_fresh ops NewMemCoordinator" and "m = coord_run ops NewMemCoordinator"
  shows "fst (ReleaseExpiredLeases now m) = map snd (filter (\<lambda>p. le_ExpiresAt (snd p) < now) (mc_leasesByID m)) \<and>
    stored_lease (snd (ReleaseExpiredLeases now m)) t = holder m now t"
proof -
  have "lease_inv m"
    using coord_run_inv [OF lease_inv_New assms(1)] assms(2) by simp
  from ReleaseExpiredLeases_spec [OF this, of now] show ?thesis
    by (simp add: holder_table)
qed

theorem ReleaseExpiredLeases_exact_witness:
  "fst (ReleaseExpiredLeases 31 (coord_run ops_example NewMemCoordinator)) = [lease_example]"
  using ReleaseExpiredLeases_exact [OF ops_example_run(1) refl, of 31 "''t-a''"]
  by (simp add: ops_example_run) (simp add: lease_example_def)

end
