(* ===== verification/TE_Auth.thy ===== *)
theory TE_Auth
  imports TE_Domain
begin

text \<open>
  Token authentication (\<^verbatim>\<open>src/internal/auth\<close>): the in-memory authenticator of \<^verbatim>\<open>auth.go\<close>, the
  database-backed one of \<^verbatim>\<open>db_authenticator.go\<close> and the per-key rate limiter of \<^verbatim>\<open>rate_limiter.go\<close>.

  Code outside the repository is a parameter: \<open>cmp hash token\<close> is that
  \<^verbatim>\<open>bcrypt.CompareHashAndPassword\<close> returns nil, \<open>mac key data\<close> the hex-encoded HMAC-SHA256, \<open>fresh\<close> a new
  \<^verbatim>\<open>rate.Limiter\<close> and \<open>allow\<close> its \<^verbatim>\<open>Allow\<close>. The locale \<open>authenticator\<close> is the contract behind the
  \<^verbatim>\<open>Authenticator\<close> interface that the gateway uses.
\<close>

subsection \<open>The contract\<close>

locale authenticator =
  fixes cmp :: "string \<Rightarrow> string \<Rightarrow> bool"
    and known :: "'s \<Rightarrow> (string \<times> string) list"
    and auth :: "'s \<Rightarrow> string \<Rightarrow> string result"
  assumes auth_sound: "auth s token = Ok agent \<Longrightarrow> token \<noteq> [] \<and> (\<exists>hash. (hash, agent) \<in> set (known s) \<and> cmp hash token)"
    and auth_no_panic: "auth s token \<noteq> Panic"
begin

lemma empty_rejected: "\<exists>e. auth s [] = Err e"
  using auth_sound [of s "[]"] auth_no_panic [of s "[]"] by (cases "auth s []") auto

lemma unknown_rejected:
  "(\<And>hash agent. (hash, agent) \<in> set (known s) \<Longrightarrow> \<not> cmp hash token) \<Longrightarrow> \<exists>e. auth s token = Err e"
  using auth_sound [of s token] auth_no_panic [of s token] by (cases "auth s token") auto

text \<open>When a token matches the hashes of one agent only, no other agent can be returned.\<close>

lemma agent_determined:
  assumes "auth s token = Ok agent" and "\<And>hash a. (hash, a) \<in> set (known s) \<Longrightarrow> cmp hash token \<Longrightarrow> a = b"
  shows "agent = b"
  using auth_sound [OF assms(1)] assms(2) by blast

end

subsection \<open>The in-memory authenticator\<close>

record tokenEntry =
  tk_bcryptHash :: string
  tk_fingerprint :: string
  tk_agentID :: string

type_synonym TokenAuthenticator = "tokenEntry list"

definition newEntry :: "string \<Rightarrow> string \<Rightarrow> tokenEntry" where
  "newEntry bcryptHash agentID = \<lparr> tk_bcryptHash = bcryptHash, tk_fingerprint = [], tk_agentID = agentID \<rparr>"

definition NewHashedTokenAuthenticator :: "(string, string) gomap \<Rightarrow> TokenAuthenticator" where
  "NewHashedTokenAuthenticator hashes = map (\<lambda>(hash, agentID). newEntry hash agentID) hashes"

definition tokenFingerprint :: "(string \<Rightarrow> string \<Rightarrow> string) \<Rightarrow> string \<Rightarrow> string \<Rightarrow> string" where
  "tokenFingerprint mac bcryptHash candidateToken =
     mac (if length bcryptHash > 16 then take 16 bcryptHash else bcryptHash) candidateToken"

definition entry_accepts ::
  "(string \<Rightarrow> string \<Rightarrow> bool) \<Rightarrow> (string \<Rightarrow> string \<Rightarrow> string) \<Rightarrow> string \<Rightarrow> tokenEntry \<Rightarrow> bool" where
  "entry_accepts cmp mac token entry \<longleftrightarrow>
     (tk_fingerprint entry = [] \<or> tokenFingerprint mac (tk_bcryptHash entry) token = tk_fingerprint entry) \<and>
     cmp (tk_bcryptHash entry) token"

definition Token_Authenticate ::
  "(string \<Rightarrow> string \<Rightarrow> bool) \<Rightarrow> (string \<Rightarrow> string \<Rightarrow> string) \<Rightarrow> TokenAuthenticator \<Rightarrow> string \<Rightarrow> string result" where
  "Token_Authenticate cmp mac entries token =
     (if token = [] then Err (New CodeUnauthorized ''empty token'')
      else case find (entry_accepts cmp mac token) entries of
        Some entry \<Rightarrow> Ok (tk_agentID entry) | None \<Rightarrow> Err (New CodeUnauthorized ''invalid token''))"

definition AddHashedToken :: "string \<Rightarrow> string \<Rightarrow> TokenAuthenticator \<Rightarrow> TokenAuthenticator" where
  "AddHashedToken hash agentID entries = entries @ [newEntry hash agentID]"

definition RemoveHashedToken :: "string \<Rightarrow> TokenAuthenticator \<Rightarrow> TokenAuthenticator" where
  "RemoveHashedToken agentID entries = filter (\<lambda>e. tk_agentID e \<noteq> agentID) entries"

text \<open>\<open>gen\<close> is \<^verbatim>\<open>bcrypt.GenerateFromPassword\<close> with the default cost.\<close>

definition HashToken :: "(string \<Rightarrow> string result) \<Rightarrow> string \<Rightarrow> string result" where
  "HashToken gen token = (case gen token of
     Ok hash \<Rightarrow> Ok hash | Err e \<Rightarrow> Err (WrapErr ''failed to hash token'' e) | Panic \<Rightarrow> Panic)"

definition token_known :: "TokenAuthenticator \<Rightarrow> (string \<times> string) list" where
  "token_known entries = map (\<lambda>e. (tk_bcryptHash e, tk_agentID e)) entries"

interpretation token_auth: authenticator cmp token_known "Token_Authenticate cmp mac" for cmp mac
proof unfold_locales
  fix s token agent
  assume "Token_Authenticate cmp mac s token = Ok agent"
  then show "token \<noteq> [] \<and> (\<exists>hash. (hash, agent) \<in> set (token_known s) \<and> cmp hash token)"
    by (fastforce simp: Token_Authenticate_def token_known_def entry_accepts_def find_Some_iff in_set_conv_nth
        split: if_splits option.splits)
qed (simp add: Token_Authenticate_def split: option.split)

subsection \<open>The database-backed authenticator\<close>

record LockoutConfig =
  lk_MaxFailedAttempts :: int
  lk_LockoutDuration :: duration

definition DefaultLockoutConfig :: LockoutConfig where
  "DefaultLockoutConfig = \<lparr> lk_MaxFailedAttempts = 10, lk_LockoutDuration = 15 * 60 * 1000000000 \<rparr>"

text \<open>The state the authenticator sees: the answer of \<^verbatim>\<open>ListTokenHashes\<close>, the profiles (absent when the
  store is no \<^verbatim>\<open>ProfileLookup\<close>), and whether \<^verbatim>\<open>UpdateSecurityFields\<close> succeeds.\<close>

record DBTokenAuthenticator =
  db_hashes :: "goerror + (string, string) gomap"
  db_profiles :: "(string, AgentProfile) gomap option"
  db_updateOK :: bool
  db_lockout :: LockoutConfig

definition mark_used :: "time \<Rightarrow> AgentProfile \<Rightarrow> AgentProfile" where
  "mark_used now p = p\<lparr>ap_LastUsedAt := Some now, ap_FailedAuthCount := 0, ap_LockedUntil := None\<rparr>"

definition recordAuthFailure :: "DBTokenAuthenticator \<Rightarrow> DBTokenAuthenticator" where
  "recordAuthFailure a = a"

definition accept_agent :: "time \<Rightarrow> string \<Rightarrow> DBTokenAuthenticator \<Rightarrow> string result \<times> DBTokenAuthenticator" where
  "accept_agent now agentID a = (case db_profiles a of
     None \<Rightarrow> (Ok agentID, a)
   | Some profiles \<Rightarrow> (case map_of profiles agentID of
       None \<Rightarrow> (Err (New CodeUnauthorized ''invalid token''), a)
     | Some profile \<Rightarrow>
         if (case ap_LockedUntil profile of Some t \<Rightarrow> t > now | None \<Rightarrow> False)
         then (Err (New CodeUnauthorized ''account temporarily locked''), a)
         else if (case ap_TokenExpiresAt profile of Some t \<Rightarrow> t < now | None \<Rightarrow> False)
         then (Err (New CodeUnauthorized ''token expired''), a)
         else (Ok agentID,
           if db_updateOK a then a\<lparr>db_profiles := Some (mupd agentID (mark_used now) profiles)\<rparr> else a)))"

definition DB_Authenticate ::
  "(string \<Rightarrow> string \<Rightarrow> bool) \<Rightarrow> time \<Rightarrow> DBTokenAuthenticator \<Rightarrow> string \<Rightarrow> string result \<times> DBTokenAuthenticator" where
  "DB_Authenticate cmp now a token =
     (if token = [] then (Err (New CodeUnauthorized ''empty token''), a)
      else case db_hashes a of
        Inl e \<Rightarrow> (Err (WrapErr ''failed to load tokens'' e), a)
      | Inr hashes \<Rightarrow> (case find (\<lambda>(hash, agentID). cmp hash token) hashes of
          Some (hash, agentID) \<Rightarrow> accept_agent now agentID a
        | None \<Rightarrow> (Err (New CodeUnauthorized ''invalid token''),
            if db_profiles a \<noteq> None \<and> lk_MaxFailedAttempts (db_lockout a) > 0 then recordAuthFailure a else a)))"

definition db_known :: "DBTokenAuthenticator \<Rightarrow> (string \<times> string) list" where
  "db_known a = (case db_hashes a of Inr hashes \<Rightarrow> hashes | Inl e \<Rightarrow> [])"

lemma accept_agent_Ok: "fst (accept_agent now i a) = Ok agent \<Longrightarrow> agent = i"
  by (auto simp: accept_agent_def split: option.splits if_splits)

lemma accept_agent_OkD:
  assumes "accept_agent now i a = (Ok agent, a')" and "db_profiles a = Some ps"
  shows "\<exists>p. map_of ps i = Some p \<and> (\<forall>t. ap_LockedUntil p = Some t \<longrightarrow> t \<le> now) \<and>
      (\<forall>t. ap_TokenExpiresAt p = Some t \<longrightarrow> now \<le> t) \<and>
      (db_updateOK a \<longrightarrow> map_of (the (db_profiles a')) i = Some (mark_used now p))"
proof (cases "map_of ps i")
  case None
  with assms show ?thesis by (simp add: accept_agent_def)
next
  case (Some p)
  have locked: "\<not> (case ap_LockedUntil p of Some t \<Rightarrow> t > now | None \<Rightarrow> False)"
    and expired: "\<not> (case ap_TokenExpiresAt p of Some t \<Rightarrow> t < now | None \<Rightarrow> False)"
    using assms Some by (auto simp: accept_agent_def split: if_splits)
  with assms Some have "db_updateOK a \<Longrightarrow> map_of (the (db_profiles a')) i = Some (mark_used now p)"
    by (auto simp: accept_agent_def)
  with locked expired Some show ?thesis by (auto split: option.splits)
qed

lemma accept_agent_no_panic: "fst (accept_agent now i a) \<noteq> Panic"
  by (auto simp: accept_agent_def split: option.splits if_splits)

interpretation db_auth: authenticator cmp db_known "\<lambda>a token. fst (DB_Authenticate cmp now a token)" for cmp now
proof unfold_locales
  fix a :: DBTokenAuthenticator and token agent
  assume "fst (DB_Authenticate cmp now a token) = Ok agent"
  then show "token \<noteq> [] \<and> (\<exists>hash. (hash, agent) \<in> set (db_known a) \<and> cmp hash token)"
    by (fastforce simp: DB_Authenticate_def db_known_def find_Some_iff in_set_conv_nth
        dest: accept_agent_Ok split: if_splits sum.splits option.splits)
next
  fix a :: DBTokenAuthenticator and token
  show "fst (DB_Authenticate cmp now a token) \<noteq> Panic"
    by (auto simp: DB_Authenticate_def accept_agent_no_panic split: sum.splits option.splits)
qed

subsection \<open>The rate limiter\<close>

record 'l rateLimiterEntry =
  re_limiter :: 'l
  re_lastSeen :: time

record 'l IPRateLimiter =
  rl_limiters :: "(string, 'l rateLimiterEntry) gomap"
  rl_cleanupInterval :: duration
  rl_lastCleanup :: time

definition limiter_stale :: "duration \<Rightarrow> time \<Rightarrow> 'l rateLimiterEntry \<Rightarrow> bool" where
  "limiter_stale interval now e \<longleftrightarrow> re_lastSeen e < now - interval"

definition sweep_limiters ::
  "duration \<Rightarrow> time \<Rightarrow> (string, 'l rateLimiterEntry) gomap \<Rightarrow> nat \<times> (string, 'l rateLimiterEntry) gomap" where
  "sweep_limiters interval now m =
     (length (filter (\<lambda>p. limiter_stale interval now (snd p)) m), mkeep (\<lambda>k e. \<not> limiter_stale interval now e) m)"

definition maybeCleanup :: "time \<Rightarrow> 'l IPRateLimiter \<Rightarrow> 'l IPRateLimiter" where
  "maybeCleanup now l =
     (if now - rl_lastCleanup l < rl_cleanupInterval l then l
      else l\<lparr>rl_limiters := snd (sweep_limiters (rl_cleanupInterval l) now (rl_limiters l)), rl_lastCleanup := now\<rparr>)"

definition Limiter_Allow ::
  "'l \<Rightarrow> (time \<Rightarrow> 'l \<Rightarrow> bool \<times> 'l) \<Rightarrow> time \<Rightarrow> string \<Rightarrow> 'l IPRateLimiter \<Rightarrow> bool \<times> 'l IPRateLimiter" where
  "Limiter_Allow fresh allow now key l =
     (let l = maybeCleanup now l;
          limiter = (case map_of (rl_limiters l) key of Some e \<Rightarrow> re_limiter e | None \<Rightarrow> fresh)
      in case allow now limiter of (ok, limiter') \<Rightarrow>
        (ok, l\<lparr>rl_limiters := mput key \<lparr> re_limiter = limiter', re_lastSeen = now \<rparr> (rl_limiters l)\<rparr>))"

interpretation limiter_expiry: expiring_table "\<lambda>now e. limiter_stale interval now e" "sweep_limiters interval" for interval
  by unfold_locales
    (simp_all add: sweep_limiters_def sweep_mkeep_count split: option.split, simp add: limiter_stale_def)

subsection \<open>Properties\<close>

lemma find_append_None: "(\<And>x. x \<in> set xs \<Longrightarrow> \<not> P x) \<Longrightarrow> find P (xs @ ys) = find P ys"
  by (induction xs) auto

text \<open>Token rotation on the in-memory authenticator: a token whose bcrypt hash was added for an agent
  authenticates as that agent (when no other stored hash matches it), and after the agent's entries
  are removed no token authenticates as that agent any more.\<close>

theorem token_rotation:
  assumes "gen token = Ok hash" and "cmp hash token" and "token \<noteq> []"
    and "\<And>e. e \<in> set entries \<Longrightarrow> \<not> cmp (tk_bcryptHash e) token"
  shows "HashToken gen token = Ok hash \<and>
    Token_Authenticate cmp mac (AddHashedToken hash agent entries) token = Ok agent \<and>
    Token_Authenticate cmp mac (RemoveHashedToken agent (AddHashedToken hash agent entries)) other \<noteq> Ok agent"
proof -
  have "find (entry_accepts cmp mac token) (entries @ [newEntry hash agent]) = Some (newEntry hash agent)"
    using assms by (subst find_append_None) (auto simp: entry_accepts_def newEntry_def)
  then have "Token_Authenticate cmp mac (AddHashedToken hash agent entries) token = Ok agent"
    using assms(3) by (simp add: Token_Authenticate_def AddHashedToken_def newEntry_def)
  moreover have "Token_Authenticate cmp mac (RemoveHashedToken agent (AddHashedToken hash agent entries)) other \<noteq> Ok agent"
    using token_auth.auth_sound [of cmp mac "RemoveHashedToken agent (AddHashedToken hash agent entries)" other agent]
    by (auto simp: token_known_def RemoveHashedToken_def)
  ultimately show ?thesis
    using assms(1) by (simp add: HashToken_def)
qed

definition toy_cmp :: "string \<Rightarrow> string \<Rightarrow> bool" where
  "toy_cmp hash token \<longleftrightarrow> hash = ''hx'' \<and> token = ''x''"

theorem token_rotation_witness:
  "Token_Authenticate toy_cmp (\<lambda>k d. d) (AddHashedToken ''hx'' ''agent-1'' []) ''x'' = Ok ''agent-1''"
proof -
  have "(\<lambda>t. Ok ''hx'') ''x'' = Ok ''hx''" "toy_cmp ''hx'' ''x''" "''x'' \<noteq> []"
    by (simp_all add: toy_cmp_def)
  then show ?thesis
    by (intro token_rotation [THEN conjunct2, THEN conjunct1]) simp_all
qed

text \<open>C39: With a profile store, a successful login is one of a known agent that is neither locked nor past
  its token expiry, through a stored hash that matches the token; if the store accepts the update,
  the profile afterwards has its last use set, its failure count zero and no lock.\<close>

theorem DB_Authenticate_checks:
  assumes "DB_Authenticate cmp now a token = (Ok agent, a')" and "db_profiles a = Some ps"
  shows "token \<noteq> [] \<and> (\<exists>hash. (hash, agent) \<in> set (db_known a) \<and> cmp hash token) \<and>
    (\<exists>p. map_of ps agent = Some p \<and> (\<forall>t. ap_LockedUntil p = Some t \<longrightarrow> t \<le> now) \<and>
      (\<forall>t. ap_TokenExpiresAt p = Some t \<longrightarrow> now \<le> t) \<and>
      (db_updateOK a \<longrightarrow> map_of (the (db_profiles a')) agent = Some (mark_used now p)))"
proof -
  have "fst (DB_Authenticate cmp now a token) = Ok agent"
    using assms(1) by simp
  then have known: "token \<noteq> [] \<and> (\<exists>hash. (hash, agent) \<in> set (db_known a) \<and> cmp hash token)"
    by (rule db_auth.auth_sound)
  obtain i where i: "accept_agent now i a = (Ok agent, a')"
    using assms(1) by (auto simp: DB_Authenticate_def split: if_splits sum.splits option.splits)
  then have "accept_agent now agent a = (Ok agent, a')"
    using accept_agent_Ok [of now i a agent] by simp
  from accept_agent_OkD [OF this assms(2)] known show ?thesis by blast
qed

definition profile_example :: AgentProfile where
  "profile_example = \<lparr> ap_ID = 1, ap_UserID = 1, ap_Name = ''n'', ap_AgentID = ''agent-1'', ap_TokenHash = ''hx'',
     ap_Scopes = [], ap_TokenExpiresAt = Some 100, ap_LastUsedAt = None, ap_FailedAuthCount = 3, ap_LockedUntil = Some 10,
     ap_CreatedAt = 0, ap_UpdatedAt = 0 \<rparr>"

definition db_example :: DBTokenAuthenticator where
  "db_example = \<lparr> db_hashes = Inr [(''hx'', ''agent-1'')], db_profiles = Some [(''agent-1'', profile_example)],
     db_updateOK = True, db_lockout = DefaultLockoutConfig \<rparr>"

theorem DB_Authenticate_checks_witness:
  "fst (DB_Authenticate toy_cmp 50 db_example ''x'') = Ok ''agent-1'' \<and>
   (\<exists>p. map_of [(''agent-1'', profile_example)] ''agent-1'' = Some p \<and> (\<forall>t. ap_TokenExpiresAt p = Some t \<longrightarrow> 50 \<le> t))"
proof -
  let ?a = "db_example\<lparr>db_profiles := Some [(''agent-1'', mark_used 50 profile_example)]\<rparr>"
  have run: "DB_Authenticate toy_cmp 50 db_example ''x'' = (Ok ''agent-1'', ?a)"
    by (simp add: DB_Authenticate_def db_example_def accept_agent_def profile_example_def mupd_def toy_cmp_def)
  have "db_profiles db_example = Some [(''agent-1'', profile_example)]"
    by (simp add: db_example_def)
  from DB_Authenticate_checks [OF run this] show ?thesis
    unfolding run by auto
qed

text \<open>Failed logins are never counted: whatever the lockout configuration, a login that is refused
  leaves every profile as it was, so no number of wrong tokens ever locks an agent out, although
  the configuration and its default promise a lockout after ten attempts.\<close>

theorem failed_logins_never_lock:
  assumes "DB_Authenticate cmp now a token = (Err e, a')"
  shows "a' = a"
  using assms
  by (auto simp: DB_Authenticate_def accept_agent_def recordAuthFailure_def split: sum.splits option.splits if_splits)

theorem failed_logins_never_lock_witness:
  "snd (DB_Authenticate toy_cmp 50 db_example ''wrong'') = db_example"
proof -
  have "fst (DB_Authenticate toy_cmp 50 db_example ''wrong'') = Err (New CodeUnauthorized ''invalid token'')"
    by (simp add: DB_Authenticate_def db_example_def toy_cmp_def)
  then show ?thesis
    using failed_logins_never_lock by (metis prod.collapse)
qed

text \<open>The rate limiter keeps its keys apart: a request for one key leaves the limiter of every other key
  untouched, except that the limiter of a key idle for longer than the cleanup interval may be
  dropped; and the decision for a key depends only on that key's own limiter.\<close>

theorem Limiter_Allow_isolated:
  assumes "mwf (rl_limiters l)" and "Limiter_Allow fresh allow now key l = (ok, l')" and "k \<noteq> key"
  shows "(map_of (rl_limiters l') k = map_of (rl_limiters l) k \<or>
     (\<exists>e. map_of (rl_limiters l) k = Some e \<and> limiter_stale (rl_cleanupInterval l) now e \<and>
        map_of (rl_limiters l') k = None)) \<and>
    (\<forall>e. map_of (rl_limiters l) key = Some e \<and> \<not> limiter_stale (rl_cleanupInterval l) now e \<longrightarrow>
       ok = fst (allow now (re_limiter e)))"
proof -
  have "map_of (rl_limiters (maybeCleanup now l)) x = map_of (rl_limiters l) x \<or>
     (\<exists>e. map_of (rl_limiters l) x = Some e \<and> limiter_stale (rl_cleanupInterval l) now e \<and>
        map_of (rl_limiters (maybeCleanup now l)) x = None)" for x
    using limiter_expiry.sweep_lookup [OF assms(1), of "rl_cleanupInterval l" now x]
    by (auto simp: maybeCleanup_def split: option.splits)
  note cleaned = this
  let ?l = "maybeCleanup now l"
  let ?lim = "case map_of (rl_limiters ?l) key of Some e \<Rightarrow> re_limiter e | None \<Rightarrow> fresh"
  have "ok = fst (allow now ?lim)" "rl_limiters l' = mput key \<lparr> re_limiter = snd (allow now ?lim), re_lastSeen = now \<rparr> (rl_limiters ?l)"
    using assms(2) by (simp_all add: Limiter_Allow_def Let_def case_prod_unfold) auto
  with cleaned [of k] cleaned [of key] assms(3) show ?thesis
    by auto
qed

theorem Limiter_Allow_isolated_witness:
  "let l = \<lparr> rl_limiters = [(''b'', \<lparr> re_limiter = (1::nat), re_lastSeen = 0 \<rparr>)], rl_cleanupInterval = 300, rl_lastCleanup = 0 \<rparr>;
       l' = snd (Limiter_Allow 5 (\<lambda>now n. (n > 0, n - 1)) 10 ''a'' l)
   in map_of (rl_limiters l') ''b'' = map_of (rl_limiters l) ''b'' \<or>
      (\<exists>e. map_of (rl_limiters l) ''b'' = Some e \<and> limiter_stale 300 10 e \<and> map_of (rl_limiters l') ''b'' = None)"
  using Limiter_Allow_isolated [of "\<lparr> rl_limiters = [(''b'', \<lparr> re_limiter = (1::nat), re_lastSeen = 0 \<rparr>)],
      rl_cleanupInterval = 300, rl_lastCleanup = 0 \<rparr>" 5 "\<lambda>now n. (n > 0, n - 1)" 10 "''a''" _ _ "''b''", OF _ surjective_pairing]
  by (simp add: mwf_def)

end
