(* ===== verification/TE_Registry.thy ===== *)
theory TE_Registry
  imports TE_Memstore TE_Coordinator TE_Auth "HOL-Library.Word"
begin

text \<open>
  The registry service: the gRPC handlers of \<^verbatim>\<open>src/internal/registry/server.go\<close>, the conversions to and from
  the messages of \<^verbatim>\<open>src/proto/registry/v1/registry.proto\<close>, the client of \<^verbatim>\<open>client.go\<close> and the interceptors of
  \<^verbatim>\<open>interceptors.go\<close>.

  The server runs on the in-memory session store and the in-memory coordinator, the single-node default of
  \<^verbatim>\<open>NewServer\<close>. The store hands out pointers, so the owner that \<^verbatim>\<open>GetTunnel\<close>, \<^verbatim>\<open>ListTunnels\<close> and
  \<^verbatim>\<open>sendSnapshot\<close> write into a session is written into the store; an event carries the session as it is when
  the event is published. Every clock reading is an argument. A gRPC server stream is the list of the messages sent and the
  number of sends that still succeed (\<open>None\<close>: the stream never breaks). Logging is left out.
\<close>

subsection \<open>Messages\<close>

record RegisterTunnelRequest =
  rq_TunnelId :: string
  rq_AgentId :: string
  rq_LocalAddr :: string
  rq_PublicAddr :: string

record GetTunnelResponse =
  gt_TunnelId :: string
  gt_AgentId :: string
  gt_PublicAddr :: string
  gt_LocalAddr :: string
  gt_CreatedAt :: int
  gt_LastHeartbeat :: int
  gt_OwnerRelayId :: string
  gt_LeaseId :: string

record LeaseInfo =
  li_LeaseId :: string
  li_TunnelId :: string
  li_RelayId :: string
  li_ExpiresAtUnix :: int
  li_Version :: int

record pbRelayInfo =
  pr_RelayId :: string
  pr_AdvertiseAddr :: string
  pr_State :: string
  pr_ActiveTunnels :: int
  pr_ActiveStreams :: int
  pr_LastSeenUnix :: int

record pbRelayHealth =
  ph_RttMillis :: int
  ph_HeartbeatLatencyMillis :: int
  ph_ActiveTunnels :: int
  ph_ActiveStreams :: int
  ph_BytesPerSecond :: int
  ph_PacketLossPct :: real
  ph_CpuUtilizationPct :: real
  ph_MemoryUtilizationPct :: real
  ph_RecordedAtUnix :: int

datatype WatchEventType =
    WATCH_EVENT_TYPE_UNSPECIFIED | WATCH_EVENT_TYPE_TUNNEL_UPSERTED | WATCH_EVENT_TYPE_TUNNEL_DELETED
  | WATCH_EVENT_TYPE_LEASE_ACQUIRED | WATCH_EVENT_TYPE_LEASE_RELEASED | WATCH_EVENT_TYPE_RELAY_UPSERTED
  | WATCH_EVENT_TYPE_RELAY_HEALTH_UPDATED

record WatchResponse =
  wr_EventType :: WatchEventType
  wr_Tunnel :: "GetTunnelResponse option"
  wr_Lease :: "LeaseInfo option"
  wr_Relay :: "pbRelayInfo option"
  wr_Health :: "pbRelayHealth option"

subsection \<open>Conversions of the server\<close>

definition sessionToProto :: "Session \<Rightarrow> GetTunnelResponse" where
  "sessionToProto sess =
     \<lparr> gt_TunnelId = ss_TunnelID sess, gt_AgentId = ss_AgentID sess, gt_PublicAddr = ss_PublicAddr sess,
       gt_LocalAddr = ss_LocalAddr sess, gt_CreatedAt = Unix (ss_CreatedAt sess),
       gt_LastHeartbeat = Unix (ss_LastHeartbeat sess), gt_OwnerRelayId = ss_OwnerRelayID sess,
       gt_LeaseId = ss_LeaseID sess \<rparr>"

definition leaseToProto :: "Lease \<Rightarrow> LeaseInfo" where
  "leaseToProto lease =
     \<lparr> li_LeaseId = le_LeaseID lease, li_TunnelId = le_TunnelID lease, li_RelayId = le_RelayID lease,
       li_ExpiresAtUnix = Unix (le_ExpiresAt lease), li_Version = le_Version lease \<rparr>"

definition relayToProto :: "RelayInfo \<Rightarrow> pbRelayInfo" where
  "relayToProto relay =
     \<lparr> pr_RelayId = ri_RelayID relay, pr_AdvertiseAddr = ri_AdvertiseAddr relay, pr_State = ri_State relay,
       pr_ActiveTunnels = ri_ActiveTunnels relay, pr_ActiveStreams = ri_ActiveStreams relay,
       pr_LastSeenUnix = Unix (ri_LastSeen relay) \<rparr>"

definition Server_relayHealthToProto :: "RelayHealth \<Rightarrow> pbRelayHealth" where
  "Server_relayHealthToProto health =
     \<lparr> ph_RttMillis = rh_RTTMillis health, ph_HeartbeatLatencyMillis = rh_HeartbeatLatencyMillis health,
       ph_ActiveTunnels = rh_ActiveTunnels health, ph_ActiveStreams = rh_ActiveStreams health,
       ph_BytesPerSecond = rh_BytesPerSecond health, ph_PacketLossPct = rh_PacketLossPct health,
       ph_CpuUtilizationPct = rh_CPUUtilizationPct health,
       ph_MemoryUtilizationPct = rh_MemoryUtilizationPct health, ph_RecordedAtUnix = Unix (rh_RecordedAt health) \<rparr>"

definition time_Unix :: "int \<Rightarrow> time" where
  "time_Unix sec = sec * 1000000000"

definition Server_relayHealthFromProto :: "time \<Rightarrow> pbRelayHealth \<Rightarrow> RelayHealth" where
  "Server_relayHealthFromProto now health =
     (let recordedAt = (if ph_RecordedAtUnix health = 0 then now else time_Unix (ph_RecordedAtUnix health))
      in \<lparr> rh_AdvertiseAddr = [], rh_RTTMillis = ph_RttMillis health,
           rh_HeartbeatLatencyMillis = ph_HeartbeatLatencyMillis health,
           rh_ActiveTunnels = ph_ActiveTunnels health, rh_ActiveStreams = ph_ActiveStreams health,
           rh_BytesPerSecond = ph_BytesPerSecond health, rh_PacketLossPct = ph_PacketLossPct health,
           rh_CPUUtilizationPct = ph_CpuUtilizationPct health,
           rh_MemoryUtilizationPct = ph_MemoryUtilizationPct health, rh_RecordedAt = recordedAt, rh_Region = [] \<rparr>)"

text \<open>\<^verbatim>\<open>time.Duration(seconds) * time.Second\<close> is a product of 64-bit integers.\<close>

definition ttlFromSeconds :: "int \<Rightarrow> duration" where
  "ttlFromSeconds seconds =
     (if seconds \<le> 0 then 30 * 1000000000 else sint (word_of_int (seconds * 1000000000) :: 64 word))"

definition watchResponse :: "WatchEventType \<Rightarrow> WatchResponse" where
  "watchResponse ty = \<lparr> wr_EventType = ty, wr_Tunnel = None, wr_Lease = None, wr_Relay = None, wr_Health = None \<rparr>"

definition domainEventToProto :: "RegistryEvent \<Rightarrow> WatchResponse option" where
  "domainEventToProto event = (case ev_Type event of
     RegistryEventTunnelUpserted \<Rightarrow>
       Some ((watchResponse WATCH_EVENT_TYPE_TUNNEL_UPSERTED)\<lparr>wr_Tunnel := map_option sessionToProto (ev_Tunnel event)\<rparr>)
   | RegistryEventTunnelDeleted \<Rightarrow>
       (let tunnelID = (case ev_Tunnel event of Some t \<Rightarrow> ss_TunnelID t | None \<Rightarrow> [])
        in Some ((watchResponse WATCH_EVENT_TYPE_TUNNEL_DELETED)\<lparr>wr_Tunnel :=
             Some \<lparr> gt_TunnelId = tunnelID, gt_AgentId = [], gt_PublicAddr = [], gt_LocalAddr = [], gt_CreatedAt = 0,
                    gt_LastHeartbeat = 0, gt_OwnerRelayId = [], gt_LeaseId = [] \<rparr>\<rparr>))
   | RegistryEventLeaseAcquired \<Rightarrow>
       Some ((watchResponse WATCH_EVENT_TYPE_LEASE_ACQUIRED)\<lparr>wr_Lease := map_option leaseToProto (ev_Lease event)\<rparr>)
   | RegistryEventLeaseReleased \<Rightarrow>
       Some ((watchResponse WATCH_EVENT_TYPE_LEASE_RELEASED)\<lparr>wr_Lease := map_option leaseToProto (ev_Lease event)\<rparr>)
   | RegistryEventRelayUpserted \<Rightarrow>
       Some ((watchResponse WATCH_EVENT_TYPE_RELAY_UPSERTED)\<lparr>wr_Relay := map_option relayToProto (ev_Relay event)\<rparr>)
   | RegistryEventRelayHealthUpdated \<Rightarrow>
       Some ((watchResponse WATCH_EVENT_TYPE_RELAY_HEALTH_UPDATED)
         \<lparr>wr_Relay := map_option relayToProto (ev_Relay event),
          wr_Health := map_option Server_relayHealthToProto (ev_Health event)\<rparr>)
   | RegistryEventUnknown \<Rightarrow> None)"

definition matchesDomainEvent :: "RegistryEvent \<Rightarrow> string \<Rightarrow> string \<Rightarrow> bool" where
  "matchesDomainEvent event tunnelFilter relayFilter =
     (if tunnelFilter = [] \<and> relayFilter = [] then True
      else case ev_Type event of
        RegistryEventUnknown \<Rightarrow> True
      | ty \<Rightarrow>
        if ty = RegistryEventTunnelUpserted \<or> ty = RegistryEventTunnelDeleted then
          (case ev_Tunnel event of None \<Rightarrow> False
           | Some t \<Rightarrow> \<not> (tunnelFilter \<noteq> [] \<and> ss_TunnelID t \<noteq> tunnelFilter) \<and>
               \<not> (relayFilter \<noteq> [] \<and> ss_OwnerRelayID t \<noteq> relayFilter))
        else if ty = RegistryEventLeaseAcquired \<or> ty = RegistryEventLeaseReleased then
          (case ev_Lease event of None \<Rightarrow> False
           | Some l \<Rightarrow> \<not> (tunnelFilter \<noteq> [] \<and> le_TunnelID l \<noteq> tunnelFilter) \<and>
               \<not> (relayFilter \<noteq> [] \<and> le_RelayID l \<noteq> relayFilter))
        else
          (case ev_Relay event of None \<Rightarrow> False
           | Some r \<Rightarrow> \<not> (relayFilter \<noteq> [] \<and> ri_RelayID r \<noteq> relayFilter)))"

subsection \<open>Handlers\<close>

record Server =
  sv_store :: session_repo
  sv_coord :: MemCoordinator

definition NewServer :: Server where
  "NewServer = \<lparr> sv_store = [], sv_coord = NewMemCoordinator \<rparr>"

definition tunnelEvent :: "RegistryEventType \<Rightarrow> Session \<Rightarrow> RegistryEvent" where
  "tunnelEvent ty sess = \<lparr> ev_Type = ty, ev_Tunnel = Some sess, ev_Lease = None, ev_Relay = None, ev_Health = None \<rparr>"

definition with_lease :: "Lease option \<Rightarrow> Session \<Rightarrow> Session" where
  "with_lease lease sess = (case lease of
     Some l \<Rightarrow> sess\<lparr>ss_OwnerRelayID := le_RelayID l, ss_LeaseID := le_LeaseID l\<rparr> | None \<Rightarrow> sess)"

text \<open>A session literal that names only its first fields.\<close>

definition session_literal :: "string \<Rightarrow> string \<Rightarrow> string \<Rightarrow> string \<Rightarrow> Session" where
  "session_literal tunnelID agentID localAddr publicAddr =
     \<lparr> ss_TunnelID = tunnelID, ss_AgentID = agentID, ss_OwnerRelayID = [], ss_LeaseID = [],
       ss_PublicAddr = publicAddr, ss_LocalAddr = localAddr, ss_RemoteAddr = [], ss_CreatedAt = zero_time,
       ss_LastHeartbeat = zero_time, ss_ResumeToken = [], ss_ResumeDeadline = None \<rparr>"

definition RegisterTunnel ::
  "time \<Rightarrow> time \<Rightarrow> time \<Rightarrow> RegisterTunnelRequest \<Rightarrow> Server \<Rightarrow> (string \<times> string) result \<times> Server" where
  "RegisterTunnel now now1 now2 req s =
     (let sess = session_literal (rq_TunnelId req) (rq_AgentId req) (rq_LocalAddr req) (rq_PublicAddr req) in
      case CurrentLease (rq_TunnelId req) now (sv_coord s) of (lease, coord) \<Rightarrow>
      case mem_Register now1 now2 (with_lease lease sess) (sv_store s) of (r, sess, store) \<Rightarrow>
        if is_ok r
        then (Ok (rq_TunnelId req, rq_PublicAddr req),
              \<lparr> sv_store = store, sv_coord = Publish (tunnelEvent RegistryEventTunnelUpserted sess) coord \<rparr>)
        else (Err (StatusErr GAlreadyExists ''tunnel already registered''), \<lparr> sv_store = store, sv_coord = coord \<rparr>))"

definition DeregisterTunnel :: "string \<Rightarrow> Server \<Rightarrow> unit result \<times> Server" where
  "DeregisterTunnel tunnelID s =
     (case mem_Deregister tunnelID (sv_store s) of (r, store) \<Rightarrow>
        if is_ok r
        then (Ok (), \<lparr> sv_store = store, sv_coord =
               Publish (tunnelEvent RegistryEventTunnelDeleted (session_literal tunnelID [] [] [])) (sv_coord s) \<rparr>)
        else (Err (StatusErr GNotFound ''tunnel not found''), s\<lparr>sv_store := store\<rparr>))"

definition GetTunnel :: "time \<Rightarrow> string \<Rightarrow> Server \<Rightarrow> GetTunnelResponse result \<times> Server" where
  "GetTunnel now tunnelID s = (case mem_Get tunnelID (sv_store s) of
     Ok sess \<Rightarrow>
       (case CurrentLease (ss_TunnelID sess) now (sv_coord s) of (lease, coord) \<Rightarrow>
          (Ok (sessionToProto (with_lease lease sess)),
           \<lparr> sv_store = mupd tunnelID (with_lease lease) (sv_store s), sv_coord = coord \<rparr>))
   | _ \<Rightarrow> (Err (StatusErr GNotFound ''tunnel not found''), s))"

text \<open>The loop of \<^verbatim>\<open>ListTunnels\<close> over the listed sessions.\<close>

fun list_range :: "time \<Rightarrow> Session list \<Rightarrow> GetTunnelResponse list \<Rightarrow> Server \<Rightarrow> GetTunnelResponse list \<times> Server" where
  "list_range now [] tunnels s = (tunnels, s)"
| "list_range now (sess # rest) tunnels s =
     (case CurrentLease (ss_TunnelID sess) now (sv_coord s) of (lease, coord) \<Rightarrow>
        list_range now rest (tunnels @ [sessionToProto (with_lease lease sess)])
          \<lparr> sv_store = mupd (ss_TunnelID sess) (with_lease lease) (sv_store s), sv_coord = coord \<rparr>)"

definition ListTunnels :: "time \<Rightarrow> Server \<Rightarrow> GetTunnelResponse list \<times> Server" where
  "ListTunnels now s = list_range now (mem_List (sv_store s)) [] s"

definition Server_Heartbeat :: "time \<Rightarrow> string \<Rightarrow> Server \<Rightarrow> bool \<times> Server" where
  "Server_Heartbeat now tunnelID s = (case mem_Heartbeat now tunnelID (sv_store s) of
     (r, store) \<Rightarrow> (is_ok r, s\<lparr>sv_store := store\<rparr>))"

definition on_coord :: "(MemCoordinator \<Rightarrow> 'a \<times> MemCoordinator) \<Rightarrow> Server \<Rightarrow> 'a \<times> Server" where
  "on_coord f s = (case f (sv_coord s) of (r, coord) \<Rightarrow> (r, s\<lparr>sv_coord := coord\<rparr>))"

definition Server_AcquireLease ::
  "string \<Rightarrow> time \<Rightarrow> string \<Rightarrow> string \<Rightarrow> int \<Rightarrow> Server \<Rightarrow> LeaseInfo result \<times> Server" where
  "Server_AcquireLease newID now tunnelID relayID ttlSeconds s =
     (case on_coord (AcquireLease newID now
        \<lparr> lr_TunnelID = tunnelID, lr_RelayID = relayID, lr_TTL = ttlFromSeconds ttlSeconds \<rparr>) s of
      (r, s) \<Rightarrow> (rbind r (\<lambda>lease. Ok (leaseToProto lease)), s))"

definition Server_RenewLease :: "time \<Rightarrow> string \<Rightarrow> int \<Rightarrow> Server \<Rightarrow> LeaseInfo result \<times> Server" where
  "Server_RenewLease now leaseID ttlSeconds s =
     (case on_coord (RenewLease leaseID (ttlFromSeconds ttlSeconds) now) s of
      (r, s) \<Rightarrow> (rbind r (\<lambda>lease. Ok (leaseToProto lease)), s))"

definition Server_ReleaseLease :: "string \<Rightarrow> Server \<Rightarrow> unit result \<times> Server" where
  "Server_ReleaseLease leaseID s =
     (case on_coord (ReleaseLease leaseID) s of (r, s) \<Rightarrow> (rbind r (\<lambda>_. Ok ()), s))"

definition Server_ReportRelayHealth ::
  "time \<Rightarrow> time \<Rightarrow> string \<Rightarrow> string \<Rightarrow> pbRelayHealth option \<Rightarrow> Server \<Rightarrow> unit result \<times> Server" where
  "Server_ReportRelayHealth now now1 relayID advertiseAddr health s =
     (if relayID = [] then (Err (StatusErr GInvalidArgument ''relay_id is required''), s)
      else case health of
        None \<Rightarrow> (Err (StatusErr GInvalidArgument ''health is required''), s)
      | Some h \<Rightarrow>
          (case on_coord (ReportRelayHealth relayID advertiseAddr (Server_relayHealthFromProto now h) now1) s of
           (r, s) \<Rightarrow> (rbind r (\<lambda>_. Ok ()), s)))"

subsection \<open>Streams\<close>

record 'm sstream =
  st_sent :: "'m list"
  st_room :: "nat option"

definition Send :: "'m \<Rightarrow> 'm sstream \<Rightarrow> unit result \<times> 'm sstream" where
  "Send msg st = (case st_room st of
     Some 0 \<Rightarrow> (Err (StatusErr GUnavailable ''stream closed''), st)
   | Some (Suc n) \<Rightarrow> (Ok (), \<lparr> st_sent = st_sent st @ [msg], st_room = Some n \<rparr>)
   | None \<Rightarrow> (Ok (), st\<lparr>st_sent := st_sent st @ [msg]\<rparr>))"

text \<open>A loop that sends what \<open>f\<close> makes of each element and stops at the first failed send.\<close>

fun send_each :: "('e \<Rightarrow> 'm option) \<Rightarrow> 'e list \<Rightarrow> 'm sstream \<Rightarrow> unit result \<times> 'm sstream" where
  "send_each f [] st = (Ok (), st)"
| "send_each f (e # es) st = (case f e of
     None \<Rightarrow> send_each f es st
   | Some msg \<Rightarrow> (case Send msg st of (r, st) \<Rightarrow> if is_ok r then send_each f es st else (r, st)))"

text \<open>The session loop of \<^verbatim>\<open>sendSnapshot\<close>.\<close>

fun snapshot_sessions ::
  "time \<Rightarrow> string \<Rightarrow> string \<Rightarrow> Session list \<Rightarrow> WatchResponse sstream \<Rightarrow> Server \<Rightarrow> unit result \<times> WatchResponse sstream \<times> Server"
where
  "snapshot_sessions now tunnelFilter relayFilter [] st s = (Ok (), st, s)"
| "snapshot_sessions now tunnelFilter relayFilter (sess # rest) st s =
     (if tunnelFilter \<noteq> [] \<and> ss_TunnelID sess \<noteq> tunnelFilter then snapshot_sessions now tunnelFilter relayFilter rest st s
      else case CurrentLease (ss_TunnelID sess) now (sv_coord s) of (lease, coord) \<Rightarrow>
        let s = \<lparr> sv_store = mupd (ss_TunnelID sess) (with_lease lease) (sv_store s), sv_coord = coord \<rparr>;
            sess = with_lease lease sess
        in if relayFilter \<noteq> [] \<and> ss_OwnerRelayID sess \<noteq> relayFilter
           then snapshot_sessions now tunnelFilter relayFilter rest st s
           else case Send ((watchResponse WATCH_EVENT_TYPE_TUNNEL_UPSERTED)\<lparr>wr_Tunnel := Some (sessionToProto sess)\<rparr>) st of
             (r, st) \<Rightarrow> if is_ok r then snapshot_sessions now tunnelFilter relayFilter rest st s else (r, st, s))"

definition sendSnapshot ::
  "time \<Rightarrow> string \<Rightarrow> string \<Rightarrow> WatchResponse sstream \<Rightarrow> Server \<Rightarrow> unit result \<times> WatchResponse sstream \<times> Server" where
  "sendSnapshot now tunnelFilter relayFilter st s =
     (case snapshot_sessions now tunnelFilter relayFilter (mem_List (sv_store s)) st s of (r, st, s) \<Rightarrow>
        if is_ok r
        then (case send_each domainEventToProto (Snapshot tunnelFilter relayFilter now (sv_coord s)) st of
                (r, st) \<Rightarrow> (r, st, s))
        else (r, st, s))"

text \<open>\<^verbatim>\<open>Watch\<close>: first the subscription and the snapshot, then the loop over the events that reach the channel. The
  channel's number identifies the subscription.\<close>

definition watch_open ::
  "time \<Rightarrow> WatchOptions \<Rightarrow> WatchResponse sstream \<Rightarrow> Server \<Rightarrow> unit result \<times> int \<times> WatchResponse sstream \<times> Server" where
  "watch_open now req st s =
     (case on_coord Subscribe s of (sub, s) \<Rightarrow>
        if wo_IncludeExisting req
        then (case sendSnapshot now (wo_TunnelID req) (wo_RelayID req) st s of (r, st, s) \<Rightarrow> (r, sub, st, s))
        else (Ok (), sub, st, s))"

definition watch_event :: "WatchOptions \<Rightarrow> RegistryEvent \<Rightarrow> WatchResponse option" where
  "watch_event req event =
     (if matchesDomainEvent event (wo_TunnelID req) (wo_RelayID req) then domainEventToProto event else None)"

definition watch_loop ::
  "WatchOptions \<Rightarrow> int \<Rightarrow> WatchResponse sstream \<Rightarrow> Server \<Rightarrow> unit result \<times> WatchResponse sstream \<times> Server" where
  "watch_loop req sub st s = (case map_of (mc_eventSubs (sv_coord s)) sub of
     None \<Rightarrow> (Ok (), st, s)
   | Some ch \<Rightarrow> (case send_each (watch_event req) ch st of (r, st) \<Rightarrow>
       (r, st, s\<lparr>sv_coord := (sv_coord s)\<lparr>mc_eventSubs := mupd sub (\<lambda>_. []) (mc_eventSubs (sv_coord s))\<rparr>\<rparr>)))"

definition SubscribeRelayHealth_open ::
  "string \<Rightarrow> bool \<Rightarrow> (string \<times> pbRelayHealth) sstream \<Rightarrow> Server \<Rightarrow>
     unit result \<times> int \<times> (string \<times> pbRelayHealth) sstream \<times> Server" where
  "SubscribeRelayHealth_open relayID includeCurrent st s =
     (case SubscribeHealth relayID (sv_coord s) of (sub, current, coord) \<Rightarrow>
        let s = s\<lparr>sv_coord := coord\<rparr> in
        case current of
          Some h \<Rightarrow> if includeCurrent
            then (case Send (relayID, Server_relayHealthToProto h) st of (r, st) \<Rightarrow> (r, sub, st, s))
            else (Ok (), sub, st, s)
        | None \<Rightarrow> (Ok (), sub, st, s))"

definition SubscribeRelayHealth_loop ::
  "string \<Rightarrow> int \<Rightarrow> (string \<times> pbRelayHealth) sstream \<Rightarrow> Server \<Rightarrow> unit result \<times> (string \<times> pbRelayHealth) sstream \<times> Server" where
  "SubscribeRelayHealth_loop relayID sub st s = (case map_of (mc_healthSubs (sv_coord s)) sub of
     None \<Rightarrow> (Ok (), st, s)
   | Some hs \<Rightarrow> (case send_each (\<lambda>h. Some (relayID, Server_relayHealthToProto h)) (hs_ch hs) st of (r, st) \<Rightarrow>
       (r, st, s\<lparr>sv_coord := (sv_coord s)\<lparr>mc_healthSubs := mupd sub (hs_ch_update (\<lambda>_. [])) (mc_healthSubs (sv_coord s))\<rparr>\<rparr>)))"

text \<open>One tick of \<^verbatim>\<open>cleanupLoop\<close>, and the loop over the ticks until the server stops.\<close>

definition cleanup_tick :: "duration \<Rightarrow> time \<times> time \<Rightarrow> Server \<Rightarrow> Server" where
  "cleanup_tick ttl t s = (case ReleaseExpiredLeases (fst t) (sv_coord s) of (released, coord) \<Rightarrow>
     case mem_CleanupExpired ttl (snd t) (sv_store s) of (expired, store) \<Rightarrow>
       \<lparr> sv_store = store, sv_coord = coord \<rparr>)"

definition cleanupLoop :: "duration \<Rightarrow> (time \<times> time) list \<Rightarrow> Server \<Rightarrow> Server" where
  "cleanupLoop ttl ticks s = fold (cleanup_tick ttl) ticks s"

subsection \<open>The client\<close>

definition sessionFromProto :: "GetTunnelResponse \<Rightarrow> Session" where
  "sessionFromProto resp =
     \<lparr> ss_TunnelID = gt_TunnelId resp, ss_AgentID = gt_AgentId resp, ss_OwnerRelayID = gt_OwnerRelayId resp,
       ss_LeaseID = gt_LeaseId resp, ss_PublicAddr = gt_PublicAddr resp, ss_LocalAddr = gt_LocalAddr resp,
       ss_RemoteAddr = [], ss_CreatedAt = time_Unix (gt_CreatedAt resp),
       ss_LastHeartbeat = time_Unix (gt_LastHeartbeat resp), ss_ResumeToken = [], ss_ResumeDeadline = None \<rparr>"

definition leaseFromProto :: "LeaseInfo \<Rightarrow> Lease" where
  "leaseFromProto lease =
     \<lparr> le_LeaseID = li_LeaseId lease, le_TunnelID = li_TunnelId lease, le_RelayID = li_RelayId lease,
       le_ExpiresAt = time_Unix (li_ExpiresAtUnix lease), le_Version = li_Version lease \<rparr>"

definition relayInfoFromProto :: "pbRelayInfo \<Rightarrow> RelayInfo" where
  "relayInfoFromProto relay =
     \<lparr> ri_RelayID = pr_RelayId relay, ri_AdvertiseAddr = pr_AdvertiseAddr relay, ri_State = pr_State relay,
       ri_ActiveTunnels = pr_ActiveTunnels relay, ri_ActiveStreams = pr_ActiveStreams relay,
       ri_LastSeen = time_Unix (pr_LastSeenUnix relay), ri_Region = [] \<rparr>"

definition relayHealthToProto :: "RelayHealth \<Rightarrow> pbRelayHealth" where
  "relayHealthToProto health =
     \<lparr> ph_RttMillis = rh_RTTMillis health, ph_HeartbeatLatencyMillis = rh_HeartbeatLatencyMillis health,
       ph_ActiveTunnels = rh_ActiveTunnels health, ph_ActiveStreams = rh_ActiveStreams health,
       ph_BytesPerSecond = rh_BytesPerSecond health, ph_PacketLossPct = rh_PacketLossPct health,
       ph_CpuUtilizationPct = rh_CPUUtilizationPct health,
       ph_MemoryUtilizationPct = rh_MemoryUtilizationPct health, ph_RecordedAtUnix = Unix (rh_RecordedAt health) \<rparr>"

definition relayHealthFromProto :: "pbRelayHealth \<Rightarrow> RelayHealth" where
  "relayHealthFromProto health =
     \<lparr> rh_AdvertiseAddr = [], rh_RTTMillis = ph_RttMillis health,
       rh_HeartbeatLatencyMillis = ph_HeartbeatLatencyMillis health,
       rh_ActiveTunnels = ph_ActiveTunnels health, rh_ActiveStreams = ph_ActiveStreams health,
       rh_BytesPerSecond = ph_BytesPerSecond health, rh_PacketLossPct = ph_PacketLossPct health,
       rh_CPUUtilizationPct = ph_CpuUtilizationPct health,
       rh_MemoryUtilizationPct = ph_MemoryUtilizationPct health,
       rh_RecordedAt = time_Unix (ph_RecordedAtUnix health), rh_Region = [] \<rparr>"

fun registryEventTypeFromProto :: "WatchEventType \<Rightarrow> RegistryEventType" where
  "registryEventTypeFromProto WATCH_EVENT_TYPE_TUNNEL_UPSERTED = RegistryEventTunnelUpserted"
| "registryEventTypeFromProto WATCH_EVENT_TYPE_TUNNEL_DELETED = RegistryEventTunnelDeleted"
| "registryEventTypeFromProto WATCH_EVENT_TYPE_LEASE_ACQUIRED = RegistryEventLeaseAcquired"
| "registryEventTypeFromProto WATCH_EVENT_TYPE_LEASE_RELEASED = RegistryEventLeaseReleased"
| "registryEventTypeFromProto WATCH_EVENT_TYPE_RELAY_UPSERTED = RegistryEventRelayUpserted"
| "registryEventTypeFromProto WATCH_EVENT_TYPE_RELAY_HEALTH_UPDATED = RegistryEventRelayHealthUpdated"
| "registryEventTypeFromProto WATCH_EVENT_TYPE_UNSPECIFIED = RegistryEventUnknown"

definition registryEventFromProto :: "WatchResponse \<Rightarrow> RegistryEvent" where
  "registryEventFromProto resp =
     \<lparr> ev_Type = registryEventTypeFromProto (wr_EventType resp),
       ev_Tunnel = map_option sessionFromProto (wr_Tunnel resp),
       ev_Lease = map_option leaseFromProto (wr_Lease resp),
       ev_Relay = map_option relayInfoFromProto (wr_Relay resp),
       ev_Health = map_option relayHealthFromProto (wr_Health resp) \<rparr>"

text \<open>The methods of the client on a connection that works: the request goes to the server's handler and
  the reply is converted.\<close>

definition client_RegisterTunnel ::
  "time \<Rightarrow> time \<Rightarrow> time \<Rightarrow> string \<Rightarrow> string \<Rightarrow> string \<Rightarrow> string \<Rightarrow> Server \<Rightarrow> unit result \<times> Server" where
  "client_RegisterTunnel now now1 now2 tunnelID agentID publicAddr localAddr s =
     (case RegisterTunnel now now1 now2
        \<lparr> rq_TunnelId = tunnelID, rq_AgentId = agentID, rq_LocalAddr = localAddr, rq_PublicAddr = publicAddr \<rparr> s of
      (Ok _, s) \<Rightarrow> (Ok (), s)
    | (Err e, s) \<Rightarrow> (Err (WrapErr ''failed to register tunnel'' e), s)
    | (Panic, s) \<Rightarrow> (Panic, s))"

definition client_DeregisterTunnel :: "string \<Rightarrow> Server \<Rightarrow> unit result \<times> Server" where
  "client_DeregisterTunnel tunnelID s = DeregisterTunnel tunnelID s"

definition client_Heartbeat :: "time \<Rightarrow> string \<Rightarrow> Server \<Rightarrow> bool result \<times> Server" where
  "client_Heartbeat now tunnelID s = (case Server_Heartbeat now tunnelID s of (alive, s) \<Rightarrow> (Ok alive, s))"

definition client_Watch :: "WatchResponse sstream \<Rightarrow> RegistryEvent list" where
  "client_Watch st = map registryEventFromProto (st_sent st)"

definition client_AcquireLease :: "string \<Rightarrow> time \<Rightarrow> LeaseRequest \<Rightarrow> Server \<Rightarrow> Lease result \<times> Server" where
  "client_AcquireLease newID now req s =
     (case Server_AcquireLease newID now (lr_TunnelID req) (lr_RelayID req) (go_div (lr_TTL req) 1000000000) s of
      (r, s) \<Rightarrow> (rbind r (\<lambda>l. Ok (leaseFromProto l)), s))"

definition client_RenewLease :: "string \<Rightarrow> duration \<Rightarrow> time \<Rightarrow> Server \<Rightarrow> Lease result \<times> Server" where
  "client_RenewLease leaseID ttl now s =
     (case Server_RenewLease now leaseID (go_div ttl 1000000000) s of (r, s) \<Rightarrow> (rbind r (\<lambda>l. Ok (leaseFromProto l)), s))"

definition client_ReleaseLease :: "string \<Rightarrow> Server \<Rightarrow> unit result \<times> Server" where
  "client_ReleaseLease leaseID s = Server_ReleaseLease leaseID s"

definition client_ReportRelayHealth :: "time \<Rightarrow> time \<Rightarrow> string \<Rightarrow> RelayHealth \<Rightarrow> Server \<Rightarrow> unit result \<times> Server" where
  "client_ReportRelayHealth now now1 relayID health s =
     Server_ReportRelayHealth now now1 relayID (rh_AdvertiseAddr health) (Some (relayHealthToProto health)) s"

definition client_SubscribeRelayHealth :: "(string \<times> pbRelayHealth) sstream \<Rightarrow> RelayHealth list" where
  "client_SubscribeRelayHealth st = map (\<lambda>resp. relayHealthFromProto (snd resp)) (st_sent st)"

subsection \<open>Interceptors\<close>

text \<open>The incoming context of a unary call: the request metadata, if any, and the address of the peer, if known.
  A handler and the interceptors around it act on the limiter and the state of the service.\<close>

record grpc_ctx =
  gc_metadata :: "(string, string list) gomap option"
  gc_peer :: "string option"

type_synonym ('s, 'r) handler = "'s \<Rightarrow> 'r result \<times> 's"

definition GetRequestMetadata :: "string \<Rightarrow> (string, string list) gomap" where
  "GetRequestMetadata token = [(''authorization'', [''Bearer '' @ token])]"

definition AuthInterceptor :: "string \<Rightarrow> grpc_ctx \<Rightarrow> ('s, 'r) handler \<Rightarrow> ('s, 'r) handler" where
  "AuthInterceptor token ctx handler s =
     (if token = [] then handler s
      else case gc_metadata ctx of
        None \<Rightarrow> (Err (StatusErr GUnauthenticated ''missing metadata''), s)
      | Some md \<Rightarrow>
          let authTokens = (case map_of md ''authorization'' of Some ts \<Rightarrow> ts | None \<Rightarrow> []) in
          if authTokens = [] \<or> hd authTokens \<noteq> ''Bearer '' @ token
          then (Err (StatusErr GUnauthenticated ''invalid auth token''), s)
          else handler s)"

definition RateLimitInterceptor ::
  "'l \<Rightarrow> (time \<Rightarrow> 'l \<Rightarrow> bool \<times> 'l) \<Rightarrow> time \<Rightarrow> grpc_ctx \<Rightarrow> ('s, 'r) handler \<Rightarrow> ('l IPRateLimiter \<times> 's, 'r) handler" where
  "RateLimitInterceptor fresh allow now ctx handler ls =
     (let pass = (\<lambda>l. case handler (snd ls) of (r, s) \<Rightarrow> (r, l, s)) in
      case gc_peer ctx of
        None \<Rightarrow> pass (fst ls)
      | Some addr \<Rightarrow> (case Limiter_Allow fresh allow now addr (fst ls) of (ok, l) \<Rightarrow>
          if \<not> ok then (Err (StatusErr GResourceExhausted ''rate limit exceeded''), l, snd ls) else pass l))"

text \<open>The chain of \<^verbatim>\<open>NewGRPCServer\<close>: logging, then the rate limit when it is configured, then the token check when a
  token is configured.\<close>

definition unary_chain ::
  "'l \<Rightarrow> (time \<Rightarrow> 'l \<Rightarrow> bool \<times> 'l) \<Rightarrow> string \<Rightarrow> int \<Rightarrow> time \<Rightarrow> grpc_ctx \<Rightarrow> ('s, 'r) handler \<Rightarrow> ('l IPRateLimiter \<times> 's, 'r) handler" where
  "unary_chain fresh allow authToken rateLimitRPM now ctx handler =
     (let inner = (if authToken \<noteq> [] then AuthInterceptor authToken ctx handler else handler) in
      if rateLimitRPM > 0 then RateLimitInterceptor fresh allow now ctx inner
      else (\<lambda>ls. case inner (snd ls) of (r, s) \<Rightarrow> (r, fst ls, s)))"

subsection \<open>Invariant of the server\<close>

definition reg_inv :: "Server \<Rightarrow> bool" where
  "reg_inv s \<longleftrightarrow> repo_inv (sv_store s) \<and> lease_inv (sv_coord s)"

lemma with_lease_simps [simp]:
  "ss_TunnelID (with_lease l x) = ss_TunnelID x" "ss_AgentID (with_lease l x) = ss_AgentID x"
  "ss_LocalAddr (with_lease l x) = ss_LocalAddr x" "ss_PublicAddr (with_lease l x) = ss_PublicAddr x"
  "with_lease None x = x"
  by (simp_all add: with_lease_def split: option.split)

lemma repo_inv_with_lease: "repo_inv r \<Longrightarrow> repo_inv (mupd t (with_lease l) r)"
  by (auto simp: repo_inv_def split: if_splits)

lemma CurrentLease_spec:
  assumes "lease_inv m" and "CurrentLease t now m = (l, m')"
  shows "l = holder m now t" and "lease_inv m'"
    and "stored_lease m' = (if l = None then (stored_lease m)(t := None) else stored_lease m)"
  using currentLeaseLocked_spec [OF assms(1)] assms(2) by (simp_all add: CurrentLease_def)

lemma lease_inv_Publish [simp]: "lease_inv (Publish e m) = lease_inv m"
  by (rule lease_tables_cong) simp_all

lemma stored_lease_Publish [simp]: "stored_lease (Publish e m) = stored_lease m"
  by (rule lease_tables_cong) simp_all

lemma RegisterTunnel_inv: "reg_inv s \<Longrightarrow> reg_inv (snd (RegisterTunnel now n1 n2 req s))"
  using CurrentLease_spec(2) [of "sv_coord s"] repo_inv_Register [of "sv_store s"]
  by (auto simp: RegisterTunnel_def reg_inv_def Let_def split: prod.split) (metis snd_conv)+

lemma DeregisterTunnel_inv: "reg_inv s \<Longrightarrow> reg_inv (snd (DeregisterTunnel t s))"
  using repo_inv_Deregister [of "sv_store s" t]
  by (auto simp: DeregisterTunnel_def reg_inv_def split: prod.split)

lemma GetTunnel_inv: "reg_inv s \<Longrightarrow> reg_inv (snd (GetTunnel now t s))"
  using CurrentLease_spec(2) [of "sv_coord s"]
  by (auto simp: GetTunnel_def reg_inv_def repo_inv_with_lease split: prod.split result.split)

lemma list_range_inv: "reg_inv s \<Longrightarrow> reg_inv (snd (list_range now xs acc s))"
proof (induction xs arbitrary: acc s)
  case (Cons x xs)
  then show ?case
    using CurrentLease_spec(2) [of "sv_coord s" "ss_TunnelID x" now]
    by (cases "CurrentLease (ss_TunnelID x) now (sv_coord s)") (auto simp: reg_inv_def repo_inv_with_lease intro!: Cons.IH)
qed simp

lemma Heartbeat_inv: "reg_inv s \<Longrightarrow> reg_inv (snd (Server_Heartbeat now t s))"
  using repo_inv_Heartbeat [of "sv_store s" now t]
  by (auto simp: Server_Heartbeat_def reg_inv_def split: prod.split)

lemma on_coord_inv: "reg_inv s \<Longrightarrow> lease_inv (snd (f (sv_coord s))) \<Longrightarrow> reg_inv (snd (on_coord f s))"
  by (auto simp: on_coord_def reg_inv_def split: prod.split)

lemma snapshot_sessions_inv: "reg_inv s \<Longrightarrow> reg_inv (snd (snd (snapshot_sessions now tf rf xs st s)))"
proof (induction xs arbitrary: st s)
  case (Cons x xs)
  obtain l m where c: "CurrentLease (ss_TunnelID x) now (sv_coord s) = (l, m)"
    by (cases "CurrentLease (ss_TunnelID x) now (sv_coord s)")
  have i: "reg_inv \<lparr> sv_store = mupd (ss_TunnelID x) (with_lease l) (sv_store s), sv_coord = m \<rparr>"
    using CurrentLease_spec(2) [OF _ c] Cons.prems by (simp add: reg_inv_def repo_inv_with_lease)
  from i Cons.IH [OF i] Cons.IH [OF Cons.prems] show ?case
    by (auto simp: Let_def c split: prod.split)
qed simp

lemma sendSnapshot_inv: "reg_inv s \<Longrightarrow> reg_inv (snd (snd (sendSnapshot now tf rf st s)))"
  using snapshot_sessions_inv [of s now tf rf "mem_List (sv_store s)" st]
  by (auto simp: sendSnapshot_def split: prod.split)

lemma lease_inv_subs [simp]: "lease_inv (m\<lparr>mc_eventSubs := x\<rparr>) = lease_inv m" "lease_inv (m\<lparr>mc_healthSubs := y\<rparr>) = lease_inv m"
  by (rule lease_tables_cong; simp)+

lemma watch_open_inv: "reg_inv s \<Longrightarrow> reg_inv (snd (snd (snd (watch_open now req st s))))"
proof -
  assume "reg_inv s"
  then have "reg_inv (snd (on_coord Subscribe s))"
    by (intro on_coord_inv) (simp_all add: reg_inv_def lease_tables_cong [OF other_frame(1,2)])
  then show ?thesis
    using sendSnapshot_inv by (auto simp: watch_open_def split: prod.split) (metis snd_conv)
qed

lemma watch_loop_inv: "reg_inv s \<Longrightarrow> reg_inv (snd (snd (watch_loop req sub st s)))"
  by (auto simp: watch_loop_def reg_inv_def split: prod.split option.split)

lemma repo_inv_CleanupExpired: "repo_inv r \<Longrightarrow> repo_inv (snd (mem_CleanupExpired ttl now r))"
  by (auto simp: repo_inv_def mem_CleanupExpired_eq split: option.splits if_splits)

lemma cleanup_tick_inv: "reg_inv s \<Longrightarrow> reg_inv (cleanup_tick ttl t s)"
  using ReleaseExpiredLeases_spec [of "sv_coord s" "fst t"] repo_inv_CleanupExpired [of "sv_store s" ttl "snd t"]
  by (auto simp: cleanup_tick_def reg_inv_def split: prod.split)

text \<open>Everything that happens at a registry server: calls of its handlers in any order and at any time, ticks of
  the cleanup loop, and the delivery of events the coordinator publishes in the background. A new
  lease gets an identifier that is not in use.\<close>

inductive reg_step :: "Server \<Rightarrow> Server \<Rightarrow> bool" where
  step_Register: "reg_step s (snd (RegisterTunnel now now1 now2 req s))"
| step_Deregister: "reg_step s (snd (DeregisterTunnel t s))"
| step_Get: "reg_step s (snd (GetTunnel now t s))"
| step_List: "reg_step s (snd (ListTunnels now s))"
| step_Heartbeat: "reg_step s (snd (Server_Heartbeat now t s))"
| step_Watch_open: "reg_step s (snd (snd (snd (watch_open now req st s))))"
| step_Watch_loop: "reg_step s (snd (snd (watch_loop req sub st s)))"
| step_Acquire: "i \<noteq> [] \<Longrightarrow> map_of (mc_leasesByID (sv_coord s)) i = None \<Longrightarrow>
    reg_step s (snd (Server_AcquireLease i now t r ttl s))"
| step_Renew: "reg_step s (snd (Server_RenewLease now l ttl s))"
| step_Release: "reg_step s (snd (Server_ReleaseLease l s))"
| step_Report: "reg_step s (snd (Server_ReportRelayHealth now now1 r a h s))"
| step_Health_open: "reg_step s (snd (snd (snd (SubscribeRelayHealth_open r current hst s))))"
| step_Health_loop: "reg_step s (snd (snd (SubscribeRelayHealth_loop r sub hst s)))"
| step_Cleanup: "reg_step s (cleanup_tick ttl ticks s)"
| step_deliver: "reg_step s (s\<lparr>sv_coord := deliver i (sv_coord s)\<rparr>)"
| step_Unsubscribe: "reg_step s (s\<lparr>sv_coord := Unsubscribe sub (sv_coord s)\<rparr>)"

lemma coord_op_inv:
  assumes "reg_inv s" and "op_fresh op (sv_coord s)" and "snd (f (sv_coord s)) = exec_op now op (sv_coord s)"
  shows "reg_inv (snd (on_coord f s))"
  using assms exec_op_inv by (intro on_coord_inv) (auto simp: reg_inv_def)

lemma reg_step_inv:
  assumes "reg_step s s'" and "reg_inv s"
  shows "reg_inv s'"
  using assms(1)
proof cases
  case (step_Acquire i now t r ttl)
  let ?req = "\<lparr> lr_TunnelID = t, lr_RelayID = r, lr_TTL = ttlFromSeconds ttl \<rparr>"
  have "reg_inv (snd (on_coord (AcquireLease i now ?req) s))"
    using coord_op_inv [OF assms(2), of "OpAcquire i ?req" "AcquireLease i now ?req" now] step_Acquire by simp
  with step_Acquire(1) show ?thesis by (simp add: Server_AcquireLease_def split: prod.split_asm prod.split)
next
  case (step_Renew now l ttl)
  have "reg_inv (snd (on_coord (RenewLease l (ttlFromSeconds ttl) now) s))"
    using coord_op_inv [OF assms(2), of "OpRenew l (ttlFromSeconds ttl)" "RenewLease l (ttlFromSeconds ttl) now" now] by simp
  with step_Renew show ?thesis by (simp add: Server_RenewLease_def split: prod.split_asm prod.split)
next
  case (step_Release l)
  have "reg_inv (snd (on_coord (ReleaseLease l) s))"
    using coord_op_inv [OF assms(2), of "OpRelease l" "ReleaseLease l" 0] by simp
  with step_Release show ?thesis by (simp add: Server_ReleaseLease_def split: prod.split_asm prod.split)
next
  case (step_Report now now1 r a h)
  have "reg_inv (snd (on_coord (ReportRelayHealth r a k now1) s))" for k
    using coord_op_inv [OF assms(2), of "OpReport r a k" "ReportRelayHealth r a k now1" now1] by simp
  with step_Report assms(2) show ?thesis
    by (auto simp: Server_ReportRelayHealth_def split: prod.split option.split) (metis snd_conv)
next
  case (step_Health_open r current hst)
  with assms(2) show ?thesis
    by (auto simp: SubscribeRelayHealth_open_def SubscribeHealth_def reg_inv_def Let_def lease_inv_def
        split: prod.split option.split)
next
  case (step_Health_loop r sub hst)
  with assms(2) show ?thesis
    by (auto simp: SubscribeRelayHealth_loop_def reg_inv_def split: prod.split option.split)
next
  case (step_deliver i)
  have "lease_inv (deliver i (sv_coord s)) = lease_inv (sv_coord s)"
    by (rule lease_tables_cong) simp_all
  with step_deliver assms(2) show ?thesis by (simp add: reg_inv_def)
next
  case (step_Unsubscribe sub)
  with assms(2) show ?thesis by (simp add: reg_inv_def Unsubscribe_def)
qed (use assms(2) in \<open>simp_all add: RegisterTunnel_inv DeregisterTunnel_inv GetTunnel_inv ListTunnels_def list_range_inv
      Heartbeat_inv watch_open_inv watch_loop_inv cleanup_tick_inv\<close>)

lemma reg_reachable_inv: "reach (\<lambda>s. s = NewServer) reg_step s \<Longrightarrow> reg_inv s"
  by (erule reach_invariant) (simp add: reg_inv_def NewServer_def repo_inv_Nil lease_inv_New, rule reg_step_inv)

subsection \<open>What survives the wire\<close>

text \<open>The view a client has of the registry's data: times in whole seconds, no remote address, no resume token, and
  neither the region of a relay nor the address and region in a health report.\<close>

definition whole_seconds :: "time \<Rightarrow> time" where
  "whole_seconds t = t - t mod 1000000000"

definition wire_session :: "Session \<Rightarrow> Session" where
  "wire_session x = x\<lparr>ss_RemoteAddr := [], ss_CreatedAt := whole_seconds (ss_CreatedAt x),
     ss_LastHeartbeat := whole_seconds (ss_LastHeartbeat x), ss_ResumeToken := [], ss_ResumeDeadline := None\<rparr>"

definition wire_lease :: "Lease \<Rightarrow> Lease" where
  "wire_lease l = l\<lparr>le_ExpiresAt := whole_seconds (le_ExpiresAt l)\<rparr>"

definition wire_relay :: "RelayInfo \<Rightarrow> RelayInfo" where
  "wire_relay r = r\<lparr>ri_LastSeen := whole_seconds (ri_LastSeen r), ri_Region := []\<rparr>"

definition wire_health :: "RelayHealth \<Rightarrow> RelayHealth" where
  "wire_health h = h\<lparr>rh_AdvertiseAddr := [], rh_RecordedAt := whole_seconds (rh_RecordedAt h), rh_Region := []\<rparr>"

text \<open>An event keeps its type and the parts that belong to the type; a deletion keeps the tunnel's id only.\<close>

definition wire_event :: "RegistryEvent \<Rightarrow> RegistryEvent" where
  "wire_event e = (let ty = ev_Type e in
     \<lparr> ev_Type = ty,
       ev_Tunnel = (if ty = RegistryEventTunnelUpserted then map_option wire_session (ev_Tunnel e)
         else if ty = RegistryEventTunnelDeleted
         then Some ((session_literal (case ev_Tunnel e of Some t \<Rightarrow> ss_TunnelID t | None \<Rightarrow> []) [] [] [])
                 \<lparr>ss_CreatedAt := 0, ss_LastHeartbeat := 0\<rparr>)
         else None),
       ev_Lease = (if ty = RegistryEventLeaseAcquired \<or> ty = RegistryEventLeaseReleased then map_option wire_lease (ev_Lease e) else None),
       ev_Relay = (if ty = RegistryEventRelayUpserted \<or> ty = RegistryEventRelayHealthUpdated then map_option wire_relay (ev_Relay e) else None),
       ev_Health = (if ty = RegistryEventRelayHealthUpdated then map_option wire_health (ev_Health e) else None) \<rparr>)"

lemma time_Unix_Unix [simp]: "time_Unix (Unix t) = whole_seconds t"
  by (simp add: time_Unix_def Unix_def whole_seconds_def minus_mod_eq_div_mult)

lemma whole_seconds_bounds: "whole_seconds t \<le> t" "t < whole_seconds t + 1000000000"
  using pos_mod_bound [of 1000000000 t] by (simp_all add: whole_seconds_def)

lemma proto_roundtrips [simp]:
  "sessionFromProto (sessionToProto x) = wire_session x"
  "leaseFromProto (leaseToProto l) = wire_lease l"
  "relayInfoFromProto (relayToProto r) = wire_relay r"
  "relayHealthFromProto (Server_relayHealthToProto h) = wire_health h"
  "relayHealthFromProto (relayHealthToProto h) = wire_health h"
  by (simp_all add: sessionFromProto_def sessionToProto_def wire_session_def leaseFromProto_def leaseToProto_def wire_lease_def
      relayInfoFromProto_def relayToProto_def wire_relay_def relayHealthFromProto_def Server_relayHealthToProto_def
      relayHealthToProto_def wire_health_def)

lemma proto_roundtrips_comp [simp]:
  "sessionFromProto \<circ> sessionToProto = wire_session" "leaseFromProto \<circ> leaseToProto = wire_lease"
  "relayInfoFromProto \<circ> relayToProto = wire_relay" "relayHealthFromProto \<circ> Server_relayHealthToProto = wire_health"
  by (simp_all add: fun_eq_iff)

lemma event_over_the_wire:
  "map_option registryEventFromProto (domainEventToProto e) = (if ev_Type e = RegistryEventUnknown then None else Some (wire_event e))"
  by (cases "ev_Type e")
    (simp_all add: domainEventToProto_def registryEventFromProto_def watchResponse_def wire_event_def option.map_comp
      sessionFromProto_def session_literal_def time_Unix_def)

text \<open>A send loop on a stream that does not break sends everything, in order.\<close>

lemma send_each_open:
  "st_room st = None \<Longrightarrow> send_each f es st = (Ok (), st\<lparr>st_sent := st_sent st @ List.map_filter f es\<rparr>)"
  by (induction es arbitrary: st) (auto simp: Send_def map_filter_simps split: option.split)

lemma send_each_append_skip: "f e = None \<Longrightarrow> send_each f (es @ [e]) st = send_each f es st"
  by (induction es arbitrary: st) (auto split: option.split prod.split)

lemma Publish_channel:
  "map_of (mc_eventSubs (Publish e m)) sub = map_option (\<lambda>ch. if length ch < 64 then ch @ [e] else ch) (map_of (mc_eventSubs m) sub)"
proof -
  have "map_of (map (\<lambda>(i, ch). (i, g ch)) xs) sub = map_option g (map_of xs sub)" for g and xs :: "(int \<times> RegistryEvent list) list"
    by (induction xs) auto
  then show ?thesis by (simp add: Publish_def)
qed

lemma publish_all_channel:
  "map_of (mc_eventSubs m) sub = Some ch \<Longrightarrow> length ch + length es \<le> 64 \<Longrightarrow>
     map_of (mc_eventSubs (fold Publish es m)) sub = Some (ch @ es)"
  by (induction es arbitrary: m ch) (simp_all add: Publish_channel)

lemma wire_map_filter:
  "map registryEventFromProto (List.map_filter (watch_event req) es) =
     map wire_event (filter (\<lambda>e. matchesDomainEvent e (wo_TunnelID req) (wo_RelayID req) \<and> ev_Type e \<noteq> RegistryEventUnknown) es)"
proof (induction es)
  case (Cons e es)
  then show ?case
    using event_over_the_wire [of e] by (auto simp: map_filter_simps watch_event_def split: option.splits if_splits)
qed (simp add: map_filter_simps)

lemma sint_word64:
  assumes "- 9223372036854775808 \<le> k" and "k < 9223372036854775808"
  shows "sint (word_of_int k :: 64 word) = k"
  using assms by (simp add: sint_sbintrunc' signed_take_bit_int_eq_self)

lemma ttlFromSeconds_exact: "0 < n \<Longrightarrow> n \<le> 9223372036 \<Longrightarrow> ttlFromSeconds n = n * 1000000000"
  unfolding ttlFromSeconds_def by (subst sint_word64) simp_all

subsection \<open>Properties\<close>


definition request_example :: RegisterTunnelRequest where
  "request_example = \<lparr> rq_TunnelId = ''t-a'', rq_AgentId = ''a'', rq_LocalAddr = ''l'', rq_PublicAddr = ''p'' \<rparr>"

definition server_example :: Server where
  "server_example = snd (RegisterTunnel 1 1 1 request_example (snd (Server_AcquireLease ''l1'' 0 ''t-a'' ''r1'' 30 NewServer)))"

lemma server_example_reach: "reach (\<lambda>s. s = NewServer) reg_step server_example"
proof -
  have "reach (\<lambda>s. s = NewServer) reg_step NewServer"
    by (rule reach_init) simp
  then have "reach (\<lambda>s. s = NewServer) reg_step (snd (Server_AcquireLease ''l1'' 0 ''t-a'' ''r1'' 30 NewServer))"
    by (rule reach_step) (rule step_Acquire, simp_all add: NewServer_def NewMemCoordinator_def)
  then show ?thesis
    unfolding server_example_def by (rule reach_step) (rule step_Register)
qed

definition session_l1 :: Session where
  "session_l1 = (session_literal ''t-a'' ''a'' ''l'' ''p'')
     \<lparr>ss_OwnerRelayID := ''r1'', ss_LeaseID := ''l1'', ss_CreatedAt := 1, ss_LastHeartbeat := 1\<rparr>"

definition lease_l1 :: Lease where
  "lease_l1 = \<lparr> le_LeaseID = ''l1'', le_TunnelID = ''t-a'', le_RelayID = ''r1'', le_ExpiresAt = 30000000000, le_Version = 1 \<rparr>"

lemma server_example_eval:
  "sv_store server_example = [(''t-a'', session_l1)]"
  "mc_leasesByID (sv_coord server_example) = [(''l1'', lease_l1)]"
  "mc_leaseByTunnel (sv_coord server_example) = [(''t-a'', ''l1'')]"
  by (simp_all add: server_example_def NewServer_def NewMemCoordinator_def Server_AcquireLease_def on_coord_def
      AcquireLease_def currentLeaseLocked_def CurrentLease_def Let_def mput_def mdel_def RegisterTunnel_def request_example_def
      with_lease_def mem_Register_def stamp_session_def session_literal_def zero_time_def Publish_def go_Publish_def touch_relay_def
      session_l1_def lease_l1_def ttlFromSeconds_exact)




text \<open>A watcher that filters by relay never hears that a tunnel was deregistered: the event carries a session with
  only the tunnel id, whose owner is empty, so the relay filter drops it whatever relay owned the tunnel.\<close>

theorem relay_watch_misses_deregistration:
  assumes "wo_RelayID req \<noteq> []" and "DeregisterTunnel t s = (Ok (), s')"
  shows "fst (watch_loop req sub st s') = fst (watch_loop req sub st s) \<and>
    fst (snd (watch_loop req sub st s')) = fst (snd (watch_loop req sub st s))"
proof -
  let ?e = "tunnelEvent RegistryEventTunnelDeleted (session_literal t [] [] [])"
  have skip: "watch_event req ?e = None"
    using assms(1) by (simp add: watch_event_def matchesDomainEvent_def tunnelEvent_def session_literal_def)
  have "sv_coord s' = Publish ?e (sv_coord s)"
    using assms(2) by (auto simp: DeregisterTunnel_def split: prod.splits if_splits)
  then show ?thesis
    by (auto simp: watch_loop_def Publish_channel send_each_append_skip [of "watch_event req" ?e, OF skip]
        split: option.splits prod.splits)
qed

definition watched_example :: Server where
  "watched_example = \<lparr> sv_store = [(''t-a'', session_l1)], sv_coord = snd (Subscribe NewMemCoordinator) \<rparr>"

theorem relay_watch_misses_deregistration_witness:
  "fst (snd (watch_loop \<lparr> wo_TunnelID = [], wo_RelayID = ''r1'', wo_IncludeExisting = False \<rparr> 1 \<lparr> st_sent = [], st_room = None \<rparr>
     (snd (DeregisterTunnel ''t-a'' watched_example)))) = \<lparr> st_sent = [], st_room = None \<rparr>"
proof -
  have "fst (DeregisterTunnel ''t-a'' watched_example) = Ok ()"
    by (simp add: DeregisterTunnel_def mem_Deregister_def watched_example_def)
  then have "DeregisterTunnel ''t-a'' watched_example = (Ok (), snd (DeregisterTunnel ''t-a'' watched_example))"
    by (metis prod.collapse)
  from relay_watch_misses_deregistration [OF _ this, of "\<lparr> wo_TunnelID = [], wo_RelayID = ''r1'', wo_IncludeExisting = False \<rparr>"
      1 "\<lparr> st_sent = [], st_room = None \<rparr>"]
  show ?thesis
    by (simp add: watch_loop_def [of _ _ _ watched_example]) (simp add: watched_example_def Subscribe_def NewMemCoordinator_def mput_def)
qed

text \<open>A tunnel that was registered is returned by \<^verbatim>\<open>GetTunnel\<close> with its addresses and, while a relay holds its
  lease, with that relay and lease as the owner; registering the same tunnel again is refused with
  ALREADY_EXISTS and leaves the stored session as it was.\<close>

theorem RegisterTunnel_GetTunnel:
  assumes "reg_inv s" and "RegisterTunnel n0 n1 n2 req s = (Ok r, s1)"
    and "holder (sv_coord s1) now (rq_TunnelId req) = Some l"
  shows "\<exists>x s2 s3. GetTunnel now (rq_TunnelId req) s1 = (Ok x, s2) \<and>
    gt_TunnelId x = rq_TunnelId req \<and> gt_AgentId x = rq_AgentId req \<and> gt_LocalAddr x = rq_LocalAddr req \<and>
    gt_PublicAddr x = rq_PublicAddr req \<and> gt_OwnerRelayId x = le_RelayID l \<and> gt_LeaseId x = le_LeaseID l \<and>
    RegisterTunnel m0 m1 m2 req s1 = (Err (StatusErr GAlreadyExists ''tunnel already registered''), s3) \<and>
    sv_store s3 = sv_store s1"
proof -
  let ?t = "rq_TunnelId req"
  obtain l0 c0 where c0: "CurrentLease ?t n0 (sv_coord s) = (l0, c0)"
    by (cases "CurrentLease ?t n0 (sv_coord s)")
  let ?x = "stamp_session n1 n2 (with_lease l0 (session_literal ?t (rq_AgentId req) (rq_LocalAddr req) (rq_PublicAddr req)))"
  have st: "?t \<noteq> []" "map_of (sv_store s1) ?t = Some ?x"
    using assms(2) by (auto simp: RegisterTunnel_def c0 Let_def mem_Register_def session_literal_def with_lease_def
        stamp_session_def split: if_splits option.splits prod.splits)
  have fields: "ss_TunnelID ?x = ?t" "ss_AgentID ?x = rq_AgentId req" "ss_LocalAddr ?x = rq_LocalAddr req" "ss_PublicAddr ?x = rq_PublicAddr req"
    by (simp_all add: stamp_session_def Let_def session_literal_def with_lease_def split: option.split)
  obtain l1 c1 where c1: "CurrentLease ?t now (sv_coord s1) = (l1, c1)"
    by (cases "CurrentLease ?t now (sv_coord s1)")
  have "lease_inv (sv_coord s1)"
    using RegisterTunnel_inv [OF assms(1), of n0 n1 n2 req] assms(2) by (simp add: reg_inv_def)
  from CurrentLease_spec(1) [OF this c1] assms(3) have l1: "l1 = Some l" by simp
  have dup: "RegisterTunnel m0 m1 m2 req s1 = (Err (StatusErr GAlreadyExists ''tunnel already registered''),
      \<lparr> sv_store = sv_store s1, sv_coord = snd (CurrentLease ?t m0 (sv_coord s1)) \<rparr>)"
    using st by (auto simp: RegisterTunnel_def Let_def mem_Register_def session_literal_def split: prod.split)
  show ?thesis
    using st(2) fields dup by (simp add: GetTunnel_def mem_Get_def c1 l1 sessionToProto_def with_lease_def)
qed

theorem RegisterTunnel_GetTunnel_witness:
  "\<exists>x s2. GetTunnel 2 ''t-a'' server_example = (Ok x, s2) \<and> gt_OwnerRelayId x = ''r1''"
proof -
  let ?s = "snd (Server_AcquireLease ''l1'' 0 ''t-a'' ''r1'' 30 NewServer)"
  have inv: "reg_inv ?s"
    by (rule reg_step_inv [OF step_Acquire])
      (simp_all add: NewServer_def NewMemCoordinator_def reg_inv_def repo_inv_def lease_inv_def)
  have "fst (RegisterTunnel 1 1 1 request_example ?s) = Ok (''t-a'', ''p'')"
    by (simp add: NewServer_def NewMemCoordinator_def Server_AcquireLease_def on_coord_def
      AcquireLease_def currentLeaseLocked_def CurrentLease_def Let_def RegisterTunnel_def request_example_def
      mem_Register_def session_literal_def ttlFromSeconds_exact split: prod.split)
  then have reg: "RegisterTunnel 1 1 1 request_example ?s = (Ok (''t-a'', ''p''), server_example)"
    unfolding server_example_def by (metis prod.collapse)
  have "holder (sv_coord server_example) 2 (rq_TunnelId request_example) = Some lease_l1"
    by (simp add: holder_def stored_lease_def server_example_eval until_def request_example_def) (simp add: lease_l1_def)
  from RegisterTunnel_GetTunnel [OF inv reg this, of 0 0 0] show ?thesis
    by (auto simp: request_example_def lease_l1_def)
qed

text \<open>The owner that \<^verbatim>\<open>GetTunnel\<close> reports outlives the lease: the handler writes the holder into the stored session
  and never clears it, so after the lease is released the tunnel is still reported as owned by the
  old relay although nobody holds it.\<close>

theorem GetTunnel_owner_outlives_lease:
  assumes "reg_inv s" and "map_of (sv_store s) t = Some x" and "holder (sv_coord s) now t = Some l"
    and "s1 = snd (GetTunnel now t s)" and "s2 = snd (Server_ReleaseLease (le_LeaseID l) s1)"
  shows "holder (sv_coord s2) later t = None \<and>
    (\<exists>y. fst (GetTunnel later t s2) = Ok y \<and> gt_OwnerRelayId y = le_RelayID l \<and> gt_LeaseId y = le_LeaseID l)"
proof -
  have tx: "ss_TunnelID x = t"
    using assms(1,2) by (simp add: reg_inv_def repo_inv_def)
  obtain l1 c1 where c1: "CurrentLease t now (sv_coord s) = (l1, c1)"
    by (cases "CurrentLease t now (sv_coord s)")
  have inv: "lease_inv (sv_coord s)"
    using assms(1) by (simp add: reg_inv_def)
  note spec = CurrentLease_spec [OF inv c1]
  have s1: "sv_coord s1 = c1" "map_of (sv_store s1) t = Some (with_lease (Some l) x)"
    using assms(2-4) spec(1) tx by (simp_all add: GetTunnel_def mem_Get_def c1)
  have st: "stored_lease c1 t = Some l"
    using spec assms(3) by (auto simp: holder_def until_def split: option.splits if_splits)
  have s2: "sv_coord s2 = snd (ReleaseLease (le_LeaseID l) c1)" "sv_store s2 = sv_store s1"
    using assms(5) s1 by (simp_all add: Server_ReleaseLease_def on_coord_def split: prod.split)
  have free: "stored_lease (sv_coord s2) t = None" and inv2: "lease_inv (sv_coord s2)"
    using ReleaseLease_spec [OF spec(2) st] s2 by simp_all
  then have h: "holder (sv_coord s2) later t = None" by (simp add: holder_def)
  obtain l3 c3 where c3: "CurrentLease t later (sv_coord s2) = (l3, c3)"
    by (cases "CurrentLease t later (sv_coord s2)")
  from CurrentLease_spec(1) [OF inv2 c3] h have "l3 = None" by simp
  with h s1(2) s2(2) tx c3 show ?thesis
    by (simp add: GetTunnel_def mem_Get_def sessionToProto_def with_lease_def)
qed

theorem GetTunnel_owner_outlives_lease_witness:
  "\<exists>y. fst (GetTunnel 3 ''t-a'' (snd (Server_ReleaseLease ''l1'' (snd (GetTunnel 2 ''t-a'' server_example))))) = Ok y \<and>
     gt_OwnerRelayId y = ''r1''"
proof -
  have "holder (sv_coord server_example) 2 ''t-a'' = Some lease_l1"
    by (simp add: holder_def stored_lease_def server_example_eval until_def) (simp add: lease_l1_def)
  from GetTunnel_owner_outlives_lease [OF reg_reachable_inv [OF server_example_reach] _ this refl refl, of session_l1 3]
  show ?thesis by (auto simp: server_example_eval) (simp add: lease_l1_def)
qed

text \<open>A lease taken through the client for at least one second ends at the server within the last second of the
  requested time, and the client never believes it holds the lease longer than the server does: the
  expiry it sees is the server's, cut to whole seconds. The conversion to seconds and back does not overflow
  for any 64-bit duration. A duration below one second is granted as 30 seconds.\<close>

theorem client_lease_expiry:
  assumes "reg_inv s" and "i \<noteq> []" and "map_of (mc_leasesByID (sv_coord s)) i = None"
    and "lr_TunnelID req \<noteq> []" and "lr_RelayID req \<noteq> []"
    and "0 \<le> lr_TTL req" and "lr_TTL req < 9223372036854775808"
    and "client_AcquireLease i now req s = (Ok k, s')"
  shows "\<exists>l. stored_lease (sv_coord s') (lr_TunnelID req) = Some l \<and> le_LeaseID k = le_LeaseID l \<and> le_RelayID k = lr_RelayID req \<and>
    le_RelayID l = lr_RelayID req \<and> le_ExpiresAt k \<le> le_ExpiresAt l \<and> le_ExpiresAt l < le_ExpiresAt k + 1000000000 \<and>
    (if lr_TTL req < 1000000000 then le_ExpiresAt l = now + 30000000000
     else le_ExpiresAt l \<le> now + lr_TTL req \<and> now + lr_TTL req < le_ExpiresAt l + 1000000000)"
proof -
  let ?n = "lr_TTL req div 1000000000"
  let ?req = "\<lparr> lr_TunnelID = lr_TunnelID req, lr_RelayID = lr_RelayID req, lr_TTL = ttlFromSeconds ?n \<rparr>"
  obtain r c where acq: "AcquireLease i now ?req (sv_coord s) = (r, c)"
    by (cases "AcquireLease i now ?req (sv_coord s)")
  have n: "go_div (lr_TTL req) 1000000000 = ?n"
    using assms(6) by (simp add: go_div_def)
  obtain l where l: "r = Ok l" "k = wire_lease l" "s' = s\<lparr>sv_coord := c\<rparr>"
    using assms(8) acq by (cases r) (auto simp: client_AcquireLease_def Server_AcquireLease_def on_coord_def n)
  have "(Ok l, stored_lease c) = spec_acquire i now ?req (stored_lease (sv_coord s))"
    using AcquireLease_spec [of "sv_coord s" i ?req now] assms(1-5) acq l(1) by (simp add: reg_inv_def)
  then have st: "stored_lease c (lr_TunnelID req) = Some l" "le_RelayID l = lr_RelayID req" "le_ExpiresAt l = now + ttlFromSeconds ?n"
    by (auto simp: spec_acquire_def Let_def split: option.splits if_splits)
  have ttl: "if lr_TTL req < 1000000000 then ttlFromSeconds ?n = 30000000000
      else ttlFromSeconds ?n \<le> lr_TTL req \<and> lr_TTL req < ttlFromSeconds ?n + 1000000000"
  proof (cases "lr_TTL req < 1000000000")
    case True
    then show ?thesis using assms(6) by (simp add: ttlFromSeconds_def div_pos_pos_trivial)
  next
    case False
    then have "0 < ?n" "?n \<le> 9223372036" using assms(7) by simp_all
    from ttlFromSeconds_exact [OF this] False show ?thesis
      using whole_seconds_bounds [of "lr_TTL req"] by (simp add: whole_seconds_def minus_mod_eq_div_mult)
  qed
  show ?thesis
    using st ttl l whole_seconds_bounds [of "le_ExpiresAt l"]
    by (auto simp: wire_lease_def split: if_splits)
qed

theorem client_lease_expiry_witness:
  "\<exists>l. stored_lease (sv_coord (snd (client_AcquireLease ''l1'' 7
       \<lparr> lr_TunnelID = ''t-a'', lr_RelayID = ''r1'', lr_TTL = 1500000000 \<rparr> NewServer))) ''t-a'' = Some l \<and>
     le_ExpiresAt l \<le> 1500000007"
proof -
  let ?req = "\<lparr> lr_TunnelID = ''t-a'', lr_RelayID = ''r1'', lr_TTL = 1500000000 \<rparr>"
  have inv: "reg_inv NewServer"
    by (simp add: NewServer_def reg_inv_def repo_inv_Nil lease_inv_New)
  have free: "map_of (mc_leasesByID (sv_coord NewServer)) ''l1'' = None"
    by (simp add: NewServer_def NewMemCoordinator_def)
  obtain k where "fst (client_AcquireLease ''l1'' 7 ?req NewServer) = Ok k"
    by (simp add: client_AcquireLease_def Server_AcquireLease_def on_coord_def AcquireLease_def currentLeaseLocked_def
        NewServer_def NewMemCoordinator_def Let_def split: prod.split)
  then have "client_AcquireLease ''l1'' 7 ?req NewServer = (Ok k, snd (client_AcquireLease ''l1'' 7 ?req NewServer))"
    by (metis prod.collapse)
  from client_lease_expiry [OF inv _ free _ _ _ _ this] show ?thesis by auto
qed

text \<open>When the registry is configured with a token, a unary call reaches its handler only if the first
  authorization value is that token with the Bearer prefix; any other call ends with an error and leaves the
  service state untouched, whatever the rate limiter does. The credentials the client sends for the same token pass.\<close>

theorem unary_chain_guard:
  assumes "authToken \<noteq> []"
  shows "(\<not> (\<exists>md ts. gc_metadata ctx = Some md \<and> map_of md ''authorization'' = Some ((''Bearer '' @ authToken) # ts)) \<longrightarrow>
      (\<exists>e l'. unary_chain fresh allow authToken rpm now ctx handler (l, s) = (Err e, l', s))) \<and>
    (gc_metadata ctx = Some (GetRequestMetadata authToken) \<longrightarrow> rpm \<le> 0 \<longrightarrow>
      unary_chain fresh allow authToken rpm now ctx handler (l, s) = (fst (handler s), l, snd (handler s)))"
proof -
  have deny: "\<exists>e. AuthInterceptor authToken ctx handler s = (Err e, s)"
    if "\<not> (\<exists>md ts. gc_metadata ctx = Some md \<and> map_of md ''authorization'' = Some ((''Bearer '' @ authToken) # ts))"
  proof (cases "gc_metadata ctx")
    case None
    with assms show ?thesis by (simp add: AuthInterceptor_def)
  next
    case (Some md)
    then show ?thesis
      using that assms by (cases "the (map_of md ''authorization'')")
        (auto simp: AuthInterceptor_def Let_def split: option.split)
  qed
  have accept: "AuthInterceptor authToken ctx handler s = handler s" if "gc_metadata ctx = Some (GetRequestMetadata authToken)"
    using that by (simp add: AuthInterceptor_def GetRequestMetadata_def)
  show ?thesis
    using deny accept assms
    by (auto simp: unary_chain_def RateLimitInterceptor_def Let_def split: option.split prod.split)
qed

theorem unary_chain_guard_witness:
  "\<exists>e l'. unary_chain (0::nat) (\<lambda>now n. (True, n)) ''secret'' 0 0 \<lparr> gc_metadata = None, gc_peer = None \<rparr>
     (\<lambda>s. (Ok (), s + 1)) (\<lparr> rl_limiters = [], rl_cleanupInterval = 1, rl_lastCleanup = 0 \<rparr>, 5 :: nat) = (Err e, l', 5)"
  using unary_chain_guard [of "''secret''" "\<lparr> gc_metadata = None, gc_peer = None \<rparr>" "0::nat" "\<lambda>now n. (True, n)" 0 0
      "\<lambda>s. (Ok (), s + 1)" "\<lparr> rl_limiters = [], rl_cleanupInterval = 1, rl_lastCleanup = 0 \<rparr>" "5 :: nat"]
  by simp

end
