(* ===== verification/TE_Net.thy ===== *)
theory TE_Net
  imports TE_Errs "HOL-Library.Word"
begin

text \<open>
  What the program uses of the string and address functions of Go's standard library: \<^verbatim>\<open>strings.Cut\<close>,
  \<^verbatim>\<open>strings.Split\<close>, \<^verbatim>\<open>strings.TrimSpace\<close>, \<^verbatim>\<open>strconv.ParseUint\<close>, \<^verbatim>\<open>net.SplitHostPort\<close>, \<^verbatim>\<open>netip.ParseAddr\<close>,
  \<^verbatim>\<open>netip.ParsePrefix\<close> and \<^verbatim>\<open>Prefix.Contains\<close>. They have no source in the repository; each definition follows the documented
  behaviour of the library function of the same name. An error is \<open>None\<close>: the callers only ask whether there was one.
\<close>

subsection \<open>Strings\<close>

definition IndexByte :: "string \<Rightarrow> char \<Rightarrow> nat option" where
  "IndexByte s c = (let n = length (takeWhile (\<lambda>x. x \<noteq> c) s) in if n < length s then Some n else None)"

definition LastIndexByte :: "string \<Rightarrow> char \<Rightarrow> nat option" where
  "LastIndexByte s c = map_option (\<lambda>n. length s - 1 - n) (IndexByte (rev s) c)"

definition Cut :: "string \<Rightarrow> char \<Rightarrow> string \<times> string \<times> bool" where
  "Cut s c = (case IndexByte s c of Some i \<Rightarrow> (take i s, drop (i + 1) s, True) | None \<Rightarrow> (s, [], False))"

primrec Split :: "char \<Rightarrow> string \<Rightarrow> string list" where
  "Split c [] = [[]]"
| "Split c (x # s) = (if x = c then [] # Split c s else (case Split c s of p # ps \<Rightarrow> (x # p) # ps | [] \<Rightarrow> [[x]]))"

definition is_space :: "char \<Rightarrow> bool" where
  "is_space c \<longleftrightarrow> c \<in> {CHR '' '', CHR 0x09, CHR 0x0A, CHR 0x0B, CHR 0x0C, CHR 0x0D}"

definition TrimSpace :: "string \<Rightarrow> string" where
  "TrimSpace s = rev (dropWhile is_space (rev (dropWhile is_space s)))"

definition TrimSuffix :: "string \<Rightarrow> string \<Rightarrow> string" where
  "TrimSuffix s suf = (if length suf \<le> length s \<and> drop (length s - length suf) s = suf then take (length s - length suf) s else s)"

definition HasPrefix :: "string \<Rightarrow> string \<Rightarrow> bool" where
  "HasPrefix s p \<longleftrightarrow> take (length p) s = p"

definition is_digit :: "char \<Rightarrow> bool" where
  "is_digit c \<longleftrightarrow> 48 \<le> (of_char c :: nat) \<and> (of_char c :: nat) \<le> 57"

definition digit_val :: "char \<Rightarrow> nat" where
  "digit_val c = of_char c - 48"

definition decimal :: "string \<Rightarrow> nat" where
  "decimal s = foldl (\<lambda>n c. n * 10 + digit_val c) 0 s"

text \<open>\<^verbatim>\<open>strconv.ParseUint(s, 10, 64)\<close>.\<close>

definition ParseUint :: "string \<Rightarrow> nat option" where
  "ParseUint s = (if s = [] \<or> \<not> list_all is_digit s \<or> decimal s \<ge> 2 ^ 64 then None else Some (decimal s))"

subsection \<open>Host and port\<close>

definition SplitHostPort :: "string \<Rightarrow> (string \<times> string) option" where
  "SplitHostPort hostport = (case LastIndexByte hostport (CHR '':'') of
     None \<Rightarrow> None
   | Some i \<Rightarrow>
     let port = drop (i + 1) hostport in
     if hd hostport = CHR ''['' then
       (case IndexByte hostport (CHR '']'') of
          None \<Rightarrow> None
        | Some e \<Rightarrow>
            if e + 1 \<noteq> i then None
            else if CHR ''['' \<in> set (drop 1 hostport) \<or> CHR '']'' \<in> set (drop (e + 1) hostport) then None
            else Some (drop 1 (take e hostport), port))
     else
       (let host = take i hostport in
        if CHR '':'' \<in> set host then None
        else if CHR ''['' \<in> set hostport \<or> CHR '']'' \<in> set hostport then None
        else Some (host, port)))"

subsection \<open>Addresses\<close>

datatype Addr = V4 "32 word" | V6 "128 word" string

text \<open>The four fields of an IPv4 address: \<open>val\<close> and \<open>digLen\<close> of the current octet and the octets before it, in
  reverse.\<close>

primrec parseIPv4Fields :: "string \<Rightarrow> nat \<Rightarrow> nat \<Rightarrow> nat list \<Rightarrow> nat list option" where
  "parseIPv4Fields [] val digLen done = (if length done < 3 \<or> digLen = 0 then None else Some (rev (val # done)))"
| "parseIPv4Fields (c # s) val digLen done =
     (if is_digit c then
        if digLen = 1 \<and> val = 0 then None
        else let val = val * 10 + digit_val c in
          if val > 255 then None else parseIPv4Fields s val (digLen + 1) done
      else if c = CHR ''.'' then
        if digLen = 0 \<or> s = [] \<or> length done = 3 then None else parseIPv4Fields s 0 0 (val # done)
      else None)"

definition bytes_val :: "nat \<Rightarrow> nat list \<Rightarrow> nat" where
  "bytes_val base bs = foldl (\<lambda>n b. n * base + b) 0 bs"

definition parseIPv4 :: "string \<Rightarrow> Addr option" where
  "parseIPv4 s = map_option (\<lambda>fs. V4 (word_of_nat (bytes_val 256 fs))) (parseIPv4Fields s 0 0 [])"

definition hex_val :: "char \<Rightarrow> nat option" where
  "hex_val c = (let n = of_char c :: nat in
     if 48 \<le> n \<and> n \<le> 57 then Some (n - 48)
     else if 97 \<le> n \<and> n \<le> 102 then Some (n - 87)
     else if 65 \<le> n \<and> n \<le> 70 then Some (n - 55) else None)"

text \<open>One round of the loop of \<^verbatim>\<open>parseIPv6\<close> reads a group of hexadecimal digits. The address is a list of 16-bit
  groups, a trailing IPv4 address gives two; \<open>ell\<close> is the number of groups before the ellipsis.\<close>

primrec parseIPv6Groups :: "nat \<Rightarrow> string \<Rightarrow> nat list \<Rightarrow> nat option \<Rightarrow> (nat list \<times> nat option) option" where
  "parseIPv6Groups 0 s gs ell = (if s = [] then Some (gs, ell) else None)"
| "parseIPv6Groups (Suc n) s gs ell =
     (let ds = takeWhile (\<lambda>c. hex_val c \<noteq> None) s;
          acc = foldl (\<lambda>a c. a * 16 + the (hex_val c)) 0 ds;
          s' = drop (length ds) s
      in if ds = [] \<or> length ds > 4 then None
         else case s' of
           [] \<Rightarrow> Some (gs @ [acc], ell)
         | c # rest \<Rightarrow>
             if c = CHR ''.'' then
               if (ell = None \<and> length gs \<noteq> 6) \<or> length gs > 6 then None
               else (case parseIPv4Fields s 0 0 [] of
                   Some [a, b, c, d] \<Rightarrow> Some (gs @ [a * 256 + b, c * 256 + d], ell)
                 | _ \<Rightarrow> None)
             else if c \<noteq> CHR '':'' \<or> rest = [] then None
             else if hd rest = CHR '':'' then
               if ell \<noteq> None then None
               else if tl rest = [] then Some (gs @ [acc], Some (length gs + 1))
               else parseIPv6Groups n (tl rest) (gs @ [acc]) (Some (length gs + 1))
             else parseIPv6Groups n rest (gs @ [acc]) ell)"

definition expand_groups :: "nat list \<times> nat option \<Rightarrow> nat list option" where
  "expand_groups p = (case p of (gs, ell) \<Rightarrow>
     if length gs < 8 then
       (case ell of None \<Rightarrow> None | Some e \<Rightarrow> Some (take e gs @ replicate (8 - length gs) 0 @ drop e gs))
     else if ell \<noteq> None then None else Some gs)"

definition parseIPv6 :: "string \<Rightarrow> Addr option" where
  "parseIPv6 inp =
     (case Cut inp (CHR ''%'') of (s, zone, found) \<Rightarrow>
        if found \<and> zone = [] then None
        else
          let r = (if take 2 s = ''::'' then
                     if drop 2 s = [] then Some ([], Some 0) else parseIPv6Groups 8 (drop 2 s) [] (Some 0)
                   else parseIPv6Groups 8 s [] None)
          in case r of
               None \<Rightarrow> None
             | Some p \<Rightarrow> map_option (\<lambda>gs. V6 (word_of_nat (bytes_val 65536 gs)) zone) (expand_groups p))"

primrec ParseAddr_from :: "string \<Rightarrow> string \<Rightarrow> Addr option" where
  "ParseAddr_from s [] = None"
| "ParseAddr_from s (c # cs) =
     (if c = CHR ''.'' then parseIPv4 s
      else if c = CHR '':'' then parseIPv6 s
      else if c = CHR ''%'' then None
      else ParseAddr_from s cs)"

definition ParseAddr :: "string \<Rightarrow> Addr option" where
  "ParseAddr s = ParseAddr_from s s"

type_synonym Prefix = "Addr \<times> nat"

fun zone_of :: "Addr \<Rightarrow> string" where
  "zone_of (V4 a) = []"
| "zone_of (V6 a z) = z"

fun max_bits :: "Addr \<Rightarrow> nat" where
  "max_bits (V4 a) = 32"
| "max_bits (V6 a z) = 128"

definition ParsePrefix :: "string \<Rightarrow> Prefix option" where
  "ParsePrefix s = (case LastIndexByte s (CHR ''/'') of
     None \<Rightarrow> None
   | Some i \<Rightarrow> (case ParseAddr (take i s) of
       None \<Rightarrow> None
     | Some ip \<Rightarrow>
         let bitsStr = drop (i + 1) s in
         if zone_of ip \<noteq> [] then None
         else if length bitsStr > 1 \<and> hd bitsStr = CHR ''0'' then None
         else if bitsStr = [] \<or> \<not> list_all is_digit bitsStr \<or> decimal bitsStr > max_bits ip then None
         else Some (ip, decimal bitsStr)))"

unbundle bit_operations_syntax

fun Contains :: "Prefix \<Rightarrow> Addr \<Rightarrow> bool" where
  "Contains (V4 p, n) (V4 a) = (drop_bit (32 - n) (a XOR p) = 0)"
| "Contains (V6 p pz, n) (V6 a z) = (z = [] \<and> (a XOR p) AND NOT (mask (128 - n)) = 0)"
| "Contains _ _ = False"

subsection \<open>Lemmas\<close>

lemma Split_not_Nil [simp]: "Split c s \<noteq> []"
  by (induction s) (auto split: list.split)

lemma Split_append: "Split c (a @ c # b) = Split c a @ Split c b"
  by (induction a) (auto split: list.split)

lemma Split_last: "c \<notin> set a \<Longrightarrow> Split c a = [a]"
  by (induction a) auto

lemma Split_segment: "c \<notin> set a \<Longrightarrow> Split c (a @ c # b) = a # Split c b"
  by (simp add: Split_append Split_last)

lemma Split_single: "length (Split c s) = 1 \<longleftrightarrow> c \<notin> set s"
  by (induction s) (auto split: list.split)

lemma word_xor_eq_0_iff:
  fixes a p :: "'a::len word"
  shows "a XOR p = 0 \<longleftrightarrow> a = p"
  by (auto simp: bit_eq_iff bit_simps)

lemma drop_bit_xor_eq_0_iff:
  fixes a p :: "'a::len word"
  shows "drop_bit m (a XOR p) = 0 \<longleftrightarrow> drop_bit m a = drop_bit m p"
  by (simp add: drop_bit_xor word_xor_eq_0_iff)

lemma and_not_mask_eq_0_iff:
  fixes x :: "'a::len word"
  shows "x AND NOT (mask m) = 0 \<longleftrightarrow> drop_bit m x = 0"
proof
  assume a: "x AND NOT (mask m) = 0"
  have "\<not> bit x (m + i)" for i
  proof
    assume b: "bit x (m + i)"
    then have "m + i < LENGTH('a)" by (rule bit_imp_le_length)
    with b have "bit (x AND NOT (mask m)) (m + i)" by (simp add: bit_simps)
    with a show False by simp
  qed
  then show "drop_bit m x = 0" by (intro bit_word_eqI) (simp add: bit_simps)
next
  assume a: "drop_bit m x = 0"
  have "\<not> bit x i" if "m \<le> i" for i
  proof -
    have "bit (drop_bit m x) (i - m) = bit x i" using that by (simp add: bit_drop_bit_eq)
    with a show ?thesis by simp
  qed
  then have "n < m \<or> \<not> bit x n" for n by (metis not_le)
  then show "x AND NOT (mask m) = 0" by (intro bit_word_eqI) (auto simp: bit_simps)
qed

lemma drop_bit_eq_unat_iff:
  fixes a p :: "'a::len word"
  shows "drop_bit m a = drop_bit m p \<longleftrightarrow> unat a div 2 ^ m = unat p div 2 ^ m"
  by (simp add: word_unat_eq_iff unat_drop_bit_eq drop_bit_eq_div [where ?'a = nat])

text \<open>A prefix contains the addresses that agree with it on its leading bits, of the same family and without a zone.\<close>

lemma Contains_V4: "Contains (V4 p, n) (V4 a) \<longleftrightarrow> unat a div 2 ^ (32 - n) = unat p div 2 ^ (32 - n)"
  unfolding Contains.simps drop_bit_xor_eq_0_iff drop_bit_eq_unat_iff ..

lemma Contains_V6: "Contains (V6 p pz, n) (V6 a []) \<longleftrightarrow> unat a div 2 ^ (128 - n) = unat p div 2 ^ (128 - n)"
  unfolding Contains.simps and_not_mask_eq_0_iff drop_bit_xor_eq_0_iff drop_bit_eq_unat_iff by simp

end
