(* ===== verification/TE_Gateway.thy ===== *)
theory TE_Gateway
  imports TE_Registry TE_Router TE_Stream TE_Net
begin

text \<open>
  The gateway's state and the life of a tunnel in it (\<^verbatim>\<open>src/internal/gateway/gateway.go\<close>, \<^verbatim>\<open>resume.go\<close>): adding,
  suspending and removing tunnels, the resume timers, the lease and health calls to the registry.

  The gateway owns the local router, the distributed router and the stream manager; the registry it calls is the
  registry server of \<open>TE_Registry\<close> behind the client, and \<open>gw_regUp\<close> says whether calls reach it. The session repository,
  when one is configured (\<open>gw_sessionRepo\<close>), is the registry's session store: both services open the same
  database. A QUIC connection is a number; \<open>gw_connsClosed\<close> logs the connections the gateway closes and why. \<open>gw_activeGauge\<close> is the
  \<^verbatim>\<open>ActiveTunnels\<close> gauge. A timer armed by \<^verbatim>\<open>time.AfterFunc\<close> has a number; \<open>gw_timers\<close> is \<^verbatim>\<open>pendingResumeTimers\<close>, which
  remembers the timer of a tunnel, and \<open>gw_armed\<close> the timers that have neither fired nor been stopped. A handler
  reads the clock once.
\<close>

record activeTunnel =
  av_tunnel :: ActiveTunnel
  av_conn :: "nat option"
  av_routeMap :: "(string, string) gomap"
  av_leaseID :: string
  av_suspended :: bool

record Gateway =
  gw_tunnels :: "(string, activeTunnel) gomap"
  gw_router :: TunnelRouter
  gw_dist :: DistributedRouter
  gw_streams :: Manager
  gw_registry :: Server
  gw_regUp :: bool
  gw_relayID :: string
  gw_advertiseAddr :: string
  gw_publicListenAddr :: string
  gw_leaseTTL :: duration
  gw_maxStreams :: int
  gw_maxTunnelsPerAgent :: int
  gw_maxStreamsPerTunnel :: int
  gw_region :: string
  gw_sessionResumeEnabled :: bool
  gw_sessionResumeTTL :: duration
  gw_sessionRepo :: bool
  gw_timers :: "(string, nat) gomap"
  gw_armed :: "(nat, string \<times> time) gomap"
  gw_nextTimer :: nat
  gw_connsClosed :: "(nat \<times> string) list"
  gw_activeGauge :: int

record Options =
  op_BaseDomain :: string
  op_PublicListenAddr :: string
  op_MaxStreams :: int
  op_ShutdownTimeout :: duration
  op_StreamIdleTimeout :: duration
  op_RelayID :: string
  op_AdvertiseAddr :: string
  op_LeaseTTL :: duration
  op_HealthReportInterval :: duration
  op_MaxTunnelsPerAgent :: int
  op_MaxStreamsPerTunnel :: int
  op_Region :: string
  op_SessionResumeEnabled :: bool
  op_SessionResumeTTL :: duration
  op_SessionRepo :: bool

text \<open>The five functions that replace a missing duration by a default.\<close>

definition gatewayLeaseTTL :: "duration \<Rightarrow> duration" where
  "gatewayLeaseTTL v = (if v > 0 then v else 45 * 1000000000)"

definition gatewayHealthReportInterval :: "duration \<Rightarrow> duration" where
  "gatewayHealthReportInterval v = (if v > 0 then v else 15 * 1000000000)"

definition gatewayShutdownTimeout :: "duration \<Rightarrow> duration" where
  "gatewayShutdownTimeout v = (if v > 0 then v else 15 * 1000000000)"

definition streamIdleTimeout :: "duration \<Rightarrow> duration" where
  "streamIdleTimeout v = (if v > 0 then v else 30 * 1000000000)"

definition sessionResumeTTL :: "duration \<Rightarrow> duration" where
  "sessionResumeTTL v = (if v > 0 then v else 30 * 1000000000)"

text \<open>\<^verbatim>\<open>NewGateway\<close> with an authenticator and a registry client, which it requires.\<close>

definition NewGateway :: "Options \<Rightarrow> Server \<Rightarrow> bool \<Rightarrow> Gateway" where
  "NewGateway opts registry up =
     \<lparr> gw_tunnels = [], gw_router = NewTunnelRouter (op_BaseDomain opts),
       gw_dist = NewDistributedRouter (op_RelayID opts) (NewTunnelRouter (op_BaseDomain opts)),
       gw_streams = NewManager, gw_registry = registry, gw_regUp = up, gw_relayID = op_RelayID opts,
       gw_advertiseAddr = op_AdvertiseAddr opts, gw_publicListenAddr = op_PublicListenAddr opts,
       gw_leaseTTL = gatewayLeaseTTL (op_LeaseTTL opts), gw_maxStreams = op_MaxStreams opts,
       gw_maxTunnelsPerAgent = op_MaxTunnelsPerAgent opts, gw_maxStreamsPerTunnel = op_MaxStreamsPerTunnel opts,
       gw_region = op_Region opts, gw_sessionResumeEnabled = op_SessionResumeEnabled opts,
       gw_sessionResumeTTL = sessionResumeTTL (op_SessionResumeTTL opts), gw_sessionRepo = op_SessionRepo opts,
       gw_timers = [], gw_armed = [], gw_nextTimer = 0, gw_connsClosed = [], gw_activeGauge = 0 \<rparr>"

subsection \<open>Calls to the registry\<close>

definition reg_call :: "(Server \<Rightarrow> 'a result \<times> Server) \<Rightarrow> Gateway \<Rightarrow> 'a result \<times> Gateway" where
  "reg_call f g = (if gw_regUp g then (case f (gw_registry g) of (r, s) \<Rightarrow> (r, g\<lparr>gw_registry := s\<rparr>))
     else (Err (StatusErr GUnavailable ''registry unavailable''), g))"

definition acquireTunnelLease :: "string \<Rightarrow> time \<Rightarrow> string \<Rightarrow> Gateway \<Rightarrow> Lease result \<times> Gateway" where
  "acquireTunnelLease newID now tunnelID g =
     reg_call (client_AcquireLease newID now
       \<lparr> lr_TunnelID = tunnelID, lr_RelayID = gw_relayID g, lr_TTL = gw_leaseTTL g \<rparr>) g"

text \<open>The session repository's \<^verbatim>\<open>SetResumable\<close> and \<^verbatim>\<open>GetResumable\<close>.\<close>

definition repo_SetResumable :: "string \<Rightarrow> string \<Rightarrow> time \<Rightarrow> Gateway \<Rightarrow> unit result \<times> Gateway" where
  "repo_SetResumable tunnelID token deadline g =
     (case mem_SetResumable tunnelID token deadline (sv_store (gw_registry g)) of
      (r, store) \<Rightarrow> (r, g\<lparr>gw_registry := (gw_registry g)\<lparr>sv_store := store\<rparr>\<rparr>))"

definition repo_GetResumable :: "time \<Rightarrow> string \<Rightarrow> Gateway \<Rightarrow> Session result" where
  "repo_GetResumable now token g = mem_GetResumable now token (sv_store (gw_registry g))"

subsection \<open>Tunnels\<close>

definition addTunnel :: "ActiveTunnel \<Rightarrow> nat \<Rightarrow> string \<Rightarrow> Gateway \<Rightarrow> Gateway" where
  "addTunnel tunnel conn leaseID g = g\<lparr>gw_tunnels := mput (at_ID tunnel)
     \<lparr> av_tunnel = tunnel, av_conn = Some conn, av_routeMap = RouteMap tunnel, av_leaseID = leaseID, av_suspended = False \<rparr>
     (gw_tunnels g)\<rparr>"

definition getTunnel :: "string \<Rightarrow> Gateway \<Rightarrow> activeTunnel option" where
  "getTunnel tunnelID g = map_of (gw_tunnels g) tunnelID"

definition CloseWithError :: "nat option \<Rightarrow> string \<Rightarrow> Gateway \<Rightarrow> Gateway" where
  "CloseWithError conn reason g = (case conn of
     Some c \<Rightarrow> g\<lparr>gw_connsClosed := gw_connsClosed g @ [(c, reason)]\<rparr> | None \<Rightarrow> g)"

text \<open>What \<^verbatim>\<open>removeTunnel\<close> and \<^verbatim>\<open>finalizeTunnelRemoval\<close> do with a tunnel they find.\<close>

definition tear_down :: "string \<Rightarrow> string \<Rightarrow> activeTunnel \<Rightarrow> Gateway \<Rightarrow> Gateway" where
  "tear_down tunnelID reason av g =
     (let g = g\<lparr>gw_tunnels := mdel tunnelID (gw_tunnels g), gw_router := DeregisterAll tunnelID (gw_router g),
                gw_streams := CloseByTunnel tunnelID (gw_streams g)\<rparr>;
          g = CloseWithError (av_conn av) reason g;
          g = g\<lparr>gw_activeGauge := gw_activeGauge g - 1\<rparr>;
          g = (if av_leaseID av \<noteq> [] then snd (reg_call (client_ReleaseLease (av_leaseID av)) g) else g)
      in snd (reg_call (client_DeregisterTunnel tunnelID) g))"

definition removeTunnel :: "string \<Rightarrow> string \<Rightarrow> Gateway \<Rightarrow> Gateway" where
  "removeTunnel tunnelID reason g = (case map_of (gw_tunnels g) tunnelID of
     None \<Rightarrow> g | Some av \<Rightarrow> tear_down tunnelID reason av g)"

text \<open>\<^verbatim>\<open>t.Stop()\<close> on the tunnel's pending timer, and its removal from the map.\<close>

definition stop_timer :: "string \<Rightarrow> Gateway \<Rightarrow> Gateway" where
  "stop_timer tunnelID g = (case map_of (gw_timers g) tunnelID of
     Some t \<Rightarrow> g\<lparr>gw_armed := mdel t (gw_armed g), gw_timers := mdel tunnelID (gw_timers g)\<rparr>
   | None \<Rightarrow> g)"

definition finalizeTunnelRemoval :: "string \<Rightarrow> string \<Rightarrow> Gateway \<Rightarrow> Gateway" where
  "finalizeTunnelRemoval tunnelID reason g = (let g = stop_timer tunnelID g in
     case map_of (gw_tunnels g) tunnelID of None \<Rightarrow> g | Some av \<Rightarrow> tear_down tunnelID reason av g)"

definition arm_timer :: "string \<Rightarrow> time \<Rightarrow> Gateway \<Rightarrow> Gateway" where
  "arm_timer tunnelID fireAt g = g\<lparr>gw_armed := mput (gw_nextTimer g) (tunnelID, fireAt) (gw_armed g),
     gw_timers := mput tunnelID (gw_nextTimer g) (gw_timers g), gw_nextTimer := gw_nextTimer g + 1\<rparr>"

text \<open>\<open>token\<close> is what \<^verbatim>\<open>generateResumeToken\<close> returns. \<^verbatim>\<open>at.conn.CloseWithError\<close> panics when the connection is nil.\<close>

definition suspendTunnel :: "string result \<Rightarrow> time \<Rightarrow> string \<Rightarrow> string \<Rightarrow> Gateway \<Rightarrow> unit result \<times> Gateway" where
  "suspendTunnel token now tunnelID reason g = (case map_of (gw_tunnels g) tunnelID of
     None \<Rightarrow> (Ok (), g)
   | Some av \<Rightarrow> (case token of
       Ok tok \<Rightarrow>
         (case av_conn av of
            None \<Rightarrow> (Panic, g)
          | Some c \<Rightarrow>
              let g = CloseWithError (Some c) reason g;
                  g = g\<lparr>gw_tunnels := mupd tunnelID (\<lambda>av. av\<lparr>av_conn := None, av_suspended := True\<rparr>) (gw_tunnels g),
                        gw_streams := CloseByTunnel tunnelID (gw_streams g)\<rparr>;
                  deadline = now + gw_sessionResumeTTL g
              in case repo_SetResumable tunnelID tok deadline g of
                   (r, g) \<Rightarrow> if is_ok r then (Ok (), arm_timer tunnelID deadline g)
                             else (Ok (), removeTunnel tunnelID reason g))
     | _ \<Rightarrow> (Ok (), removeTunnel tunnelID reason g)))"

text \<open>A timer fires: it is no longer armed, and its function runs.\<close>

definition fire_timer :: "nat \<Rightarrow> Gateway \<Rightarrow> Gateway" where
  "fire_timer t g = (case map_of (gw_armed g) t of
     None \<Rightarrow> g
   | Some (tunnelID, fireAt) \<Rightarrow> finalizeTunnelRemoval tunnelID ''resume_timeout'' (g\<lparr>gw_armed := mdel t (gw_armed g)\<rparr>))"

definition ActiveTunnelCount :: "Gateway \<Rightarrow> nat" where
  "ActiveTunnelCount g = length (gw_tunnels g)"

definition ActiveStreamCount :: "Gateway \<Rightarrow> nat" where
  "ActiveStreamCount g = Manager_Count (gw_streams g)"

text \<open>\<^verbatim>\<open>int32\<close> of a count.\<close>

definition to_int32 :: "nat \<Rightarrow> int" where
  "to_int32 n = sint (word_of_nat n :: 32 word)"

definition report_health :: "time \<Rightarrow> Gateway \<Rightarrow> Gateway" where
  "report_health now g =
     (let health = \<lparr> rh_AdvertiseAddr = gw_advertiseAddr g, rh_RTTMillis = 0, rh_HeartbeatLatencyMillis = 0,
            rh_ActiveTunnels = to_int32 (ActiveTunnelCount g), rh_ActiveStreams = to_int32 (ActiveStreamCount g),
            rh_BytesPerSecond = 0, rh_PacketLossPct = 0, rh_CPUUtilizationPct = 0, rh_MemoryUtilizationPct = 0,
            rh_RecordedAt = now, rh_Region = gw_region g \<rparr>;
          g = snd (reg_call (client_ReportRelayHealth now now (gw_relayID g) health) g)
      in if gw_advertiseAddr g \<noteq> [] then g\<lparr>gw_dist := UpdateRelayAddr (gw_relayID g) (gw_advertiseAddr g) (gw_dist g)\<rparr> else g)"

text \<open>\<^verbatim>\<open>reportRelayHealthLoop\<close>: once at the start, then at every tick.\<close>

definition reportRelayHealthLoop :: "time \<Rightarrow> time list \<Rightarrow> Gateway \<Rightarrow> Gateway" where
  "reportRelayHealthLoop start ticks g = fold report_health ticks (report_health start g)"

definition closeAll :: "Gateway \<Rightarrow> Gateway" where
  "closeAll g = (let g = fold (\<lambda>i. removeTunnel i ''shutdown'') (map fst (gw_tunnels g)) g
     in g\<lparr>gw_streams := CloseAll (gw_streams g)\<rparr>)"

definition publicPort :: "string \<Rightarrow> string" where
  "publicPort addr = (case SplitHostPort addr of
     None \<Rightarrow> ''443'' | Some (host, port) \<Rightarrow> if port = [] then ''443'' else port)"

definition countTunnelsByAgent :: "string \<Rightarrow> Gateway \<Rightarrow> nat" where
  "countTunnelsByAgent agentID g = length (filter (\<lambda>p. at_AgentID (av_tunnel (snd p)) = agentID) (gw_tunnels g))"

end
