(* ===== verification/TE_Handshake.thy ===== *)
theory TE_Handshake
  imports TE_Gateway TE_Transport
begin

text \<open>
  The gateway's side of an agent connection (\<^verbatim>\<open>src/internal/gateway/agent_handler.go\<close>): the hello and
  authentication frames of both protocol versions, session resume, the loop over the streams an agent opens
  and the heartbeat loop.

  \<open>authn\<close> is the gateway's authenticator. The initial stream is a \<open>reader\<close> and a \<open>writer\<close>; a frame whose type byte was already
  read is decoded from a reader that delivers the byte again (\<^verbatim>\<open>io.MultiReader\<close>). A new lease's id, the random resume
  token and the clock are arguments. A handler's loops over later streams and ticks are the functions
  \<open>agent_stream\<close> and \<open>heartbeat_tick\<close>, run once per event.
\<close>

definition unread :: "byte \<Rightarrow> reader \<Rightarrow> reader" where
  "unread b r = r\<lparr>rd_data := b # rd_data r\<rparr>"

text \<open>The key of the rate limiter: \<^verbatim>\<open>strings.Cut(remoteAddr, ":")\<close>.\<close>

definition rate_key :: "string \<Rightarrow> string" where
  "rate_key remoteAddr = (let remoteIP = fst (Cut remoteAddr (CHR '':'')) in if remoteIP = [] then remoteAddr else remoteIP)"

definition safePrefix :: "string \<Rightarrow> nat \<Rightarrow> string" where
  "safePrefix s n = (if length s \<le> n then s else take n s)"

type_synonym established = "string \<times> string \<times> string \<times> string"

definition handleV1Auth ::
  "(string \<Rightarrow> string result) \<Rightarrow> string \<Rightarrow> time \<Rightarrow> nat \<Rightarrow> reader \<Rightarrow> writer \<Rightarrow> Gateway \<Rightarrow> established result \<times> writer \<times> Gateway" where
  "handleV1Auth authn newID now conn r w g =
     (let fail = (\<lambda>e g. (Err e, snd (EncodeAuthResponse w AuthStatusError [] []), g)) in
      case DecodeAuth r of
        Err e \<Rightarrow> fail e g
      | Panic \<Rightarrow> (Panic, w, g)
      | Ok (authMsg, r') \<Rightarrow>
        (case authn (am_Token authMsg) of
           Err e \<Rightarrow> fail e g
         | Panic \<Rightarrow> (Panic, w, g)
         | Ok agentID \<Rightarrow>
           (let tunnel = NewActiveTunnel now agentID [\<lparr> rt_Label = ''default'', rt_LocalAddr = [], rt_TunnelType = [] \<rparr>] in
            case Router_Register (at_ID tunnel) (gw_router g) of (publicHost, router) \<Rightarrow>
            let g = g\<lparr>gw_router := router\<rparr>;
                publicURL = publicHost @ '':'' @ publicPort (gw_publicListenAddr g);
                tunnel = tunnel\<lparr>at_PublicHosts := mput ''default'' publicURL (at_PublicHosts tunnel)\<rparr>
            in case acquireTunnelLease newID now (at_ID tunnel) g of
                 (Err e, g) \<Rightarrow> fail e (g\<lparr>gw_router := Router_Deregister (at_ID tunnel) (gw_router g)\<rparr>)
               | (Panic, g) \<Rightarrow> (Panic, w, g)
               | (Ok lease, g) \<Rightarrow>
                 (case EncodeAuthResponse w AuthStatusOK (at_ID tunnel) publicURL of
                    (Err e, w) \<Rightarrow> (Err e, w, snd (reg_call (client_ReleaseLease (le_LeaseID lease))
                        (g\<lparr>gw_router := Router_Deregister (at_ID tunnel) (gw_router g)\<rparr>)))
                  | (Panic, w) \<Rightarrow> (Panic, w, g)
                  | (Ok _, w) \<Rightarrow> (Ok (agentID, at_ID tunnel, publicURL, []), w, addTunnel tunnel conn (le_LeaseID lease) g)))))"

text \<open>The two loops of \<^verbatim>\<open>handleV2Auth\<close>: the first checks the labels, the second registers the hostnames.\<close>

primrec check_labels :: "TunnelEntry list \<Rightarrow> TunnelRoute list \<Rightarrow> TunnelRoute list result" where
  "check_labels [] routes = Ok routes"
| "check_labels (t # ts) routes = (case ValidateLabel (te_Label t) of
     Ok _ \<Rightarrow> check_labels ts (routes @ [\<lparr> rt_Label = te_Label t, rt_LocalAddr = te_LocalAddr t, rt_TunnelType = te_TunnelType t \<rparr>])
   | Err e \<Rightarrow> Err (WrapErr ''invalid label'' e)
   | Panic \<Rightarrow> Panic)"

record v2_loop =
  vl_tunnel :: ActiveTunnel
  vl_router :: TunnelRouter
  vl_hosts :: "TunnelHostEntry list"
  vl_public :: "string list"
  vl_local :: "string list"

primrec register_labels :: "string \<Rightarrow> TunnelEntry list \<Rightarrow> v2_loop \<Rightarrow> v2_loop" where
  "register_labels port [] l = l"
| "register_labels port (t # ts) l = (case RegisterLabel (at_ID (vl_tunnel l)) (te_Label t) (vl_router l) of (hostname, router) \<Rightarrow>
     let publicURL = hostname @ '':'' @ port in
     register_labels port ts
       \<lparr> vl_tunnel = (vl_tunnel l)\<lparr>at_PublicHosts := mput (te_Label t) publicURL (at_PublicHosts (vl_tunnel l))\<rparr>,
         vl_router = router,
         vl_hosts = vl_hosts l @ [\<lparr> th_Label = te_Label t, th_Hostname = publicURL \<rparr>],
         vl_public = vl_public l @ [te_Label t @ ''='' @ publicURL],
         vl_local = (if te_LocalAddr t \<noteq> [] then vl_local l @ [te_Label t @ ''='' @ te_LocalAddr t] else vl_local l) \<rparr>)"

primrec Join :: "string \<Rightarrow> string list \<Rightarrow> string" where
  "Join sep [] = []"
| "Join sep (x # xs) = (if xs = [] then x else x @ sep @ Join sep xs)"

definition v2_error :: AuthV2ResponseMessage where
  "v2_error = \<lparr> r2_Status = AuthStatusError, r2_TunnelID = [], r2_Tunnels = [], r2_ResumeToken = [],
     r2_AssignedRegion = [], r2_SuggestedGateways = [] \<rparr>"

definition handleV2Auth ::
  "(string \<Rightarrow> string result) \<Rightarrow> string \<Rightarrow> string result \<Rightarrow> time \<Rightarrow> nat \<Rightarrow> reader \<Rightarrow> writer \<Rightarrow> Gateway \<Rightarrow>
     established result \<times> writer \<times> Gateway" where
  "handleV2Auth authn newID token now conn qin w g =
     (let fail1 = (\<lambda>e g. (Err e, snd (EncodeAuthResponse w AuthStatusError [] []), g));
          fail2 = (\<lambda>e g. (Err e, snd (EncodeAuthV2Response w v2_error), g)) in
      case DecodeAuthV2 (unread MsgAuthV2 qin) of
        Err e \<Rightarrow> fail1 e g
      | Panic \<Rightarrow> (Panic, w, g)
      | Ok (authMsg, r) \<Rightarrow>
        (case authn (a2_Token authMsg) of
           Err e \<Rightarrow> fail1 e g
         | Panic \<Rightarrow> (Panic, w, g)
         | Ok agentID \<Rightarrow>
           if gw_maxTunnelsPerAgent g > 0 \<and> int (countTunnelsByAgent agentID g) \<ge> gw_maxTunnelsPerAgent g
           then fail2 (PlainErr ''tunnel quota exceeded'') g
           else (case check_labels (a2_Tunnels authMsg) [] of
             Err e \<Rightarrow> fail2 e g
           | Panic \<Rightarrow> (Panic, w, g)
           | Ok routes \<Rightarrow>
             (let tunnel = NewActiveTunnel now agentID routes in
              case acquireTunnelLease newID now (at_ID tunnel) g of
                (Err e, g) \<Rightarrow> fail2 e g
              | (Panic, g) \<Rightarrow> (Panic, w, g)
              | (Ok lease, g) \<Rightarrow>
                (let l = register_labels (publicPort (gw_publicListenAddr g)) (a2_Tunnels authMsg)
                       \<lparr> vl_tunnel = tunnel, vl_router = gw_router g, vl_hosts = [], vl_public = [], vl_local = [] \<rparr>;
                     g = g\<lparr>gw_router := vl_router l\<rparr>;
                     resumeToken = (if gw_sessionResumeEnabled g \<and> gw_sessionRepo g
                       then (case token of Ok tok \<Rightarrow> tok | _ \<Rightarrow> []) else []);
                     suggested = (if a2_PreferredRegion authMsg \<noteq> []
                       then BestRelaysForRegion (dr_scorer (gw_dist g)) (a2_PreferredRegion authMsg) 2 else [])
                 in case EncodeAuthV2Response w
                      \<lparr> r2_Status = AuthStatusOK, r2_TunnelID = at_ID tunnel, r2_Tunnels = vl_hosts l,
                        r2_ResumeToken = resumeToken, r2_AssignedRegion = gw_region g, r2_SuggestedGateways = suggested \<rparr> of
                      (Err e, w) \<Rightarrow> (Err e, w, snd (reg_call (client_ReleaseLease (le_LeaseID lease))
                          (g\<lparr>gw_router := DeregisterAll (at_ID tunnel) (gw_router g)\<rparr>)))
                    | (Panic, w) \<Rightarrow> (Panic, w, g)
                    | (Ok _, w) \<Rightarrow>
                      (let g = addTunnel (vl_tunnel l) conn (le_LeaseID lease) g;
                           g = (if resumeToken \<noteq> []
                             then snd (repo_SetResumable (at_ID tunnel) resumeToken (now + gw_sessionResumeTTL g) g) else g)
                       in (Ok (agentID, at_ID tunnel, Join '','' (vl_public l), Join '','' (vl_local l)), w, g)))))))"

text \<open>\<^verbatim>\<open>handleSessionResume\<close> up to the point where the resumed tunnel's loops start. The result says whether the
  session was resumed, and which tunnel.\<close>

definition resume_resp :: "byte \<Rightarrow> string \<Rightarrow> string \<Rightarrow> SessionResumeRespMessage" where
  "resume_resp status tunnelID newToken = \<lparr> rr_Status = status, rr_TunnelID = tunnelID, rr_NewToken = newToken \<rparr>"

definition handleSessionResume ::
  "string result \<Rightarrow> time \<Rightarrow> nat \<Rightarrow> reader \<Rightarrow> writer \<Rightarrow> Gateway \<Rightarrow> string option result \<times> reader \<times> writer \<times> Gateway" where
  "handleSessionResume token now conn qin w g =
     (let refuse = (\<lambda>status r g. case EncodeSessionResumeResp w (resume_resp status [] []) of
            (Err e, w) \<Rightarrow> (Err e, r, w, g) | (Panic, w) \<Rightarrow> (Panic, r, w, g) | (Ok _, w) \<Rightarrow> (Ok None, r, w, g)) in
      case DecodeSessionResume (unread MsgSessionResume qin) of
        Err e \<Rightarrow> (Err (WrapErr ''failed to decode session resume'' e), qin, w, g)
      | Panic \<Rightarrow> (Panic, qin, w, g)
      | Ok (resumeMsg, r) \<Rightarrow>
        if \<not> gw_sessionRepo g then refuse ResumeStatusNotFound r g
        else (case repo_GetResumable now (sr_Token resumeMsg) g of
          Ok sess \<Rightarrow>
            (let tunnelID = ss_TunnelID sess;
                 g = stop_timer tunnelID g;
                 newToken = (case token of Ok tok \<Rightarrow> tok | _ \<Rightarrow> [])
             in case map_of (gw_tunnels g) tunnelID of
                  None \<Rightarrow> refuse ResumeStatusNotFound r g
                | Some av \<Rightarrow>
                  (let g = g\<lparr>gw_tunnels := mupd tunnelID (\<lambda>av. av\<lparr>av_conn := Some conn, av_suspended := False\<rparr>) (gw_tunnels g)\<rparr>
                   in case (if newToken \<noteq> [] then repo_SetResumable tunnelID newToken (now + gw_sessionResumeTTL g) g else (Ok (), g)) of
                        (stored, g) \<Rightarrow>
                        let newToken = (if is_ok stored then newToken else []) in
                        (case EncodeSessionResumeResp w (resume_resp ResumeStatusResumed tunnelID newToken) of
                           (Err e, w) \<Rightarrow> (Err (WrapErr ''failed to send resume response'' e), r, w, g)
                         | (Panic, w) \<Rightarrow> (Panic, r, w, g)
                         | (Ok _, w) \<Rightarrow> (Ok (Some tunnelID), r, w, g))))
        | _ \<Rightarrow> refuse ResumeStatusExpired r g))"

subsection \<open>The connection\<close>

text \<open>How \<^verbatim>\<open>handleAgentConnection\<close> ends before the tunnel's loops: the connection is closed with a reason, or a tunnel is
  established or resumed.\<close>

datatype conn_outcome = ConnClosed string | ConnEstablished string | ConnResumed string | ConnPanic

definition close_conn :: "nat \<Rightarrow> string \<Rightarrow> writer \<Rightarrow> Gateway \<Rightarrow> conn_outcome \<times> writer \<times> Gateway" where
  "close_conn conn reason w g = (ConnClosed reason, w, CloseWithError (Some conn) reason g)"

definition establish :: "time \<Rightarrow> nat \<Rightarrow> established result \<times> writer \<times> Gateway \<Rightarrow> conn_outcome \<times> writer \<times> Gateway" where
  "establish now conn res = (case res of
     (Err e, w, g) \<Rightarrow> close_conn conn ''auth failed'' w g
   | (Panic, w, g) \<Rightarrow> (ConnPanic, w, g)
   | (Ok (agentID, tunnelID, publicAddr, localAddr), w, g) \<Rightarrow>
       (case reg_call (client_RegisterTunnel now now now tunnelID agentID publicAddr localAddr) g of
          (Ok _, g) \<Rightarrow> (ConnEstablished tunnelID, w, g\<lparr>gw_activeGauge := gw_activeGauge g + 1\<rparr>)
        | (Err e, g) \<Rightarrow> close_conn conn ''registry error'' w (removeTunnel tunnelID ''registry_error'' g)
        | (Panic, g) \<Rightarrow> (ConnPanic, w, g)))"

definition auth_frame_by_type ::
  "(string \<Rightarrow> string result) \<Rightarrow> string \<Rightarrow> string result \<Rightarrow> time \<Rightarrow> nat \<Rightarrow> byte \<Rightarrow> reader \<Rightarrow> writer \<Rightarrow> Gateway \<Rightarrow>
     (conn_outcome \<times> writer \<times> Gateway) option" where
  "auth_frame_by_type authn newID token now conn msgType r w g =
     (if msgType = MsgAuthV2 then Some (establish now conn (handleV2Auth authn newID token now conn r w g))
      else if msgType = MsgAuth then Some (establish now conn (handleV1Auth authn newID now conn (unread MsgAuth r) w g))
      else None)"

definition dispatch_first ::
  "(string \<Rightarrow> string result) \<Rightarrow> string \<Rightarrow> string result \<Rightarrow> string result \<Rightarrow> time \<Rightarrow> nat \<Rightarrow> byte \<Rightarrow> reader \<Rightarrow> writer \<Rightarrow> Gateway \<Rightarrow>
     conn_outcome \<times> writer \<times> Gateway" where
  "dispatch_first authn newID token rtoken now conn msgType r w g =
     (if msgType = MsgSessionResume then
        (case handleSessionResume rtoken now conn r w g of
           (Err e, r, w, g) \<Rightarrow> close_conn conn ''resume failed'' w g
         | (Panic, r, w, g) \<Rightarrow> (ConnPanic, w, g)
         | (Ok (Some tunnelID), r, w, g) \<Rightarrow> (ConnResumed tunnelID, w, g)
         | (Ok None, r, w, g) \<Rightarrow>
             (case ReadMessageType r of
                Ok (nextType, r) \<Rightarrow>
                  (case auth_frame_by_type authn newID token now conn nextType r w g of
                     Some res \<Rightarrow> res | None \<Rightarrow> close_conn conn ''unknown auth type'' w g)
              | _ \<Rightarrow> close_conn conn ''auth failed after failed resume'' w g))
      else case auth_frame_by_type authn newID token now conn msgType r w g of
        Some res \<Rightarrow> res
      | None \<Rightarrow> close_conn conn ''unknown auth type'' (snd (EncodeAuthResponse w AuthStatusError [] [])) g)"

definition handleAgentConnection ::
  "(string \<Rightarrow> bool) option \<Rightarrow> (string \<Rightarrow> string result) \<Rightarrow> string \<Rightarrow> string result \<Rightarrow> string result \<Rightarrow> time \<Rightarrow> nat \<Rightarrow> string \<Rightarrow>
     reader result \<Rightarrow> writer \<Rightarrow> Gateway \<Rightarrow> conn_outcome \<times> writer \<times> Gateway" where
  "handleAgentConnection limiter authn newID token rtoken now conn remoteAddr qstream w g =
     (if (case limiter of Some allow \<Rightarrow> \<not> allow (rate_key remoteAddr) | None \<Rightarrow> False)
      then close_conn conn ''rate limit exceeded'' w g
      else case qstream of
        Err e \<Rightarrow> close_conn conn ''failed to accept auth stream'' w g
      | Panic \<Rightarrow> (ConnPanic, w, g)
      | Ok r \<Rightarrow>
        (case ReadMessageType r of
           Ok (helloType, r) \<Rightarrow>
             if helloType = MsgHello then
               (case DecodeHello r of
                  Ok (hello, r) \<Rightarrow>
                    if hm_Version hello \<noteq> ProtocolVersion
                    then close_conn conn ''unsupported protocol version'' (snd (EncodeAuthResponse w AuthStatusVersionError [] [])) g
                    else (case ReadMessageType r of
                        Ok (msgType, r) \<Rightarrow> dispatch_first authn newID token rtoken now conn msgType r w g
                      | _ \<Rightarrow> close_conn conn ''auth failed'' w g)
                | _ \<Rightarrow> close_conn conn ''bad hello'' w g)
             else dispatch_first authn newID token rtoken now conn helloType r w g
         | _ \<Rightarrow> close_conn conn ''auth failed'' w g))"

subsection \<open>The loops of an established tunnel\<close>

datatype agent_event = CtxDone | AcceptCanceled | AcceptFailed | AgentStream reader

text \<open>One round of \<^verbatim>\<open>agentStreamLoop\<close>; the result says whether the loop goes on.\<close>

definition agent_stream :: "string result \<Rightarrow> time \<Rightarrow> string \<Rightarrow> agent_event \<Rightarrow> Gateway \<Rightarrow> bool result \<times> Gateway" where
  "agent_stream token now tunnelID ev g = (case ev of
     CtxDone \<Rightarrow> (Ok False, removeTunnel tunnelID ''shutdown'' g)
   | AcceptCanceled \<Rightarrow> (Ok False, removeTunnel tunnelID ''context_canceled'' g)
   | AcceptFailed \<Rightarrow>
       if gw_sessionResumeEnabled g \<and> gw_sessionRepo g
       then (case suspendTunnel token now tunnelID ''agent_disconnect'' g of (r, g) \<Rightarrow> (rbind r (\<lambda>_. Ok False), g))
       else (Ok False, removeTunnel tunnelID ''stream_error'' g)
   | AgentStream r \<Rightarrow> (case ReadMessageType r of
       Ok (msgType, r) \<Rightarrow>
         if msgType = MsgHeartbeat then
           (case reg_call (client_Heartbeat now tunnelID) g of
              (Ok alive, g) \<Rightarrow> if alive then (Ok True, g) else (Ok False, removeTunnel tunnelID ''session_expired'' g)
            | (_, g) \<Rightarrow> (Ok True, g))
         else (Ok True, g)
     | _ \<Rightarrow> (Ok True, g)))"

text \<open>One tick of \<^verbatim>\<open>heartbeatLoop\<close>.\<close>

definition heartbeat_tick :: "time \<Rightarrow> string \<Rightarrow> Gateway \<Rightarrow> bool \<times> Gateway" where
  "heartbeat_tick now tunnelID g = (case reg_call (client_Heartbeat now tunnelID) g of
     (Ok alive, g) \<Rightarrow>
       if \<not> alive then (False, removeTunnel tunnelID ''session_expired'' g)
       else (case getTunnel tunnelID g of
           Some av \<Rightarrow>
             if av_leaseID av \<noteq> [] then
               (case reg_call (client_RenewLease (av_leaseID av) (gw_leaseTTL g) now) g of
                  (r, g) \<Rightarrow> if is_ok r then (True, g) else (False, removeTunnel tunnelID ''lease_lost'' g))
             else (True, g)
         | None \<Rightarrow> (True, g))
   | (_, g) \<Rightarrow> (True, g))"

end
