(* ===== verification/TE_Public.thy ===== *)
theory TE_Public
  imports TE_Handshake
begin

text \<open>
  Traffic from the internet into a gateway: \<^verbatim>\<open>src/internal/gateway/public_handler.go\<close> (TLS connections routed by
  server name, with the access rules of the tunnel) and \<^verbatim>\<open>udp_handler.go\<close> (the UDP session table and its two loops).

  Inputs of a public connection: the server name its TLS handshake ends with (or an error), the client's address,
  the rules the ACL repository returns (\<open>None\<close>: no repository is configured), the QUIC stream or error
  \<^verbatim>\<open>OpenStreamSync\<close> returns, and whether the owner gateway can be dialled. The copying of bytes is the relay's part.
\<close>

subsection \<open>Access rules\<close>

primrec acl_loop :: "Addr \<Rightarrow> TunnelACL list \<Rightarrow> bool \<Rightarrow> bool" where
  "acl_loop client [] allowed = allowed"
| "acl_loop client (acl # acls) allowed = (case ParsePrefix (acl_CIDR acl) of
     None \<Rightarrow> acl_loop client acls allowed
   | Some prefix \<Rightarrow>
       if Contains prefix client then
         if acl_ACLType acl = ''deny'' then False else acl_loop client acls True
       else acl_loop client acls allowed)"

definition acl_admits :: "(string \<Rightarrow> TunnelACL list result) option \<Rightarrow> string \<Rightarrow> string \<Rightarrow> bool" where
  "acl_admits repo tunnelID remoteAddr = (case repo of
     None \<Rightarrow> True
   | Some acls_of \<Rightarrow>
       (let clientIPStr = (case SplitHostPort remoteAddr of Some (host, port) \<Rightarrow> host | None \<Rightarrow> []) in
        case ParseAddr clientIPStr of
          None \<Rightarrow> True
        | Some client \<Rightarrow> (case acls_of tunnelID of
            Ok acls \<Rightarrow> if acls = [] then True else acl_loop client acls False
          | _ \<Rightarrow> True)))"

subsection \<open>Public connections\<close>

datatype public_outcome =
    PubDropped
  | PubForwarded string
  | PubStream string string string
  | PubPanic

definition proxyToRemoteGateway :: "(string \<Rightarrow> bool) \<Rightarrow> remoteRoute \<Rightarrow> public_outcome" where
  "proxyToRemoteGateway dial remote =
     (if rr_OwnerAddr remote = [] then PubDropped
      else if dial (rr_OwnerAddr remote) then PubForwarded (rr_OwnerAddr remote) else PubDropped)"

definition handlePublicConnection ::
  "(string \<Rightarrow> TunnelACL list result) option \<Rightarrow> (string \<Rightarrow> bool) \<Rightarrow> string \<Rightarrow> time \<Rightarrow> string result \<Rightarrow> string \<Rightarrow> writer result \<Rightarrow>
     goerror option \<Rightarrow> Gateway \<Rightarrow> public_outcome \<times> Gateway" where
  "handlePublicConnection acls dial streamID now handshake remoteAddr qstream closeErr g =
     (case handshake of
        Ok hostname \<Rightarrow>
          if hostname = [] then (PubDropped, g)
          else (case LookupWithLabel (gw_router g) hostname of
            None \<Rightarrow> (case Dist_Lookup (gw_dist g) hostname of
                Some remote \<Rightarrow> (proxyToRemoteGateway dial remote, g) | None \<Rightarrow> (PubDropped, g))
          | Some (tunnelID, label) \<Rightarrow>
            (case getTunnel tunnelID g of
               None \<Rightarrow> (PubDropped, g)
             | Some av \<Rightarrow>
               if av_suspended av \<or> av_conn av = None then (PubDropped, g)
               else if gw_maxStreams g > 0 \<and> int (CountByTunnel tunnelID (gw_streams g)) \<ge> gw_maxStreams g then (PubDropped, g)
               else if gw_maxStreamsPerTunnel g > 0 \<and> int (CountByTunnel tunnelID (gw_streams g)) \<ge> gw_maxStreamsPerTunnel g
               then (PubDropped, g)
               else if \<not> acl_admits acls tunnelID remoteAddr then (PubDropped, g)
               else (case qstream of
                   Ok w \<Rightarrow> (case EncodeStreamLabel w label of
                       (Ok _, w) \<Rightarrow>
                         (case Manager_Open streamID now tunnelID closeErr (gw_streams g) of
                            (s, streams) \<Rightarrow> (PubStream (sm_ID s) tunnelID label, g\<lparr>gw_streams := streams\<rparr>))
                     | (Err e, w) \<Rightarrow> (PubDropped, g)
                     | (Panic, w) \<Rightarrow> (PubPanic, g))
                 | _ \<Rightarrow> (PubDropped, g))))
      | _ \<Rightarrow> (PubDropped, g))"

text \<open>The deferred \<^verbatim>\<open>streamManager.Close\<close> when the relay of a stream has ended.\<close>

definition public_stream_done :: "string \<Rightarrow> Gateway \<Rightarrow> Gateway" where
  "public_stream_done streamID g = g\<lparr>gw_streams := snd (Manager_Close streamID (gw_streams g))\<rparr>"

subsection \<open>UDP\<close>

record udpSession =
  us_tunnelID :: string
  us_label :: string
  us_quicConn :: nat
  us_lastSeen :: time

type_synonym UDPSessionTable = "(string, udpSession) gomap"

definition newUDPSessionTable :: UDPSessionTable where
  "newUDPSessionTable = []"

definition udpSessionKey :: "string \<Rightarrow> string \<Rightarrow> string" where
  "udpSessionKey label srcAddr = label @ ''|'' @ srcAddr"

definition udp_get :: "string \<Rightarrow> string \<Rightarrow> UDPSessionTable \<Rightarrow> udpSession option" where
  "udp_get label srcAddr t = map_of t (udpSessionKey label srcAddr)"

definition udp_set :: "string \<Rightarrow> string \<Rightarrow> udpSession \<Rightarrow> UDPSessionTable \<Rightarrow> UDPSessionTable" where
  "udp_set label srcAddr s t = mput (udpSessionKey label srcAddr) s t"

definition udp_delete :: "string \<Rightarrow> string \<Rightarrow> UDPSessionTable \<Rightarrow> UDPSessionTable" where
  "udp_delete label srcAddr t = mdel (udpSessionKey label srcAddr) t"

definition udp_idle :: "time \<Rightarrow> udpSession \<Rightarrow> bool" where
  "udp_idle now s \<longleftrightarrow> us_lastSeen s < now - 60 * 1000000000"

definition evictExpired :: "time \<Rightarrow> UDPSessionTable \<Rightarrow> nat \<times> UDPSessionTable" where
  "evictExpired now t = (length (filter (\<lambda>p. udp_idle now (snd p)) t), mkeep (\<lambda>k s. \<not> udp_idle now s) t)"

datatype udp_event = EvictTick time | ReadError | Packet time string "byte list"

text \<open>One round of \<^verbatim>\<open>udpDatagramListener\<close>: the table and the frames sent, with the connection each one went to.
  \<open>send\<close> is whether \<^verbatim>\<open>SendDatagram\<close> succeeds.\<close>

definition udp_round ::
  "(nat \<Rightarrow> byte list \<Rightarrow> bool) \<Rightarrow> udp_event \<Rightarrow> UDPSessionTable \<times> (nat \<times> byte list) list \<Rightarrow>
     UDPSessionTable \<times> (nat \<times> byte list) list" where
  "udp_round send ev st = (case st of (t, sent) \<Rightarrow>
     (case ev of
        EvictTick now \<Rightarrow> (snd (evictExpired now t), sent)
      | ReadError \<Rightarrow> (t, sent)
      | Packet now srcAddr payload \<Rightarrow>
          (case udp_get ''udp'' srcAddr t of
             None \<Rightarrow> (t, sent)
           | Some s \<Rightarrow>
               (let t = mupd (udpSessionKey ''udp'' srcAddr) (\<lambda>s. s\<lparr>us_lastSeen := now\<rparr>) t in
                case EncodeUDPDatagram \<lparr> ud_Label = us_label s, ud_SrcAddr = srcAddr, ud_Payload = payload \<rparr> of
                  Ok frame \<Rightarrow> if send (us_quicConn s) frame then (t, sent @ [(us_quicConn s, frame)])
                              else (udp_delete (us_label s) srcAddr t, sent)
                | _ \<Rightarrow> (t, sent)))))"

definition udpDatagramListener :: "(nat \<Rightarrow> byte list \<Rightarrow> bool) \<Rightarrow> udp_event list \<Rightarrow> UDPSessionTable \<times> (nat \<times> byte list) list" where
  "udpDatagramListener send evs = fold (udp_round send) evs (newUDPSessionTable, [])"

text \<open>\<^verbatim>\<open>udpDatagramForwardLoop\<close>: the payloads written to the clients; \<open>resolve\<close> is \<^verbatim>\<open>net.ResolveUDPAddr\<close>. A datagram that does not
  decode or has no valid address is skipped.\<close>

definition udp_forward :: "(string \<Rightarrow> 'addr option) \<Rightarrow> byte list \<Rightarrow> ('addr \<times> byte list) option" where
  "udp_forward resolve data = (case DecodeUDPDatagram data of
     Ok msg \<Rightarrow> (case resolve (ud_SrcAddr msg) of Some dst \<Rightarrow> Some (dst, ud_Payload msg) | None \<Rightarrow> None)
   | _ \<Rightarrow> None)"

definition udpDatagramForwardLoop :: "(string \<Rightarrow> 'addr option) \<Rightarrow> byte list list \<Rightarrow> ('addr \<times> byte list) list" where
  "udpDatagramForwardLoop resolve datagrams = List.map_filter (udp_forward resolve) datagrams"

interpretation udp_expiry: expiring_table udp_idle evictExpired
  by unfold_locales (simp_all add: evictExpired_def sweep_mkeep_count split: option.split, simp add: udp_idle_def)

subsection \<open>Properties\<close>

definition acl_hits :: "Addr \<Rightarrow> TunnelACL \<Rightarrow> bool" where
  "acl_hits client acl \<longleftrightarrow> (case ParsePrefix (acl_CIDR acl) of None \<Rightarrow> False | Some prefix \<Rightarrow> Contains prefix client)"

lemma acl_loop_Cons:
  "acl_loop client (acl # acls) allowed =
     (if acl_hits client acl then acl_ACLType acl \<noteq> ''deny'' \<and> acl_loop client acls True else acl_loop client acls allowed)"
  by (simp add: acl_hits_def split: option.split)

lemma acl_loop_iff:
  "acl_loop client acls allowed \<longleftrightarrow> \<not> (\<exists>r \<in> set acls. acl_hits client r \<and> acl_ACLType r = ''deny'') \<and>
     (allowed \<or> (\<exists>r \<in> set acls. acl_hits client r \<and> acl_ACLType r \<noteq> ''deny''))"
  by (induction acls arbitrary: allowed) (auto simp: acl_loop_Cons simp del: acl_loop.simps(2))


definition acl_example :: "TunnelACL list" where
  "acl_example = [\<lparr> acl_ID = 1, acl_TunnelID = ''t-a'', acl_ACLType = ''allow'', acl_CIDR = ''10.0.0.0/8'', acl_CreatedAt = 0 \<rparr>,
     \<lparr> acl_ID = 2, acl_TunnelID = ''t-a'', acl_ACLType = ''deny'', acl_CIDR = ''10.1.0.0/16'', acl_CreatedAt = 0 \<rparr>]"


text \<open>C19: A public connection is attached to a tunnel only if its server name is routed to it, the tunnel has a live agent
  connection and is not waiting for a resume, both stream limits leave room and the access rules admit
  the client; the tunnel then has exactly one stream more and nothing else changes.\<close>

theorem handlePublicConnection_guard:
  assumes "handlePublicConnection acls dial sid now handshake remoteAddr qstream closeErr g = (PubStream i t label, g')"
    and "map_of (mg_streams (gw_streams g)) sid = None"
  shows "\<exists>hostname av c. handshake = Ok hostname \<and> LookupWithLabel (gw_router g) hostname = Some (t, label) \<and>
    getTunnel t g = Some av \<and> \<not> av_suspended av \<and> av_conn av = Some c \<and> acl_admits acls t remoteAddr \<and>
    (gw_maxStreams g > 0 \<longrightarrow> int (CountByTunnel t (gw_streams g')) \<le> gw_maxStreams g) \<and>
    (gw_maxStreamsPerTunnel g > 0 \<longrightarrow> int (CountByTunnel t (gw_streams g')) \<le> gw_maxStreamsPerTunnel g) \<and>
    (\<forall>u. CountByTunnel u (gw_streams g') = CountByTunnel u (gw_streams g) + (if u = t then 1 else 0)) \<and>
    g' = g\<lparr>gw_streams := gw_streams g'\<rparr>"
proof -
  note run = assms(1) [unfolded handlePublicConnection_def]
  obtain hostname where h: "handshake = Ok hostname"
    using run by (cases handshake) simp_all
  have ne: "hostname \<noteq> []"
    using run by (rule contrapos_pn) (simp add: h)
  obtain t' label' where look: "LookupWithLabel (gw_router g) hostname = Some (t', label')"
    using run by (cases "LookupWithLabel (gw_router g) hostname")
      (auto simp: h ne proxyToRemoteGateway_def split: option.splits if_splits)
  obtain av where av: "getTunnel t' g = Some av"
    using run by (cases "getTunnel t' g") (simp_all add: h ne look)
  have live: "\<not> (av_suspended av \<or> av_conn av = None)"
    using run by (rule contrapos_pn) (simp add: h ne look av)
  have lim1: "\<not> (gw_maxStreams g > 0 \<and> int (CountByTunnel t' (gw_streams g)) \<ge> gw_maxStreams g)"
    using run by (rule contrapos_pn) (simp add: h ne look av live)
  have lim2: "\<not> (gw_maxStreamsPerTunnel g > 0 \<and> int (CountByTunnel t' (gw_streams g)) \<ge> gw_maxStreamsPerTunnel g)"
    using run by (rule contrapos_pn) (simp add: h ne look av live lim1)
  have acl: "acl_admits acls t' remoteAddr"
    using run by (rule contrapos_pp) (simp add: h ne look av live lim1 lim2)
  obtain w where q: "qstream = Ok w"
    using run by (cases qstream) (simp_all add: h ne look av live lim1 lim2 acl)
  obtain r w' where enc: "EncodeStreamLabel w label' = (r, w')" by (cases "EncodeStreamLabel w label'")
  have "PubStream sid t' label' = PubStream i t label \<and> g\<lparr>gw_streams := snd (Manager_Open sid now t' closeErr (gw_streams g))\<rparr> = g'"
    using run by (cases r) (simp_all add: h ne look av live lim1 lim2 acl q enc Manager_Open_def Let_def, clarify)
  then have g': "g' = g\<lparr>gw_streams := snd (Manager_Open sid now t closeErr (gw_streams g))\<rparr>" and t: "t' = t" "label' = label"
    by auto
  have "CountByTunnel u (gw_streams g') = CountByTunnel u (gw_streams g) + (if u = t then 1 else 0)" for u
    using assms(2) by (simp add: g' t Manager_Open_def CountByTunnel_def mput_def mdel_absent Let_def)
  with h look av live acl lim1 lim2 show ?thesis
    unfolding t by (intro exI [of _ hostname] exI [of _ av] exI [of _ "the (av_conn av)"]) (auto simp: g' t)
qed

definition gateway_options :: Options where
  "gateway_options = \<lparr> op_BaseDomain = ''ex.io'', op_PublicListenAddr = '':443'', op_MaxStreams = 2, op_ShutdownTimeout = 0,
     op_StreamIdleTimeout = 0, op_RelayID = ''r1'', op_AdvertiseAddr = [], op_LeaseTTL = 0, op_HealthReportInterval = 0,
     op_MaxTunnelsPerAgent = 0, op_MaxStreamsPerTunnel = 0, op_Region = [], op_SessionResumeEnabled = True, op_SessionResumeTTL = 0,
     op_SessionRepo = True \<rparr>"

definition tunnel_a :: ActiveTunnel where
  "tunnel_a = \<lparr> at_ID = ''t-a'', at_AgentID = ''a'', at_Routes = [\<lparr> rt_Label = ''web'', rt_LocalAddr = ''l:1'', rt_TunnelType = ''tcp'' \<rparr>],
     at_PublicHosts = [], at_CreatedAt = 0 \<rparr>"

definition gateway_a :: Gateway where
  "gateway_a = (addTunnel tunnel_a 7 ''l1'' (NewGateway gateway_options server_example True))
     \<lparr>gw_router := \<lparr> tr_hostMap = [(''web-a.ex.io'', \<lparr> rk_TunnelID = ''t-a'', rk_Label = ''web'' \<rparr>)], tr_domain = ''ex.io'' \<rparr>\<rparr>"

definition public_a :: "public_outcome \<times> Gateway" where
  "public_a = handlePublicConnection None (\<lambda>_. False) ''s1'' 5 (Ok ''web-a.ex.io'') ''1.2.3.4:5'' (Ok fresh_writer) None gateway_a"

lemma public_a_outcome: "fst public_a = PubStream ''s1'' ''t-a'' ''web''"
proof -
  obtain w where enc: "EncodeStreamLabel fresh_writer ''web'' = (Ok (), w)"
    by (simp add: EncodeStreamLabel_def label_buf_frame label_valid_def maxLabelLen_def send_frame_def Write_def fresh_writer_def)
  show ?thesis
    by (simp add: public_a_def handlePublicConnection_def gateway_a_def LookupWithLabel_def getTunnel_def addTunnel_def NewGateway_def
        NewManager_def CountByTunnel_def acl_admits_def Manager_Open_def tunnel_a_def mput_def mdel_def enc gateway_options_def Let_def)
qed

theorem handlePublicConnection_guard_witness: "CountByTunnel ''t-a'' (gw_streams (snd public_a)) = 1"
proof -
  let ?r = "handlePublicConnection None (\<lambda>_. False) ''s1'' 5 (Ok ''web-a.ex.io'') ''1.2.3.4:5'' (Ok fresh_writer) None gateway_a"
  have "fst ?r = PubStream ''s1'' ''t-a'' ''web''"
    using public_a_outcome by (simp add: public_a_def)
  then have run: "?r = (PubStream ''s1'' ''t-a'' ''web'', snd ?r)" by (metis prod.collapse)
  have empty: "mg_streams (gw_streams gateway_a) = []"
    by (simp add: gateway_a_def addTunnel_def NewGateway_def NewManager_def)
  show ?thesis
    using handlePublicConnection_guard [OF run] by (auto simp: public_a_def empty CountByTunnel_def [of _ "gw_streams gateway_a"])
qed

lemma udp_listener_idle: "fold (udp_round send) evs ([], sent) = ([], sent)"
  by (induction evs) (auto simp: udp_round_def evictExpired_def mkeep_def udp_get_def split: udp_event.split)

text \<open>The UDP listener of the gateway never forwards a datagram. Its session table starts empty and no path of the loop adds
  an entry, so every packet, from any source and after any history, is dropped.\<close>

theorem udpDatagramListener_forwards_nothing:
  "udpDatagramListener send evs = (newUDPSessionTable, [])"
  unfolding udpDatagramListener_def newUDPSessionTable_def by (rule udp_listener_idle)

text \<open>With an entry in the table the same loop would forward: the frame decodes to the packet.\<close>

lemma udp_round_forwards:
  assumes "udp_get ''udp'' src t = Some s" and "EncodeUDPDatagram \<lparr> ud_Label = us_label s, ud_SrcAddr = src, ud_Payload = p \<rparr> = Ok frame"
    and "send (us_quicConn s) frame"
  shows "snd (udp_round send (Packet now src p) (t, sent)) = sent @ [(us_quicConn s, frame)]"
  using assms by (simp add: udp_round_def)

end
