(* ===== verification/TE_Lifecycle.thy ===== *)
theory TE_Lifecycle
  imports TE_Public
begin

text \<open>
  Properties of a running gateway: the invariant that ties its tunnels, routes, streams and the registry together, what
  removing a tunnel leaves behind, and how session resume behaves.
\<close>

subsection \<open>Frames\<close>

lemma reg_call_frame [simp]:
  "gw_tunnels (snd (reg_call f g)) = gw_tunnels g" "gw_router (snd (reg_call f g)) = gw_router g"
  "gw_dist (snd (reg_call f g)) = gw_dist g" "gw_streams (snd (reg_call f g)) = gw_streams g"
  "gw_regUp (snd (reg_call f g)) = gw_regUp g" "gw_timers (snd (reg_call f g)) = gw_timers g"
  "gw_armed (snd (reg_call f g)) = gw_armed g" "gw_activeGauge (snd (reg_call f g)) = gw_activeGauge g"
  "gw_connsClosed (snd (reg_call f g)) = gw_connsClosed g" "gw_sessionRepo (snd (reg_call f g)) = gw_sessionRepo g"
  "gw_sessionResumeEnabled (snd (reg_call f g)) = gw_sessionResumeEnabled g"
  "gw_sessionResumeTTL (snd (reg_call f g)) = gw_sessionResumeTTL g"
  by (simp_all add: reg_call_def split: prod.split)

lemma reg_call_registry: "gw_registry (snd (reg_call f g)) = (if gw_regUp g then snd (f (gw_registry g)) else gw_registry g)"
  by (simp add: reg_call_def split: prod.split)

lemma reg_call_result:
  "fst (reg_call f g) = (if gw_regUp g then fst (f (gw_registry g)) else Err (StatusErr GUnavailable ''registry unavailable''))"
  by (simp add: reg_call_def split: prod.split)

lemma CloseWithError_frame [simp]:
  "gw_tunnels (CloseWithError c r g) = gw_tunnels g" "gw_router (CloseWithError c r g) = gw_router g"
  "gw_dist (CloseWithError c r g) = gw_dist g" "gw_streams (CloseWithError c r g) = gw_streams g"
  "gw_regUp (CloseWithError c r g) = gw_regUp g" "gw_registry (CloseWithError c r g) = gw_registry g"
  "gw_timers (CloseWithError c r g) = gw_timers g" "gw_armed (CloseWithError c r g) = gw_armed g"
  "gw_activeGauge (CloseWithError c r g) = gw_activeGauge g" "gw_sessionRepo (CloseWithError c r g) = gw_sessionRepo g"
  "gw_sessionResumeEnabled (CloseWithError c r g) = gw_sessionResumeEnabled g"
  "gw_sessionResumeTTL (CloseWithError c r g) = gw_sessionResumeTTL g"
  by (simp_all add: CloseWithError_def split: option.split)

lemma stop_timer_frame [simp]:
  "gw_tunnels (stop_timer t g) = gw_tunnels g" "gw_router (stop_timer t g) = gw_router g"
  "gw_dist (stop_timer t g) = gw_dist g" "gw_streams (stop_timer t g) = gw_streams g"
  "gw_regUp (stop_timer t g) = gw_regUp g" "gw_registry (stop_timer t g) = gw_registry g"
  "gw_activeGauge (stop_timer t g) = gw_activeGauge g" "gw_sessionRepo (stop_timer t g) = gw_sessionRepo g"
  "gw_sessionResumeEnabled (stop_timer t g) = gw_sessionResumeEnabled g"
  "gw_sessionResumeTTL (stop_timer t g) = gw_sessionResumeTTL g"
  by (simp_all add: stop_timer_def split: option.split)

definition release_and_deregister :: "string \<Rightarrow> string \<Rightarrow> Server \<Rightarrow> Server" where
  "release_and_deregister leaseID tunnelID s =
     snd (client_DeregisterTunnel tunnelID (if leaseID \<noteq> [] then snd (client_ReleaseLease leaseID s) else s))"

lemma tear_down_frame [simp]:
  "gw_tunnels (tear_down t r av g) = mdel t (gw_tunnels g)"
  "gw_router (tear_down t r av g) = DeregisterAll t (gw_router g)"
  "gw_streams (tear_down t r av g) = CloseByTunnel t (gw_streams g)"
  "gw_regUp (tear_down t r av g) = gw_regUp g" "gw_dist (tear_down t r av g) = gw_dist g"
  "gw_timers (tear_down t r av g) = gw_timers g" "gw_armed (tear_down t r av g) = gw_armed g"
  "gw_activeGauge (tear_down t r av g) = gw_activeGauge g - 1"
  "gw_registry (tear_down t r av g) =
     (if gw_regUp g then release_and_deregister (av_leaseID av) t (gw_registry g) else gw_registry g)"
  by (simp_all add: tear_down_def Let_def reg_call_registry release_and_deregister_def)

subsection \<open>The invariant\<close>

text \<open>Tunnels are stored under their own id, which is the id of their agent, and are suspended exactly if they have no
  connection; routes and streams belong to tunnels the gateway has.\<close>

definition gw_ok :: "Server \<Rightarrow> Manager \<Rightarrow> (string, activeTunnel) gomap \<Rightarrow> (string, routeKey) gomap \<Rightarrow> bool" where
  "gw_ok reg streams tunnels hosts \<longleftrightarrow> reg_inv reg \<and> manager_inv streams \<and> mwf tunnels \<and> mwf hosts \<and>
     (\<forall>t av. map_of tunnels t = Some av \<longrightarrow> at_ID (av_tunnel av) = t \<and> t = NewTunnelID (at_AgentID (av_tunnel av)) \<and>
        (av_suspended av \<longleftrightarrow> av_conn av = None)) \<and>
     (\<forall>h k. map_of hosts h = Some k \<longrightarrow> map_of tunnels (rk_TunnelID k) \<noteq> None) \<and>
     (\<forall>i s. map_of (mg_streams streams) i = Some s \<longrightarrow> map_of tunnels (sm_TunnelID s) \<noteq> None)"

definition gw_inv :: "Gateway \<Rightarrow> bool" where
  "gw_inv g \<longleftrightarrow> gw_ok (gw_registry g) (gw_streams g) (gw_tunnels g) (tr_hostMap (gw_router g))"

lemma gw_okI:
  assumes "reg_inv reg" and "manager_inv streams" and "mwf tunnels" and "mwf hosts"
    and "\<And>t av. map_of tunnels t = Some av \<Longrightarrow> at_ID (av_tunnel av) = t \<and> t = NewTunnelID (at_AgentID (av_tunnel av)) \<and>
        (av_suspended av \<longleftrightarrow> av_conn av = None)"
    and "\<And>h k. map_of hosts h = Some k \<Longrightarrow> map_of tunnels (rk_TunnelID k) \<noteq> None"
    and "\<And>i s. map_of (mg_streams streams) i = Some s \<Longrightarrow> map_of tunnels (sm_TunnelID s) \<noteq> None"
  shows "gw_ok reg streams tunnels hosts"
  using assms by (simp add: gw_ok_def)

lemma gw_okD:
  assumes "gw_ok reg streams tunnels hosts"
  shows "reg_inv reg" and "manager_inv streams" and "mwf tunnels" and "mwf hosts"
    and "\<And>t av. map_of tunnels t = Some av \<Longrightarrow> at_ID (av_tunnel av) = t \<and> t = NewTunnelID (at_AgentID (av_tunnel av)) \<and>
        (av_suspended av \<longleftrightarrow> av_conn av = None)"
    and "\<And>h k. map_of hosts h = Some k \<Longrightarrow> map_of tunnels (rk_TunnelID k) \<noteq> None"
    and "\<And>i s. map_of (mg_streams streams) i = Some s \<Longrightarrow> map_of tunnels (sm_TunnelID s) \<noteq> None"
  using assms by (simp_all add: gw_ok_def)

lemma gw_ok_registry: "gw_ok reg streams tunnels hosts \<Longrightarrow> reg_inv reg' \<Longrightarrow> gw_ok reg' streams tunnels hosts"
  by (simp add: gw_ok_def)

text \<open>Removing some routes, or all of a tunnel, keeps the invariant.\<close>

lemma gw_ok_fewer_hosts:
  assumes "gw_ok reg streams tunnels hosts" and "mwf hosts'" and "\<And>h k. map_of hosts' h = Some k \<Longrightarrow> map_of hosts h = Some k"
  shows "gw_ok reg streams tunnels hosts'"
  using assms(2) gw_okD [OF assms(1)] assms(3) by (intro gw_okI) blast+

lemma close_by_tunnel_lookup:
  assumes "manager_inv m"
  shows "manager_inv (CloseByTunnel t m)" and "map_of (mg_streams (CloseByTunnel t m)) i =
    (case map_of (mg_streams m) i of None \<Rightarrow> None | Some s \<Rightarrow> if sm_TunnelID s = t then None else Some s)"
proof -
  have mem: "(i, s) \<in> set (mg_streams m) \<longleftrightarrow> map_of (mg_streams m) i = Some s" for i s
    using assms by (intro in_set_mwf) (simp add: manager_inv_def)
  have d: "distinct (map fst (mg_streams m))"
    using assms by (simp add: manager_inv_def mwf_def)
  note spec = close_range_spec [OF assms mem [THEN iffD1] d, of "\<lambda>s. sm_TunnelID s = t"]
  show "manager_inv (CloseByTunnel t m)"
    using spec by (simp add: CloseByTunnel_def)
  have eq: "mg_streams (CloseByTunnel t m) = filter (\<lambda>p. sm_TunnelID (snd p) \<noteq> t) (mg_streams m)"
    using spec unfolding CloseByTunnel_def by (auto intro: filter_cong)
  have "map_of (filter (\<lambda>p. sm_TunnelID (snd p) \<noteq> t) xs) i =
      (case map_of xs i of None \<Rightarrow> None | Some s \<Rightarrow> if sm_TunnelID s = t then None else Some s)"
    if "distinct (map fst xs)" for xs :: "(string \<times> Stream) list"
    using that by (induction xs) (auto split: option.splits simp: map_of_eq_None_iff image_iff)
  from this [OF d] show "map_of (mg_streams (CloseByTunnel t m)) i =
    (case map_of (mg_streams m) i of None \<Rightarrow> None | Some s \<Rightarrow> if sm_TunnelID s = t then None else Some s)"
    by (simp add: eq)
qed

lemma DeregisterAll_lookup:
  "mwf (tr_hostMap r) \<Longrightarrow> map_of (tr_hostMap (DeregisterAll t r)) h =
     (case map_of (tr_hostMap r) h of None \<Rightarrow> None | Some k \<Rightarrow> if rk_TunnelID k = t then None else Some k)"
  "mwf (tr_hostMap r) \<Longrightarrow> mwf (tr_hostMap (DeregisterAll t r))"
  by (auto simp: DeregisterAll_def drop_tunnel_hosts_def split: option.split)

lemma gw_ok_remove:
  assumes "gw_ok reg streams tunnels (tr_hostMap router)" and "reg_inv reg'"
  shows "gw_ok reg' (CloseByTunnel t streams) (mdel t tunnels) (tr_hostMap (DeregisterAll t router))"
proof (rule gw_okI)
  note ok = gw_okD [OF assms(1)]
  show "reg_inv reg'" by (rule assms(2))
  show "manager_inv (CloseByTunnel t streams)" by (rule close_by_tunnel_lookup(1) [OF ok(2)])
  show "mwf (mdel t tunnels)" "mwf (tr_hostMap (DeregisterAll t router))"
    using ok(3,4) by (simp_all add: DeregisterAll_lookup)
  fix h k assume "map_of (tr_hostMap (DeregisterAll t router)) h = Some k"
  then show "map_of (mdel t tunnels) (rk_TunnelID k) \<noteq> None"
    using ok(6) by (auto simp: DeregisterAll_lookup [OF ok(4)] split: option.splits if_splits)
next
  note ok = gw_okD [OF assms(1)]
  fix i s assume "map_of (mg_streams (CloseByTunnel t streams)) i = Some s"
  then show "map_of (mdel t tunnels) (sm_TunnelID s) \<noteq> None"
    using ok(7) by (auto simp: close_by_tunnel_lookup [OF ok(2)] split: option.splits if_splits)
qed (use gw_okD(5) [OF assms(1)] in \<open>auto split: if_splits\<close>)

subsection \<open>The registry behind the client\<close>

lemma client_inv:
  assumes "reg_inv s"
  shows "reg_inv (snd (client_ReleaseLease l s))" and "reg_inv (snd (client_DeregisterTunnel t s))"
    and "reg_inv (snd (client_Heartbeat now t s))" and "reg_inv (snd (client_RenewLease l ttl now s))"
    and "reg_inv (snd (client_ReportRelayHealth now now1 r h s))"
    and "reg_inv (snd (client_RegisterTunnel now n1 n2 t a p q s))"
    and "i \<noteq> [] \<Longrightarrow> map_of (mc_leasesByID (sv_coord s)) i = None \<Longrightarrow> reg_inv (snd (client_AcquireLease i now req s))"
proof -
  show "reg_inv (snd (client_ReleaseLease l s))"
    using reg_step_inv [OF step_Release assms] by (simp add: client_ReleaseLease_def)
  show "reg_inv (snd (client_DeregisterTunnel t s))"
    using reg_step_inv [OF step_Deregister assms] by (simp add: client_DeregisterTunnel_def)
  show "reg_inv (snd (client_Heartbeat now t s))"
    using reg_step_inv [OF step_Heartbeat assms, of now t] by (simp add: client_Heartbeat_def split: prod.split) (metis snd_conv)
  show "reg_inv (snd (client_RenewLease l ttl now s))"
    using reg_step_inv [OF step_Renew assms] by (simp add: client_RenewLease_def split: prod.split) (metis snd_conv)
  show "reg_inv (snd (client_ReportRelayHealth now now1 r h s))"
    using reg_step_inv [OF step_Report assms] by (simp add: client_ReportRelayHealth_def)
  show "reg_inv (snd (client_RegisterTunnel now n1 n2 t a p q s))"
    using reg_step_inv [OF step_Register assms] by (simp add: client_RegisterTunnel_def split: prod.split result.split) (metis snd_conv)
  show "reg_inv (snd (client_AcquireLease i now req s))" if "i \<noteq> []" "map_of (mc_leasesByID (sv_coord s)) i = None"
    using reg_step_inv [OF step_Acquire [OF that] assms] by (simp add: client_AcquireLease_def split: prod.split) (metis snd_conv)
qed

lemma release_and_deregister_inv: "reg_inv s \<Longrightarrow> reg_inv (release_and_deregister l t s)"
  by (simp add: release_and_deregister_def client_inv)

lemma reg_call_inv: "reg_inv (gw_registry g) \<Longrightarrow> reg_inv (snd (f (gw_registry g))) \<Longrightarrow> reg_inv (gw_registry (snd (reg_call f g)))"
  by (simp add: reg_call_registry)

subsection \<open>Preservation\<close>

lemma tear_down_inv: "gw_inv g \<Longrightarrow> gw_inv (tear_down t r av g)"
  unfolding gw_inv_def tear_down_frame
  by (rule gw_ok_remove) (simp_all add: gw_okD(1) release_and_deregister_inv)

lemma removeTunnel_inv: "gw_inv g \<Longrightarrow> gw_inv (removeTunnel t r g)"
  by (simp add: removeTunnel_def tear_down_inv split: option.split)

lemma stop_timer_inv [simp]: "gw_inv (stop_timer t g) = gw_inv g"
  by (simp add: gw_inv_def)

lemma CloseWithError_inv [simp]: "gw_inv (CloseWithError c r g) = gw_inv g"
  by (simp add: gw_inv_def)

lemma gw_inv_update [simp]:
  "gw_inv (g\<lparr>gw_armed := x\<rparr>) = gw_inv g" "gw_inv (g\<lparr>gw_timers := y\<rparr>) = gw_inv g" "gw_inv (g\<lparr>gw_nextTimer := n\<rparr>) = gw_inv g"
  "gw_inv (g\<lparr>gw_dist := d\<rparr>) = gw_inv g" "gw_inv (g\<lparr>gw_regUp := u\<rparr>) = gw_inv g" "gw_inv (g\<lparr>gw_activeGauge := i\<rparr>) = gw_inv g"
  by (simp_all add: gw_inv_def)

lemma gw_inv_registry: "gw_inv g \<Longrightarrow> reg_inv s \<Longrightarrow> gw_inv (g\<lparr>gw_registry := s\<rparr>)"
  by (simp add: gw_inv_def gw_ok_registry)

lemma gw_inv_reg: "gw_inv g \<Longrightarrow> reg_inv (gw_registry g)"
  by (simp add: gw_inv_def gw_okD(1))

lemma gw_inv_reg_call: "gw_inv g \<Longrightarrow> reg_inv (snd (f (gw_registry g))) \<Longrightarrow> gw_inv (snd (reg_call f g))"
  using gw_inv_registry [of g "snd (f (gw_registry g))"] by (cases "f (gw_registry g)") (simp add: reg_call_def)

lemma finalizeTunnelRemoval_inv: "gw_inv g \<Longrightarrow> gw_inv (finalizeTunnelRemoval t r g)"
  by (simp add: finalizeTunnelRemoval_def Let_def tear_down_inv split: option.split)

lemma fire_timer_inv: "gw_inv g \<Longrightarrow> gw_inv (fire_timer t g)"
  by (simp add: fire_timer_def finalizeTunnelRemoval_inv split: option.split prod.split)

lemma report_health_inv: "gw_inv g \<Longrightarrow> gw_inv (report_health now g)"
  by (simp add: report_health_def Let_def gw_inv_reg_call client_inv gw_inv_reg)

lemma SetResumable_inv: "gw_inv g \<Longrightarrow> gw_inv (snd (repo_SetResumable t tok d g))"
  using repo_inv_SetResumable [of "sv_store (gw_registry g)" t tok d]
  by (auto simp: repo_SetResumable_def gw_inv_def gw_ok_def reg_inv_def split: prod.split)

lemma repo_SetResumable_frame [simp]:
  "sv_coord (gw_registry (snd (repo_SetResumable t tok d g))) = sv_coord (gw_registry g)"
  "gw_tunnels (snd (repo_SetResumable t tok d g)) = gw_tunnels g"
  "gw_armed (snd (repo_SetResumable t tok d g)) = gw_armed g"
  by (simp_all add: repo_SetResumable_def split: prod.split)

lemma suspend_inv:
  assumes "gw_inv g" and "b \<longleftrightarrow> c = None"
  shows "gw_inv (g\<lparr>gw_tunnels := mupd t (\<lambda>av. av\<lparr>av_conn := c, av_suspended := b\<rparr>) (gw_tunnels g)\<rparr>)"
  using assms by (auto simp: gw_inv_def gw_ok_def split: if_splits)

lemma close_streams_inv: "gw_inv g \<Longrightarrow> gw_inv (g\<lparr>gw_streams := CloseByTunnel t (gw_streams g)\<rparr>)"
  using close_by_tunnel_lookup [of "gw_streams g" t]
  by (auto simp: gw_inv_def gw_ok_def split: option.splits if_splits)

lemma suspendTunnel_inv:
  assumes "gw_inv g"
  shows "gw_inv (snd (suspendTunnel token now t r g))"
proof (cases "map_of (gw_tunnels g) t")
  case None
  with assms show ?thesis by (simp add: suspendTunnel_def)
next
  case (Some av)
  show ?thesis
  proof (cases "\<exists>tok c. token = Ok tok \<and> av_conn av = Some c")
    case False
    with Some assms show ?thesis
      by (auto simp: suspendTunnel_def removeTunnel_inv split: result.split option.split)
  next
    case True
    then obtain tok c where tc: "token = Ok tok" "av_conn av = Some c" by blast
    let ?g1 = "CloseWithError (Some c) r g"
    let ?g = "?g1\<lparr>gw_tunnels := mupd t (\<lambda>av. av\<lparr>av_conn := None, av_suspended := True\<rparr>) (gw_tunnels ?g1),
                   gw_streams := CloseByTunnel t (gw_streams ?g1)\<rparr>"
    have "gw_inv (?g1\<lparr>gw_tunnels := mupd t (\<lambda>av. av\<lparr>av_conn := None, av_suspended := True\<rparr>) (gw_tunnels ?g1)\<rparr>)"
      using assms by (intro suspend_inv) simp_all
    from close_streams_inv [OF this, of t] have inv: "gw_inv ?g" by simp
    obtain x g2 where s: "repo_SetResumable t tok (now + gw_sessionResumeTTL ?g) ?g = (x, g2)"
      by (cases "repo_SetResumable t tok (now + gw_sessionResumeTTL ?g) ?g")
    with SetResumable_inv [OF inv] have "gw_inv g2" by (metis snd_conv)
    with s Some tc show ?thesis
      by (simp add: suspendTunnel_def Let_def removeTunnel_inv arm_timer_def)
  qed
qed

lemma fold_removeTunnel_inv: "gw_inv g \<Longrightarrow> gw_inv (fold (\<lambda>i. removeTunnel i r) is g)"
  by (induction "is" arbitrary: g) (simp_all add: removeTunnel_inv)

lemma manager_inv_CloseAll:
  assumes "manager_inv m"
  shows "manager_inv (CloseAll m) \<and> mg_streams (CloseAll m) = []"
proof -
  have mem: "(i, s) \<in> set (mg_streams m) \<longleftrightarrow> map_of (mg_streams m) i = Some s" for i s
    using assms by (intro in_set_mwf) (simp add: manager_inv_def)
  have d: "distinct (map fst (mg_streams m))"
    using assms by (simp add: manager_inv_def mwf_def)
  from close_range_spec [OF assms mem [THEN iffD1] d, of "\<lambda>s. True"] show ?thesis
    by (simp add: CloseAll_def)
qed

lemma closeAll_inv: "gw_inv g \<Longrightarrow> gw_inv (closeAll g)"
  using fold_removeTunnel_inv [of g "''shutdown''" "map fst (gw_tunnels g)"]
    manager_inv_CloseAll [of "gw_streams (fold (\<lambda>i. removeTunnel i ''shutdown'') (map fst (gw_tunnels g)) g)"]
  by (simp add: closeAll_def Let_def gw_inv_def gw_ok_def)

text \<open>Registering the labels of a tunnel adds routes of that tunnel only.\<close>

lemma register_labels_spec:
  assumes "l' = register_labels port ts l"
  shows "at_ID (vl_tunnel l') = at_ID (vl_tunnel l) \<and> at_AgentID (vl_tunnel l') = at_AgentID (vl_tunnel l) \<and>
    (mwf (tr_hostMap (vl_router l)) \<longrightarrow> mwf (tr_hostMap (vl_router l'))) \<and>
    (\<forall>h k. map_of (tr_hostMap (vl_router l')) h = Some k \<longrightarrow>
       map_of (tr_hostMap (vl_router l)) h = Some k \<or> rk_TunnelID k = at_ID (vl_tunnel l))"
  using assms
proof (induction ts arbitrary: l)
  case Nil
  then show ?case by simp
next
  case (Cons t ts)
  obtain hostname router where r: "RegisterLabel (at_ID (vl_tunnel l)) (te_Label t) (vl_router l) = (hostname, router)"
    by (cases "RegisterLabel (at_ID (vl_tunnel l)) (te_Label t) (vl_router l)")
  obtain m where m: "l' = register_labels port ts m" and tun: "at_ID (vl_tunnel m) = at_ID (vl_tunnel l)"
    "at_AgentID (vl_tunnel m) = at_AgentID (vl_tunnel l)" and router: "vl_router m = router"
    using Cons.prems by (simp add: r Let_def)
  have "mwf (tr_hostMap (vl_router l)) \<longrightarrow> mwf (tr_hostMap router)"
    and "\<And>h k. map_of (tr_hostMap router) h = Some k \<Longrightarrow> map_of (tr_hostMap (vl_router l)) h = Some k \<or> rk_TunnelID k = at_ID (vl_tunnel l)"
    using r by (auto simp: RegisterLabel_def Let_def split: if_splits)
  with Cons.IH [OF m] show ?case
    unfolding tun router by blast
qed

lemma addTunnel_ok:
  assumes "gw_ok reg streams tunnels hosts" and "at_ID tunnel = NewTunnelID (at_AgentID tunnel)" and "reg_inv reg'"
    and "mwf hosts'" and "\<And>h k. map_of hosts' h = Some k \<Longrightarrow> map_of hosts h = Some k \<or> rk_TunnelID k = at_ID tunnel"
    and "av_tunnel av = tunnel" and "av_suspended av \<longleftrightarrow> av_conn av = None"
  shows "gw_ok reg' streams (mput (at_ID tunnel) av tunnels) hosts'"
proof (rule gw_okI)
  note ok = gw_okD [OF assms(1)]
  show "reg_inv reg'" "manager_inv streams" "mwf (mput (at_ID tunnel) av tunnels)" "mwf hosts'"
    using assms(3,4) ok by simp_all
  fix h k assume "map_of hosts' h = Some k"
  then show "map_of (mput (at_ID tunnel) av tunnels) (rk_TunnelID k) \<noteq> None"
    using assms(5) ok(6) by fastforce
next
  note ok = gw_okD [OF assms(1)]
  fix t b assume "map_of (mput (at_ID tunnel) av tunnels) t = Some b"
  then show "at_ID (av_tunnel b) = t \<and> t = NewTunnelID (at_AgentID (av_tunnel b)) \<and> (av_suspended b \<longleftrightarrow> av_conn b = None)"
    using ok(5) assms(2,6,7) by (auto split: if_splits)
next
  fix i s assume "map_of (mg_streams streams) i = Some s"
  then show "map_of (mput (at_ID tunnel) av tunnels) (sm_TunnelID s) \<noteq> None"
    using gw_okD(7) [OF assms(1)] by simp
qed

lemma mupd_mput_inv_frame [simp]:
  "gw_registry (addTunnel tun c l g) = gw_registry g" "gw_streams (addTunnel tun c l g) = gw_streams g"
  "gw_router (addTunnel tun c l g) = gw_router g" "gw_armed (addTunnel tun c l g) = gw_armed g"
  "gw_sessionResumeTTL (addTunnel tun c l g) = gw_sessionResumeTTL g" "gw_regUp (addTunnel tun c l g) = gw_regUp g"
  by (simp_all add: addTunnel_def)

lemma NewActiveTunnel_ids [simp]:
  "at_ID (NewActiveTunnel now a rs) = NewTunnelID a" "at_AgentID (NewActiveTunnel now a rs) = a"
  by (simp_all add: NewActiveTunnel_def)

abbreviation fresh_lease :: "string \<Rightarrow> Gateway \<Rightarrow> bool" where
  "fresh_lease i g \<equiv> i \<noteq> [] \<and> map_of (mc_leasesByID (sv_coord (gw_registry g))) i = None"

lemma acquire_inv:
  assumes "reg_inv (gw_registry g)" and "fresh_lease i g" and "acquireTunnelLease i now t g = (r, g')"
  shows "reg_inv (gw_registry g')" and "g' = g\<lparr>gw_registry := gw_registry g'\<rparr>"
proof -
  let ?f = "client_AcquireLease i now \<lparr> lr_TunnelID = t, lr_RelayID = gw_relayID g, lr_TTL = gw_leaseTTL g \<rparr>"
  have "g' = snd (reg_call ?f g)"
    using assms(3) by (simp add: acquireTunnelLease_def)
  with assms(1,2) show "reg_inv (gw_registry g')" "g' = g\<lparr>gw_registry := gw_registry g'\<rparr>"
    by (simp_all add: reg_call_registry client_inv) (simp add: reg_call_def split: prod.split)
qed

lemma handleV1Auth_inv:
  assumes "gw_inv g" and "fresh_lease i g" and "handleV1Auth authn i now conn r w g = (y, w', g')" and "y \<noteq> Panic"
  shows "gw_inv g'"
proof -
  note run1 = assms(3) [unfolded handleV1Auth_def Let_def] and run = assms(3,4)
  show ?thesis
  proof (cases "\<exists>m r' a. DecodeAuth r = Ok (m, r') \<and> authn (am_Token m) = Ok a")
    case False
    then have "g' = g"
      using run1 by (auto split: result.splits)
    with assms(1) show ?thesis by simp
  next
    case True
    then obtain m r' a where dec: "DecodeAuth r = Ok (m, r')" "authn (am_Token m) = Ok a" by blast
    let ?t = "NewTunnelID a"
    obtain host router where reg: "Router_Register ?t (gw_router g) = (host, router)"
      by (cases "Router_Register ?t (gw_router g)")
    have hosts: "mwf (tr_hostMap router)"
      "\<And>h k. map_of (tr_hostMap router) h = Some k \<Longrightarrow> map_of (tr_hostMap (gw_router g)) h = Some k \<or> rk_TunnelID k = ?t"
      "\<And>h k. map_of (tr_hostMap (Router_Deregister ?t router)) h = Some k \<Longrightarrow> map_of (tr_hostMap (gw_router g)) h = Some k"
      using reg gw_okD(4) [OF assms(1) [unfolded gw_inv_def]]
      by (auto simp: Router_Register_def Router_Deregister_def HostnameForTunnel_def Let_def split: if_splits)
    obtain l g2 where acq: "acquireTunnelLease i now ?t (g\<lparr>gw_router := router\<rparr>) = (l, g2)"
      by (cases "acquireTunnelLease i now ?t (g\<lparr>gw_router := router\<rparr>)")
    have g2: "reg_inv (gw_registry g2)" "g2 = g\<lparr>gw_router := router, gw_registry := gw_registry g2\<rparr>"
      using acquire_inv [OF _ _ acq] assms(1,2) by (simp_all add: gw_inv_reg)
    have ok: "gw_ok (gw_registry g) (gw_streams g) (gw_tunnels g) (tr_hostMap (gw_router g))"
      using assms(1) by (simp add: gw_inv_def)
    have dereg: "gw_inv (g2\<lparr>gw_router := Router_Deregister ?t (gw_router g2)\<rparr>)"
      unfolding gw_inv_def
      by (subst g2(2), subst (2) g2(2), subst (3) g2(2), subst (4) g2(2))
        (simp, rule gw_ok_registry [OF gw_ok_fewer_hosts [OF ok]], use hosts g2(1) in \<open>simp_all add: Router_Deregister_def\<close>)
    show ?thesis
    proof (cases l)
      case (Err e)
      with run1 dec reg acq have "g' = g2\<lparr>gw_router := Router_Deregister ?t (gw_router g2)\<rparr>" by simp
      with dereg show ?thesis by simp
    next
      case Panic
      with run1 run(2) dec reg acq show ?thesis by simp
    next
      case (Ok lease)
      let ?url = "host @ '':'' @ publicPort (gw_publicListenAddr g)"
      obtain z w2 where enc: "EncodeAuthResponse w AuthStatusOK ?t ?url = (z, w2)"
        by (cases "EncodeAuthResponse w AuthStatusOK ?t ?url")
      show ?thesis
      proof (cases z)
        case (Err e)
        with run1 dec reg acq Ok enc
        have "g' = snd (reg_call (client_ReleaseLease (le_LeaseID lease)) (g2\<lparr>gw_router := Router_Deregister ?t (gw_router g2)\<rparr>))"
          by simp
        then show ?thesis
          by (simp only:) (rule gw_inv_reg_call [OF dereg], rule client_inv(1) [OF gw_inv_reg [OF dereg]])
      next
        case Panic
        with run1 run(2) dec reg acq Ok enc show ?thesis by simp
      next
        case (Ok u)
        let ?tun = "(NewActiveTunnel now a [\<lparr> rt_Label = ''default'', rt_LocalAddr = [], rt_TunnelType = [] \<rparr>])
          \<lparr>at_PublicHosts := mput ''default'' ?url (at_PublicHosts (NewActiveTunnel now a [\<lparr> rt_Label = ''default'', rt_LocalAddr = [], rt_TunnelType = [] \<rparr>]))\<rparr>"
        from run1 dec reg acq \<open>l = Ok lease\<close> enc Ok have g': "g' = addTunnel ?tun conn (le_LeaseID lease) g2" by simp
        have "gw_ok (gw_registry g2) (gw_streams g) (mput (at_ID ?tun) b (gw_tunnels g)) (tr_hostMap router)"
          if "av_tunnel b = ?tun" "av_suspended b \<longleftrightarrow> av_conn b = None" for b
          using that hosts g2(1) by (intro addTunnel_ok [OF ok]) simp_all
        then show ?thesis
          unfolding gw_inv_def g' mupd_mput_inv_frame
          by (subst (2 3) g2(2), simp add: addTunnel_def, subst (2) g2(2), simp)
      qed
    qed
  qed
qed

lemma handleV2Auth_inv:
  assumes "gw_inv g" and "fresh_lease i g" and "handleV2Auth authn i token now conn r w g = (y, w', g')" and "y \<noteq> Panic"
  shows "gw_inv g'"
proof -
  note run = assms(3) [unfolded handleV2Auth_def Let_def]
  show ?thesis
  proof (cases "\<exists>m r' a rs. DecodeAuthV2 (unread MsgAuthV2 r) = Ok (m, r') \<and> authn (a2_Token m) = Ok a \<and>
      \<not> (gw_maxTunnelsPerAgent g > 0 \<and> int (countTunnelsByAgent a g) \<ge> gw_maxTunnelsPerAgent g) \<and>
      check_labels (a2_Tunnels m) [] = Ok rs")
    case False
    then have "g' = g"
      using run by (auto split: result.splits if_splits)
    with assms(1) show ?thesis by simp
  next
    case True
    then obtain m r' a rs where dec: "DecodeAuthV2 (unread MsgAuthV2 r) = Ok (m, r')" "authn (a2_Token m) = Ok a"
      "\<not> (gw_maxTunnelsPerAgent g > 0 \<and> int (countTunnelsByAgent a g) \<ge> gw_maxTunnelsPerAgent g)"
      "check_labels (a2_Tunnels m) [] = Ok rs" by blast
    let ?t = "NewTunnelID a"
    obtain l g2 where acq: "acquireTunnelLease i now ?t g = (l, g2)"
      by (cases "acquireTunnelLease i now ?t g")
    have g2: "reg_inv (gw_registry g2)" "g2 = g\<lparr>gw_registry := gw_registry g2\<rparr>"
      using acquire_inv [OF _ assms(2) acq] assms(1) by (simp_all add: gw_inv_reg)
    have inv2: "gw_inv g2"
      using gw_inv_registry [OF assms(1) g2(1)] g2(2) by simp
    show ?thesis
    proof (cases l)
      case (Err e)
      with run dec acq inv2 show ?thesis by simp
    next
      case Panic
      with run assms(4) dec acq show ?thesis by simp
    next
      case (Ok lease)
      define v where "v = register_labels (publicPort (gw_publicListenAddr g2)) (a2_Tunnels m)
         \<lparr> vl_tunnel = NewActiveTunnel now a rs, vl_router = gw_router g2, vl_hosts = [], vl_public = [], vl_local = [] \<rparr>"
      note lab = register_labels_spec [OF v_def, simplified]
      have wf: "mwf (tr_hostMap (gw_router g2))"
        using inv2 by (simp add: gw_inv_def gw_ok_def)
      let ?g3 = "g2\<lparr>gw_router := vl_router v\<rparr>"
      have added: "gw_inv (addTunnel (vl_tunnel v) conn (le_LeaseID lease) ?g3)"
        unfolding gw_inv_def mupd_mput_inv_frame
        by (simp add: addTunnel_def, rule addTunnel_ok [OF inv2 [unfolded gw_inv_def]]) (use lab wf g2(1) in auto)
      have dereg: "gw_inv (g2\<lparr>gw_router := DeregisterAll ?t (vl_router v)\<rparr>)"
        unfolding gw_inv_def
        by (simp, rule gw_ok_fewer_hosts [OF inv2 [unfolded gw_inv_def]])
          (use lab wf in \<open>auto simp: DeregisterAll_lookup split: option.splits if_splits\<close>)
      have "y = Panic \<or>
          g' = snd (reg_call (client_ReleaseLease (le_LeaseID lease)) (g2\<lparr>gw_router := DeregisterAll ?t (vl_router v)\<rparr>)) \<or>
          g' = addTunnel (vl_tunnel v) conn (le_LeaseID lease) ?g3 \<or>
          (\<exists>tok d. g' = snd (repo_SetResumable ?t tok d (addTunnel (vl_tunnel v) conn (le_LeaseID lease) ?g3)))"
        using run dec acq Ok
        by (simp add: v_def [symmetric] split: prod.splits result.splits if_splits) blast+
      with assms(4) consider "g' = snd (reg_call (client_ReleaseLease (le_LeaseID lease)) (g2\<lparr>gw_router := DeregisterAll ?t (vl_router v)\<rparr>))"
        | "g' = addTunnel (vl_tunnel v) conn (le_LeaseID lease) ?g3"
        | tok d where "g' = snd (repo_SetResumable ?t tok d (addTunnel (vl_tunnel v) conn (le_LeaseID lease) ?g3))"
        by blast
      then show ?thesis
      proof cases
        case 1
        show ?thesis
          unfolding 1 by (rule gw_inv_reg_call [OF dereg], rule client_inv(1) [OF gw_inv_reg [OF dereg]])
      next
        case 2
        with added show ?thesis by simp
      next
        case 3
        show ?thesis unfolding 3 by (rule SetResumable_inv [OF added])
      qed
    qed
  qed
qed

lemma handleSessionResume_inv:
  assumes "gw_inv g" and "handleSessionResume token now conn qin w g = (y, r', w', g')"
  shows "gw_inv g' \<and> sv_coord (gw_registry g') = sv_coord (gw_registry g)"
proof -
  note run = assms(2) [unfolded handleSessionResume_def Let_def]
  show ?thesis
  proof (cases "\<exists>m r s. DecodeSessionResume (unread MsgSessionResume qin) = Ok (m, r) \<and> gw_sessionRepo g \<and>
      repo_GetResumable now (sr_Token m) g = Ok s")
    case False
    then have "g' = g"
      using run by (auto split: result.splits if_splits prod.splits)
    with assms(1) show ?thesis by simp
  next
    case True
    then obtain m r s where dec: "DecodeSessionResume (unread MsgSessionResume qin) = Ok (m, r)" "gw_sessionRepo g"
      "repo_GetResumable now (sr_Token m) g = Ok s" by blast
    let ?t = "ss_TunnelID s"
    let ?g1 = "stop_timer ?t g"
    show ?thesis
    proof (cases "map_of (gw_tunnels g) ?t")
      case None
      then have "g' = ?g1"
        using run dec by (auto split: result.splits prod.splits)
      with assms(1) show ?thesis by simp
    next
      case (Some av)
      define g2 where "g2 = ?g1\<lparr>gw_tunnels := mupd ?t (\<lambda>av. av\<lparr>av_conn := Some conn, av_suspended := False\<rparr>) (gw_tunnels ?g1)\<rparr>"
      have inv2: "gw_inv g2"
        unfolding g2_def using assms(1) by (intro suspend_inv) simp_all
      have "g' = g2 \<or> (\<exists>tok d. g' = snd (repo_SetResumable ?t tok d g2))"
        using run dec Some
        by (simp add: g2_def [symmetric, simplified] split: result.splits prod.splits if_splits) (metis snd_conv)+
      moreover have "sv_coord (gw_registry g2) = sv_coord (gw_registry g)" by (simp add: g2_def)
      ultimately show ?thesis
        using inv2 SetResumable_inv [OF inv2] by (elim disjE exE) simp_all
    qed
  qed
qed

lemma establish_inv:
  assumes "\<And>y w g. res = (y, w, g) \<Longrightarrow> y \<noteq> Panic \<Longrightarrow> gw_inv g" and "establish now conn res = (out, w', g')" and "out \<noteq> ConnPanic"
  shows "gw_inv g'"
proof -
  obtain y w g where res: "res = (y, w, g)" by (cases res)
  show ?thesis
  proof (cases y)
    case (Ok x)
    obtain a t p q where x: "x = (a, t, p, q)" by (cases x)
    let ?reg = "client_RegisterTunnel now now now t a p q"
    have inv: "gw_inv g" by (rule assms(1) [OF res]) (simp add: Ok)
    have "gw_inv (snd (reg_call ?reg g))"
      by (rule gw_inv_reg_call [OF inv], rule client_inv(6) [OF gw_inv_reg [OF inv]])
    then show ?thesis
      using assms(2,3) unfolding res Ok x establish_def close_conn_def
      by (auto simp: removeTunnel_inv split: prod.splits result.splits)
  next
    case (Err e)
    have "gw_inv g" by (rule assms(1) [OF res]) (simp add: Err)
    with assms(2) show ?thesis
      unfolding res Err establish_def close_conn_def by auto
  next
    case Panic
    with assms(2,3) show ?thesis by (simp add: res establish_def)
  qed
qed

lemma auth_frame_by_type_inv:
  assumes "gw_inv g" and "fresh_lease i g" and "auth_frame_by_type authn i token now conn b r w g = Some (out, w', g')"
    and "out \<noteq> ConnPanic"
  shows "gw_inv g'"
proof -
  from assms(3) consider "establish now conn (handleV2Auth authn i token now conn r w g) = (out, w', g')"
    | "establish now conn (handleV1Auth authn i now conn (unread MsgAuth r) w g) = (out, w', g')"
    by (auto simp: auth_frame_by_type_def split: if_splits)
  then show ?thesis
    by cases (rule establish_inv, erule handleV2Auth_inv [OF assms(1,2)], assumption+, rule assms(4),
      rule establish_inv, erule handleV1Auth_inv [OF assms(1,2)], assumption+, rule assms(4))
qed

lemma close_conn_inv: "gw_inv g \<Longrightarrow> close_conn conn reason w g = (out, w', g') \<Longrightarrow> gw_inv g'"
  by (auto simp: close_conn_def)

lemma dispatch_first_inv:
  assumes "gw_inv g" and "fresh_lease i g" and "dispatch_first authn i token rtoken now conn b r w g = (out, w', g')"
    and "out \<noteq> ConnPanic"
  shows "gw_inv g'"
proof (cases "b = MsgSessionResume")
  case False
  with assms show ?thesis
    by (auto simp: dispatch_first_def split: option.splits dest: auth_frame_by_type_inv close_conn_inv)
next
  case True
  obtain y r2 w2 g2 where res: "handleSessionResume rtoken now conn r w g = (y, r2, w2, g2)"
    by (cases "handleSessionResume rtoken now conn r w g")
  note inv2 = handleSessionResume_inv [OF assms(1) res]
  then have fresh: "fresh_lease i g2" using assms(2) by simp
  have "(\<exists>reason w. close_conn conn reason w g2 = (out, w', g')) \<or>
      (\<exists>b r w. auth_frame_by_type authn i token now conn b r w g2 = Some (out, w', g')) \<or> g' = g2"
    using True res assms(3) by (simp add: dispatch_first_def split: option.splits result.splits prod.splits) blast+
  then show ?thesis
    using auth_frame_by_type_inv [OF _ fresh _ assms(4)] close_conn_inv inv2 by blast
qed

lemma handleAgentConnection_inv:
  assumes "gw_inv g" and "fresh_lease i g" and
    "handleAgentConnection limiter authn i token rtoken now conn remote qs w g = (out, w', g')" and "out \<noteq> ConnPanic"
  shows "gw_inv g'"
proof -
  have "(\<exists>reason w. close_conn conn reason w g = (out, w', g')) \<or>
      (\<exists>b r. dispatch_first authn i token rtoken now conn b r w g = (out, w', g')) \<or> out = ConnPanic"
    using assms(3) unfolding handleAgentConnection_def
    by (simp split: if_splits result.splits prod.splits option.splits) blast+
  then show ?thesis
    using dispatch_first_inv [OF assms(1,2) _ assms(4)] close_conn_inv [OF assms(1)] assms(4) by blast
qed

lemma agent_stream_inv:
  assumes "gw_inv g"
  shows "gw_inv (snd (agent_stream token now t ev g))"
proof -
  have hb: "gw_inv (snd (reg_call (client_Heartbeat now t) g))"
    by (rule gw_inv_reg_call [OF assms], rule client_inv(3) [OF gw_inv_reg [OF assms]])
  show ?thesis
    using suspendTunnel_inv [OF assms, of token now t "''agent_disconnect''"] hb assms
    by (auto simp: agent_stream_def removeTunnel_inv split: agent_event.split prod.split result.split)
qed

lemma heartbeat_tick_inv:
  assumes "gw_inv g"
  shows "gw_inv (snd (heartbeat_tick now t g))"
proof -
  obtain y g1 where hb: "reg_call (client_Heartbeat now t) g = (y, g1)" by (cases "reg_call (client_Heartbeat now t) g")
  have inv1: "gw_inv g1"
    using gw_inv_reg_call [OF assms, of "client_Heartbeat now t"] client_inv(3) [OF gw_inv_reg [OF assms]] hb by simp
  have renew: "gw_inv (snd (reg_call (client_RenewLease l ttl now) g1))" for l ttl
    by (rule gw_inv_reg_call [OF inv1], rule client_inv(4) [OF gw_inv_reg [OF inv1]])
  have renew': "gw_inv g2" if "reg_call (client_RenewLease l ttl now) g1 = (x, g2)" for l ttl x g2
    using renew [of l ttl] by (simp add: that)
  show ?thesis
    using inv1 unfolding heartbeat_tick_def hb
    by (simp add: removeTunnel_inv renew' split: prod.split result.split option.split)
qed

lemma handlePublicConnection_inv:
  assumes "gw_inv g" and "sid \<notin> set (mg_closed (gw_streams g))"
  shows "gw_inv (snd (handlePublicConnection acls dial sid now handshake remote qs closeErr g))"
proof -
  have opened: "gw_inv (g\<lparr>gw_streams := st\<rparr>)"
    if "map_of (gw_tunnels g) t = Some av" and "Manager_Open sid now t closeErr (gw_streams g) = (s, st)" for t av s st
  proof -
    have "manager_inv st"
      using assms manager_inv_open [of "gw_streams g" sid now t closeErr] that(2) by (simp add: gw_inv_def gw_ok_def)
    moreover have "map_of (mg_streams st) i = Some x \<Longrightarrow> map_of (mg_streams (gw_streams g)) i = Some x \<or> sm_TunnelID x = t" for i x
      using that(2) by (auto simp: Manager_Open_def Let_def split: if_splits)
    ultimately show ?thesis
      using assms(1) that(1) by (simp add: gw_inv_def gw_ok_def) (metis option.distinct(1))
  qed
  show ?thesis
    unfolding handlePublicConnection_def getTunnel_def
    by (simp add: assms(1) opened split: result.split option.split prod.split)
qed

lemma public_stream_done_inv:
  assumes "gw_inv g"
  shows "gw_inv (public_stream_done sid g)"
proof -
  have "map_of (mg_streams (snd (Manager_Close sid m))) i = Some s \<Longrightarrow> \<exists>s'. map_of (mg_streams m) i = Some s' \<and> sm_TunnelID s' = sm_TunnelID s"
    for m i s
    by (auto simp: Manager_Close_def Stream_Close_def log_close_def Let_def split: option.splits if_splits)
  with assms manager_inv_close [of "gw_streams g" sid] show ?thesis
    unfolding public_stream_done_def gw_inv_def gw_ok_def by fastforce
qed

subsection \<open>Runs of a gateway\<close>

text \<open>One event of a gateway that does not crash: an agent connects, opens a stream or disconnects, a heartbeat or health tick, a
  resume timer, a public connection that starts or ends, an event from the registry, anything another client does
  at the registry, the link to the registry going up or down, and shutdown. Handlers run one at a time.\<close>

inductive gw_step :: "Gateway \<Rightarrow> Gateway \<Rightarrow> bool" where
  gw_agent: "fresh_lease i g \<Longrightarrow>
    handleAgentConnection limiter authn i token rtoken now conn remote qs w g = (out, w', g') \<Longrightarrow> out \<noteq> ConnPanic \<Longrightarrow> gw_step g g'"
| gw_agent_stream: "agent_stream token now t ev g = (Ok go_on, g') \<Longrightarrow> gw_step g g'"
| gw_heartbeat: "gw_step g (snd (heartbeat_tick now t g))"
| gw_timer: "gw_step g (fire_timer n g)"
| gw_health: "gw_step g (report_health now g)"
| gw_event: "gw_step g (g\<lparr>gw_dist := handleEvent ev (gw_dist g)\<rparr>)"
| gw_registry_step: "reg_step (gw_registry g) s \<Longrightarrow> gw_step g (g\<lparr>gw_registry := s\<rparr>)"
| gw_link: "gw_step g (g\<lparr>gw_regUp := up\<rparr>)"
| gw_public: "sid \<notin> set (mg_closed (gw_streams g)) \<Longrightarrow>
    gw_step g (snd (handlePublicConnection acls dial sid now handshake remote pqs closeErr g))"
| gw_public_done: "gw_step g (public_stream_done sid g)"
| gw_shutdown: "gw_step g (closeAll g)"

lemma gw_step_inv: "gw_step g g' \<Longrightarrow> gw_inv g \<Longrightarrow> gw_inv g'"
proof (induction rule: gw_step.induct)
  case gw_agent
  show ?case by (rule handleAgentConnection_inv [OF gw_agent.prems gw_agent.hyps])
next
  case (gw_agent_stream token now t ev g b g')
  then show ?case using agent_stream_inv [of g token now t ev] by simp
next
  case (gw_registry_step g s)
  show ?case
    by (rule gw_inv_registry [OF gw_registry_step.prems], rule reg_step_inv [OF gw_registry_step.hyps])
      (rule gw_inv_reg [OF gw_registry_step.prems])
qed (simp_all add: heartbeat_tick_inv fire_timer_inv report_health_inv handlePublicConnection_inv public_stream_done_inv closeAll_inv)

definition gw_start :: "Options \<Rightarrow> Gateway \<Rightarrow> bool" where
  "gw_start opts g \<longleftrightarrow> (\<exists>s up. reg_inv s \<and> g = NewGateway opts s up)"

lemma gw_reachable_inv: "reach (gw_start opts) gw_step g \<Longrightarrow> gw_inv g"
proof (erule reach_invariant)
  fix g assume "gw_start opts g"
  then show "gw_inv g"
    by (auto simp: gw_start_def gw_inv_def gw_ok_def NewGateway_def NewTunnelRouter_def manager_inv_new)
      (simp_all add: NewManager_def)
qed (rule gw_step_inv)

end
