(* ===== verification/TE_Session.thy ===== *)
theory TE_Session
  imports TE_Lifecycle
begin

text \<open>
  What a running gateway guarantees about its tunnels (\<^verbatim>\<open>src/internal/gateway\<close>): the invariant of every reachable state, what
  the removal of a tunnel and the shutdown leave behind, the tunnel quota, and what session resume and its timers do.
\<close>

subsection \<open>Removing a tunnel\<close>

lemma release_and_deregister_store:
  "map_of (sv_store (release_and_deregister l t s)) k = (if k = t then None else map_of (sv_store s) k)"
proof -
  have "map_of (sv_store (snd (DeregisterTunnel t s'))) k = (if k = t then None else map_of (sv_store s') k)" for s'
    by (simp add: DeregisterTunnel_def mem_Deregister_def)
  moreover have "sv_store (snd (Server_ReleaseLease l s)) = sv_store s"
    by (simp add: Server_ReleaseLease_def on_coord_def split: prod.split)
  ultimately show ?thesis
    by (simp add: release_and_deregister_def client_DeregisterTunnel_def client_ReleaseLease_def)
qed

lemma release_and_deregister_leases:
  assumes "l \<noteq> []"
  shows "map_of (mc_leasesByID (sv_coord (release_and_deregister l t s))) i =
    (if i = l then None else map_of (mc_leasesByID (sv_coord s)) i)"
proof -
  have "mc_leasesByID (sv_coord (snd (DeregisterTunnel t s'))) = mc_leasesByID (sv_coord s')" for s'
    by (simp add: DeregisterTunnel_def Publish_def split: prod.split)
  moreover have "map_of (mc_leasesByID (sv_coord (snd (Server_ReleaseLease l s)))) i =
      (if i = l then None else map_of (mc_leasesByID (sv_coord s)) i)"
    using assms by (simp add: Server_ReleaseLease_def on_coord_def ReleaseLease_def go_Publish_def forget_lease_def Let_def
        split: option.split prod.split)
  ultimately show ?thesis
    using assms by (simp add: release_and_deregister_def client_DeregisterTunnel_def client_ReleaseLease_def)
qed

text \<open>C15: When the gateway removes a tunnel and the registry answers, nothing of the tunnel is left: the tunnel, its routes, its streams,
  its session and its lease are gone and its connection is closed. Every other tunnel, route, stream, session and
  lease is as before.\<close>

theorem removeTunnel_exact:
  assumes "gw_inv g" and "gw_regUp g" and "map_of (gw_tunnels g) t = Some av" and "av_leaseID av \<noteq> []"
    and "g' = removeTunnel t reason g"
  shows "map_of (gw_tunnels g') u = (if u = t then None else map_of (gw_tunnels g) u) \<and>
    map_of (tr_hostMap (gw_router g')) h = (case map_of (tr_hostMap (gw_router g)) h of
      None \<Rightarrow> None | Some k \<Rightarrow> if rk_TunnelID k = t then None else Some k) \<and>
    map_of (mg_streams (gw_streams g')) i = (case map_of (mg_streams (gw_streams g)) i of
      None \<Rightarrow> None | Some s \<Rightarrow> if sm_TunnelID s = t then None else Some s) \<and>
    map_of (sv_store (gw_registry g')) u = (if u = t then None else map_of (sv_store (gw_registry g)) u) \<and>
    map_of (mc_leasesByID (sv_coord (gw_registry g'))) l =
      (if l = av_leaseID av then None else map_of (mc_leasesByID (sv_coord (gw_registry g))) l) \<and>
    (\<forall>c. av_conn av = Some c \<longrightarrow> (c, reason) \<in> set (gw_connsClosed g'))"
proof -
  have g': "g' = tear_down t reason av g"
    using assms(3,5) by (simp add: removeTunnel_def)
  note ok = gw_okD [OF assms(1) [unfolded gw_inv_def]]
  have "gw_connsClosed g' = gw_connsClosed (CloseWithError (av_conn av) reason g)"
    by (simp add: g' tear_down_def Let_def CloseWithError_def split: option.split)
  then show ?thesis
    using assms(2,4) by (simp add: g' DeregisterAll_lookup(1) [OF ok(4)] close_by_tunnel_lookup(2) [OF ok(2)]
        release_and_deregister_store release_and_deregister_leases CloseWithError_def)
qed

lemma gateway_a_fields:
  "gw_tunnels gateway_a = [(''t-a'', \<lparr> av_tunnel = tunnel_a, av_conn = Some 7, av_routeMap = RouteMap tunnel_a,
     av_leaseID = ''l1'', av_suspended = False \<rparr>)]"
  "gw_registry gateway_a = server_example" "gw_regUp gateway_a" "gw_streams gateway_a = NewManager" "gw_armed gateway_a = []"
  "tr_hostMap (gw_router gateway_a) = [(''web-a.ex.io'', \<lparr> rk_TunnelID = ''t-a'', rk_Label = ''web'' \<rparr>)]"
  by (simp_all add: gateway_a_def addTunnel_def NewGateway_def tunnel_a_def mput_def mdel_def)

lemma gateway_a_inv: "gw_inv gateway_a"
proof -
  have "reg_inv server_example"
    using reg_reachable_inv [OF server_example_reach] .
  then show ?thesis
    by (auto simp: gw_inv_def gw_ok_def gateway_a_fields manager_inv_new tunnel_a_def NewTunnelID_def mwf_def split: if_splits)
      (simp_all add: NewManager_def)
qed

theorem removeTunnel_exact_witness:
  "map_of (gw_tunnels (removeTunnel ''t-a'' ''bye'' gateway_a)) ''t-a'' = None \<and>
   map_of (sv_store (gw_registry (removeTunnel ''t-a'' ''bye'' gateway_a))) ''t-a'' = None \<and>
   (7, ''bye'') \<in> set (gw_connsClosed (removeTunnel ''t-a'' ''bye'' gateway_a))"
  using removeTunnel_exact [OF gateway_a_inv gateway_a_fields(3), of "''t-a''" _ _ "''bye''" "''t-a''"]
  by (simp add: gateway_a_fields)

lemma removeTunnel_tunnels: "gw_tunnels (removeTunnel t r g) = mdel t (gw_tunnels g)"
  by (simp add: removeTunnel_def mdel_absent split: option.split)

lemma fold_removeTunnel_tunnels: "map_of (gw_tunnels (fold (\<lambda>i. removeTunnel i r) is g)) u =
    (if u \<in> set is then None else map_of (gw_tunnels g) u)"
  by (induction "is" arbitrary: g) (auto simp: removeTunnel_tunnels)

lemma map_of_all_None: "(\<And>k. map_of m k = None) \<Longrightarrow> m = []"
  by (cases m) (auto, metis option.distinct(1))

text \<open>Shutdown empties the gateway: no tunnel, no route and no stream is left, whatever the registry answers.\<close>

theorem closeAll_empties:
  assumes "gw_inv g"
  shows "gw_tunnels (closeAll g) = [] \<and> tr_hostMap (gw_router (closeAll g)) = [] \<and> mg_streams (gw_streams (closeAll g)) = []"
proof -
  let ?g = "fold (\<lambda>i. removeTunnel i ''shutdown'') (map fst (gw_tunnels g)) g"
  have inv: "gw_inv ?g" by (rule fold_removeTunnel_inv [OF assms])
  note ok = gw_okD [OF inv [unfolded gw_inv_def]]
  have "map_of (gw_tunnels ?g) u = None" for u
    by (simp add: fold_removeTunnel_tunnels) (metis map_of_eq_None_iff set_map)
  then have tunnels: "gw_tunnels ?g = []" by (rule map_of_all_None)
  have "map_of (tr_hostMap (gw_router ?g)) h = None" for h
    using ok(6) [of h] tunnels by (cases "map_of (tr_hostMap (gw_router ?g)) h") auto
  then have "tr_hostMap (gw_router ?g) = []" by (rule map_of_all_None)
  with tunnels manager_inv_CloseAll [OF ok(2)] show ?thesis
    by (simp add: closeAll_def Let_def)
qed

theorem closeAll_empties_witness: "gw_tunnels gateway_a \<noteq> [] \<and> gw_tunnels (closeAll gateway_a) = []"
  using closeAll_empties [OF gateway_a_inv] by (simp add: gateway_a_fields)

subsection \<open>Every reachable gateway\<close>

lemma agent_has_one_tunnel:
  assumes "gw_inv g"
  shows "countTunnelsByAgent a g \<le> 1"
proof -
  note ok = gw_okD [OF assms [unfolded gw_inv_def]]
  have "fst p = NewTunnelID a" if "p \<in> set (filter (\<lambda>p. at_AgentID (av_tunnel (snd p)) = a) (gw_tunnels g))" for p
    using that ok(5) [of "fst p" "snd p"] by (simp add: in_set_mwf [OF ok(3), symmetric])
  then have "set (map fst (filter (\<lambda>p. at_AgentID (av_tunnel (snd p)) = a) (gw_tunnels g))) \<subseteq> {NewTunnelID a}"
    by auto
  moreover have "distinct (map fst (filter (\<lambda>p. at_AgentID (av_tunnel (snd p)) = a) (gw_tunnels g)))"
    using ok(3) by (simp add: mwf_def distinct_map_filter)
  ultimately have "length (map fst (filter (\<lambda>p. at_AgentID (av_tunnel (snd p)) = a) (gw_tunnels g))) \<le> 1"
    using distinct_card card_mono [of "{NewTunnelID a}"] by (metis card.empty card_insert_disjoint empty_iff finite.intros One_nat_def)
  then show ?thesis
    by (simp add: countTunnelsByAgent_def)
qed


subsection \<open>The outcome of an authentication\<close>

lemma acquire_frame:
  assumes "acquireTunnelLease i now t g = (x, g')"
  shows "g' = g\<lparr>gw_registry := gw_registry g'\<rparr>" and "sv_store (gw_registry g') = sv_store (gw_registry g)"
proof -
  let ?f = "client_AcquireLease i now \<lparr> lr_TunnelID = t, lr_RelayID = gw_relayID g, lr_TTL = gw_leaseTTL g \<rparr>"
  have g': "g' = snd (reg_call ?f g)"
    using assms by (simp add: acquireTunnelLease_def)
  show "g' = g\<lparr>gw_registry := gw_registry g'\<rparr>"
    unfolding g' by (simp add: reg_call_def split: prod.split)
  have "sv_store (snd (?f s)) = sv_store s" for s
    by (simp add: client_AcquireLease_def Server_AcquireLease_def on_coord_def split: prod.split)
  then show "sv_store (gw_registry g') = sv_store (gw_registry g)"
    unfolding g' by (simp add: reg_call_registry)
qed

text \<open>A successful authentication: the tunnel is there with the new connection, timers are untouched, and the session store changes at
  most by the resume token.\<close>

definition authenticated :: "nat \<Rightarrow> string \<Rightarrow> string \<Rightarrow> Gateway \<Rightarrow> Gateway \<Rightarrow> bool" where
  "authenticated conn a t g g' \<longleftrightarrow> t = NewTunnelID a \<and> gw_armed g' = gw_armed g \<and> gw_regUp g' = gw_regUp g \<and>
     (\<exists>av. map_of (gw_tunnels g') t = Some av \<and> av_conn av = Some conn \<and> \<not> av_suspended av) \<and>
     (map_of (sv_store (gw_registry g)) t = None \<longrightarrow> sv_store (gw_registry g') = sv_store (gw_registry g))"

lemma addTunnel_authenticated:
  assumes "at_ID tun = NewTunnelID a" and "gw_armed g1 = gw_armed g" and "gw_regUp g1 = gw_regUp g"
    and "sv_store (gw_registry g1) = sv_store (gw_registry g)"
  shows "authenticated conn a (NewTunnelID a) g (addTunnel tun conn l g1)"
    and "authenticated conn a (NewTunnelID a) g (snd (repo_SetResumable (NewTunnelID a) tok d (addTunnel tun conn l g1)))"
  using assms by (auto simp: authenticated_def addTunnel_def repo_SetResumable_def mem_SetResumable_def split: prod.split)

lemma handleV1Auth_Ok:
  assumes "handleV1Auth authn i now conn r w g = (Ok (a, t, p, q), w', g')"
  shows "authenticated conn a t g g'"
proof -
  note run = assms [unfolded handleV1Auth_def Let_def]
  obtain m r' where dec: "DecodeAuth r = Ok (m, r')"
    using run by (auto split: result.splits)
  obtain b where auth: "authn (am_Token m) = Ok b"
    using run dec by (cases "authn (am_Token m)") auto
  obtain host router where reg: "Router_Register (NewTunnelID b) (gw_router g) = (host, router)"
    by (cases "Router_Register (NewTunnelID b) (gw_router g)")
  obtain l g2 where acq: "acquireTunnelLease i now (NewTunnelID b) (g\<lparr>gw_router := router\<rparr>) = (l, g2)"
    by (cases "acquireTunnelLease i now (NewTunnelID b) (g\<lparr>gw_router := router\<rparr>)")
  note g2 = acquire_frame [OF acq]
  obtain lease where l: "l = Ok lease"
    using run dec auth reg acq by (cases l) auto
  let ?url = "host @ '':'' @ publicPort (gw_publicListenAddr g)"
  obtain z w2 where enc: "EncodeAuthResponse w AuthStatusOK (NewTunnelID b) ?url = (z, w2)"
    by (cases "EncodeAuthResponse w AuthStatusOK (NewTunnelID b) ?url")
  obtain u where z: "z = Ok u"
    using run dec auth reg acq l enc by (cases z) auto
  let ?new = "NewActiveTunnel now b [\<lparr> rt_Label = ''default'', rt_LocalAddr = [], rt_TunnelType = [] \<rparr>]"
  have "g' = addTunnel (?new\<lparr>at_PublicHosts := mput ''default'' ?url (at_PublicHosts ?new)\<rparr>) conn (le_LeaseID lease) g2"
    "a = b" "t = NewTunnelID b"
    using run dec auth reg acq l enc z by auto
  moreover have "gw_armed g2 = gw_armed g" "gw_regUp g2 = gw_regUp g" "sv_store (gw_registry g2) = sv_store (gw_registry g)"
    using g2(2) by (subst g2(1), simp)+
  ultimately show ?thesis
    using addTunnel_authenticated(1) by simp
qed

lemma handleV2Auth_Ok:
  assumes "handleV2Auth authn i token now conn r w g = (Ok (a, t, p, q), w', g')"
  shows "authenticated conn a t g g'"
proof -
  note run = assms [unfolded handleV2Auth_def Let_def]
  obtain m r' where dec: "DecodeAuthV2 (unread MsgAuthV2 r) = Ok (m, r')"
    using run by (auto split: result.splits)
  obtain b where auth: "authn (a2_Token m) = Ok b"
    using run dec by (cases "authn (a2_Token m)") auto
  have quota: "\<not> (gw_maxTunnelsPerAgent g > 0 \<and> int (countTunnelsByAgent b g) \<ge> gw_maxTunnelsPerAgent g)"
    using run by (rule contrapos_pn) (simp add: dec auth)
  obtain rs where labels: "check_labels (a2_Tunnels m) [] = Ok rs"
    using run dec auth quota by (cases "check_labels (a2_Tunnels m) []") auto
  obtain l g2 where acq: "acquireTunnelLease i now (NewTunnelID b) g = (l, g2)"
    by (cases "acquireTunnelLease i now (NewTunnelID b) g")
  note g2 = acquire_frame [OF acq]
  obtain lease where l: "l = Ok lease"
    using run dec auth quota labels acq by (cases l) auto
  have ab: "b = a" "t = NewTunnelID a"
    using run dec auth quota labels acq l by (auto split: prod.splits result.splits if_splits)
  note run' = run dec auth [unfolded ab] quota [unfolded ab] labels acq [unfolded ab] l
  define v where "v = register_labels (publicPort (gw_publicListenAddr g2)) (a2_Tunnels m)
     \<lparr> vl_tunnel = NewActiveTunnel now a rs, vl_router = gw_router g2, vl_hosts = [], vl_public = [], vl_local = [] \<rparr>"
  let ?g3 = "addTunnel (vl_tunnel v) conn (le_LeaseID lease) (g2\<lparr>gw_router := vl_router v\<rparr>)"
  have "g' = ?g3 \<or> (\<exists>tok d. g' = snd (repo_SetResumable (NewTunnelID a) tok d ?g3))"
    using run' by (simp add: v_def [symmetric] split: prod.splits result.splits if_splits) blast+
  moreover have "gw_armed g2 = gw_armed g" "gw_regUp g2 = gw_regUp g" "sv_store (gw_registry g2) = sv_store (gw_registry g)"
    using g2(2) by (subst g2(1), simp)+
  moreover have "at_ID (vl_tunnel v) = NewTunnelID a"
    using register_labels_spec [OF v_def] by simp
  ultimately show ?thesis
    using addTunnel_authenticated [of "vl_tunnel v" a "g2\<lparr>gw_router := vl_router v\<rparr>" g conn] ab(2) by auto
qed

lemma session_literal_ids: "ss_TunnelID (session_literal t a l p) = t"
  by (simp add: session_literal_def)

lemma session_tokens:
  "ss_ResumeToken (stamp_session m n x) = ss_ResumeToken x" "ss_ResumeToken (with_lease l x) = ss_ResumeToken x"
  "ss_ResumeToken (session_literal t a q p) = []"
  by (simp_all add: stamp_session_def with_lease_def session_literal_def Let_def split: option.split)

lemma establish_Ok:
  assumes "establish now conn (Ok (a, t, p, q), w, g) = (ConnEstablished u, w', g')"
  shows "u = t" and "gw_armed g' = gw_armed g" and "gw_tunnels g' = gw_tunnels g" and "gw_sessionRepo g' = gw_sessionRepo g"
    and "\<exists>sess. sv_store (gw_registry g') = mput t sess (sv_store (gw_registry g)) \<and> ss_ResumeToken sess = []"
    and "map_of (sv_store (gw_registry g)) t = None"
proof -
  let ?f = "client_RegisterTunnel now now now t a p q"
  obtain y g2 where reg: "reg_call ?f g = (y, g2)" by (cases "reg_call ?f g")
  obtain x where y: "y = Ok x"
    using assms reg by (cases y) (auto simp: establish_def close_conn_def)
  have g': "g' = g2\<lparr>gw_activeGauge := gw_activeGauge g2 + 1\<rparr>" and u: "u = t"
    using assms reg y by (auto simp: establish_def)
  have g2: "g2 = snd (reg_call ?f g)" by (simp add: reg)
  show "u = t" by (rule u)
  show "gw_armed g' = gw_armed g" "gw_tunnels g' = gw_tunnels g" "gw_sessionRepo g' = gw_sessionRepo g"
    by (simp_all add: g' g2)
  have up: "gw_regUp g" and ok: "?f (gw_registry g) = (Ok x, gw_registry g2)"
    using reg y by (auto simp: reg_call_def split: if_splits prod.splits)
  have "map_of (sv_store (gw_registry g)) t = None \<and>
      (\<exists>sess. sv_store (gw_registry g2) = mput t sess (sv_store (gw_registry g)) \<and> ss_ResumeToken sess = [])"
    using ok unfolding client_RegisterTunnel_def RegisterTunnel_def
    by (auto simp: Let_def mem_Register_def session_literal_ids session_tokens split: prod.splits if_splits
        dest!: arg_cong [of _ "gw_registry g2" sv_store]) (metis session_tokens)
  then show "\<exists>sess. sv_store (gw_registry g') = mput t sess (sv_store (gw_registry g)) \<and> ss_ResumeToken sess = []"
    "map_of (sv_store (gw_registry g)) t = None"
    by (simp_all add: g')
qed

subsection \<open>Resume timers\<close>

text \<open>C36: A resume timer outlives the suspension it belongs to. If an agent authenticates again while the timer of its tunnel's last
  suspension is armed, the timer stays armed, and when it fires it removes the new, live tunnel and closes its connection.\<close>

theorem resume_timer_kills_live_tunnel:
  assumes "map_of (gw_armed g) n = Some (t, d)"
    and "auth_frame_by_type authn i token now conn b r w g = Some (ConnEstablished t, w', g')"
  shows "\<exists>av. getTunnel t g' = Some av \<and> av_conn av = Some conn \<and> \<not> av_suspended av \<and>
    map_of (gw_armed g') n = Some (t, d) \<and> getTunnel t (fire_timer n g') = None \<and>
    (conn, ''resume_timeout'') \<in> set (gw_connsClosed (fire_timer n g'))"
proof -
  obtain y w1 g1 where res: "establish now conn (y, w1, g1) = (ConnEstablished t, w', g')"
    and auth: "handleV2Auth authn i token now conn r w g = (y, w1, g1) \<or> handleV1Auth authn i now conn (unread MsgAuth r) w g = (y, w1, g1)"
    using assms(2) by (auto simp: auth_frame_by_type_def split: if_splits) (metis prod_cases3)+
  obtain a u p q where y: "y = Ok (a, u, p, q)"
    using res by (cases y) (auto simp: establish_def close_conn_def)
  note est = establish_Ok [OF res [unfolded y]]
  have "authenticated conn a t g g1"
    using auth unfolding y est(1) by (elim disjE) (rule handleV2Auth_Ok, assumption, rule handleV1Auth_Ok, assumption)
  then obtain av where av: "map_of (gw_tunnels g') t = Some av" "av_conn av = Some conn" "\<not> av_suspended av"
    and armed: "gw_armed g' = gw_armed g"
    using est(2,3) by (auto simp: authenticated_def)
  have "fire_timer n g' = tear_down t ''resume_timeout'' av (stop_timer t (g'\<lparr>gw_armed := mdel n (gw_armed g')\<rparr>))"
    using av assms(1) armed by (simp add: fire_timer_def finalizeTunnelRemoval_def Let_def)
  then have "getTunnel t (fire_timer n g') = None" "(conn, ''resume_timeout'') \<in> set (gw_connsClosed (fire_timer n g'))"
    using av(2) by (simp_all add: getTunnel_def, simp add: tear_down_def Let_def CloseWithError_def)
  with av armed assms(1) show ?thesis
    by (simp add: getTunnel_def)
qed

subsection \<open>A gateway and an agent\<close>

definition gateway_new :: "(nat, string \<times> time) gomap \<Rightarrow> Gateway" where
  "gateway_new armed = (NewGateway gateway_options NewServer True)\<lparr>gw_armed := armed\<rparr>"

definition agent_auth :: AuthV2Message where
  "agent_auth = auth_example\<lparr>a2_PreferredRegion := []\<rparr>"

definition agent_reader :: reader where
  "agent_reader = \<lparr> rd_data = tl (authv2_frame agent_auth), rd_err = EOF \<rparr>"

lemma agent_reader_decode:
  "DecodeAuthV2 (unread MsgAuthV2 agent_reader) = Ok (agent_auth, \<lparr> rd_data = [], rd_err = EOF \<rparr>)"
proof -
  have "unread MsgAuthV2 agent_reader = \<lparr> rd_data = authv2_frame agent_auth @ [], rd_err = EOF \<rparr>"
    by (simp add: unread_def agent_reader_def authv2_frame_def)
  moreover have "authv2_valid agent_auth"
    using auth_example_valid by (simp add: agent_auth_def authv2_valid_def)
  ultimately show ?thesis
    using authv2_codec.roundtrip [of agent_auth "[]" EOF] by simp
qed

lemma agent_lease:
  obtains k s where "acquireTunnelLease ''l1'' 5 ''t-a'' (gateway_new armed) = (Ok k, (gateway_new armed)\<lparr>gw_registry := s\<rparr>)"
    and "sv_store s = []"
  by (simp add: acquireTunnelLease_def reg_call_def gateway_new_def NewGateway_def client_AcquireLease_def Server_AcquireLease_def
      on_coord_def NewServer_def NewMemCoordinator_def AcquireLease_def currentLeaseLocked_def Let_def mput_def mdel_def
      touch_relay_def go_Publish_def gateway_options_def)

lemma send_authv2resp:
  "authv2resp_sendable m \<Longrightarrow> EncodeAuthV2Response fresh_writer m = (Ok (), fresh_writer\<lparr>wr_out := authv2resp_frame m\<rparr>)"
  using authv2resp_buf_frame [of m] by (simp add: EncodeAuthV2Response_def send_frame_def Write_def fresh_writer_def)

definition agent_handshake :: "(nat, string \<times> time) gomap \<Rightarrow> established result \<times> writer \<times> Gateway" where
  "agent_handshake armed = handleV2Auth (\<lambda>_. Ok ''a'') ''l1'' (Ok ''tokA'') 5 7 agent_reader fresh_writer (gateway_new armed)"

lemma gateway_new_fields:
  "gw_maxTunnelsPerAgent (gateway_new armed) = 0" "gw_sessionResumeEnabled (gateway_new armed)" "gw_sessionRepo (gateway_new armed)"
  "gw_region (gateway_new armed) = []" "gw_regUp (gateway_new armed)" "gw_router (gateway_new armed) = NewTunnelRouter ''ex.io''"
  "gw_publicListenAddr (gateway_new armed) = '':443''" "gw_armed (gateway_new armed) = armed" "gw_tunnels (gateway_new armed) = []"
  "gw_registry (gateway_new armed) = NewServer" "gw_streams (gateway_new armed) = NewManager"
  by (simp_all add: gateway_new_def NewGateway_def gateway_options_def)

lemma gateway_new_inv: "gw_inv (gateway_new armed)"
  by (auto simp: gw_inv_def gw_ok_def gateway_new_fields manager_inv_new NewTunnelRouter_def NewServer_def reg_inv_def
      repo_inv_Nil lease_inv_New) (simp_all add: NewManager_def)

lemma agent_labels:
  "check_labels (a2_Tunnels agent_auth) [] = Ok [\<lparr> rt_Label = ''web'', rt_LocalAddr = ''localhost:80'', rt_TunnelType = ''tcp'' \<rparr>]"
  by (simp add: agent_auth_def auth_example_def ValidateLabel_def MatchString_label label_char_def in_range_def)

lemma agent_port: "publicPort '':443'' = ''443''"
  by (simp add: publicPort_def SplitHostPort_def LastIndexByte_def IndexByte_def)

lemma agent_handshake_eval:
  obtains p q w' g' where "agent_handshake armed = (Ok (''a'', ''t-a'', p, q), w', g')"
proof -
  obtain k s where lease: "acquireTunnelLease ''l1'' 5 ''t-a'' (gateway_new armed) = (Ok k, (gateway_new armed)\<lparr>gw_registry := s\<rparr>)"
    by (rule agent_lease)
  have id: "NewTunnelID ''a'' = ''t-a''"
    by (simp add: NewTunnelID_def)
  have hosts: "length (vl_hosts (register_labels port (a2_Tunnels agent_auth) l)) = length (vl_hosts l) + 1" for port l
    by (simp add: agent_auth_def auth_example_def Let_def split: prod.split)
  have region: "a2_PreferredRegion agent_auth = []" by (simp add: agent_auth_def)
  show ?thesis
    by (rule that) (simp add: agent_handshake_def handleV2Auth_def agent_reader_decode gateway_new_fields agent_labels
      id lease Let_def region send_authv2resp authv2resp_sendable_def hosts max_defs)
qed

lemma agent_dispatch:
  obtains w' g' where "auth_frame_by_type (\<lambda>_. Ok ''a'') ''l1'' (Ok ''tokA'') 5 7 MsgAuthV2 agent_reader fresh_writer (gateway_new armed) =
    Some (ConnEstablished ''t-a'', w', g')"
proof -
  obtain p q w1 g1 where run: "agent_handshake armed = (Ok (''a'', ''t-a'', p, q), w1, g1)"
    by (rule agent_handshake_eval)
  have "authenticated 7 ''a'' ''t-a'' (gateway_new armed) g1"
    by (rule handleV2Auth_Ok) (rule run [unfolded agent_handshake_def])
  then have g1: "gw_regUp g1" "sv_store (gw_registry g1) = []"
    by (simp_all add: authenticated_def gateway_new_fields NewServer_def)
  have "\<exists>w' g'. establish 5 7 (agent_handshake armed) = (ConnEstablished ''t-a'', w', g')"
    by (simp add: run establish_def reg_call_def g1 client_RegisterTunnel_def RegisterTunnel_def mem_Register_def
        session_literal_ids Let_def split: prod.split)
  then show ?thesis
    using that by (auto simp: auth_frame_by_type_def agent_handshake_def)
qed

lemma ReadMessageType_unread: "ReadMessageType (unread b r) = Ok (b, r)"
  by (simp add: ReadMessageType_def unread_def ReadFull_def pbind_def preturn_def)

lemma msg_types_distinct: "MsgAuthV2 \<noteq> MsgHello" "MsgAuthV2 \<noteq> MsgSessionResume"
  by (simp_all add: MsgHello_def MsgAuthV2_def MsgSessionResume_def)

lemma agent_tunnel:
  assumes "auth_frame_by_type authn i token now conn MsgAuthV2 r w g = Some (ConnEstablished t, w', g')"
  shows "map_of (gw_tunnels g') t \<noteq> None"
proof -
  obtain y w1 g1 where run: "handleV2Auth authn i token now conn r w g = (y, w1, g1)"
    by (cases "handleV2Auth authn i token now conn r w g")
  have res: "establish now conn (y, w1, g1) = (ConnEstablished t, w', g')"
    using assms by (simp add: auth_frame_by_type_def run)
  then obtain a u p q where y: "y = Ok (a, u, p, q)"
    by (cases y) (auto simp: establish_def close_conn_def)
  from establish_Ok(1,3) [OF res [unfolded y]] handleV2Auth_Ok [OF run [unfolded y]] show ?thesis
    by (auto simp: authenticated_def)
qed

theorem resume_timer_kills_live_tunnel_witness:
  "\<exists>w' g'. auth_frame_by_type (\<lambda>_. Ok ''a'') ''l1'' (Ok ''tokA'') 5 7 MsgAuthV2 agent_reader fresh_writer
      (gateway_new [(0, (''t-a'', 30))]) = Some (ConnEstablished ''t-a'', w', g') \<and>
    getTunnel ''t-a'' g' \<noteq> None \<and> getTunnel ''t-a'' (fire_timer 0 g') = None"
proof -
  obtain w' g' where run: "auth_frame_by_type (\<lambda>_. Ok ''a'') ''l1'' (Ok ''tokA'') 5 7 MsgAuthV2 agent_reader fresh_writer
      (gateway_new [(0, (''t-a'', 30))]) = Some (ConnEstablished ''t-a'', w', g')"
    by (rule agent_dispatch)
  have "map_of (gw_armed (gateway_new [(0, (''t-a'', 30))])) 0 = Some (''t-a'', 30)"
    by (simp add: gateway_new_fields)
  from resume_timer_kills_live_tunnel [OF this run] run show ?thesis by auto
qed


subsection \<open>Resume tokens\<close>

definition unknown_token :: "string \<Rightarrow> session_repo \<Rightarrow> bool" where
  "unknown_token tok r \<longleftrightarrow> (\<forall>k s. map_of r k = Some s \<longrightarrow> ss_ResumeToken s \<noteq> tok)"

lemma unknown_token_get:
  assumes "unknown_token tok r" and "repo_inv r"
  shows "\<exists>e. mem_GetResumable now tok r = Err e"
proof -
  have "\<not> resumable now tok (snd p)" if "p \<in> set r" for p
    using that assms in_set_mwf [of r "fst p" "snd p"] by (auto simp: unknown_token_def repo_inv_def resumable_def)
  then have "find (\<lambda>p. resumable now tok (snd p)) r = None"
    unfolding find_None_iff by blast
  then show ?thesis
    by (simp add: mem_GetResumable_def)
qed

lemma unknown_token_removeTunnel:
  assumes "unknown_token tok (sv_store (gw_registry g))"
  shows "unknown_token tok (sv_store (gw_registry (removeTunnel t r g)))"
  using assms by (auto simp: removeTunnel_def unknown_token_def release_and_deregister_store split: option.split if_splits)

lemma unknown_token_SetResumable:
  assumes "unknown_token tok (sv_store (gw_registry g))" and "tok2 \<noteq> tok"
  shows "unknown_token tok (sv_store (gw_registry (snd (repo_SetResumable t tok2 d g))))"
  using assms by (auto simp: repo_SetResumable_def mem_SetResumable_def unknown_token_def split: prod.split if_splits)

lemma unknown_token_suspend:
  assumes "unknown_token tok (sv_store (gw_registry g))" and "tok2 \<noteq> tok"
  shows "unknown_token tok (sv_store (gw_registry (snd (agent_stream (Ok tok2) now t AcceptFailed g))))"
proof -
  have "unknown_token tok (sv_store (gw_registry (snd (suspendTunnel (Ok tok2) now t r g))))" for r
  proof (cases "\<exists>av c. map_of (gw_tunnels g) t = Some av \<and> av_conn av = Some c")
    case False
    with assms(1) show ?thesis
      by (auto simp: suspendTunnel_def split: option.split)
  next
    case True
    then obtain av c where av: "map_of (gw_tunnels g) t = Some av" "av_conn av = Some c" by blast
    let ?g = "(CloseWithError (Some c) r g)\<lparr>gw_tunnels := mupd t (\<lambda>av. av\<lparr>av_conn := None, av_suspended := True\<rparr>) (gw_tunnels g),
        gw_streams := CloseByTunnel t (gw_streams g)\<rparr>"
    obtain x g2 where set: "repo_SetResumable t tok2 (now + gw_sessionResumeTTL g) ?g = (x, g2)"
      by (cases "repo_SetResumable t tok2 (now + gw_sessionResumeTTL g) ?g")
    have "unknown_token tok (sv_store (gw_registry g2))"
      using unknown_token_SetResumable [of tok ?g tok2 t "now + gw_sessionResumeTTL g"] assms by (simp add: set)
    then show ?thesis
      using av set by (simp add: suspendTunnel_def Let_def unknown_token_removeTunnel arm_timer_def)
  qed
  then show ?thesis
    using assms(1) by (simp add: agent_stream_def unknown_token_removeTunnel split: prod.split) (metis snd_conv)
qed


definition resume_reader :: "string \<Rightarrow> reader" where
  "resume_reader tok = \<lparr> rd_data = tl (resume_frame \<lparr> sr_Token = tok \<rparr>), rd_err = EOF \<rparr>"

lemma resume_reader_decode:
  "DecodeSessionResume (unread MsgSessionResume (resume_reader ''tokA'')) = Ok (\<lparr> sr_Token = ''tokA'' \<rparr>, \<lparr> rd_data = [], rd_err = EOF \<rparr>)"
proof -
  have "unread MsgSessionResume (resume_reader ''tokA'') = \<lparr> rd_data = resume_frame \<lparr> sr_Token = ''tokA'' \<rparr> @ [], rd_err = EOF \<rparr>"
    by (simp add: unread_def resume_reader_def resume_frame_def)
  moreover have "resume_valid \<lparr> sr_Token = ''tokA'' \<rparr>"
    by (simp add: resume_valid_def max_defs)
  ultimately show ?thesis
    using resume_codec.roundtrip [of "\<lparr> sr_Token = ''tokA'' \<rparr>" "[]" EOF] by simp
qed

lemma agent_disconnects:
  assumes "map_of (gw_tunnels g) t = Some av" and "av_conn av = Some c"
  obtains go_on g' where "agent_stream (Ok tok) now t AcceptFailed g = (Ok go_on, g')"
proof -
  have "fst (agent_stream (Ok tok) now t AcceptFailed g) = Ok False"
    using assms by (simp add: agent_stream_def suspendTunnel_def Let_def split: prod.split)
  then show ?thesis
    using that by (metis prod.collapse)
qed


end
