(* ===== verification/TE_Config.thy ===== *)
theory TE_Config
  imports TE_Net TE_Domain
begin

text \<open>
  The configuration of the services (\<^verbatim>\<open>src/pkg/config/config.go\<close>) and what the agent's command line makes of it
  (\<^verbatim>\<open>src/cmd/agent/main.go\<close>): validation, the list of gateway targets, the flag overrides and the choice of
  the tunnels. Reading files and environment variables is the configuration library's part; \<open>cfg\<close> is what it returns.
\<close>

subsection \<open>The sections\<close>

record TunnelConfig =
  tc_Label :: string
  tc_LocalAddr :: string
  tc_TunnelType :: string

record AgentConfig =
  ac_GatewayAddr :: string
  ac_GatewayAddrs :: "string list"
  ac_Token :: string
  ac_LocalAddr :: string
  ac_Tunnels :: "TunnelConfig list"
  ac_ReconnectDelay :: duration
  ac_MaxReconnect :: int
  ac_HeartbeatInterval :: duration
  ac_QUICTimeout :: duration
  ac_TLSCAFile :: string
  ac_TLSInsecure :: bool
  ac_MTLSEnabled :: bool
  ac_ClientCertFile :: string
  ac_ClientKeyFile :: string
  ac_APIURL :: string
  ac_StreamIdleTimeout :: duration
  ac_PreferredRegion :: string
  ac_SessionResumeEnabled :: bool

record GatewayConfig =
  gc_QUICListenAddr :: string
  gc_PublicListenAddr :: string
  gc_BaseDomain :: string
  gc_RegistryAddr :: string
  gc_RelayID :: string
  gc_AdvertiseAddr :: string
  gc_TLSCertFile :: string
  gc_TLSKeyFile :: string
  gc_RegistryTLSCert :: string
  gc_LeaseTTL :: duration
  gc_HealthReportInterval :: duration
  gc_ShutdownTimeout :: duration
  gc_MaxStreams :: int
  gc_GRPCAuthToken :: string
  gc_StreamIdleTimeout :: duration
  gc_MTLSEnabled :: bool
  gc_ClientCAFile :: string
  gc_RegistryMTLS :: bool
  gc_RegistryCertFile :: string
  gc_RegistryKeyFile :: string
  gc_AuthRateLimitRPM :: int
  gc_MaxTunnelsPerAgent :: int
  gc_MaxStreamsPerTunnel :: int
  gc_Region :: string
  gc_SessionResumeEnabled :: bool
  gc_SessionResumeTTL :: duration
  gc_UDPListenAddr :: string

record RegistryConfig =
  rc_GRPCListenAddr :: string
  rc_TLSCertFile :: string
  rc_TLSKeyFile :: string
  rc_SessionTTL :: duration
  rc_CleanupInterval :: duration
  rc_GRPCAuthToken :: string
  rc_EtcdEndpoints :: "string list"
  rc_EtcdDialTimeout :: duration
  rc_MTLSEnabled :: bool
  rc_ClientCAFile :: string
  rc_AuthRateLimitRPM :: int

record DashboardConfig =
  dc_HTTPListenAddr :: string
  dc_JWTSecret :: string
  dc_JWTTTL :: duration
  dc_BaseURL :: string
  dc_SMTPHost :: string
  dc_SMTPPort :: int
  dc_SMTPFrom :: string
  dc_RefreshTokenEnabled :: bool
  dc_RefreshTokenTTL :: duration
  dc_AuthRateLimitRPM :: int
  dc_MaxFailedLogins :: int
  dc_LockoutDuration :: duration

record LogConfig =
  lc_Level :: string
  lc_Format :: string

record ObservabilityConfig =
  oc_MetricsEnabled :: bool
  oc_MetricsAddr :: string
  oc_TracingEnabled :: bool
  oc_TracingEndpoint :: string

record DBConfig =
  db_Driver :: string
  db_DSN :: string
  db_MaxOpenConns :: int
  db_MaxIdleConns :: int
  db_ConnMaxLifetime :: duration
  db_AutoMigrate :: bool

record Config =
  cf_ServiceName :: string
  cf_Log :: LogConfig
  cf_Observability :: ObservabilityConfig
  cf_Agent :: AgentConfig
  cf_Gateway :: GatewayConfig
  cf_Registry :: RegistryConfig
  cf_Dashboard :: DashboardConfig
  cf_DB :: DBConfig

datatype ServiceType = ServiceAgent | ServiceGateway | ServiceRegistry | ServiceDashboard

subsection \<open>Gateway targets\<close>

text \<open>The closure \<^verbatim>\<open>appendTarget\<close>; the addresses seen are the ones appended.\<close>

definition appendTarget :: "string \<Rightarrow> string list \<Rightarrow> string list" where
  "appendTarget addr targets = (let addr = TrimSpace addr in
     if addr = [] then targets else if addr \<in> set targets then targets else targets @ [addr])"

definition GatewayTargets :: "AgentConfig \<Rightarrow> string list" where
  "GatewayTargets c = fold appendTarget (ac_GatewayAddrs c) (appendTarget (ac_GatewayAddr c) [])"

subsection \<open>Validation\<close>

text \<open>A check that fails ends \<^verbatim>\<open>Validate\<close> with its message.\<close>

primrec first_failed :: "(bool \<times> string) list \<Rightarrow> unit result" where
  "first_failed [] = Ok ()"
| "first_failed (c # cs) = (if fst c then Err (PlainErr (snd c)) else first_failed cs)"

definition common_checks :: "Config \<Rightarrow> (bool \<times> string) list" where
  "common_checks c =
     [(oc_MetricsEnabled (cf_Observability c) \<and> oc_MetricsAddr (cf_Observability c) = [],
       ''observability.metrics_addr is required when metrics are enabled''),
      (oc_TracingEnabled (cf_Observability c) \<and> oc_TracingEndpoint (cf_Observability c) = [],
       ''observability.tracing_endpoint is required when tracing is enabled''),
      (db_Driver (cf_DB c) = ''postgres'' \<and> db_DSN (cf_DB c) = [], ''db.dsn is required when db.driver=postgres'')]"

fun service_checks :: "ServiceType \<Rightarrow> Config \<Rightarrow> (bool \<times> string) list" where
  "service_checks ServiceAgent c = (let a = cf_Agent c in
     [(length (GatewayTargets a) = 0, ''agent.gateway_addr or agent.gateway_addrs is required''),
      (ac_Token a = [], ''agent.token is required''),
      (ac_ReconnectDelay a \<le> 0, ''agent.reconnect_delay must be greater than zero''),
      (ac_HeartbeatInterval a \<le> 0, ''agent.heartbeat_interval must be greater than zero''),
      (ac_StreamIdleTimeout a \<le> 0, ''agent.stream_idle_timeout must be greater than zero''),
      (ac_MaxReconnect a < 0, ''agent.max_reconnect cannot be negative'')])"
| "service_checks ServiceGateway c = (let g = cf_Gateway c in
     [(gc_QUICListenAddr g = [], ''gateway.quic_listen_addr is required''),
      (gc_PublicListenAddr g = [], ''gateway.public_listen_addr is required''),
      (gc_BaseDomain g = [], ''gateway.base_domain is required''),
      (gc_RegistryAddr g = [], ''gateway.registry_addr is required''),
      (gc_RelayID g = [], ''gateway.relay_id is required''),
      (gc_LeaseTTL g \<le> 0, ''gateway.lease_ttl must be greater than zero''),
      (gc_HealthReportInterval g \<le> 0, ''gateway.health_report_interval must be greater than zero''),
      (gc_ShutdownTimeout g \<le> 0, ''gateway.shutdown_timeout must be greater than zero''),
      (gc_StreamIdleTimeout g \<le> 0, ''gateway.stream_idle_timeout must be greater than zero''),
      (gc_MaxStreams g \<le> 0, ''gateway.max_streams must be greater than zero'')])"
| "service_checks ServiceRegistry c = (let r = cf_Registry c in
     [(rc_GRPCListenAddr r = [], ''registry.grpc_listen_addr is required''),
      (rc_SessionTTL r \<le> 0, ''registry.session_ttl must be greater than zero''),
      (rc_CleanupInterval r \<le> 0, ''registry.cleanup_interval must be greater than zero''),
      (rc_CleanupInterval r \<ge> rc_SessionTTL r, ''registry.cleanup_interval must be less than registry.session_ttl'')])"
| "service_checks ServiceDashboard c = (let d = cf_Dashboard c in
     [(dc_HTTPListenAddr d = [], ''dashboard.http_listen_addr is required''),
      (dc_JWTSecret d = [], ''dashboard.jwt_secret is required''),
      (dc_JWTTTL d \<le> 0, ''dashboard.jwt_ttl must be greater than zero''),
      (dc_BaseURL d = [], ''dashboard.base_url is required'')])"

definition Validate :: "ServiceType \<Rightarrow> Config \<Rightarrow> unit result" where
  "Validate svc c = first_failed (common_checks c @ service_checks svc c)"

subsection \<open>Defaults\<close>

text \<open>The settings \<^verbatim>\<open>defaults\<close> registers with the configuration library, by key.\<close>

datatype setting = SStr string | SStrs "string list" | SInt int | SBool bool | SDur duration

definition shared_defaults :: "(string \<times> setting) list" where
  "shared_defaults =
     [(''log.level'', SStr ''info''),
      (''log.format'', SStr ''json''),
      (''observability.metrics_enabled'', SBool True),
      (''observability.metrics_addr'', SStr '':9090''),
      (''observability.tracing_enabled'', SBool False),
      (''observability.tracing_endpoint'', SStr ''localhost:4317''),
      (''db.driver'', SStr ''memory''),
      (''db.dsn'', SStr []),
      (''db.max_open_conns'', SInt 10),
      (''db.max_idle_conns'', SInt 5),
      (''db.conn_max_lifetime'', SDur 300000000000),
      (''db.auto_migrate'', SBool True)]"

fun service_defaults :: "ServiceType \<Rightarrow> (string \<times> setting) list" where
  "service_defaults ServiceAgent =
     [(''agent.gateway_addr'', SStr ''localhost:4433''),
      (''agent.gateway_addrs'', SStrs [''localhost:4433'']),
      (''agent.reconnect_delay'', SDur 2000000000),
      (''agent.max_reconnect'', SInt 0),
      (''agent.heartbeat_interval'', SDur 15000000000),
      (''agent.quic_timeout'', SDur 30000000000),
      (''agent.tls_insecure'', SBool True),
      (''agent.stream_idle_timeout'', SDur 30000000000),
      (''agent.mtls_enabled'', SBool False)]"
| "service_defaults ServiceGateway =
     [(''gateway.quic_listen_addr'', SStr '':4433''),
      (''gateway.public_listen_addr'', SStr '':443''),
      (''gateway.base_domain'', SStr ''tunneledge.dev''),
      (''gateway.registry_addr'', SStr ''localhost:50051''),
      (''gateway.relay_id'', SStr ''gateway-1''),
      (''gateway.advertise_addr'', SStr []),
      (''gateway.registry_tls_cert'', SStr ''insecure''),
      (''gateway.lease_ttl'', SDur 45000000000),
      (''gateway.health_report_interval'', SDur 15000000000),
      (''gateway.shutdown_timeout'', SDur 15000000000),
      (''gateway.max_streams'', SInt 1000),
      (''gateway.grpc_auth_token'', SStr []),
      (''gateway.stream_idle_timeout'', SDur 30000000000),
      (''gateway.mtls_enabled'', SBool False),
      (''gateway.registry_mtls'', SBool False),
      (''gateway.auth_rate_limit_rpm'', SInt 60),
      (''gateway.max_tunnels_per_agent'', SInt 20),
      (''gateway.max_streams_per_tunnel'', SInt 100)]"
| "service_defaults ServiceRegistry =
     [(''registry.grpc_listen_addr'', SStr '':50051''),
      (''registry.session_ttl'', SDur 300000000000),
      (''registry.cleanup_interval'', SDur 30000000000),
      (''registry.grpc_auth_token'', SStr []),
      (''registry.mtls_enabled'', SBool False),
      (''registry.auth_rate_limit_rpm'', SInt 120)]"
| "service_defaults ServiceDashboard =
     [(''dashboard.http_listen_addr'', SStr '':8080''),
      (''dashboard.jwt_secret'', SStr []),
      (''dashboard.jwt_ttl'', SDur 86400000000000),
      (''dashboard.base_url'', SStr ''http://localhost:8080''),
      (''dashboard.smtp_host'', SStr ''localhost''),
      (''dashboard.smtp_port'', SInt 1025),
      (''dashboard.smtp_from'', SStr ''noreply@tunneledge.dev''),
      (''dashboard.refresh_token_enabled'', SBool False),
      (''dashboard.refresh_token_ttl'', SDur 604800000000000),
      (''dashboard.auth_rate_limit_rpm'', SInt 5),
      (''dashboard.max_failed_logins'', SInt 10),
      (''dashboard.lockout_duration'', SDur 900000000000)]"

definition defaults :: "ServiceType \<Rightarrow> (string \<times> setting) list" where
  "defaults svc = shared_defaults @ service_defaults svc"

text \<open>The field a key is bound to by its \<^verbatim>\<open>mapstructure\<close> tags.\<close>

definition shared_fields :: "(string \<times> (Config \<Rightarrow> setting)) list" where
  "shared_fields =
     [(''log.level'', \<lambda>c. SStr (lc_Level (cf_Log c))),
      (''log.format'', \<lambda>c. SStr (lc_Format (cf_Log c))),
      (''observability.metrics_enabled'', \<lambda>c. SBool (oc_MetricsEnabled (cf_Observability c))),
      (''observability.metrics_addr'', \<lambda>c. SStr (oc_MetricsAddr (cf_Observability c))),
      (''observability.tracing_enabled'', \<lambda>c. SBool (oc_TracingEnabled (cf_Observability c))),
      (''observability.tracing_endpoint'', \<lambda>c. SStr (oc_TracingEndpoint (cf_Observability c))),
      (''db.driver'', \<lambda>c. SStr (db_Driver (cf_DB c))),
      (''db.dsn'', \<lambda>c. SStr (db_DSN (cf_DB c))),
      (''db.max_open_conns'', \<lambda>c. SInt (db_MaxOpenConns (cf_DB c))),
      (''db.max_idle_conns'', \<lambda>c. SInt (db_MaxIdleConns (cf_DB c))),
      (''db.conn_max_lifetime'', \<lambda>c. SDur (db_ConnMaxLifetime (cf_DB c))),
      (''db.auto_migrate'', \<lambda>c. SBool (db_AutoMigrate (cf_DB c)))]"

fun service_fields :: "ServiceType \<Rightarrow> (string \<times> (Config \<Rightarrow> setting)) list" where
  "service_fields ServiceAgent =
     [(''agent.gateway_addr'', \<lambda>c. SStr (ac_GatewayAddr (cf_Agent c))),
      (''agent.gateway_addrs'', \<lambda>c. SStrs (ac_GatewayAddrs (cf_Agent c))),
      (''agent.reconnect_delay'', \<lambda>c. SDur (ac_ReconnectDelay (cf_Agent c))),
      (''agent.max_reconnect'', \<lambda>c. SInt (ac_MaxReconnect (cf_Agent c))),
      (''agent.heartbeat_interval'', \<lambda>c. SDur (ac_HeartbeatInterval (cf_Agent c))),
      (''agent.quic_timeout'', \<lambda>c. SDur (ac_QUICTimeout (cf_Agent c))),
      (''agent.tls_insecure'', \<lambda>c. SBool (ac_TLSInsecure (cf_Agent c))),
      (''agent.stream_idle_timeout'', \<lambda>c. SDur (ac_StreamIdleTimeout (cf_Agent c))),
      (''agent.mtls_enabled'', \<lambda>c. SBool (ac_MTLSEnabled (cf_Agent c)))]"
| "service_fields ServiceGateway =
     [(''gateway.quic_listen_addr'', \<lambda>c. SStr (gc_QUICListenAddr (cf_Gateway c))),
      (''gateway.public_listen_addr'', \<lambda>c. SStr (gc_PublicListenAddr (cf_Gateway c))),
      (''gateway.base_domain'', \<lambda>c. SStr (gc_BaseDomain (cf_Gateway c))),
      (''gateway.registry_addr'', \<lambda>c. SStr (gc_RegistryAddr (cf_Gateway c))),
      (''gateway.relay_id'', \<lambda>c. SStr (gc_RelayID (cf_Gateway c))),
      (''gateway.advertise_addr'', \<lambda>c. SStr (gc_AdvertiseAddr (cf_Gateway c))),
      (''gateway.registry_tls_cert'', \<lambda>c. SStr (gc_RegistryTLSCert (cf_Gateway c))),
      (''gateway.lease_ttl'', \<lambda>c. SDur (gc_LeaseTTL (cf_Gateway c))),
      (''gateway.health_report_interval'', \<lambda>c. SDur (gc_HealthReportInterval (cf_Gateway c))),
      (''gateway.shutdown_timeout'', \<lambda>c. SDur (gc_ShutdownTimeout (cf_Gateway c))),
      (''gateway.max_streams'', \<lambda>c. SInt (gc_MaxStreams (cf_Gateway c))),
      (''gateway.grpc_auth_token'', \<lambda>c. SStr (gc_GRPCAuthToken (cf_Gateway c))),
      (''gateway.stream_idle_timeout'', \<lambda>c. SDur (gc_StreamIdleTimeout (cf_Gateway c))),
      (''gateway.mtls_enabled'', \<lambda>c. SBool (gc_MTLSEnabled (cf_Gateway c))),
      (''gateway.registry_mtls'', \<lambda>c. SBool (gc_RegistryMTLS (cf_Gateway c))),
      (''gateway.auth_rate_limit_rpm'', \<lambda>c. SInt (gc_AuthRateLimitRPM (cf_Gateway c))),
      (''gateway.max_tunnels_per_agent'', \<lambda>c. SInt (gc_MaxTunnelsPerAgent (cf_Gateway c))),
      (''gateway.max_streams_per_tunnel'', \<lambda>c. SInt (gc_MaxStreamsPerTunnel (cf_Gateway c)))]"
| "service_fields ServiceRegistry =
     [(''registry.grpc_listen_addr'', \<lambda>c. SStr (rc_GRPCListenAddr (cf_Registry c))),
      (''registry.session_ttl'', \<lambda>c. SDur (rc_SessionTTL (cf_Registry c))),
      (''registry.cleanup_interval'', \<lambda>c. SDur (rc_CleanupInterval (cf_Registry c))),
      (''registry.grpc_auth_token'', \<lambda>c. SStr (rc_GRPCAuthToken (cf_Registry c))),
      (''registry.mtls_enabled'', \<lambda>c. SBool (rc_MTLSEnabled (cf_Registry c))),
      (''registry.auth_rate_limit_rpm'', \<lambda>c. SInt (rc_AuthRateLimitRPM (cf_Registry c)))]"
| "service_fields ServiceDashboard =
     [(''dashboard.http_listen_addr'', \<lambda>c. SStr (dc_HTTPListenAddr (cf_Dashboard c))),
      (''dashboard.jwt_secret'', \<lambda>c. SStr (dc_JWTSecret (cf_Dashboard c))),
      (''dashboard.jwt_ttl'', \<lambda>c. SDur (dc_JWTTTL (cf_Dashboard c))),
      (''dashboard.base_url'', \<lambda>c. SStr (dc_BaseURL (cf_Dashboard c))),
      (''dashboard.smtp_host'', \<lambda>c. SStr (dc_SMTPHost (cf_Dashboard c))),
      (''dashboard.smtp_port'', \<lambda>c. SInt (dc_SMTPPort (cf_Dashboard c))),
      (''dashboard.smtp_from'', \<lambda>c. SStr (dc_SMTPFrom (cf_Dashboard c))),
      (''dashboard.refresh_token_enabled'', \<lambda>c. SBool (dc_RefreshTokenEnabled (cf_Dashboard c))),
      (''dashboard.refresh_token_ttl'', \<lambda>c. SDur (dc_RefreshTokenTTL (cf_Dashboard c))),
      (''dashboard.auth_rate_limit_rpm'', \<lambda>c. SInt (dc_AuthRateLimitRPM (cf_Dashboard c))),
      (''dashboard.max_failed_logins'', \<lambda>c. SInt (dc_MaxFailedLogins (cf_Dashboard c))),
      (''dashboard.lockout_duration'', \<lambda>c. SDur (dc_LockoutDuration (cf_Dashboard c)))]"

subsection \<open>The command line of the agent\<close>

definition parseTunnelFlag :: "string \<Rightarrow> (string \<times> string) result" where
  "parseTunnelFlag s = (case Cut s (CHR ''='') of (before, after, found) \<Rightarrow>
     if \<not> found then Err (PlainErr ''invalid tunnel format: expected label=local_addr'')
     else let label = TrimSpace before; localAddr = TrimSpace after in
       if label = [] \<or> localAddr = [] then Err (PlainErr ''invalid tunnel format: both label and local_addr required'')
       else Ok (label, localAddr))"

record agent_flags =
  fl_GatewayAddr :: string
  fl_GatewayAddrs :: "string list"
  fl_Token :: string
  fl_LocalAddr :: string
  fl_Tunnels :: "string list"
  fl_LogLevel :: string
  fl_LogFormat :: string
  fl_MetricsAddr :: string

definition override :: "string \<Rightarrow> string \<Rightarrow> string" where
  "override flag v = (if flag \<noteq> [] then flag else v)"

text \<open>\<^verbatim>\<open>loadConfig\<close> after \<^verbatim>\<open>config.Load\<close>.\<close>

definition loadConfig :: "agent_flags \<Rightarrow> Config result \<Rightarrow> Config result" where
  "loadConfig fl loaded = (case loaded of
     Err e \<Rightarrow> Err (WrapErr ''failed to load config'' e)
   | Panic \<Rightarrow> Panic
   | Ok cfg \<Rightarrow>
     (let a = cf_Agent cfg;
          a = (if fl_GatewayAddr fl \<noteq> []
               then a\<lparr>ac_GatewayAddr := fl_GatewayAddr fl, ac_GatewayAddrs := [fl_GatewayAddr fl]\<rparr> else a);
          a = (if fl_GatewayAddrs fl \<noteq> []
               then (let a = a\<lparr>ac_GatewayAddrs := fl_GatewayAddrs fl\<rparr> in
                     if ac_GatewayAddr a = [] then a\<lparr>ac_GatewayAddr := hd (fl_GatewayAddrs fl)\<rparr> else a) else a);
          a = a\<lparr>ac_Token := override (fl_Token fl) (ac_Token a), ac_LocalAddr := override (fl_LocalAddr fl) (ac_LocalAddr a)\<rparr>;
          l = cf_Log cfg;
          cfg = cfg\<lparr>cf_Agent := a,
            cf_Log := l\<lparr>lc_Level := override (fl_LogLevel fl) (lc_Level l), lc_Format := override (fl_LogFormat fl) (lc_Format l)\<rparr>,
            cf_Observability := (cf_Observability cfg)
              \<lparr>oc_MetricsAddr := override (fl_MetricsAddr fl) (oc_MetricsAddr (cf_Observability cfg))\<rparr>\<rparr>
      in case Validate ServiceAgent cfg of
           Ok _ \<Rightarrow> Ok cfg | Err e \<Rightarrow> Err (WrapErr ''invalid agent config'' e) | Panic \<Rightarrow> Panic))"

primrec parse_flags :: "string list \<Rightarrow> TunnelConfig list \<Rightarrow> TunnelConfig list result" where
  "parse_flags [] tunnels = Ok tunnels"
| "parse_flags (t # ts) tunnels = rbind (parseTunnelFlag t) (\<lambda>(label, localAddr).
     parse_flags ts (tunnels @ [\<lparr> tc_Label = label, tc_LocalAddr = localAddr, tc_TunnelType = [] \<rparr>]))"

definition resolveTunnels :: "Config \<Rightarrow> string list \<Rightarrow> string \<Rightarrow> TunnelConfig list result" where
  "resolveTunnels cfg flagTunnels flagLocalAddr =
     (if flagTunnels \<noteq> [] then
        if flagLocalAddr \<noteq> [] then Err (PlainErr ''cannot use both --local-addr and --tunnel flags'')
        else parse_flags flagTunnels []
      else if ac_LocalAddr (cf_Agent cfg) \<noteq> []
        then Ok [\<lparr> tc_Label = ''default'', tc_LocalAddr = ac_LocalAddr (cf_Agent cfg), tc_TunnelType = [] \<rparr>]
      else if ac_Tunnels (cf_Agent cfg) \<noteq> [] then Ok (ac_Tunnels (cf_Agent cfg))
      else Err (PlainErr ''no tunnels configured: use --tunnel or --local-addr''))"

subsection \<open>Properties\<close>

definition holds :: "(string \<times> (Config \<Rightarrow> setting)) list \<Rightarrow> Config \<Rightarrow> string \<times> setting \<Rightarrow> bool" where
  "holds bound cfg kv \<longleftrightarrow> (case map_of bound (fst kv) of Some f \<Rightarrow> f cfg = snd kv | None \<Rightarrow> False)"

text \<open>A configuration in which every setting has its default.\<close>

definition at_defaults :: "ServiceType \<Rightarrow> Config \<Rightarrow> bool" where
  "at_defaults svc cfg \<longleftrightarrow> list_all (holds shared_fields cfg) shared_defaults \<and> list_all (holds (service_fields svc) cfg) (service_defaults svc)"

lemma first_failed_append:
  "first_failed (xs @ ys) = (case first_failed xs of Ok _ \<Rightarrow> first_failed ys | r \<Rightarrow> r)"
  by (induction xs) auto

lemma common_at_defaults: "at_defaults svc cfg \<Longrightarrow> first_failed (common_checks cfg) = Ok ()"
  by (simp add: at_defaults_def shared_defaults_def shared_fields_def holds_def common_checks_def)

lemma Validate_at_defaults: "at_defaults svc cfg \<Longrightarrow> Validate svc cfg = first_failed (service_checks svc cfg)"
  by (simp add: Validate_def first_failed_append common_at_defaults)

lemma targets_nonempty: "TrimSpace (ac_GatewayAddr a) \<noteq> [] \<Longrightarrow> GatewayTargets a \<noteq> []"
proof -
  have "ts \<noteq> [] \<Longrightarrow> fold appendTarget xs ts \<noteq> []" for xs ts
    by (induction xs arbitrary: ts) (simp_all add: appendTarget_def Let_def)
  then show "TrimSpace (ac_GatewayAddr a) \<noteq> [] \<Longrightarrow> GatewayTargets a \<noteq> []"
    by (simp add: GatewayTargets_def appendTarget_def)
qed

text \<open>The built-in defaults are valid as far as they can be. A gateway and a registry start with nothing configured; an agent needs
  only its token; a dashboard with defaults is refused, because its signing secret has no usable default.\<close>

theorem defaults_validate:
  "(at_defaults ServiceGateway cfg \<longrightarrow> Validate ServiceGateway cfg = Ok ()) \<and>
   (at_defaults ServiceRegistry cfg \<longrightarrow> Validate ServiceRegistry cfg = Ok ()) \<and>
   (at_defaults ServiceAgent cfg \<longrightarrow> Validate ServiceAgent cfg =
     (if ac_Token (cf_Agent cfg) = [] then Err (PlainErr ''agent.token is required'') else Ok ())) \<and>
   (at_defaults ServiceDashboard cfg \<longrightarrow> Validate ServiceDashboard cfg = Err (PlainErr ''dashboard.jwt_secret is required''))"
proof (intro conjI impI)
  assume d: "at_defaults ServiceGateway cfg"
  show "Validate ServiceGateway cfg = Ok ()"
    using d unfolding Validate_at_defaults [OF d] at_defaults_def by (simp add: holds_def Let_def)
next
  assume d: "at_defaults ServiceRegistry cfg"
  show "Validate ServiceRegistry cfg = Ok ()"
    using d unfolding Validate_at_defaults [OF d] at_defaults_def by (simp add: holds_def Let_def)
next
  assume d: "at_defaults ServiceAgent cfg"
  have a: "TrimSpace (ac_GatewayAddr (cf_Agent cfg)) \<noteq> []"
    using d by (simp add: at_defaults_def holds_def TrimSpace_def is_space_def)
  show "Validate ServiceAgent cfg = (if ac_Token (cf_Agent cfg) = [] then Err (PlainErr ''agent.token is required'') else Ok ())"
    using d targets_nonempty [OF a] unfolding Validate_at_defaults [OF d] at_defaults_def by (simp add: holds_def Let_def)
next
  assume d: "at_defaults ServiceDashboard cfg"
  show "Validate ServiceDashboard cfg = Err (PlainErr ''dashboard.jwt_secret is required'')"
    using d unfolding Validate_at_defaults [OF d] at_defaults_def by (simp add: holds_def Let_def)
qed

definition registry_example :: RegistryConfig where
  "registry_example = \<lparr> rc_GRPCListenAddr = '':50051'', rc_TLSCertFile = [], rc_TLSKeyFile = [], rc_SessionTTL = 300000000000,
     rc_CleanupInterval = 30000000000, rc_GRPCAuthToken = [], rc_EtcdEndpoints = [], rc_EtcdDialTimeout = 0, rc_MTLSEnabled = False,
     rc_ClientCAFile = [], rc_AuthRateLimitRPM = 120 \<rparr>"

definition shared_example :: "LogConfig \<times> ObservabilityConfig \<times> DBConfig" where
  "shared_example = (\<lparr> lc_Level = ''info'', lc_Format = ''json'' \<rparr>,
     \<lparr> oc_MetricsEnabled = True, oc_MetricsAddr = '':9090'', oc_TracingEnabled = False, oc_TracingEndpoint = ''localhost:4317'' \<rparr>,
     \<lparr> db_Driver = ''memory'', db_DSN = [], db_MaxOpenConns = 10, db_MaxIdleConns = 5, db_ConnMaxLifetime = 300000000000,
       db_AutoMigrate = True \<rparr>)"

theorem defaults_validate_witness:
  "\<exists>cfg. at_defaults ServiceRegistry cfg \<and> Validate ServiceRegistry cfg = Ok ()"
proof -
  fix base :: Config
  define cfg where "cfg = base\<lparr>cf_Log := fst shared_example, cf_Observability := fst (snd shared_example),
    cf_DB := snd (snd shared_example), cf_Registry := registry_example\<rparr>"
  have cfg: "cf_Log cfg = fst shared_example" "cf_Observability cfg = fst (snd shared_example)"
    "cf_DB cfg = snd (snd shared_example)" "cf_Registry cfg = registry_example"
    by (simp_all add: cfg_def)
  have "at_defaults ServiceRegistry cfg"
    by (simp add: at_defaults_def shared_defaults_def shared_fields_def holds_def cfg shared_example_def registry_example_def)
  with defaults_validate show ?thesis by blast
qed

end
