(* ===== verification/TE_Agent.thy ===== *)
theory TE_Agent
  imports TE_Config TE_Transport
begin

text \<open>
  The agent (\<^verbatim>\<open>src/internal/agent/agent.go\<close>, \<^verbatim>\<open>events.go\<close>, \<^verbatim>\<open>udp_forwarder.go\<close>): connecting to a gateway with the
  handshake of either protocol version or a session resume, the reconnect loop with its backoff, the streams the
  gateway opens, heartbeats, telemetry and UDP forwarding.

  The network is an argument. A \<open>dial_env\<close> says what one attempt to reach a gateway meets: whether the certificates load, the
  connection or the error of the dial, the bytes the authentication stream delivers, and the events of the stream
  loop. An operation that waits for an event which does not come has not returned yet, its result is \<open>None\<close>.
  The streams of a connection are handled one at a time.
\<close>

subsection \<open>Events\<close>

text \<open>The reason of a closed stream is the error of its relay or dial; none is \<^verbatim>\<open>"clean"\<close>.\<close>

datatype AgentEvent =
    StatusUpdateEvent string string
  | StreamOpenedEvent string string string
  | StreamClosedEvent string string "goerror option" int int
  | TelemetryTickEvent "64 word" "64 word"
  | LogEvent string string "(string, string) gomap"

subsection \<open>The agent\<close>

text \<open>\<open>ag_eventCh\<close> is the buffer of the event channel and its capacity.\<close>

record Agent =
  ag_gatewayAddrs :: "string list"
  ag_token :: string
  ag_tunnels :: "TunnelConfig list"
  ag_tunnelMap :: "(string, string) gomap"
  ag_reconnectDelay :: duration
  ag_maxReconnect :: int
  ag_heartbeatInterval :: duration
  ag_streamIdleTimeout :: duration
  ag_tlsCAFile :: string
  ag_tlsInsecure :: bool
  ag_mtlsEnabled :: bool
  ag_clientCertFile :: string
  ag_clientKeyFile :: string
  ag_preferredRegion :: string
  ag_sessionResumeEnabled :: bool
  ag_resumeToken :: string
  ag_suggestedGateways :: "string list"
  ag_conn :: "nat option"
  ag_tunnelID :: string
  ag_publicURLs :: "(string, string) gomap"
  ag_eventCh :: "(AgentEvent list \<times> nat) option"
  ag_rxTotal :: "64 word"
  ag_txTotal :: "64 word"

record AgentOptions =
  ao_GatewayAddr :: string
  ao_GatewayAddrs :: "string list"
  ao_Token :: string
  ao_Tunnels :: "TunnelConfig list"
  ao_ReconnectDelay :: duration
  ao_MaxReconnect :: int
  ao_HeartbeatInterval :: duration
  ao_StreamIdleTimeout :: duration
  ao_TLSCAFile :: string
  ao_TLSInsecure :: bool
  ao_MTLSEnabled :: bool
  ao_ClientCertFile :: string
  ao_ClientKeyFile :: string
  ao_PreferredRegion :: string
  ao_SessionResumeEnabled :: bool
  ao_EventCh :: "nat option"

definition agentStreamIdleTimeout :: "duration \<Rightarrow> duration" where
  "agentStreamIdleTimeout v = (if v > 0 then v else 30 * 1000000000)"

definition appendAddr :: "string \<Rightarrow> string list \<Rightarrow> string list" where
  "appendAddr addr normalized = (let addr = TrimSpace addr in
     if addr = [] then normalized else if addr \<in> set normalized then normalized else normalized @ [addr])"

definition normalizeGatewayAddrs :: "string \<Rightarrow> string list \<Rightarrow> string list" where
  "normalizeGatewayAddrs primary addrs = fold appendAddr addrs (appendAddr primary [])"

definition NewAgent :: "AgentOptions \<Rightarrow> Agent" where
  "NewAgent opts =
     \<lparr> ag_gatewayAddrs = normalizeGatewayAddrs (ao_GatewayAddr opts) (ao_GatewayAddrs opts), ag_token = ao_Token opts,
       ag_tunnels = ao_Tunnels opts, ag_tunnelMap = fold (\<lambda>t. mput (tc_Label t) (tc_LocalAddr t)) (ao_Tunnels opts) [],
       ag_reconnectDelay = ao_ReconnectDelay opts, ag_maxReconnect = ao_MaxReconnect opts,
       ag_heartbeatInterval = ao_HeartbeatInterval opts, ag_streamIdleTimeout = agentStreamIdleTimeout (ao_StreamIdleTimeout opts),
       ag_tlsCAFile = ao_TLSCAFile opts, ag_tlsInsecure = ao_TLSInsecure opts, ag_mtlsEnabled = ao_MTLSEnabled opts,
       ag_clientCertFile = ao_ClientCertFile opts, ag_clientKeyFile = ao_ClientKeyFile opts,
       ag_preferredRegion = ao_PreferredRegion opts, ag_sessionResumeEnabled = ao_SessionResumeEnabled opts,
       ag_resumeToken = [], ag_suggestedGateways = [], ag_conn = None, ag_tunnelID = [], ag_publicURLs = [],
       ag_eventCh = map_option (\<lambda>cap. ([], cap)) (ao_EventCh opts), ag_rxTotal = 0, ag_txTotal = 0 \<rparr>"

text \<open>The options \<^verbatim>\<open>runHeadless\<close> of the command passes to \<^verbatim>\<open>NewAgent\<close>.\<close>

definition agent_options :: "Config \<Rightarrow> TunnelConfig list \<Rightarrow> AgentOptions" where
  "agent_options cfg tunnels = (let c = cf_Agent cfg in
     \<lparr> ao_GatewayAddr = ac_GatewayAddr c, ao_GatewayAddrs = GatewayTargets c, ao_Token = ac_Token c, ao_Tunnels = tunnels,
       ao_ReconnectDelay = ac_ReconnectDelay c, ao_MaxReconnect = ac_MaxReconnect c, ao_HeartbeatInterval = ac_HeartbeatInterval c,
       ao_StreamIdleTimeout = ac_StreamIdleTimeout c, ao_TLSCAFile = ac_TLSCAFile c, ao_TLSInsecure = ac_TLSInsecure c,
       ao_MTLSEnabled = ac_MTLSEnabled c, ao_ClientCertFile = ac_ClientCertFile c, ao_ClientKeyFile = ac_ClientKeyFile c,
       ao_PreferredRegion = ac_PreferredRegion c, ao_SessionResumeEnabled = ac_SessionResumeEnabled c, ao_EventCh = None \<rparr>)"

definition emitEvent :: "AgentEvent \<Rightarrow> Agent \<Rightarrow> Agent" where
  "emitEvent ev a = (case ag_eventCh a of
     None \<Rightarrow> a
   | Some (buf, cap) \<Rightarrow> if length buf < cap then a\<lparr>ag_eventCh := Some (buf @ [ev], cap)\<rparr> else a)"

text \<open>One tick of \<^verbatim>\<open>telemetryLoop\<close>; the pair is \<^verbatim>\<open>lastRx\<close>, \<^verbatim>\<open>lastTx\<close>.\<close>

definition telemetry_tick :: "64 word \<times> 64 word \<Rightarrow> Agent \<Rightarrow> (64 word \<times> 64 word) \<times> Agent" where
  "telemetry_tick prev a = (case prev of (lastRx, lastTx) \<Rightarrow>
     let curRx = ag_rxTotal a; curTx = ag_txTotal a
     in ((curRx, curTx), emitEvent (TelemetryTickEvent (curRx - lastRx) (curTx - lastTx)) a))"

definition setTunnelInfo :: "string \<Rightarrow> (string, string) gomap \<Rightarrow> Agent \<Rightarrow> Agent" where
  "setTunnelInfo tunnelID publicURLs a = a\<lparr>ag_tunnelID := tunnelID, ag_publicURLs := publicURLs\<rparr>"

definition setConn :: "nat option \<Rightarrow> Agent \<Rightarrow> Agent" where
  "setConn conn a = a\<lparr>ag_conn := conn\<rparr>"

subsection \<open>Streams from the gateway\<close>

text \<open>A stream the gateway opens: its number, what it delivers, whether the local service can be dialled, the byte counts the relay
  reports (\<open>True\<close>: sent, from the gateway to the service) and the relay's error.\<close>

record agent_stream_in =
  si_ID :: nat
  si_reader :: reader
  si_dial :: "string \<Rightarrow> goerror option"
  si_reports :: "(bool \<times> nat) list"
  si_err :: "goerror option"

primrec decimal_digits :: "nat \<Rightarrow> nat \<Rightarrow> string" where
  "decimal_digits 0 n = []"
| "decimal_digits (Suc fuel) n =
     (if n < 10 then [char_of (48 + n)] else decimal_digits fuel (n div 10) @ [char_of (48 + n mod 10)])"

definition stream_name :: "nat \<Rightarrow> string" where
  "stream_name n = ''s-'' @ decimal_digits (Suc n) n"

definition on_report :: "bool \<times> nat \<Rightarrow> Agent \<Rightarrow> Agent" where
  "on_report r a = (if fst r then a\<lparr>ag_rxTotal := ag_rxTotal a + word_of_nat (snd r)\<rparr>
     else a\<lparr>ag_txTotal := ag_txTotal a + word_of_nat (snd r)\<rparr>)"

definition relayed :: "bool \<Rightarrow> (bool \<times> nat) list \<Rightarrow> int" where
  "relayed dir rs = int (sum_list (map snd (filter (\<lambda>r. fst r = dir) rs)))"

text \<open>The result is the local address the stream was connected to.\<close>

definition handleStream :: "agent_stream_in \<Rightarrow> Agent \<Rightarrow> string option \<times> Agent" where
  "handleStream s a =
     (let streamID = stream_name (si_ID s) in
      case DecodeStreamLabel (si_reader s) of
        Ok (label, r) \<Rightarrow>
          (case map_of (ag_tunnelMap a) label of
             None \<Rightarrow> (None, a)
           | Some localAddr \<Rightarrow>
             (let a = emitEvent (StreamOpenedEvent streamID label localAddr) a in
              case si_dial s localAddr of
                Some e \<Rightarrow> (None, emitEvent (StreamClosedEvent streamID label (Some e) 0 0) a)
              | None \<Rightarrow>
                  (let a = fold on_report (si_reports s) a
                   in (Some localAddr, emitEvent (StreamClosedEvent streamID label (si_err s)
                         (relayed True (si_reports s)) (relayed False (si_reports s))) a))))
      | _ \<Rightarrow> (None, a))"

datatype accept_event = LoopCtxDone goerror | AcceptError "goerror option" goerror | AcceptedStream agent_stream_in

text \<open>\<^verbatim>\<open>streamLoop\<close>. An accept error carries the context's error, if the context is done.\<close>

primrec streamLoop :: "accept_event list \<Rightarrow> Agent \<Rightarrow> unit result option \<times> Agent" where
  "streamLoop [] a = (None, a)"
| "streamLoop (ev # evs) a = (case ev of
     LoopCtxDone e \<Rightarrow> (Some (Err e), a)
   | AcceptError ctxErr e \<Rightarrow>
       (Some (Err (case ctxErr of Some c \<Rightarrow> c | None \<Rightarrow> WrapErr ''failed to accept stream'' e)), a)
   | AcceptedStream s \<Rightarrow> streamLoop evs (snd (handleStream s a)))"

subsection \<open>The handshake\<close>

type_synonym 'a waiting = "'a result option \<times> writer \<times> Agent"

definition authenticateV1 :: "accept_event list \<Rightarrow> reader \<Rightarrow> writer \<Rightarrow> Agent \<Rightarrow> unit waiting" where
  "authenticateV1 evs r w a = (case EncodeAuth w (ag_token a) of
     (Err e, w) \<Rightarrow> (Some (Err (WrapErr ''failed to send auth'' e)), w, a)
   | (Panic, w) \<Rightarrow> (Some Panic, w, a)
   | (Ok _, w) \<Rightarrow> (case DecodeAuthResponse r of
       Err e \<Rightarrow> (Some (Err (WrapErr ''failed to read auth response'' e)), w, a)
     | Panic \<Rightarrow> (Some Panic, w, a)
     | Ok (authResp, r) \<Rightarrow>
         if ar_Status authResp \<noteq> AuthStatusOK then (Some (Err (PlainErr ''authentication rejected by gateway'')), w, a)
         else (let a = setTunnelInfo (ar_TunnelID authResp) [(''default'', ar_PublicURL authResp)] a;
                   a = emitEvent (StatusUpdateEvent ''Connected'' (ar_PublicURL authResp)) a
               in case streamLoop evs a of (res, a) \<Rightarrow> (res, w, a))))"

definition auth_message :: "Agent \<Rightarrow> AuthV2Message" where
  "auth_message a = \<lparr> a2_Token = ag_token a,
     a2_Tunnels = map (\<lambda>t. \<lparr> te_Label = tc_Label t, te_LocalAddr = tc_LocalAddr t, te_TunnelType = tc_TunnelType t \<rparr>) (ag_tunnels a),
     a2_PreferredRegion = ag_preferredRegion a \<rparr>"

definition accept_response :: "AuthV2ResponseMessage \<Rightarrow> Agent \<Rightarrow> Agent" where
  "accept_response authResp a =
     (let a = (if r2_ResumeToken authResp \<noteq> [] then a\<lparr>ag_resumeToken := r2_ResumeToken authResp\<rparr> else a);
          a = (if r2_SuggestedGateways authResp \<noteq> [] then a\<lparr>ag_suggestedGateways := r2_SuggestedGateways authResp\<rparr> else a);
          publicURLs = fold (\<lambda>t. mput (th_Label t) (th_Hostname t)) (r2_Tunnels authResp) [];
          a = setTunnelInfo (r2_TunnelID authResp) publicURLs a;
          primaryEndpoint = (case r2_Tunnels authResp of t # _ \<Rightarrow> th_Hostname t | [] \<Rightarrow> [])
      in emitEvent (StatusUpdateEvent ''Connected'' primaryEndpoint) a)"

definition authenticateV2 :: "accept_event list \<Rightarrow> reader \<Rightarrow> writer \<Rightarrow> Agent \<Rightarrow> unit waiting" where
  "authenticateV2 evs r w a = (case EncodeAuthV2 w (auth_message a) of
     (Err e, w) \<Rightarrow> (Some (Err (WrapErr ''failed to send auth v2'' e)), w, a)
   | (Panic, w) \<Rightarrow> (Some Panic, w, a)
   | (Ok _, w) \<Rightarrow> (case DecodeAuthV2Response r of
       Err e \<Rightarrow> (Some (Err (WrapErr ''failed to read auth v2 response'' e)), w, a)
     | Panic \<Rightarrow> (Some Panic, w, a)
     | Ok (authResp, r) \<Rightarrow>
         if r2_Status authResp \<noteq> AuthStatusOK then (Some (Err (PlainErr ''authentication rejected by gateway'')), w, a)
         else (case streamLoop evs (accept_response authResp a) of (res, a) \<Rightarrow> (res, w, a))))"

text \<open>\<^verbatim>\<open>trySessionResume\<close>: \<open>Inl\<close> when the token was rejected, with the reader after the response; \<open>Inr\<close> when it was not, with the
  result of the stream loop or the error before it.\<close>

definition trySessionResume ::
  "accept_event list \<Rightarrow> string \<Rightarrow> reader \<Rightarrow> writer \<Rightarrow> Agent \<Rightarrow> (reader + unit result option) \<times> writer \<times> Agent" where
  "trySessionResume evs token r w a = (case EncodeSessionResume w token of
     (Err e, w) \<Rightarrow> (Inr (Some (Err (WrapErr ''failed to send session resume'' e))), w, a)
   | (Panic, w) \<Rightarrow> (Inr (Some Panic), w, a)
   | (Ok _, w) \<Rightarrow> (case DecodeSessionResumeResp r of
       Err e \<Rightarrow> (Inr (Some (Err (WrapErr ''failed to read session resume response'' e))), w, a)
     | Panic \<Rightarrow> (Inr (Some Panic), w, a)
     | Ok (resp, r) \<Rightarrow>
         if rr_Status resp \<noteq> ResumeStatusResumed then (Inl r, w, a)
         else (let a = (if rr_NewToken resp \<noteq> [] then a\<lparr>ag_resumeToken := rr_NewToken resp\<rparr> else a);
                   a = emitEvent (StatusUpdateEvent ''Connected (resumed)'' []) a
               in case streamLoop evs a of (res, a) \<Rightarrow> (Inr res, w, a))))"

subsection \<open>Connecting\<close>

text \<open>The TLS configuration \<^verbatim>\<open>connect\<close> chooses; the last one says whether the server's certificate goes unchecked.\<close>

datatype tls_config = MTLSConfig string string string | CAConfig string | PlainConfig bool

definition agent_tls :: "Agent \<Rightarrow> tls_config" where
  "agent_tls a =
     (if ag_mtlsEnabled a \<and> ag_clientCertFile a \<noteq> [] \<and> ag_clientKeyFile a \<noteq> [] \<and> ag_tlsCAFile a \<noteq> []
      then MTLSConfig (ag_clientCertFile a) (ag_clientKeyFile a) (ag_tlsCAFile a)
      else if ag_tlsCAFile a \<noteq> [] then CAConfig (ag_tlsCAFile a)
      else PlainConfig (ag_tlsInsecure a))"

fun tls_error :: "tls_config \<Rightarrow> goerror \<Rightarrow> goerror" where
  "tls_error (MTLSConfig cert key ca) e = WrapErr ''load mTLS client config'' e"
| "tls_error (CAConfig ca) e = WrapErr ''load TLS CA'' e"
| "tls_error (PlainConfig insecure) e = e"

record dial_env =
  de_load :: "tls_config \<Rightarrow> goerror option"
  de_conn :: "nat result"
  de_stream :: "reader result"
  de_writer :: writer
  de_loop :: "accept_event list"
  de_ctxDone :: bool

definition full_auth :: "accept_event list \<Rightarrow> reader \<Rightarrow> writer \<Rightarrow> Agent \<Rightarrow> unit waiting" where
  "full_auth evs r w a = (if ag_tunnels a \<noteq> [] then authenticateV2 evs r w a else authenticateV1 evs r w a)"

text \<open>\<^verbatim>\<open>connect\<close> once the authentication stream is open.\<close>

definition greet :: "accept_event list \<Rightarrow> reader \<Rightarrow> writer \<Rightarrow> Agent \<Rightarrow> unit waiting" where
  "greet evs r w a = (case EncodeHello w ''tunneledge/agent'' of
     (Err e, w) \<Rightarrow> (Some (Err (WrapErr ''failed to send hello'' e)), w, a)
   | (Panic, w) \<Rightarrow> (Some Panic, w, a)
   | (Ok _, w) \<Rightarrow>
       if ag_sessionResumeEnabled a \<and> ag_resumeToken a \<noteq> [] then
         (case trySessionResume evs (ag_resumeToken a) r w a of
            (Inl r, w, a) \<Rightarrow> full_auth evs r w (a\<lparr>ag_resumeToken := []\<rparr>)
          | (Inr (Some (Err e)), w, a) \<Rightarrow> (Some (Err (WrapErr ''session resume error'' e)), w, a)
          | (Inr res, w, a) \<Rightarrow> (res, w, a))
       else full_auth evs r w a)"

definition agent_connect :: "dial_env \<Rightarrow> Agent \<Rightarrow> unit waiting" where
  "agent_connect env a =
     (case de_load env (agent_tls a) of
        Some e \<Rightarrow> (Some (Err (tls_error (agent_tls a) e)), de_writer env, a)
      | None \<Rightarrow> (case de_conn env of
          Err e \<Rightarrow> (Some (Err (WrapErr ''failed to dial gateway'' e)), de_writer env, a)
        | Panic \<Rightarrow> (Some Panic, de_writer env, a)
        | Ok conn \<Rightarrow>
            (let a = setConn (Some conn) a in
             case (case de_stream env of
                 Err e \<Rightarrow> (Some (Err (WrapErr ''failed to open auth stream'' e)), de_writer env, a)
               | Panic \<Rightarrow> (Some Panic, de_writer env, a)
               | Ok r \<Rightarrow> greet (de_loop env) r (de_writer env) a) of
               (None, w, a) \<Rightarrow> (None, w, a)
             | (Some res, w, a) \<Rightarrow> (Some res, w, setConn None a))))"

primrec try_targets :: "(string \<Rightarrow> dial_env) \<Rightarrow> string list \<Rightarrow> goerror option \<Rightarrow> Agent \<Rightarrow> unit result option \<times> Agent" where
  "try_targets env [] lastErr a =
     (Some (Err (case lastErr of Some e \<Rightarrow> e | None \<Rightarrow> PlainErr ''no gateway targets configured'')), a)"
| "try_targets env (gatewayAddr # targets) lastErr a = (case agent_connect (env gatewayAddr) a of
     (None, w, a) \<Rightarrow> (None, a)
   | (Some (Ok u), w, a) \<Rightarrow> (Some (Ok u), a)
   | (Some (Err e), w, a) \<Rightarrow> if de_ctxDone (env gatewayAddr) then (Some (Err e), a) else try_targets env targets (Some e) a
   | (Some Panic, w, a) \<Rightarrow> (Some Panic, a))"

definition connectTargets :: "(string \<Rightarrow> dial_env) \<Rightarrow> Agent \<Rightarrow> unit result option \<times> Agent" where
  "connectTargets env a =
     (let targets = (if ag_suggestedGateways a \<noteq> [] then ag_suggestedGateways a @ ag_gatewayAddrs a else ag_gatewayAddrs a)
      in if targets = [] then (Some (Err (PlainErr ''no gateway targets configured'')), a) else try_targets env targets None a)"

subsection \<open>The reconnect loop\<close>

text \<open>What one round of \<^verbatim>\<open>runConnectLoop\<close> meets: the context's error at the top, the gateways, the context's error after the
  attempt, the random number behind the jitter and the context's error during the wait.\<close>

record connect_round =
  cr_ctx :: "goerror option"
  cr_env :: "string \<Rightarrow> dial_env"
  cr_ctxAfter :: "goerror option"
  cr_rand :: int
  cr_wait :: "goerror option"

text \<open>The loop's variables and, for the properties, the waits so far.\<close>

record connect_loop =
  cl_attempts :: nat
  cl_delay :: duration
  cl_maxRetries :: int
  cl_waits :: "duration list"

datatype loop_result = LoopReturned goerror | LoopRunning | LoopPanic

definition wrap64 :: "int \<Rightarrow> int" where
  "wrap64 n = sint (word_of_int n :: 64 word)"

text \<open>\<^verbatim>\<open>rand.Int64N(n)\<close> panics unless \<open>n\<close> is positive; the random number is reduced to the range.\<close>

primrec connect_rounds :: "connect_round list \<Rightarrow> connect_loop \<Rightarrow> Agent \<Rightarrow> loop_result \<times> connect_loop \<times> Agent" where
  "connect_rounds [] l a = (LoopRunning, l, a)"
| "connect_rounds (rd # rds) l a = (case cr_ctx rd of
     Some e \<Rightarrow> (LoopReturned e, l, emitEvent (StatusUpdateEvent ''Disconnected'' []) a)
   | None \<Rightarrow>
     (case connectTargets (cr_env rd) (emitEvent (StatusUpdateEvent ''Connecting'' []) a) of
        (None, a) \<Rightarrow> (LoopRunning, l, a)
      | (Some (Ok u), a) \<Rightarrow> connect_rounds rds (l\<lparr>cl_attempts := 0, cl_delay := ag_reconnectDelay a\<rparr>) a
      | (Some Panic, a) \<Rightarrow> (LoopPanic, l, a)
      | (Some (Err err), a) \<Rightarrow>
        (case cr_ctxAfter rd of
           Some e \<Rightarrow> (LoopReturned e, l, a)
         | None \<Rightarrow>
           (let m = cl_maxRetries l; l = (if m > 0 then l\<lparr>cl_maxRetries := m - 1\<rparr> else l) in
            if m > 0 \<and> cl_maxRetries l = 0 then (LoopReturned (WrapErr ''max reconnect attempts reached'' err), l, a)
            else let half = go_div (cl_delay l) 2; l = l\<lparr>cl_attempts := cl_attempts l + 1\<rparr> in
              if half \<le> 0 then (LoopPanic, l, a)
              else let l = l\<lparr>cl_waits := cl_waits l @ [wrap64 (cl_delay l + cr_rand rd mod half)]\<rparr>;
                       a = emitEvent (StatusUpdateEvent ''Reconnecting'' []) a in
                (case cr_wait rd of
                   Some e \<Rightarrow> (LoopReturned e, l, emitEvent (StatusUpdateEvent ''Disconnected'' []) a)
                 | None \<Rightarrow> connect_rounds rds (l\<lparr>cl_delay := min (wrap64 (cl_delay l * 2)) (30 * 1000000000)\<rparr>) a)))))"

definition runConnectLoop :: "connect_round list \<Rightarrow> Agent \<Rightarrow> loop_result \<times> connect_loop \<times> Agent" where
  "runConnectLoop rds a = connect_rounds rds
     \<lparr> cl_attempts = 0, cl_delay = ag_reconnectDelay a, cl_maxRetries = ag_maxReconnect a, cl_waits = [] \<rparr> a"

text \<open>One tick of \<^verbatim>\<open>heartbeatLoop\<close>, with the stream \<^verbatim>\<open>OpenStreamSync\<close> returns: whether the loop goes on, and what was sent.\<close>

definition agent_heartbeat :: "writer result \<Rightarrow> Agent \<Rightarrow> bool \<times> byte list" where
  "agent_heartbeat qs a = (case ag_conn a of
     None \<Rightarrow> (False, [])
   | Some conn \<Rightarrow> (case qs of
       Ok w \<Rightarrow> (case EncodeHeartbeat w of (r, w') \<Rightarrow> (is_ok r, drop (length (wr_out w)) (wr_out w')))
     | _ \<Rightarrow> (False, [])))"

subsection \<open>UDP forwarding\<close>

record UDPForwarder =
  uf_label :: string
  uf_localAddr :: string
  uf_sessions :: "(string, string) gomap"

definition newUDPForwarder :: "(string \<Rightarrow> bool) \<Rightarrow> string \<Rightarrow> string \<Rightarrow> UDPForwarder option" where
  "newUDPForwarder listen label localAddr =
     (if listen localAddr then Some \<lparr> uf_label = label, uf_localAddr = localAddr, uf_sessions = [] \<rparr> else None)"

definition start_forwarders :: "(string \<Rightarrow> bool) \<Rightarrow> TunnelConfig list \<Rightarrow> (string, UDPForwarder) gomap" where
  "start_forwarders listen tunnels = fold (\<lambda>t m. if tc_TunnelType t \<noteq> ''udp'' then m
     else case newUDPForwarder listen (tc_Label t) (tc_LocalAddr t) of None \<Rightarrow> m | Some f \<Rightarrow> mput (tc_Label t) f m) tunnels []"

text \<open>One datagram of \<^verbatim>\<open>runLocalToGateway\<close> from \<open>remoteAddr\<close>: the forwarder and the frame sent.\<close>

definition local_to_gateway :: "string \<Rightarrow> byte list \<Rightarrow> UDPForwarder \<Rightarrow> UDPForwarder \<times> byte list option" where
  "local_to_gateway remoteAddr payload f =
     (let f = f\<lparr>uf_sessions := mput remoteAddr remoteAddr (uf_sessions f)\<rparr> in
      case EncodeUDPDatagram \<lparr> ud_Label = uf_label f, ud_SrcAddr = remoteAddr, ud_Payload = payload \<rparr> of
        Ok frame \<Rightarrow> (f, Some frame) | _ \<Rightarrow> (f, None))"

definition deliverFromGateway :: "UDPDatagramMessage \<Rightarrow> UDPForwarder \<Rightarrow> (string \<times> byte list) option" where
  "deliverFromGateway msg f = map_option (\<lambda>addr. (addr, ud_Payload msg)) (map_of (uf_sessions f) (ud_SrcAddr msg))"

text \<open>One datagram of \<^verbatim>\<open>udpDatagramLoop\<close>: the label of the forwarder that answers, the client and the payload.\<close>

definition udp_dispatch :: "(string, UDPForwarder) gomap \<Rightarrow> byte list \<Rightarrow> (string \<times> string \<times> byte list) option" where
  "udp_dispatch forwarders data = (case DecodeUDPDatagram data of
     Ok msg \<Rightarrow> (case map_of forwarders (ud_Label msg) of
         Some f \<Rightarrow> map_option (\<lambda>d. (ud_Label msg, d)) (deliverFromGateway msg f) | None \<Rightarrow> None)
   | _ \<Rightarrow> None)"

end
