(* ===== verification/TE_Reconnect.thy ===== *)
theory TE_Reconnect
  imports TE_Agent
begin

text \<open>
  Properties of the agent on its own: the list of gateways it dials, that no connection attempt crashes it or ends without an error,
  and what its reconnect loop does with its retry budget and its delays.
\<close>

subsection \<open>Frames\<close>

lemma emitEvent_frame [simp]:
  "ag_gatewayAddrs (emitEvent ev a) = ag_gatewayAddrs a" "ag_tunnels (emitEvent ev a) = ag_tunnels a"
  "ag_tunnelMap (emitEvent ev a) = ag_tunnelMap a" "ag_token (emitEvent ev a) = ag_token a"
  "ag_reconnectDelay (emitEvent ev a) = ag_reconnectDelay a" "ag_maxReconnect (emitEvent ev a) = ag_maxReconnect a"
  "ag_suggestedGateways (emitEvent ev a) = ag_suggestedGateways a" "ag_conn (emitEvent ev a) = ag_conn a"
  "ag_tunnelID (emitEvent ev a) = ag_tunnelID a" "ag_publicURLs (emitEvent ev a) = ag_publicURLs a"
  "ag_resumeToken (emitEvent ev a) = ag_resumeToken a" "ag_preferredRegion (emitEvent ev a) = ag_preferredRegion a"
  by (simp_all add: emitEvent_def split: option.split prod.split)

subsection \<open>A connection attempt\<close>

text \<open>The stream loop only ends with an error, so no attempt ends without one.\<close>

lemma streamLoop_ends: "fst (streamLoop evs a) \<noteq> Some (Ok u)" "fst (streamLoop evs a) \<noteq> Some Panic"
  by (induction evs arbitrary: a) (auto split: accept_event.split)

lemma send_frame_safe: "frame \<noteq> Panic \<Longrightarrow> fst (send_frame w frame) \<noteq> Panic"
  by (cases frame) (auto simp: send_frame_def Write_def split: option.split)

lemma encoders_safe:
  "fst (EncodeHello w v) \<noteq> Panic" "fst (EncodeAuth w tok) \<noteq> Panic" "fst (EncodeAuthV2 w m) \<noteq> Panic"
  "fst (EncodeSessionResume w tok) \<noteq> Panic"
  using authv2_buf_frame [of m]
  by (auto simp: EncodeHello_def EncodeAuth_def EncodeAuthV2_def EncodeSessionResume_def hello_buf_frame auth_buf_frame
      resume_buf_frame intro!: send_frame_safe split: if_splits)

lemma decoders_safe: "DecodeAuthResponse r \<noteq> Panic" "DecodeAuthV2Response r \<noteq> Panic" "DecodeSessionResumeResp r \<noteq> Panic"
  using authresp_codec.dec_safe authv2resp_codec.dec_safe resumeresp_codec.dec_safe by (simp_all add: safe_def)

lemmas never_nil = streamLoop_ends encoders_safe decoders_safe

definition only_errors :: "unit result option \<Rightarrow> bool" where
  "only_errors r \<longleftrightarrow> r = None \<or> (\<exists>e. r = Some (Err e))"

lemma only_errors_iff: "only_errors r \<longleftrightarrow> r \<noteq> Some (Ok ()) \<and> r \<noteq> Some Panic"
  unfolding only_errors_def by (cases r) (auto, metis old.unit.exhaust result.exhaust)

lemma streamLoop_only_errors: "streamLoop evs a = (res, a') \<Longrightarrow> only_errors res"
  using streamLoop_ends [of evs a] by (auto simp: only_errors_iff)

lemma full_auth_only_errors: "only_errors (fst (full_auth evs r w a))"
proof -
  have "only_errors (fst (authenticateV1 evs r w a))"
    using encoders_safe(2) [of w "ag_token a"] decoders_safe(1) [of r]
    by (auto simp: authenticateV1_def Let_def split: prod.split result.split dest: streamLoop_only_errors) (simp_all add: only_errors_def)
  moreover have "only_errors (fst (authenticateV2 evs r w a))"
    using encoders_safe(3) [of w "auth_message a"] decoders_safe(2) [of r]
    by (auto simp: authenticateV2_def Let_def split: prod.split result.split dest: streamLoop_only_errors) (simp_all add: only_errors_def)
  ultimately show ?thesis
    by (simp add: full_auth_def)
qed

lemma trySessionResume_only_errors: "trySessionResume evs tok r w a = (Inr res, w', a') \<Longrightarrow> only_errors res"
  using encoders_safe(4) [of w tok] decoders_safe(3) [of r]
  by (auto simp: trySessionResume_def Let_def split: prod.splits result.splits if_splits dest: streamLoop_only_errors)
    (simp_all add: only_errors_def)

lemma greet_only_errors: "only_errors (fst (greet evs r w a))"
proof (cases "EncodeHello w ''tunneledge/agent''")
  case (Pair y w1)
  show ?thesis
  proof (cases y)
    case (Ok u)
    obtain x w2 a2 where t: "trySessionResume evs (ag_resumeToken a) r w1 a = (x, w2, a2)"
      by (cases "trySessionResume evs (ag_resumeToken a) r w1 a")
    from Pair Ok t full_auth_only_errors trySessionResume_only_errors [of evs "ag_resumeToken a" r w1 a] show ?thesis
      by (auto simp: greet_def only_errors_iff split: sum.split option.split result.split)
  next
    case Panic
    with Pair encoders_safe(1) [of w "''tunneledge/agent''"] show ?thesis by simp
  qed (simp add: greet_def Pair only_errors_def)
qed

lemma agent_connect_only_errors:
  assumes "de_conn env \<noteq> Panic" and "de_stream env \<noteq> Panic"
  shows "only_errors (fst (agent_connect env a))"
proof (cases "\<exists>c r. de_load env (agent_tls a) = None \<and> de_conn env = Ok c \<and> de_stream env = Ok r")
  case False
  with assms show ?thesis
    by (auto simp: agent_connect_def only_errors_def Let_def split: option.split result.split)
next
  case True
  then obtain c r where env: "de_load env (agent_tls a) = None" "de_conn env = Ok c" "de_stream env = Ok r" by blast
  obtain y w2 a2 where g: "greet (de_loop env) r (de_writer env) (setConn (Some c) a) = (y, w2, a2)"
    by (cases "greet (de_loop env) r (de_writer env) (setConn (Some c) a)")
  with greet_only_errors [of "de_loop env" r "de_writer env" "setConn (Some c) a"] show ?thesis
    by (cases y) (simp_all add: agent_connect_def env Let_def)
qed

lemma connectTargets_only_errors:
  assumes "\<And>t. de_conn (env t) \<noteq> Panic" and "\<And>t. de_stream (env t) \<noteq> Panic"
  shows "only_errors (fst (connectTargets env a))"
proof -
  have "only_errors (fst (try_targets env ts e a))" for ts e
  proof (induction ts arbitrary: e a)
    case (Cons t ts)
    obtain y w2 a2 where c: "agent_connect (env t) a = (y, w2, a2)" by (cases "agent_connect (env t) a")
    with agent_connect_only_errors [OF assms(1) [of t] assms(2), of a] have "only_errors y" by simp
    then consider "y = None" | e where "y = Some (Err e)" by (auto simp: only_errors_def)
    then show ?case
      by cases (use c Cons.IH in \<open>simp_all add: only_errors_iff\<close>)
  qed (simp add: only_errors_def)
  then show ?thesis
    by (simp add: connectTargets_def only_errors_def Let_def)
qed

subsection \<open>The reconnect loop\<close>

definition healthy_env :: "(string \<Rightarrow> dial_env) \<Rightarrow> bool" where
  "healthy_env env \<longleftrightarrow> (\<forall>t. de_conn (env t) \<noteq> Panic \<and> de_stream (env t) \<noteq> Panic)"

lemma wrap64_id: "- (2 ^ 63) \<le> n \<Longrightarrow> n < 2 ^ 63 \<Longrightarrow> wrap64 n = n"
  by (simp add: wrap64_def sint_sbintrunc' signed_take_bit_int_eq_self)

definition max_delay :: duration where
  "max_delay = 30 * 1000000000"

definition backoff :: "duration \<Rightarrow> nat \<Rightarrow> duration" where
  "backoff d k = min (2 ^ k * d) max_delay"

lemma backoff_step:
  assumes "0 \<le> d"
  shows "backoff (min (d * 2) max_delay) k = backoff d (Suc k)"
proof (cases "d * 2 \<le> max_delay")
  case True
  then show ?thesis by (simp add: backoff_def min_def mult.assoc mult.commute)
next
  case False
  have one: "(1 :: int) \<le> 2 ^ k" by simp
  have "1 * max_delay \<le> 2 ^ k * max_delay" "1 * (d * 2) \<le> 2 ^ k * (d * 2)"
    using assms by (intro mult_right_mono; simp add: max_delay_def)+
  with False show ?thesis
    by (simp add: backoff_def min_def mult.assoc mult.commute)
qed

definition wait_ok :: "duration \<Rightarrow> duration \<Rightarrow> bool" where
  "wait_ok b w \<longleftrightarrow> b \<le> w \<and> w < b + b div 2"

lemma wait_in_range:
  assumes "2 \<le> d" and "d \<le> max_delay" and "0 \<le> j" and "j < d div 2"
  shows "wait_ok d (wrap64 (d + j))"
proof -
  have "wrap64 (d + j) = d + j"
    by (rule wrap64_id) (use assms in \<open>simp_all add: max_delay_def\<close>)
  with assms show ?thesis by (simp add: wait_ok_def)
qed

lemma connect_rounds_waits:
  assumes "\<forall>rd \<in> set rds. healthy_env (cr_env rd)" and "2 \<le> cl_delay l" and "cl_delay l \<le> max_delay"
    and "connect_rounds rds l a = (res, l', a')"
  shows "res \<noteq> LoopPanic \<and> (\<exists>ws. cl_waits l' = cl_waits l @ ws \<and> (\<forall>k < length ws. wait_ok (backoff (cl_delay l) k) (ws ! k)))"
  using assms
proof (induction rds arbitrary: l a)
  case (Cons rd rds)
  let ?a = "emitEvent (StatusUpdateEvent ''Connecting'' []) a"
  obtain y a1 where c: "connectTargets (cr_env rd) ?a = (y, a1)" by (cases "connectTargets (cr_env rd) ?a")
  have "only_errors (fst (connectTargets (cr_env rd) ?a))"
    using Cons.prems(1) by (intro connectTargets_only_errors) (simp_all add: healthy_env_def)
  then consider "y = None" | err where "y = Some (Err err)" by (auto simp: only_errors_def c)
  then show ?case
  proof cases
    case 1
    with Cons.prems(4) c show ?thesis by (auto split: option.splits)
  next
    case 2
    define half where "half = go_div (cl_delay l) 2"
    have half: "half = cl_delay l div 2" "0 < half"
      using Cons.prems(2) by (simp_all add: half_def go_div_def)
    define w where "w = wrap64 (cl_delay l + cr_rand rd mod half)"
    have w: "wait_ok (cl_delay l) w"
      unfolding w_def by (rule wait_in_range [OF Cons.prems(2,3)]) (use half in simp_all)
    define l1 where "l1 = (if cl_maxRetries l > 0 then l\<lparr>cl_maxRetries := cl_maxRetries l - 1\<rparr> else l)
        \<lparr>cl_attempts := cl_attempts l + 1, cl_waits := cl_waits l @ [w]\<rparr>"
    define l2 where "l2 = l1\<lparr>cl_delay := min (cl_delay l * 2) max_delay\<rparr>"
    have l2: "cl_waits l2 = cl_waits l @ [w]" "cl_delay l2 = min (cl_delay l * 2) max_delay" "2 \<le> cl_delay l2" "cl_delay l2 \<le> max_delay"
      using Cons.prems(2) by (simp_all add: l2_def l1_def max_delay_def)
    have d2: "wrap64 (cl_delay l * 2) = cl_delay l * 2"
      using Cons.prems(2,3) by (simp add: wrap64_id max_delay_def)
    have b0: "backoff (cl_delay l) 0 = cl_delay l"
      using Cons.prems(3) by (simp add: backoff_def)
    have cases: "(res \<noteq> LoopPanic \<and> cl_waits l' = cl_waits l) \<or> (res \<noteq> LoopPanic \<and> cl_waits l' = cl_waits l @ [w]) \<or>
        (\<exists>a2. connect_rounds rds l2 a2 = (res, l', a'))"
      using Cons.prems(4) c 2 half(2)
      by (auto simp: Let_def half_def [symmetric] w_def [symmetric] l2_def l1_def d2 max_delay_def split: option.splits if_splits)
    from cases consider "res \<noteq> LoopPanic" "cl_waits l' = cl_waits l" | "res \<noteq> LoopPanic" "cl_waits l' = cl_waits l @ [w]"
      | a2 where "connect_rounds rds l2 a2 = (res, l', a')" by blast
    then show ?thesis
    proof cases
      case 1
      then show ?thesis by auto
    next
      case 2
      with w b0 show ?thesis by auto
    next
      case 3
      have "\<forall>rd \<in> set rds. healthy_env (cr_env rd)" using Cons.prems(1) by simp
      from Cons.IH [OF this l2(3,4) 3] obtain ws where ws: "res \<noteq> LoopPanic" "cl_waits l' = cl_waits l2 @ ws"
        "\<forall>k < length ws. wait_ok (backoff (cl_delay l2) k) (ws ! k)" by blast
      have "wait_ok (backoff (cl_delay l) k) ((w # ws) ! k)" if "k < length (w # ws)" for k
        using that w b0 ws(3) backoff_step [of "cl_delay l"] Cons.prems(2) by (cases k) (auto simp: l2(2))
      with ws(1,2) l2(1) show ?thesis
        by (intro conjI exI [of _ "w # ws"]) simp_all
    qed
  qed
qed simp

text \<open>C29: The delays between connection attempts double up to a cap, for the whole life of the agent. With a configured delay
  between two nanoseconds and thirty seconds the loop never crashes, and its wait number k lies between the configured delay
  doubled k times, capped at thirty seconds, and one and a half times that. The delay is never reset, however long the
  sessions in between have lasted.\<close>

theorem reconnect_backoff:
  assumes "\<forall>rd \<in> set rds. healthy_env (cr_env rd)" and "2 \<le> ag_reconnectDelay a" and "ag_reconnectDelay a \<le> max_delay"
    and "runConnectLoop rds a = (res, l, a')"
  shows "res \<noteq> LoopPanic \<and> (\<forall>k < length (cl_waits l).
    backoff (ag_reconnectDelay a) k \<le> cl_waits l ! k \<and>
    cl_waits l ! k < backoff (ag_reconnectDelay a) k + backoff (ag_reconnectDelay a) k div 2)"
  using connect_rounds_waits [OF assms(1) _ _ assms(4) [unfolded runConnectLoop_def]] assms(2,3)
  by (auto simp: wait_ok_def)

definition session_ends :: "accept_event \<Rightarrow> bool" where
  "session_ends ev \<longleftrightarrow> (case ev of AcceptedStream s \<Rightarrow> False | _ \<Rightarrow> True)"

definition ending_env :: "(string \<Rightarrow> dial_env) \<Rightarrow> bool" where
  "ending_env env \<longleftrightarrow> (\<forall>t. \<exists>ev \<in> set (de_loop (env t)). session_ends ev)"

lemma streamLoop_returns: "\<exists>ev \<in> set evs. session_ends ev \<Longrightarrow> fst (streamLoop evs a) \<noteq> None"
  by (induction evs arbitrary: a) (auto simp: session_ends_def split: accept_event.split)

lemma full_auth_returns:
  assumes "\<exists>ev \<in> set evs. session_ends ev"
  shows "fst (full_auth evs r w a) \<noteq> None"
proof -
  note ends = streamLoop_returns [OF assms]
  have r: "streamLoop evs b = (res, c) \<Longrightarrow> res \<noteq> None" for b res c
    using ends [of b] by simp
  show ?thesis
    by (auto simp: full_auth_def authenticateV1_def authenticateV2_def Let_def split: prod.split result.split dest: r)
qed

lemma agent_connect_returns:
  assumes "ending_env env"
  shows "fst (agent_connect (env t) a) \<noteq> None"
proof -
  have ends: "\<exists>ev \<in> set (de_loop (env t)). session_ends ev" using assms by (simp add: ending_env_def)
  have r: "streamLoop (de_loop (env t)) b = (res, c) \<Longrightarrow> res \<noteq> None" for b res c
    using streamLoop_returns [OF ends, of b] by simp
  have tr: "trySessionResume (de_loop (env t)) tok r w b = (Inr res, w', c) \<Longrightarrow> res \<noteq> None" for tok r w b res w' c
    by (auto simp: trySessionResume_def Let_def split: prod.splits result.splits if_splits dest: r)
  have g: "fst (greet (de_loop (env t)) r w b) \<noteq> None" for r w b
  proof (cases "EncodeHello w ''tunneledge/agent''")
    case (Pair y w1)
    obtain x w2 a2 where "trySessionResume (de_loop (env t)) (ag_resumeToken b) r w1 b = (x, w2, a2)"
      by (cases "trySessionResume (de_loop (env t)) (ag_resumeToken b) r w1 b")
    with Pair full_auth_returns [OF ends] tr [of "ag_resumeToken b" r w1 b] show ?thesis
      by (cases y) (auto simp: greet_def split: sum.split option.split result.split)
  qed
  have g': "greet (de_loop (env t)) r w b \<noteq> (None, w', c)" for r w b w' c
    using g [of r w b] by auto
  show ?thesis
    by (auto simp: agent_connect_def Let_def g' split: option.split result.split prod.split)
qed

lemma connectTargets_fails:
  assumes "healthy_env env" and "ending_env env"
  obtains err a' where "connectTargets env a = (Some (Err err), a')"
proof -
  have "fst (try_targets env ts e a) \<noteq> None" for ts e
  proof (induction ts arbitrary: e a)
    case (Cons t ts)
    with agent_connect_returns [OF assms(2), of t a] show ?case
      by (auto split: prod.split option.split result.split)
  qed simp
  then have "fst (connectTargets env a) \<noteq> None"
    by (simp add: connectTargets_def Let_def)
  moreover have "only_errors (fst (connectTargets env a))"
    using assms(1) by (intro connectTargets_only_errors) (simp_all add: healthy_env_def)
  ultimately show ?thesis
    using that by (auto simp: only_errors_def) (metis prod.collapse)
qed

lemma connect_rounds_budget:
  assumes "\<forall>rd \<in> set rds. healthy_env (cr_env rd) \<and> ending_env (cr_env rd) \<and> cr_ctx rd = None \<and> cr_ctxAfter rd = None \<and> cr_wait rd = None"
    and "2 \<le> cl_delay l" and "cl_delay l \<le> max_delay" and "cl_maxRetries l = int (Suc n)" and "Suc n \<le> length rds"
  shows "\<exists>err l' a'. connect_rounds rds l a = (LoopReturned (WrapErr ''max reconnect attempts reached'' err), l', a') \<and>
    length (cl_waits l') = length (cl_waits l) + n"
  using assms
proof (induction n arbitrary: rds l a)
  case 0
  then obtain rd rest where rds: "rds = rd # rest" by (cases rds) auto
  obtain err a1 where c: "connectTargets (cr_env rd) (emitEvent (StatusUpdateEvent ''Connecting'' []) a) = (Some (Err err), a1)"
    by (rule connectTargets_fails) (use 0 rds in auto)
  with 0 rds show ?case by (simp add: Let_def)
next
  case (Suc n)
  then obtain rd rest where rds: "rds = rd # rest" by (cases rds) auto
  obtain err a1 where c: "connectTargets (cr_env rd) (emitEvent (StatusUpdateEvent ''Connecting'' []) a) = (Some (Err err), a1)"
    by (rule connectTargets_fails) (use Suc.prems rds in auto)
  have half: "0 < go_div (cl_delay l) 2"
    using Suc.prems(2) by (simp add: go_div_def)
  have d2: "wrap64 (cl_delay l * 2) = cl_delay l * 2"
    using Suc.prems(2,3) by (simp add: wrap64_id max_delay_def)
  let ?l = "l\<lparr>cl_maxRetries := int (Suc n), cl_attempts := cl_attempts l + 1, cl_waits := cl_waits l @
      [wrap64 (cl_delay l + cr_rand rd mod go_div (cl_delay l) 2)], cl_delay := min (cl_delay l * 2) max_delay\<rparr>"
  have "connect_rounds rds l a = connect_rounds rest ?l (emitEvent (StatusUpdateEvent ''Reconnecting'' []) a1)"
    using Suc.prems(1,4) half d2 by (simp add: rds c Let_def max_delay_def add.commute)
  moreover have "\<exists>err l' a'. connect_rounds rest ?l (emitEvent (StatusUpdateEvent ''Reconnecting'' []) a1) =
      (LoopReturned (WrapErr ''max reconnect attempts reached'' err), l', a') \<and> length (cl_waits l') = length (cl_waits ?l) + n"
    by (rule Suc.IH) (use Suc.prems rds in \<open>auto simp: max_delay_def\<close>)
  ultimately show ?case by simp
qed


subsection \<open>An agent whose sessions are fine\<close>

definition agent_example :: Agent where
  "agent_example = NewAgent \<lparr> ao_GatewayAddr = ''gw:4433'', ao_GatewayAddrs = [], ao_Token = ''tok'', ao_Tunnels = [],
     ao_ReconnectDelay = 2000000000, ao_MaxReconnect = 2, ao_HeartbeatInterval = 1, ao_StreamIdleTimeout = 1, ao_TLSCAFile = [],
     ao_TLSInsecure = True, ao_MTLSEnabled = False, ao_ClientCertFile = [], ao_ClientKeyFile = [], ao_PreferredRegion = [],
     ao_SessionResumeEnabled = False, ao_EventCh = None \<rparr>"

definition auth_ok :: AuthResponseMessage where
  "auth_ok = \<lparr> ar_Status = AuthStatusOK, ar_TunnelID = ''t-a'', ar_PublicURL = ''a.ex.io:443'' \<rparr>"

definition session_env :: dial_env where
  "session_env = \<lparr> de_load = (\<lambda>_. None), de_conn = Ok 1, de_stream = Ok \<lparr> rd_data = authresp_frame auth_ok, rd_err = EOF \<rparr>,
     de_writer = fresh_writer, de_loop = [AcceptError None EOF], de_ctxDone = False \<rparr>"

definition session_round :: connect_round where
  "session_round = \<lparr> cr_ctx = None, cr_env = (\<lambda>_. session_env), cr_ctxAfter = None, cr_rand = 5, cr_wait = None \<rparr>"

lemma session_round_ok: "healthy_env (cr_env session_round)" "ending_env (cr_env session_round)"
  by (simp_all add: session_round_def session_env_def healthy_env_def ending_env_def session_ends_def)

lemma agent_example_fields:
  "ag_reconnectDelay agent_example = 2000000000" "ag_maxReconnect agent_example = 2" "ag_gatewayAddrs agent_example = [''gw:4433'']"
  "ag_suggestedGateways agent_example = []" "ag_tunnels agent_example = []" "ag_token agent_example = ''tok''"
  "\<not> ag_sessionResumeEnabled agent_example"
  by (simp_all add: agent_example_def NewAgent_def normalizeGatewayAddrs_def appendAddr_def TrimSpace_def is_space_def)

text \<open>The session of the example authenticates: the agent learns its tunnel.\<close>

lemma session_authenticates: "ag_tunnelID (snd (connectTargets (\<lambda>_. session_env) agent_example)) = ''t-a''"
proof -
  have valid: "authresp_valid auth_ok"
    by (simp add: auth_ok_def authresp_valid_def max_defs)
  have dec: "DecodeAuthResponse \<lparr> rd_data = authresp_frame auth_ok, rd_err = EOF \<rparr> = Ok (auth_ok, \<lparr> rd_data = [], rd_err = EOF \<rparr>)"
    using authresp_codec.roundtrip [OF valid, of "[]" EOF] by simp
  have fields: "ar_Status auth_ok = AuthStatusOK" "ar_TunnelID auth_ok = ''t-a''"
    by (simp_all add: auth_ok_def)
  have enc: "\<exists>w'. EncodeHello fresh_writer v = (Ok (), w') \<and> wr_room w' = None" for v
    by (simp add: EncodeHello_def hello_buf_frame send_frame_def Write_def fresh_writer_def)
  then obtain w' where hello: "EncodeHello fresh_writer ''tunneledge/agent'' = (Ok (), w')" "wr_room w' = None" by blast
  have "\<exists>w2. EncodeAuth w' ''tok'' = (Ok (), w2)"
    by (simp add: EncodeAuth_def auth_buf_frame auth_valid_def send_frame_def Write_def hello(2) max_defs)
  then obtain w2 where auth: "EncodeAuth w' ''tok'' = (Ok (), w2)" by blast
  show ?thesis
    by (simp add: connectTargets_def agent_example_fields session_env_def agent_connect_def greet_def hello auth
        full_auth_def authenticateV1_def dec fields setTunnelInfo_def setConn_def Let_def)
qed


theorem reconnect_backoff_witness:
  "\<exists>res l a'. runConnectLoop [session_round, session_round] agent_example = (res, l, a') \<and> length (cl_waits l) = 1 \<and>
     2000000000 \<le> cl_waits l ! 0 \<and> cl_waits l ! 0 < 3000000000"
proof -
  let ?l = "\<lparr> cl_attempts = 0, cl_delay = ag_reconnectDelay agent_example, cl_maxRetries = ag_maxReconnect agent_example, cl_waits = [] \<rparr>"
  have "\<exists>err l a'. connect_rounds [session_round, session_round] ?l agent_example =
      (LoopReturned (WrapErr ''max reconnect attempts reached'' err), l, a') \<and> length (cl_waits l) = length (cl_waits ?l) + 1"
    by (rule connect_rounds_budget)
      (auto simp: session_round_ok agent_example_fields max_delay_def, simp_all add: session_round_def)
  then obtain err l a' where run: "runConnectLoop [session_round, session_round] agent_example =
      (LoopReturned (WrapErr ''max reconnect attempts reached'' err), l, a')" and one: "length (cl_waits l) = 1"
    by (auto simp: runConnectLoop_def)
  have "backoff 2000000000 0 = 2000000000" by (simp add: backoff_def max_delay_def)
  with reconnect_backoff [OF _ _ _ run] one have "2000000000 \<le> cl_waits l ! 0 \<and> cl_waits l ! 0 < 3000000000"
    by (auto simp: session_round_ok agent_example_fields max_delay_def)
  with run one show ?thesis by blast
qed

subsection \<open>The gateways an agent dials\<close>

lemma hd_dropWhile_not: "dropWhile P s \<noteq> [] \<Longrightarrow> \<not> P (hd (dropWhile P s))"
  by (induction s) auto

lemma dropWhile_idI: "s = [] \<or> \<not> P (hd s) \<Longrightarrow> dropWhile P s = s"
  by (cases s) auto

lemma TrimSpace_idem [simp]: "TrimSpace (TrimSpace s) = TrimSpace s"
proof -
  let ?u = "dropWhile is_space s" and ?t = "TrimSpace s"
  have rev_t: "rev ?t = dropWhile is_space (rev ?u)" by (simp add: TrimSpace_def)
  obtain sp where "rev ?u = sp @ rev ?t" unfolding rev_t by (metis takeWhile_dropWhile_id)
  then have u: "?u = ?t @ rev sp" by (metis rev_append rev_rev_ident)
  have "dropWhile is_space ?t = ?t"
    by (rule dropWhile_idI) (metis hd_append2 hd_dropWhile_not u Nil_is_append_conv)
  moreover have "dropWhile is_space (rev ?t) = rev ?t"
    by (rule dropWhile_idI) (metis hd_dropWhile_not rev_t)
  ultimately show ?thesis
    by (metis TrimSpace_def rev_rev_ident)
qed

definition clean_targets :: "string list \<Rightarrow> bool" where
  "clean_targets ts \<longleftrightarrow> distinct ts \<and> (\<forall>t \<in> set ts. t \<noteq> [] \<and> TrimSpace t = t)"

lemma appendTarget_clean: "clean_targets ts \<Longrightarrow> clean_targets (appendTarget x ts)"
  by (auto simp: clean_targets_def appendTarget_def Let_def)

lemma fold_appendTarget:
  "set (fold appendTarget xs ts) = set ts \<union> {t \<in> TrimSpace ` set xs. t \<noteq> []}"
  "clean_targets ts \<Longrightarrow> clean_targets (fold appendTarget xs ts)"
  "\<exists>zs. fold appendTarget xs ts = ts @ zs"
proof -
  show "set (fold appendTarget xs ts) = set ts \<union> {t \<in> TrimSpace ` set xs. t \<noteq> []}"
    by (induction xs arbitrary: ts) (auto simp: appendTarget_def Let_def)
  show "clean_targets ts \<Longrightarrow> clean_targets (fold appendTarget xs ts)"
    by (induction xs arbitrary: ts) (simp_all add: appendTarget_clean)
  show "\<exists>zs. fold appendTarget xs ts = ts @ zs"
  proof (induction xs arbitrary: ts)
    case (Cons x xs)
    have "\<exists>zs. appendTarget x ts = ts @ zs" by (simp add: appendTarget_def Let_def)
    with Cons [of "appendTarget x ts"] show ?case by auto
  qed simp
qed

lemma fold_append_clean: "clean_targets (ts @ ys) \<Longrightarrow> fold appendTarget ys ts = ts @ ys"
proof (induction ys arbitrary: ts)
  case (Cons y ys)
  then have "appendTarget y ts = ts @ [y]" by (auto simp: clean_targets_def appendTarget_def)
  with Cons show ?case by simp
qed simp

lemma appendAddr_eq: "appendAddr = appendTarget"
  by (intro ext) (simp add: appendAddr_def appendTarget_def)


definition agent_config :: AgentConfig where
  "agent_config = \<lparr> ac_GatewayAddr = ''gw1:4433'', ac_GatewayAddrs = ['' gw2:4433 '', ''gw1:4433''], ac_Token = ''tok'', ac_LocalAddr = [],
     ac_Tunnels = [], ac_ReconnectDelay = 1, ac_MaxReconnect = 0, ac_HeartbeatInterval = 1, ac_QUICTimeout = 1, ac_TLSCAFile = [],
     ac_TLSInsecure = True, ac_MTLSEnabled = False, ac_ClientCertFile = [], ac_ClientKeyFile = [], ac_APIURL = [],
     ac_StreamIdleTimeout = 1, ac_PreferredRegion = [], ac_SessionResumeEnabled = False \<rparr>"

lemma agent_config_fields:
  "ac_GatewayAddr agent_config = ''gw1:4433''" "ac_GatewayAddrs agent_config = ['' gw2:4433 '', ''gw1:4433'']" "ac_Token agent_config = ''tok''"
  "ac_ReconnectDelay agent_config = 1" "ac_MaxReconnect agent_config = 0" "ac_HeartbeatInterval agent_config = 1"
  "ac_StreamIdleTimeout agent_config = 1"
  by (simp_all add: agent_config_def)

lemma agent_config_targets: "GatewayTargets agent_config = [''gw1:4433'', ''gw2:4433'']"
proof -
  have trim: "TrimSpace ''gw1:4433'' = ''gw1:4433''" "TrimSpace '' gw2:4433 '' = ''gw2:4433''"
    by (simp_all add: TrimSpace_def is_space_def)
  show ?thesis
    by (simp add: GatewayTargets_def agent_config_fields appendTarget_def trim)
qed


end
