(* ===== verification/TE_EndToEnd.thy ===== *)
theory TE_EndToEnd
  imports TE_Session TE_Reconnect
begin

text \<open>
  The agent and the gateway together: each reads on the authentication stream what the other wrote, and a public connection is
  followed from its server name to the local service behind the agent.
\<close>

subsection \<open>What the agent sends\<close>

definition agent_hello :: HelloMessage where
  "agent_hello = \<lparr> hm_Version = ProtocolVersion, hm_ClientVersion = ''tunneledge/agent'' \<rparr>"

lemma agent_hello_sent:
  "EncodeHello fresh_writer ''tunneledge/agent'' = (Ok (), fresh_writer\<lparr>wr_out := MsgHello # hello_body agent_hello\<rparr>)"
  by (simp add: EncodeHello_def hello_buf_frame send_frame_def Write_def fresh_writer_def agent_hello_def max_defs)

lemma streamLoop_frame:
  "ag_tunnelID (snd (streamLoop evs a)) = ag_tunnelID a" "ag_publicURLs (snd (streamLoop evs a)) = ag_publicURLs a"
  "ag_tunnelMap (snd (streamLoop evs a)) = ag_tunnelMap a"
proof -
  have rep: "ag_tunnelID (fold on_report rs b) = ag_tunnelID b \<and> ag_publicURLs (fold on_report rs b) = ag_publicURLs b \<and>
      ag_tunnelMap (fold on_report rs b) = ag_tunnelMap b" for rs b
    by (induction rs arbitrary: b) (simp_all add: on_report_def)
  have hs: "ag_tunnelID (snd (handleStream s b)) = ag_tunnelID b \<and> ag_publicURLs (snd (handleStream s b)) = ag_publicURLs b \<and>
      ag_tunnelMap (snd (handleStream s b)) = ag_tunnelMap b" for s b
    by (simp add: handleStream_def Let_def rep split: result.split option.split prod.split)
  have "ag_tunnelID (snd (streamLoop evs a)) = ag_tunnelID a \<and> ag_publicURLs (snd (streamLoop evs a)) = ag_publicURLs a \<and>
      ag_tunnelMap (snd (streamLoop evs a)) = ag_tunnelMap a"
    by (induction evs arbitrary: a) (auto simp: hs split: accept_event.split)
  then show "ag_tunnelID (snd (streamLoop evs a)) = ag_tunnelID a" "ag_publicURLs (snd (streamLoop evs a)) = ag_publicURLs a"
    "ag_tunnelMap (snd (streamLoop evs a)) = ag_tunnelMap a" by simp_all
qed

text \<open>Without a resume token, an agent with tunnels sends its hello and its authentication before it reads anything.\<close>

lemma greet_V2:
  assumes "ag_tunnels a \<noteq> []" and "\<not> (ag_sessionResumeEnabled a \<and> ag_resumeToken a \<noteq> [])" and "authv2_valid (auth_message a)"
    and "greet evs r fresh_writer a = (res, w, a')"
  shows "wr_out w = MsgHello # hello_body agent_hello @ authv2_frame (auth_message a)"
    and "DecodeAuthV2Response r = Ok (resp, r') \<Longrightarrow> r2_Status resp = AuthStatusOK \<Longrightarrow> a' = snd (streamLoop evs (accept_response resp a))"
proof -
  let ?w = "fresh_writer\<lparr>wr_out := MsgHello # hello_body agent_hello\<rparr>"
  let ?w2 = "?w\<lparr>wr_out := wr_out ?w @ authv2_frame (auth_message a)\<rparr>"
  have "EncodeAuthV2 ?w (auth_message a) = (Ok (), ?w2)"
    using authv2_buf_frame [of "auth_message a"] assms(3)
    by (simp add: EncodeAuthV2_def send_frame_def Write_def fresh_writer_def)
  then have run: "authenticateV2 evs r ?w a = (res, w, a')" and
    auth: "EncodeAuthV2 ?w (auth_message a) = (Ok (), ?w2)"
    using assms(1,2,4) by (auto simp: greet_def agent_hello_sent full_auth_def)
  show "wr_out w = MsgHello # hello_body agent_hello @ authv2_frame (auth_message a)"
    using run by (auto simp: authenticateV2_def auth split: result.splits prod.splits if_splits)
  show "DecodeAuthV2Response r = Ok (resp, r') \<Longrightarrow> r2_Status resp = AuthStatusOK \<Longrightarrow> a' = snd (streamLoop evs (accept_response resp a))"
    using run by (auto simp: authenticateV2_def auth split: prod.splits)
qed

subsection \<open>What the gateway makes of it\<close>

lemma gateway_reads_agent:
  assumes "authv2_valid m"
  shows "handleAgentConnection limiter authn i token rtoken now conn remote
      (Ok \<lparr> rd_data = MsgHello # hello_body agent_hello @ authv2_frame m, rd_err = e \<rparr>) w g =
    (if (case limiter of Some allow \<Rightarrow> \<not> allow (rate_key remote) | None \<Rightarrow> False) then close_conn conn ''rate limit exceeded'' w g
     else establish now conn (handleV2Auth authn i token now conn \<lparr> rd_data = tl (authv2_frame m), rd_err = e \<rparr> w g))"
proof -
  let ?rest = "\<lparr> rd_data = tl (authv2_frame m), rd_err = e \<rparr>"
  have hd: "authv2_frame m = MsgAuthV2 # tl (authv2_frame m)"
    by (simp add: authv2_frame_def)
  have r1: "ReadMessageType \<lparr> rd_data = MsgHello # hello_body agent_hello @ authv2_frame m, rd_err = e \<rparr> =
      Ok (MsgHello, \<lparr> rd_data = hello_body agent_hello @ authv2_frame m, rd_err = e \<rparr>)"
    using ReadMessageType_unread [of MsgHello "\<lparr> rd_data = hello_body agent_hello @ authv2_frame m, rd_err = e \<rparr>"]
    by (simp add: unread_def)
  have "hello_valid agent_hello" by (simp add: hello_valid_def agent_hello_def max_defs)
  then have r2: "DecodeHello \<lparr> rd_data = hello_body agent_hello @ authv2_frame m, rd_err = e \<rparr> =
      Ok (agent_hello, \<lparr> rd_data = authv2_frame m, rd_err = e \<rparr>)"
    by (rule hello_codec.roundtrip)
  have r3: "ReadMessageType \<lparr> rd_data = authv2_frame m, rd_err = e \<rparr> = Ok (MsgAuthV2, ?rest)"
    using ReadMessageType_unread [of MsgAuthV2 ?rest] hd by (simp add: unread_def)
  have v: "hm_Version agent_hello = ProtocolVersion" by (simp add: agent_hello_def)
  show ?thesis
    using msg_types_distinct by (simp add: handleAgentConnection_def r1 r2 r3 v dispatch_first_def auth_frame_by_type_def)
qed

lemma SetResumable_router: "gw_router (snd (repo_SetResumable t tok d g)) = gw_router g"
  by (simp add: repo_SetResumable_def split: prod.split)

text \<open>The response of a successful authentication.\<close>

lemma handleV2Auth_response:
  assumes "handleV2Auth authn i token now conn r w g = (Ok (a, t, p, q), w', g')"
    and "DecodeAuthV2 (unread MsgAuthV2 r) = Ok (m, r')"
  obtains rs v resp where "v = register_labels (publicPort (gw_publicListenAddr g)) (a2_Tunnels m)
       \<lparr> vl_tunnel = NewActiveTunnel now a rs, vl_router = gw_router g, vl_hosts = [], vl_public = [], vl_local = [] \<rparr>"
    and "EncodeAuthV2Response w resp = (Ok (), w')" and "r2_Status resp = AuthStatusOK" and "r2_TunnelID resp = t"
    and "r2_Tunnels resp = vl_hosts v" and "gw_router g' = vl_router v" and "authn (a2_Token m) = Ok a"
    and "r2_SuggestedGateways resp = (if a2_PreferredRegion m \<noteq> []
       then BestRelaysForRegion (dr_scorer (gw_dist g)) (a2_PreferredRegion m) 2 else [])"
    and "check_labels (a2_Tunnels m) [] = Ok rs"
proof -
  note run = assms(1) [unfolded handleV2Auth_def Let_def assms(2)]
  obtain b where auth: "authn (a2_Token m) = Ok b"
    using run by (cases "authn (a2_Token m)") auto
  have quota: "\<not> (gw_maxTunnelsPerAgent g > 0 \<and> int (countTunnelsByAgent b g) \<ge> gw_maxTunnelsPerAgent g)"
    using run by (rule contrapos_pn) (simp add: auth)
  obtain rs where labels: "check_labels (a2_Tunnels m) [] = Ok rs"
    using run auth quota by (cases "check_labels (a2_Tunnels m) []") auto
  obtain l g2 where acq: "acquireTunnelLease i now (NewTunnelID b) g = (l, g2)"
    by (cases "acquireTunnelLease i now (NewTunnelID b) g")
  have g2: "gw_publicListenAddr g2 = gw_publicListenAddr g" "gw_router g2 = gw_router g" "gw_dist g2 = gw_dist g"
    by (subst acquire_frame(1) [OF acq], simp)+
  obtain lease where l: "l = Ok lease"
    using run auth quota labels acq by (cases l) auto
  have ab: "b = a" "t = NewTunnelID a"
    using run auth quota labels acq l by (auto split: prod.splits result.splits if_splits)
  note run' = run auth [unfolded ab] quota [unfolded ab] labels acq [unfolded ab] l
  let ?v = "register_labels (publicPort (gw_publicListenAddr g)) (a2_Tunnels m)
     \<lparr> vl_tunnel = NewActiveTunnel now a rs, vl_router = gw_router g, vl_hosts = [], vl_public = [], vl_local = [] \<rparr>"
  define tok where "tok = (if gw_sessionResumeEnabled g2 \<and> gw_sessionRepo g2 then (case token of Ok tok \<Rightarrow> tok | _ \<Rightarrow> []) else [])"
  define resp where "resp = \<lparr> r2_Status = AuthStatusOK, r2_TunnelID = NewTunnelID a, r2_Tunnels = vl_hosts ?v, r2_ResumeToken = tok,
    r2_AssignedRegion = gw_region g2, r2_SuggestedGateways = (if a2_PreferredRegion m \<noteq> []
      then BestRelaysForRegion (dr_scorer (gw_dist g)) (a2_PreferredRegion m) 2 else []) \<rparr>"
  obtain z w2 where enc: "EncodeAuthV2Response w resp = (z, w2)" by (cases "EncodeAuthV2Response w resp")
  note enc' = enc [unfolded resp_def tok_def]
  obtain u where u: "z = Ok u"
    using run' enc' by (cases z) (simp_all add: g2 cong: if_cong)
  let ?added = "addTunnel (vl_tunnel ?v) conn (le_LeaseID lease) (g2\<lparr>gw_router := vl_router ?v\<rparr>)"
  have "w2 = w'" "g' = ?added \<or> (\<exists>tok d. g' = snd (repo_SetResumable (NewTunnelID a) tok d ?added))"
    using run' enc' u by (simp_all add: g2 cong: if_cong) (auto split: if_splits)
  then have z: "z = Ok () \<and> w2 = w'" and g': "gw_router g' = vl_router ?v"
    using u by (auto simp: SetResumable_router)
  show ?thesis
    by (rule that [of ?v rs resp]) (use enc z g' auth ab labels in \<open>simp_all add: resp_def\<close>)
qed

lemma HostnameForLabel_label [simp]: "HostnameForLabel r t l = HostnameForLabel r t k \<longleftrightarrow> l = k"
  by (simp add: HostnameForLabel_def)

lemma HostnameForLabel_domain: "tr_domain r = tr_domain s \<Longrightarrow> HostnameForLabel r t l = HostnameForLabel s t l"
  by (simp add: HostnameForLabel_def)

text \<open>Registering labels announces the hostname of each label and routes it to the tunnel and the label.\<close>

lemma register_labels_routes:
  assumes "v = register_labels port ts l" and "t = at_ID (vl_tunnel l)" and "host = HostnameForLabel (vl_router l) t"
  shows "vl_hosts v = vl_hosts l @ map (\<lambda>e. \<lparr> th_Label = te_Label e, th_Hostname = host (te_Label e) @ '':'' @ port \<rparr>) ts \<and>
    tr_domain (vl_router v) = tr_domain (vl_router l) \<and>
    (\<forall>e \<in> set ts. map_of (tr_hostMap (vl_router v)) (host (te_Label e)) = Some \<lparr> rk_TunnelID = t, rk_Label = te_Label e \<rparr>) \<and>
    (\<forall>h. h \<notin> (\<lambda>e. host (te_Label e)) ` set ts \<longrightarrow> map_of (tr_hostMap (vl_router v)) h = map_of (tr_hostMap (vl_router l)) h)"
  using assms
proof (induction ts arbitrary: l)
  case (Cons e ts)
  define l1 where "l1 = \<lparr> vl_tunnel = (vl_tunnel l)\<lparr>at_PublicHosts := mput (te_Label e) (host (te_Label e) @ '':'' @ port) (at_PublicHosts (vl_tunnel l))\<rparr>,
      vl_router = snd (RegisterLabel t (te_Label e) (vl_router l)),
      vl_hosts = vl_hosts l @ [\<lparr> th_Label = te_Label e, th_Hostname = host (te_Label e) @ '':'' @ port \<rparr>],
      vl_public = vl_public l @ [te_Label e @ ''='' @ host (te_Label e) @ '':'' @ port],
      vl_local = (if te_LocalAddr e \<noteq> [] then vl_local l @ [te_Label e @ ''='' @ te_LocalAddr e] else vl_local l) \<rparr>"
  have v: "v = register_labels port ts l1"
    using Cons.prems by (simp add: l1_def RegisterLabel_def Let_def)
  have dom: "tr_domain (vl_router l1) = tr_domain (vl_router l)"
    and t1: "t = at_ID (vl_tunnel l1)"
    and map1: "map_of (tr_hostMap (vl_router l1)) h = (if h = host (te_Label e) then Some \<lparr> rk_TunnelID = t, rk_Label = te_Label e \<rparr>
      else map_of (tr_hostMap (vl_router l)) h)" for h
    using Cons.prems(2,3) by (simp_all add: l1_def RegisterLabel_def Let_def)
  have "host = HostnameForLabel (vl_router l1) t"
    using Cons.prems(3) dom by (auto simp: HostnameForLabel_def)
  note ih = Cons.IH [OF v t1 this]
  have first: "map_of (tr_hostMap (vl_router v)) (host (te_Label e)) = Some \<lparr> rk_TunnelID = t, rk_Label = te_Label e \<rparr>"
  proof (cases "host (te_Label e) \<in> (\<lambda>e. host (te_Label e)) ` set ts")
    case True
    then obtain e' where "e' \<in> set ts" "te_Label e' = te_Label e"
      using Cons.prems(3) by auto
    with ih show ?thesis by (metis (no_types, lifting))
  next
    case False
    with ih map1 [of "host (te_Label e)"] show ?thesis by simp
  qed
  have "vl_hosts l1 = vl_hosts l @ [\<lparr> th_Label = te_Label e, th_Hostname = host (te_Label e) @ '':'' @ port \<rparr>]"
    by (simp add: l1_def)
  then have "vl_hosts v = vl_hosts l @ map (\<lambda>e. \<lparr> th_Label = te_Label e, th_Hostname = host (te_Label e) @ '':'' @ port \<rparr>) (e # ts)"
    using ih by simp
  moreover have "\<forall>h. h \<notin> (\<lambda>e. host (te_Label e)) ` set (e # ts) \<longrightarrow> map_of (tr_hostMap (vl_router v)) h = map_of (tr_hostMap (vl_router l)) h"
    using ih map1 by simp
  ultimately show ?case
    using ih first dom by simp
qed simp

lemma check_labels_valid: "check_labels ts rs = Ok rs' \<Longrightarrow> e \<in> set ts \<Longrightarrow> length (te_Label e) \<le> 64"
  by (induction ts arbitrary: rs) (auto simp: ValidateLabel_def MatchString_label split: result.splits if_splits)

lemma accept_response_fields:
  "ag_tunnelID (accept_response resp a) = r2_TunnelID resp"
  "ag_publicURLs (accept_response resp a) = fold (\<lambda>t. mput (th_Label t) (th_Hostname t)) (r2_Tunnels resp) []"
  "ag_tunnelMap (accept_response resp a) = ag_tunnelMap a"
  by (simp_all add: accept_response_def setTunnelInfo_def Let_def)

lemma fold_mput_same:
  assumes "\<forall>x \<in> set xs. \<forall>y \<in> set xs. f x = f y \<longrightarrow> g x = g y" and "e \<in> set xs"
  shows "map_of (fold (\<lambda>x. mput (f x) (g x)) xs m) (f e) = Some (g e)"
  using assms
proof (induction xs rule: rev_induct)
  case (snoc x xs)
  show ?case
  proof (cases "f e = f x")
    case True
    moreover have "g e = g x" using snoc.prems True unfolding set_append by (metis Un_iff list.set_intros(1))
    ultimately show ?thesis by simp
  next
    case False
    then have "e \<in> set xs" using snoc.prems(2) by auto
    moreover have "\<forall>x \<in> set xs. \<forall>y \<in> set xs. f x = f y \<longrightarrow> g x = g y"
      using snoc.prems(1) unfolding set_append by blast
    ultimately have "map_of (fold (\<lambda>x. mput (f x) (g x)) xs m) (f e) = Some (g e)"
      by (intro snoc.IH)
    with False show ?thesis by simp
  qed
qed simp

text \<open>C1: After a successful handshake, in which each side reads what the other wrote, the agent and the gateway agree: the agent
  knows the id of the tunnel the gateway holds for this connection, and for every tunnel it configured it shows a public URL
  whose host the gateway routes to that tunnel and that label. The public names must fit the URL limit of the response frame.\<close>

theorem handshake_agrees:
  assumes "greet evs \<lparr> rd_data = wr_out w', rd_err = e' \<rparr> fresh_writer a = (res, w, a')"
    and "handleAgentConnection limiter authn i token rtoken now conn remote (Ok \<lparr> rd_data = wr_out w, rd_err = e \<rparr>) fresh_writer g =
      (ConnEstablished t, w', g')"
    and "ag_tunnels a \<noteq> []" and "\<not> (ag_sessionResumeEnabled a \<and> ag_resumeToken a \<noteq> [])" and "authv2_valid (auth_message a)"
    and "\<And>tc. tc \<in> set (ag_tunnels a) \<Longrightarrow>
      length (HostnameForLabel (gw_router g) t (tc_Label tc)) + length (publicPort (gw_publicListenAddr g)) < maxPublicURLLen"
    and "list_all gw_valid (BestRelaysForRegion (dr_scorer (gw_dist g)) (ag_preferredRegion a) 2)"
  shows "ag_tunnelID a' = t \<and> (\<exists>av. getTunnel t g' = Some av \<and> av_conn av = Some conn \<and> \<not> av_suspended av) \<and>
    (\<forall>tc \<in> set (ag_tunnels a). let host = HostnameForLabel (gw_router g) t (tc_Label tc) in
       map_of (ag_publicURLs a') (tc_Label tc) = Some (host @ '':'' @ publicPort (gw_publicListenAddr g)) \<and>
       LookupWithLabel (gw_router g') host = Some (t, tc_Label tc))"
proof -
  let ?m = "auth_message a" and ?port = "publicPort (gw_publicListenAddr g)"
  let ?r = "\<lparr> rd_data = tl (authv2_frame ?m), rd_err = e \<rparr>"
  obtain y w1 g1 where v2: "handleV2Auth authn i token now conn ?r fresh_writer g = (y, w1, g1)"
    by (cases "handleV2Auth authn i token now conn ?r fresh_writer g")
  have est: "establish now conn (y, w1, g1) = (ConnEstablished t, w', g')"
    using assms(2) unfolding greet_V2(1) [OF assms(3-5,1)] gateway_reads_agent [OF assms(5)] v2
    by (auto simp: close_conn_def split: if_splits)
  then obtain b u p q where y: "y = Ok (b, u, p, q)"
    by (cases y) (auto simp: establish_def close_conn_def)
  note est' = establish_Ok [OF est [unfolded y]]
  note run = v2 [unfolded y]
  let ?reg = "client_RegisterTunnel now now now u b p q"
  obtain z g2 where reg: "reg_call ?reg g1 = (z, g2)" by (cases "reg_call ?reg g1")
  have w: "w' = w1" and "g' = g2\<lparr>gw_activeGauge := gw_activeGauge g2 + 1\<rparr>"
    using est reg by (cases z; simp add: y establish_def close_conn_def)+
  with reg_call_frame(2) [of ?reg g1] have router: "gw_router g' = gw_router g1" by (simp add: reg)
  have "unread MsgAuthV2 ?r = \<lparr> rd_data = authv2_frame ?m @ [], rd_err = e \<rparr>"
    by (simp add: unread_def authv2_frame_def)
  then have dec: "DecodeAuthV2 (unread MsgAuthV2 ?r) = Ok (?m, \<lparr> rd_data = [], rd_err = e \<rparr>)"
    using authv2_codec.roundtrip [OF assms(5), of "[]" e] by simp
  obtain rs v resp where v: "v = register_labels ?port (a2_Tunnels ?m)
       \<lparr> vl_tunnel = NewActiveTunnel now b rs, vl_router = gw_router g, vl_hosts = [], vl_public = [], vl_local = [] \<rparr>"
    and enc: "EncodeAuthV2Response fresh_writer resp = (Ok (), w1)" and resp: "r2_Status resp = AuthStatusOK" "r2_TunnelID resp = u"
      "r2_Tunnels resp = vl_hosts v" and r1: "gw_router g1 = vl_router v"
    and sug: "r2_SuggestedGateways resp = (if a2_PreferredRegion ?m \<noteq> []
       then BestRelaysForRegion (dr_scorer (gw_dist g)) (a2_PreferredRegion ?m) 2 else [])"
    and labels: "check_labels (a2_Tunnels ?m) [] = Ok rs"
    by (rule handleV2Auth_response [OF run dec])
  have auth: "authenticated conn b u g g1" by (rule handleV2Auth_Ok [OF run])
  then have t: "t = NewTunnelID b" "u = t" using est'(1) by (simp_all add: authenticated_def)
  define host where "host = HostnameForLabel (gw_router g) t"
  have hosts: "vl_hosts v = map (\<lambda>e. \<lparr> th_Label = te_Label e, th_Hostname = host (te_Label e) @ '':'' @ ?port \<rparr>) (a2_Tunnels ?m)"
    and routed: "\<And>e. e \<in> set (a2_Tunnels ?m) \<Longrightarrow>
      map_of (tr_hostMap (vl_router v)) (host (te_Label e)) = Some \<lparr> rk_TunnelID = t, rk_Label = te_Label e \<rparr>"
    using register_labels_routes [OF v refl refl] by (simp_all add: host_def t(1))
  have tunnels: "r2_Tunnels resp = map (\<lambda>tc. \<lparr> th_Label = tc_Label tc, th_Hostname = host (tc_Label tc) @ '':'' @ ?port \<rparr>) (ag_tunnels a)"
    by (simp add: resp(3) hosts auth_message_def)
  have routed': "map_of (tr_hostMap (vl_router v)) (host (tc_Label tc)) = Some \<lparr> rk_TunnelID = t, rk_Label = tc_Label tc \<rparr>"
    and short: "length (tc_Label tc) \<le> 64" if "tc \<in> set (ag_tunnels a)" for tc
  proof -
    let ?e = "\<lparr> te_Label = tc_Label tc, te_LocalAddr = tc_LocalAddr tc, te_TunnelType = tc_TunnelType tc \<rparr>"
    have e: "?e \<in> set (a2_Tunnels ?m)" using that by (simp add: auth_message_def)
    from routed [OF e] check_labels_valid [OF labels e]
    show "map_of (tr_hostMap (vl_router v)) (host (tc_Label tc)) = Some \<lparr> rk_TunnelID = t, rk_Label = tc_Label tc \<rparr>"
      "length (tc_Label tc) \<le> 64" by simp_all
  qed
  have valid: "authv2resp_valid resp"
  proof -
    have "authv2resp_sendable resp"
      using enc authv2resp_buf_frame [of resp] by (auto simp: EncodeAuthV2Response_def send_frame_def split: if_splits)
    moreover have "list_all host_valid (r2_Tunnels resp)"
      unfolding list_all_iff tunnels
    proof clarsimp
      fix tc assume tc: "tc \<in> set (ag_tunnels a)"
      show "host_valid \<lparr> th_Label = tc_Label tc, th_Hostname = host (tc_Label tc) @ CHR '':'' # ?port \<rparr>"
        using short [OF tc] assms(6) [OF tc] by (simp add: host_valid_def host_def)
    qed
    moreover have "list_all gw_valid (r2_SuggestedGateways resp)"
      using assms(7) by (simp add: sug auth_message_def)
    ultimately show ?thesis by (simp add: authv2resp_valid_def)
  qed
  have "wr_out w' = authv2resp_frame resp"
    using enc authv2resp_buf_frame [of resp] valid
    by (simp add: w EncodeAuthV2Response_def send_frame_def authv2resp_valid_def Write_def fresh_writer_def) auto
  then have "DecodeAuthV2Response \<lparr> rd_data = wr_out w', rd_err = e' \<rparr> = Ok (resp, \<lparr> rd_data = [], rd_err = e' \<rparr>)"
    using authv2resp_codec.roundtrip [OF valid, of "[]" e'] by simp
  then have a': "a' = snd (streamLoop evs (accept_response resp a))"
    by (rule greet_V2(2) [OF assms(3-5,1)]) (rule resp(1))
  have urls: "map_of (ag_publicURLs a') (tc_Label tc) = Some (host (tc_Label tc) @ '':'' @ ?port)"
    if tc: "tc \<in> set (ag_tunnels a)" for tc
  proof -
    have "map_of (fold (\<lambda>tc. mput (tc_Label tc) (host (tc_Label tc) @ '':'' @ ?port)) (ag_tunnels a) []) (tc_Label tc) =
        Some (host (tc_Label tc) @ '':'' @ ?port)"
      by (rule fold_mput_same) (use tc in auto)
    then show ?thesis
      by (simp add: a' streamLoop_frame accept_response_fields tunnels fold_map comp_def)
  qed
  moreover have "LookupWithLabel (gw_router g') (host (tc_Label tc)) = Some (t, tc_Label tc)" if "tc \<in> set (ag_tunnels a)" for tc
    using routed' [OF that] by (simp add: LookupWithLabel_def router r1)
  moreover have "ag_tunnelID a' = t"
    by (simp add: a' streamLoop_frame accept_response_fields resp(2) t(2))
  moreover have "\<exists>av. getTunnel t g' = Some av \<and> av_conn av = Some conn \<and> \<not> av_suspended av"
    using auth unfolding t(2) by (auto simp: authenticated_def getTunnel_def est'(3))
  ultimately show ?thesis
    by (simp add: host_def Let_def)
qed

definition agent_web :: Agent where
  "agent_web = NewAgent \<lparr> ao_GatewayAddr = ''gw:4433'', ao_GatewayAddrs = [], ao_Token = ''tok'',
     ao_Tunnels = [\<lparr> tc_Label = ''web'', tc_LocalAddr = ''localhost:80'', tc_TunnelType = ''tcp'' \<rparr>],
     ao_ReconnectDelay = 2000000000, ao_MaxReconnect = 0, ao_HeartbeatInterval = 1, ao_StreamIdleTimeout = 1, ao_TLSCAFile = [],
     ao_TLSInsecure = True, ao_MTLSEnabled = False, ao_ClientCertFile = [], ao_ClientKeyFile = [], ao_PreferredRegion = [],
     ao_SessionResumeEnabled = False, ao_EventCh = None \<rparr>"

lemma agent_web_fields:
  "ag_tunnels agent_web = [\<lparr> tc_Label = ''web'', tc_LocalAddr = ''localhost:80'', tc_TunnelType = ''tcp'' \<rparr>]"
  "\<not> ag_sessionResumeEnabled agent_web" "ag_preferredRegion agent_web = []" "auth_message agent_web = agent_auth"
  "ag_tunnelMap agent_web = [(''web'', ''localhost:80'')]"
  by (simp_all add: agent_web_def NewAgent_def auth_message_def agent_auth_def auth_example_def mput_def mdel_def)

lemma agent_auth_valid: "authv2_valid agent_auth"
  using auth_example_valid by (simp add: agent_auth_def authv2_valid_def)

theorem handshake_agrees_witness:
  "\<exists>w w' res a' g'. greet [] \<lparr> rd_data = wr_out w', rd_err = EOF \<rparr> fresh_writer agent_web = (res, w, a') \<and>
     handleAgentConnection None (\<lambda>_. Ok ''a'') ''l1'' (Ok ''tokA'') (Ok ''tokB'') 5 7 ''1.2.3.4:5'' (Ok \<lparr> rd_data = wr_out w, rd_err = EOF \<rparr>)
       fresh_writer (gateway_new []) = (ConnEstablished ''t-a'', w', g') \<and>
     ag_tunnelID a' = ''t-a'' \<and> LookupWithLabel (gw_router g') ''web-a.ex.io'' = Some (''t-a'', ''web'')"
proof -
  obtain w' g' where disp: "auth_frame_by_type (\<lambda>_. Ok ''a'') ''l1'' (Ok ''tokA'') 5 7 MsgAuthV2 agent_reader fresh_writer (gateway_new []) =
      Some (ConnEstablished ''t-a'', w', g')"
    by (rule agent_dispatch)
  obtain res w a' where agent: "greet [] \<lparr> rd_data = wr_out w', rd_err = EOF \<rparr> fresh_writer agent_web = (res, w, a')"
    by (cases "greet [] \<lparr> rd_data = wr_out w', rd_err = EOF \<rparr> fresh_writer agent_web")
  have valid: "authv2_valid (auth_message agent_web)" by (simp add: agent_web_fields agent_auth_valid)
  have w: "wr_out w = MsgHello # hello_body agent_hello @ authv2_frame agent_auth"
    using greet_V2(1) [OF _ _ valid agent] by (simp add: agent_web_fields)
  have gateway: "handleAgentConnection None (\<lambda>_. Ok ''a'') ''l1'' (Ok ''tokA'') (Ok ''tokB'') 5 7 ''1.2.3.4:5''
      (Ok \<lparr> rd_data = wr_out w, rd_err = EOF \<rparr>) fresh_writer (gateway_new []) = (ConnEstablished ''t-a'', w', g')"
    using disp unfolding w gateway_reads_agent [OF agent_auth_valid]
    by (simp add: auth_frame_by_type_def agent_reader_def)
  have host: "HostnameForLabel (gw_router (gateway_new [])) ''t-a'' ''web'' = ''web-a.ex.io''"
    by (simp add: HostnameForLabel_def gateway_new_fields NewTunnelRouter_def TrimPrefix_def)
  have "dr_scorer (gw_dist (gateway_new [])) = NewRelayScorer"
    by (simp add: gateway_new_def NewGateway_def NewDistributedRouter_def)
  then have best: "list_all gw_valid (BestRelaysForRegion (dr_scorer (gw_dist (gateway_new []))) (ag_preferredRegion agent_web) 2)"
    by (simp add: BestRelaysForRegion_def region_candidates_def NewRelayScorer_def)
  have "ag_tunnelID a' = ''t-a'' \<and> LookupWithLabel (gw_router g') ''web-a.ex.io'' = Some (''t-a'', ''web'')"
    using handshake_agrees [OF agent gateway _ _ valid _ best] host
    by (auto simp: agent_web_fields gateway_new_fields agent_port max_defs Let_def)
  with agent gateway show ?thesis by blast
qed

subsection \<open>From the server name to the local service\<close>


definition web_stream :: agent_stream_in where
  "web_stream = \<lparr> si_ID = 4, si_reader = \<lparr> rd_data = drop (length (wr_out fresh_writer)) (wr_out (snd (EncodeStreamLabel fresh_writer ''web''))) @ [7],
     rd_err = EOF \<rparr>, si_dial = (\<lambda>_. None), si_reports = [(True, 1)], si_err = None \<rparr>"


end
