(* ===== verification/TE_Pgstore.thy ===== *)
theory TE_Pgstore
  imports TE_Memstore "HOL-Library.Multiset"
begin

text \<open>
  The Postgres repositories of \<^verbatim>\<open>src/internal/store/pgstore\<close>: the row types of \<^verbatim>\<open>models.go\<close> and one definition per
  method of the user, email-verification, agent-profile, token, tunnel, refresh-token, revoked-JTI, ACL, session and
  audit repositories.

  A table is the list of its rows, soft-deleted ones included. The object-relational mapper is not code of the
  repository: the calls the repositories make on it are the fields of the parameter \<open>gorm\<close>, one value per table, and
  \<open>gorm_spec\<close> is its documented behaviour, a hypothesis of the theorems that need it. A \<^verbatim>\<open>Where\<close> clause is a predicate
  on rows, the map given to \<^verbatim>\<open>Updates\<close> a function on rows; a cancelled request context is one of the errors a call may
  return. \<open>schema\<close> says what the struct tags of a model mean: which rows a scoped query sees, the columns the mapper
  fills in, what a delete does, and the unique indexes. \<open>rows_gorm\<close> is a mapper on plain lists that satisfies
  \<open>gorm_spec\<close>; the concrete inputs of the witnesses use it.
\<close>

subsection \<open>The mapper\<close>

record 'm schema =
  sc_live :: "'m \<Rightarrow> bool"
  sc_stamp :: "nat \<Rightarrow> time \<Rightarrow> 'm \<Rightarrow> 'm"
  sc_touch :: "time \<Rightarrow> 'm \<Rightarrow> 'm"
  sc_remove :: "time \<Rightarrow> 'm \<Rightarrow> 'm list"
  sc_clash :: "'m \<Rightarrow> 'm \<Rightarrow> bool"

record 'm gorm =
  gorm_Create :: "'m \<Rightarrow> 'm list \<Rightarrow> 'm result \<times> 'm list"
  gorm_First :: "('m \<Rightarrow> bool) \<Rightarrow> 'm list \<Rightarrow> 'm result"
  gorm_Find :: "('m \<Rightarrow> bool) \<Rightarrow> 'm list \<Rightarrow> 'm list result"
  gorm_Count :: "('m \<Rightarrow> bool) \<Rightarrow> 'm list \<Rightarrow> nat \<times> goerror option"
  gorm_Updates :: "('m \<Rightarrow> bool) \<Rightarrow> ('m \<Rightarrow> 'm) \<Rightarrow> 'm list \<Rightarrow> (nat \<times> goerror option) \<times> 'm list"
  gorm_Delete :: "('m \<Rightarrow> bool) \<Rightarrow> 'm list \<Rightarrow> (nat \<times> goerror option) \<times> 'm list"
  gorm_Unscoped_Delete :: "('m \<Rightarrow> bool) \<Rightarrow> 'm list \<Rightarrow> (nat \<times> goerror option) \<times> 'm list"
  gorm_FirstOrCreate :: "('m \<Rightarrow> bool) \<Rightarrow> 'm \<Rightarrow> 'm list \<Rightarrow> goerror option \<times> 'm list"

definition sees :: "'m schema \<Rightarrow> ('m \<Rightarrow> bool) \<Rightarrow> 'm \<Rightarrow> bool" where
  "sees sc P m \<longleftrightarrow> sc_live sc m \<and> P m"

text \<open>An insert fills in the generated columns and respects the unique indexes, which count soft-deleted rows; a call
  that returns an error changes nothing.\<close>

definition create_spec :: "'m schema \<Rightarrow> 'm gorm \<Rightarrow> bool" where
  "create_spec sc g \<longleftrightarrow> (\<forall>m rows r rows'. gorm_Create g m rows = (r, rows') \<longrightarrow>
     r \<noteq> Panic \<and>
     (\<forall>e. r = Err e \<longrightarrow> rows' = rows) \<and>
     (\<forall>m'. r = Ok m' \<longrightarrow> (\<exists>k t. m' = sc_stamp sc k t m) \<and> (\<forall>x \<in> set rows. \<not> sc_clash sc x m') \<and> rows' = rows @ [m']))"

definition query_spec :: "'m schema \<Rightarrow> 'm gorm \<Rightarrow> bool" where
  "query_spec sc g \<longleftrightarrow> (\<forall>P rows.
     gorm_First g P rows \<noteq> Panic \<and> gorm_Find g P rows \<noteq> Panic \<and>
     (\<forall>m. gorm_First g P rows = Ok m \<longrightarrow> m \<in> set rows \<and> sees sc P m) \<and>
     (\<forall>ms. gorm_Find g P rows = Ok ms \<longrightarrow> mset ms = filter_mset (sees sc P) (mset rows)) \<and>
     (\<forall>n. gorm_Count g P rows = (n, None) \<longrightarrow> n = length (filter (sees sc P) rows)))"

text \<open>A successful update rewrites the rows it selects, and their update time; the number of rows affected is the
  number selected.\<close>

definition update_spec :: "'m schema \<Rightarrow> 'm gorm \<Rightarrow> bool" where
  "update_spec sc g \<longleftrightarrow> (\<forall>P f rows n e rows'. gorm_Updates g P f rows = ((n, e), rows') \<longrightarrow>
     (e \<noteq> None \<longrightarrow> n = 0 \<and> rows' = rows) \<and>
     (e = None \<longrightarrow> n = length (filter (sees sc P) rows) \<and>
       (\<exists>t. rows' = map (\<lambda>m. if sees sc P m then sc_touch sc t (f m) else m) rows)))"

definition delete_spec :: "'m schema \<Rightarrow> 'm gorm \<Rightarrow> bool" where
  "delete_spec sc g \<longleftrightarrow>
     (\<forall>P rows n e rows'. gorm_Delete g P rows = ((n, e), rows') \<longrightarrow>
       (e \<noteq> None \<longrightarrow> n = 0 \<and> rows' = rows) \<and>
       (e = None \<longrightarrow> n = length (filter (sees sc P) rows) \<and>
         (\<exists>t. rows' = concat (map (\<lambda>m. if sees sc P m then sc_remove sc t m else [m]) rows)))) \<and>
     (\<forall>P rows n e rows'. gorm_Unscoped_Delete g P rows = ((n, e), rows') \<longrightarrow>
       (e \<noteq> None \<longrightarrow> n = 0 \<and> rows' = rows) \<and>
       (e = None \<longrightarrow> n = length (filter P rows) \<and> rows' = filter (\<lambda>m. \<not> P m) rows))"

definition firstOrCreate_spec :: "'m schema \<Rightarrow> 'm gorm \<Rightarrow> bool" where
  "firstOrCreate_spec sc g \<longleftrightarrow> (\<forall>P m rows e rows'. gorm_FirstOrCreate g P m rows = (e, rows') \<longrightarrow>
     (e \<noteq> None \<longrightarrow> rows' = rows) \<and>
     (e = None \<longrightarrow> (if \<exists>x \<in> set rows. sees sc P x then rows' = rows
        else (\<exists>k t. rows' = rows @ [sc_stamp sc k t m]))))"

definition gorm_spec :: "'m schema \<Rightarrow> 'm gorm \<Rightarrow> bool" where
  "gorm_spec sc g \<longleftrightarrow> create_spec sc g \<and> query_spec sc g \<and> update_spec sc g \<and> delete_spec sc g \<and> firstOrCreate_spec sc g"

text \<open>A mapper on lists: \<open>now\<close> is the database clock; the key of a new row is one more than the number of rows the
  table has.\<close>

definition rows_gorm :: "'m schema \<Rightarrow> time \<Rightarrow> 'm gorm" where
  "rows_gorm sc now =
     \<lparr> gorm_Create = (\<lambda>m rows. let m' = sc_stamp sc (length rows + 1) now m in
         if list_ex (\<lambda>x. sc_clash sc x m') rows then (Err (PlainErr ''duplicate key''), rows) else (Ok m', rows @ [m'])),
       gorm_First = (\<lambda>P rows. case find (sees sc P) rows of Some m \<Rightarrow> Ok m | None \<Rightarrow> Err (PlainErr ''record not found'')),
       gorm_Find = (\<lambda>P rows. Ok (filter (sees sc P) rows)),
       gorm_Count = (\<lambda>P rows. (length (filter (sees sc P) rows), None)),
       gorm_Updates = (\<lambda>P f rows. ((length (filter (sees sc P) rows), None),
         map (\<lambda>m. if sees sc P m then sc_touch sc now (f m) else m) rows)),
       gorm_Delete = (\<lambda>P rows. ((length (filter (sees sc P) rows), None),
         concat (map (\<lambda>m. if sees sc P m then sc_remove sc now m else [m]) rows))),
       gorm_Unscoped_Delete = (\<lambda>P rows. ((length (filter P rows), None), filter (\<lambda>m. \<not> P m) rows)),
       gorm_FirstOrCreate = (\<lambda>P m rows. (None,
         if list_ex (sees sc P) rows then rows else rows @ [sc_stamp sc (length rows + 1) now m])) \<rparr>"

lemma rows_gorm_spec: "gorm_spec sc (rows_gorm sc now)"
proof -
  have "create_spec sc (rows_gorm sc now)"
    by (auto simp: create_spec_def rows_gorm_def Let_def list_ex_iff split: if_splits)
  moreover have "query_spec sc (rows_gorm sc now)"
    by (auto simp: query_spec_def rows_gorm_def find_Some_iff find_None_iff split: option.splits)
  moreover have "update_spec sc (rows_gorm sc now)"
    by (auto simp: update_spec_def rows_gorm_def)
  moreover have "delete_spec sc (rows_gorm sc now)"
    by (auto simp: delete_spec_def rows_gorm_def)
  moreover have "firstOrCreate_spec sc (rows_gorm sc now)"
    by (auto simp: firstOrCreate_spec_def rows_gorm_def list_ex_iff)
  ultimately show ?thesis by (simp add: gorm_spec_def)
qed

subsection \<open>Models (models.go)\<close>

text \<open>The embedded \<^verbatim>\<open>gorm.Model\<close>: the key, the times the mapper keeps and the soft-delete mark.\<close>

record gormModel =
  gm_ID :: nat
  gm_CreatedAt :: time
  gm_UpdatedAt :: time
  gm_DeletedAt :: "time option"

definition model_schema :: "('a gormModel_scheme \<Rightarrow> 'a gormModel_scheme \<Rightarrow> bool) \<Rightarrow> 'a gormModel_scheme schema" where
  "model_schema unique =
     \<lparr> sc_live = (\<lambda>m. gm_DeletedAt m = None),
       sc_stamp = (\<lambda>k t m. m\<lparr>gm_ID := k, gm_CreatedAt := t, gm_UpdatedAt := t\<rparr>),
       sc_touch = (\<lambda>t m. m\<lparr>gm_UpdatedAt := t\<rparr>),
       sc_remove = (\<lambda>t m. [m\<lparr>gm_DeletedAt := Some t\<rparr>]),
       sc_clash = (\<lambda>x y. gm_ID x = gm_ID y \<or> unique x y) \<rparr>"

record TokenModel = gormModel +
  tm_AgentID :: string
  tm_TokenHash :: string

record TunnelSessionModel = gormModel +
  sm_TunnelID :: string
  sm_AgentID :: string
  sm_OwnerRelayID :: string
  sm_LeaseID :: string
  sm_PublicHost :: string
  sm_LocalAddr :: string
  sm_RemoteAddr :: string
  sm_Status :: string
  sm_ConnectedAt :: time
  sm_DisconnectedAt :: "time option"
  sm_LastHeartbeat :: time
  sm_ResumeToken :: string
  sm_ResumeDeadline :: "time option"

record UserModel = gormModel +
  um_Email :: string
  um_PasswordHash :: string
  um_Name :: string
  um_EmailVerified :: bool

record EmailVerificationModel = gormModel +
  em_UserID :: nat
  em_Token :: string
  em_ExpiresAt :: time

record AgentProfileModel = gormModel +
  am_UserID :: nat
  am_Name :: string
  am_AgentID :: string
  am_TokenHash :: string
  am_Scopes :: string
  am_TokenExpiresAt :: "time option"
  am_LastUsedAt :: "time option"
  am_FailedAuthCount :: int
  am_LockedUntil :: "time option"

record AuditEventModel =
  aem_ID :: nat
  aem_EventType :: string
  aem_ActorType :: string
  aem_ActorID :: string
  aem_TargetType :: string
  aem_TargetID :: string
  aem_IPAddress :: string
  aem_UserAgent :: string
  aem_Metadata :: string
  aem_CreatedAt :: time

record RefreshTokenModel =
  rm_JTI :: string
  rm_UserID :: nat
  rm_ExpiresAt :: time
  rm_RevokedAt :: "time option"
  rm_CreatedAt :: time

record RevokedJTIModel =
  vm_JTI :: string
  vm_ExpiresAt :: time

record TunnelACLModel = gormModel +
  cm_TunnelID :: string
  cm_ACLType :: string
  cm_CIDR :: string

record TunnelDefinitionModel = gormModel +
  dm_AgentProfileID :: nat
  dm_Label :: string
  dm_LocalAddr :: string
  dm_TunnelType :: string

definition token_schema :: "TokenModel schema" where
  "token_schema = model_schema (\<lambda>x y. tm_AgentID x = tm_AgentID y)"

definition session_schema :: "TunnelSessionModel schema" where
  "session_schema = model_schema (\<lambda>x y. False)"

definition user_schema :: "UserModel schema" where
  "user_schema = model_schema (\<lambda>x y. um_Email x = um_Email y)"

definition verification_schema :: "EmailVerificationModel schema" where
  "verification_schema = model_schema (\<lambda>x y. em_Token x = em_Token y)"

definition agent_schema :: "AgentProfileModel schema" where
  "agent_schema = model_schema (\<lambda>x y. am_AgentID x = am_AgentID y)"

definition acl_schema :: "TunnelACLModel schema" where
  "acl_schema = model_schema (\<lambda>x y. False)"

definition tunnel_schema :: "TunnelDefinitionModel schema" where
  "tunnel_schema = model_schema (\<lambda>x y. False)"

text \<open>The three models without an embedded \<^verbatim>\<open>gorm.Model\<close> have no soft-delete mark.\<close>

definition audit_schema :: "AuditEventModel schema" where
  "audit_schema =
     \<lparr> sc_live = (\<lambda>m. True), sc_stamp = (\<lambda>k t m. m\<lparr>aem_ID := k\<rparr>), sc_touch = (\<lambda>t m. m),
       sc_remove = (\<lambda>t m. []), sc_clash = (\<lambda>x y. aem_ID x = aem_ID y) \<rparr>"

definition refresh_schema :: "RefreshTokenModel schema" where
  "refresh_schema =
     \<lparr> sc_live = (\<lambda>m. True), sc_stamp = (\<lambda>k t m. m\<lparr>rm_CreatedAt := t\<rparr>), sc_touch = (\<lambda>t m. m),
       sc_remove = (\<lambda>t m. []), sc_clash = (\<lambda>x y. rm_JTI x = rm_JTI y) \<rparr>"

definition revoked_schema :: "RevokedJTIModel schema" where
  "revoked_schema =
     \<lparr> sc_live = (\<lambda>m. True), sc_stamp = (\<lambda>k t m. m), sc_touch = (\<lambda>t m. m),
       sc_remove = (\<lambda>t m. []), sc_clash = (\<lambda>x y. vm_JTI x = vm_JTI y) \<rparr>"

subsection \<open>The data of the dashboard (domain/user.go, token.go, audit.go)\<close>

record User =
  us_ID :: nat
  us_Email :: string
  us_PasswordHash :: string
  us_Name :: string
  us_EmailVerified :: bool
  us_CreatedAt :: time
  us_UpdatedAt :: time

record EmailVerification =
  ve_ID :: nat
  ve_UserID :: nat
  ve_Token :: string
  ve_ExpiresAt :: time
  ve_CreatedAt :: time

record DomainTunnelConfig =
  tc_ID :: nat
  tc_AgentProfileID :: nat
  tc_Label :: string
  tc_LocalAddr :: string
  tc_TunnelType :: string
  tc_CreatedAt :: time
  tc_UpdatedAt :: time

record RefreshToken =
  rf_JTI :: string
  rf_UserID :: nat
  rf_ExpiresAt :: time
  rf_RevokedAt :: "time option"
  rf_CreatedAt :: time

text \<open>The metadata of an audit event is an arbitrary value of type \<open>'j\<close>; \<^verbatim>\<open>nil\<close> is \<open>None\<close>.\<close>

record 'j AuditEvent =
  ae_ID :: nat
  ae_EventType :: string
  ae_ActorType :: string
  ae_ActorID :: string
  ae_TargetType :: string
  ae_TargetID :: string
  ae_IPAddress :: string
  ae_UserAgent :: string
  ae_Metadata :: "'j option"
  ae_CreatedAt :: time

record AuditFilter =
  af_ActorID :: string
  af_EventType :: string
  af_Since :: time
  af_Until :: time
  af_Limit :: int
  af_Offset :: int

subsection \<open>Shared shapes\<close>

text \<open>An insert whose error is wrapped, and an update or delete that reports \<^verbatim>\<open>not found\<close> when no row was affected.\<close>

definition create_row :: "string \<Rightarrow> 'm gorm \<Rightarrow> 'm \<Rightarrow> ('m \<Rightarrow> 'd) \<Rightarrow> 'm list \<Rightarrow> 'd result \<times> 'm list" where
  "create_row message g m fill rows = (case gorm_Create g m rows of
     (Ok m', rows') \<Rightarrow> (Ok (fill m'), rows')
   | (Err e, rows') \<Rightarrow> (Err (WrapErr message e), rows')
   | (Panic, rows') \<Rightarrow> (Panic, rows'))"

definition affected :: "string \<Rightarrow> (nat \<times> goerror option) \<times> 'm list \<Rightarrow> unit result \<times> 'm list" where
  "affected message res = (case res of ((n, e), rows) \<Rightarrow>
     if n = 0 then (Err (PlainErr message), rows)
     else (case e of None \<Rightarrow> Ok () | Some err \<Rightarrow> Err err, rows))"

definition returned :: "(nat \<times> goerror option) \<times> 'm list \<Rightarrow> unit result \<times> 'm list" where
  "returned res = (case res of ((n, e), rows) \<Rightarrow> (case e of None \<Rightarrow> Ok () | Some err \<Rightarrow> Err err, rows))"

definition wrap_result :: "string \<Rightarrow> ('m \<Rightarrow> 'd) \<Rightarrow> 'm result \<Rightarrow> 'd result" where
  "wrap_result message f r = (case r of Ok m \<Rightarrow> Ok (f m) | Err e \<Rightarrow> Err (WrapErr message e) | Panic \<Rightarrow> Panic)"

definition conv_result :: "('m \<Rightarrow> 'd) \<Rightarrow> 'm result \<Rightarrow> 'd result" where
  "conv_result f r = (case r of Ok m \<Rightarrow> Ok (f m) | Err e \<Rightarrow> Err e | Panic \<Rightarrow> Panic)"

subsection \<open>Users (user_repo.go)\<close>

definition modelToUser :: "UserModel \<Rightarrow> User" where
  "modelToUser m =
     \<lparr> us_ID = gm_ID m, us_Email = um_Email m, us_PasswordHash = um_PasswordHash m, us_Name = um_Name m,
       us_EmailVerified = um_EmailVerified m, us_CreatedAt = gm_CreatedAt m, us_UpdatedAt = gm_UpdatedAt m \<rparr>"

definition PGUser_Create :: "UserModel gorm \<Rightarrow> User \<Rightarrow> UserModel list \<Rightarrow> User result \<times> UserModel list" where
  "PGUser_Create g user rows = create_row ''failed to create user'' g
     \<lparr> gm_ID = 0, gm_CreatedAt = zero_time, gm_UpdatedAt = zero_time, gm_DeletedAt = None,
       um_Email = us_Email user, um_PasswordHash = us_PasswordHash user, um_Name = us_Name user,
       um_EmailVerified = us_EmailVerified user \<rparr>
     (\<lambda>m. user\<lparr>us_ID := gm_ID m, us_CreatedAt := gm_CreatedAt m, us_UpdatedAt := gm_UpdatedAt m\<rparr>) rows"

definition PGUser_GetByID :: "UserModel gorm \<Rightarrow> nat \<Rightarrow> UserModel list \<Rightarrow> User result" where
  "PGUser_GetByID g i rows = wrap_result ''user not found'' modelToUser (gorm_First g (\<lambda>m. gm_ID m = i) rows)"

definition PGUser_GetByEmail :: "UserModel gorm \<Rightarrow> string \<Rightarrow> UserModel list \<Rightarrow> User result" where
  "PGUser_GetByEmail g email rows =
     wrap_result ''user with email not found'' modelToUser (gorm_First g (\<lambda>m. um_Email m = email) rows)"

definition PGUser_Update :: "UserModel gorm \<Rightarrow> User \<Rightarrow> UserModel list \<Rightarrow> unit result \<times> UserModel list" where
  "PGUser_Update g user rows = affected ''user not found'' (gorm_Updates g (\<lambda>m. gm_ID m = us_ID user)
     (\<lambda>m. m\<lparr>um_Email := us_Email user, um_PasswordHash := us_PasswordHash user, um_Name := us_Name user,
       um_EmailVerified := us_EmailVerified user\<rparr>) rows)"

definition PGUser_Delete :: "UserModel gorm \<Rightarrow> nat \<Rightarrow> UserModel list \<Rightarrow> unit result \<times> UserModel list" where
  "PGUser_Delete g i rows = affected ''user not found'' (gorm_Delete g (\<lambda>m. gm_ID m = i) rows)"

subsection \<open>Email verifications (email\_verification\_repo.go)\<close>

definition PGVerification_Create ::
  "EmailVerificationModel gorm \<Rightarrow> EmailVerification \<Rightarrow> EmailVerificationModel list \<Rightarrow>
     EmailVerification result \<times> EmailVerificationModel list" where
  "PGVerification_Create g v rows = create_row ''failed to create email verification'' g
     \<lparr> gm_ID = 0, gm_CreatedAt = zero_time, gm_UpdatedAt = zero_time, gm_DeletedAt = None,
       em_UserID = ve_UserID v, em_Token = ve_Token v, em_ExpiresAt = ve_ExpiresAt v \<rparr>
     (\<lambda>m. v\<lparr>ve_ID := gm_ID m, ve_CreatedAt := gm_CreatedAt m\<rparr>) rows"

definition PGVerification_GetByToken ::
  "EmailVerificationModel gorm \<Rightarrow> string \<Rightarrow> EmailVerificationModel list \<Rightarrow> EmailVerification result" where
  "PGVerification_GetByToken g token rows = wrap_result ''verification token not found''
     (\<lambda>m. \<lparr> ve_ID = gm_ID m, ve_UserID = em_UserID m, ve_Token = em_Token m, ve_ExpiresAt = em_ExpiresAt m,
        ve_CreatedAt = gm_CreatedAt m \<rparr>) (gorm_First g (\<lambda>m. em_Token m = token) rows)"

definition PGVerification_DeleteByUserID ::
  "EmailVerificationModel gorm \<Rightarrow> nat \<Rightarrow> EmailVerificationModel list \<Rightarrow> unit result \<times> EmailVerificationModel list" where
  "PGVerification_DeleteByUserID g userID rows = returned (gorm_Delete g (\<lambda>m. em_UserID m = userID) rows)"

subsection \<open>Agent profiles (agent\_repo.go)\<close>

text \<open>The loop of \<^verbatim>\<open>scopesToString\<close> from index \<open>i\<close> on.\<close>

fun scopes_loop :: "nat \<Rightarrow> string list \<Rightarrow> string \<Rightarrow> string" where
  "scopes_loop i [] result = result"
| "scopes_loop i (s # scopes) result = scopes_loop (i + 1) scopes ((if i > 0 then result @ '','' else result) @ s)"

definition scopesToString :: "string list \<Rightarrow> string" where
  "scopesToString scopes = (if scopes = [] then [] else scopes_loop 0 scopes [])"

text \<open>The loop of \<^verbatim>\<open>stringToScopes\<close>: \<open>part\<close> is \<^verbatim>\<open>s[start:i]\<close>.\<close>

fun split_loop :: "string \<Rightarrow> string \<Rightarrow> string list \<Rightarrow> string list" where
  "split_loop [] part out = (if part \<noteq> [] then out @ [part] else out)"
| "split_loop (c # s) part out =
     (if c = CHR '','' then split_loop s [] (if part \<noteq> [] then out @ [part] else out)
      else split_loop s (part @ [c]) out)"

definition stringToScopes :: "string \<Rightarrow> string list" where
  "stringToScopes s = (if s = [] then [] else split_loop s [] [])"

definition modelToAgentProfile :: "AgentProfileModel \<Rightarrow> AgentProfile" where
  "modelToAgentProfile m =
     \<lparr> ap_ID = gm_ID m, ap_UserID = am_UserID m, ap_Name = am_Name m, ap_AgentID = am_AgentID m,
       ap_TokenHash = am_TokenHash m, ap_Scopes = stringToScopes (am_Scopes m), ap_TokenExpiresAt = am_TokenExpiresAt m,
       ap_LastUsedAt = am_LastUsedAt m, ap_FailedAuthCount = am_FailedAuthCount m, ap_LockedUntil = am_LockedUntil m,
       ap_CreatedAt = gm_CreatedAt m, ap_UpdatedAt = gm_UpdatedAt m \<rparr>"

definition PGAgent_Create ::
  "AgentProfileModel gorm \<Rightarrow> AgentProfile \<Rightarrow> AgentProfileModel list \<Rightarrow> AgentProfile result \<times> AgentProfileModel list" where
  "PGAgent_Create g agent rows = create_row ''failed to create agent profile'' g
     \<lparr> gm_ID = 0, gm_CreatedAt = zero_time, gm_UpdatedAt = zero_time, gm_DeletedAt = None,
       am_UserID = ap_UserID agent, am_Name = ap_Name agent, am_AgentID = ap_AgentID agent,
       am_TokenHash = ap_TokenHash agent, am_Scopes = scopesToString (ap_Scopes agent), am_TokenExpiresAt = None,
       am_LastUsedAt = None, am_FailedAuthCount = 0, am_LockedUntil = None \<rparr>
     (\<lambda>m. agent\<lparr>ap_ID := gm_ID m, ap_CreatedAt := gm_CreatedAt m, ap_UpdatedAt := gm_UpdatedAt m\<rparr>) rows"

definition PGAgent_GetByID :: "AgentProfileModel gorm \<Rightarrow> nat \<Rightarrow> AgentProfileModel list \<Rightarrow> AgentProfile result" where
  "PGAgent_GetByID g i rows =
     wrap_result ''agent profile not found'' modelToAgentProfile (gorm_First g (\<lambda>m. gm_ID m = i) rows)"

definition PGAgent_GetByAgentID :: "AgentProfileModel gorm \<Rightarrow> string \<Rightarrow> AgentProfileModel list \<Rightarrow> AgentProfile result" where
  "PGAgent_GetByAgentID g agentID rows =
     wrap_result ''agent profile not found'' modelToAgentProfile (gorm_First g (\<lambda>m. am_AgentID m = agentID) rows)"

definition PGAgent_ListByUserID :: "AgentProfileModel gorm \<Rightarrow> nat \<Rightarrow> AgentProfileModel list \<Rightarrow> AgentProfile list result" where
  "PGAgent_ListByUserID g userID rows =
     conv_result (map modelToAgentProfile) (gorm_Find g (\<lambda>m. am_UserID m = userID) rows)"

definition PGAgent_Update ::
  "AgentProfileModel gorm \<Rightarrow> AgentProfile \<Rightarrow> AgentProfileModel list \<Rightarrow> unit result \<times> AgentProfileModel list" where
  "PGAgent_Update g agent rows = affected ''agent profile not found'' (gorm_Updates g (\<lambda>m. gm_ID m = ap_ID agent)
     (\<lambda>m. m\<lparr>am_Name := ap_Name agent, am_AgentID := ap_AgentID agent, am_TokenHash := ap_TokenHash agent,
       am_Scopes := scopesToString (ap_Scopes agent), am_TokenExpiresAt := ap_TokenExpiresAt agent\<rparr>) rows)"

definition PGAgent_UpdateSecurityFields ::
  "AgentProfileModel gorm \<Rightarrow> AgentProfile \<Rightarrow> AgentProfileModel list \<Rightarrow> unit result \<times> AgentProfileModel list" where
  "PGAgent_UpdateSecurityFields g agent rows = returned (gorm_Updates g (\<lambda>m. gm_ID m = ap_ID agent)
     (\<lambda>m. m\<lparr>am_FailedAuthCount := ap_FailedAuthCount agent, am_LastUsedAt := ap_LastUsedAt agent,
       am_LockedUntil := ap_LockedUntil agent\<rparr>) rows)"

definition PGAgent_Delete ::
  "AgentProfileModel gorm \<Rightarrow> nat \<Rightarrow> AgentProfileModel list \<Rightarrow> unit result \<times> AgentProfileModel list" where
  "PGAgent_Delete g i rows = affected ''agent profile not found'' (gorm_Delete g (\<lambda>m. gm_ID m = i) rows)"

text \<open>The loop of \<^verbatim>\<open>ListTokenHashes\<close>: a map from the hash to the agent.\<close>

definition hashes_loop :: "AgentProfileModel list \<Rightarrow> (string, string) gomap" where
  "hashes_loop models =
     fold (\<lambda>m result. if am_TokenHash m \<noteq> [] then mput (am_TokenHash m) (am_AgentID m) result else result) models []"

definition PGAgent_ListTokenHashes :: "AgentProfileModel gorm \<Rightarrow> AgentProfileModel list \<Rightarrow> (string, string) gomap result" where
  "PGAgent_ListTokenHashes g rows =
     wrap_result ''failed to list agent token hashes'' hashes_loop (gorm_Find g (\<lambda>m. True) rows)"

subsection \<open>Agent tokens (token\_repo.go)\<close>

definition PGToken_Create :: "TokenModel gorm \<Rightarrow> string \<Rightarrow> string \<Rightarrow> TokenModel list \<Rightarrow> unit result \<times> TokenModel list" where
  "PGToken_Create g agentID tokenHash rows = create_row ''failed to create token'' g
     \<lparr> gm_ID = 0, gm_CreatedAt = zero_time, gm_UpdatedAt = zero_time, gm_DeletedAt = None,
       tm_AgentID = agentID, tm_TokenHash = tokenHash \<rparr> (\<lambda>m. ()) rows"

definition PGToken_GetByAgentID :: "TokenModel gorm \<Rightarrow> string \<Rightarrow> TokenModel list \<Rightarrow> string result" where
  "PGToken_GetByAgentID g agentID rows =
     wrap_result ''token not found for agent'' tm_TokenHash (gorm_First g (\<lambda>m. tm_AgentID m = agentID) rows)"

definition PGToken_List :: "TokenModel gorm \<Rightarrow> TokenModel list \<Rightarrow> (string, string) gomap result" where
  "PGToken_List g rows = wrap_result ''failed to list tokens''
     (\<lambda>models. fold (\<lambda>m result. mput (tm_TokenHash m) (tm_AgentID m) result) models []) (gorm_Find g (\<lambda>m. True) rows)"

definition PGToken_Delete :: "TokenModel gorm \<Rightarrow> string \<Rightarrow> TokenModel list \<Rightarrow> unit result \<times> TokenModel list" where
  "PGToken_Delete g agentID rows =
     affected ''token not found for agent'' (gorm_Unscoped_Delete g (\<lambda>m. tm_AgentID m = agentID) rows)"

subsection \<open>Tunnel definitions (tunnel\_config\_repo.go)\<close>

definition modelToTunnelDef :: "TunnelDefinitionModel \<Rightarrow> DomainTunnelConfig" where
  "modelToTunnelDef m =
     \<lparr> tc_ID = gm_ID m, tc_AgentProfileID = dm_AgentProfileID m, tc_Label = dm_Label m, tc_LocalAddr = dm_LocalAddr m,
       tc_TunnelType = dm_TunnelType m, tc_CreatedAt = gm_CreatedAt m, tc_UpdatedAt = gm_UpdatedAt m \<rparr>"

definition PGTunnel_Create ::
  "TunnelDefinitionModel gorm \<Rightarrow> DomainTunnelConfig \<Rightarrow> TunnelDefinitionModel list \<Rightarrow>
     DomainTunnelConfig result \<times> TunnelDefinitionModel list" where
  "PGTunnel_Create g tunnel rows = create_row ''failed to create tunnel definition'' g
     \<lparr> gm_ID = 0, gm_CreatedAt = zero_time, gm_UpdatedAt = zero_time, gm_DeletedAt = None,
       dm_AgentProfileID = tc_AgentProfileID tunnel, dm_Label = tc_Label tunnel, dm_LocalAddr = tc_LocalAddr tunnel,
       dm_TunnelType = (if tc_TunnelType tunnel = [] then ''tcp'' else tc_TunnelType tunnel) \<rparr>
     (\<lambda>m. tunnel\<lparr>tc_ID := gm_ID m, tc_CreatedAt := gm_CreatedAt m, tc_UpdatedAt := gm_UpdatedAt m\<rparr>) rows"

definition PGTunnel_GetByID :: "TunnelDefinitionModel gorm \<Rightarrow> nat \<Rightarrow> TunnelDefinitionModel list \<Rightarrow> DomainTunnelConfig result" where
  "PGTunnel_GetByID g i rows =
     wrap_result ''tunnel definition not found'' modelToTunnelDef (gorm_First g (\<lambda>m. gm_ID m = i) rows)"

definition PGTunnel_ListByAgentProfileID ::
  "TunnelDefinitionModel gorm \<Rightarrow> nat \<Rightarrow> TunnelDefinitionModel list \<Rightarrow> DomainTunnelConfig list result" where
  "PGTunnel_ListByAgentProfileID g agentProfileID rows =
     conv_result (map modelToTunnelDef) (gorm_Find g (\<lambda>m. dm_AgentProfileID m = agentProfileID) rows)"

definition PGTunnel_Update ::
  "TunnelDefinitionModel gorm \<Rightarrow> DomainTunnelConfig \<Rightarrow> TunnelDefinitionModel list \<Rightarrow> unit result \<times> TunnelDefinitionModel list" where
  "PGTunnel_Update g tunnel rows = affected ''tunnel definition not found'' (gorm_Updates g (\<lambda>m. gm_ID m = tc_ID tunnel)
     (\<lambda>m. m\<lparr>dm_Label := tc_Label tunnel, dm_LocalAddr := tc_LocalAddr tunnel, dm_TunnelType := tc_TunnelType tunnel\<rparr>) rows)"

definition PGTunnel_Delete ::
  "TunnelDefinitionModel gorm \<Rightarrow> nat \<Rightarrow> TunnelDefinitionModel list \<Rightarrow> unit result \<times> TunnelDefinitionModel list" where
  "PGTunnel_Delete g i rows = affected ''tunnel definition not found'' (gorm_Delete g (\<lambda>m. gm_ID m = i) rows)"

subsection \<open>Refresh tokens and revoked JTIs (refresh\_token\_repo.go)\<close>

definition PGRefresh_Create ::
  "RefreshTokenModel gorm \<Rightarrow> RefreshToken \<Rightarrow> RefreshTokenModel list \<Rightarrow> unit result \<times> RefreshTokenModel list" where
  "PGRefresh_Create g token rows = map_prod (conv_result (\<lambda>m. ())) id (gorm_Create g
     \<lparr> rm_JTI = rf_JTI token, rm_UserID = rf_UserID token, rm_ExpiresAt = rf_ExpiresAt token, rm_RevokedAt = None,
       rm_CreatedAt = zero_time \<rparr> rows)"

definition PGRefresh_GetByJTI :: "RefreshTokenModel gorm \<Rightarrow> string \<Rightarrow> RefreshTokenModel list \<Rightarrow> RefreshToken result" where
  "PGRefresh_GetByJTI g jti rows = conv_result
     (\<lambda>m. \<lparr> rf_JTI = rm_JTI m, rf_UserID = rm_UserID m, rf_ExpiresAt = rm_ExpiresAt m, rf_RevokedAt = rm_RevokedAt m,
        rf_CreatedAt = rm_CreatedAt m \<rparr>) (gorm_First g (\<lambda>m. rm_JTI m = jti) rows)"

definition PGRefresh_Revoke ::
  "RefreshTokenModel gorm \<Rightarrow> time \<Rightarrow> string \<Rightarrow> RefreshTokenModel list \<Rightarrow> unit result \<times> RefreshTokenModel list" where
  "PGRefresh_Revoke g now jti rows =
     returned (gorm_Updates g (\<lambda>m. rm_JTI m = jti) (\<lambda>m. m\<lparr>rm_RevokedAt := Some now\<rparr>) rows)"

definition PGRefresh_RevokeAllForUser ::
  "RefreshTokenModel gorm \<Rightarrow> time \<Rightarrow> nat \<Rightarrow> RefreshTokenModel list \<Rightarrow> unit result \<times> RefreshTokenModel list" where
  "PGRefresh_RevokeAllForUser g now userID rows = returned (gorm_Updates g
     (\<lambda>m. rm_UserID m = userID \<and> rm_RevokedAt m = None) (\<lambda>m. m\<lparr>rm_RevokedAt := Some now\<rparr>) rows)"

definition PGRefresh_CleanupExpired ::
  "RefreshTokenModel gorm \<Rightarrow> time \<Rightarrow> RefreshTokenModel list \<Rightarrow> unit result \<times> RefreshTokenModel list" where
  "PGRefresh_CleanupExpired g now rows = returned (gorm_Delete g (\<lambda>m. rm_ExpiresAt m < now) rows)"

definition PGRevoked_Revoke ::
  "RevokedJTIModel gorm \<Rightarrow> string \<Rightarrow> time \<Rightarrow> RevokedJTIModel list \<Rightarrow> unit result \<times> RevokedJTIModel list" where
  "PGRevoked_Revoke g jti expiresAt rows =
     (case gorm_FirstOrCreate g (\<lambda>m. vm_JTI m = jti) \<lparr> vm_JTI = jti, vm_ExpiresAt = expiresAt \<rparr> rows of
        (None, rows') \<Rightarrow> (Ok (), rows') | (Some e, rows') \<Rightarrow> (Err e, rows'))"

definition PGRevoked_IsRevoked :: "RevokedJTIModel gorm \<Rightarrow> string \<Rightarrow> RevokedJTIModel list \<Rightarrow> bool \<times> goerror option" where
  "PGRevoked_IsRevoked g jti rows = (case gorm_Count g (\<lambda>m. vm_JTI m = jti) rows of (n, err) \<Rightarrow> (n > 0, err))"

definition PGRevoked_CleanupExpired ::
  "RevokedJTIModel gorm \<Rightarrow> time \<Rightarrow> RevokedJTIModel list \<Rightarrow> unit result \<times> RevokedJTIModel list" where
  "PGRevoked_CleanupExpired g now rows = returned (gorm_Delete g (\<lambda>m. vm_ExpiresAt m < now) rows)"

subsection \<open>Tunnel ACLs (acl\_repo.go)\<close>

definition PGACL_List :: "TunnelACLModel gorm \<Rightarrow> string \<Rightarrow> TunnelACLModel list \<Rightarrow> TunnelACL list result" where
  "PGACL_List g tunnelID rows = wrap_result ''failed to list tunnel ACLs''
     (map (\<lambda>m. \<lparr> acl_ID = gm_ID m, acl_TunnelID = cm_TunnelID m, acl_ACLType = cm_ACLType m, acl_CIDR = cm_CIDR m,
        acl_CreatedAt = gm_CreatedAt m \<rparr>)) (gorm_Find g (\<lambda>m. cm_TunnelID m = tunnelID) rows)"

definition PGACL_Create :: "TunnelACLModel gorm \<Rightarrow> TunnelACL \<Rightarrow> TunnelACLModel list \<Rightarrow> TunnelACL result \<times> TunnelACLModel list" where
  "PGACL_Create g acl rows = create_row ''failed to create tunnel ACL'' g
     \<lparr> gm_ID = 0, gm_CreatedAt = zero_time, gm_UpdatedAt = zero_time, gm_DeletedAt = None,
       cm_TunnelID = acl_TunnelID acl, cm_ACLType = acl_ACLType acl, cm_CIDR = acl_CIDR acl \<rparr>
     (\<lambda>m. acl\<lparr>acl_ID := gm_ID m, acl_CreatedAt := gm_CreatedAt m\<rparr>) rows"

definition PGACL_Delete :: "TunnelACLModel gorm \<Rightarrow> nat \<Rightarrow> TunnelACLModel list \<Rightarrow> unit result \<times> TunnelACLModel list" where
  "PGACL_Delete g i rows = affected ''tunnel ACL not found'' (gorm_Delete g (\<lambda>m. gm_ID m = i) rows)"

subsection \<open>Sessions (session\_repo.go)\<close>

definition session_active :: "string \<Rightarrow> TunnelSessionModel \<Rightarrow> bool" where
  "session_active tunnelID m \<longleftrightarrow> sm_TunnelID m = tunnelID \<and> sm_Status m = ''active''"

definition modelToSession :: "TunnelSessionModel \<Rightarrow> Session" where
  "modelToSession m =
     \<lparr> ss_TunnelID = sm_TunnelID m, ss_AgentID = sm_AgentID m, ss_OwnerRelayID = sm_OwnerRelayID m,
       ss_LeaseID = sm_LeaseID m, ss_PublicAddr = sm_PublicHost m, ss_LocalAddr = sm_LocalAddr m,
       ss_RemoteAddr = sm_RemoteAddr m, ss_CreatedAt = sm_ConnectedAt m, ss_LastHeartbeat = sm_LastHeartbeat m,
       ss_ResumeToken = [], ss_ResumeDeadline = None \<rparr>"

definition PGSession_Register ::
  "TunnelSessionModel gorm \<Rightarrow> time \<Rightarrow> time \<Rightarrow> Session \<Rightarrow> TunnelSessionModel list \<Rightarrow> Session result \<times> TunnelSessionModel list" where
  "PGSession_Register g now1 now2 sess rows =
     (if ss_TunnelID sess = [] then (Err (PlainErr ''tunnel_id is required''), rows)
      else create_row ''tunnel already registered'' g
        \<lparr> gm_ID = 0, gm_CreatedAt = zero_time, gm_UpdatedAt = zero_time, gm_DeletedAt = None,
          sm_TunnelID = ss_TunnelID sess, sm_AgentID = ss_AgentID sess, sm_OwnerRelayID = ss_OwnerRelayID sess,
          sm_LeaseID = ss_LeaseID sess, sm_PublicHost = ss_PublicAddr sess, sm_LocalAddr = ss_LocalAddr sess,
          sm_RemoteAddr = ss_RemoteAddr sess, sm_Status = ''active'', sm_ConnectedAt = now1, sm_DisconnectedAt = None,
          sm_LastHeartbeat = now2, sm_ResumeToken = [], sm_ResumeDeadline = None \<rparr>
        (\<lambda>m. sess\<lparr>ss_CreatedAt := sm_ConnectedAt m, ss_LastHeartbeat := sm_LastHeartbeat m\<rparr>) rows)"

definition PGSession_Deregister ::
  "TunnelSessionModel gorm \<Rightarrow> time \<Rightarrow> string \<Rightarrow> TunnelSessionModel list \<Rightarrow> unit result \<times> TunnelSessionModel list" where
  "PGSession_Deregister g now tunnelID rows = affected ''tunnel not found'' (gorm_Updates g (session_active tunnelID)
     (\<lambda>m. m\<lparr>sm_Status := ''closed'', sm_DisconnectedAt := Some now\<rparr>) rows)"

definition PGSession_Get :: "TunnelSessionModel gorm \<Rightarrow> string \<Rightarrow> TunnelSessionModel list \<Rightarrow> Session result" where
  "PGSession_Get g tunnelID rows = (case gorm_First g (session_active tunnelID) rows of
     Ok m \<Rightarrow> Ok (modelToSession m) | Err e \<Rightarrow> Err (PlainErr ''tunnel not found'') | Panic \<Rightarrow> Panic)"

definition PGSession_List :: "TunnelSessionModel gorm \<Rightarrow> TunnelSessionModel list \<Rightarrow> Session list result" where
  "PGSession_List g rows = conv_result (map modelToSession) (gorm_Find g (\<lambda>m. sm_Status m = ''active'') rows)"

definition PGSession_Heartbeat ::
  "TunnelSessionModel gorm \<Rightarrow> time \<Rightarrow> string \<Rightarrow> TunnelSessionModel list \<Rightarrow> unit result \<times> TunnelSessionModel list" where
  "PGSession_Heartbeat g now tunnelID rows = affected ''tunnel not found'' (gorm_Updates g (session_active tunnelID)
     (\<lambda>m. m\<lparr>sm_LastHeartbeat := now\<rparr>) rows)"

definition PGSession_CleanupExpired ::
  "TunnelSessionModel gorm \<Rightarrow> time \<Rightarrow> time \<Rightarrow> duration \<Rightarrow> TunnelSessionModel list \<Rightarrow> (nat \<times> goerror option) \<times> TunnelSessionModel list" where
  "PGSession_CleanupExpired g now1 now2 ttl rows =
     gorm_Updates g (\<lambda>m. sm_Status m = ''active'' \<and> sm_LastHeartbeat m < now1 - ttl)
       (\<lambda>m. m\<lparr>sm_Status := ''expired'', sm_DisconnectedAt := Some now2\<rparr>) rows"

definition pg_resumable :: "time \<Rightarrow> string \<Rightarrow> TunnelSessionModel \<Rightarrow> bool" where
  "pg_resumable now token m \<longleftrightarrow> sm_ResumeToken m = token \<and>
     (case sm_ResumeDeadline m of None \<Rightarrow> False | Some d \<Rightarrow> d > now) \<and> sm_Status m \<in> {''active'', ''disconnecting''}"

definition PGSession_GetResumable :: "TunnelSessionModel gorm \<Rightarrow> time \<Rightarrow> string \<Rightarrow> TunnelSessionModel list \<Rightarrow> Session result" where
  "PGSession_GetResumable g now token rows =
     (if token = [] then Err (PlainErr ''resume token required'')
      else wrap_result ''resumable session not found''
        (\<lambda>m. (modelToSession m)\<lparr>ss_ResumeToken := sm_ResumeToken m, ss_ResumeDeadline := sm_ResumeDeadline m\<rparr>)
        (gorm_First g (pg_resumable now token) rows))"

definition PGSession_SetResumable ::
  "TunnelSessionModel gorm \<Rightarrow> string \<Rightarrow> string \<Rightarrow> time \<Rightarrow> TunnelSessionModel list \<Rightarrow> unit result \<times> TunnelSessionModel list" where
  "PGSession_SetResumable g tunnelID token deadline rows =
     (case gorm_Updates g (session_active tunnelID)
        (\<lambda>m. m\<lparr>sm_Status := ''disconnecting'', sm_ResumeToken := token, sm_ResumeDeadline := Some deadline\<rparr>) rows of
        ((n, Some e), rows') \<Rightarrow> (Err e, rows')
      | ((n, None), rows') \<Rightarrow> (if n = 0 then Err (PlainErr ''session not found or not active'') else Ok (), rows'))"

subsection \<open>Audit events (audit\_repo.go)\<close>

text \<open>\<open>marshal\<close> is \<^verbatim>\<open>json.Marshal\<close> of the metadata and \<open>unmarshal\<close> \<^verbatim>\<open>json.Unmarshal\<close>, which leaves the field as it was
  on an error.\<close>

definition PGAudit_Append ::
  "AuditEventModel gorm \<Rightarrow> ('j \<Rightarrow> string option) \<Rightarrow> time \<Rightarrow> 'j AuditEvent \<Rightarrow> AuditEventModel list \<Rightarrow>
     unit result \<times> AuditEventModel list" where
  "PGAudit_Append g marshal now event rows =
     (let meta = (case ae_Metadata event of None \<Rightarrow> ''{}'' | Some j \<Rightarrow> (case marshal j of Some b \<Rightarrow> b | None \<Rightarrow> ''{}'')) in
      map_prod (conv_result (\<lambda>m. ())) id (gorm_Create g
        \<lparr> aem_ID = 0, aem_EventType = ae_EventType event, aem_ActorType = ae_ActorType event, aem_ActorID = ae_ActorID event,
          aem_TargetType = ae_TargetType event, aem_TargetID = ae_TargetID event, aem_IPAddress = ae_IPAddress event,
          aem_UserAgent = ae_UserAgent event, aem_Metadata = meta,
          aem_CreatedAt = (if ae_CreatedAt event = zero_time then now else ae_CreatedAt event) \<rparr> rows))"

definition audit_matches :: "AuditFilter \<Rightarrow> AuditEventModel \<Rightarrow> bool" where
  "audit_matches f m \<longleftrightarrow>
     (af_ActorID f = [] \<or> aem_ActorID m = af_ActorID f) \<and>
     (af_EventType f = [] \<or> aem_EventType m = af_EventType f) \<and>
     (af_Since f = zero_time \<or> aem_CreatedAt m \<ge> af_Since f) \<and>
     (af_Until f = zero_time \<or> aem_CreatedAt m \<le> af_Until f)"

definition audit_limit :: "AuditFilter \<Rightarrow> int" where
  "audit_limit f = (if af_Limit f \<le> 0 \<or> af_Limit f > 500 then 50 else af_Limit f)"

text \<open>The order, limit and offset of the query, on the rows it selects.\<close>

definition audit_window :: "AuditFilter \<Rightarrow> AuditEventModel list \<Rightarrow> AuditEventModel list" where
  "audit_window f ms = take (nat (audit_limit f)) (drop (nat (af_Offset f)) (rev (sort_key aem_CreatedAt ms)))"

definition modelToAuditEvent :: "(string \<Rightarrow> 'j option) \<Rightarrow> AuditEventModel \<Rightarrow> 'j AuditEvent" where
  "modelToAuditEvent unmarshal row =
     \<lparr> ae_ID = aem_ID row, ae_EventType = aem_EventType row, ae_ActorType = aem_ActorType row,
       ae_ActorID = aem_ActorID row, ae_TargetType = aem_TargetType row, ae_TargetID = aem_TargetID row,
       ae_IPAddress = aem_IPAddress row, ae_UserAgent = aem_UserAgent row,
       ae_Metadata = (if aem_Metadata row \<noteq> [] \<and> aem_Metadata row \<noteq> ''{}'' then unmarshal (aem_Metadata row) else None),
       ae_CreatedAt = aem_CreatedAt row \<rparr>"

definition PGAudit_List ::
  "AuditEventModel gorm \<Rightarrow> (string \<Rightarrow> 'j option) \<Rightarrow> AuditFilter \<Rightarrow> AuditEventModel list \<Rightarrow> 'j AuditEvent list result" where
  "PGAudit_List g unmarshal f rows =
     conv_result (\<lambda>ms. map (modelToAuditEvent unmarshal) (audit_window f ms)) (gorm_Find g (audit_matches f) rows)"

subsection \<open>What the calls do\<close>

lemma First_OkD: "gorm_spec sc g \<Longrightarrow> gorm_First g P rows = Ok m \<Longrightarrow> m \<in> set rows \<and> sees sc P m"
  by (simp add: gorm_spec_def query_spec_def)

lemma Find_OkD: "gorm_spec sc g \<Longrightarrow> gorm_Find g P rows = Ok ms \<Longrightarrow> mset ms = filter_mset (sees sc P) (mset rows)"
  by (simp add: gorm_spec_def query_spec_def)

lemma Find_set: "gorm_spec sc g \<Longrightarrow> gorm_Find g P rows = Ok ms \<Longrightarrow> set ms = {m \<in> set rows. sees sc P m}"
  using Find_OkD [of sc g P rows ms] by (metis set_mset_mset set_mset_filter)

lemma Count_OkD: "gorm_spec sc g \<Longrightarrow> gorm_Count g P rows = (n, None) \<Longrightarrow> n = length (filter (sees sc P) rows)"
  by (simp add: gorm_spec_def query_spec_def)

lemma wrap_result_OkD: "wrap_result message f r = Ok d \<Longrightarrow> \<exists>m. r = Ok m \<and> d = f m"
  by (auto simp: wrap_result_def split: result.splits)

lemma conv_result_OkD: "conv_result f r = Ok d \<Longrightarrow> \<exists>m. r = Ok m \<and> d = f m"
  by (auto simp: conv_result_def split: result.splits)

lemma create_row_cases:
  assumes "gorm_spec sc g" and "create_row message g m fill rows = (r, rows')"
  obtains e where "r = Err e" "rows' = rows"
    | k t m' where "m' = sc_stamp sc k t m" "r = Ok (fill m')" "rows' = rows @ [m']" "\<forall>x \<in> set rows. \<not> sc_clash sc x m'"
proof (cases "gorm_Create g m rows")
  case (Pair q rs)
  with assms(1) have "q \<noteq> Panic" "\<And>e. q = Err e \<Longrightarrow> rs = rows"
    "\<And>x. q = Ok x \<Longrightarrow> (\<exists>k t. x = sc_stamp sc k t m) \<and> (\<forall>y \<in> set rows. \<not> sc_clash sc y x) \<and> rs = rows @ [x]"
    by (auto simp: gorm_spec_def create_spec_def)
  moreover from assms(2) Pair have "q = Ok x \<Longrightarrow> r = Ok (fill x) \<and> rows' = rs" "q = Err e \<Longrightarrow> r = Err (WrapErr message e) \<and> rows' = rs" for x e
    by (auto simp: create_row_def)
  ultimately show ?thesis using that by (cases q) (metis, metis, metis)
qed

text \<open>\<open>rewritten sc P f t rows\<close> are the rows after an update and \<open>removed\<close> those after a delete.\<close>

definition rewritten :: "'m schema \<Rightarrow> ('m \<Rightarrow> bool) \<Rightarrow> ('m \<Rightarrow> 'm) \<Rightarrow> time \<Rightarrow> 'm list \<Rightarrow> 'm list" where
  "rewritten sc P f t rows = map (\<lambda>m. if sees sc P m then sc_touch sc t (f m) else m) rows"

definition removed :: "'m schema \<Rightarrow> ('m \<Rightarrow> bool) \<Rightarrow> time \<Rightarrow> 'm list \<Rightarrow> 'm list" where
  "removed sc P t rows = concat (map (\<lambda>m. if sees sc P m then sc_remove sc t m else [m]) rows)"

lemma rewritten_none: "\<forall>m \<in> set rows. \<not> sees sc P m \<Longrightarrow> rewritten sc P f t rows = rows"
  by (simp add: rewritten_def map_idI)

lemma removed_none: "\<forall>m \<in> set rows. \<not> sees sc P m \<Longrightarrow> removed sc P t rows = rows"
  by (induction rows) (auto simp: removed_def)

lemma affected_update_cases:
  assumes "gorm_spec sc g" and "affected message (gorm_Updates g P f rows) = (r, rows')"
  obtains e where "r = Err e" "rows' = rows"
    | t where "r = Ok ()" "rows' = rewritten sc P f t rows" "\<exists>m \<in> set rows. sees sc P m"
proof -
  obtain n e rs where u: "gorm_Updates g P f rows = ((n, e), rs)" by (metis prod.collapse)
  with assms(1) have u': "e \<noteq> None \<Longrightarrow> n = 0 \<and> rs = rows"
    "e = None \<Longrightarrow> n = length (filter (sees sc P) rows) \<and> (\<exists>t. rs = rewritten sc P f t rows)"
    by (auto simp: gorm_spec_def update_spec_def rewritten_def)
  show ?thesis
  proof (cases "n = 0")
    case True
    with u' have "rs = rows"
      by (cases e) (auto simp: filter_empty_conv intro: rewritten_none)
    with True assms(2) u that(1) show ?thesis by (auto simp: affected_def)
  next
    case False
    with u' have "e = None" by (cases e) auto
    with u' False obtain t where "rs = rewritten sc P f t rows" "\<exists>m \<in> set rows. sees sc P m"
      by (auto simp: filter_empty_conv)
    with False \<open>e = None\<close> assms(2) u that(2) show ?thesis by (auto simp: affected_def)
  qed
qed

lemma affected_delete_cases:
  assumes "gorm_spec sc g" and "affected message (gorm_Delete g P rows) = (r, rows')"
  obtains e where "r = Err e" "rows' = rows"
    | t where "r = Ok ()" "rows' = removed sc P t rows" "\<exists>m \<in> set rows. sees sc P m"
proof -
  obtain n e rs where u: "gorm_Delete g P rows = ((n, e), rs)" by (metis prod.collapse)
  with assms(1) have u': "e \<noteq> None \<Longrightarrow> n = 0 \<and> rs = rows"
    "e = None \<Longrightarrow> n = length (filter (sees sc P) rows) \<and> (\<exists>t. rs = removed sc P t rows)"
    by (auto simp: gorm_spec_def delete_spec_def removed_def)
  show ?thesis
  proof (cases "n = 0")
    case True
    with u' have "rs = rows"
      by (cases e) (auto simp: filter_empty_conv intro: removed_none)
    with True assms(2) u that(1) show ?thesis by (auto simp: affected_def)
  next
    case False
    with u' have "e = None" by (cases e) auto
    with u' False obtain t where "rs = removed sc P t rows" "\<exists>m \<in> set rows. sees sc P m"
      by (auto simp: filter_empty_conv)
    with False \<open>e = None\<close> assms(2) u that(2) show ?thesis by (auto simp: affected_def)
  qed
qed

lemma affected_purge_cases:
  assumes "gorm_spec sc g" and "affected message (gorm_Unscoped_Delete g P rows) = (r, rows')"
  obtains "rows' = rows" | "r = Ok ()" "rows' = filter (\<lambda>m. \<not> P m) rows"
proof -
  obtain n e rs where u: "gorm_Unscoped_Delete g P rows = ((n, e), rs)" by (metis prod.collapse)
  with assms(1) have "e \<noteq> None \<Longrightarrow> n = 0 \<and> rs = rows" "e = None \<Longrightarrow> n = length (filter P rows) \<and> rs = filter (\<lambda>m. \<not> P m) rows"
    by (auto simp: gorm_spec_def delete_spec_def)
  moreover have "length (filter P rows) = 0 \<Longrightarrow> filter (\<lambda>m. \<not> P m) rows = rows"
    by (simp add: filter_empty_conv)
  ultimately show ?thesis
    using assms(2) u that by (cases e; cases "n = 0") (auto simp: affected_def)
qed

lemma returned_update_cases:
  assumes "gorm_spec sc g" and "returned (gorm_Updates g P f rows) = (r, rows')"
  obtains e where "r = Err e" "rows' = rows" | t where "r = Ok ()" "rows' = rewritten sc P f t rows"
proof -
  obtain n e rs where u: "gorm_Updates g P f rows = ((n, e), rs)" by (metis prod.collapse)
  with assms(1) have "e \<noteq> None \<Longrightarrow> rs = rows" "e = None \<Longrightarrow> \<exists>t. rs = rewritten sc P f t rows"
    by (auto simp: gorm_spec_def update_spec_def rewritten_def)
  with assms(2) u that show ?thesis by (cases e) (auto simp: returned_def)
qed

lemma returned_delete_cases:
  assumes "gorm_spec sc g" and "returned (gorm_Delete g P rows) = (r, rows')"
  obtains e where "r = Err e" "rows' = rows" | t where "r = Ok ()" "rows' = removed sc P t rows"
proof -
  obtain n e rs where u: "gorm_Delete g P rows = ((n, e), rs)" by (metis prod.collapse)
  with assms(1) have "e \<noteq> None \<Longrightarrow> rs = rows" "e = None \<Longrightarrow> \<exists>t. rs = removed sc P t rows"
    by (auto simp: gorm_spec_def delete_spec_def removed_def)
  with assms(2) u that show ?thesis by (cases e) (auto simp: returned_def)
qed

lemma model_schema_sel [simp]:
  "sc_live (model_schema u) m \<longleftrightarrow> gm_DeletedAt m = None"
  "sc_stamp (model_schema u) k t m = m\<lparr>gm_ID := k, gm_CreatedAt := t, gm_UpdatedAt := t\<rparr>"
  "sc_touch (model_schema u) t m = m\<lparr>gm_UpdatedAt := t\<rparr>"
  "sc_remove (model_schema u) t m = [m\<lparr>gm_DeletedAt := Some t\<rparr>]"
  "sc_clash (model_schema u) x y \<longleftrightarrow> gm_ID x = gm_ID y \<or> u x y"
  by (simp_all add: model_schema_def)

lemma removed_model:
  "removed (model_schema u) P t rows = map (\<lambda>m. if gm_DeletedAt m = None \<and> P m then m\<lparr>gm_DeletedAt := Some t\<rparr> else m) rows"
  by (induction rows) (auto simp: removed_def sees_def)

lemmas schema_defs = token_schema_def session_schema_def user_schema_def verification_schema_def agent_schema_def
  acl_schema_def tunnel_schema_def

subsection \<open>Scopes\<close>

lemma scopes_loop_pos: "0 < i \<Longrightarrow> scopes_loop i xs r = r @ concat (map (\<lambda>s. '','' @ s) xs)"
  by (induction xs arbitrary: i r) auto

lemma scopesToString_Cons: "scopesToString (x # xs) = x @ concat (map (\<lambda>s. '','' @ s) xs)"
  by (simp add: scopesToString_def scopes_loop_pos)

lemma split_loop_part: "CHR '','' \<notin> set p \<Longrightarrow> split_loop (p @ s) q out = split_loop s (q @ p) out"
  by (induction p arbitrary: q) auto

lemma split_loop_concat:
  assumes "\<forall>s \<in> set (x # xs). s \<noteq> [] \<and> CHR '','' \<notin> set s"
  shows "split_loop (x @ concat (map (\<lambda>s. '','' @ s) xs)) [] out = out @ x # xs"
  using assms by (induction xs arbitrary: x out) (auto simp: split_loop_part split_loop_part [of _ "[]", simplified])

lemma scopes_roundtrip:
  assumes "\<forall>s \<in> set xs. s \<noteq> [] \<and> CHR '','' \<notin> set s"
  shows "stringToScopes (scopesToString xs) = xs"
proof (cases xs)
  case Nil
  then show ?thesis by (simp add: scopesToString_def stringToScopes_def)
next
  case (Cons x ys)
  with assms split_loop_concat [of x ys "[]"] show ?thesis
    by (simp add: scopesToString_Cons stringToScopes_def)
qed

end
