(* ===== verification/TE_Persistence.thy ===== *)
theory TE_Persistence
  imports TE_Pgstore
begin

text \<open>
  The Postgres session repository against the in-memory one. \<open>pg_sessions\<close> reads the table as the in-memory repository
  holds it: the active rows that are not soft-deleted, by tunnel id. While no tunnel has two active rows, the two
  repositories agree on lookups, deregistration, heartbeats and expiry; they differ on a second registration of a
  tunnel, which Postgres accepts because the index on the tunnel id is not unique.
\<close>

definition session_row :: "TunnelSessionModel \<Rightarrow> bool" where
  "session_row m \<longleftrightarrow> gm_DeletedAt m = None \<and> sm_Status m = ''active''"

definition pg_sessions :: "TunnelSessionModel list \<Rightarrow> session_repo" where
  "pg_sessions rows = map (\<lambda>m. (sm_TunnelID m, modelToSession m)) (filter session_row rows)"

lemma session_sees: "sees session_schema (session_active t) m \<longleftrightarrow> session_row m \<and> sm_TunnelID m = t"
  by (auto simp: sees_def session_schema_def session_active_def session_row_def)

lemma session_row_upd [simp]:
  "session_row (m\<lparr>gm_UpdatedAt := u\<rparr>) = session_row m"
  "session_row (m\<lparr>sm_LastHeartbeat := u\<rparr>) = session_row m"
  by (simp_all add: session_row_def)

lemma modelToSession_upd [simp]:
  "modelToSession (m\<lparr>gm_UpdatedAt := u\<rparr>) = modelToSession m"
  "modelToSession (m\<lparr>sm_LastHeartbeat := now\<rparr>) = Touch now (modelToSession m)"
  "ss_TunnelID (modelToSession m) = sm_TunnelID m" "ss_LastHeartbeat (modelToSession m) = sm_LastHeartbeat m"
  by (simp_all add: modelToSession_def Touch_def)

text \<open>An update that ends the rows it selects removes them from the view; a heartbeat touches them.\<close>

lemma pg_sessions_end:
  assumes "\<And>m. sm_Status (f m) \<noteq> ''active''" and "\<And>m. session_row m \<Longrightarrow> P m = Q (sm_TunnelID m) (modelToSession m)"
    and "\<And>m. P m \<Longrightarrow> sm_Status m = ''active''"
  shows "pg_sessions (rewritten session_schema P f t rows) = mkeep (\<lambda>k s. \<not> Q k s) (pg_sessions rows)"
proof (induction rows)
  case (Cons m rows)
  have "sees session_schema P m \<longleftrightarrow> session_row m \<and> P m"
    using assms(3) by (auto simp: sees_def session_schema_def session_row_def)
  moreover have "\<not> session_row (f m)" using assms(1) by (simp add: session_row_def)
  ultimately show ?case
    using Cons assms(2) [of m] by (simp add: pg_sessions_def rewritten_def mkeep_def session_schema_def)
qed (simp add: pg_sessions_def rewritten_def mkeep_def)

lemma pg_sessions_touch:
  "pg_sessions (rewritten session_schema (session_active tid) (\<lambda>m. m\<lparr>sm_LastHeartbeat := now\<rparr>) t rows) =
     mupd tid (Touch now) (pg_sessions rows)"
proof (induction rows)
  case (Cons m rows)
  show ?case
    using Cons by (simp add: pg_sessions_def rewritten_def mupd_def session_sees) (simp add: session_schema_def)
qed (simp add: pg_sessions_def rewritten_def mupd_def)

lemma pg_sessions_mem: "map_of (pg_sessions rows) t = Some s \<Longrightarrow> \<exists>m \<in> set rows. session_row m \<and> sm_TunnelID m = t \<and> s = modelToSession m"
  by (drule map_of_SomeD) (auto simp: pg_sessions_def)

lemma pg_sessions_known: "m \<in> set rows \<Longrightarrow> session_row m \<Longrightarrow> map_of (pg_sessions rows) (sm_TunnelID m) \<noteq> None"
  by (auto simp: pg_sessions_def map_of_eq_None_iff image_iff)

text \<open>C26: The Postgres session repository refines the in-memory one, as long as no tunnel has two active rows. Whenever its
  lookup, deregistration, heartbeat or expiry sweep succeeds, the in-memory operation on the active sessions succeeds too,
  with the same answer and the same sessions afterwards.\<close>

theorem pg_sessions_refine:
  assumes "gorm_spec session_schema g" and "mwf (pg_sessions rows)"
  shows "(PGSession_Get g t rows = Ok s \<longrightarrow> mem_Get t (pg_sessions rows) = Ok s) \<and>
    (PGSession_Deregister g now t rows = (Ok (), rows1) \<longrightarrow> mem_Deregister t (pg_sessions rows) = (Ok (), pg_sessions rows1)) \<and>
    (PGSession_Heartbeat g now t rows = (Ok (), rows2) \<longrightarrow> mem_Heartbeat now t (pg_sessions rows) = (Ok (), pg_sessions rows2)) \<and>
    (PGSession_CleanupExpired g now now' ttl rows = ((n, None), rows3) \<longrightarrow>
       mem_CleanupExpired ttl now (pg_sessions rows) = (n, pg_sessions rows3))"
proof (intro conjI impI)
  assume "PGSession_Get g t rows = Ok s"
  then obtain m where f: "gorm_First g (session_active t) rows = Ok m" and s: "s = modelToSession m"
    by (auto simp: PGSession_Get_def split: result.splits)
  have m: "m \<in> set rows" "session_row m" "sm_TunnelID m = t"
    using First_OkD [OF assms(1) f] by (simp_all add: session_sees)
  then have "(t, s) \<in> set (pg_sessions rows)" by (auto simp: pg_sessions_def s)
  with in_set_mwf [OF assms(2)] show "mem_Get t (pg_sessions rows) = Ok s" by (simp add: mem_Get_def)
next
  assume "PGSession_Deregister g now t rows = (Ok (), rows1)"
  then obtain u where r: "rows1 = rewritten session_schema (session_active t)
      (\<lambda>m. m\<lparr>sm_Status := ''closed'', sm_DisconnectedAt := Some now\<rparr>) u rows" and "\<exists>m \<in> set rows. sees session_schema (session_active t) m"
    unfolding PGSession_Deregister_def by (cases rule: affected_update_cases [OF assms(1)]) auto
  then have "map_of (pg_sessions rows) t \<noteq> None" using pg_sessions_known by (auto simp: session_sees)
  moreover have "pg_sessions rows1 = mkeep (\<lambda>k s. \<not> k = t) (pg_sessions rows)"
    unfolding r by (rule pg_sessions_end) (auto simp: session_active_def session_row_def)
  ultimately show "mem_Deregister t (pg_sessions rows) = (Ok (), pg_sessions rows1)"
    by (simp add: mem_Deregister_def mkeep_def mdel_def)
next
  assume "PGSession_Heartbeat g now t rows = (Ok (), rows2)"
  then obtain u where r: "rows2 = rewritten session_schema (session_active t) (\<lambda>m. m\<lparr>sm_LastHeartbeat := now\<rparr>) u rows"
    and "\<exists>m \<in> set rows. sees session_schema (session_active t) m"
    unfolding PGSession_Heartbeat_def by (cases rule: affected_update_cases [OF assms(1)]) auto
  then have "map_of (pg_sessions rows) t \<noteq> None" using pg_sessions_known by (auto simp: session_sees)
  then show "mem_Heartbeat now t (pg_sessions rows) = (Ok (), pg_sessions rows2)"
    by (simp add: mem_Heartbeat_def r pg_sessions_touch)
next
  let ?P = "\<lambda>m. sm_Status m = ''active'' \<and> sm_LastHeartbeat m < now - ttl"
  assume "PGSession_CleanupExpired g now now' ttl rows = ((n, None), rows3)"
  with assms(1) obtain u where n: "n = length (filter (sees session_schema ?P) rows)"
    and r: "rows3 = rewritten session_schema ?P (\<lambda>m. m\<lparr>sm_Status := ''expired'', sm_DisconnectedAt := Some now'\<rparr>) u rows"
    by (fastforce simp: PGSession_CleanupExpired_def gorm_spec_def update_spec_def rewritten_def)
  have "pg_sessions rows3 = mkeep (\<lambda>k s. \<not> IsExpired now ttl s) (pg_sessions rows)"
    unfolding r by (rule pg_sessions_end) (auto simp: session_row_def IsExpired_def)
  moreover have "n = length (filter (\<lambda>p. IsExpired now ttl (snd p)) (pg_sessions rows))"
    unfolding n pg_sessions_def
    by (induction rows) (auto simp: sees_def session_schema_def session_row_def IsExpired_def)
  ultimately show "mem_CleanupExpired ttl now (pg_sessions rows) = (n, pg_sessions rows3)"
    by (simp add: mem_CleanupExpired_eq [OF assms(2)])
qed

definition session_row_example :: TunnelSessionModel where
  "session_row_example =
     \<lparr> gm_ID = 1, gm_CreatedAt = 0, gm_UpdatedAt = 0, gm_DeletedAt = None, sm_TunnelID = ''t-a'', sm_AgentID = ''a'', sm_OwnerRelayID = [],
       sm_LeaseID = [], sm_PublicHost = [], sm_LocalAddr = [], sm_RemoteAddr = [], sm_Status = ''active'', sm_ConnectedAt = 0,
       sm_DisconnectedAt = None, sm_LastHeartbeat = 0, sm_ResumeToken = [], sm_ResumeDeadline = None \<rparr>"

theorem pg_sessions_refine_witness:
  "mem_Get ''t-a'' (pg_sessions [session_row_example]) = Ok (modelToSession session_row_example)"
proof -
  have "mwf (pg_sessions [session_row_example])"
    by (simp add: pg_sessions_def mwf_def session_row_def session_row_example_def)
  moreover have "PGSession_Get (rows_gorm session_schema 0) ''t-a'' [session_row_example] = Ok (modelToSession session_row_example)"
    by (simp add: PGSession_Get_def rows_gorm_def session_sees) (simp add: session_row_def session_row_example_def)
  ultimately show ?thesis using pg_sessions_refine [OF rows_gorm_spec] by blast
qed

text \<open>Nothing keeps a tunnel from being registered twice. The index on the tunnel id is not unique, so a second registration of
  a tunnel that is active fails only if the insert fails for another reason: whenever it succeeds the table has two active rows of the
  tunnel, where the in-memory repository answers that the tunnel is already registered.\<close>

theorem pg_Register_duplicates:
  assumes "gorm_spec session_schema g" and "PGSession_Register g now1 now2 s rows = (Ok s', rows')"
    and "map_of (pg_sessions rows) (ss_TunnelID s) = Some old"
  shows "\<not> mwf (pg_sessions rows') \<and> (\<exists>e. fst (mem_Register now1 now2 s (pg_sessions rows)) = Err e \<and> GetCode e = CodeAlreadyExists)"
proof -
  have ne: "ss_TunnelID s \<noteq> []" using assms(2) by (auto simp: PGSession_Register_def)
  with assms(2) have "\<exists>m. rows' = rows @ [m] \<and> session_row m \<and> sm_TunnelID m = ss_TunnelID s"
    unfolding PGSession_Register_def if_not_P [OF ne]
    by (elim create_row_cases [OF assms(1)]) (auto simp: session_schema_def session_row_def)
  then obtain m where m: "rows' = rows @ [m]" "session_row m" "sm_TunnelID m = ss_TunnelID s" by blast
  have "(ss_TunnelID s, old) \<in> set (pg_sessions rows)" using assms(3) by (rule map_of_SomeD)
  then have "ss_TunnelID s \<in> fst ` set (pg_sessions rows)" by force
  with m have "\<not> mwf (pg_sessions rows')" by (auto simp: mwf_def pg_sessions_def image_iff)
  with ne assms(3) show ?thesis by (simp add: mem_Register_def)
qed

theorem pg_Register_duplicates_witness:
  "\<exists>s' rows'. PGSession_Register (rows_gorm session_schema 0) 5 5 (modelToSession session_row_example) [session_row_example] = (Ok s', rows') \<and>
     \<not> mwf (pg_sessions rows')"
proof -
  have "\<exists>s' rows'. PGSession_Register (rows_gorm session_schema 0) 5 5 (modelToSession session_row_example) [session_row_example] = (Ok s', rows')"
    by (simp add: PGSession_Register_def create_row_def rows_gorm_def session_schema_def modelToSession_def session_row_example_def Let_def)
  moreover have "map_of (pg_sessions [session_row_example]) (ss_TunnelID (modelToSession session_row_example)) = Some (modelToSession session_row_example)"
    by (simp add: pg_sessions_def session_row_def session_row_example_def modelToSession_def)
  ultimately show ?thesis using pg_Register_duplicates [OF rows_gorm_spec] by blast
qed

end
