(* ===== verification/TE_Dashboard.thy ===== *)
theory TE_Dashboard
  imports TE_Pgstore TE_Net TE_Auth
begin

text \<open>
  The services of the dashboard (\<^verbatim>\<open>src/internal/dashboard/service.go\<close>, \<^verbatim>\<open>audit_service.go\<close>) and the JWT functions of
  \<^verbatim>\<open>middleware.go\<close>, over the Postgres repositories the dashboard is built with.

  \<open>dash\<close> holds the rows of the tables, the mails handed to the mail server and the audit events handed to their
  background goroutines. \<open>env\<close> is what a request gets from outside the repository: bcrypt, the JWT library, the mapper
  of each table, the clock and the random source. The i-th reading of the clock and the i-th read of random bytes in a
  request are \<open>e_now e i\<close> and \<open>e_rand e i\<close>; each call site has its own index.
\<close>

unbundle bit_operations_syntax

subsection \<open>State and environment\<close>

type_synonym mail = "string \<times> string \<times> string"
type_synonym metadata = "(string, string) gomap"

record dash =
  d_users :: "UserModel list"
  d_verifications :: "EmailVerificationModel list"
  d_agents :: "AgentProfileModel list"
  d_tokens :: "TokenModel list"
  d_tunnels :: "TunnelDefinitionModel list"
  d_refresh :: "RefreshTokenModel list"
  d_revoked :: "RevokedJTIModel list"
  d_acls :: "TunnelACLModel list"
  d_sessions :: "TunnelSessionModel list"
  d_mails :: "mail list"
  d_audit :: "metadata AuditEvent list"

text \<open>The values of a \<^verbatim>\<open>jwt.MapClaims\<close>, as the program puts them in and as the JSON decoder returns them.\<close>

datatype claim = CUint nat | CInt int | CFloat real | CStr string | CStrs "string list" | COther

type_synonym MapClaims = "(string, claim) gomap"

record env =
  e_gen :: "string \<Rightarrow> string result"
  e_cmp :: "string \<Rightarrow> string \<Rightarrow> bool"
  e_sign :: "string \<Rightarrow> MapClaims \<Rightarrow> string result"
  e_parse :: "string \<Rightarrow> bool \<Rightarrow> time \<Rightarrow> string \<Rightarrow> MapClaims option"
  e_now :: "nat \<Rightarrow> time"
  e_rand :: "nat \<Rightarrow> 8 word list result"
  e_users :: "UserModel gorm"
  e_verifications :: "EmailVerificationModel gorm"
  e_agents :: "AgentProfileModel gorm"
  e_tokens :: "TokenModel gorm"
  e_tunnels :: "TunnelDefinitionModel gorm"
  e_refresh :: "RefreshTokenModel gorm"
  e_revoked :: "RevokedJTIModel gorm"
  e_acls :: "TunnelACLModel gorm"
  e_sessions :: "TunnelSessionModel gorm"

definition orm_spec :: "env \<Rightarrow> bool" where
  "orm_spec e \<longleftrightarrow> gorm_spec user_schema (e_users e) \<and> gorm_spec verification_schema (e_verifications e) \<and>
     gorm_spec agent_schema (e_agents e) \<and> gorm_spec token_schema (e_tokens e) \<and> gorm_spec tunnel_schema (e_tunnels e) \<and>
     gorm_spec refresh_schema (e_refresh e) \<and> gorm_spec revoked_schema (e_revoked e) \<and> gorm_spec acl_schema (e_acls e) \<and>
     gorm_spec session_schema (e_sessions e)"

subsection \<open>Random identifiers and JWTs (middleware.go)\<close>

definition hex_digit :: "nat \<Rightarrow> char" where
  "hex_digit n = ''0123456789abcdef'' ! n"

definition EncodeToString :: "8 word list \<Rightarrow> string" where
  "EncodeToString b = concat (map (\<lambda>x. [hex_digit (unat x div 16), hex_digit (unat x mod 16)]) b)"

text \<open>\<open>b\<close> is the sixteen random bytes; each verb prints the two digits of every byte of its slice.\<close>

definition generateJTI :: "8 word list result \<Rightarrow> string result" where
  "generateJTI r = rbind r (\<lambda>b.
     let b = b[6 := (b ! 6 AND 0x0f) OR 0x40];
         b = b[8 := (b ! 8 AND 0x3f) OR 0x80]
     in Ok (EncodeToString (take 4 b) @ ''-'' @ EncodeToString (take 2 (drop 4 b)) @ ''-'' @
            EncodeToString (take 2 (drop 6 b)) @ ''-'' @ EncodeToString (take 2 (drop 8 b)) @ ''-'' @
            EncodeToString (drop 10 b)))"

record JWTConfig =
  jc_Secret :: string
  jc_TTL :: duration

record GeneratedJWT =
  gj_Token :: string
  gj_JTI :: string
  gj_ExpiresAt :: time

definition jwt_claims :: "nat \<Rightarrow> time \<Rightarrow> time \<Rightarrow> string \<Rightarrow> MapClaims" where
  "jwt_claims userID expiresAt issuedAt jti =
     [(''sub'', CUint userID), (''exp'', CInt (Unix expiresAt)), (''iat'', CInt (Unix issuedAt)), (''jti'', CStr jti),
      (''aud'', CStrs [''tunneledge''])]"

text \<open>\<open>i\<close> is the index of the random read, \<open>j\<close> that of the first of the two clock readings.\<close>

definition GenerateJWT :: "env \<Rightarrow> nat \<Rightarrow> nat \<Rightarrow> JWTConfig \<Rightarrow> nat \<Rightarrow> GeneratedJWT result" where
  "GenerateJWT e i j cfg userID = (case generateJTI (e_rand e i) of
     Ok jti \<Rightarrow>
       (let expiresAt = e_now e j + jc_TTL cfg;
            claims = jwt_claims userID expiresAt (e_now e (j + 1)) jti
        in case e_sign e (jc_Secret cfg) claims of
             Ok token \<Rightarrow> Ok \<lparr> gj_Token = token, gj_JTI = jti, gj_ExpiresAt = expiresAt \<rparr>
           | Err err \<Rightarrow> Err (WrapErr ''failed to sign JWT'' err)
           | Panic \<Rightarrow> Panic)
   | Err err \<Rightarrow> Err (WrapErr ''failed to generate jti'' err)
   | Panic \<Rightarrow> Panic)"

definition parseJWT :: "env \<Rightarrow> time \<Rightarrow> string \<Rightarrow> string \<Rightarrow> MapClaims result" where
  "parseJWT e now secret tokenStr = (case e_parse e secret False now tokenStr of
     None \<Rightarrow> Err (PlainErr ''invalid token'') | Some claims \<Rightarrow> Ok claims)"

text \<open>\<^verbatim>\<open>generateVerificationToken\<close> and \<^verbatim>\<open>generateRawToken\<close> have the same body.\<close>

definition generateVerificationToken :: "8 word list result \<Rightarrow> string result" where
  "generateVerificationToken r = (case r of
     Ok b \<Rightarrow> Ok (EncodeToString b) | Err err \<Rightarrow> Err (WrapErr ''crypto/rand unavailable'' err) | Panic \<Rightarrow> Panic)"

definition generateRawToken :: "8 word list result \<Rightarrow> string result" where
  "generateRawToken r = (case r of
     Ok b \<Rightarrow> Ok (EncodeToString b) | Err err \<Rightarrow> Err (WrapErr ''crypto/rand unavailable'' err) | Panic \<Rightarrow> Panic)"

subsection \<open>AuthService\<close>

text \<open>\<open>as_emailSvc\<close> and \<open>as_refreshTokens\<close> say that the optional collaborators are present.\<close>

record AuthService =
  as_emailSvc :: bool
  as_baseURL :: string
  as_jwtCfg :: JWTConfig
  as_refreshTokens :: bool
  as_refreshTTL :: duration

definition NewAuthService :: "bool \<Rightarrow> string \<Rightarrow> JWTConfig \<Rightarrow> AuthService" where
  "NewAuthService emailSvc baseURL jwtCfg =
     \<lparr> as_emailSvc = emailSvc, as_baseURL = baseURL, as_jwtCfg = jwtCfg, as_refreshTokens = False, as_refreshTTL = 0 \<rparr>"

definition WithRefreshTokens :: "duration \<Rightarrow> AuthService \<Rightarrow> AuthService" where
  "WithRefreshTokens ttl svc = svc\<lparr>as_refreshTokens := True, as_refreshTTL := ttl\<rparr>"

record RegisterInput =
  ri_Email :: string
  ri_Password :: string
  ri_Name :: string

record LoginOutput =
  lo_Token :: string
  lo_JTI :: string
  lo_ExpiresAt :: time
  lo_RefreshJTI :: string
  lo_RefreshExpiresAt :: time

definition sendVerification :: "AuthService \<Rightarrow> string \<Rightarrow> string \<Rightarrow> string \<Rightarrow> dash \<Rightarrow> dash" where
  "sendVerification svc emailAddr name verifyURL d =
     (if as_emailSvc svc then d\<lparr>d_mails := d_mails d @ [(emailAddr, name, verifyURL)]\<rparr> else d)"

definition day :: duration where
  "day = 24 * 3600 * 1000000000"

definition issue_verification :: "env \<Rightarrow> AuthService \<Rightarrow> User \<Rightarrow> string \<Rightarrow> dash \<Rightarrow> unit result \<times> dash" where
  "issue_verification e svc user token d =
     (case PGVerification_Create (e_verifications e)
        \<lparr> ve_ID = 0, ve_UserID = us_ID user, ve_Token = token, ve_ExpiresAt = e_now e 0 + day, ve_CreatedAt = zero_time \<rparr>
        (d_verifications d) of
        (Ok v, rows) \<Rightarrow> (Ok (), d\<lparr>d_verifications := rows\<rparr>)
      | (Err err, rows) \<Rightarrow> (Err err, d\<lparr>d_verifications := rows\<rparr>)
      | (Panic, rows) \<Rightarrow> (Panic, d\<lparr>d_verifications := rows\<rparr>))"

definition verify_url :: "AuthService \<Rightarrow> string \<Rightarrow> string" where
  "verify_url svc token = as_baseURL svc @ ''/verify?token='' @ token"

definition Auth_Register :: "env \<Rightarrow> AuthService \<Rightarrow> RegisterInput \<Rightarrow> dash \<Rightarrow> string result \<times> dash" where
  "Auth_Register e svc inp d = (case ValidateEmail (ri_Email inp) of
     Err err \<Rightarrow> (Err err, d)
   | Panic \<Rightarrow> (Panic, d)
   | Ok _ \<Rightarrow>
     if length (ri_Password inp) < 8 then (Err (New CodeInvalidArg ''password must be at least 8 characters''), d)
     else if ri_Name inp = [] then (Err (New CodeInvalidArg ''name is required''), d)
     else case e_gen e (ri_Password inp) of
       Err err \<Rightarrow> (Err (WrapErr ''failed to hash password'' err), d)
     | Panic \<Rightarrow> (Panic, d)
     | Ok hash \<Rightarrow>
       (case PGUser_Create (e_users e)
          \<lparr> us_ID = 0, us_Email = ri_Email inp, us_PasswordHash = hash, us_Name = ri_Name inp, us_EmailVerified = False,
            us_CreatedAt = zero_time, us_UpdatedAt = zero_time \<rparr> (d_users d) of
          (Err err, rows) \<Rightarrow> (Err (Wrap CodeAlreadyExists ''user already exists'' err), d\<lparr>d_users := rows\<rparr>)
        | (Panic, rows) \<Rightarrow> (Panic, d\<lparr>d_users := rows\<rparr>)
        | (Ok user, rows) \<Rightarrow>
          (let d = d\<lparr>d_users := rows\<rparr> in
           case generateVerificationToken (e_rand e 0) of
             Err err \<Rightarrow> (Err (WrapErr ''failed to generate verification token'' err), d)
           | Panic \<Rightarrow> (Panic, d)
           | Ok token \<Rightarrow>
             (case issue_verification e svc user token d of
                (Err err, d) \<Rightarrow> (Err (WrapErr ''failed to create email verification'' err), d)
              | (Panic, d) \<Rightarrow> (Panic, d)
              | (Ok _, d) \<Rightarrow>
                (Ok ''registration successful, please check your email to verify your account'',
                 sendVerification svc (us_Email user) (us_Name user) (verify_url svc token) d)))))"

text \<open>The refresh token of a login; a failure to create one leaves the login without it.\<close>

definition issue_refresh :: "env \<Rightarrow> AuthService \<Rightarrow> nat \<Rightarrow> LoginOutput \<Rightarrow> dash \<Rightarrow> LoginOutput \<times> dash" where
  "issue_refresh e svc userID out d =
     (if as_refreshTokens svc \<and> as_refreshTTL svc > 0 then
        case generateVerificationToken (e_rand e 1) of
          Ok refreshJTI \<Rightarrow>
            (let expiresAt = e_now e 2 + as_refreshTTL svc in
             case PGRefresh_Create (e_refresh e)
               \<lparr> rf_JTI = refreshJTI, rf_UserID = userID, rf_ExpiresAt = expiresAt, rf_RevokedAt = None, rf_CreatedAt = zero_time \<rparr>
               (d_refresh d) of
               (Ok _, rows) \<Rightarrow> (out\<lparr>lo_RefreshJTI := refreshJTI, lo_RefreshExpiresAt := expiresAt\<rparr>, d\<lparr>d_refresh := rows\<rparr>)
             | (_, rows) \<Rightarrow> (out, d\<lparr>d_refresh := rows\<rparr>))
        | _ \<Rightarrow> (out, d)
      else (out, d))"

definition login_output :: "GeneratedJWT \<Rightarrow> LoginOutput" where
  "login_output generated =
     \<lparr> lo_Token = gj_Token generated, lo_JTI = gj_JTI generated, lo_ExpiresAt = gj_ExpiresAt generated,
       lo_RefreshJTI = [], lo_RefreshExpiresAt = zero_time \<rparr>"

definition Auth_Login :: "env \<Rightarrow> AuthService \<Rightarrow> string \<Rightarrow> string \<Rightarrow> dash \<Rightarrow> LoginOutput result \<times> dash" where
  "Auth_Login e svc email password d =
     (if email = [] \<or> password = [] then (Err (New CodeInvalidArg ''email and password are required''), d)
      else case PGUser_GetByEmail (e_users e) email (d_users d) of
        Err err \<Rightarrow> (Err (New CodeUnauthorized ''invalid credentials''), d)
      | Panic \<Rightarrow> (Panic, d)
      | Ok user \<Rightarrow>
        if \<not> e_cmp e (us_PasswordHash user) password then (Err (New CodeUnauthorized ''invalid credentials''), d)
        else if \<not> us_EmailVerified user then (Err (New CodeForbidden ''please verify your email before logging in''), d)
        else case GenerateJWT e 0 0 (as_jwtCfg svc) (us_ID user) of
          Err err \<Rightarrow> (Err (WrapErr ''failed to generate token'' err), d)
        | Panic \<Rightarrow> (Panic, d)
        | Ok generated \<Rightarrow>
          (case issue_refresh e svc (us_ID user) (login_output generated) d of (out, d) \<Rightarrow> (Ok out, d)))"

text \<open>The four results of \<^verbatim>\<open>VerifyEmail\<close> are the user, the token, its expiry and the error; the first three come together
  when there is no error.\<close>

definition Auth_VerifyEmail :: "env \<Rightarrow> AuthService \<Rightarrow> string \<Rightarrow> dash \<Rightarrow> (nat \<times> string \<times> time) result \<times> dash" where
  "Auth_VerifyEmail e svc token d =
     (if token = [] then (Err (New CodeInvalidArg ''missing verification token''), d)
      else case PGVerification_GetByToken (e_verifications e) token (d_verifications d) of
        Err err \<Rightarrow> (Err (New CodeInvalidArg ''invalid or expired verification token''), d)
      | Panic \<Rightarrow> (Panic, d)
      | Ok v \<Rightarrow>
        if e_now e 0 > ve_ExpiresAt v then (Err (New CodeInvalidArg ''verification token has expired''), d)
        else case PGUser_GetByID (e_users e) (ve_UserID v) (d_users d) of
          Err err \<Rightarrow> (Err (WrapErr ''user not found'' err), d)
        | Panic \<Rightarrow> (Panic, d)
        | Ok user \<Rightarrow>
          (case PGUser_Update (e_users e) (user\<lparr>us_EmailVerified := True\<rparr>) (d_users d) of
             (Err err, rows) \<Rightarrow> (Err (WrapErr ''failed to verify email'' err), d\<lparr>d_users := rows\<rparr>)
           | (Panic, rows) \<Rightarrow> (Panic, d\<lparr>d_users := rows\<rparr>)
           | (Ok _, rows) \<Rightarrow>
             (let d = d\<lparr>d_users := rows,
                  d_verifications := snd (PGVerification_DeleteByUserID (e_verifications e) (ve_UserID v) (d_verifications d))\<rparr>
              in case GenerateJWT e 0 1 (as_jwtCfg svc) (us_ID user) of
                   Ok generated \<Rightarrow> (Ok (us_ID user, gj_Token generated, gj_ExpiresAt generated), d)
                 | Err err \<Rightarrow> (Ok (us_ID user, [], zero_time), d)
                 | Panic \<Rightarrow> (Panic, d))))"

definition Auth_ResendVerification :: "env \<Rightarrow> AuthService \<Rightarrow> string \<Rightarrow> dash \<Rightarrow> dash" where
  "Auth_ResendVerification e svc emailAddr d = (case PGUser_GetByEmail (e_users e) emailAddr (d_users d) of
     Ok user \<Rightarrow>
       if us_EmailVerified user then d
       else (let d = d\<lparr>d_verifications := snd (PGVerification_DeleteByUserID (e_verifications e) (us_ID user) (d_verifications d))\<rparr>
         in case generateVerificationToken (e_rand e 0) of
              Ok token \<Rightarrow>
                sendVerification svc (us_Email user) (us_Name user) (verify_url svc token) (snd (issue_verification e svc user token d))
            | _ \<Rightarrow> d)
   | _ \<Rightarrow> d)"

definition Auth_RefreshAccessToken :: "env \<Rightarrow> AuthService \<Rightarrow> string \<Rightarrow> dash \<Rightarrow> LoginOutput result" where
  "Auth_RefreshAccessToken e svc refreshJTI d =
     (if \<not> as_refreshTokens svc then Err (New CodeForbidden ''refresh tokens are not enabled'')
      else case PGRefresh_GetByJTI (e_refresh e) refreshJTI (d_refresh d) of
        Err err \<Rightarrow> Err (New CodeUnauthorized ''invalid refresh token'')
      | Panic \<Rightarrow> Panic
      | Ok rt \<Rightarrow>
        if rf_RevokedAt rt \<noteq> None then Err (New CodeUnauthorized ''refresh token has been revoked'')
        else if rf_ExpiresAt rt < e_now e 0 then Err (New CodeUnauthorized ''refresh token has expired'')
        else case GenerateJWT e 0 1 (as_jwtCfg svc) (rf_UserID rt) of
          Err err \<Rightarrow> Err (WrapErr ''failed to generate access token'' err)
        | Panic \<Rightarrow> Panic
        | Ok generated \<Rightarrow> Ok (login_output generated))"

text \<open>\<open>revokedRepo\<close> says that the revocation store is present.\<close>

definition Auth_RevokeSession :: "env \<Rightarrow> AuthService \<Rightarrow> string \<Rightarrow> time \<Rightarrow> string \<Rightarrow> bool \<Rightarrow> dash \<Rightarrow> dash" where
  "Auth_RevokeSession e svc jti jtiExpiresAt refreshJTI revokedRepo d =
     (let d = (if revokedRepo \<and> jti \<noteq> []
               then d\<lparr>d_revoked := snd (PGRevoked_Revoke (e_revoked e) jti jtiExpiresAt (d_revoked d))\<rparr> else d)
      in if as_refreshTokens svc \<and> refreshJTI \<noteq> []
         then d\<lparr>d_refresh := snd (PGRefresh_Revoke (e_refresh e) (e_now e 1) refreshJTI (d_refresh d))\<rparr> else d)"

definition Auth_Me :: "env \<Rightarrow> nat \<Rightarrow> dash \<Rightarrow> User result" where
  "Auth_Me e userID d = PGUser_GetByID (e_users e) userID (d_users d)"

subsection \<open>AgentService\<close>

text \<open>The service's three repositories are tables of \<open>dash\<close>.\<close>

record CreateAgentOutput =
  co_Agent :: AgentProfile
  co_RawToken :: string

record RotateTokenOutput =
  ro_AgentID :: string
  ro_RawToken :: string

definition Agent_Create :: "env \<Rightarrow> nat \<Rightarrow> string \<Rightarrow> string \<Rightarrow> dash \<Rightarrow> CreateAgentOutput result \<times> dash" where
  "Agent_Create e userID name agentID d = (case ValidateLabel agentID of
     Err err \<Rightarrow> (Err err, d)
   | Panic \<Rightarrow> (Panic, d)
   | Ok _ \<Rightarrow>
     (case generateRawToken (e_rand e 0) of
        Err err \<Rightarrow> (Err (WrapErr ''failed to generate token'' err), d)
      | Panic \<Rightarrow> (Panic, d)
      | Ok rawToken \<Rightarrow>
        (case e_gen e rawToken of
           Err err \<Rightarrow> (Err (WrapErr ''failed to generate token'' err), d)
         | Panic \<Rightarrow> (Panic, d)
         | Ok hash \<Rightarrow>
           (case PGAgent_Create (e_agents e)
              \<lparr> ap_ID = 0, ap_UserID = userID, ap_Name = name, ap_AgentID = agentID, ap_TokenHash = hash, ap_Scopes = [],
                ap_TokenExpiresAt = None, ap_LastUsedAt = None, ap_FailedAuthCount = 0, ap_LockedUntil = None,
                ap_CreatedAt = zero_time, ap_UpdatedAt = zero_time \<rparr> (d_agents d) of
              (Err err, rows) \<Rightarrow> (Err (Wrap CodeAlreadyExists ''agent_id already exists'' err), d\<lparr>d_agents := rows\<rparr>)
            | (Panic, rows) \<Rightarrow> (Panic, d\<lparr>d_agents := rows\<rparr>)
            | (Ok agent, rows) \<Rightarrow>
              (case PGToken_Create (e_tokens e) agentID hash (d_tokens d) of
                 (Err err, toks) \<Rightarrow> (Err (WrapErr ''failed to store token'' err), d\<lparr>d_agents := rows, d_tokens := toks\<rparr>)
               | (Panic, toks) \<Rightarrow> (Panic, d\<lparr>d_agents := rows, d_tokens := toks\<rparr>)
               | (Ok _, toks) \<Rightarrow>
                 (Ok \<lparr> co_Agent = agent, co_RawToken = rawToken \<rparr>, d\<lparr>d_agents := rows, d_tokens := toks\<rparr>))))))"

definition Agent_List :: "env \<Rightarrow> nat \<Rightarrow> dash \<Rightarrow> AgentProfile list result" where
  "Agent_List e userID d = PGAgent_ListByUserID (e_agents e) userID (d_agents d)"

definition Agent_Get :: "env \<Rightarrow> nat \<Rightarrow> nat \<Rightarrow> dash \<Rightarrow> AgentProfile result" where
  "Agent_Get e userID agentID d = (case PGAgent_GetByID (e_agents e) agentID (d_agents d) of
     Err err \<Rightarrow> Err (New CodeNotFound ''agent not found'')
   | Panic \<Rightarrow> Panic
   | Ok agent \<Rightarrow> if ap_UserID agent \<noteq> userID then Err (New CodeForbidden ''access denied'') else Ok agent)"

definition Agent_Update :: "env \<Rightarrow> nat \<Rightarrow> nat \<Rightarrow> string \<Rightarrow> dash \<Rightarrow> AgentProfile result \<times> dash" where
  "Agent_Update e userID agentID name d = (case Agent_Get e userID agentID d of
     Err err \<Rightarrow> (Err err, d)
   | Panic \<Rightarrow> (Panic, d)
   | Ok agent \<Rightarrow>
     (let agent = agent\<lparr>ap_Name := name\<rparr> in
      case PGAgent_Update (e_agents e) agent (d_agents d) of
        (Err err, rows) \<Rightarrow> (Err (WrapErr ''failed to update agent'' err), d\<lparr>d_agents := rows\<rparr>)
      | (Panic, rows) \<Rightarrow> (Panic, d\<lparr>d_agents := rows\<rparr>)
      | (Ok _, rows) \<Rightarrow> (Ok agent, d\<lparr>d_agents := rows\<rparr>)))"

definition Agent_Delete :: "env \<Rightarrow> nat \<Rightarrow> nat \<Rightarrow> dash \<Rightarrow> unit result \<times> dash" where
  "Agent_Delete e userID agentID d = (case Agent_Get e userID agentID d of
     Err err \<Rightarrow> (Err err, d)
   | Panic \<Rightarrow> (Panic, d)
   | Ok agent \<Rightarrow> (case PGAgent_Delete (e_agents e) agentID (d_agents d) of (r, rows) \<Rightarrow> (r, d\<lparr>d_agents := rows\<rparr>)))"

definition Agent_RotateToken :: "env \<Rightarrow> nat \<Rightarrow> nat \<Rightarrow> dash \<Rightarrow> RotateTokenOutput result \<times> dash" where
  "Agent_RotateToken e userID agentID d = (case Agent_Get e userID agentID d of
     Err err \<Rightarrow> (Err err, d)
   | Panic \<Rightarrow> (Panic, d)
   | Ok agent \<Rightarrow>
     (case generateRawToken (e_rand e 0) of
        Err err \<Rightarrow> (Err (WrapErr ''failed to generate token'' err), d)
      | Panic \<Rightarrow> (Panic, d)
      | Ok rawToken \<Rightarrow>
        (case e_gen e rawToken of
           Err err \<Rightarrow> (Err (WrapErr ''failed to generate token'' err), d)
         | Panic \<Rightarrow> (Panic, d)
         | Ok hash \<Rightarrow>
           (case PGAgent_Update (e_agents e) (agent\<lparr>ap_TokenHash := hash\<rparr>) (d_agents d) of
              (Err err, rows) \<Rightarrow> (Err (WrapErr ''failed to update agent token'' err), d\<lparr>d_agents := rows\<rparr>)
            | (Panic, rows) \<Rightarrow> (Panic, d\<lparr>d_agents := rows\<rparr>)
            | (Ok _, rows) \<Rightarrow>
              (let toks = snd (PGToken_Delete (e_tokens e) (ap_AgentID agent) (d_tokens d)) in
               case PGToken_Create (e_tokens e) (ap_AgentID agent) hash toks of
                 (Err err, toks) \<Rightarrow> (Err (WrapErr ''failed to store rotated token'' err), d\<lparr>d_agents := rows, d_tokens := toks\<rparr>)
               | (Panic, toks) \<Rightarrow> (Panic, d\<lparr>d_agents := rows, d_tokens := toks\<rparr>)
               | (Ok _, toks) \<Rightarrow>
                 (Ok \<lparr> ro_AgentID = ap_AgentID agent, ro_RawToken = rawToken \<rparr>, d\<lparr>d_agents := rows, d_tokens := toks\<rparr>))))))"

subsection \<open>TunnelService\<close>

text \<open>The ownership check that opens every method of the service.\<close>

definition Tunnel_agent :: "env \<Rightarrow> nat \<Rightarrow> nat \<Rightarrow> dash \<Rightarrow> AgentProfile result" where
  "Tunnel_agent e userID agentID d = (case PGAgent_GetByID (e_agents e) agentID (d_agents d) of
     Err err \<Rightarrow> Err (New CodeNotFound ''agent not found'')
   | Panic \<Rightarrow> Panic
   | Ok agent \<Rightarrow> if ap_UserID agent \<noteq> userID then Err (New CodeForbidden ''access denied'') else Ok agent)"

definition Tunnel_Create ::
  "env \<Rightarrow> nat \<Rightarrow> nat \<Rightarrow> string \<Rightarrow> string \<Rightarrow> string \<Rightarrow> dash \<Rightarrow> DomainTunnelConfig result \<times> dash" where
  "Tunnel_Create e userID agentID label localAddr tunnelType d =
     (case rbind (Tunnel_agent e userID agentID d) (\<lambda>_. rbind (ValidateLabel label) (\<lambda>_. ValidateLocalAddr localAddr)) of
        Err err \<Rightarrow> (Err err, d)
      | Panic \<Rightarrow> (Panic, d)
      | Ok _ \<Rightarrow>
        (let tunnelType = (if tunnelType = [] then ''tcp'' else tunnelType) in
         case PGTunnel_Create (e_tunnels e)
           \<lparr> tc_ID = 0, tc_AgentProfileID = agentID, tc_Label = label, tc_LocalAddr = localAddr, tc_TunnelType = tunnelType,
             tc_CreatedAt = zero_time, tc_UpdatedAt = zero_time \<rparr> (d_tunnels d) of
           (Err err, rows) \<Rightarrow> (Err (WrapErr ''failed to create tunnel'' err), d\<lparr>d_tunnels := rows\<rparr>)
         | (Panic, rows) \<Rightarrow> (Panic, d\<lparr>d_tunnels := rows\<rparr>)
         | (Ok t, rows) \<Rightarrow> (Ok t, d\<lparr>d_tunnels := rows\<rparr>)))"

definition Tunnel_List :: "env \<Rightarrow> nat \<Rightarrow> nat \<Rightarrow> dash \<Rightarrow> DomainTunnelConfig list result" where
  "Tunnel_List e userID agentID d =
     rbind (Tunnel_agent e userID agentID d) (\<lambda>_. PGTunnel_ListByAgentProfileID (e_tunnels e) agentID (d_tunnels d))"

definition Tunnel_Get :: "env \<Rightarrow> nat \<Rightarrow> nat \<Rightarrow> nat \<Rightarrow> dash \<Rightarrow> DomainTunnelConfig result" where
  "Tunnel_Get e userID agentID tunnelID d = rbind (Tunnel_agent e userID agentID d) (\<lambda>_.
     case PGTunnel_GetByID (e_tunnels e) tunnelID (d_tunnels d) of
       Err err \<Rightarrow> Err (New CodeNotFound ''tunnel not found'')
     | Panic \<Rightarrow> Panic
     | Ok t \<Rightarrow> if tc_AgentProfileID t \<noteq> agentID then Err (New CodeForbidden ''access denied'') else Ok t)"

definition tunnel_changes :: "string \<Rightarrow> string \<Rightarrow> string \<Rightarrow> DomainTunnelConfig \<Rightarrow> DomainTunnelConfig result" where
  "tunnel_changes label localAddr tunnelType t =
     rbind (if label \<noteq> [] then rbind (ValidateLabel label) (\<lambda>_. Ok (t\<lparr>tc_Label := label\<rparr>)) else Ok t) (\<lambda>t.
     rbind (if localAddr \<noteq> [] then rbind (ValidateLocalAddr localAddr) (\<lambda>_. Ok (t\<lparr>tc_LocalAddr := localAddr\<rparr>)) else Ok t) (\<lambda>t.
     Ok (if tunnelType \<noteq> [] then t\<lparr>tc_TunnelType := tunnelType\<rparr> else t)))"

definition Tunnel_Update ::
  "env \<Rightarrow> nat \<Rightarrow> nat \<Rightarrow> nat \<Rightarrow> string \<Rightarrow> string \<Rightarrow> string \<Rightarrow> dash \<Rightarrow> DomainTunnelConfig result \<times> dash" where
  "Tunnel_Update e userID agentID tunnelID label localAddr tunnelType d =
     (case rbind (Tunnel_Get e userID agentID tunnelID d) (tunnel_changes label localAddr tunnelType) of
        Err err \<Rightarrow> (Err err, d)
      | Panic \<Rightarrow> (Panic, d)
      | Ok t \<Rightarrow>
        (case PGTunnel_Update (e_tunnels e) t (d_tunnels d) of
           (Err err, rows) \<Rightarrow> (Err (WrapErr ''failed to update tunnel'' err), d\<lparr>d_tunnels := rows\<rparr>)
         | (Panic, rows) \<Rightarrow> (Panic, d\<lparr>d_tunnels := rows\<rparr>)
         | (Ok _, rows) \<Rightarrow> (Ok t, d\<lparr>d_tunnels := rows\<rparr>)))"

definition Tunnel_Delete :: "env \<Rightarrow> nat \<Rightarrow> nat \<Rightarrow> nat \<Rightarrow> dash \<Rightarrow> unit result \<times> dash" where
  "Tunnel_Delete e userID agentID tunnelID d = (case Tunnel_Get e userID agentID tunnelID d of
     Err err \<Rightarrow> (Err err, d)
   | Panic \<Rightarrow> (Panic, d)
   | Ok t \<Rightarrow> (case PGTunnel_Delete (e_tunnels e) tunnelID (d_tunnels d) of (r, rows) \<Rightarrow> (r, d\<lparr>d_tunnels := rows\<rparr>)))"

subsection \<open>AuditService (audit\_service.go)\<close>

text \<open>\<open>repo\<close> says that the service and its repository are present. The write runs in a goroutine of its own: the event
  is handed over here.\<close>

definition Audit_Log :: "bool \<Rightarrow> time \<Rightarrow> string \<Rightarrow> string \<Rightarrow> string \<Rightarrow> string \<Rightarrow> metadata option \<Rightarrow> dash \<Rightarrow> dash" where
  "Audit_Log repo now eventType actorID targetID ipAddress metadata d =
     (if \<not> repo then d
      else d\<lparr>d_audit := d_audit d @
        [\<lparr> ae_ID = 0, ae_EventType = eventType, ae_ActorType = [], ae_ActorID = actorID, ae_TargetType = [],
           ae_TargetID = targetID, ae_IPAddress = ipAddress, ae_UserAgent = [], ae_Metadata = metadata,
           ae_CreatedAt = now \<rparr>]\<rparr>)"

end
