(* ===== verification/TE_Http.thy ===== *)
theory TE_Http
  imports TE_Dashboard TE_Router
begin

text \<open>
  The HTTP layer of the dashboard: the error mapping of \<^verbatim>\<open>errors.go\<close>, the middleware of \<^verbatim>\<open>middleware.go\<close>, the handlers
  \<^verbatim>\<open>auth_handler.go\<close>, \<^verbatim>\<open>agent_handler.go\<close>, \<^verbatim>\<open>tunnel_handler.go\<close>, \<^verbatim>\<open>acl_handler.go\<close>, \<^verbatim>\<open>status_handler.go\<close>,
  \<^verbatim>\<open>sse_handler.go\<close> and \<^verbatim>\<open>audit_handler.go\<close>, and the routes of \<^verbatim>\<open>server.go\<close>.

  A handler takes the request and the state and returns a response and the new state. \<open>'b option\<close> is the value
  \<^verbatim>\<open>json.NewDecoder(r.Body).Decode\<close> stores, \<open>None\<close> its error. Logging, tracing, metrics and the rendering of HTML pages are
  left out: they change neither the state nor the answer of the API.
\<close>

subsection \<open>Requests and responses\<close>

datatype body = BadJSON
  | RegisterRequest string string string
  | LoginRequest string string
  | ResendRequest string
  | CreateAgentRequest string string
  | UpdateAgentRequest string
  | TunnelRequest string string string
  | CreateTunnelACLRequest string string

record request =
  rq_Method :: string
  rq_Path :: string
  rq_Query :: "string \<Rightarrow> string"
  rq_Header :: "string \<Rightarrow> string"
  rq_Cookie :: "string \<Rightarrow> string option"
  rq_RemoteAddr :: string
  rq_Body :: body

record AgentResponse =
  re_ID :: nat
  re_Name :: string
  re_AgentID :: string
  re_CreatedAt :: time
  re_UpdatedAt :: time
  re_TokenExpiresAt :: "time option"
  re_LastUsedAt :: "time option"
  re_FailedAuthCount :: int
  re_LockedUntil :: "time option"

record TunnelResponse =
  rt_ID :: nat
  rtr_Label :: string
  rtr_LocalAddr :: string
  rtr_TunnelType :: string
  rt_CreatedAt :: time
  rt_UpdatedAt :: time

record SessionResponse =
  rs_TunnelID :: string
  rs_AgentID :: string
  rs_PublicAddr :: string
  rs_LocalAddr :: string
  rs_CreatedAt :: int
  rs_LastHeartbeat :: int

record sseStatsPayload =
  st_Agents :: int
  st_Online :: int
  st_Tunnels :: int
  st_Sessions :: int

text \<open>What the encoder writes; \<open>ErrorOf err\<close> is an \<^verbatim>\<open>APIError\<close> whose message is \<^verbatim>\<open>err.Error()\<close>.\<close>

datatype payload = NoContent
  | ErrorText string
  | ErrorOf goerror
  | Message string
  | AuthResponse string int
  | UserResponse nat string string time
  | AgentTokenResponse string string
  | AgentBody AgentResponse
  | AgentList "AgentResponse list"
  | TunnelBody TunnelResponse
  | TunnelList "TunnelResponse list"
  | ACLBody TunnelACL
  | ACLList "TunnelACL list"
  | SessionBody SessionResponse
  | SessionList "SessionResponse list"
  | Status string
  | Events sseStatsPayload "SessionResponse list"
  | AuditList "metadata AuditEvent list"

text \<open>A cookie the response sets: its name, value and path; an empty value with a negative age clears it.\<close>

record response =
  rp_Status :: nat
  rp_Payload :: payload
  rp_Cookies :: "(string \<times> string \<times> string) list"
  rp_Location :: string
  rp_Headers :: "(string \<times> int) list"

definition writeJSON :: "nat \<Rightarrow> payload \<Rightarrow> response" where
  "writeJSON status data = \<lparr> rp_Status = status, rp_Payload = data, rp_Cookies = [], rp_Location = [], rp_Headers = [] \<rparr>"

definition writeError :: "nat \<Rightarrow> string \<Rightarrow> response" where
  "writeError status message = writeJSON status (ErrorText message)"

definition Redirect :: "string \<Rightarrow> response" where
  "Redirect url = \<lparr> rp_Status = 303, rp_Payload = NoContent, rp_Cookies = [], rp_Location = url, rp_Headers = [] \<rparr>"

definition SetCookie :: "string \<Rightarrow> string \<Rightarrow> string \<Rightarrow> response \<Rightarrow> response" where
  "SetCookie name v path r = r\<lparr>rp_Cookies := (name, v, path) # rp_Cookies r\<rparr>"

subsection \<open>Errors (errors.go)\<close>

definition writeServiceError :: "goerror \<Rightarrow> response" where
  "writeServiceError err = (case GetCode err of
     CodeInvalidArg \<Rightarrow> writeJSON 400 (ErrorOf err)
   | CodeUnauthorized \<Rightarrow> writeJSON 401 (ErrorOf err)
   | CodeForbidden \<Rightarrow> writeJSON 403 (ErrorOf err)
   | CodeNotFound \<Rightarrow> writeJSON 404 (ErrorOf err)
   | CodeAlreadyExists \<Rightarrow> writeJSON 409 (ErrorOf err)
   | _ \<Rightarrow> writeError 500 ''internal server error'')"

text \<open>A handler that panics answers nothing; the HTTP server of the standard library recovers and closes the connection.\<close>

definition aborted :: response where
  "aborted = \<lparr> rp_Status = 0, rp_Payload = NoContent, rp_Cookies = [], rp_Location = [], rp_Headers = [] \<rparr>"

definition respond :: "('a \<Rightarrow> response) \<Rightarrow> 'a result \<times> dash \<Rightarrow> response \<times> dash" where
  "respond ok res = (case res of
     (Ok a, d) \<Rightarrow> (ok a, d) | (Err err, d) \<Rightarrow> (writeServiceError err, d) | (Panic, d) \<Rightarrow> (aborted, d))"

subsection \<open>Rate limits (middleware.go)\<close>

text \<open>\<open>fresh rpm\<close> is a new \<^verbatim>\<open>rate.Limiter\<close> for that many requests per minute and \<open>allow\<close> its \<^verbatim>\<open>Allow\<close>.\<close>

definition getLimiter :: "'l \<Rightarrow> string \<Rightarrow> (string, 'l) gomap \<Rightarrow> 'l \<times> (string, 'l) gomap" where
  "getLimiter fresh ip visitors = (case map_of visitors ip of
     Some l \<Rightarrow> (l, visitors) | None \<Rightarrow> (fresh, mput ip fresh visitors))"

definition extractClientIP :: "request \<Rightarrow> string" where
  "extractClientIP r =
     (let xff = rq_Header r ''X-Forwarded-For''; xri = rq_Header r ''X-Real-IP'' in
      if xff \<noteq> [] then (case IndexByte xff (CHR '','') of Some idx \<Rightarrow> TrimSpace (take idx xff) | None \<Rightarrow> TrimSpace xff)
      else if xri \<noteq> [] then TrimSpace xri
      else case SplitHostPort (rq_RemoteAddr r) of None \<Rightarrow> rq_RemoteAddr r | Some (ip, port) \<Rightarrow> ip)"

definition effective_rpm :: "int \<Rightarrow> int" where
  "effective_rpm rpm = (if rpm \<le> 0 then 5 else rpm)"

text \<open>\<open>reserve now l\<close> is \<^verbatim>\<open>Reserve\<close> followed by \<^verbatim>\<open>Cancel\<close>: the delay in whole seconds and the limiter afterwards.\<close>

definition NewRateLimitMiddleware ::
  "int \<Rightarrow> (int \<Rightarrow> 'l) \<Rightarrow> (time \<Rightarrow> 'l \<Rightarrow> bool \<times> 'l) \<Rightarrow> (time \<Rightarrow> 'l \<Rightarrow> int \<times> 'l) \<Rightarrow> time \<Rightarrow> (dash \<Rightarrow> response \<times> dash) \<Rightarrow>
     request \<Rightarrow> dash \<Rightarrow> (string, 'l) gomap \<Rightarrow> response \<times> dash \<times> (string, 'l) gomap" where
  "NewRateLimitMiddleware rpm fresh allow reserve now next r d visitors =
     (let rpm = effective_rpm rpm; ip = extractClientIP r in
      case getLimiter (fresh rpm) ip visitors of (l, visitors) \<Rightarrow>
      case allow now l of (ok, l) \<Rightarrow>
        if \<not> ok then
          (case reserve now l of (seconds, l) \<Rightarrow>
            ((writeError 429 ''rate limit exceeded'')\<lparr>rp_Headers :=
               [(''X-RateLimit-Limit'', rpm), (''Retry-After'', seconds + 1), (''X-RateLimit-Remaining'', 0)]\<rparr>,
             d, mput ip l visitors))
        else (case next d of (resp, d) \<Rightarrow>
          (resp\<lparr>rp_Headers := (''X-RateLimit-Limit'', rpm) # rp_Headers resp\<rparr>, d, mput ip l visitors)))"

subsection \<open>Authentication middleware (middleware.go)\<close>

record reqctx =
  cx_userID :: "nat option"
  cx_jti :: string

text \<open>\<^verbatim>\<open>strings.SplitN(h, " ", 2)\<close> gives two parts when there is a space; \<^verbatim>\<open>strings.EqualFold\<close> against an ASCII word.\<close>

definition to_lower :: "char \<Rightarrow> char" where
  "to_lower c = (let n = of_char c :: nat in if 65 \<le> n \<and> n \<le> 90 then char_of (n + 32) else c)"

definition bearer_token :: "request \<Rightarrow> string" where
  "bearer_token r =
     (case Cut (rq_Header r ''Authorization'') (CHR '' '') of (scheme, rest, found) \<Rightarrow>
        if found \<and> map to_lower scheme = ''bearer'' then rest else [])"

definition request_token :: "request \<Rightarrow> string" where
  "request_token r =
     (let tokenStr = bearer_token r in
      if tokenStr = [] then (case rq_Cookie r ''session'' of Some v \<Rightarrow> v | None \<Rightarrow> []) else tokenStr)"

fun substring_at :: "string \<Rightarrow> string \<Rightarrow> bool" where
  "substring_at p [] \<longleftrightarrow> p = []"
| "substring_at p (c # s) \<longleftrightarrow> take (length p) (c # s) = p \<or> substring_at p s"

text \<open>\<^verbatim>\<open>uint(subFloat)\<close> of a non-negative number truncates.\<close>

definition uint_of_float :: "real \<Rightarrow> nat" where
  "uint_of_float x = nat \<lfloor>x\<rfloor>"

text \<open>The middleware either answers the request itself or passes it on with the user and the JTI in its context.
  \<open>revokedRepo\<close> says that a revocation store is configured.\<close>

definition JWTAuthMiddleware :: "env \<Rightarrow> string \<Rightarrow> bool \<Rightarrow> request \<Rightarrow> dash \<Rightarrow> response + reqctx" where
  "JWTAuthMiddleware e secret revokedRepo r d =
     (let tokenStr = request_token r in
      if tokenStr = [] then
        Inl (if substring_at ''text/html'' (rq_Header r ''Accept'') then Redirect ''/login''
             else writeError 401 ''missing authorization'')
      else case e_parse e secret True (e_now e 0) tokenStr of
        None \<Rightarrow> Inl (writeError 401 ''invalid or expired token'')
      | Some claims \<Rightarrow>
        (let jti = (case map_of claims ''jti'' of Some (CStr v) \<Rightarrow> v | _ \<Rightarrow> []);
             revoked = (if jti \<noteq> [] \<and> revokedRepo then PGRevoked_IsRevoked (e_revoked e) jti (d_revoked d) else (False, None))
         in if snd revoked \<noteq> None then Inl (writeError 401 ''authorization check failed'')
            else if fst revoked then Inl (writeError 401 ''token has been revoked'')
            else case map_of claims ''sub'' of
              Some (CFloat sub) \<Rightarrow> Inr \<lparr> cx_userID = Some (uint_of_float sub), cx_jti = jti \<rparr>
            | _ \<Rightarrow> Inl (writeError 401 ''invalid token subject'')))"

text \<open>Every handler behind the middleware first asks for the user.\<close>

definition with_user :: "reqctx \<Rightarrow> dash \<Rightarrow> (nat \<Rightarrow> response \<times> dash) \<Rightarrow> response \<times> dash" where
  "with_user ctx d h = (case cx_userID ctx of None \<Rightarrow> (writeError 401 ''unauthorized'', d) | Some userID \<Rightarrow> h userID)"

text \<open>The web pages only ask for a valid session cookie.\<close>

definition requireCookie :: "env \<Rightarrow> string \<Rightarrow> request \<Rightarrow> response option" where
  "requireCookie e secret r = (case rq_Cookie r ''session'' of
     None \<Rightarrow> Some (Redirect ''/login'')
   | Some v \<Rightarrow>
     if v = [] then Some (Redirect ''/login'')
     else (case parseJWT e (e_now e 0) secret v of Ok _ \<Rightarrow> None | _ \<Rightarrow> Some (Redirect ''/login'')))"

text \<open>\<open>CORSMiddleware\<close> answers a preflight request itself.\<close>

definition CORSMiddleware :: "request \<Rightarrow> response option" where
  "CORSMiddleware r = (if rq_Method r = ''OPTIONS'' then Some (writeJSON 204 NoContent) else None)"

subsection \<open>Paths\<close>

definition parseIDFromPath :: "string \<Rightarrow> string \<Rightarrow> nat option" where
  "parseIDFromPath path prefix = ParseUint (hd (Split (CHR ''/'') (TrimSuffix (TrimPrefix path prefix) ''/'')))"

definition parseAgentID :: "string \<Rightarrow> nat option" where
  "parseAgentID path = ParseUint (hd (Split (CHR ''/'') (TrimPrefix path ''/api/v1/agents/'')))"

definition parseAgentAndTunnelID :: "string \<Rightarrow> (nat \<times> nat) option" where
  "parseAgentAndTunnelID path =
     (let parts = Split (CHR ''/'') (TrimPrefix path ''/api/v1/agents/'') in
      if length parts < 3 then None
      else case (ParseUint (parts ! 0), ParseUint (parts ! 2)) of (Some a, Some t) \<Rightarrow> Some (a, t) | _ \<Rightarrow> None)"

subsection \<open>AuthHandler (auth\_handler.go)\<close>

text \<open>The handler's own options: a revocation store and an audit log.\<close>

record AuthHandler =
  ah_svc :: AuthService
  ah_revokedRepo :: bool
  ah_auditSvc :: bool

definition session_cookie :: "string \<Rightarrow> response \<Rightarrow> response" where
  "session_cookie token = SetCookie ''session'' token ''/''"

definition refresh_path :: string where
  "refresh_path = ''/api/v1/auth/refresh''"

definition AuthHandler_Register :: "env \<Rightarrow> AuthHandler \<Rightarrow> request \<Rightarrow> dash \<Rightarrow> response \<times> dash" where
  "AuthHandler_Register e h r d = (case rq_Body r of
     RegisterRequest email password name \<Rightarrow>
       respond (\<lambda>message. writeJSON 201 (Message message))
         (Auth_Register e (ah_svc h) \<lparr> ri_Email = email, ri_Password = password, ri_Name = name \<rparr> d)
   | _ \<Rightarrow> (writeError 400 ''invalid request body'', d))"

definition AuthHandler_VerifyEmail :: "env \<Rightarrow> AuthHandler \<Rightarrow> request \<Rightarrow> dash \<Rightarrow> response \<times> dash" where
  "AuthHandler_VerifyEmail e h r d = (case Auth_VerifyEmail e (ah_svc h) (rq_Query r ''token'') d of
     (Err err, d) \<Rightarrow>
       (if GetCode err = CodeInvalidArg then writeJSON 400 (ErrorOf err) else writeError 500 ''verification failed'', d)
   | (Panic, d) \<Rightarrow> (aborted, d)
   | (Ok (userID, jwtToken, expiresAt), d) \<Rightarrow>
       (if jwtToken \<noteq> [] then session_cookie jwtToken (Redirect ''/dashboard?verified=true'')
        else Redirect ''/login?verified=true'', d))"

definition AuthHandler_ResendVerification :: "env \<Rightarrow> AuthHandler \<Rightarrow> request \<Rightarrow> dash \<Rightarrow> response \<times> dash" where
  "AuthHandler_ResendVerification e h r d = (case rq_Body r of
     ResendRequest email \<Rightarrow>
       (writeJSON 200 (Message ''if that email is registered, a verification link has been sent''),
        Auth_ResendVerification e (ah_svc h) email d)
   | _ \<Rightarrow> (writeError 400 ''invalid request body'', d))"

text \<open>The metadata of a failed login is the text of its error.\<close>

definition AuthHandler_Login :: "env \<Rightarrow> (goerror \<Rightarrow> string) \<Rightarrow> AuthHandler \<Rightarrow> request \<Rightarrow> dash \<Rightarrow> response \<times> dash" where
  "AuthHandler_Login e Error h r d = (case rq_Body r of
     LoginRequest email password \<Rightarrow>
       (case Auth_Login e (ah_svc h) email password d of
          (Err err, d) \<Rightarrow>
            (writeServiceError err,
             Audit_Log (ah_auditSvc h) (e_now e 3) ''auth.failure'' email [] (extractClientIP r) (Some [(''reason'', Error err)]) d)
        | (Panic, d) \<Rightarrow> (aborted, d)
        | (Ok out, d) \<Rightarrow>
            (let resp = session_cookie (lo_Token out) (writeJSON 200 (AuthResponse (lo_Token out) (Unix (lo_ExpiresAt out)))) in
             (if lo_RefreshJTI out \<noteq> [] then SetCookie ''tunneledge_refresh'' (lo_RefreshJTI out) refresh_path resp else resp,
              Audit_Log (ah_auditSvc h) (e_now e 3) ''auth.success'' email [] (extractClientIP r) None d)))
   | _ \<Rightarrow> (writeError 400 ''invalid request body'', d))"

definition AuthHandler_Refresh :: "env \<Rightarrow> AuthHandler \<Rightarrow> request \<Rightarrow> dash \<Rightarrow> response \<times> dash" where
  "AuthHandler_Refresh e h r d = (case rq_Cookie r ''tunneledge_refresh'' of
     None \<Rightarrow> (writeError 401 ''missing refresh token'', d)
   | Some v \<Rightarrow>
     if v = [] then (writeError 401 ''missing refresh token'', d)
     else respond (\<lambda>out. session_cookie (lo_Token out) (writeJSON 200 (AuthResponse (lo_Token out) (Unix (lo_ExpiresAt out)))))
       (Auth_RefreshAccessToken e (ah_svc h) v d, d))"

definition AuthHandler_Logout :: "env \<Rightarrow> AuthHandler \<Rightarrow> reqctx \<Rightarrow> request \<Rightarrow> dash \<Rightarrow> response \<times> dash" where
  "AuthHandler_Logout e h ctx r d =
     (let jti = cx_jti ctx;
          jtiExpiry = (if jti \<noteq> [] then e_now e 0 + day else zero_time);
          refreshJTI = (case rq_Cookie r ''tunneledge_refresh'' of Some v \<Rightarrow> v | None \<Rightarrow> []);
          d = (if ah_revokedRepo h \<or> refreshJTI \<noteq> []
               then Auth_RevokeSession e (ah_svc h) jti jtiExpiry refreshJTI (ah_revokedRepo h) d else d)
      in (SetCookie ''tunneledge_refresh'' [] refresh_path (session_cookie [] (writeJSON 200 (Message ''logged out''))), d))"

definition AuthHandler_Me :: "env \<Rightarrow> reqctx \<Rightarrow> dash \<Rightarrow> response \<times> dash" where
  "AuthHandler_Me e ctx d = with_user ctx d (\<lambda>userID.
     (case Auth_Me e userID d of
        Ok user \<Rightarrow> writeJSON 200 (UserResponse (us_ID user) (us_Email user) (us_Name user) (us_CreatedAt user))
      | Err err \<Rightarrow> writeError 404 ''user not found''
      | Panic \<Rightarrow> aborted, d))"

subsection \<open>AgentHandler (agent\_handler.go)\<close>

definition agentToResponse :: "AgentProfile \<Rightarrow> AgentResponse" where
  "agentToResponse a =
     \<lparr> re_ID = ap_ID a, re_Name = ap_Name a, re_AgentID = ap_AgentID a, re_CreatedAt = ap_CreatedAt a,
       re_UpdatedAt = ap_UpdatedAt a, re_TokenExpiresAt = ap_TokenExpiresAt a, re_LastUsedAt = ap_LastUsedAt a,
       re_FailedAuthCount = ap_FailedAuthCount a, re_LockedUntil = ap_LockedUntil a \<rparr>"

definition AgentHandler_Create :: "env \<Rightarrow> reqctx \<Rightarrow> request \<Rightarrow> dash \<Rightarrow> response \<times> dash" where
  "AgentHandler_Create e ctx r d = with_user ctx d (\<lambda>userID. case rq_Body r of
     CreateAgentRequest name agentID \<Rightarrow>
       if name = [] \<or> agentID = [] then (writeError 400 ''name and agent_id are required'', d)
       else respond (\<lambda>out. writeJSON 201 (AgentTokenResponse (ap_AgentID (co_Agent out)) (co_RawToken out)))
         (Agent_Create e userID name agentID d)
   | _ \<Rightarrow> (writeError 400 ''invalid request body'', d))"

definition AgentHandler_List :: "env \<Rightarrow> reqctx \<Rightarrow> dash \<Rightarrow> response \<times> dash" where
  "AgentHandler_List e ctx d = with_user ctx d (\<lambda>userID.
     (case Agent_List e userID d of
        Ok agents \<Rightarrow> writeJSON 200 (AgentList (map agentToResponse agents))
      | Err err \<Rightarrow> writeError 500 ''failed to list agents''
      | Panic \<Rightarrow> aborted, d))"

definition agent_of_path :: "request \<Rightarrow> dash \<Rightarrow> (nat \<Rightarrow> response \<times> dash) \<Rightarrow> response \<times> dash" where
  "agent_of_path r d h = (case parseIDFromPath (rq_Path r) ''/api/v1/agents/'' of
     None \<Rightarrow> (writeError 400 ''invalid agent id'', d) | Some i \<Rightarrow> h i)"

definition AgentHandler_Get :: "env \<Rightarrow> reqctx \<Rightarrow> request \<Rightarrow> dash \<Rightarrow> response \<times> dash" where
  "AgentHandler_Get e ctx r d = with_user ctx d (\<lambda>userID. agent_of_path r d (\<lambda>i.
     respond (\<lambda>agent. writeJSON 200 (AgentBody (agentToResponse agent))) (Agent_Get e userID i d, d)))"

definition AgentHandler_Update :: "env \<Rightarrow> reqctx \<Rightarrow> request \<Rightarrow> dash \<Rightarrow> response \<times> dash" where
  "AgentHandler_Update e ctx r d = with_user ctx d (\<lambda>userID. agent_of_path r d (\<lambda>i. case rq_Body r of
     UpdateAgentRequest name \<Rightarrow>
       respond (\<lambda>agent. writeJSON 200 (AgentBody (agentToResponse agent))) (Agent_Update e userID i name d)
   | _ \<Rightarrow> (writeError 400 ''invalid request body'', d)))"

definition AgentHandler_Delete :: "env \<Rightarrow> reqctx \<Rightarrow> request \<Rightarrow> dash \<Rightarrow> response \<times> dash" where
  "AgentHandler_Delete e ctx r d = with_user ctx d (\<lambda>userID. agent_of_path r d (\<lambda>i.
     respond (\<lambda>_. writeJSON 204 NoContent) (Agent_Delete e userID i d)))"

definition AgentHandler_RotateToken :: "env \<Rightarrow> reqctx \<Rightarrow> request \<Rightarrow> dash \<Rightarrow> response \<times> dash" where
  "AgentHandler_RotateToken e ctx r d = with_user ctx d (\<lambda>userID.
     case ParseUint (hd (Split (CHR ''/'') (TrimPrefix (rq_Path r) ''/api/v1/agents/''))) of
       None \<Rightarrow> (writeError 400 ''invalid agent id'', d)
     | Some rawID \<Rightarrow>
         respond (\<lambda>out. writeJSON 200 (AgentTokenResponse (ro_AgentID out) (ro_RawToken out))) (Agent_RotateToken e userID rawID d))"

subsection \<open>TunnelHandler (tunnel\_handler.go)\<close>

definition tunnelToResponse :: "DomainTunnelConfig \<Rightarrow> TunnelResponse" where
  "tunnelToResponse t =
     \<lparr> rt_ID = tc_ID t, rtr_Label = tc_Label t, rtr_LocalAddr = tc_LocalAddr t, rtr_TunnelType = tc_TunnelType t,
       rt_CreatedAt = tc_CreatedAt t, rt_UpdatedAt = tc_UpdatedAt t \<rparr>"

definition TunnelHandler_Create :: "env \<Rightarrow> reqctx \<Rightarrow> request \<Rightarrow> dash \<Rightarrow> response \<times> dash" where
  "TunnelHandler_Create e ctx r d = with_user ctx d (\<lambda>userID. case parseAgentID (rq_Path r) of
     None \<Rightarrow> (writeError 400 ''invalid agent id'', d)
   | Some agentID \<Rightarrow>
     (case rq_Body r of
        TunnelRequest label localAddr tunnelType \<Rightarrow>
          respond (\<lambda>t. writeJSON 201 (TunnelBody (tunnelToResponse t))) (Tunnel_Create e userID agentID label localAddr tunnelType d)
      | _ \<Rightarrow> (writeError 400 ''invalid request body'', d)))"

definition TunnelHandler_List :: "env \<Rightarrow> reqctx \<Rightarrow> request \<Rightarrow> dash \<Rightarrow> response \<times> dash" where
  "TunnelHandler_List e ctx r d = with_user ctx d (\<lambda>userID. case parseAgentID (rq_Path r) of
     None \<Rightarrow> (writeError 400 ''invalid agent id'', d)
   | Some agentID \<Rightarrow>
     respond (\<lambda>ts. writeJSON 200 (TunnelList (map tunnelToResponse ts))) (Tunnel_List e userID agentID d, d))"

definition TunnelHandler_Get :: "env \<Rightarrow> reqctx \<Rightarrow> request \<Rightarrow> dash \<Rightarrow> response \<times> dash" where
  "TunnelHandler_Get e ctx r d = with_user ctx d (\<lambda>userID. case parseAgentAndTunnelID (rq_Path r) of
     None \<Rightarrow> (writeError 400 ''invalid path'', d)
   | Some (agentID, tunnelID) \<Rightarrow>
     respond (\<lambda>t. writeJSON 200 (TunnelBody (tunnelToResponse t))) (Tunnel_Get e userID agentID tunnelID d, d))"

definition TunnelHandler_Update :: "env \<Rightarrow> reqctx \<Rightarrow> request \<Rightarrow> dash \<Rightarrow> response \<times> dash" where
  "TunnelHandler_Update e ctx r d = with_user ctx d (\<lambda>userID. case parseAgentAndTunnelID (rq_Path r) of
     None \<Rightarrow> (writeError 400 ''invalid path'', d)
   | Some (agentID, tunnelID) \<Rightarrow>
     (case rq_Body r of
        TunnelRequest label localAddr tunnelType \<Rightarrow>
          respond (\<lambda>t. writeJSON 200 (TunnelBody (tunnelToResponse t)))
            (Tunnel_Update e userID agentID tunnelID label localAddr tunnelType d)
      | _ \<Rightarrow> (writeError 400 ''invalid request body'', d)))"

definition TunnelHandler_Delete :: "env \<Rightarrow> reqctx \<Rightarrow> request \<Rightarrow> dash \<Rightarrow> response \<times> dash" where
  "TunnelHandler_Delete e ctx r d = with_user ctx d (\<lambda>userID. case parseAgentAndTunnelID (rq_Path r) of
     None \<Rightarrow> (writeError 400 ''invalid path'', d)
   | Some (agentID, tunnelID) \<Rightarrow> respond (\<lambda>_. writeJSON 204 NoContent) (Tunnel_Delete e userID agentID tunnelID d))"

subsection \<open>ACLHandler (acl\_handler.go)\<close>

definition ACLHandler_List :: "env \<Rightarrow> reqctx \<Rightarrow> request \<Rightarrow> dash \<Rightarrow> response \<times> dash" where
  "ACLHandler_List e ctx r d = with_user ctx d (\<lambda>userID. agent_of_path r d (\<lambda>i.
     case Agent_Get e userID i d of
       Err err \<Rightarrow> (writeServiceError err, d)
     | Panic \<Rightarrow> (aborted, d)
     | Ok agent \<Rightarrow>
       (case PGACL_List (e_acls e) (NewTunnelID (ap_AgentID agent)) (d_acls d) of
          Ok acls \<Rightarrow> writeJSON 200 (ACLList acls)
        | Err err \<Rightarrow> writeError 500 ''failed to list ACLs''
        | Panic \<Rightarrow> aborted, d)))"

definition ACLHandler_Create :: "env \<Rightarrow> reqctx \<Rightarrow> request \<Rightarrow> dash \<Rightarrow> response \<times> dash" where
  "ACLHandler_Create e ctx r d = with_user ctx d (\<lambda>userID. agent_of_path r d (\<lambda>i.
     case Agent_Get e userID i d of
       Err err \<Rightarrow> (writeServiceError err, d)
     | Panic \<Rightarrow> (aborted, d)
     | Ok agent \<Rightarrow>
       (case rq_Body r of
          CreateTunnelACLRequest cidr aclType \<Rightarrow>
            if cidr = [] \<or> aclType = [] then (writeError 400 ''cidr and acl_type are required'', d)
            else if aclType \<noteq> ''allow'' \<and> aclType \<noteq> ''deny'' then (writeError 400 (''acl_type must be 'allow' or 'deny'' @ [CHR 0x27]), d)
            else (case PGACL_Create (e_acls e)
                \<lparr> acl_ID = 0, acl_TunnelID = NewTunnelID (ap_AgentID agent), acl_ACLType = aclType, acl_CIDR = cidr,
                  acl_CreatedAt = zero_time \<rparr> (d_acls d) of
                (Ok acl, rows) \<Rightarrow> (writeJSON 201 (ACLBody acl), d\<lparr>d_acls := rows\<rparr>)
              | (Err err, rows) \<Rightarrow> (writeError 500 ''failed to create ACL rule'', d\<lparr>d_acls := rows\<rparr>)
              | (Panic, rows) \<Rightarrow> (aborted, d\<lparr>d_acls := rows\<rparr>))
        | _ \<Rightarrow> (writeError 400 ''invalid request body'', d))))"

definition ACLHandler_Delete :: "env \<Rightarrow> reqctx \<Rightarrow> request \<Rightarrow> dash \<Rightarrow> response \<times> dash" where
  "ACLHandler_Delete e ctx r d = with_user ctx d (\<lambda>userID.
     let parts = Split (CHR ''/'') (TrimPrefix (rq_Path r) ''/api/v1/agents/'') in
     if length parts < 3 then (writeError 400 ''invalid path'', d)
     else case ParseUint (parts ! 0) of
       None \<Rightarrow> (writeError 400 ''invalid agent id'', d)
     | Some agentDBID \<Rightarrow>
       (case ParseUint (parts ! 2) of
          None \<Rightarrow> (writeError 400 ''invalid acl id'', d)
        | Some aclID \<Rightarrow>
          (case Agent_Get e userID agentDBID d of
             Err err \<Rightarrow> (writeServiceError err, d)
           | Panic \<Rightarrow> (aborted, d)
           | Ok agent \<Rightarrow>
             (case PGACL_Delete (e_acls e) aclID (d_acls d) of
                (Ok _, rows) \<Rightarrow> (writeJSON 204 NoContent, d\<lparr>d_acls := rows\<rparr>)
              | (Err err, rows) \<Rightarrow> (writeError 404 ''ACL rule not found'', d\<lparr>d_acls := rows\<rparr>)
              | (Panic, rows) \<Rightarrow> (aborted, d\<lparr>d_acls := rows\<rparr>)))))"

subsection \<open>StatusHandler (status\_handler.go)\<close>

definition sessionToResponse :: "Session \<Rightarrow> SessionResponse" where
  "sessionToResponse s =
     \<lparr> rs_TunnelID = ss_TunnelID s, rs_AgentID = ss_AgentID s, rs_PublicAddr = ss_PublicAddr s, rs_LocalAddr = ss_LocalAddr s,
       rs_CreatedAt = Unix (ss_CreatedAt s), rs_LastHeartbeat = Unix (ss_LastHeartbeat s) \<rparr>"

definition StatusHandler_AgentStatus :: "env \<Rightarrow> reqctx \<Rightarrow> request \<Rightarrow> dash \<Rightarrow> response \<times> dash" where
  "StatusHandler_AgentStatus e ctx r d = with_user ctx d (\<lambda>userID. agent_of_path r d (\<lambda>agentID.
     case PGAgent_GetByID (e_agents e) agentID (d_agents d) of
       Err err \<Rightarrow> (writeError 404 ''agent not found'', d)
     | Panic \<Rightarrow> (aborted, d)
     | Ok agent \<Rightarrow>
       if ap_UserID agent \<noteq> userID then (writeError 403 ''access denied'', d)
       else (case PGSession_Get (e_sessions e) (''t-'' @ ap_AgentID agent) (d_sessions d) of
           Ok sess \<Rightarrow> writeJSON 200 (SessionBody (sessionToResponse sess))
         | Err err \<Rightarrow> writeJSON 200 (Status ''offline'')
         | Panic \<Rightarrow> aborted, d)))"

definition StatusHandler_ListSessions :: "env \<Rightarrow> dash \<Rightarrow> response \<times> dash" where
  "StatusHandler_ListSessions e d =
     (case PGSession_List (e_sessions e) (d_sessions d) of
        Ok sessions \<Rightarrow> writeJSON 200 (SessionList (map sessionToResponse sessions))
      | Err err \<Rightarrow> writeError 500 ''failed to list sessions''
      | Panic \<Rightarrow> aborted, d)"

definition StatusHandler_DeleteSession :: "env \<Rightarrow> reqctx \<Rightarrow> request \<Rightarrow> dash \<Rightarrow> response \<times> dash" where
  "StatusHandler_DeleteSession e ctx r d = with_user ctx d (\<lambda>userID.
     let tunnelID = TrimSuffix (TrimPrefix (rq_Path r) ''/api/v1/sessions/'') ''/'';
         agentID = (if length tunnelID > 2 \<and> take 2 tunnelID = ''t-'' then drop 2 tunnelID else tunnelID)
     in if tunnelID = [] then (writeError 400 ''tunnel_id required'', d)
        else case PGAgent_GetByAgentID (e_agents e) agentID (d_agents d) of
          Err err \<Rightarrow> (writeError 404 ''session not found'', d)
        | Panic \<Rightarrow> (aborted, d)
        | Ok agent \<Rightarrow>
          if ap_UserID agent \<noteq> userID then (writeError 403 ''access denied'', d)
          else (case PGSession_Deregister (e_sessions e) (e_now e 1) tunnelID (d_sessions d) of
              (Ok _, rows) \<Rightarrow> (writeJSON 204 NoContent, d\<lparr>d_sessions := rows\<rparr>)
            | (Err err, rows) \<Rightarrow> (writeError 404 ''session not found or already closed'', d\<lparr>d_sessions := rows\<rparr>)
            | (Panic, rows) \<Rightarrow> (aborted, d\<lparr>d_sessions := rows\<rparr>)))"

subsection \<open>SSEHandler (sse\_handler.go)\<close>

text \<open>One \<^verbatim>\<open>push\<close>: the errors of the three queries are dropped, a failed query yields no rows. The online set is the agents
  of the listed sessions.\<close>

definition listed :: "'a list result \<Rightarrow> 'a list" where
  "listed r = (case r of Ok xs \<Rightarrow> xs | _ \<Rightarrow> [])"

definition SSEHandler_push :: "env \<Rightarrow> nat \<Rightarrow> dash \<Rightarrow> sseStatsPayload \<times> SessionResponse list" where
  "SSEHandler_push e userID d =
     (let agentList = listed (PGAgent_ListByUserID (e_agents e) userID (d_agents d));
          sessions = listed (PGSession_List (e_sessions e) (d_sessions d));
          onlineSet = fold (\<lambda>s m. mput (ss_AgentID s) True m) sessions [];
          online = length (filter (\<lambda>a. map_of onlineSet (ap_AgentID a) = Some True) agentList);
          tunnelCount = sum_list (map (\<lambda>a. length (listed (PGTunnel_ListByAgentProfileID (e_tunnels e) (ap_ID a) (d_tunnels d)))) agentList)
      in (\<lparr> st_Agents = int (length agentList), st_Online = int online, st_Tunnels = int tunnelCount,
            st_Sessions = int (length sessions) \<rparr>, map sessionToResponse sessions))"

text \<open>The first push, made before the loop waits for its tickers.\<close>

definition SSEHandler_Stream :: "env \<Rightarrow> reqctx \<Rightarrow> dash \<Rightarrow> response \<times> dash" where
  "SSEHandler_Stream e ctx d = with_user ctx d (\<lambda>userID.
     case SSEHandler_push e userID d of (stats, sessions) \<Rightarrow> (writeJSON 200 (Events stats sessions), d))"

subsection \<open>AuditHandler (audit\_handler.go)\<close>

text \<open>\<open>parse\<close> is \<^verbatim>\<open>time.Parse\<close> with the RFC 3339 layout, \<open>query\<close> the audit repository's \<^verbatim>\<open>List\<close>.\<close>

definition audit_time :: "(string \<Rightarrow> time option) \<Rightarrow> string \<Rightarrow> time option" where
  "audit_time parse s = (if s = [] then Some zero_time else parse s)"

definition AuditHandler_List ::
  "(string \<Rightarrow> time option) \<Rightarrow> (AuditFilter \<Rightarrow> metadata AuditEvent list result) \<Rightarrow> request \<Rightarrow> dash \<Rightarrow> response \<times> dash" where
  "AuditHandler_List parse query r d =
     (case audit_time parse (rq_Query r ''since'') of
        None \<Rightarrow> (writeError 400 ''invalid since parameter'', d)
      | Some since \<Rightarrow>
        (case audit_time parse (rq_Query r ''until'') of
           None \<Rightarrow> (writeError 400 ''invalid until parameter'', d)
         | Some until \<Rightarrow>
           (case query \<lparr> af_ActorID = rq_Query r ''actor_id'', af_EventType = rq_Query r ''event_type'', af_Since = since,
               af_Until = until, af_Limit = 100, af_Offset = 0 \<rparr> of
              Ok events \<Rightarrow> writeJSON 200 (AuditList events)
            | Err err \<Rightarrow> writeError 500 ''failed to query audit log''
            | Panic \<Rightarrow> aborted, d)))"

subsection \<open>The server (server.go)\<close>

text \<open>The optional repositories are flags; the mandatory ones are the tables of \<open>dash\<close>.\<close>

record ServerOptions =
  so_JWTCfg :: JWTConfig
  so_BaseURL :: string
  so_EmailService :: bool
  so_RevokedJTIs :: bool
  so_RefreshTokens :: bool
  so_RefreshTokenEnabled :: bool
  so_RefreshTokenTTL :: duration
  so_AuthRateLimitRPM :: int
  so_TunnelACLs :: bool
  so_AuditRepo :: bool

definition server_authSvc :: "ServerOptions \<Rightarrow> AuthService" where
  "server_authSvc opts =
     (let authSvc = NewAuthService (so_EmailService opts) (so_BaseURL opts) (so_JWTCfg opts) in
      if so_RefreshTokenEnabled opts \<and> so_RefreshTokens opts
      then WithRefreshTokens (if so_RefreshTokenTTL opts \<le> 0 then 7 * day else so_RefreshTokenTTL opts) authSvc
      else authSvc)"

definition server_authHandler :: "ServerOptions \<Rightarrow> AuthHandler" where
  "server_authHandler opts =
     \<lparr> ah_svc = server_authSvc opts, ah_revokedRepo = so_RevokedJTIs opts, ah_auditSvc = so_AuditRepo opts \<rparr>"

datatype endpoint =
    Register | Login | Refresh | Resend | Verify | Logout | Me
  | AgentCreate | AgentsList | AgentGet | AgentUpdate | AgentDelete | AgentRotate
  | TunnelCreate | TunnelsList | TunnelGet | TunnelUpdate | TunnelDelete
  | ACLsList | ACLCreate | ACLDelete
  | AgentStatus | SessionsList | SessionDelete | EventStream | AuditQuery

text \<open>The API patterns of the mux, on the segments of the path. A wildcard matches one non-empty segment.\<close>

definition agent_routes :: "ServerOptions \<Rightarrow> string \<Rightarrow> string list \<Rightarrow> endpoint option" where
  "agent_routes opts m segs = (case segs of
     [] \<Rightarrow> if m = ''POST'' then Some AgentCreate else if m = ''GET'' then Some AgentsList else None
   | [i] \<Rightarrow>
       if i = [] then None
       else if m = ''GET'' then Some AgentGet else if m = ''PUT'' then Some AgentUpdate
       else if m = ''DELETE'' then Some AgentDelete else None
   | [i, s] \<Rightarrow>
       if i = [] then None
       else if s = ''rotate-token'' \<and> m = ''POST'' then Some AgentRotate
       else if s = ''tunnels'' \<and> m = ''POST'' then Some TunnelCreate
       else if s = ''tunnels'' \<and> m = ''GET'' then Some TunnelsList
       else if s = ''acls'' \<and> m = ''GET'' \<and> so_TunnelACLs opts then Some ACLsList
       else if s = ''acls'' \<and> m = ''POST'' \<and> so_TunnelACLs opts then Some ACLCreate
       else if s = ''status'' \<and> m = ''GET'' then Some AgentStatus else None
   | [i, s, t] \<Rightarrow>
       if i = [] \<or> t = [] then None
       else if s = ''tunnels'' \<and> m = ''GET'' then Some TunnelGet
       else if s = ''tunnels'' \<and> m = ''PUT'' then Some TunnelUpdate
       else if s = ''tunnels'' \<and> m = ''DELETE'' then Some TunnelDelete
       else if s = ''acls'' \<and> m = ''DELETE'' \<and> so_TunnelACLs opts then Some ACLDelete else None
   | _ \<Rightarrow> None)"

definition auth_routes :: "string \<Rightarrow> string \<Rightarrow> endpoint option" where
  "auth_routes m s =
     (if m = ''POST'' then
        if s = ''register'' then Some Register else if s = ''login'' then Some Login
        else if s = ''refresh'' then Some Refresh else if s = ''resend-verification'' then Some Resend
        else if s = ''logout'' then Some Logout else None
      else if m = ''GET'' \<and> s = ''me'' then Some Me else None)"

definition api_route :: "ServerOptions \<Rightarrow> string \<Rightarrow> string \<Rightarrow> endpoint option" where
  "api_route opts m path = (case Split (CHR ''/'') path of
     [_, v] \<Rightarrow> if v = ''verify'' \<and> m = ''GET'' then Some Verify else None
   | _ # a # b # kind # rest \<Rightarrow>
       if a \<noteq> ''api'' \<or> b \<noteq> ''v1'' then None
       else if kind = ''auth'' then (case rest of [s] \<Rightarrow> auth_routes m s | _ \<Rightarrow> None)
       else if kind = ''agents'' then agent_routes opts m rest
       else if kind = ''sessions'' then
         (case rest of [] \<Rightarrow> if m = ''GET'' then Some SessionsList else None
          | [t] \<Rightarrow> if m = ''DELETE'' \<and> t \<noteq> [] then Some SessionDelete else None
          | _ \<Rightarrow> None)
       else if kind = ''events'' \<and> rest = [] \<and> m = ''GET'' then Some EventStream
       else if kind = ''audit'' \<and> rest = [] \<and> m = ''GET'' \<and> so_AuditRepo opts then Some AuditQuery
       else None
   | _ \<Rightarrow> None)"

text \<open>A request that matches no API pattern is answered by the page handlers or by the mux itself. That answer is not modelled;
  the state does not change.\<close>

definition unrouted :: response where
  "unrouted = \<lparr> rp_Status = 0, rp_Payload = NoContent, rp_Cookies = [], rp_Location = [], rp_Headers = [] \<rparr>"

text \<open>The handler behind the authentication middleware. \<open>parse\<close> and \<open>query\<close> are those of the audit handler.\<close>

definition protected ::
  "(string \<Rightarrow> time option) \<Rightarrow> (AuditFilter \<Rightarrow> metadata AuditEvent list result) \<Rightarrow> env \<Rightarrow> ServerOptions \<Rightarrow> endpoint \<Rightarrow> reqctx \<Rightarrow>
     request \<Rightarrow> dash \<Rightarrow> response \<times> dash" where
  "protected parse query e opts ep ctx r d = (case ep of
     Logout \<Rightarrow> AuthHandler_Logout e (server_authHandler opts) ctx r d
   | Me \<Rightarrow> AuthHandler_Me e ctx d
   | AgentCreate \<Rightarrow> AgentHandler_Create e ctx r d
   | AgentsList \<Rightarrow> AgentHandler_List e ctx d
   | AgentGet \<Rightarrow> AgentHandler_Get e ctx r d
   | AgentUpdate \<Rightarrow> AgentHandler_Update e ctx r d
   | AgentDelete \<Rightarrow> AgentHandler_Delete e ctx r d
   | AgentRotate \<Rightarrow> AgentHandler_RotateToken e ctx r d
   | TunnelCreate \<Rightarrow> TunnelHandler_Create e ctx r d
   | TunnelsList \<Rightarrow> TunnelHandler_List e ctx r d
   | TunnelGet \<Rightarrow> TunnelHandler_Get e ctx r d
   | TunnelUpdate \<Rightarrow> TunnelHandler_Update e ctx r d
   | TunnelDelete \<Rightarrow> TunnelHandler_Delete e ctx r d
   | ACLsList \<Rightarrow> ACLHandler_List e ctx r d
   | ACLCreate \<Rightarrow> ACLHandler_Create e ctx r d
   | ACLDelete \<Rightarrow> ACLHandler_Delete e ctx r d
   | AgentStatus \<Rightarrow> StatusHandler_AgentStatus e ctx r d
   | SessionsList \<Rightarrow> StatusHandler_ListSessions e d
   | SessionDelete \<Rightarrow> StatusHandler_DeleteSession e ctx r d
   | EventStream \<Rightarrow> SSEHandler_Stream e ctx d
   | AuditQuery \<Rightarrow> AuditHandler_List parse query r d
   | _ \<Rightarrow> (unrouted, d))"

text \<open>A request of the API from the mux on. The first two endpoints are rate limited; the limiters are the last part of the
  state.\<close>

record 'l limits =
  li_fresh :: "int \<Rightarrow> 'l"
  li_allow :: "time \<Rightarrow> 'l \<Rightarrow> bool \<times> 'l"
  li_reserve :: "time \<Rightarrow> 'l \<Rightarrow> int \<times> 'l"

definition serve ::
  "'l limits \<Rightarrow> (goerror \<Rightarrow> string) \<Rightarrow> (string \<Rightarrow> time option) \<Rightarrow> (AuditFilter \<Rightarrow> metadata AuditEvent list result) \<Rightarrow> env \<Rightarrow>
     ServerOptions \<Rightarrow> request \<Rightarrow> dash \<Rightarrow> (string, 'l) gomap \<Rightarrow> response \<times> dash \<times> (string, 'l) gomap" where
  "serve lm Error parse query e opts r d visitors =
     (let h = server_authHandler opts;
          limited = (\<lambda>next. NewRateLimitMiddleware (so_AuthRateLimitRPM opts) (li_fresh lm) (li_allow lm) (li_reserve lm)
            (e_now e 4) next r d visitors);
          plain = (\<lambda>(resp, d'). (resp, d', visitors))
      in case CORSMiddleware r of
           Some resp \<Rightarrow> (resp, d, visitors)
         | None \<Rightarrow>
           (case api_route opts (rq_Method r) (rq_Path r) of
              None \<Rightarrow> (unrouted, d, visitors)
            | Some Register \<Rightarrow> limited (AuthHandler_Register e h r)
            | Some Login \<Rightarrow> limited (AuthHandler_Login e Error h r)
            | Some Refresh \<Rightarrow> plain (AuthHandler_Refresh e h r d)
            | Some Resend \<Rightarrow> plain (AuthHandler_ResendVerification e h r d)
            | Some Verify \<Rightarrow> plain (AuthHandler_VerifyEmail e h r d)
            | Some ep \<Rightarrow>
              (case JWTAuthMiddleware e (jc_Secret (so_JWTCfg opts)) (so_RevokedJTIs opts) r d of
                 Inl resp \<Rightarrow> (resp, d, visitors)
               | Inr ctx \<Rightarrow> plain (protected parse query e opts ep ctx r d))))"

end
