(* ===== verification/TE_Tenancy.thy ===== *)
theory TE_Tenancy
  imports TE_Http
begin

text \<open>
  What the dashboard keeps true of its tables and of the separation of its users: the well-formedness of the rows
  (\<open>dash_wf\<close>), which every request preserves, and the isolation of tenants, which holds for every endpoint but one.
\<close>

subsection \<open>Well-formed tables\<close>

definition agents_wf :: "AgentProfileModel list \<Rightarrow> bool" where
  "agents_wf rows \<longleftrightarrow> distinct (map gm_ID rows) \<and> distinct (map am_AgentID rows) \<and>
     (\<forall>m \<in> set rows. ValidateLabel (am_AgentID m) = Ok ())"

definition tunnel_wf :: "TunnelDefinitionModel \<Rightarrow> bool" where
  "tunnel_wf m \<longleftrightarrow> ValidateLabel (dm_Label m) = Ok () \<and> ValidateLocalAddr (dm_LocalAddr m) = Ok () \<and> dm_TunnelType m \<noteq> []"

definition users_wf :: "UserModel list \<Rightarrow> bool" where
  "users_wf rows \<longleftrightarrow> distinct (map gm_ID rows) \<and> distinct (map um_Email rows) \<and>
     (\<forall>m \<in> set rows. ValidateEmail (um_Email m) = Ok () \<and> um_Name m \<noteq> [])"

definition dash_wf :: "dash \<Rightarrow> bool" where
  "dash_wf d \<longleftrightarrow> users_wf (d_users d) \<and> agents_wf (d_agents d) \<and>
     distinct (map gm_ID (d_tunnels d)) \<and> (\<forall>m \<in> set (d_tunnels d). tunnel_wf m) \<and>
     (\<forall>m \<in> set (d_acls d). cm_ACLType m \<in> {''allow'', ''deny''})"

text \<open>An update by key, of a row read from a table with distinct keys, rewrites that row only.\<close>

lemma rewritten_key:
  assumes "distinct (map gm_ID rows)" and "m \<in> set rows" and "gm_DeletedAt m = None"
  shows "rewritten (model_schema u) (\<lambda>x. gm_ID x = gm_ID m) f t rows =
    map (\<lambda>x. if x = m then (f m)\<lparr>gm_UpdatedAt := t\<rparr> else x) rows"
proof -
  have "x = m" if "x \<in> set rows" "gm_ID x = gm_ID m" for x
    using assms(1,2) that by (metis (no_types, lifting) distinct_map inj_on_def)
  with assms(3) show ?thesis
    unfolding rewritten_def by (intro map_cong [OF refl]) (auto simp: sees_def)
qed

lemma removed_key:
  assumes "distinct (map gm_ID rows)" and "m \<in> set rows" and "gm_DeletedAt m = None"
  shows "removed (model_schema u) (\<lambda>x. gm_ID x = gm_ID m) t rows = map (\<lambda>x. if x = m then m\<lparr>gm_DeletedAt := Some t\<rparr> else x) rows"
proof -
  have "x = m" if "x \<in> set rows" "gm_ID x = gm_ID m" for x
    using assms(1,2) that by (metis (no_types, lifting) distinct_map inj_on_def)
  with assms(3) show ?thesis
    unfolding removed_model by (intro map_cong [OF refl]) auto
qed

lemma map_replace: "g m' = g m \<Longrightarrow> map (g \<circ> (\<lambda>x. if x = m then m' else x)) rows = map g rows"
  by (induction rows) auto

lemma filter_replace:
  assumes "\<not> P m" and "\<not> P m'"
  shows "filter P (map (\<lambda>x. if x = m then m' else x) rows) = filter P rows"
  using assms by (induction rows) auto

subsection \<open>What a request may do to a table\<close>

text \<open>Each relation bounds the change one request makes to one table: \<open>U\<close> are the users it acts for, \<open>P\<close> the keys of
  their profiles, \<open>T\<close> the tunnels whose rules it may change and \<open>A\<close> the agents whose sessions it may end.\<close>

inductive users_step :: "UserModel list \<Rightarrow> UserModel list \<Rightarrow> bool" where
  users_same: "users_step rows rows"
| users_add: "ValidateEmail (um_Email m) = Ok () \<Longrightarrow> um_Name m \<noteq> [] \<Longrightarrow>
    \<forall>x \<in> set rows. gm_ID x \<noteq> gm_ID m \<and> um_Email x \<noteq> um_Email m \<Longrightarrow> users_step rows (rows @ [m])"
| users_change: "m \<in> set rows \<Longrightarrow> gm_ID m' = gm_ID m \<Longrightarrow> um_Email m' = um_Email m \<Longrightarrow> um_Name m' = um_Name m \<Longrightarrow>
    users_step rows (map (\<lambda>x. if x = m then m' else x) rows)"

inductive agents_step :: "nat set \<Rightarrow> AgentProfileModel list \<Rightarrow> AgentProfileModel list \<Rightarrow> bool" for U where
  agents_same: "agents_step U rows rows"
| agents_add: "am_UserID m \<in> U \<Longrightarrow> ValidateLabel (am_AgentID m) = Ok () \<Longrightarrow>
    \<forall>x \<in> set rows. gm_ID x \<noteq> gm_ID m \<and> am_AgentID x \<noteq> am_AgentID m \<Longrightarrow> agents_step U rows (rows @ [m])"
| agents_change: "m \<in> set rows \<Longrightarrow> am_UserID m \<in> U \<Longrightarrow> gm_ID m' = gm_ID m \<Longrightarrow> am_UserID m' = am_UserID m \<Longrightarrow>
    am_AgentID m' = am_AgentID m \<Longrightarrow> agents_step U rows (map (\<lambda>x. if x = m then m' else x) rows)"

inductive tunnels_step :: "nat set \<Rightarrow> TunnelDefinitionModel list \<Rightarrow> TunnelDefinitionModel list \<Rightarrow> bool" for P where
  tunnels_same: "tunnels_step P rows rows"
| tunnels_add: "dm_AgentProfileID m \<in> P \<Longrightarrow> tunnel_wf m \<Longrightarrow> \<forall>x \<in> set rows. gm_ID x \<noteq> gm_ID m \<Longrightarrow> tunnels_step P rows (rows @ [m])"
| tunnels_change: "m \<in> set rows \<Longrightarrow> dm_AgentProfileID m \<in> P \<Longrightarrow> gm_ID m' = gm_ID m \<Longrightarrow>
    dm_AgentProfileID m' = dm_AgentProfileID m \<Longrightarrow> tunnel_wf m \<longrightarrow> tunnel_wf m' \<Longrightarrow>
    tunnels_step P rows (map (\<lambda>x. if x = m then m' else x) rows)"

inductive acls_step :: "string set \<Rightarrow> TunnelACLModel list \<Rightarrow> TunnelACLModel list \<Rightarrow> bool" for T where
  acls_same: "acls_step T rows rows"
| acls_add: "cm_TunnelID m \<in> T \<Longrightarrow> cm_ACLType m \<in> {''allow'', ''deny''} \<Longrightarrow> acls_step T rows (rows @ [m])"
| acls_delete: "\<forall>x \<in> set rows. Q x \<longrightarrow> cm_TunnelID x \<in> T \<Longrightarrow>
    acls_step T rows (map (\<lambda>x. if Q x then x\<lparr>gm_DeletedAt := Some t\<rparr> else x) rows)"

inductive sessions_step :: "string set \<Rightarrow> TunnelSessionModel list \<Rightarrow> TunnelSessionModel list \<Rightarrow> bool" for A where
  sessions_same: "sessions_step A rows rows"
| sessions_end: "\<forall>x \<in> set rows. Q x \<longrightarrow> TunnelID_AgentID (sm_TunnelID x) \<in> A \<Longrightarrow> \<forall>x. sm_TunnelID (f x) = sm_TunnelID x \<Longrightarrow>
    sessions_step A rows (map (\<lambda>x. if Q x then f x else x) rows)"

lemmas step_same = users_same agents_same tunnels_same acls_same sessions_same

lemma users_step_wf: "users_step rows rows' \<Longrightarrow> users_wf rows \<Longrightarrow> users_wf rows'"
proof (induction rule: users_step.induct)
  case (users_change m rows m')
  then show ?case by (auto simp: users_wf_def map_replace)
qed (auto simp: users_wf_def)

lemma agents_step_wf: "agents_step U rows rows' \<Longrightarrow> agents_wf rows \<Longrightarrow> agents_wf rows'"
proof (induction rule: agents_step.induct)
  case (agents_change m rows m')
  then show ?case by (auto simp: agents_wf_def map_replace)
qed (auto simp: agents_wf_def)

lemma tunnels_step_wf:
  "tunnels_step P rows rows' \<Longrightarrow> distinct (map gm_ID rows) \<and> (\<forall>m \<in> set rows. tunnel_wf m) \<Longrightarrow>
     distinct (map gm_ID rows') \<and> (\<forall>m \<in> set rows'. tunnel_wf m)"
proof (induction rule: tunnels_step.induct)
  case (tunnels_change m rows m')
  then show ?case by (auto simp: map_replace)
qed auto

lemma acls_step_wf:
  "acls_step T rows rows' \<Longrightarrow> \<forall>m \<in> set rows. cm_ACLType m \<in> {''allow'', ''deny''} \<Longrightarrow> \<forall>m \<in> set rows'. cm_ACLType m \<in> {''allow'', ''deny''}"
  by (induction rule: acls_step.induct) auto

lemma agents_step_other: "agents_step U rows rows' \<Longrightarrow> v \<notin> U \<Longrightarrow> filter (\<lambda>m. am_UserID m = v) rows' = filter (\<lambda>m. am_UserID m = v) rows"
proof (induction rule: agents_step.induct)
  case (agents_change m rows m')
  then show ?case by (intro filter_replace) auto
qed auto

lemma tunnels_step_other:
  "tunnels_step P rows rows' \<Longrightarrow> P \<inter> Q = {} \<Longrightarrow> filter (\<lambda>m. dm_AgentProfileID m \<in> Q) rows' = filter (\<lambda>m. dm_AgentProfileID m \<in> Q) rows"
proof (induction rule: tunnels_step.induct)
  case (tunnels_change m rows m')
  then show ?case by (intro filter_replace) auto
qed auto

lemma acls_step_other:
  "acls_step T rows rows' \<Longrightarrow> T \<inter> S = {} \<Longrightarrow> filter (\<lambda>m. cm_TunnelID m \<in> S) rows' = filter (\<lambda>m. cm_TunnelID m \<in> S) rows"
proof (induction rule: acls_step.induct)
  case (acls_delete rows Q t)
  then show ?case by (induction rows) auto
qed auto

lemma sessions_step_other:
  "sessions_step A rows rows' \<Longrightarrow> A \<inter> B = {} \<Longrightarrow>
     filter (\<lambda>m. TunnelID_AgentID (sm_TunnelID m) \<in> B) rows' = filter (\<lambda>m. TunnelID_AgentID (sm_TunnelID m) \<in> B) rows"
proof (induction rule: sessions_step.induct)
  case (sessions_end rows Q f)
  then show ?case by (induction rows) auto
qed auto

subsection \<open>What a request may do to the tables\<close>

definition profiles :: "nat set \<Rightarrow> dash \<Rightarrow> nat set" where
  "profiles U d = gm_ID ` {m \<in> set (d_agents d). am_UserID m \<in> U}"

definition agent_names :: "nat set \<Rightarrow> dash \<Rightarrow> string set" where
  "agent_names U d = am_AgentID ` {m \<in> set (d_agents d). am_UserID m \<in> U}"

definition dash_step :: "nat set \<Rightarrow> string set \<Rightarrow> dash \<Rightarrow> dash \<Rightarrow> bool" where
  "dash_step U T d d' \<longleftrightarrow> users_step (d_users d) (d_users d') \<and> agents_step U (d_agents d) (d_agents d') \<and>
     tunnels_step (profiles U d) (d_tunnels d) (d_tunnels d') \<and> acls_step T (d_acls d) (d_acls d') \<and>
     sessions_step (agent_names U d) (d_sessions d) (d_sessions d')"

lemma dash_step_refl [intro]: "dash_step U T d d"
  by (simp add: dash_step_def step_same)

lemma dash_step_wf: "dash_step U T d d' \<Longrightarrow> dash_wf d \<Longrightarrow> dash_wf d'"
  unfolding dash_step_def dash_wf_def
  using users_step_wf agents_step_wf tunnels_step_wf acls_step_wf by blast

subsection \<open>The repositories\<close>

lemma orm_specD:
  assumes "orm_spec e"
  shows "gorm_spec user_schema (e_users e)" "gorm_spec agent_schema (e_agents e)" "gorm_spec tunnel_schema (e_tunnels e)"
    "gorm_spec acl_schema (e_acls e)" "gorm_spec session_schema (e_sessions e)" "gorm_spec revoked_schema (e_revoked e)"
    "gorm_spec refresh_schema (e_refresh e)" "gorm_spec token_schema (e_tokens e)" "gorm_spec verification_schema (e_verifications e)"
  using assms by (simp_all add: orm_spec_def)

lemma GetByID_agent:
  assumes "orm_spec e" and "PGAgent_GetByID (e_agents e) i rows = Ok a"
  obtains m where "m \<in> set rows" "gm_DeletedAt m = None" "gm_ID m = i" "a = modelToAgentProfile m"
proof -
  obtain m where f: "gorm_First (e_agents e) (\<lambda>m. gm_ID m = i) rows = Ok m" and a: "a = modelToAgentProfile m"
    using wrap_result_OkD [OF assms(2) [unfolded PGAgent_GetByID_def]] by blast
  from First_OkD [OF orm_specD(2) [OF assms(1)] f] a show ?thesis by (intro that [of m]) (simp_all add: sees_def agent_schema_def)
qed

lemma GetByID_tunnel:
  assumes "orm_spec e" and "PGTunnel_GetByID (e_tunnels e) i rows = Ok t"
  obtains m where "m \<in> set rows" "gm_DeletedAt m = None" "gm_ID m = i" "t = modelToTunnelDef m"
proof -
  obtain m where f: "gorm_First (e_tunnels e) (\<lambda>m. gm_ID m = i) rows = Ok m" and t: "t = modelToTunnelDef m"
    using wrap_result_OkD [OF assms(2) [unfolded PGTunnel_GetByID_def]] by blast
  from First_OkD [OF orm_specD(3) [OF assms(1)] f] t show ?thesis by (intro that [of m]) (simp_all add: sees_def tunnel_schema_def)
qed

lemma GetByID_user:
  assumes "orm_spec e" and "PGUser_GetByID (e_users e) i rows = Ok u"
  obtains m where "m \<in> set rows" "gm_DeletedAt m = None" "gm_ID m = i" "u = modelToUser m"
proof -
  obtain m where f: "gorm_First (e_users e) (\<lambda>m. gm_ID m = i) rows = Ok m" and u: "u = modelToUser m"
    using wrap_result_OkD [OF assms(2) [unfolded PGUser_GetByID_def]] by blast
  from First_OkD [OF orm_specD(1) [OF assms(1)] f] u show ?thesis by (intro that [of m]) (simp_all add: sees_def user_schema_def)
qed

lemma PGUser_Create_step:
  assumes "orm_spec e" and "PGUser_Create (e_users e) u rows = (r, rows')" and "ValidateEmail (us_Email u) = Ok ()" and "us_Name u \<noteq> []"
  shows "users_step rows rows'"
proof (cases rule: create_row_cases [OF orm_specD(1) [OF assms(1)] assms(2) [unfolded PGUser_Create_def]])
  case (2 k t m')
  with assms(3,4) show ?thesis by (auto simp: user_schema_def intro!: users_add)
qed (simp add: users_same)

lemma PGUser_Update_step:
  assumes "orm_spec e" and "users_wf rows" and "m \<in> set rows" and "gm_DeletedAt m = None"
    and "u = (modelToUser m)\<lparr>us_EmailVerified := b\<rparr>" and "PGUser_Update (e_users e) u rows = (r, rows')"
  shows "users_step rows rows'"
proof (cases rule: affected_update_cases [OF orm_specD(1) [OF assms(1)] assms(6) [unfolded PGUser_Update_def]])
  case (2 t)
  from assms(2) have d: "distinct (map gm_ID rows)" by (simp add: users_wf_def)
  from assms(5) have i: "us_ID u = gm_ID m" by (simp add: modelToUser_def)
  show ?thesis
    unfolding 2(2) i user_schema_def rewritten_key [OF d assms(3,4)] using assms(3,5)
    by (intro users_change) (simp_all add: modelToUser_def)
qed (simp add: users_same)

lemma PGAgent_Create_step:
  assumes "orm_spec e" and "PGAgent_Create (e_agents e) a rows = (r, rows')" and "ValidateLabel (ap_AgentID a) = Ok ()" and "ap_UserID a \<in> U"
  shows "agents_step U rows rows'"
proof (cases rule: create_row_cases [OF orm_specD(2) [OF assms(1)] assms(2) [unfolded PGAgent_Create_def]])
  case (2 k t m')
  with assms(3,4) show ?thesis by (auto simp: agent_schema_def intro!: agents_add)
qed (simp add: agents_same)

lemma PGAgent_Update_step:
  assumes "orm_spec e" and "agents_wf rows" and "m \<in> set rows" and "gm_DeletedAt m = None" and "am_UserID m \<in> U"
    and "ap_ID a = gm_ID m" and "ap_AgentID a = am_AgentID m" and "PGAgent_Update (e_agents e) a rows = (r, rows')"
  shows "agents_step U rows rows'"
proof (cases rule: affected_update_cases [OF orm_specD(2) [OF assms(1)] assms(8) [unfolded PGAgent_Update_def]])
  case (2 t)
  from assms(2) have d: "distinct (map gm_ID rows)" by (simp add: agents_wf_def)
  show ?thesis
    unfolding 2(2) assms(6) agent_schema_def rewritten_key [OF d assms(3,4)] using assms(3,5,7)
    by (intro agents_change) simp_all
qed (simp add: agents_same)

lemma PGAgent_Delete_step:
  assumes "orm_spec e" and "agents_wf rows" and "m \<in> set rows" and "gm_DeletedAt m = None" and "am_UserID m \<in> U"
    and "PGAgent_Delete (e_agents e) (gm_ID m) rows = (r, rows')"
  shows "agents_step U rows rows'"
proof (cases rule: affected_delete_cases [OF orm_specD(2) [OF assms(1)] assms(6) [unfolded PGAgent_Delete_def]])
  case (2 t)
  from assms(2) have d: "distinct (map gm_ID rows)" by (simp add: agents_wf_def)
  show ?thesis
    unfolding 2(2) agent_schema_def removed_key [OF d assms(3,4)] using assms(3,5)
    by (intro agents_change) simp_all
qed (simp add: agents_same)

lemma PGTunnel_Create_step:
  assumes "orm_spec e" and "PGTunnel_Create (e_tunnels e) c rows = (r, rows')" and "ValidateLabel (tc_Label c) = Ok ()"
    and "ValidateLocalAddr (tc_LocalAddr c) = Ok ()" and "tc_AgentProfileID c \<in> P"
  shows "tunnels_step P rows rows'"
proof (cases rule: create_row_cases [OF orm_specD(3) [OF assms(1)] assms(2) [unfolded PGTunnel_Create_def]])
  case (2 k t m')
  with assms(3-5) show ?thesis by (auto simp: tunnel_schema_def tunnel_wf_def intro!: tunnels_add)
qed (simp add: tunnels_same)

lemma PGTunnel_Update_step:
  assumes "orm_spec e" and "distinct (map gm_ID rows)" and "m \<in> set rows" and "gm_DeletedAt m = None" and "dm_AgentProfileID m \<in> P"
    and "tc_ID c = gm_ID m" and "tunnel_wf m \<longrightarrow> ValidateLabel (tc_Label c) = Ok () \<and> ValidateLocalAddr (tc_LocalAddr c) = Ok () \<and> tc_TunnelType c \<noteq> []"
    and "PGTunnel_Update (e_tunnels e) c rows = (r, rows')"
  shows "tunnels_step P rows rows'"
proof (cases rule: affected_update_cases [OF orm_specD(3) [OF assms(1)] assms(8) [unfolded PGTunnel_Update_def]])
  case (2 t)
  show ?thesis
    unfolding 2(2) assms(6) tunnel_schema_def rewritten_key [OF assms(2,3,4)] using assms(3,5,7)
    by (intro tunnels_change) (simp_all add: tunnel_wf_def)
qed (simp add: tunnels_same)

lemma PGTunnel_Delete_step:
  assumes "orm_spec e" and "distinct (map gm_ID rows)" and "m \<in> set rows" and "gm_DeletedAt m = None" and "dm_AgentProfileID m \<in> P"
    and "PGTunnel_Delete (e_tunnels e) (gm_ID m) rows = (r, rows')"
  shows "tunnels_step P rows rows'"
proof (cases rule: affected_delete_cases [OF orm_specD(3) [OF assms(1)] assms(6) [unfolded PGTunnel_Delete_def]])
  case (2 t)
  show ?thesis
    unfolding 2(2) tunnel_schema_def removed_key [OF assms(2,3,4)] using assms(3,5)
    by (intro tunnels_change) (simp_all add: tunnel_wf_def)
qed (simp add: tunnels_same)

lemma PGACL_Create_step:
  assumes "orm_spec e" and "PGACL_Create (e_acls e) c rows = (r, rows')" and "acl_TunnelID c \<in> T" and "acl_ACLType c \<in> {''allow'', ''deny''}"
  shows "acls_step T rows rows'"
proof (cases rule: create_row_cases [OF orm_specD(4) [OF assms(1)] assms(2) [unfolded PGACL_Create_def]])
  case (2 k t m')
  with assms(3,4) show ?thesis by (auto simp: acl_schema_def intro!: acls_add)
qed (simp add: acls_same)

lemma PGACL_Delete_step:
  assumes "orm_spec e" and "PGACL_Delete (e_acls e) i rows = (r, rows')"
  shows "acls_step UNIV rows rows'"
proof (cases rule: affected_delete_cases [OF orm_specD(4) [OF assms(1)] assms(2) [unfolded PGACL_Delete_def]])
  case (2 t)
  show ?thesis unfolding 2(2) acl_schema_def removed_model by (rule acls_delete) simp
qed (simp add: acls_same)

lemma PGSession_Deregister_step:
  assumes "orm_spec e" and "PGSession_Deregister (e_sessions e) now t rows = (r, rows')" and "TunnelID_AgentID t \<in> A"
  shows "sessions_step A rows rows'"
proof (cases rule: affected_update_cases [OF orm_specD(5) [OF assms(1)] assms(2) [unfolded PGSession_Deregister_def]])
  case (2 u)
  show ?thesis unfolding 2(2) rewritten_def
    by (rule sessions_end) (use assms(3) in \<open>auto simp: sees_def session_active_def session_schema_def\<close>)
qed (simp add: sessions_same)

subsection \<open>The services\<close>

lemma Agent_Get_row:
  assumes "orm_spec e" and "Agent_Get e u i d = Ok a"
  obtains m where "m \<in> set (d_agents d)" "gm_DeletedAt m = None" "gm_ID m = i" "a = modelToAgentProfile m" "am_UserID m = u"
proof -
  from assms(2) have g: "PGAgent_GetByID (e_agents e) i (d_agents d) = Ok a" and u: "ap_UserID a = u"
    by (auto simp: Agent_Get_def split: result.splits if_splits)
  obtain m where "m \<in> set (d_agents d)" "gm_DeletedAt m = None" "gm_ID m = i" "a = modelToAgentProfile m"
    by (rule GetByID_agent [OF assms(1) g])
  with u show ?thesis by (intro that [of m]) (simp_all add: modelToAgentProfile_def)
qed

lemma Tunnel_agent_eq: "Tunnel_agent = Agent_Get"
  by (intro ext) (simp add: Tunnel_agent_def Agent_Get_def)

lemma dash_step_agents: "agents_step U (d_agents d) rows \<Longrightarrow> dash_step U T d (d\<lparr>d_agents := rows\<rparr>)"
  by (simp add: dash_step_def step_same)

lemma dash_step_agents_tokens: "agents_step U (d_agents d) rows \<Longrightarrow> dash_step U T d (d\<lparr>d_agents := rows, d_tokens := toks\<rparr>)"
  by (simp add: dash_step_def step_same)

lemma dash_step_tunnels: "tunnels_step (profiles U d) (d_tunnels d) rows \<Longrightarrow> dash_step U T d (d\<lparr>d_tunnels := rows\<rparr>)"
  by (simp add: dash_step_def step_same)

lemma Agent_Create_step:
  assumes "orm_spec e" and "Agent_Create e u name agentID d = (r, d')"
  shows "dash_step {u} T d d'"
proof -
  note run = assms(2) [unfolded Agent_Create_def]
  show ?thesis
  proof (cases "ValidateLabel agentID")
    case (Ok x)
    have step: "dash_step {u} T d (d\<lparr>d_agents := rows\<rparr>)" "dash_step {u} T d (d\<lparr>d_agents := rows, d_tokens := toks\<rparr>)"
      if "PGAgent_Create (e_agents e) a (d_agents d) = (q, rows)" "ap_AgentID a = agentID" "ap_UserID a = u" for a q rows toks
      using PGAgent_Create_step [OF assms(1) that(1), of "{u}"] that Ok by (auto intro: dash_step_agents dash_step_agents_tokens)
    show ?thesis
      using run Ok by (auto split: result.splits prod.splits dest: step)
  qed (use run in auto)
qed

lemma Agent_Update_step:
  assumes "orm_spec e" and "dash_wf d" and "Agent_Update e u i name d = (r, d')"
  shows "dash_step {u} T d d'"
proof (cases "Agent_Get e u i d")
  case (Ok a)
  obtain m where m: "m \<in> set (d_agents d)" "gm_DeletedAt m = None" "gm_ID m = i" "a = modelToAgentProfile m" "am_UserID m = u"
    by (rule Agent_Get_row [OF assms(1) Ok])
  obtain q rows where up: "PGAgent_Update (e_agents e) (a\<lparr>ap_Name := name\<rparr>) (d_agents d) = (q, rows)"
    by (cases "PGAgent_Update (e_agents e) (a\<lparr>ap_Name := name\<rparr>) (d_agents d)")
  have "agents_step {u} (d_agents d) rows"
    by (rule PGAgent_Update_step [OF assms(1) _ m(1,2) _ _ _ up])
      (use m assms(2) in \<open>simp_all add: modelToAgentProfile_def dash_wf_def\<close>)
  then show ?thesis
    using assms(3) Ok up by (auto simp: Agent_Update_def Let_def split: result.splits intro: dash_step_agents)
qed (use assms(3) in \<open>auto simp: Agent_Update_def\<close>)

lemma Agent_Delete_step:
  assumes "orm_spec e" and "dash_wf d" and "Agent_Delete e u i d = (r, d')"
  shows "dash_step {u} T d d'"
proof (cases "Agent_Get e u i d")
  case (Ok a)
  obtain m where m: "m \<in> set (d_agents d)" "gm_DeletedAt m = None" "gm_ID m = i" "am_UserID m = u"
    by (rule Agent_Get_row [OF assms(1) Ok])
  obtain q rows where up: "PGAgent_Delete (e_agents e) (gm_ID m) (d_agents d) = (q, rows)"
    by (cases "PGAgent_Delete (e_agents e) (gm_ID m) (d_agents d)")
  have "agents_step {u} (d_agents d) rows"
    by (rule PGAgent_Delete_step [OF assms(1) _ m(1,2) _ up]) (use m assms(2) in \<open>simp_all add: dash_wf_def\<close>)
  then show ?thesis
    using assms(3) Ok up m(3) by (auto simp: Agent_Delete_def intro: dash_step_agents)
qed (use assms(3) in \<open>auto simp: Agent_Delete_def\<close>)

lemma Agent_RotateToken_step:
  assumes "orm_spec e" and "dash_wf d" and "Agent_RotateToken e u i d = (r, d')"
  shows "dash_step {u} T d d'"
proof (cases "Agent_Get e u i d")
  case (Ok a)
  obtain m where m: "m \<in> set (d_agents d)" "gm_DeletedAt m = None" "gm_ID m = i" "a = modelToAgentProfile m" "am_UserID m = u"
    by (rule Agent_Get_row [OF assms(1) Ok])
  have step: "agents_step {u} (d_agents d) rows" if "PGAgent_Update (e_agents e) (a\<lparr>ap_TokenHash := hash\<rparr>) (d_agents d) = (q, rows)" for hash q rows
    by (rule PGAgent_Update_step [OF assms(1) _ m(1,2) _ _ _ that])
      (use m assms(2) in \<open>simp_all add: modelToAgentProfile_def dash_wf_def\<close>)
  show ?thesis
    using assms(3) Ok
    by (auto simp: Agent_RotateToken_def Let_def split: result.splits prod.splits dest: step intro: dash_step_agents dash_step_agents_tokens)
qed (use assms(3) in \<open>auto simp: Agent_RotateToken_def\<close>)

lemma Tunnel_Create_step:
  assumes "orm_spec e" and "Tunnel_Create e u i label addr ty d = (r, d')"
  shows "dash_step {u} T d d'"
proof (cases "rbind (Tunnel_agent e u i d) (\<lambda>_. rbind (ValidateLabel label) (\<lambda>_. ValidateLocalAddr addr))")
  case (Ok x)
  then obtain a where a: "Agent_Get e u i d = Ok a" and v: "ValidateLabel label = Ok ()" "ValidateLocalAddr addr = Ok ()"
    by (auto simp: rbind_eq_Ok_iff Tunnel_agent_eq)
  obtain m where m: "m \<in> set (d_agents d)" "gm_ID m = i" "am_UserID m = u"
    by (rule Agent_Get_row [OF assms(1) a])
  then have "i \<in> profiles {u} d" by (auto simp: profiles_def)
  with v have step: "tunnels_step (profiles {u} d) (d_tunnels d) rows"
    if "PGTunnel_Create (e_tunnels e) c (d_tunnels d) = (q, rows)" "tc_Label c = label" "tc_LocalAddr c = addr" "tc_AgentProfileID c = i" for c q rows
    using PGTunnel_Create_step [OF assms(1) that(1), of "profiles {u} d"] that by simp
  show ?thesis
    using assms(2) Ok by (auto simp: Tunnel_Create_def Let_def split: result.splits prod.splits dest: step intro: dash_step_tunnels)
qed (use assms(2) in \<open>auto simp: Tunnel_Create_def\<close>)

lemma Tunnel_Get_row:
  assumes "orm_spec e" and "Tunnel_Get e u i k d = Ok t"
  obtains m where "m \<in> set (d_tunnels d)" "gm_DeletedAt m = None" "gm_ID m = k" "t = modelToTunnelDef m"
    "dm_AgentProfileID m \<in> profiles {u} d"
proof -
  from assms(2) obtain a where a: "Agent_Get e u i d = Ok a" and t: "PGTunnel_GetByID (e_tunnels e) k (d_tunnels d) = Ok t" "tc_AgentProfileID t = i"
    by (auto simp: Tunnel_Get_def rbind_eq_Ok_iff Tunnel_agent_eq split: result.splits if_splits)
  obtain m where m: "m \<in> set (d_agents d)" "gm_ID m = i" "am_UserID m = u" by (rule Agent_Get_row [OF assms(1) a])
  obtain n where n: "n \<in> set (d_tunnels d)" "gm_DeletedAt n = None" "gm_ID n = k" "t = modelToTunnelDef n"
    by (rule GetByID_tunnel [OF assms(1) t(1)])
  from m n t(2) show ?thesis by (intro that [of n]) (auto simp: profiles_def modelToTunnelDef_def)
qed

lemma tunnel_changes_valid:
  assumes "tunnel_changes label addr ty t = Ok c"
  shows "tc_ID c = tc_ID t" "ValidateLabel (tc_Label t) = Ok () \<Longrightarrow> ValidateLabel (tc_Label c) = Ok ()"
    "ValidateLocalAddr (tc_LocalAddr t) = Ok () \<Longrightarrow> ValidateLocalAddr (tc_LocalAddr c) = Ok ()"
    "tc_TunnelType t \<noteq> [] \<Longrightarrow> tc_TunnelType c \<noteq> []"
  using assms by (auto simp: tunnel_changes_def rbind_eq_Ok_iff split: if_splits)

lemma Tunnel_Update_step:
  assumes "orm_spec e" and "dash_wf d" and "Tunnel_Update e u i k label addr ty d = (r, d')"
  shows "dash_step {u} T d d'"
proof (cases "rbind (Tunnel_Get e u i k d) (tunnel_changes label addr ty)")
  case (Ok c)
  then obtain t where t: "Tunnel_Get e u i k d = Ok t" and c: "tunnel_changes label addr ty t = Ok c"
    by (auto simp: rbind_eq_Ok_iff)
  obtain m where m: "m \<in> set (d_tunnels d)" "gm_DeletedAt m = None" "gm_ID m = k" "t = modelToTunnelDef m"
    "dm_AgentProfileID m \<in> profiles {u} d" by (rule Tunnel_Get_row [OF assms(1) t])
  have step: "tunnels_step (profiles {u} d) (d_tunnels d) rows" if "PGTunnel_Update (e_tunnels e) c (d_tunnels d) = (q, rows)" for q rows
    by (rule PGTunnel_Update_step [OF assms(1) _ m(1,2,5) _ _ that])
      (use m(4) assms(2) tunnel_changes_valid [OF c] in \<open>simp_all add: modelToTunnelDef_def dash_wf_def tunnel_wf_def\<close>)
  show ?thesis
    using assms(3) Ok by (auto simp: Tunnel_Update_def split: result.splits prod.splits dest: step intro: dash_step_tunnels)
qed (use assms(3) in \<open>auto simp: Tunnel_Update_def\<close>)

lemma Tunnel_Delete_step:
  assumes "orm_spec e" and "dash_wf d" and "Tunnel_Delete e u i k d = (r, d')"
  shows "dash_step {u} T d d'"
proof (cases "Tunnel_Get e u i k d")
  case (Ok t)
  obtain m where m: "m \<in> set (d_tunnels d)" "gm_DeletedAt m = None" "gm_ID m = k" "dm_AgentProfileID m \<in> profiles {u} d"
    by (rule Tunnel_Get_row [OF assms(1) Ok])
  have step: "tunnels_step (profiles {u} d) (d_tunnels d) rows" if "PGTunnel_Delete (e_tunnels e) k (d_tunnels d) = (q, rows)" for q rows
    using PGTunnel_Delete_step [OF assms(1) _ m(1,2,4), of q rows] that m(3) assms(2) by (simp add: dash_wf_def)
  show ?thesis
    using assms(3) Ok by (auto simp: Tunnel_Delete_def split: prod.splits dest: step intro: dash_step_tunnels)
qed (use assms(3) in \<open>auto simp: Tunnel_Delete_def\<close>)

text \<open>The other services leave the five tables alone, apart from the users.\<close>

definition core :: "dash \<Rightarrow> UserModel list \<times> AgentProfileModel list \<times> TunnelDefinitionModel list \<times> TunnelACLModel list \<times> TunnelSessionModel list" where
  "core d = (d_users d, d_agents d, d_tunnels d, d_acls d, d_sessions d)"

lemma core_step: "core d' = core d \<Longrightarrow> dash_step U T d d'"
  by (simp add: core_def dash_step_def step_same)

lemma core_users_step: "core d' = core (d\<lparr>d_users := rows\<rparr>) \<Longrightarrow> users_step (d_users d) rows \<Longrightarrow> dash_step U T d d'"
  by (simp add: core_def dash_step_def step_same)

lemma core_upd [simp]:
  "core (d\<lparr>d_verifications := a\<rparr>) = core d" "core (d\<lparr>d_mails := b\<rparr>) = core d" "core (d\<lparr>d_refresh := c\<rparr>) = core d"
  "core (d\<lparr>d_revoked := v\<rparr>) = core d" "core (d\<lparr>d_audit := w\<rparr>) = core d"
  by (simp_all add: core_def)

lemma core_users_verifications [simp]:
  "core (d\<lparr>d_users := rows, d_verifications := a\<rparr>) = core (d\<lparr>d_users := rows\<rparr>)"
  by (simp add: core_def)

lemma core_sendVerification [simp]: "core (sendVerification svc a n u d) = core d"
  by (simp add: sendVerification_def)

lemma core_issue_verification: "issue_verification e svc user token d = (r, d') \<Longrightarrow> core d' = core d"
  by (auto simp: issue_verification_def split: prod.splits result.splits)

lemma core_issue_refresh: "issue_refresh e svc u out d = (out', d') \<Longrightarrow> core d' = core d"
  by (auto simp: issue_refresh_def Let_def split: if_splits prod.splits result.splits)

lemma core_Login: "Auth_Login e svc email pw d = (r, d') \<Longrightarrow> core d' = core d"
  by (auto simp: Auth_Login_def split: if_splits result.splits prod.splits dest: core_issue_refresh)

lemma core_Resend [simp]: "core (Auth_ResendVerification e svc email d) = core d"
  using core_issue_verification [OF prod.collapse [symmetric]]
  by (auto simp: Auth_ResendVerification_def Let_def split: result.split)

lemma core_RevokeSession [simp]: "core (Auth_RevokeSession e svc j t rj b d) = core d"
  by (simp add: Auth_RevokeSession_def Let_def)

lemma core_Audit_Log [simp]: "core (Audit_Log b now ty a t ip md d) = core d"
  by (simp add: Audit_Log_def)

lemma Auth_Register_step:
  assumes "orm_spec e" and "Auth_Register e svc inp d = (r, d')"
  shows "dash_step U T d d'"
proof -
  note run = assms(2) [unfolded Auth_Register_def]
  show ?thesis
  proof (cases "ValidateEmail (ri_Email inp) = Ok () \<and> \<not> length (ri_Password inp) < 8 \<and> ri_Name inp \<noteq> []")
    case True
    have step: "users_step (d_users d) rows"
      if "PGUser_Create (e_users e) u (d_users d) = (q, rows)" "us_Email u = ri_Email inp" "us_Name u = ri_Name inp" for u q rows
      using PGUser_Create_step [OF assms(1) that(1)] that True by simp
    have *: "dash_step U T d d1" if "PGUser_Create (e_users e) u (d_users d) = (q, rows)" "us_Email u = ri_Email inp" "us_Name u = ri_Name inp"
      "core d1 = core (d\<lparr>d_users := rows\<rparr>)" for u q rows d1
      using core_users_step [OF that(4) step [OF that(1-3)]] .
    show ?thesis
      using run True
      by (auto simp: Let_def split: result.splits prod.splits dest!: core_issue_verification) (erule *, simp_all)+
  next
    case False
    with run show ?thesis by (auto split: result.splits if_splits)
  qed
qed

lemma Auth_VerifyEmail_step:
  assumes "orm_spec e" and "dash_wf d" and "Auth_VerifyEmail e svc token d = (r, d')"
  shows "dash_step U T d d'"
proof -
  have step: "users_step (d_users d) rows"
    if g: "PGUser_GetByID (e_users e) i (d_users d) = Ok u"
      and up: "PGUser_Update (e_users e) (u\<lparr>us_EmailVerified := True\<rparr>) (d_users d) = (q, rows)" for i u q rows
  proof -
    obtain m where m: "m \<in> set (d_users d)" "gm_DeletedAt m = None" "u = modelToUser m" by (rule GetByID_user [OF assms(1) g])
    from assms(2) have "users_wf (d_users d)" by (simp add: dash_wf_def)
    from PGUser_Update_step [OF assms(1) this m(1,2) _ up] m(3) show ?thesis by simp
  qed
  have *: "dash_step U T d d1" if "PGUser_GetByID (e_users e) i (d_users d) = Ok u"
    "PGUser_Update (e_users e) (u\<lparr>us_EmailVerified := True\<rparr>) (d_users d) = (q, rows)" "core d1 = core (d\<lparr>d_users := rows\<rparr>)" for i u q rows d1
    using core_users_step [OF that(3) step [OF that(1,2)]] .
  show ?thesis
    using assms(3) by (auto simp: Auth_VerifyEmail_def Let_def split: if_splits result.splits prod.splits intro: *)
qed

subsection \<open>The handlers\<close>

lemma respond_state: "respond ok res = (resp, d') \<Longrightarrow> snd res = d'"
  by (auto simp: respond_def split: prod.splits result.splits)

lemma respond_step: "respond ok res = (resp, d') \<Longrightarrow> (\<And>r. res = (r, d') \<Longrightarrow> P) \<Longrightarrow> P"
  using respond_state [of ok res resp d'] by (metis prod.collapse)

lemma public_steps:
  assumes "orm_spec e" and "dash_wf d"
  shows "AuthHandler_Register e h r d = (resp, d') \<Longrightarrow> dash_step U T d d'"
    "AuthHandler_Login e Error h r d = (resp, d') \<Longrightarrow> dash_step U T d d'"
    "AuthHandler_Refresh e h r d = (resp, d') \<Longrightarrow> dash_step U T d d'"
    "AuthHandler_ResendVerification e h r d = (resp, d') \<Longrightarrow> dash_step U T d d'"
    "AuthHandler_VerifyEmail e h r d = (resp, d') \<Longrightarrow> dash_step U T d d'"
    "AuthHandler_Logout e h ctx r d = (resp, d') \<Longrightarrow> dash_step U T d d'"
proof -
  show "AuthHandler_Register e h r d = (resp, d') \<Longrightarrow> dash_step U T d d'"
    by (auto simp: AuthHandler_Register_def split: body.splits elim!: respond_step intro: Auth_Register_step [OF assms(1)])
  show "AuthHandler_Login e Error h r d = (resp, d') \<Longrightarrow> dash_step U T d d'"
    by (auto simp: AuthHandler_Login_def Let_def split: body.splits prod.splits result.splits dest!: core_Login intro!: core_step)
  show "AuthHandler_Refresh e h r d = (resp, d') \<Longrightarrow> dash_step U T d d'"
    by (auto simp: AuthHandler_Refresh_def split: option.splits if_splits elim!: respond_step)
  show "AuthHandler_ResendVerification e h r d = (resp, d') \<Longrightarrow> dash_step U T d d'"
    by (auto simp: AuthHandler_ResendVerification_def split: body.splits intro!: core_step)
  show "AuthHandler_VerifyEmail e h r d = (resp, d') \<Longrightarrow> dash_step U T d d'"
    by (auto simp: AuthHandler_VerifyEmail_def split: prod.splits result.splits dest!: Auth_VerifyEmail_step [OF assms])
  show "AuthHandler_Logout e h ctx r d = (resp, d') \<Longrightarrow> dash_step U T d d'"
    by (auto simp: AuthHandler_Logout_def Let_def split: option.splits if_splits intro!: core_step)
qed

definition acting :: "reqctx \<Rightarrow> nat set" where
  "acting ctx = set_option (cx_userID ctx)"

lemma with_user_step:
  assumes "with_user ctx d h = (resp, d')" and "\<And>u. cx_userID ctx = Some u \<Longrightarrow> h u = (resp, d') \<Longrightarrow> dash_step {u} T d d'"
  shows "dash_step (acting ctx) T d d'"
  using assms by (cases "cx_userID ctx") (auto simp: with_user_def acting_def)

lemma agent_of_path_step:
  assumes "agent_of_path r d h = (resp, d')" and "\<And>i. h i = (resp, d') \<Longrightarrow> dash_step U T d d'"
  shows "dash_step U T d d'"
  using assms by (auto simp: agent_of_path_def split: option.splits)

text \<open>The tunnels whose access rules a request may touch: those of the agents of its user, and any for the delete endpoint.\<close>

definition rule_scope :: "endpoint \<Rightarrow> nat set \<Rightarrow> dash \<Rightarrow> string set" where
  "rule_scope ep U d = (if ep = ACLDelete then UNIV else NewTunnelID ` agent_names U d)"

lemma agent_steps:
  assumes "orm_spec e" and "dash_wf d"
  shows "AgentHandler_Create e ctx r d = (resp, d') \<Longrightarrow> dash_step (acting ctx) T d d'"
    "AgentHandler_List e ctx d = (resp, d') \<Longrightarrow> dash_step (acting ctx) T d d'"
    "AgentHandler_Get e ctx r d = (resp, d') \<Longrightarrow> dash_step (acting ctx) T d d'"
    "AgentHandler_Update e ctx r d = (resp, d') \<Longrightarrow> dash_step (acting ctx) T d d'"
    "AgentHandler_Delete e ctx r d = (resp, d') \<Longrightarrow> dash_step (acting ctx) T d d'"
    "AgentHandler_RotateToken e ctx r d = (resp, d') \<Longrightarrow> dash_step (acting ctx) T d d'"
  unfolding AgentHandler_Create_def AgentHandler_List_def AgentHandler_Get_def AgentHandler_Update_def AgentHandler_Delete_def
    AgentHandler_RotateToken_def
  by (erule with_user_step, (erule agent_of_path_step)?,
      auto split: body.splits if_splits option.splits elim!: respond_step
        dest: Agent_Create_step [OF assms(1)] Agent_Update_step [OF assms] Agent_Delete_step [OF assms] Agent_RotateToken_step [OF assms])+

lemma tunnel_steps:
  assumes "orm_spec e" and "dash_wf d"
  shows "TunnelHandler_Create e ctx r d = (resp, d') \<Longrightarrow> dash_step (acting ctx) T d d'"
    "TunnelHandler_List e ctx r d = (resp, d') \<Longrightarrow> dash_step (acting ctx) T d d'"
    "TunnelHandler_Get e ctx r d = (resp, d') \<Longrightarrow> dash_step (acting ctx) T d d'"
    "TunnelHandler_Update e ctx r d = (resp, d') \<Longrightarrow> dash_step (acting ctx) T d d'"
    "TunnelHandler_Delete e ctx r d = (resp, d') \<Longrightarrow> dash_step (acting ctx) T d d'"
  unfolding TunnelHandler_Create_def TunnelHandler_List_def TunnelHandler_Get_def TunnelHandler_Update_def TunnelHandler_Delete_def
  by (erule with_user_step, auto split: body.splits option.splits prod.splits elim!: respond_step
        dest: Tunnel_Create_step [OF assms(1)] Tunnel_Update_step [OF assms] Tunnel_Delete_step [OF assms])+

lemma dash_step_acls: "acls_step T (d_acls d) rows \<Longrightarrow> dash_step U T d (d\<lparr>d_acls := rows\<rparr>)"
  by (simp add: dash_step_def step_same)

lemma dash_step_sessions: "sessions_step (agent_names U d) (d_sessions d) rows \<Longrightarrow> dash_step U T d (d\<lparr>d_sessions := rows\<rparr>)"
  by (simp add: dash_step_def step_same)

lemma Agent_Get_tunnel:
  assumes "orm_spec e" and "Agent_Get e u i d = Ok a"
  shows "NewTunnelID (ap_AgentID a) \<in> NewTunnelID ` agent_names {u} d"
proof -
  obtain m where "m \<in> set (d_agents d)" "a = modelToAgentProfile m" "am_UserID m = u" by (rule Agent_Get_row [OF assms])
  then show ?thesis by (auto simp: agent_names_def modelToAgentProfile_def)
qed

lemma ACLHandler_Create_step:
  assumes "orm_spec e" and "ACLHandler_Create e ctx r d = (resp, d')"
  shows "dash_step (acting ctx) (NewTunnelID ` agent_names (acting ctx) d) d d'"
proof -
  have "dash_step (acting ctx) (NewTunnelID ` agent_names {u} d) d d'" if "cx_userID ctx = Some u" for u
    using assms(2) that unfolding ACLHandler_Create_def
    by (elim with_user_step agent_of_path_step)
      (auto split: result.splits body.splits if_splits prod.splits dest!: Agent_Get_tunnel [OF assms(1)]
        intro!: dash_step_acls elim!: PGACL_Create_step [OF assms(1)])
  then show ?thesis
    using assms(2) by (cases "cx_userID ctx") (auto simp: acting_def ACLHandler_Create_def with_user_def)
qed

lemma status_steps:
  assumes "orm_spec e"
  shows "ACLHandler_List e ctx r d = (resp, d') \<Longrightarrow> dash_step (acting ctx) T d d'"
    "ACLHandler_Delete e ctx r d = (resp, d') \<Longrightarrow> dash_step (acting ctx) UNIV d d'"
    "StatusHandler_AgentStatus e ctx r d = (resp, d') \<Longrightarrow> dash_step (acting ctx) T d d'"
    "StatusHandler_ListSessions e d = (resp, d') \<Longrightarrow> dash_step (acting ctx) T d d'"
    "AuthHandler_Me e ctx d = (resp, d') \<Longrightarrow> dash_step (acting ctx) T d d'"
    "SSEHandler_Stream e ctx d = (resp, d') \<Longrightarrow> dash_step (acting ctx) T d d'"
    "AuditHandler_List parse query r d = (resp, d') \<Longrightarrow> dash_step (acting ctx) T d d'"
proof -
  show "ACLHandler_List e ctx r d = (resp, d') \<Longrightarrow> dash_step (acting ctx) T d d'"
    unfolding ACLHandler_List_def by (erule with_user_step, erule agent_of_path_step) (auto split: result.splits)
  show "ACLHandler_Delete e ctx r d = (resp, d') \<Longrightarrow> dash_step (acting ctx) UNIV d d'"
    unfolding ACLHandler_Delete_def
    by (erule with_user_step) (auto simp: Let_def split: if_splits option.splits result.splits prod.splits
        intro!: dash_step_acls elim!: PGACL_Delete_step [OF assms])
  show "StatusHandler_AgentStatus e ctx r d = (resp, d') \<Longrightarrow> dash_step (acting ctx) T d d'"
    unfolding StatusHandler_AgentStatus_def
    by (erule with_user_step, erule agent_of_path_step) (auto split: result.splits if_splits)
  show "AuthHandler_Me e ctx d = (resp, d') \<Longrightarrow> dash_step (acting ctx) T d d'"
    unfolding AuthHandler_Me_def by (erule with_user_step) auto
  show "SSEHandler_Stream e ctx d = (resp, d') \<Longrightarrow> dash_step (acting ctx) T d d'"
    unfolding SSEHandler_Stream_def by (erule with_user_step) (auto split: prod.splits)
qed (auto simp: StatusHandler_ListSessions_def AuditHandler_List_def split: option.splits)

lemma GetByAgentID_name:
  assumes "orm_spec e" and "PGAgent_GetByAgentID (e_agents e) i (d_agents d) = Ok a"
  shows "i \<in> agent_names {ap_UserID a} d"
proof -
  obtain m where f: "gorm_First (e_agents e) (\<lambda>m. am_AgentID m = i) (d_agents d) = Ok m" and a: "a = modelToAgentProfile m"
    using wrap_result_OkD [OF assms(2) [unfolded PGAgent_GetByAgentID_def]] by blast
  from First_OkD [OF orm_specD(2) [OF assms(1)] f] a show ?thesis
    by (auto simp: agent_names_def modelToAgentProfile_def sees_def image_iff intro: bexI [of _ m])
qed

lemma DeleteSession_step:
  assumes "orm_spec e" and "StatusHandler_DeleteSession e ctx r d = (resp, d')"
  shows "dash_step (acting ctx) T d d'"
  using assms(2) unfolding StatusHandler_DeleteSession_def Let_def TunnelID_AgentID_def [symmetric]
  by (elim with_user_step) (auto split: if_splits result.splits prod.splits dest!: GetByAgentID_name [OF assms(1)]
    intro!: dash_step_sessions elim!: PGSession_Deregister_step [OF assms(1)])

lemma protected_step:
  assumes "orm_spec e" and "dash_wf d" and "protected parse query e opts ep ctx r d = (resp, d')"
  shows "dash_step (acting ctx) (rule_scope ep (acting ctx) d) d d'"
  using assms(3)
  by (cases ep) (auto simp: protected_def rule_scope_def
    intro: public_steps [OF assms(1,2)] agent_steps [OF assms(1,2)] tunnel_steps [OF assms(1,2)] status_steps [OF assms(1)]
      ACLHandler_Create_step [OF assms(1)] DeleteSession_step [OF assms(1)])

lemma limited_step:
  assumes "NewRateLimitMiddleware rpm fresh allow reserve now next r d vs = (resp, d', vs')"
    and "\<And>resp. next d = (resp, d') \<Longrightarrow> dash_step U T d d'"
  shows "dash_step U T d d'"
  using assms by (auto simp: NewRateLimitMiddleware_def Let_def split: prod.splits if_splits)

text \<open>The users a request acts for: the one its token names, if the middleware lets it through.\<close>

definition actors :: "env \<Rightarrow> ServerOptions \<Rightarrow> request \<Rightarrow> dash \<Rightarrow> nat set" where
  "actors e opts r d = (case JWTAuthMiddleware e (jc_Secret (so_JWTCfg opts)) (so_RevokedJTIs opts) r d of
     Inl resp \<Rightarrow> {} | Inr ctx \<Rightarrow> acting ctx)"

definition request_scope :: "ServerOptions \<Rightarrow> request \<Rightarrow> nat set \<Rightarrow> dash \<Rightarrow> string set" where
  "request_scope opts r U d = (case api_route opts (rq_Method r) (rq_Path r) of Some ep \<Rightarrow> rule_scope ep U d | None \<Rightarrow> {})"

lemma serve_step:
  assumes "orm_spec e" and "dash_wf d" and "serve lm Error parse query e opts r d vs = (resp, d', vs')"
  shows "dash_step (actors e opts r d) (request_scope opts r (actors e opts r d) d) d d'"
proof (cases "api_route opts (rq_Method r) (rq_Path r)")
  case (Some ep)
  note pub = public_steps [OF assms(1,2)]
  have prot: "dash_step (actors e opts r d) (request_scope opts r (actors e opts r d) d) d d1"
    if "JWTAuthMiddleware e (jc_Secret (so_JWTCfg opts)) (so_RevokedJTIs opts) r d = Inr ctx"
      "protected parse query e opts ep ctx r d = (q, d1)" for ctx q d1
    using protected_step [OF assms(1,2) that(2)] that(1) Some by (simp add: actors_def request_scope_def)
  show ?thesis
    using assms(3) Some
    by (cases ep) (auto simp: serve_def Let_def split: option.splits sum.splits prod.splits elim!: limited_step intro: pub prot)
qed (use assms(3) in \<open>auto simp: serve_def Let_def split: option.splits\<close>)

subsection \<open>Properties\<close>

text \<open>C12: Every request keeps the dashboard's tables well formed: the keys, the emails and the agent ids stay unique, also among
  soft-deleted rows, every email, agent id, tunnel label and local address stored passes its validation, every tunnel has a
  type, and every access rule is an allow or a deny rule.\<close>

theorem dashboard_wf:
  assumes "orm_spec e" and "dash_wf d" and "serve lm Error parse query e opts r d vs = (resp, d', vs')"
  shows "dash_wf d'"
  using dash_step_wf [OF serve_step [OF assms] assms(2)] .

lemma owners_disjoint:
  assumes "dash_wf d" and "v \<notin> U"
  shows "profiles U d \<inter> profiles {v} d = {}" "agent_names U d \<inter> agent_names {v} d = {}"
proof -
  from assms(1) have "distinct (map gm_ID (d_agents d))" "distinct (map am_AgentID (d_agents d))"
    by (simp_all add: dash_wf_def agents_wf_def)
  then have "gm_ID x = gm_ID y \<Longrightarrow> x = y" "am_AgentID x = am_AgentID y \<Longrightarrow> x = y"
    if "x \<in> set (d_agents d)" "y \<in> set (d_agents d)" for x y
    using that by (auto simp: distinct_map inj_on_def)
  with assms(2) show "profiles U d \<inter> profiles {v} d = {}" "agent_names U d \<inter> agent_names {v} d = {}"
    unfolding profiles_def agent_names_def by fast+
qed

text \<open>C6: Tenants are isolated. A request that is not authenticated as user v, whatever its method, path, body and headers,
  neither changes nor adds nor removes an agent of v, a tunnel of an agent of v, an access rule of a tunnel of v or a session of
  an agent of v. The endpoint that deletes access rules is the only exception.\<close>

theorem tenant_isolation:
  assumes "orm_spec e" and "dash_wf d" and "serve lm Error parse query e opts r d vs = (resp, d', vs')"
    and "v \<notin> actors e opts r d" and "api_route opts (rq_Method r) (rq_Path r) \<noteq> Some ACLDelete"
  shows "filter (\<lambda>m. am_UserID m = v) (d_agents d') = filter (\<lambda>m. am_UserID m = v) (d_agents d) \<and>
    filter (\<lambda>m. dm_AgentProfileID m \<in> profiles {v} d) (d_tunnels d') = filter (\<lambda>m. dm_AgentProfileID m \<in> profiles {v} d) (d_tunnels d) \<and>
    filter (\<lambda>m. cm_TunnelID m \<in> NewTunnelID ` agent_names {v} d) (d_acls d') =
      filter (\<lambda>m. cm_TunnelID m \<in> NewTunnelID ` agent_names {v} d) (d_acls d) \<and>
    filter (\<lambda>m. TunnelID_AgentID (sm_TunnelID m) \<in> agent_names {v} d) (d_sessions d') =
      filter (\<lambda>m. TunnelID_AgentID (sm_TunnelID m) \<in> agent_names {v} d) (d_sessions d)"
proof -
  let ?U = "actors e opts r d"
  note st = serve_step [OF assms(1-3), unfolded dash_step_def] and dj = owners_disjoint [OF assms(2,4)]
  have "request_scope opts r ?U d \<inter> NewTunnelID ` agent_names {v} d = {}"
    using assms(5) dj(2) by (auto simp: request_scope_def rule_scope_def split: option.splits)
  with st dj assms(4) show ?thesis
    by (intro conjI agents_step_other [of ?U] tunnels_step_other [of "profiles ?U d"] acls_step_other [of "request_scope opts r ?U d"]
        sessions_step_other [of "agent_names ?U d"]) auto
qed

text \<open>C33: The endpoint that deletes an access rule checks the agent in its path, not the rule. A caller with any agent of their
  own can delete every live rule by its number, whichever tunnel and user it belongs to.\<close>

theorem acl_delete_ignores_owner:
  assumes "orm_spec e" and "cx_userID ctx = Some u" and "Agent_Get e u i d = Ok a"
    and "Split (CHR ''/'') (TrimPrefix (rq_Path r) ''/api/v1/agents/'') = [s, kind, w]" and "ParseUint s = Some i" and "ParseUint w = Some (gm_ID rule)"
    and "rule \<in> set (d_acls d)" and "gm_DeletedAt rule = None"
    and "gorm_Delete (e_acls e) (\<lambda>m. gm_ID m = gm_ID rule) (d_acls d) = ((n, None), rows)"
  shows "rp_Status (fst (ACLHandler_Delete e ctx r d)) = 204 \<and>
    (\<exists>t. rule\<lparr>gm_DeletedAt := Some t\<rparr> \<in> set (d_acls (snd (ACLHandler_Delete e ctx r d)))) \<and>
    rule \<notin> set (d_acls (snd (ACLHandler_Delete e ctx r d)))"
proof -
  let ?P = "\<lambda>m. gm_ID m = gm_ID rule"
  have n: "n = length (filter (sees acl_schema ?P) (d_acls d))" and rows: "\<exists>t. rows = removed acl_schema ?P t (d_acls d)"
    using orm_specD(4) [OF assms(1)] assms(9) by (auto simp: gorm_spec_def delete_spec_def removed_def)
  then obtain t where t: "rows = map (\<lambda>m. if gm_DeletedAt m = None \<and> ?P m then m\<lparr>gm_DeletedAt := Some t\<rparr> else m) (d_acls d)"
    by (auto simp: acl_schema_def removed_model)
  have "sees acl_schema ?P rule" using assms(8) by (simp add: sees_def acl_schema_def)
  with n assms(7) have "n \<noteq> 0" by (auto simp: filter_empty_conv)
  with assms(9) have del: "PGACL_Delete (e_acls e) (gm_ID rule) (d_acls d) = (Ok (), rows)"
    by (simp add: PGACL_Delete_def affected_def)
  have run: "ACLHandler_Delete e ctx r d = (writeJSON 204 NoContent, d\<lparr>d_acls := rows\<rparr>)"
    by (simp add: ACLHandler_Delete_def with_user_def assms(2-6) del)
  have "x\<lparr>gm_DeletedAt := Some t\<rparr> \<noteq> rule" for x :: TunnelACLModel
    using assms(8) by (metis gormModel.select_convs(4) gormModel.surjective gormModel.update_convs(4) option.distinct(1))
  then have "rule \<notin> set rows" using assms(8) unfolding t by auto
  moreover have "rule\<lparr>gm_DeletedAt := Some t\<rparr> \<in> set rows" using assms(7,8) unfolding t by force
  ultimately show ?thesis unfolding run by (auto simp: writeJSON_def)
qed

subsection \<open>Two tenants\<close>

text \<open>User 1 owns agent 1, user 2 owns agent 2 with one tunnel and one access rule.\<close>

definition agent_row :: "nat \<Rightarrow> nat \<Rightarrow> string \<Rightarrow> AgentProfileModel" where
  "agent_row k u name =
     \<lparr> gm_ID = k, gm_CreatedAt = 0, gm_UpdatedAt = 0, gm_DeletedAt = None, am_UserID = u, am_Name = name, am_AgentID = name,
       am_TokenHash = ''h'' @ name, am_Scopes = [], am_TokenExpiresAt = None, am_LastUsedAt = None, am_FailedAuthCount = 0,
       am_LockedUntil = None \<rparr>"

definition rule_row :: TunnelACLModel where
  "rule_row = \<lparr> gm_ID = 7, gm_CreatedAt = 0, gm_UpdatedAt = 0, gm_DeletedAt = None, cm_TunnelID = ''t-b'', cm_ACLType = ''deny'', cm_CIDR = ''10.0.0.0/8'' \<rparr>"

definition tunnel_row :: TunnelDefinitionModel where
  "tunnel_row = \<lparr> gm_ID = 1, gm_CreatedAt = 0, gm_UpdatedAt = 0, gm_DeletedAt = None, dm_AgentProfileID = 2, dm_Label = ''web'', dm_LocalAddr = ''localhost:80'', dm_TunnelType = ''tcp'' \<rparr>"

definition two_tenants :: dash where
  "two_tenants =
     \<lparr> d_users = [], d_verifications = [], d_agents = [agent_row 1 1 ''a'', agent_row 2 2 ''b''], d_tokens = [], d_tunnels = [tunnel_row],
       d_refresh = [], d_revoked = [], d_acls = [rule_row], d_sessions = [], d_mails = [], d_audit = [] \<rparr>"

text \<open>Every token is one of user 1.\<close>

definition env_example :: env where
  "env_example =
     \<lparr> e_gen = (\<lambda>p. Ok (''h'' @ p)), e_cmp = (\<lambda>h p. h = ''h'' @ p), e_sign = (\<lambda>k c. Ok ''jwt''),
       e_parse = (\<lambda>k strict now t. Some [(''sub'', CFloat 1), (''jti'', CStr ''j1'')]), e_now = (\<lambda>i. int i), e_rand = (\<lambda>i. Ok [1]),
       e_users = rows_gorm user_schema 0, e_verifications = rows_gorm verification_schema 0, e_agents = rows_gorm agent_schema 0,
       e_tokens = rows_gorm token_schema 0, e_tunnels = rows_gorm tunnel_schema 0, e_refresh = rows_gorm refresh_schema 0,
       e_revoked = rows_gorm revoked_schema 0, e_acls = rows_gorm acl_schema 0, e_sessions = rows_gorm session_schema 0 \<rparr>"

definition opts_example :: ServerOptions where
  "opts_example =
     \<lparr> so_JWTCfg = \<lparr> jc_Secret = ''s'', jc_TTL = 3600 * 1000000000 \<rparr>, so_BaseURL = ''http://x'', so_EmailService = True,
       so_RevokedJTIs = True, so_RefreshTokens = True, so_RefreshTokenEnabled = True, so_RefreshTokenTTL = 0,
       so_AuthRateLimitRPM = 0, so_TunnelACLs = True, so_AuditRepo = True \<rparr>"

definition delete_request :: "string \<Rightarrow> request" where
  "delete_request path =
     \<lparr> rq_Method = ''DELETE'', rq_Path = path, rq_Query = (\<lambda>_. []), rq_Header = (\<lambda>_. []), rq_Cookie = (\<lambda>_. Some ''jwt''),
       rq_RemoteAddr = ''1.2.3.4:5'', rq_Body = BadJSON \<rparr>"

lemma env_example_spec: "orm_spec env_example"
  by (simp add: orm_spec_def env_example_def rows_gorm_spec)

lemma two_tenants_wf: "dash_wf two_tenants"
  by (simp add: dash_wf_def two_tenants_def users_wf_def agents_wf_def agent_row_def tunnel_wf_def tunnel_row_def rule_row_def
      ValidateLabel_def MatchString_label ValidateLocalAddr_def label_char_def in_range_def)

lemma actors_example: "actors env_example opts_example (delete_request path) two_tenants = {1}"
  by (simp add: actors_def JWTAuthMiddleware_def request_token_def bearer_token_def Cut_def IndexByte_def delete_request_def env_example_def
      opts_example_def two_tenants_def PGRevoked_IsRevoked_def rows_gorm_def acting_def uint_of_float_def)

lemma route_agent_delete: "api_route opts ''DELETE'' ''/api/v1/agents/2'' = Some AgentDelete"
  by (simp add: api_route_def agent_routes_def)

definition serve_example :: "response \<times> dash \<times> (string, nat) gomap" where
  "serve_example = serve \<lparr> li_fresh = (\<lambda>_. 0), li_allow = (\<lambda>_ l. (True, l)), li_reserve = (\<lambda>_ l. (0, l)) \<rparr> (\<lambda>_. []) (\<lambda>_. None) (\<lambda>_. Ok [])
     env_example opts_example (delete_request ''/api/v1/agents/2'') two_tenants []"

theorem dashboard_wf_witness: "dash_wf (fst (snd serve_example))"
proof -
  obtain resp d' vs where s: "serve_example = (resp, d', vs)" by (cases serve_example)
  from dashboard_wf [OF env_example_spec two_tenants_wf s [unfolded serve_example_def]] show ?thesis by (simp add: s)
qed

theorem tenant_isolation_witness: "filter (\<lambda>m. am_UserID m = 2) (d_agents (fst (snd serve_example))) = [agent_row 2 2 ''b'']"
proof -
  obtain resp d' vs where s: "serve_example = (resp, d', vs)" by (cases serve_example)
  have "filter (\<lambda>m. am_UserID m = 2) (d_agents d') = filter (\<lambda>m. am_UserID m = 2) (d_agents two_tenants)"
    by (rule tenant_isolation [OF env_example_spec two_tenants_wf s [unfolded serve_example_def], THEN conjunct1])
      (simp_all add: actors_example, simp add: delete_request_def route_agent_delete)
  also have "\<dots> = [agent_row 2 2 ''b'']" by (simp add: two_tenants_def agent_row_def)
  finally show ?thesis by (simp add: s)
qed

theorem acl_delete_ignores_owner_witness:
  "cm_TunnelID rule_row = NewTunnelID (am_AgentID (agent_row 2 2 ''b'')) \<and>
   rule_row \<notin> set (d_acls (snd (ACLHandler_Delete env_example \<lparr> cx_userID = Some 1, cx_jti = ''j1'' \<rparr> (delete_request ''/api/v1/agents/1/acls/7'') two_tenants)))"
proof -
  have "\<exists>a. Agent_Get env_example 1 1 two_tenants = Ok a"
    by (simp add: Agent_Get_def PGAgent_GetByID_def wrap_result_def env_example_def rows_gorm_def two_tenants_def agent_row_def sees_def
        agent_schema_def modelToAgentProfile_def)
  then obtain a where a: "Agent_Get env_example 1 1 two_tenants = Ok a" by blast
  have "rule_row \<notin> set (d_acls (snd (ACLHandler_Delete env_example \<lparr> cx_userID = Some 1, cx_jti = ''j1'' \<rparr> (delete_request ''/api/v1/agents/1/acls/7'') two_tenants)))"
    by (rule acl_delete_ignores_owner [OF env_example_spec _ a, of _ _ "''1''" "''acls''" "''7''", THEN conjunct2, THEN conjunct2])
      (simp_all add: delete_request_def TrimPrefix_def ParseUint_def decimal_def digit_val_def is_digit_def two_tenants_def rule_row_def
        env_example_def rows_gorm_def)
  then show ?thesis by (simp add: rule_row_def agent_row_def NewTunnelID_def)
qed

end
