(* ===== verification/TE_Accounts.thy ===== *)
theory TE_Accounts
  imports TE_Tenancy
begin

text \<open>
  Accounts and credentials of the dashboard: what a successful login, email verification and token refresh require, what a
  logout revokes and what it does not, and what rotating or deleting an agent's credential means for the authenticator of
  the gateway, which reads the same table.
\<close>

subsection \<open>Logins\<close>

lemma GetByEmail_user:
  assumes "orm_spec e" and "PGUser_GetByEmail (e_users e) email rows = Ok u"
  obtains m where "m \<in> set rows" "gm_DeletedAt m = None" "um_Email m = email" "u = modelToUser m"
proof -
  obtain m where f: "gorm_First (e_users e) (\<lambda>m. um_Email m = email) rows = Ok m" and u: "u = modelToUser m"
    using wrap_result_OkD [OF assms(2) [unfolded PGUser_GetByEmail_def]] by blast
  from First_OkD [OF orm_specD(1) [OF assms(1)] f] u show ?thesis by (intro that [of m]) (simp_all add: sees_def user_schema_def)
qed

lemma GenerateJWT_OkD:
  assumes "GenerateJWT e i j cfg u = Ok g"
  shows "e_sign e (jc_Secret cfg) (jwt_claims u (gj_ExpiresAt g) (e_now e (j + 1)) (gj_JTI g)) = Ok (gj_Token g) \<and>
    gj_ExpiresAt g = e_now e j + jc_TTL cfg"
  using assms by (auto simp: GenerateJWT_def Let_def split: result.splits)

lemma issue_refresh_row:
  assumes "orm_spec e" and "issue_refresh e svc u out d = (out', d')" and "lo_RefreshJTI out = []" and "lo_RefreshJTI out' \<noteq> []"
  shows "\<exists>m \<in> set (d_refresh d'). rm_JTI m = lo_RefreshJTI out' \<and> rm_UserID m = u \<and> rm_RevokedAt m = None \<and>
    rm_ExpiresAt m = e_now e 2 + as_refreshTTL svc"
proof -
  from assms(2-4) obtain j q rows where c: "PGRefresh_Create (e_refresh e) \<lparr> rf_JTI = j, rf_UserID = u, rf_ExpiresAt = e_now e 2 + as_refreshTTL svc,
      rf_RevokedAt = None, rf_CreatedAt = zero_time \<rparr> (d_refresh d) = (Ok q, rows)" and out: "lo_RefreshJTI out' = j" "d_refresh d' = rows"
    by (auto simp: issue_refresh_def Let_def split: if_splits result.splits prod.splits)
  then obtain m where g: "gorm_Create (e_refresh e) \<lparr> rm_JTI = j, rm_UserID = u, rm_ExpiresAt = e_now e 2 + as_refreshTTL svc,
      rm_RevokedAt = None, rm_CreatedAt = zero_time \<rparr> (d_refresh d) = (Ok m, rows)"
    by (auto simp: PGRefresh_Create_def conv_result_def map_prod_def split: prod.splits result.splits)
  with orm_specD(7) [OF assms(1)] have "\<exists>k t. m = sc_stamp refresh_schema k t \<lparr> rm_JTI = j, rm_UserID = u,
      rm_ExpiresAt = e_now e 2 + as_refreshTTL svc, rm_RevokedAt = None, rm_CreatedAt = zero_time \<rparr>" and "rows = d_refresh d @ [m]"
    unfolding gorm_spec_def create_spec_def by blast+
  with out show ?thesis by (auto simp: refresh_schema_def)
qed

lemma issue_refresh_out: "issue_refresh e svc u out d = (out', d') \<Longrightarrow> lo_Token out' = lo_Token out \<and> lo_JTI out' = lo_JTI out \<and> lo_ExpiresAt out' = lo_ExpiresAt out"
  by (auto simp: issue_refresh_def Let_def split: if_splits result.splits prod.splits)

text \<open>C24: A login succeeds only for a stored user with that email whose password matches the stored hash and whose email is
  verified. The token it returns is signed over claims that name this user and expire after the configured lifetime. A refresh
  token, when one is returned, is stored for the same user, not revoked, and expires after its own lifetime.\<close>

theorem login_sound:
  assumes "orm_spec e" and "Auth_Login e svc email pw d = (Ok out, d')"
  shows "\<exists>m \<in> set (d_users d). gm_DeletedAt m = None \<and> um_Email m = email \<and> um_EmailVerified m \<and> e_cmp e (um_PasswordHash m) pw \<and>
    e_sign e (jc_Secret (as_jwtCfg svc)) (jwt_claims (gm_ID m) (lo_ExpiresAt out) (e_now e 1) (lo_JTI out)) = Ok (lo_Token out) \<and>
    lo_ExpiresAt out = e_now e 0 + jc_TTL (as_jwtCfg svc) \<and>
    (lo_RefreshJTI out \<noteq> [] \<longrightarrow> (\<exists>rt \<in> set (d_refresh d'). rm_JTI rt = lo_RefreshJTI out \<and> rm_UserID rt = gm_ID m \<and>
       rm_RevokedAt rt = None \<and> rm_ExpiresAt rt = e_now e 2 + as_refreshTTL svc))"
proof -
  from assms(2) obtain u g where u: "PGUser_GetByEmail (e_users e) email (d_users d) = Ok u" "e_cmp e (us_PasswordHash u) pw" "us_EmailVerified u"
    and g: "GenerateJWT e 0 0 (as_jwtCfg svc) (us_ID u) = Ok g" and r: "issue_refresh e svc (us_ID u) (login_output g) d = (out, d')"
    by (auto simp: Auth_Login_def split: if_splits result.splits prod.splits)
  obtain m where m: "m \<in> set (d_users d)" "gm_DeletedAt m = None" "um_Email m = email" "u = modelToUser m"
    by (rule GetByEmail_user [OF assms(1) u(1)])
  have out: "lo_Token out = gj_Token g" "lo_JTI out = gj_JTI g" "lo_ExpiresAt out = gj_ExpiresAt g"
    using issue_refresh_out [OF r] by (simp_all add: login_output_def)
  have "lo_RefreshJTI out \<noteq> [] \<longrightarrow> (\<exists>rt \<in> set (d_refresh d'). rm_JTI rt = lo_RefreshJTI out \<and> rm_UserID rt = us_ID u \<and>
       rm_RevokedAt rt = None \<and> rm_ExpiresAt rt = e_now e 2 + as_refreshTTL svc)"
    using issue_refresh_row [OF assms(1) r] by (simp add: login_output_def)
  moreover have "e_sign e (jc_Secret (as_jwtCfg svc)) (jwt_claims (gm_ID m) (lo_ExpiresAt out) (e_now e 1) (lo_JTI out)) = Ok (lo_Token out)"
    using GenerateJWT_OkD [OF g, THEN conjunct1] unfolding out m(4) by (simp add: modelToUser_def)
  moreover have "lo_ExpiresAt out = e_now e 0 + jc_TTL (as_jwtCfg svc)" using GenerateJWT_OkD [OF g] out(3) by simp
  moreover have "us_ID u = gm_ID m" "us_EmailVerified u = um_EmailVerified m" "us_PasswordHash u = um_PasswordHash m"
    by (simp_all add: m(4) modelToUser_def)
  ultimately show ?thesis using m(1-3) u(2,3) by (intro bexI [of _ m]) simp_all
qed

subsection \<open>Logout\<close>

lemma Revoke_revokes:
  assumes "orm_spec e" and "PGRevoked_Revoke (e_revoked e) jti until rows = (Ok (), rows')"
  shows "\<exists>m \<in> set rows'. vm_JTI m = jti"
proof -
  from assms(2) have "gorm_FirstOrCreate (e_revoked e) (\<lambda>m. vm_JTI m = jti) \<lparr> vm_JTI = jti, vm_ExpiresAt = until \<rparr> rows = (None, rows')"
    by (auto simp: PGRevoked_Revoke_def split: prod.splits option.splits)
  with orm_specD(6) [OF assms(1)] have "if \<exists>x \<in> set rows. sees revoked_schema (\<lambda>m. vm_JTI m = jti) x then rows' = rows
      else \<exists>k t. rows' = rows @ [sc_stamp revoked_schema k t \<lparr> vm_JTI = jti, vm_ExpiresAt = until \<rparr>]"
    unfolding gorm_spec_def firstOrCreate_spec_def by blast
  then show ?thesis by (auto simp: sees_def revoked_schema_def split: if_splits)
qed

lemma IsRevoked_known:
  assumes "orm_spec e" and "\<exists>m \<in> set rows. vm_JTI m = jti"
  shows "fst (PGRevoked_IsRevoked (e_revoked e) jti rows) \<or> snd (PGRevoked_IsRevoked (e_revoked e) jti rows) \<noteq> None"
proof (cases "gorm_Count (e_revoked e) (\<lambda>m. vm_JTI m = jti) rows")
  case (Pair n err)
  then show ?thesis
    using Count_OkD [OF orm_specD(6) [OF assms(1)], of "\<lambda>m. vm_JTI m = jti" rows n] assms(2)
    by (cases err) (auto simp: PGRevoked_IsRevoked_def sees_def revoked_schema_def filter_empty_conv)
qed


text \<open>The path rule by which a client returns a cookie: the request path equals the cookie's path or continues it at a slash.\<close>

definition path_match :: "string \<Rightarrow> string \<Rightarrow> bool" where
  "path_match cookie_path path \<longleftrightarrow> path = cookie_path \<or>
     (take (length cookie_path) path = cookie_path \<and>
       ((cookie_path \<noteq> [] \<and> last cookie_path = CHR ''/'') \<or> take 1 (drop (length cookie_path) path) = ''/''))"

text \<open>C34: A logout does not end the refresh token. The refresh cookie is set for the path of the refresh endpoint, so a client
  that follows the path rule does not send it with the logout request; without it the logout leaves every refresh token as it
  was, and a refresh with the same token still issues an access token for its user afterwards.\<close>

theorem refresh_survives_logout:
  assumes "rq_Cookie r ''tunneledge_refresh'' = (if path_match refresh_path (rq_Path r) then Some rt else None)"
    and "rq_Path r = ''/api/v1/auth/logout''" and "AuthHandler_Logout e h ctx r d = (resp, d')"
  shows "Auth_RefreshAccessToken e' svc rt d' = Auth_RefreshAccessToken e' svc rt d \<and> d_refresh d' = d_refresh d"
proof -
  have "\<not> path_match refresh_path ''/api/v1/auth/logout''" by (simp add: path_match_def refresh_path_def)
  with assms have "d_refresh d' = d_refresh d"
    by (auto simp: AuthHandler_Logout_def Auth_RevokeSession_def Let_def)
  then show ?thesis by (simp add: Auth_RefreshAccessToken_def)
qed

subsection \<open>Agent tokens\<close>

lemma hashes_fold:
  assumes "map_of (fold (\<lambda>m r. if am_TokenHash m \<noteq> [] then mput (am_TokenHash m) (am_AgentID m) r else r) ms m0) h = Some a"
  shows "map_of m0 h = Some a \<or> (\<exists>m \<in> set ms. am_TokenHash m = h \<and> am_AgentID m = a)"
  using assms
proof (induction ms arbitrary: m0)
  case (Cons m ms)
  from Cons.IH [OF Cons.prems [simplified]] show ?case by (auto split: if_splits)
qed simp

lemma hashes_mwf: "mwf m0 \<Longrightarrow> mwf (fold (\<lambda>m r. if am_TokenHash m \<noteq> [] then mput (am_TokenHash m) (am_AgentID m) r else r) ms m0)"
  by (induction ms arbitrary: m0) auto

text \<open>The authenticator of the gateway returns an agent only for a token that matches the hash of a live profile of it.\<close>

lemma authenticated_row:
  assumes "gorm_spec agent_schema g" and "PGAgent_ListTokenHashes g rows = Ok hashes" and "db_hashes a = Inr hashes"
    and "fst (DB_Authenticate cmp now a token) = Ok agent"
  shows "\<exists>m \<in> set rows. gm_DeletedAt m = None \<and> am_AgentID m = agent \<and> cmp (am_TokenHash m) token"
proof -
  obtain ms where f: "gorm_Find g (\<lambda>m. True) rows = Ok ms" and h: "hashes = hashes_loop ms"
    using wrap_result_OkD [OF assms(2) [unfolded PGAgent_ListTokenHashes_def]] by blast
  from db_auth.auth_sound [OF assms(4)] assms(3) obtain hash where "(hash, agent) \<in> set hashes" "cmp hash token"
    by (auto simp: db_known_def)
  moreover have "mwf hashes" unfolding h hashes_loop_def by (rule hashes_mwf) simp
  ultimately have "map_of hashes hash = Some agent" by (simp add: in_set_mwf)
  from hashes_fold [OF this [unfolded h hashes_loop_def]] obtain m where m: "m \<in> set ms" "am_TokenHash m = hash" "am_AgentID m = agent" by auto
  from Find_set [OF assms(1) f] m(1) have "m \<in> set rows" "gm_DeletedAt m = None" by (auto simp: sees_def agent_schema_def)
  with m \<open>cmp hash token\<close> show ?thesis by blast
qed

lemma rotated_rows:
  assumes "orm_spec e" and "dash_wf d" and "Agent_RotateToken e u i d = (Ok out, d')"
  shows "\<exists>hash m m'. e_gen e (ro_RawToken out) = Ok hash \<and> m \<in> set (d_agents d) \<and> am_UserID m = u \<and> gm_ID m = i \<and> ro_AgentID out = am_AgentID m \<and>
    am_TokenHash m' = hash \<and> d_agents d' = map (\<lambda>x. if x = m then m' else x) (d_agents d)"
proof -
  from assms(3) obtain a hash q rows where a: "Agent_Get e u i d = Ok a" and h: "e_gen e (ro_RawToken out) = Ok hash"
    and up: "PGAgent_Update (e_agents e) (a\<lparr>ap_TokenHash := hash\<rparr>) (d_agents d) = (Ok q, rows)" and out: "ro_AgentID out = ap_AgentID a" "d_agents d' = rows"
    by (auto simp: Agent_RotateToken_def Let_def split: result.splits prod.splits)
  obtain m where m: "m \<in> set (d_agents d)" "gm_DeletedAt m = None" "gm_ID m = i" "a = modelToAgentProfile m" "am_UserID m = u"
    by (rule Agent_Get_row [OF assms(1) a])
  have d: "distinct (map gm_ID (d_agents d))" using assms(2) by (simp add: dash_wf_def agents_wf_def)
  have i: "ap_ID (a\<lparr>ap_TokenHash := hash\<rparr>) = gm_ID m" by (simp add: m(4) modelToAgentProfile_def)
  let ?f = "\<lambda>x. x\<lparr>am_Name := ap_Name a, am_AgentID := ap_AgentID a, am_TokenHash := hash,
      am_Scopes := scopesToString (ap_Scopes a), am_TokenExpiresAt := ap_TokenExpiresAt a\<rparr>"
  have "\<exists>t. rows = rewritten agent_schema (\<lambda>x. gm_ID x = gm_ID m) ?f t (d_agents d)"
    using up unfolding PGAgent_Update_def i
    by (cases rule: affected_update_cases [OF orm_specD(2) [OF assms(1)]]) auto
  then obtain t where rows: "rows = map (\<lambda>x. if x = m then (?f m)\<lparr>gm_UpdatedAt := t\<rparr> else x) (d_agents d)"
    unfolding agent_schema_def rewritten_key [OF d m(1,2)] by blast
  have "ap_AgentID a = am_AgentID m" by (simp add: m(4) modelToAgentProfile_def)
  with m(1,3,5) h out(1) show ?thesis
    unfolding out(2) rows by (intro exI [of _ hash] exI [of _ m] exI [of _ "(?f m)\<lparr>gm_UpdatedAt := t\<rparr>"]) simp
qed

lemma deleted_rows:
  assumes "orm_spec e" and "dash_wf d" and "Agent_Delete e u i d = (Ok (), d')"
  shows "\<exists>m m'. m \<in> set (d_agents d) \<and> am_UserID m = u \<and> gm_ID m = i \<and> gm_DeletedAt m' \<noteq> None \<and> d_agents d' = map (\<lambda>x. if x = m then m' else x) (d_agents d)"
proof -
  from assms(3) obtain a rows where a: "Agent_Get e u i d = Ok a" and del: "PGAgent_Delete (e_agents e) i (d_agents d) = (Ok (), rows)" and out: "d_agents d' = rows"
    by (auto simp: Agent_Delete_def split: result.splits prod.splits)
  obtain m where m: "m \<in> set (d_agents d)" "gm_DeletedAt m = None" "gm_ID m = i" "am_UserID m = u"
    by (rule Agent_Get_row [OF assms(1) a])
  have d: "distinct (map gm_ID (d_agents d))" using assms(2) by (simp add: dash_wf_def agents_wf_def)
  have "\<exists>t. rows = removed agent_schema (\<lambda>x. gm_ID x = gm_ID m) t (d_agents d)"
    using del unfolding PGAgent_Delete_def m(3) by (cases rule: affected_delete_cases [OF orm_specD(2) [OF assms(1)]]) auto
  then obtain t where "rows = map (\<lambda>x. if x = m then m\<lparr>gm_DeletedAt := Some t\<rparr> else x) (d_agents d)"
    unfolding agent_schema_def removed_key [OF d m(1,2)] by blast
  moreover have "gm_DeletedAt (m\<lparr>gm_DeletedAt := Some t\<rparr>) \<noteq> None" by simp
  ultimately show ?thesis using m out by blast
qed

text \<open>C23: Rotating the token of an agent, or deleting the agent, takes effect at the gateway. After a rotation the gateway's
  authenticator, reading the hashes of the same table, accepts as that agent only tokens that match the hash of the new token;
  after a deletion it accepts no token as that agent.\<close>

theorem agent_token_revocation:
  assumes "orm_spec e" and "dash_wf d" and "gorm_spec agent_schema g"
    and "PGAgent_ListTokenHashes g (d_agents d') = Ok hashes" and "db_hashes a = Inr hashes"
  shows "(Agent_RotateToken e u i d = (Ok out, d') \<longrightarrow> fst (DB_Authenticate cmp now a token) = Ok (ro_AgentID out) \<longrightarrow>
      (\<exists>hash. e_gen e (ro_RawToken out) = Ok hash \<and> cmp hash token)) \<and>
    (Agent_Delete e u i d = (Ok (), d') \<longrightarrow> m \<in> set (d_agents d) \<longrightarrow> gm_ID m = i \<longrightarrow>
      fst (DB_Authenticate cmp now a token) \<noteq> Ok (am_AgentID m))"
proof (intro conjI impI notI)
  have uniq: "x = y" if "x \<in> set (d_agents d)" "y \<in> set (d_agents d)" "am_AgentID x = am_AgentID y \<or> gm_ID x = gm_ID y" for x y
    using assms(2) that by (auto simp: dash_wf_def agents_wf_def distinct_map inj_on_def)
  {
    assume rot: "Agent_RotateToken e u i d = (Ok out, d')" and ok: "fst (DB_Authenticate cmp now a token) = Ok (ro_AgentID out)"
    obtain hash m m' where r: "e_gen e (ro_RawToken out) = Ok hash" "m \<in> set (d_agents d)" "ro_AgentID out = am_AgentID m" "am_TokenHash m' = hash"
      "d_agents d' = map (\<lambda>x. if x = m then m' else x) (d_agents d)" using rotated_rows [OF assms(1,2) rot] by blast
    obtain x where "x \<in> set (d_agents d')" "am_AgentID x = ro_AgentID out" "cmp (am_TokenHash x) token"
      using authenticated_row [OF assms(3-5) ok] by blast
    with r uniq [of _ m] show "\<exists>hash. e_gen e (ro_RawToken out) = Ok hash \<and> cmp hash token" by (auto split: if_splits)
  }
  {
    assume del: "Agent_Delete e u i d = (Ok (), d')" and m: "m \<in> set (d_agents d)" "gm_ID m = i"
      and ok: "fst (DB_Authenticate cmp now a token) = Ok (am_AgentID m)"
    obtain n n' where r: "n \<in> set (d_agents d)" "gm_ID n = i" "gm_DeletedAt n' \<noteq> None" "d_agents d' = map (\<lambda>x. if x = n then n' else x) (d_agents d)"
      using deleted_rows [OF assms(1,2) del] by blast
    obtain x where x: "x \<in> set (d_agents d')" "gm_DeletedAt x = None" "am_AgentID x = am_AgentID m"
      using authenticated_row [OF assms(3-5) ok] by blast
    with r have "x \<in> set (d_agents d)" "x \<noteq> n" by (auto split: if_splits)
    with uniq [OF _ m(1)] x(3) uniq [OF r(1) m(1)] r(2) m(2) show False by auto
  }
qed

subsection \<open>Concrete accounts\<close>

definition user_row :: UserModel where
  "user_row = \<lparr> gm_ID = 1, gm_CreatedAt = 0, gm_UpdatedAt = 0, gm_DeletedAt = None, um_Email = ''a@b.io'', um_PasswordHash = ''hsecret'',
     um_Name = ''a'', um_EmailVerified = True \<rparr>"

definition one_user :: dash where
  "one_user = two_tenants\<lparr>d_users := [user_row]\<rparr>"

lemma login_example:
  "\<exists>out d'. Auth_Login env_example (server_authSvc opts_example) ''a@b.io'' ''secret'' one_user = (Ok out, d') \<and> lo_RefreshJTI out = ''01''"
proof -
  have user: "PGUser_GetByEmail (e_users env_example) ''a@b.io'' (d_users one_user) = Ok (modelToUser user_row)"
    by (simp add: PGUser_GetByEmail_def wrap_result_def env_example_def rows_gorm_def one_user_def user_row_def sees_def user_schema_def)
  have jwt: "\<exists>g. GenerateJWT env_example 0 0 cfg u = Ok g" for cfg u
    by (simp add: GenerateJWT_def generateJTI_def env_example_def Let_def)
  have refresh: "PGRefresh_Create (e_refresh env_example) t (d_refresh one_user) =
      (Ok (), [\<lparr> rm_JTI = rf_JTI t, rm_UserID = rf_UserID t, rm_ExpiresAt = rf_ExpiresAt t, rm_RevokedAt = None, rm_CreatedAt = 0 \<rparr>])" for t
    by (simp add: PGRefresh_Create_def env_example_def rows_gorm_def one_user_def two_tenants_def conv_result_def refresh_schema_def Let_def)
  have tok: "generateVerificationToken (e_rand env_example 1) = Ok ''01''"
    by (simp add: generateVerificationToken_def env_example_def EncodeToString_def hex_digit_def)
  have svc: "as_refreshTokens (server_authSvc opts_example)" "0 < as_refreshTTL (server_authSvc opts_example)"
    by (simp_all add: server_authSvc_def opts_example_def WithRefreshTokens_def NewAuthService_def day_def)
  have fields: "us_PasswordHash (modelToUser user_row) = ''hsecret''" "us_EmailVerified (modelToUser user_row)"
    by (simp_all add: modelToUser_def user_row_def)
  have cmp: "e_cmp env_example ''hsecret'' ''secret''" by (simp add: env_example_def)
  obtain g where g: "GenerateJWT env_example 0 0 (as_jwtCfg (server_authSvc opts_example)) (us_ID (modelToUser user_row)) = Ok g" using jwt by blast
  show ?thesis
    by (simp add: Auth_Login_def user fields cmp g issue_refresh_def svc tok [simplified] refresh Let_def)
qed

theorem login_sound_witness:
  "\<exists>out d'. Auth_Login env_example (server_authSvc opts_example) ''a@b.io'' ''secret'' one_user = (Ok out, d') \<and>
     um_EmailVerified user_row \<and> (\<exists>rt \<in> set (d_refresh d'). rm_JTI rt = ''01'' \<and> rm_UserID rt = 1)"
proof -
  obtain out d' where login: "Auth_Login env_example (server_authSvc opts_example) ''a@b.io'' ''secret'' one_user = (Ok out, d')"
    and jti: "lo_RefreshJTI out = ''01''" using login_example by blast
  have "d_users one_user = [user_row]" "gm_ID user_row = 1" by (simp_all add: one_user_def user_row_def)
  with login_sound [OF env_example_spec login] jti login show ?thesis by auto
qed

definition ctx_example :: reqctx where
  "ctx_example = \<lparr> cx_userID = Some 1, cx_jti = ''j1'' \<rparr>"

definition logout_request :: request where
  "logout_request =
     \<lparr> rq_Method = ''POST'', rq_Path = ''/api/v1/auth/logout'', rq_Query = (\<lambda>_. []), rq_Header = (\<lambda>_. []),
       rq_Cookie = (\<lambda>n. if n = ''session'' then Some ''jwt'' else None), rq_RemoteAddr = ''1.2.3.4:5'', rq_Body = BadJSON \<rparr>"


theorem refresh_survives_logout_witness:
  "d_refresh (snd (AuthHandler_Logout env_example (server_authHandler opts_example) ctx_example logout_request one_user)) = d_refresh one_user"
proof -
  obtain resp d' where out: "AuthHandler_Logout env_example (server_authHandler opts_example) ctx_example logout_request one_user = (resp, d')"
    by (cases "AuthHandler_Logout env_example (server_authHandler opts_example) ctx_example logout_request one_user")
  have "d_refresh d' = d_refresh one_user"
    by (rule refresh_survives_logout [OF _ _ out, of "''01''", THEN conjunct2])
      (simp_all add: logout_request_def path_match_def refresh_path_def)
  then show ?thesis by (simp add: out)
qed

lemma rotate_example: "\<exists>out d'. Agent_RotateToken env_example 1 1 two_tenants = (Ok out, d') \<and> ro_AgentID out = ''a'' \<and> ro_RawToken out = ''01''"
  by (simp add: Agent_RotateToken_def Agent_Get_def PGAgent_GetByID_def wrap_result_def env_example_def rows_gorm_def two_tenants_def agent_row_def
      sees_def agent_schema_def modelToAgentProfile_def generateRawToken_def EncodeToString_def hex_digit_def PGAgent_Update_def affected_def Let_def
      PGToken_Delete_def PGToken_Create_def create_row_def token_schema_def)

theorem agent_token_revocation_witness:
  "\<exists>out d' hashes. Agent_RotateToken env_example 1 1 two_tenants = (Ok out, d') \<and> PGAgent_ListTokenHashes (e_agents env_example) (d_agents d') = Ok hashes \<and>
     fst (DB_Authenticate (e_cmp env_example) 0 \<lparr> db_hashes = Inr hashes, db_profiles = None, db_updateOK = True, db_lockout = DefaultLockoutConfig \<rparr> ''a'') \<noteq> Ok ''a''"
proof -
  obtain out d' where rot: "Agent_RotateToken env_example 1 1 two_tenants = (Ok out, d')" "ro_AgentID out = ''a''" "ro_RawToken out = ''01''"
    using rotate_example by blast
  obtain hashes where list: "PGAgent_ListTokenHashes (e_agents env_example) (d_agents d') = Ok hashes"
    by (simp add: PGAgent_ListTokenHashes_def wrap_result_def env_example_def rows_gorm_def)
  let ?a = "\<lparr> db_hashes = Inr hashes, db_profiles = None, db_updateOK = True, db_lockout = DefaultLockoutConfig \<rparr>"
  have "fst (DB_Authenticate (e_cmp env_example) 0 ?a ''a'') \<noteq> Ok ''a''"
    using agent_token_revocation [OF env_example_spec two_tenants_wf orm_specD(2) [OF env_example_spec] list, of ?a 1 1 out "e_cmp env_example" 0 "''a''"] rot
    by (auto simp: env_example_def)
  with rot(1) list show ?thesis by blast
qed

end
