(* ===== verification/TE_Etcd.thy ===== *)
theory TE_Etcd
  imports TE_Coordinator TE_Router TE_Net
begin

text \<open>
  The coordinator on an etcd cluster, \<^verbatim>\<open>src/internal/registry/etcd_coordinator.go\<close>. \<open>TE_Cluster\<close>
  has the fleet of registry instances that share one cluster.

  The etcd client is not part of the repository: it is the parameter record \<open>etcd\<close>, one field for every call the code
  makes, each a function on a cluster state of any type; an error is \<open>None\<close>. What the code relies on is the named
  hypothesis \<open>etcd_spec\<close> of \<open>TE_Cluster\<close>, stated over the \<open>view\<close> of the cluster: which value every key has and to which etcd lease it is
  attached. A failed write may have taken effect or not. \<open>mem_etcd\<close> is a client with that behaviour.

  A stored text is represented by the value that \<^verbatim>\<open>encoding/json\<close> made it from (\<open>etcd_value\<close>); \<open>OtherText\<close> is a text that
  is no JSON. As in Go, reading a text into another structure than it was written from succeeds and fills the fields
  with equal names. Clock readings and new identifiers are arguments; times are in UTC.
\<close>

subsection \<open>Stored values\<close>

definition etcdKeyPrefixLeases :: string where
  "etcdKeyPrefixLeases = ''/tunneledge/leases/''"

definition etcdKeyPrefixRelays :: string where
  "etcdKeyPrefixRelays = ''/tunneledge/relays/''"

definition etcdKeyPrefixHealth :: string where
  "etcdKeyPrefixHealth = ''/tunneledge/health/''"

record leaseMeta =
  lm_LeaseID :: string
  lm_TunnelID :: string
  lm_RelayID :: string
  lm_ExpiresAt :: time
  lm_Version :: int
  lm_EtcdLease :: int

record relayMeta =
  rm_RelayID :: string
  rm_AdvertiseAddr :: string
  rm_State :: string
  rm_ActiveTunnels :: int
  rm_ActiveStreams :: int
  rm_LastSeen :: time

datatype etcd_value = LeaseJSON leaseMeta | RelayJSON relayMeta | HealthJSON RelayHealth | OtherText string

text \<open>\<^verbatim>\<open>time.Time.MarshalJSON\<close> accepts the years 0 to 9999.\<close>

definition json_time :: "time \<Rightarrow> bool" where
  "json_time t \<longleftrightarrow> - 62167219200 * 1000000000 \<le> t \<and> t < 253402300800 * 1000000000"

fun Marshal :: "etcd_value \<Rightarrow> etcd_value option" where
  "Marshal (LeaseJSON m) = (if json_time (lm_ExpiresAt m) then Some (LeaseJSON m) else None)"
| "Marshal (RelayJSON m) = (if json_time (rm_LastSeen m) then Some (RelayJSON m) else None)"
| "Marshal (HealthJSON h) = (if json_time (rh_RecordedAt h) then Some (HealthJSON h) else None)"
| "Marshal (OtherText t) = None"

text \<open>\<^verbatim>\<open>payload, _ = json.Marshal(...)\<close>: without the error check a failure leaves an empty text.\<close>

definition Marshal_unchecked :: "etcd_value \<Rightarrow> etcd_value" where
  "Marshal_unchecked v = (case Marshal v of Some p \<Rightarrow> p | None \<Rightarrow> OtherText [])"

definition zero_leaseMeta :: leaseMeta where
  "zero_leaseMeta = \<lparr> lm_LeaseID = [], lm_TunnelID = [], lm_RelayID = [], lm_ExpiresAt = zero_time, lm_Version = 0,
     lm_EtcdLease = 0 \<rparr>"

definition zero_relayMeta :: relayMeta where
  "zero_relayMeta = \<lparr> rm_RelayID = [], rm_AdvertiseAddr = [], rm_State = [], rm_ActiveTunnels = 0, rm_ActiveStreams = 0,
     rm_LastSeen = zero_time \<rparr>"

definition zero_RelayHealth :: RelayHealth where
  "zero_RelayHealth = \<lparr> rh_AdvertiseAddr = [], rh_RTTMillis = 0, rh_HeartbeatLatencyMillis = 0, rh_ActiveTunnels = 0,
     rh_ActiveStreams = 0, rh_BytesPerSecond = 0, rh_PacketLossPct = 0, rh_CPUUtilizationPct = 0,
     rh_MemoryUtilizationPct = 0, rh_RecordedAt = zero_time, rh_Region = [] \<rparr>"

fun Unmarshal_lease :: "etcd_value \<Rightarrow> leaseMeta option" where
  "Unmarshal_lease (LeaseJSON m) = Some m"
| "Unmarshal_lease (RelayJSON m) = Some (zero_leaseMeta\<lparr>lm_RelayID := rm_RelayID m\<rparr>)"
| "Unmarshal_lease (HealthJSON h) = Some zero_leaseMeta"
| "Unmarshal_lease (OtherText t) = None"

fun Unmarshal_relay :: "etcd_value \<Rightarrow> relayMeta option" where
  "Unmarshal_relay (LeaseJSON m) = Some (zero_relayMeta\<lparr>rm_RelayID := lm_RelayID m\<rparr>)"
| "Unmarshal_relay (RelayJSON m) = Some m"
| "Unmarshal_relay (HealthJSON h) = Some zero_relayMeta"
| "Unmarshal_relay (OtherText t) = None"

fun Unmarshal_health :: "etcd_value \<Rightarrow> RelayHealth option" where
  "Unmarshal_health (LeaseJSON m) = Some zero_RelayHealth"
| "Unmarshal_health (RelayJSON m) = Some zero_RelayHealth"
| "Unmarshal_health (HealthJSON h) = Some h"
| "Unmarshal_health (OtherText t) = None"

subsection \<open>The etcd client\<close>

type_synonym key_value = "string \<times> etcd_value"

text \<open>\<open>et_Create\<close> is the transaction of \<^verbatim>\<open>AcquireLease\<close>: put the key with the lease if the key has version 0, otherwise get
  it; its result is \<^verbatim>\<open>Succeeded\<close> and what the get found.\<close>

record 's etcd =
  et_Grant :: "int \<Rightarrow> 's \<Rightarrow> int option \<times> 's"
  et_Revoke :: "int \<Rightarrow> 's \<Rightarrow> unit option \<times> 's"
  et_KeepAliveOnce :: "int \<Rightarrow> 's \<Rightarrow> unit option \<times> 's"
  et_Put :: "string \<Rightarrow> etcd_value \<Rightarrow> int option \<Rightarrow> 's \<Rightarrow> unit option \<times> 's"
  et_Get :: "string \<Rightarrow> 's \<Rightarrow> key_value list option \<times> 's"
  et_GetPrefix :: "string \<Rightarrow> 's \<Rightarrow> key_value list option \<times> 's"
  et_Create :: "string \<Rightarrow> etcd_value \<Rightarrow> int \<Rightarrow> 's \<Rightarrow> (bool \<times> key_value list) option \<times> 's"

subsection \<open>The coordinator\<close>

record EtcdCoordinator =
  ec_etcdLeaseOf :: "(string, int) gomap"
  ec_eventSubs :: "(int, RegistryEvent list) gomap"
  ec_healthSubs :: "(int, healthEventSub) gomap"
  ec_nextID :: int

definition NewEtcdCoordinator :: EtcdCoordinator where
  "NewEtcdCoordinator = \<lparr> ec_etcdLeaseOf = [], ec_eventSubs = [], ec_healthSubs = [], ec_nextID = 0 \<rparr>"

definition lease_of_meta :: "leaseMeta \<Rightarrow> Lease" where
  "lease_of_meta m = \<lparr> le_LeaseID = lm_LeaseID m, le_TunnelID = lm_TunnelID m, le_RelayID = lm_RelayID m,
     le_ExpiresAt = lm_ExpiresAt m, le_Version = lm_Version m \<rparr>"

definition relay_of_meta :: "relayMeta \<Rightarrow> RelayInfo" where
  "relay_of_meta m = \<lparr> ri_RelayID = rm_RelayID m, ri_AdvertiseAddr = rm_AdvertiseAddr m, ri_State = rm_State m,
     ri_ActiveTunnels = rm_ActiveTunnels m, ri_ActiveStreams = rm_ActiveStreams m, ri_LastSeen = rm_LastSeen m,
     ri_Region = [] \<rparr>"

definition etcd_ttl :: "duration \<Rightarrow> int" where
  "etcd_ttl ttl = max (ttl div 1000000000) 1"

text \<open>The branch of \<^verbatim>\<open>AcquireLease\<close> for a relay that finds its own lease.\<close>

definition etcd_reacquire ::
  "'s etcd \<Rightarrow> time \<Rightarrow> LeaseRequest \<Rightarrow> leaseMeta \<Rightarrow> EtcdCoordinator \<Rightarrow> 's \<Rightarrow> Lease result \<times> EtcdCoordinator \<times> 's" where
  "etcd_reacquire e now req existing c s =
     (let existing = existing\<lparr>lm_Version := lm_Version existing + 1, lm_ExpiresAt := now + lr_TTL req\<rparr> in
      case et_Grant e (etcd_ttl (lr_TTL req)) s of
        (None, s) \<Rightarrow> (Err (StatusErr GUnavailable ''etcd grant''), c, s)
      | (Some newEtcdLease, s) \<Rightarrow>
          let existing = existing\<lparr>lm_EtcdLease := newEtcdLease\<rparr>;
              payload = Marshal_unchecked (LeaseJSON existing) in
          case et_Put e (etcdKeyPrefixLeases @ lr_TunnelID req) payload (Some newEtcdLease) s of
            (None, s) \<Rightarrow> (Err (StatusErr GUnavailable ''etcd put''), c, snd (et_Revoke e newEtcdLease s))
          | (Some _, s) \<Rightarrow> (Ok (lease_of_meta existing),
               c\<lparr>ec_etcdLeaseOf := mput (lm_LeaseID existing) newEtcdLease (ec_etcdLeaseOf c)\<rparr>, s))"

definition etcd_AcquireLease ::
  "'s etcd \<Rightarrow> string \<Rightarrow> time \<Rightarrow> time \<Rightarrow> LeaseRequest \<Rightarrow> EtcdCoordinator \<Rightarrow> 's \<Rightarrow> Lease result \<times> EtcdCoordinator \<times> 's" where
  "etcd_AcquireLease e newID now now' req c s =
     (if lr_TunnelID req = [] \<or> lr_RelayID req = []
      then (Err (StatusErr GInvalidArgument ''tunnel_id and relay_id are required''), c, s)
      else case et_Grant e (etcd_ttl (lr_TTL req)) s of
        (None, s) \<Rightarrow> (Err (StatusErr GUnavailable ''etcd grant''), c, s)
      | (Some leaseResp, s) \<Rightarrow>
          let meta = \<lparr> lm_LeaseID = newID, lm_TunnelID = lr_TunnelID req, lm_RelayID = lr_RelayID req,
                lm_ExpiresAt = now + lr_TTL req, lm_Version = 1, lm_EtcdLease = leaseResp \<rparr> in
          case Marshal (LeaseJSON meta) of
            None \<Rightarrow> (Err (StatusErr GInternal ''marshal''), c, snd (et_Revoke e leaseResp s))
          | Some payload \<Rightarrow> (case et_Create e (etcdKeyPrefixLeases @ lr_TunnelID req) payload leaseResp s of
              (None, s) \<Rightarrow> (Err (StatusErr GUnavailable ''etcd txn''), c, snd (et_Revoke e leaseResp s))
            | (Some (succeeded, kvs), s) \<Rightarrow>
                if \<not> succeeded then
                  let s = snd (et_Revoke e leaseResp s) in
                  (case kvs of
                     [] \<Rightarrow> (Err (StatusErr GAlreadyExists ''tunnel already leased''), c, s)
                   | (k, v) # _ \<Rightarrow> (case Unmarshal_lease v of
                       None \<Rightarrow> (Err (StatusErr GAlreadyExists ''tunnel already leased''), c, s)
                     | Some existing \<Rightarrow>
                         if lm_RelayID existing = lr_RelayID req then etcd_reacquire e now' req existing c s
                         else (Err (StatusErr GAlreadyExists ''tunnel already leased by relay''), c, s)))
                else (Ok (lease_of_meta meta), c\<lparr>ec_etcdLeaseOf := mput newID leaseResp (ec_etcdLeaseOf c)\<rparr>, s)))"

text \<open>The loop of \<^verbatim>\<open>RenewLease\<close> over the values it got.\<close>

fun etcd_renew_range ::
  "'s etcd \<Rightarrow> string \<Rightarrow> duration \<Rightarrow> time \<Rightarrow> int \<Rightarrow> key_value list \<Rightarrow> 's \<Rightarrow> Lease result \<times> 's" where
  "etcd_renew_range e leaseID ttl now etcdLID [] s = (Err (StatusErr GNotFound ''lease not found after keepalive''), s)"
| "etcd_renew_range e leaseID ttl now etcdLID ((k, v) # kvs) s = (case Unmarshal_lease v of
     None \<Rightarrow> etcd_renew_range e leaseID ttl now etcdLID kvs s
   | Some meta \<Rightarrow>
       if lm_LeaseID meta = leaseID then
         let meta = meta\<lparr>lm_ExpiresAt := now + ttl, lm_Version := lm_Version meta + 1\<rparr>
         in (Ok (lease_of_meta meta), snd (et_Put e k (Marshal_unchecked (LeaseJSON meta)) (Some etcdLID) s))
       else etcd_renew_range e leaseID ttl now etcdLID kvs s)"

definition etcd_RenewLease ::
  "'s etcd \<Rightarrow> string \<Rightarrow> duration \<Rightarrow> time \<Rightarrow> EtcdCoordinator \<Rightarrow> 's \<Rightarrow> Lease result \<times> 's" where
  "etcd_RenewLease e leaseID ttl now c s =
     (if leaseID = [] then (Err (StatusErr GInvalidArgument ''lease_id is required''), s)
      else case map_of (ec_etcdLeaseOf c) leaseID of
        None \<Rightarrow> (Err (StatusErr GNotFound ''lease not found''), s)
      | Some etcdLID \<Rightarrow> (case et_KeepAliveOnce e etcdLID s of
          (None, s) \<Rightarrow> (Err (StatusErr GUnavailable ''keepalive''), s)
        | (Some _, s) \<Rightarrow> (case et_Get e etcdKeyPrefixLeases s of
            (None, s) \<Rightarrow> (Err (StatusErr GUnavailable ''etcd get''), s)
          | (Some kvs, s) \<Rightarrow> etcd_renew_range e leaseID ttl now etcdLID kvs s)))"

definition etcd_ReleaseLease ::
  "'s etcd \<Rightarrow> string \<Rightarrow> EtcdCoordinator \<Rightarrow> 's \<Rightarrow> Lease result \<times> EtcdCoordinator \<times> 's" where
  "etcd_ReleaseLease e leaseID c s =
     (if leaseID = [] then (Err (StatusErr GInvalidArgument ''lease_id is required''), c, s)
      else case map_of (ec_etcdLeaseOf c) leaseID of
        None \<Rightarrow> (Err (StatusErr GNotFound ''lease not found''), c, s)
      | Some etcdLID \<Rightarrow>
          (Ok \<lparr> le_LeaseID = leaseID, le_TunnelID = [], le_RelayID = [], le_ExpiresAt = zero_time, le_Version = 0 \<rparr>,
           c\<lparr>ec_etcdLeaseOf := mdel leaseID (ec_etcdLeaseOf c)\<rparr>, snd (et_Revoke e etcdLID s)))"

definition etcd_CurrentLease :: "'s etcd \<Rightarrow> string \<Rightarrow> time \<Rightarrow> 's \<Rightarrow> Lease option \<times> 's" where
  "etcd_CurrentLease e tunnelID now s = (case et_Get e (etcdKeyPrefixLeases @ tunnelID) s of
     (None, s) \<Rightarrow> (None, s)
   | (Some [], s) \<Rightarrow> (None, s)
   | (Some ((k, v) # _), s) \<Rightarrow> (case Unmarshal_lease v of
       None \<Rightarrow> (None, s)
     | Some meta \<Rightarrow> (if lm_ExpiresAt meta < now then None else Some (lease_of_meta meta), s)))"

definition etcd_ReleaseExpiredLeases :: "Lease list" where
  "etcd_ReleaseExpiredLeases = []"

subsection \<open>Events and relays\<close>

definition etcd_Publish :: "RegistryEvent \<Rightarrow> EtcdCoordinator \<Rightarrow> EtcdCoordinator" where
  "etcd_Publish event c = c\<lparr>ec_eventSubs :=
     map (\<lambda>(i, ch). (i, if length ch < 64 then ch @ [event] else ch)) (ec_eventSubs c)\<rparr>"

definition etcd_Subscribe :: "EtcdCoordinator \<Rightarrow> int \<times> EtcdCoordinator" where
  "etcd_Subscribe c = (let i = ec_nextID c + 1 in
     (i, c\<lparr>ec_nextID := i, ec_eventSubs := mput i [] (ec_eventSubs c)\<rparr>))"

definition etcd_Unsubscribe :: "int \<Rightarrow> EtcdCoordinator \<Rightarrow> EtcdCoordinator" where
  "etcd_Unsubscribe i c = c\<lparr>ec_eventSubs := mdel i (ec_eventSubs c)\<rparr>"

definition etcd_UnsubscribeHealth :: "int \<Rightarrow> EtcdCoordinator \<Rightarrow> EtcdCoordinator" where
  "etcd_UnsubscribeHealth i c = c\<lparr>ec_healthSubs := mdel i (ec_healthSubs c)\<rparr>"

definition etcd_publishHealth :: "string \<Rightarrow> RelayHealth \<Rightarrow> EtcdCoordinator \<Rightarrow> EtcdCoordinator" where
  "etcd_publishHealth relayID health c = c\<lparr>ec_healthSubs :=
     map (\<lambda>(i, sub). (i,
       if hs_relayID sub \<noteq> [] \<and> hs_relayID sub \<noteq> relayID then sub
       else if length (hs_ch sub) < 32 then sub\<lparr>hs_ch := hs_ch sub @ [health]\<rparr> else sub)) (ec_healthSubs c)\<rparr>"

definition etcd_GetRelayHealth :: "'s etcd \<Rightarrow> string \<Rightarrow> 's \<Rightarrow> RelayHealth option \<times> 's" where
  "etcd_GetRelayHealth e relayID s = (case et_Get e (etcdKeyPrefixHealth @ relayID) s of
     (Some ((k, v) # _), s) \<Rightarrow> (Unmarshal_health v, s)
   | (_, s) \<Rightarrow> (None, s))"

definition etcd_SubscribeHealth ::
  "'s etcd \<Rightarrow> string \<Rightarrow> EtcdCoordinator \<Rightarrow> 's \<Rightarrow> int \<times> RelayHealth option \<times> EtcdCoordinator \<times> 's" where
  "etcd_SubscribeHealth e relayID c s = (let i = ec_nextID c + 1 in
     case etcd_GetRelayHealth e relayID s of (current, s) \<Rightarrow>
       (i, current, c\<lparr>ec_nextID := i, ec_healthSubs := mput i \<lparr> hs_relayID = relayID, hs_ch = [] \<rparr> (ec_healthSubs c)\<rparr>, s))"

definition etcd_getRelayInfo :: "'s etcd \<Rightarrow> string \<Rightarrow> 's \<Rightarrow> RelayInfo option \<times> 's" where
  "etcd_getRelayInfo e relayID s = (case et_Get e (etcdKeyPrefixRelays @ relayID) s of
     (Some ((k, v) # _), s) \<Rightarrow> (map_option relay_of_meta (Unmarshal_relay v), s)
   | (_, s) \<Rightarrow> (None, s))"

definition healthEvent :: "RelayInfo option \<Rightarrow> RelayHealth \<Rightarrow> RegistryEvent" where
  "healthEvent r h = \<lparr> ev_Type = RegistryEventRelayHealthUpdated, ev_Tunnel = None, ev_Lease = None, ev_Relay = r,
     ev_Health = Some h \<rparr>"

definition relayEvent :: "RelayInfo \<Rightarrow> RegistryEvent" where
  "relayEvent r = \<lparr> ev_Type = RegistryEventRelayUpserted, ev_Tunnel = None, ev_Lease = None, ev_Relay = Some r,
     ev_Health = None \<rparr>"

text \<open>The two writes of \<^verbatim>\<open>ReportRelayHealth\<close>: the relay's entry, and its health with a time to live of a minute if
  the lease for it can be had.\<close>

definition put_relay :: "'s etcd \<Rightarrow> relayMeta \<Rightarrow> 's \<Rightarrow> 's" where
  "put_relay e m s = (case Marshal (RelayJSON m) of None \<Rightarrow> s
     | Some p \<Rightarrow> snd (et_Put e (etcdKeyPrefixRelays @ rm_RelayID m) p None s))"

definition put_health :: "'s etcd \<Rightarrow> string \<Rightarrow> RelayHealth \<Rightarrow> 's \<Rightarrow> 's" where
  "put_health e relayID health s = (case Marshal (HealthJSON health) of None \<Rightarrow> s
     | Some p \<Rightarrow> (case et_Grant e 60 s of (l, s) \<Rightarrow> snd (et_Put e (etcdKeyPrefixHealth @ relayID) p l s)))"

definition etcd_ReportRelayHealth ::
  "'s etcd \<Rightarrow> string \<Rightarrow> string \<Rightarrow> RelayHealth \<Rightarrow> EtcdCoordinator \<Rightarrow> 's \<Rightarrow>
     (RelayInfo \<times> RelayHealth) result \<times> EtcdCoordinator \<times> 's" where
  "etcd_ReportRelayHealth e relayID advertiseAddr health c s =
     (if relayID = [] then (Err (StatusErr GInvalidArgument ''relay_id is required''), c, s)
      else
        let rInfo = \<lparr> ri_RelayID = relayID, ri_AdvertiseAddr = advertiseAddr, ri_State = ''active'',
              ri_ActiveTunnels = rh_ActiveTunnels health, ri_ActiveStreams = rh_ActiveStreams health,
              ri_LastSeen = rh_RecordedAt health, ri_Region = [] \<rparr> in
        case etcd_getRelayInfo e relayID s of (existingRelay, s) \<Rightarrow>
        let rInfo = (case existingRelay of
              Some r \<Rightarrow> if advertiseAddr = [] then rInfo\<lparr>ri_AdvertiseAddr := ri_AdvertiseAddr r\<rparr> else rInfo
            | None \<Rightarrow> rInfo);
            s = put_relay e \<lparr> rm_RelayID = ri_RelayID rInfo, rm_AdvertiseAddr = ri_AdvertiseAddr rInfo,
                  rm_State = ri_State rInfo, rm_ActiveTunnels = ri_ActiveTunnels rInfo,
                  rm_ActiveStreams = ri_ActiveStreams rInfo, rm_LastSeen = ri_LastSeen rInfo \<rparr> s;
            s = put_health e relayID health s
        in (Ok (rInfo, health), etcd_publishHealth relayID health (etcd_Publish (healthEvent (Some rInfo) health) c), s))"

text \<open>\<^verbatim>\<open>Snapshot\<close> reads the three prefixes; for every health entry it reads the relay's entry again.\<close>

definition snapshot_leases :: "string \<Rightarrow> string \<Rightarrow> time \<Rightarrow> key_value list \<Rightarrow> RegistryEvent list" where
  "snapshot_leases tunnelID relayID now kvs = concat (map (\<lambda>(k, v). case Unmarshal_lease v of
     None \<Rightarrow> []
   | Some meta \<Rightarrow>
       if tunnelID \<noteq> [] \<and> lm_TunnelID meta \<noteq> tunnelID then []
       else if relayID \<noteq> [] \<and> lm_RelayID meta \<noteq> relayID then []
       else if lm_ExpiresAt meta < now then []
       else [leaseEvent RegistryEventLeaseAcquired (lease_of_meta meta)]) kvs)"

definition snapshot_relays :: "string \<Rightarrow> key_value list \<Rightarrow> RegistryEvent list" where
  "snapshot_relays relayID kvs = concat (map (\<lambda>(k, v). case Unmarshal_relay v of
     None \<Rightarrow> []
   | Some meta \<Rightarrow> if relayID \<noteq> [] \<and> rm_RelayID meta \<noteq> relayID then [] else [relayEvent (relay_of_meta meta)]) kvs)"

fun snapshot_health :: "'s etcd \<Rightarrow> string \<Rightarrow> key_value list \<Rightarrow> 's \<Rightarrow> RegistryEvent list \<times> 's" where
  "snapshot_health e relayID [] s = ([], s)"
| "snapshot_health e relayID ((k, v) # kvs) s = (case Unmarshal_health v of
     None \<Rightarrow> snapshot_health e relayID kvs s
   | Some h \<Rightarrow>
       let rID = TrimPrefix k etcdKeyPrefixHealth in
       if relayID \<noteq> [] \<and> rID \<noteq> relayID then snapshot_health e relayID kvs s
       else case etcd_getRelayInfo e rID s of (rInfo, s) \<Rightarrow>
         case snapshot_health e relayID kvs s of (events, s) \<Rightarrow> (healthEvent rInfo h # events, s))"

definition etcd_Snapshot :: "'s etcd \<Rightarrow> string \<Rightarrow> string \<Rightarrow> time \<Rightarrow> 's \<Rightarrow> RegistryEvent list \<times> 's" where
  "etcd_Snapshot e tunnelID relayID now s =
     (case et_GetPrefix e etcdKeyPrefixLeases s of (leases, s) \<Rightarrow>
      case et_GetPrefix e etcdKeyPrefixRelays s of (relays, s) \<Rightarrow>
      case et_GetPrefix e etcdKeyPrefixHealth s of (health, s) \<Rightarrow>
      case snapshot_health e relayID (case health of None \<Rightarrow> [] | Some kvs \<Rightarrow> kvs) s of (healthEvents, s) \<Rightarrow>
        (snapshot_leases tunnelID relayID now (case leases of None \<Rightarrow> [] | Some kvs \<Rightarrow> kvs) @
         snapshot_relays relayID (case relays of None \<Rightarrow> [] | Some kvs \<Rightarrow> kvs) @ healthEvents, s))"

subsection \<open>The watch\<close>

datatype etcd_event = PutEvent string etcd_value | DeleteEvent string

definition handleEtcdEvent :: "'s etcd \<Rightarrow> etcd_event \<Rightarrow> EtcdCoordinator \<Rightarrow> 's \<Rightarrow> EtcdCoordinator \<times> 's" where
  "handleEtcdEvent e ev c s =
     (let key = (case ev of PutEvent k v \<Rightarrow> k | DeleteEvent k \<Rightarrow> k) in
      if HasPrefix key etcdKeyPrefixLeases then
        (case ev of
           DeleteEvent _ \<Rightarrow> (etcd_Publish (leaseEvent RegistryEventLeaseReleased
             \<lparr> le_LeaseID = [], le_TunnelID = TrimPrefix key etcdKeyPrefixLeases, le_RelayID = [],
               le_ExpiresAt = zero_time, le_Version = 0 \<rparr>) c, s)
         | PutEvent _ v \<Rightarrow> (case Unmarshal_lease v of
             None \<Rightarrow> (c, s)
           | Some meta \<Rightarrow> (etcd_Publish (leaseEvent RegistryEventLeaseAcquired (lease_of_meta meta))
               (c\<lparr>ec_etcdLeaseOf := mput (lm_LeaseID meta) (lm_EtcdLease meta) (ec_etcdLeaseOf c)\<rparr>), s)))
      else if HasPrefix key etcdKeyPrefixRelays then
        (case ev of
           DeleteEvent _ \<Rightarrow> (etcd_Publish (relayEvent
             \<lparr> ri_RelayID = TrimPrefix key etcdKeyPrefixRelays, ri_AdvertiseAddr = [], ri_State = ''gone'',
               ri_ActiveTunnels = 0, ri_ActiveStreams = 0, ri_LastSeen = zero_time, ri_Region = [] \<rparr>) c, s)
         | PutEvent _ v \<Rightarrow> (case Unmarshal_relay v of
             None \<Rightarrow> (c, s)
           | Some meta \<Rightarrow> (etcd_Publish (relayEvent (relay_of_meta meta)) c, s)))
      else if HasPrefix key etcdKeyPrefixHealth then
        (case ev of
           DeleteEvent _ \<Rightarrow> (c, s)
         | PutEvent _ v \<Rightarrow> (case Unmarshal_health v of
             None \<Rightarrow> (c, s)
           | Some h \<Rightarrow> (let relayID = TrimPrefix key etcdKeyPrefixHealth in
               case etcd_getRelayInfo e relayID s of (rInfo, s) \<Rightarrow>
                 (etcd_publishHealth relayID h (etcd_Publish (healthEvent rInfo h) c), s))))
      else (c, s))"

fun handle_events :: "'s etcd \<Rightarrow> etcd_event list \<Rightarrow> EtcdCoordinator \<Rightarrow> 's \<Rightarrow> EtcdCoordinator \<times> 's" where
  "handle_events e [] c s = (c, s)"
| "handle_events e (ev # evs) c s = (case handleEtcdEvent e ev c s of (c, s) \<Rightarrow> handle_events e evs c s)"

text \<open>\<^verbatim>\<open>watchLoop\<close> recurses on the answers of the watch channel; the list ends when the context is done or the channel
  is closed.\<close>

fun etcd_watchLoop :: "'s etcd \<Rightarrow> etcd_event list list \<Rightarrow> EtcdCoordinator \<Rightarrow> 's \<Rightarrow> EtcdCoordinator \<times> 's" where
  "etcd_watchLoop e [] c s = (c, s)"
| "etcd_watchLoop e (resp # wch) c s = (case handle_events e resp c s of (c, s) \<Rightarrow> etcd_watchLoop e wch c s)"

end
