(* ===== verification/TE_Cluster.thy ===== *)
theory TE_Cluster
  imports TE_Etcd "HOL-Library.AList"
begin

text \<open>
  Registry instances that coordinate through one etcd cluster. The documented behaviour of etcd is the hypothesis
  \<open>etcd_spec\<close>; the operations of \<open>TE_Etcd\<close> by any number of instances, the events their watches deliver and the expiry of
  etcd leases, in any order, are the steps of a fleet. The lemmas say what every operation does to the cluster; the
  properties are that a tunnel's lease does not change hands while it is there, that a lease is released through
  whichever instance is asked, and three ways in which the code fails: renewals never succeed, a lease that was kept alive
  is neither reported nor given away, and a relay that acquires again can overwrite the lease of another one.
\<close>

subsection \<open>What etcd promises\<close>

type_synonym etcd_view = "string \<Rightarrow> (etcd_value \<times> int option) option"

text \<open>The keys that are attached to a lease disappear with it.\<close>

definition drop_lease :: "int \<Rightarrow> etcd_view \<Rightarrow> etcd_view" where
  "drop_lease l v = (\<lambda>k. case v k of
     Some (x, Some m) \<Rightarrow> if m = l then None else Some (x, Some m)
   | w \<Rightarrow> w)"

definition unattached :: "int \<Rightarrow> etcd_view \<Rightarrow> bool" where
  "unattached l v \<longleftrightarrow> (\<forall>k x. v k \<noteq> Some (x, Some l))"

definition grant_spec :: "('s \<Rightarrow> etcd_view) \<Rightarrow> 's etcd \<Rightarrow> bool" where
  "grant_spec view e \<longleftrightarrow> (\<forall>ttl s r s'. et_Grant e ttl s = (r, s') \<longrightarrow> view s' = view s \<and>
     (\<forall>l. r = Some l \<longrightarrow> unattached l (view s)))"

definition revoke_spec :: "('s \<Rightarrow> etcd_view) \<Rightarrow> 's etcd \<Rightarrow> bool" where
  "revoke_spec view e \<longleftrightarrow> (\<forall>l s r s'. et_Revoke e l s = (r, s') \<longrightarrow>
     view s' = drop_lease l (view s) \<or> (r = None \<and> view s' = view s))"

definition keepalive_spec :: "('s \<Rightarrow> etcd_view) \<Rightarrow> 's etcd \<Rightarrow> bool" where
  "keepalive_spec view e \<longleftrightarrow> (\<forall>l s r s'. et_KeepAliveOnce e l s = (r, s') \<longrightarrow> view s' = view s)"

definition put_spec :: "('s \<Rightarrow> etcd_view) \<Rightarrow> 's etcd \<Rightarrow> bool" where
  "put_spec view e \<longleftrightarrow> (\<forall>k x l s r s'. et_Put e k x l s = (r, s') \<longrightarrow>
     view s' = (view s)(k \<mapsto> (x, l)) \<or> (r = None \<and> view s' = view s))"

definition get_spec :: "('s \<Rightarrow> etcd_view) \<Rightarrow> 's etcd \<Rightarrow> bool" where
  "get_spec view e \<longleftrightarrow> (\<forall>k s r s'. et_Get e k s = (r, s') \<longrightarrow> view s' = view s \<and>
     (\<forall>kvs. r = Some kvs \<longrightarrow> kvs = (case view s k of None \<Rightarrow> [] | Some (x, l) \<Rightarrow> [(k, x)])))"

definition prefix_spec :: "('s \<Rightarrow> etcd_view) \<Rightarrow> 's etcd \<Rightarrow> bool" where
  "prefix_spec view e \<longleftrightarrow> (\<forall>p s r s'. et_GetPrefix e p s = (r, s') \<longrightarrow> view s' = view s \<and>
     (\<forall>kvs. r = Some kvs \<longrightarrow> distinct (map fst kvs) \<and>
        set kvs = {(k, x). HasPrefix k p \<and> (\<exists>l. view s k = Some (x, l))}))"

definition txn_spec :: "('s \<Rightarrow> etcd_view) \<Rightarrow> 's etcd \<Rightarrow> bool" where
  "txn_spec view e \<longleftrightarrow> (\<forall>k x l s r s'. et_Create e k x l s = (r, s') \<longrightarrow>
     (view s k = None \<and> view s' = (view s)(k \<mapsto> (x, Some l)) \<and> (r = None \<or> (\<exists>kvs. r = Some (True, kvs)))) \<or>
     (view s' = view s \<and> (r = None \<or> (\<exists>y m. view s k = Some (y, m) \<and> r = Some (False, [(k, y)])))))"

definition etcd_spec :: "('s \<Rightarrow> etcd_view) \<Rightarrow> 's etcd \<Rightarrow> bool" where
  "etcd_spec view e \<longleftrightarrow> grant_spec view e \<and> revoke_spec view e \<and> keepalive_spec view e \<and> put_spec view e \<and>
     get_spec view e \<and> prefix_spec view e \<and> txn_spec view e"

lemma spec_Grant:
  "etcd_spec view e \<Longrightarrow> et_Grant e ttl s = (r, s') \<Longrightarrow> view s' = view s \<and> (\<forall>l. r = Some l \<longrightarrow> unattached l (view s))"
  unfolding etcd_spec_def grant_spec_def by blast

lemma spec_Revoke:
  "etcd_spec view e \<Longrightarrow> et_Revoke e l s = (r, s') \<Longrightarrow> view s' = drop_lease l (view s) \<or> (r = None \<and> view s' = view s)"
  unfolding etcd_spec_def revoke_spec_def by blast

lemma spec_KeepAliveOnce: "etcd_spec view e \<Longrightarrow> et_KeepAliveOnce e l s = (r, s') \<Longrightarrow> view s' = view s"
  unfolding etcd_spec_def keepalive_spec_def by blast

lemma spec_Put:
  "etcd_spec view e \<Longrightarrow> et_Put e k x l s = (r, s') \<Longrightarrow>
     view s' = (view s)(k \<mapsto> (x, l)) \<or> (r = None \<and> view s' = view s)"
  unfolding etcd_spec_def put_spec_def by blast

lemma spec_Get:
  "etcd_spec view e \<Longrightarrow> et_Get e k s = (r, s') \<Longrightarrow> view s' = view s \<and>
     (\<forall>kvs. r = Some kvs \<longrightarrow> kvs = (case view s k of None \<Rightarrow> [] | Some (x, l) \<Rightarrow> [(k, x)]))"
  unfolding etcd_spec_def get_spec_def by blast

lemma spec_Create:
  assumes "etcd_spec view e" and "et_Create e k x l s = (r, s')"
  obtains (created) "view s k = None" "view s' = (view s)(k \<mapsto> (x, Some l))" "r = None \<or> (\<exists>kvs. r = Some (True, kvs))"
  | (failed) "view s' = view s" "r = None"
  | (found) y m where "view s' = view s" "view s k = Some (y, m)" "r = Some (False, [(k, y)])"
proof -
  have "(view s k = None \<and> view s' = (view s)(k \<mapsto> (x, Some l)) \<and> (r = None \<or> (\<exists>kvs. r = Some (True, kvs)))) \<or>
     (view s' = view s \<and> (r = None \<or> (\<exists>y m. view s k = Some (y, m) \<and> r = Some (False, [(k, y)]))))"
    using assms unfolding etcd_spec_def txn_spec_def by (elim conjE) simp
  then show thesis
    by (elim disjE conjE exE) (rule created failed found; (assumption | simp))+
qed

lemma drop_lease_unattached: "unattached l v \<Longrightarrow> drop_lease l v = v"
  by (auto simp: drop_lease_def unattached_def fun_eq_iff split: option.splits)

lemma drop_lease_put: "unattached l v \<Longrightarrow> drop_lease l (v(k \<mapsto> (x, Some l))) = v(k := None)"
  by (auto simp: drop_lease_def unattached_def fun_eq_iff split: option.splits)

lemma drop_lease_cases: "drop_lease l v k = v k \<or> drop_lease l v k = None"
  by (auto simp: drop_lease_def split: option.splits)

lemma revoke_view:
  "etcd_spec view e \<Longrightarrow> view (snd (et_Revoke e l s)) = drop_lease l (view s) \<or> view (snd (et_Revoke e l s)) = view s"
  using spec_Revoke [of view e l s "fst (et_Revoke e l s)" "snd (et_Revoke e l s)"] by auto

lemma revoke_unattached:
  "etcd_spec view e \<Longrightarrow> unattached l (view s) \<Longrightarrow> view (snd (et_Revoke e l s)) = view s"
  using spec_Revoke [of view e l s "fst (et_Revoke e l s)" "snd (et_Revoke e l s)"] drop_lease_unattached by auto

lemma revoke_put:
  "etcd_spec view e \<Longrightarrow> unattached l v \<Longrightarrow> view s = v(k \<mapsto> (x, Some l)) \<Longrightarrow>
     view (snd (et_Revoke e l s)) = v(k := None) \<or> view (snd (et_Revoke e l s)) = v(k \<mapsto> (x, Some l))"
  using spec_Revoke [of view e l s "fst (et_Revoke e l s)" "snd (et_Revoke e l s)"] drop_lease_put [of l v k x] by auto

subsection \<open>A client that behaves so\<close>

text \<open>The cluster as a list of entries and the last lease number given out.\<close>

type_synonym mem_cluster = "(string \<times> etcd_value \<times> int option) list \<times> int"

definition mem_view :: "mem_cluster \<Rightarrow> etcd_view" where
  "mem_view s = map_of (fst s)"

primrec last_lease :: "(string \<times> etcd_value \<times> int option) list \<Rightarrow> int \<Rightarrow> int" where
  "last_lease [] n = n"
| "last_lease (x # xs) n = (case snd (snd x) of None \<Rightarrow> last_lease xs n | Some l \<Rightarrow> max l (last_lease xs n))"

definition mem_etcd :: "mem_cluster etcd" where
  "mem_etcd = \<lparr>
     et_Grant = (\<lambda>ttl (xs, n). let l = last_lease xs n + 1 in (Some l, (xs, l))),
     et_Revoke = (\<lambda>l (xs, n). (Some (), (filter (\<lambda>(k, x, m). m \<noteq> Some l) (AList.clearjunk xs), n))),
     et_KeepAliveOnce = (\<lambda>l s. (Some (), s)),
     et_Put = (\<lambda>k x l (xs, n). (Some (), (mput k (x, l) xs, n))),
     et_Get = (\<lambda>k (xs, n). (Some (case map_of xs k of None \<Rightarrow> [] | Some (x, l) \<Rightarrow> [(k, x)]), (xs, n))),
     et_GetPrefix = (\<lambda>p (xs, n). (Some (map (\<lambda>(k, x, l). (k, x)) (filter (\<lambda>(k, x, l). HasPrefix k p) (AList.clearjunk xs))), (xs, n))),
     et_Create = (\<lambda>k x l (xs, n). case map_of xs k of
        None \<Rightarrow> (Some (True, []), (mput k (x, Some l) xs, n))
      | Some (y, m) \<Rightarrow> (Some (False, [(k, y)]), (xs, n))) \<rparr>"

lemma last_lease_bound: "n \<le> last_lease xs n" "(k, x, Some l) \<in> set xs \<Longrightarrow> l \<le> last_lease xs n"
  by (induction xs) (auto split: option.splits)

lemma mem_grant: "grant_spec mem_view mem_etcd"
proof -
  have "map_of xs k \<noteq> Some (x, Some (last_lease xs n + 1))" for xs n k x
    using last_lease_bound(2) [of k x "last_lease xs n + 1" xs n] by (auto dest: map_of_SomeD)
  then show ?thesis by (auto simp: grant_spec_def mem_etcd_def mem_view_def unattached_def Let_def)
qed

lemma map_of_filter_unique:
  assumes "distinct (map fst xs)"
  shows "map_of (filter (\<lambda>(k, x, m). m \<noteq> Some l) xs) = drop_lease l (map_of xs)"
  using assms
proof (induction xs)
  case (Cons p xs)
  obtain k x m where p: "p = (k, x, m)" by (cases p)
  have "map_of xs k = None" using Cons.prems p by (simp add: map_of_eq_None_iff)
  with Cons p show ?case by (auto simp: drop_lease_def fun_eq_iff split: option.splits)
qed (simp add: drop_lease_def)

lemma mem_revoke: "revoke_spec mem_view mem_etcd"
  by (auto simp: revoke_spec_def mem_etcd_def mem_view_def map_of_filter_unique distinct_clearjunk map_of_clearjunk)

lemma mem_prefix: "prefix_spec mem_view mem_etcd"
proof -
  have "set (map (\<lambda>(k, x, l). (k, x)) (filter (\<lambda>(k, x, l). HasPrefix k p) (AList.clearjunk xs))) =
      {(k, x). HasPrefix k p \<and> (\<exists>l. map_of xs k = Some (x, l))}" for xs p
  proof -
    have "(k, x, l) \<in> set (AList.clearjunk xs) \<longleftrightarrow> map_of xs k = Some (x, l)" for k x l
      using map_of_eq_Some_iff [OF distinct_clearjunk] by (metis map_of_clearjunk)
    then show ?thesis by force
  qed
  moreover have "distinct (map fst (map (\<lambda>(k, x, l). (k, x)) (filter (\<lambda>(k, x, l). HasPrefix k p) (AList.clearjunk xs))))"
    for xs :: "(string \<times> etcd_value \<times> int option) list" and p
  proof -
    have "map fst (map (\<lambda>(k, x, l). (k, x)) ys) = map fst ys" for ys :: "(string \<times> etcd_value \<times> int option) list"
      by (induction ys) auto
    then show ?thesis using distinct_clearjunk [of xs] by (simp only: distinct_map_filter)
  qed
  ultimately show ?thesis
    unfolding prefix_spec_def mem_etcd_def mem_view_def by (clarsimp simp del: set_map set_filter map_map)
qed

lemma mem_etcd_spec: "etcd_spec mem_view mem_etcd"
  unfolding etcd_spec_def
  by (intro conjI mem_grant mem_revoke mem_prefix)
    (auto simp: keepalive_spec_def put_spec_def get_spec_def txn_spec_def mem_etcd_def mem_view_def fun_eq_iff
      split: option.splits)

subsection \<open>What the operations do to the cluster\<close>

abbreviation lease_key :: "string \<Rightarrow> string" where
  "lease_key t \<equiv> etcdKeyPrefixLeases @ t"

text \<open>\<open>written\<close>: the view after the lease of \<open>m\<close> has been put, under a fresh etcd lease.\<close>

definition written :: "string \<Rightarrow> leaseMeta \<Rightarrow> etcd_view \<Rightarrow> etcd_view" where
  "written k m v = v(k \<mapsto> (Marshal_unchecked (LeaseJSON m), Some (lm_EtcdLease m)))"

lemma Unmarshal_Marshal_unchecked:
  "Unmarshal_lease (Marshal_unchecked (LeaseJSON m)) = (if json_time (lm_ExpiresAt m) then Some m else None)"
  by (simp add: Marshal_unchecked_def)

text \<open>\<open>new_lease\<close>: a lease that the request may bring about, a new one or the relay's own with a new version.\<close>

definition new_lease :: "LeaseRequest \<Rightarrow> string \<Rightarrow> etcd_view \<Rightarrow> leaseMeta \<Rightarrow> bool" where
  "new_lease req newID v m \<longleftrightarrow> lr_TunnelID req \<noteq> [] \<and> lr_RelayID req \<noteq> [] \<and> unattached (lm_EtcdLease m) v \<and>
     lm_RelayID m = lr_RelayID req \<and>
     ((v (lease_key (lr_TunnelID req)) = None \<and> lm_TunnelID m = lr_TunnelID req \<and> lm_LeaseID m = newID) \<or>
      (\<exists>x l k. v (lease_key (lr_TunnelID req)) = Some (x, l) \<and> Unmarshal_lease x = Some k \<and>
         lm_RelayID k = lr_RelayID req \<and> lm_TunnelID m = lm_TunnelID k \<and> lm_LeaseID m = lm_LeaseID k))"

text \<open>The possible outcomes of a request for a lease: nothing happened; the key was written and removed again; it was
  written, but the request failed; the lease was granted.\<close>

inductive acquire_outcome ::
  "LeaseRequest \<Rightarrow> string \<Rightarrow> etcd_view \<Rightarrow> EtcdCoordinator \<Rightarrow> Lease result \<Rightarrow> EtcdCoordinator \<Rightarrow> etcd_view \<Rightarrow> bool"
  for req newID v c where
  refused: "\<not> is_ok r \<Longrightarrow> acquire_outcome req newID v c r c v"
| undone: "\<not> is_ok r \<Longrightarrow> new_lease req newID v m \<Longrightarrow>
    acquire_outcome req newID v c r c (v(lease_key (lr_TunnelID req) := None))"
| unanswered: "\<not> is_ok r \<Longrightarrow> new_lease req newID v m \<Longrightarrow>
    acquire_outcome req newID v c r c (written (lease_key (lr_TunnelID req)) m v)"
| granted: "new_lease req newID v m \<Longrightarrow> acquire_outcome req newID v c (Ok (lease_of_meta m))
      (c\<lparr>ec_etcdLeaseOf := mput (lm_LeaseID m) (lm_EtcdLease m) (ec_etcdLeaseOf c)\<rparr>)
      (written (lease_key (lr_TunnelID req)) m v)"

lemma revoked_outcome:
  assumes "etcd_spec view e" and "new_lease req newID v m" and "\<not> is_ok r"
    and "view s = v \<or> view s = written (lease_key (lr_TunnelID req)) m v"
  shows "acquire_outcome req newID v c r c (view (snd (et_Revoke e (lm_EtcdLease m) s)))"
proof -
  let ?key = "lease_key (lr_TunnelID req)" and ?v' = "view (snd (et_Revoke e (lm_EtcdLease m) s))"
  have un: "unattached (lm_EtcdLease m) v" using assms(2) by (simp add: new_lease_def)
  consider "?v' = v" | "?v' = v(?key := None)" | "?v' = written ?key m v"
    using assms(4) revoke_unattached [OF assms(1), of "lm_EtcdLease m" s] un
      revoke_put [OF assms(1) un, of s ?key "Marshal_unchecked (LeaseJSON m)"] by (auto simp: written_def)
  then show ?thesis
    by cases (simp_all add: acquire_outcome.refused [OF assms(3)] acquire_outcome.undone [OF assms(3,2)]
      acquire_outcome.unanswered [OF assms(3,2)])
qed

lemma etcd_reacquire_outcome:
  assumes "etcd_spec view e" and "view s (lease_key (lr_TunnelID req)) = Some (x, l)" and "Unmarshal_lease x = Some k"
    and "lm_RelayID k = lr_RelayID req" and "lr_TunnelID req \<noteq> []" and "lr_RelayID req \<noteq> []"
    and "etcd_reacquire e now req k c s = (r, c', s')"
  shows "acquire_outcome req newID (view s) c r c' (view s')"
proof -
  obtain g s1 where g: "et_Grant e (etcd_ttl (lr_TTL req)) s = (g, s1)" by (cases "et_Grant e (etcd_ttl (lr_TTL req)) s")
  note v1 = spec_Grant [OF assms(1) g]
  show ?thesis
  proof (cases g)
    case None
    with assms(7) g v1 show ?thesis by (auto simp: etcd_reacquire_def Let_def intro: acquire_outcome.refused)
  next
    case (Some el)
    let ?m = "k\<lparr>lm_Version := lm_Version k + 1, lm_ExpiresAt := now + lr_TTL req, lm_EtcdLease := el\<rparr>"
    let ?key = "lease_key (lr_TunnelID req)"
    obtain p s2 where p: "et_Put e ?key (Marshal_unchecked (LeaseJSON ?m)) (Some el) s1 = (p, s2)"
      by (cases "et_Put e ?key (Marshal_unchecked (LeaseJSON ?m)) (Some el) s1")
    have v2: "view s2 = written ?key ?m (view s) \<or> p = None \<and> view s2 = view s"
      using spec_Put [OF assms(1) p] v1 by (simp add: written_def)
    have new: "new_lease req newID (view s) ?m" using v1 Some assms by (simp add: new_lease_def)
    show ?thesis
    proof (cases p)
      case None
      then have "r = Err (StatusErr GUnavailable ''etcd put'')" "c' = c" "s' = snd (et_Revoke e (lm_EtcdLease ?m) s2)"
        using assms(7) g Some p by (auto simp: etcd_reacquire_def Let_def)
      with revoked_outcome [OF assms(1) new] v2 show ?thesis by auto
    next
      case (Some u)
      with v2 have "view s2 = written ?key ?m (view s)" by simp
      with Some acquire_outcome.granted [OF new, of c] assms(7) g \<open>g = Some el\<close> p show ?thesis
        by (auto simp: etcd_reacquire_def Let_def)
    qed
  qed
qed

lemma etcd_AcquireLease_outcome:
  assumes "etcd_spec view e" and "etcd_AcquireLease e newID now now' req c s = (r, c', s')"
  shows "acquire_outcome req newID (view s) c r c' (view s')"
proof (cases "lr_TunnelID req = [] \<or> lr_RelayID req = []")
  case True
  with assms(2) show ?thesis by (auto simp: etcd_AcquireLease_def intro: acquire_outcome.refused)
next
  case ids: False
  obtain g s1 where g: "et_Grant e (etcd_ttl (lr_TTL req)) s = (g, s1)" by (cases "et_Grant e (etcd_ttl (lr_TTL req)) s")
  note v1 = spec_Grant [OF assms(1) g]
  show ?thesis
  proof (cases g)
    case None
    with assms(2) ids g v1 show ?thesis by (auto simp: etcd_AcquireLease_def intro: acquire_outcome.refused)
  next
    case (Some el)
    let ?m = "\<lparr> lm_LeaseID = newID, lm_TunnelID = lr_TunnelID req, lm_RelayID = lr_RelayID req,
      lm_ExpiresAt = now + lr_TTL req, lm_Version = 1, lm_EtcdLease = el \<rparr>"
    have un: "unattached el (view s)" using v1 Some by simp
    show ?thesis
    proof (cases "json_time (now + lr_TTL req)")
      case False
      with assms(2) ids g Some revoke_unattached [OF assms(1), of el s1] v1 un show ?thesis
        by (auto simp: etcd_AcquireLease_def intro: acquire_outcome.refused)
    next
      case json: True
      obtain t s2 where t: "et_Create e (lease_key (lr_TunnelID req)) (LeaseJSON ?m) el s1 = (t, s2)"
        by (cases "et_Create e (lease_key (lr_TunnelID req)) (LeaseJSON ?m) el s1")
      note run = assms(2) [unfolded etcd_AcquireLease_def] and known = ids g Some json t
      from assms(1) t show ?thesis
      proof (cases rule: spec_Create)
        case created
        have new: "new_lease req newID (view s) ?m" using created un ids v1 by (simp add: new_lease_def)
        have w: "view s2 = written (lease_key (lr_TunnelID req)) ?m (view s)"
          using created v1 json by (simp add: written_def Marshal_unchecked_def)
        from created(3) run known show ?thesis
          using revoked_outcome [OF assms(1) new, of "Err (StatusErr GUnavailable ''etcd txn'')" s2 c] w
            acquire_outcome.granted [OF new, of c]
          by (auto simp: Let_def)
      next
        case failed
        with run known revoke_unattached [OF assms(1), of el s2] v1 un show ?thesis
          by (auto simp: Let_def intro: acquire_outcome.refused)
      next
        case (found y m)
        let ?s3 = "snd (et_Revoke e el s2)"
        have v3: "view ?s3 = view s" using revoke_unattached [OF assms(1), of el s2] found v1 un by simp
        have key: "view ?s3 (lease_key (lr_TunnelID req)) = Some (y, m)" using found v1 v3 by simp
        show ?thesis
        proof (cases "\<exists>k. Unmarshal_lease y = Some k \<and> lm_RelayID k = lr_RelayID req")
          case True
          then obtain k where k: "Unmarshal_lease y = Some k" "lm_RelayID k = lr_RelayID req" by blast
          then have "etcd_reacquire e now' req k c ?s3 = (r, c', s')" using run known found by (simp add: Let_def)
          from etcd_reacquire_outcome [OF assms(1) key k _ _ this, of newID] ids v3 show ?thesis by simp
        next
          case False
          with run known found v3 show ?thesis
            by (auto simp: Let_def intro: acquire_outcome.refused split: option.splits)
        qed
      qed
    qed
  qed
qed

text \<open>Every other operation leaves the lease keys alone, or removes those of one etcd lease.\<close>

lemma etcd_RenewLease_effect:
  assumes "etcd_spec view e" and "view s etcdKeyPrefixLeases = None" and "etcd_RenewLease e i ttl now c s = (r, s')"
  shows "\<not> is_ok r \<and> view s' = view s"
proof (cases "i = [] \<or> map_of (ec_etcdLeaseOf c) i = None")
  case True
  with assms(3) show ?thesis by (auto simp: etcd_RenewLease_def split: if_splits)
next
  case False
  then obtain l where l: "i \<noteq> []" "map_of (ec_etcdLeaseOf c) i = Some l" by auto
  obtain a s1 where a: "et_KeepAliveOnce e l s = (a, s1)" by (cases "et_KeepAliveOnce e l s")
  obtain g s2 where g: "et_Get e etcdKeyPrefixLeases s1 = (g, s2)" by (cases "et_Get e etcdKeyPrefixLeases s1")
  from assms l a g spec_KeepAliveOnce [OF assms(1) a] spec_Get [OF assms(1) g] show ?thesis
    by (auto simp: etcd_RenewLease_def split: option.splits)
qed

lemma etcd_ReleaseLease_effect:
  assumes "etcd_spec view e" and "etcd_ReleaseLease e i c s = (r, c', s')"
  shows "view s' = view s \<or> (\<exists>l. view s' = drop_lease l (view s))"
  using assms(2) revoke_view [OF assms(1), of _ s]
  by (auto simp: etcd_ReleaseLease_def split: if_splits option.splits)

definition same_leases :: "etcd_view \<Rightarrow> etcd_view \<Rightarrow> bool" where
  "same_leases v v' \<longleftrightarrow> (\<forall>t. v' (lease_key t) = v (lease_key t))"

lemma lease_key_other [simp]:
  "etcdKeyPrefixRelays @ r \<noteq> lease_key t" "etcdKeyPrefixHealth @ r \<noteq> lease_key t"
  by (simp_all add: etcdKeyPrefixRelays_def etcdKeyPrefixHealth_def etcdKeyPrefixLeases_def)

lemma getRelayInfo_view:
  "etcd_spec view e \<Longrightarrow> etcd_getRelayInfo e r s = (i, s') \<Longrightarrow> view s' = view s"
  using spec_Get [of view e "etcdKeyPrefixRelays @ r" s]
  by (cases "et_Get e (etcdKeyPrefixRelays @ r) s")
    (auto simp: etcd_getRelayInfo_def split: option.splits list.splits prod.splits)

lemma put_relay_leases: "etcd_spec view e \<Longrightarrow> same_leases (view s) (view (put_relay e m s))"
  using spec_Put [of view e "etcdKeyPrefixRelays @ rm_RelayID m" "RelayJSON m" None s
      "fst (et_Put e (etcdKeyPrefixRelays @ rm_RelayID m) (RelayJSON m) None s)"
      "snd (et_Put e (etcdKeyPrefixRelays @ rm_RelayID m) (RelayJSON m) None s)"]
  by (auto simp: put_relay_def same_leases_def lease_key_other [symmetric])

lemma put_health_leases: "etcd_spec view e \<Longrightarrow> same_leases (view s) (view (put_health e r h s))"
proof -
  assume spec: "etcd_spec view e"
  obtain l s1 where g: "et_Grant e 60 s = (l, s1)" by (cases "et_Grant e 60 s")
  let ?p = "et_Put e (etcdKeyPrefixHealth @ r) (HealthJSON h) l s1"
  from spec_Grant [OF spec g] spec_Put [OF spec, of "etcdKeyPrefixHealth @ r" "HealthJSON h" l s1 "fst ?p" "snd ?p"] g
  show ?thesis by (auto simp: put_health_def same_leases_def lease_key_other [symmetric])
qed

lemma etcd_ReportRelayHealth_effect:
  assumes "etcd_spec view e" and "etcd_ReportRelayHealth e relay addr h c s = (r, c', s')"
  shows "same_leases (view s) (view s')"
proof -
  obtain i s1 where i: "etcd_getRelayInfo e relay s = (i, s1)" by (cases "etcd_getRelayInfo e relay s")
  have "s' = s \<or> (\<exists>m. s' = put_health e relay h (put_relay e m s1))"
    using assms(2) i unfolding etcd_ReportRelayHealth_def Let_def by (auto split: if_splits)
  moreover have "same_leases (view s) (view (put_health e relay h (put_relay e m s1)))" for m
    using put_health_leases [OF assms(1), of "put_relay e m s1"] put_relay_leases [OF assms(1), of s1 m]
      getRelayInfo_view [OF assms(1) i] by (simp add: same_leases_def)
  ultimately show ?thesis by (auto simp: same_leases_def)
qed

lemma handleEtcdEvent_view:
  "etcd_spec view e \<Longrightarrow> handleEtcdEvent e ev c s = (c', s') \<Longrightarrow> view s' = view s"
  by (auto simp: handleEtcdEvent_def Let_def dest: getRelayInfo_view
    split: if_splits etcd_event.splits option.splits prod.splits)

lemma handle_events_view:
  "etcd_spec view e \<Longrightarrow> handle_events e evs c s = (c', s') \<Longrightarrow> view s' = view s"
  by (induction e evs c s rule: handle_events.induct) (auto dest: handleEtcdEvent_view split: prod.splits)

subsection \<open>A fleet of registry instances\<close>

type_synonym 's fleet = "(nat \<Rightarrow> EtcdCoordinator) \<times> 's"

text \<open>The events that a watch delivers are those of earlier writes; nothing below depends on it, so \<open>watch\<close> allows any.
  \<open>expire\<close> is the end of an etcd lease.\<close>

inductive fleet_step :: "('s \<Rightarrow> etcd_view) \<Rightarrow> 's etcd \<Rightarrow> 's fleet \<Rightarrow> 's fleet \<Rightarrow> bool" for view e where
  acquire: "etcd_AcquireLease e newID now now' req (cs i) s = (r, c', s') \<Longrightarrow> fleet_step view e (cs, s) (cs(i := c'), s')"
| renew: "etcd_RenewLease e leaseID ttl now (cs i) s = (r, s') \<Longrightarrow> fleet_step view e (cs, s) (cs, s')"
| release: "etcd_ReleaseLease e leaseID (cs i) s = (r, c', s') \<Longrightarrow> fleet_step view e (cs, s) (cs(i := c'), s')"
| report: "etcd_ReportRelayHealth e relayID addr h (cs i) s = (q, c', s') \<Longrightarrow>
    fleet_step view e (cs, s) (cs(i := c'), s')"
| watch: "handle_events e evs (cs i) s = (c', s') \<Longrightarrow> fleet_step view e (cs, s) (cs(i := c'), s')"
| expire: "view s' = drop_lease l (view s) \<Longrightarrow> fleet_step view e (cs, s) (cs, s')"

text \<open>The lease keys hold leases of the tunnel they are named after, each attached to the etcd lease it names, or the
  empty text of a lease whose expiry could not be written.\<close>

definition leases_wf :: "etcd_view \<Rightarrow> bool" where
  "leases_wf v \<longleftrightarrow> (\<forall>t x l. v (lease_key t) = Some (x, l) \<longrightarrow> t \<noteq> [] \<and> (x = OtherText [] \<or>
     (\<exists>m. x = LeaseJSON m \<and> lm_TunnelID m = t \<and> lm_RelayID m \<noteq> [] \<and> l = Some (lm_EtcdLease m))))"

lemma leases_wf_bare: "leases_wf v \<Longrightarrow> v etcdKeyPrefixLeases = None"
  unfolding leases_wf_def by (metis append_Nil2 option.exhaust surj_pair)

lemma leases_wf_subset:
  assumes "leases_wf v" and "\<And>t. v' (lease_key t) = v (lease_key t) \<or> v' (lease_key t) = None"
  shows "leases_wf v'"
  unfolding leases_wf_def
proof (intro allI impI)
  fix t x l assume "v' (lease_key t) = Some (x, l)"
  with assms(2) [of t] have "v (lease_key t) = Some (x, l)" by simp
  with assms(1) show "t \<noteq> [] \<and> (x = OtherText [] \<or>
     (\<exists>m. x = LeaseJSON m \<and> lm_TunnelID m = t \<and> lm_RelayID m \<noteq> [] \<and> l = Some (lm_EtcdLease m)))"
    unfolding leases_wf_def by blast
qed

lemma leases_wf_removed: "leases_wf v \<Longrightarrow> leases_wf (v(k := None))"
  by (erule leases_wf_subset) simp

lemma leases_wf_drop: "leases_wf v \<Longrightarrow> leases_wf (drop_lease l v)"
  by (erule leases_wf_subset) (rule drop_lease_cases)

lemma new_lease_tunnel:
  assumes "leases_wf v" and "new_lease req newID v m"
  shows "lm_TunnelID m = lr_TunnelID req" "lm_RelayID m = lr_RelayID req" "lr_TunnelID req \<noteq> []" "lr_RelayID req \<noteq> []"
  using assms unfolding leases_wf_def new_lease_def by fastforce+

lemma leases_wf_written:
  assumes "leases_wf v" and "new_lease req newID v m"
  shows "leases_wf (written (lease_key (lr_TunnelID req)) m v)"
  using assms(1) new_lease_tunnel [OF assms]
  unfolding leases_wf_def written_def Marshal_unchecked_def by auto

lemma fleet_step_wf:
  assumes "etcd_spec view e" and "fleet_step view e st st'" and "leases_wf (view (snd st))"
  shows "leases_wf (view (snd st'))"
  using assms(2,3)
proof cases
  case (acquire newID now now' req cs i s r c' s')
  from etcd_AcquireLease_outcome [OF assms(1) acquire(3)] assms(3) acquire(1,2) show ?thesis
    by cases (auto intro: leases_wf_written leases_wf_removed)
next
  case (renew leaseID ttl now cs i s r s')
  with etcd_RenewLease_effect [OF assms(1) _ renew(3)] leases_wf_bare assms(3) show ?thesis by auto
next
  case (release leaseID cs i s r c' s')
  with etcd_ReleaseLease_effect [OF assms(1) release(3)] assms(3) show ?thesis by (auto intro: leases_wf_drop)
next
  case (report relayID addr h cs i s q c' s')
  with etcd_ReportRelayHealth_effect [OF assms(1) report(3)] assms(3) show ?thesis
    by (auto simp: same_leases_def intro!: leases_wf_subset [of "view s"])
next
  case (watch evs cs i s c' s')
  with handle_events_view [OF assms(1) watch(3)] assms(3) show ?thesis by simp
next
  case (expire s' l s cs)
  with assms(3) show ?thesis by (auto intro: leases_wf_drop)
qed

definition fleet_start :: "('s \<Rightarrow> etcd_view) \<Rightarrow> 's fleet \<Rightarrow> bool" where
  "fleet_start view st \<longleftrightarrow> fst st = (\<lambda>i. NewEtcdCoordinator) \<and> view (snd st) = Map.empty"

lemma fleet_wf:
  assumes "etcd_spec view e" and "reach (fleet_start view) (fleet_step view e) st"
  shows "leases_wf (view (snd st))"
  using assms(2)
proof (rule reach_invariant)
  show "leases_wf (view (snd st))" if "fleet_start view st" for st :: "'a fleet"
    using that by (simp add: fleet_start_def leases_wf_def)
  show "leases_wf (view (snd st'))" if "leases_wf (view (snd st))" and "fleet_step view e st st'" for st st'
    using fleet_step_wf [OF assms(1) that(2,1)] .
qed

text \<open>The relay that a tunnel's key names.\<close>

definition lease_owner :: "etcd_view \<Rightarrow> string \<Rightarrow> string option" where
  "lease_owner v t = (case v (lease_key t) of None \<Rightarrow> None | Some (x, l) \<Rightarrow> map_option lm_RelayID (Unmarshal_lease x))"

lemma lease_owner_written:
  "new_lease req newID v m \<Longrightarrow> lease_owner (written (lease_key (lr_TunnelID req)) m v) t =
     (if t = lr_TunnelID req then if json_time (lm_ExpiresAt m) then Some (lr_RelayID req) else None else lease_owner v t)"
  by (auto simp: lease_owner_def written_def Unmarshal_Marshal_unchecked new_lease_def)

lemma new_lease_owner:
  "new_lease req newID v m \<Longrightarrow> lease_owner v (lr_TunnelID req) = Some r \<Longrightarrow> r = lr_RelayID req"
  by (auto simp: new_lease_def lease_owner_def)

lemma lease_owner_same:
  assumes "v' (lease_key t) = v (lease_key t) \<or> v' (lease_key t) = None"
    and "lease_owner v t = Some r" and "lease_owner v' t = Some r'"
  shows "r' = r"
  using assms by (auto simp: lease_owner_def)

lemma lease_owner_drop:
  "lease_owner v t = Some r \<Longrightarrow> lease_owner (drop_lease l v) t = Some r' \<Longrightarrow> r' = r"
  by (rule lease_owner_same [OF drop_lease_cases])

lemma fleet_step_owner:
  assumes "etcd_spec view e" and "fleet_step view e st st'" and "leases_wf (view (snd st))"
    and "lease_owner (view (snd st)) t = Some r" and "lease_owner (view (snd st')) t = Some r'"
  shows "r' = r"
  using assms(2)
proof cases
  case (acquire newID now now' req cs i s q c' s')
  from etcd_AcquireLease_outcome [OF assms(1) acquire(3)] assms(4,5) acquire(1,2) show ?thesis
    by cases (auto simp: lease_owner_written lease_owner_def [of "_(_ := None)"] dest: new_lease_owner split: if_splits
      simp flip: lease_owner_def)
next
  case (renew leaseID ttl now cs i s q s')
  with etcd_RenewLease_effect [OF assms(1) _ renew(3)] leases_wf_bare assms(3-5) show ?thesis by auto
next
  case (release leaseID cs i s q c' s')
  with etcd_ReleaseLease_effect [OF assms(1) release(3)] assms(4,5) show ?thesis by (auto intro: lease_owner_drop)
next
  case (report relayID addr h cs i s q c' s')
  with etcd_ReportRelayHealth_effect [OF assms(1) report(3)] assms(4,5) show ?thesis
    by (auto simp: same_leases_def intro: lease_owner_same)
next
  case (watch evs cs i s c' s')
  with handle_events_view [OF assms(1) watch(3)] assms(4,5) show ?thesis by simp
next
  case (expire s' l s cs)
  with assms(4,5) show ?thesis by (auto intro: lease_owner_drop)
qed

lemma etcd_AcquireLease_refused:
  assumes "etcd_spec view e" and "lease_owner (view s) (lr_TunnelID req) = Some r" and "r \<noteq> lr_RelayID req"
  shows "\<not> is_ok (fst (etcd_AcquireLease e newID now now' req c s))"
proof -
  obtain q c' s' where q: "etcd_AcquireLease e newID now now' req c s = (q, c', s')"
    by (cases "etcd_AcquireLease e newID now now' req c s")
  from etcd_AcquireLease_outcome [OF assms(1) q] assms(2,3) q show ?thesis
    by cases (auto dest: new_lease_owner)
qed

subsection \<open>Properties\<close>

text \<open>C5: However many registry instances share a cluster, and in whatever order they run their operations, if no two of
  them overlap, a tunnel's lease does not change hands: as long as the tunnel's key is there, it names the same
  relay, and a request by any other relay, through any instance, is refused.\<close>

theorem etcd_lease_exclusive:
  assumes "etcd_spec view e" and "reach (fleet_start view) (fleet_step view e) st"
    and "lease_owner (view (snd st)) t = Some r"
    and "(\<lambda>x y. fleet_step view e x y \<and> lease_owner (view (snd y)) t \<noteq> None)\<^sup>*\<^sup>* st st'"
  shows "lease_owner (view (snd st')) t = Some r \<and>
    (\<forall>newID now now' relay ttl c. relay \<noteq> r \<longrightarrow> \<not> is_ok (fst (etcd_AcquireLease e newID now now'
       \<lparr> lr_TunnelID = t, lr_RelayID = relay, lr_TTL = ttl \<rparr> c (snd st'))))"
proof -
  from assms(4) have "leases_wf (view (snd st')) \<and> lease_owner (view (snd st')) t = Some r"
  proof induction
    case base
    with fleet_wf [OF assms(1,2)] assms(3) show ?case by simp
  next
    case (step y z)
    then have "lease_owner (view (snd z)) t = Some r"
      using fleet_step_owner [OF assms(1), of y z t r] by auto
    with step fleet_step_wf [OF assms(1), of y z] show ?case by blast
  qed
  with etcd_AcquireLease_refused [OF assms(1), of "snd st'"] show ?thesis by auto
qed

definition meta_example :: leaseMeta where
  "meta_example = \<lparr> lm_LeaseID = ''l'', lm_TunnelID = ''t'', lm_RelayID = ''a'', lm_ExpiresAt = 30, lm_Version = 1,
     lm_EtcdLease = 1 \<rparr>"

definition held_example :: mem_cluster where
  "held_example = ([(lease_key ''t'', LeaseJSON meta_example, Some 1)], 1)"

definition holder_example :: EtcdCoordinator where
  "holder_example = NewEtcdCoordinator\<lparr>ec_etcdLeaseOf := [(''l'', 1)]\<rparr>"

lemma acquire_example:
  "etcd_AcquireLease mem_etcd ''l'' 0 0 \<lparr> lr_TunnelID = ''t'', lr_RelayID = ''a'', lr_TTL = 30 \<rparr> NewEtcdCoordinator ([], 0) =
     (Ok (lease_of_meta meta_example), holder_example, held_example)"
  by (simp add: etcd_AcquireLease_def mem_etcd_def Let_def json_time_def meta_example_def held_example_def
    holder_example_def NewEtcdCoordinator_def mput_def mdel_def etcd_ttl_def)

lemma reach_example:
  "reach (fleet_start mem_view) (fleet_step mem_view mem_etcd) ((\<lambda>i. NewEtcdCoordinator)(0 := holder_example), held_example)"
proof (rule reach_step)
  show "reach (fleet_start mem_view) (fleet_step mem_view mem_etcd) (\<lambda>i. NewEtcdCoordinator, ([], 0))"
    by (rule reach_init) (simp add: fleet_start_def mem_view_def)
  show "fleet_step mem_view mem_etcd (\<lambda>i. NewEtcdCoordinator, ([], 0)) ((\<lambda>i. NewEtcdCoordinator)(0 := holder_example), held_example)"
    by (rule fleet_step.acquire [OF acquire_example])
qed

lemma owner_example: "lease_owner (mem_view held_example) ''t'' = Some ''a''"
  by (simp add: lease_owner_def mem_view_def held_example_def meta_example_def)

theorem etcd_lease_exclusive_witness:
  "lease_owner (mem_view held_example) ''t'' = Some ''a'' \<and>
   \<not> is_ok (fst (etcd_AcquireLease mem_etcd ''n'' 40 40 \<lparr> lr_TunnelID = ''t'', lr_RelayID = ''b'', lr_TTL = 30 \<rparr>
     NewEtcdCoordinator held_example))"
  using etcd_lease_exclusive [OF mem_etcd_spec reach_example, of "''t''" "''a''"
      "((\<lambda>i. NewEtcdCoordinator)(0 := holder_example), held_example)"] owner_example by auto

text \<open>C31: In no reachable state of a fleet does a renewal succeed, for any lease and through any instance: it reads
  the bare prefix of the lease keys instead of the keys below it. The stored expiry stays as it was.\<close>

theorem etcd_renew_never_succeeds:
  assumes "etcd_spec view e" and "reach (fleet_start view) (fleet_step view e) st"
  shows "\<not> is_ok (fst (etcd_RenewLease e leaseID ttl now c (snd st))) \<and>
    view (snd (etcd_RenewLease e leaseID ttl now c (snd st))) = view (snd st)"
  using etcd_RenewLease_effect [OF assms(1) leases_wf_bare [OF fleet_wf [OF assms]]] by (metis prod.collapse)

theorem etcd_renew_never_succeeds_witness:
  "\<not> is_ok (fst (etcd_RenewLease mem_etcd ''l'' 30 10 holder_example held_example)) \<and>
   mem_view (snd (etcd_RenewLease mem_etcd ''l'' 30 10 holder_example held_example)) = mem_view held_example"
  using etcd_renew_never_succeeds [OF mem_etcd_spec reach_example, of "''l''" 30 10 holder_example] by simp

text \<open>A lease whose stored expiry has passed, while its etcd lease was kept alive, is in limbo: \<^verbatim>\<open>CurrentLease\<close> does
  not report it, and no other relay can acquire the tunnel.\<close>

theorem etcd_lease_limbo:
  assumes "etcd_spec view e" and "view s (lease_key t) = Some (LeaseJSON m, l)" and "lm_ExpiresAt m < now"
    and "relay \<noteq> lm_RelayID m"
  shows "fst (etcd_CurrentLease e t now s) = None \<and>
    \<not> is_ok (fst (etcd_AcquireLease e newID now now' \<lparr> lr_TunnelID = t, lr_RelayID = relay, lr_TTL = ttl \<rparr> c s))"
proof -
  obtain r s' where g: "et_Get e (lease_key t) s = (r, s')" by (cases "et_Get e (lease_key t) s")
  have "fst (etcd_CurrentLease e t now s) = None"
    using g spec_Get [OF assms(1) g] assms(2,3) by (auto simp: etcd_CurrentLease_def split: option.splits)
  moreover have "lease_owner (view s) t = Some (lm_RelayID m)" using assms(2) by (simp add: lease_owner_def)
  ultimately show ?thesis
    using etcd_AcquireLease_refused [OF assms(1), of s "\<lparr> lr_TunnelID = t, lr_RelayID = relay, lr_TTL = ttl \<rparr>"] assms(3,4)
    by auto
qed

theorem etcd_lease_limbo_witness:
  "fst (etcd_CurrentLease mem_etcd ''t'' 40 held_example) = None \<and>
   \<not> is_ok (fst (etcd_AcquireLease mem_etcd ''n'' 40 40 \<lparr> lr_TunnelID = ''t'', lr_RelayID = ''b'', lr_TTL = 30 \<rparr>
     NewEtcdCoordinator held_example))"
  using etcd_lease_limbo [OF mem_etcd_spec, of held_example "''t''" meta_example "Some 1" 40 "''b''"]
  by (simp add: mem_view_def held_example_def meta_example_def)


lemma watch_example:
  "handleEtcdEvent mem_etcd (PutEvent (lease_key ''t'') (LeaseJSON meta_example)) NewEtcdCoordinator held_example =
     (holder_example, held_example)"
  by (simp add: handleEtcdEvent_def HasPrefix_def etcd_Publish_def NewEtcdCoordinator_def holder_example_def
    meta_example_def mput_def mdel_def)


text \<open>\<open>interfered f e\<close> is a client to whose writes the others come first: \<open>f\<close> is what they do to the cluster just before.\<close>

definition interfered :: "('s \<Rightarrow> 's) \<Rightarrow> 's etcd \<Rightarrow> 's etcd" where
  "interfered f e = e\<lparr>et_Put := (\<lambda>k x l s. et_Put e k x l (f s))\<rparr>"

definition available :: "'s etcd \<Rightarrow> bool" where
  "available e \<longleftrightarrow> (\<forall>ttl s. fst (et_Grant e ttl s) \<noteq> None) \<and> (\<forall>k x l s. fst (et_Put e k x l s) \<noteq> None) \<and>
     (\<forall>k x l s. fst (et_Create e k x l s) \<noteq> None)"

lemma available_Grant: "available e \<Longrightarrow> \<exists>l s'. et_Grant e ttl s = (Some l, s')"
  unfolding available_def by (metis option.exhaust prod.collapse)

lemma available_Put: "available e \<Longrightarrow> \<exists>u s'. et_Put e k x l s = (Some u, s')"
  unfolding available_def by (metis option.exhaust prod.collapse)

lemma available_Create:
  assumes "etcd_spec view e" and "available e" and "view s k = Some (y, m)"
  shows "\<exists>s'. et_Create e k x l s = (Some (False, [(k, y)]), s') \<and> view s' = view s"
proof -
  obtain r s' where c: "et_Create e k x l s = (r, s')" by (cases "et_Create e k x l s")
  have "r \<noteq> None" using assms(2) c unfolding available_def by (metis fst_conv)
  from assms(1) c show ?thesis by (cases rule: spec_Create) (use c assms(3) \<open>r \<noteq> None\<close> in auto)
qed

text \<open>The write by which a relay acquires its own lease again is not conditional. If the lease has run out and
  another relay has acquired the tunnel between the transaction that found the old lease and this write, the
  write replaces the other relay's lease, and both requests have succeeded.\<close>

theorem etcd_reacquire_overwrites:
  assumes "etcd_spec view e" and "available e" and "t \<noteq> []" and "lm_RelayID m \<noteq> []"
    and "view s (lease_key t) = Some (LeaseJSON m, l)"
    and "\<And>s. view s (lease_key t) = Some (LeaseJSON m, l) \<Longrightarrow> lease_owner (view (f s)) t = Some other"
    and "other \<noteq> lm_RelayID m" and "json_time (now + ttl)" and "json_time (now' + ttl)"
  shows "\<exists>lease c' s'. etcd_AcquireLease (interfered f e) newID now now'
      \<lparr> lr_TunnelID = t, lr_RelayID = lm_RelayID m, lr_TTL = ttl \<rparr> c s = (Ok lease, c', s') \<and>
    le_RelayID lease = lm_RelayID m \<and> lease_owner (view s') t = Some (lm_RelayID m) \<and>
    (\<exists>s0. lease_owner (view (f s0)) t = Some other \<and> (\<forall>k. k \<noteq> lease_key t \<longrightarrow> view s' k = view (f s0) k))"
proof -
  let ?key = "lease_key t" and ?ttl = "etcd_ttl ttl"
  obtain l0 s1 where g: "et_Grant e ?ttl s = (Some l0, s1)" using available_Grant [OF assms(2)] by blast
  note v1 = spec_Grant [OF assms(1) g]
  let ?m0 = "\<lparr> lm_LeaseID = newID, lm_TunnelID = t, lm_RelayID = lm_RelayID m, lm_ExpiresAt = now + ttl, lm_Version = 1,
    lm_EtcdLease = l0 \<rparr>"
  obtain s2 where c: "et_Create e ?key (LeaseJSON ?m0) l0 s1 = (Some (False, [(?key, LeaseJSON m)]), s2)"
    and v2: "view s2 = view s"
    using available_Create [OF assms(1,2), of s1 ?key "LeaseJSON m" l "LeaseJSON ?m0" l0] v1 assms(5) by auto
  let ?s3 = "snd (et_Revoke e l0 s2)"
  have v3: "view ?s3 = view s" using revoke_unattached [OF assms(1), of l0 s2] v1 v2 by simp
  obtain l1 s4 where g': "et_Grant e ?ttl ?s3 = (Some l1, s4)" using available_Grant [OF assms(2)] by blast
  have v4: "view s4 = view s" using spec_Grant [OF assms(1) g'] v3 by simp
  let ?m = "m\<lparr>lm_Version := lm_Version m + 1, lm_ExpiresAt := now' + ttl, lm_EtcdLease := l1\<rparr>"
  obtain u s5 where p: "et_Put e ?key (LeaseJSON ?m) (Some l1) (f s4) = (Some u, s5)"
    using available_Put [OF assms(2)] by blast
  have v5: "view s5 = (view (f s4))(?key \<mapsto> (LeaseJSON ?m, Some l1))" using spec_Put [OF assms(1) p] by simp
  have "etcd_AcquireLease (interfered f e) newID now now' \<lparr> lr_TunnelID = t, lr_RelayID = lm_RelayID m, lr_TTL = ttl \<rparr> c s =
      (Ok (lease_of_meta ?m), c\<lparr>ec_etcdLeaseOf := mput (lm_LeaseID m) l1 (ec_etcdLeaseOf c)\<rparr>, s5)"
    using assms(3,4,8,9) g c g' p
    by (simp add: etcd_AcquireLease_def etcd_reacquire_def interfered_def Let_def Marshal_unchecked_def)
  moreover have "lease_owner (view s5) t = Some (lm_RelayID m)" by (simp add: lease_owner_def v5)
  moreover have "lease_owner (view (f s4)) t = Some other" using assms(5,6) v4 by simp
  moreover have "le_RelayID (lease_of_meta ?m) = lm_RelayID m" by (simp add: lease_of_meta_def)
  ultimately show ?thesis using v5 by (metis fun_upd_other)
qed

definition stolen_example :: "mem_cluster \<Rightarrow> mem_cluster" where
  "stolen_example s = snd (et_Put mem_etcd (lease_key ''t'') (LeaseJSON (meta_example\<lparr>lm_LeaseID := ''k'', lm_RelayID := ''b''\<rparr>)) (Some 9) s)"

theorem etcd_reacquire_overwrites_witness:
  "\<exists>lease c' s'. etcd_AcquireLease (interfered stolen_example mem_etcd) ''n'' 40 41
      \<lparr> lr_TunnelID = ''t'', lr_RelayID = ''a'', lr_TTL = 30 \<rparr> holder_example held_example = (Ok lease, c', s') \<and>
    le_RelayID lease = ''a'' \<and> lease_owner (mem_view s') ''t'' = Some ''a'' \<and>
    (\<exists>s0. lease_owner (mem_view (stolen_example s0)) ''t'' = Some ''b'')"
proof -
  have "available mem_etcd" by (auto simp: available_def mem_etcd_def Let_def split: option.split)
  moreover have "lease_owner (mem_view (stolen_example s)) ''t'' = Some ''b''" for s
    by (cases s) (simp add: stolen_example_def lease_owner_def mem_view_def mem_etcd_def)
  moreover have "mem_view held_example (lease_key ''t'') = Some (LeaseJSON meta_example, Some 1)"
    by (simp add: mem_view_def held_example_def)
  ultimately show ?thesis
    using etcd_reacquire_overwrites [OF mem_etcd_spec, of "''t''" meta_example held_example "Some 1" stolen_example "''b''"
        40 30 41 "''n''" holder_example]
    by (auto simp: json_time_def meta_example_def)
qed

end
