(* ===== verification/TE_Duplex.thy ===== *)
theory TE_Duplex
  imports TE_Relay
begin

text \<open>
  Both directions of a relay: \<^verbatim>\<open>bidirectionalWithOptions\<close>, \<^verbatim>\<open>closeWrite\<close>, the idle deadlines and the bandwidth
  limited wrapper of \<^verbatim>\<open>src/internal/relay/relay.go\<close>.

  The two peers are any \<^verbatim>\<open>io.ReadWriteCloser\<close>; \<open>shutdown\<close> is what their \<^verbatim>\<open>Close\<close> does and whether they have a \<^verbatim>\<open>CloseWrite\<close>,
  which is all that \<^verbatim>\<open>closeWrite\<close> asks. A connection of \<^verbatim>\<open>net\<close> or \<^verbatim>\<open>crypto/tls\<close> is \<open>HalfClose\<close>, a QUIC stream, whose
  \<^verbatim>\<open>Close\<close> ends the sending side only, is \<open>SendClose\<close>. One step of \<open>duplex_step\<close> is a step of one direction
  (\<open>relay_step\<close>), the return of a direction to the outer errgroup, the function that \<^verbatim>\<open>context.AfterFunc\<close> runs when the
  group is cancelled, or the cancellation of the outer context. What a peer sends, and every failure, is arbitrary,
  but a closed peer yields no more bytes and accepts none.
\<close>

subsection \<open>Peers\<close>

datatype shutdown = HalfClose | SendClose | FullClose

record peer =
  pe_shutdown :: shutdown
  pe_deadlines :: bool
  pe_deadline :: "int option"
  pe_rclosed :: bool
  pe_wclosed :: bool

definition peer_Close :: "peer \<Rightarrow> peer" where
  "peer_Close p = (if pe_shutdown p = SendClose then p\<lparr>pe_wclosed := True\<rparr> else p\<lparr>pe_rclosed := True, pe_wclosed := True\<rparr>)"

definition closeWrite :: "peer \<Rightarrow> peer" where
  "closeWrite p = (if pe_shutdown p = HalfClose then p\<lparr>pe_wclosed := True\<rparr> else peer_Close p)"

definition setDeadlineIfSupported :: "int \<Rightarrow> peer \<Rightarrow> peer" where
  "setDeadlineIfSupported t p = (if pe_deadlines p then p\<lparr>pe_deadline := Some t\<rparr> else p)"

text \<open>\<^verbatim>\<open>bandwidthLimitedRWC\<close> embeds an \<^verbatim>\<open>io.ReadWriteCloser\<close>: of the methods of the connection inside only \<^verbatim>\<open>Read\<close>,
  \<^verbatim>\<open>Write\<close> and \<^verbatim>\<open>Close\<close> are left.\<close>

definition bandwidthLimitedRWC :: "peer \<Rightarrow> peer" where
  "bandwidthLimitedRWC p = p\<lparr>pe_shutdown := (if pe_shutdown p = HalfClose then FullClose else pe_shutdown p), pe_deadlines := False\<rparr>"

definition limit_peer :: "int \<Rightarrow> peer \<Rightarrow> peer" where
  "limit_peer bandwidthBps p = (if bandwidthBps > 0 then bandwidthLimitedRWC p else p)"

subsection \<open>Both directions\<close>

text \<open>\<open>du_sent\<close> relays from \<open>du_a\<close> to \<open>du_b\<close>, \<open>du_received\<close> the other way; \<open>du_err\<close> and \<open>du_cancelled\<close> are the outer errgroup,
  the last two fields say which of its goroutines have returned. The shared \<^verbatim>\<open>Stats\<close> are the two directions' taken together.\<close>

record duplex =
  du_a :: peer
  du_b :: peer
  du_sent :: relay
  du_received :: relay
  du_err :: "goerror option"
  du_cancelled :: bool
  du_sentDone :: bool
  du_receivedDone :: bool

definition duplex_stats :: "duplex \<Rightarrow> Stats" where
  "duplex_stats d = (let s = rl_stats (du_sent d); r = rl_stats (du_received d) in
     \<lparr> st_BytesSent = st_BytesSent s, st_BytesReceived = st_BytesReceived r,
       st_DroppedFrames = st_DroppedFrames s + st_DroppedFrames r, st_QueueTimeouts = st_QueueTimeouts s + st_QueueTimeouts r,
       st_WriteTimeouts = st_WriteTimeouts s + st_WriteTimeouts r,
       st_MaxQueueDepth = max (st_MaxQueueDepth s) (st_MaxQueueDepth r) \<rparr>)"

definition touch_peer :: "int \<Rightarrow> int \<Rightarrow> peer \<Rightarrow> peer" where
  "touch_peer idleTimeout now p = (if idleTimeout > 0 then setDeadlineIfSupported (now + idleTimeout) p else p)"

definition duplex_init :: "int \<Rightarrow> int \<Rightarrow> peer \<Rightarrow> peer \<Rightarrow> writer \<Rightarrow> writer \<Rightarrow> duplex" where
  "duplex_init idleTimeout now a b toA toB = \<lparr> du_a = touch_peer idleTimeout now a, du_b = touch_peer idleTimeout now b,
     du_sent = relay_init toB, du_received = relay_init toA, du_err = None, du_cancelled = False,
     du_sentDone = False, du_receivedDone = False \<rparr>"

definition BidirectionalWithBandwidthLimit :: "int \<Rightarrow> int \<Rightarrow> int \<Rightarrow> peer \<Rightarrow> peer \<Rightarrow> writer \<Rightarrow> writer \<Rightarrow> duplex" where
  "BidirectionalWithBandwidthLimit bandwidthBps idleTimeout now a b toA toB =
     duplex_init idleTimeout now (limit_peer bandwidthBps a) (limit_peer bandwidthBps b) toA toB"

text \<open>Writes to a closed peer fail.\<close>

definition seal :: "peer \<Rightarrow> relay \<Rightarrow> relay" where
  "seal p r = (if pe_wclosed p then r\<lparr>rl_dst := (rl_dst r)\<lparr>wr_room := Some 0, wr_err := NetClosed\<rparr>\<rparr> else r)"

text \<open>\<open>settle\<close> restores that after a change of the peers; \<open>after_step\<close> is what a step of one direction does beyond it:
  the idle reader moves the deadlines when bytes were read, and the writer's deferred \<^verbatim>\<open>closeWrite\<close> runs when it returns.\<close>

definition settle :: "duplex \<Rightarrow> duplex" where
  "settle d = d\<lparr>du_sent := seal (du_b d) (du_sent d), du_received := seal (du_a d) (du_received d)\<rparr>"

definition writer_returned :: "relay \<Rightarrow> relay \<Rightarrow> bool" where
  "writer_returned r r' \<longleftrightarrow> \<not> (\<exists>w. rl_writer r = WDone w) \<and> (\<exists>w. rl_writer r' = WDone w)"

definition touch_peers :: "int \<Rightarrow> int \<Rightarrow> relay \<Rightarrow> relay \<Rightarrow> duplex \<Rightarrow> duplex" where
  "touch_peers idleTimeout now r r' d = (if rl_read r' \<noteq> rl_read r
     then d\<lparr>du_a := touch_peer idleTimeout now (du_a d), du_b := touch_peer idleTimeout now (du_b d)\<rparr> else d)"

text \<open>A step that a direction may take: no bytes from a closed peer, and no cancellation from outside unless the group
  is cancelled.\<close>

definition may_step :: "peer \<Rightarrow> bool \<Rightarrow> relay \<Rightarrow> relay \<Rightarrow> bool" where
  "may_step source cancelled r r' \<longleftrightarrow> (pe_rclosed source \<longrightarrow> rl_read r' = rl_read r) \<and>
     (rl_cancelled r' \<longrightarrow> rl_cancelled r \<or> rl_err r' \<noteq> None \<or> cancelled)"

definition group_join :: "goerror option \<Rightarrow> duplex \<Rightarrow> duplex" where
  "group_join e d = (case e of None \<Rightarrow> d
     | Some x \<Rightarrow> if du_err d = None then d\<lparr>du_err := Some x, du_cancelled := True\<rparr> else d)"

inductive duplex_step :: "relayOptions \<Rightarrow> int \<Rightarrow> duplex \<Rightarrow> duplex \<Rightarrow> bool" for opts idleTimeout where
  sent: "relay_step opts DirSent (du_sent d) r \<Longrightarrow> may_step (du_a d) (du_cancelled d) (du_sent d) r \<Longrightarrow>
    duplex_step opts idleTimeout d (settle (touch_peers idleTimeout now (du_sent d) r
      (d\<lparr>du_sent := r, du_b := if writer_returned (du_sent d) r then closeWrite (du_b d) else du_b d\<rparr>)))"
| received: "relay_step opts DirReceived (du_received d) r \<Longrightarrow> may_step (du_b d) (du_cancelled d) (du_received d) r \<Longrightarrow>
    duplex_step opts idleTimeout d (settle (touch_peers idleTimeout now (du_received d) r
      (d\<lparr>du_received := r, du_a := if writer_returned (du_received d) r then closeWrite (du_a d) else du_a d\<rparr>)))"
| sent_return: "relay_finished (du_sent d) \<Longrightarrow> \<not> du_sentDone d \<Longrightarrow>
    duplex_step opts idleTimeout d (group_join (rl_err (du_sent d)) (d\<lparr>du_sentDone := True\<rparr>))"
| received_return: "relay_finished (du_received d) \<Longrightarrow> \<not> du_receivedDone d \<Longrightarrow>
    duplex_step opts idleTimeout d (group_join (rl_err (du_received d)) (d\<lparr>du_receivedDone := True\<rparr>))"
| stop_closer: "du_cancelled d \<Longrightarrow>
    duplex_step opts idleTimeout d (settle (d\<lparr>du_a := peer_Close (du_a d), du_b := peer_Close (du_b d)\<rparr>))"
| outer_cancel: "duplex_step opts idleTimeout d (d\<lparr>du_cancelled := True\<rparr>)"

inductive_cases duplex_stepE: "duplex_step opts idleTimeout d d'"

text \<open>\<^verbatim>\<open>g.Wait()\<close> has returned; what follows closes both peers and decides the error.\<close>

definition duplex_joined :: "duplex \<Rightarrow> bool" where
  "duplex_joined d \<longleftrightarrow> du_sentDone d \<and> du_receivedDone d"

definition bidirectionalWithOptions :: "goerror option \<Rightarrow> duplex \<Rightarrow> (Stats \<times> goerror option) \<times> duplex" where
  "bidirectionalWithOptions ctxErr d =
     ((duplex_stats d, relay_result (du_err d) ctxErr (st_WriteTimeouts (duplex_stats d))),
      d\<lparr>du_a := peer_Close (du_a d), du_b := peer_Close (du_b d)\<rparr>)"

definition open_peer :: "peer \<Rightarrow> bool" where
  "open_peer p \<longleftrightarrow> \<not> pe_rclosed p \<and> \<not> pe_wclosed p \<and> pe_deadline p = None"

definition duplex_start :: "int \<Rightarrow> peer \<Rightarrow> peer \<Rightarrow> duplex \<Rightarrow> bool" where
  "duplex_start idleTimeout a b d \<longleftrightarrow> open_peer a \<and> open_peer b \<and> (\<exists>now ra ea rb eb. d = duplex_init idleTimeout now a b
     \<lparr> wr_out = [], wr_room = ra, wr_err = ea \<rparr> \<lparr> wr_out = [], wr_room = rb, wr_err = eb \<rparr>)"

definition duplex_reach :: "relayOptions \<Rightarrow> int \<Rightarrow> peer \<Rightarrow> peer \<Rightarrow> duplex \<Rightarrow> bool" where
  "duplex_reach opts idleTimeout a b = reach (duplex_start idleTimeout a b) (duplex_step opts idleTimeout)"

subsection \<open>The invariant\<close>

lemma seal_simps [simp]:
  "rl_reader (seal p r) = rl_reader r" "rl_writer (seal p r) = rl_writer r" "rl_chunks (seal p r) = rl_chunks r"
  "wr_out (rl_dst (seal p r)) = wr_out (rl_dst r)" "rl_cancelled (seal p r) = rl_cancelled r" "rl_err (seal p r) = rl_err r"
  "rl_stats (seal p r) = rl_stats r" "rl_read (seal p r) = rl_read r"
  by (simp_all add: seal_def)

lemma relay_inv_seal [simp]: "relay_inv opts dir (seal p r) = relay_inv opts dir r"
  by (simp add: relay_inv_def inflight_def held_def reader_holds_def writer_holds_def reader_failed_def writer_failed_def)

lemma relay_finished_seal [simp]: "relay_finished (seal p r) = relay_finished r"
  by (simp add: relay_finished_def)

lemma peer_simps [simp]:
  "pe_shutdown (peer_Close p) = pe_shutdown p" "pe_shutdown (closeWrite p) = pe_shutdown p"
  "pe_shutdown (touch_peer i now p) = pe_shutdown p" "pe_rclosed (touch_peer i now p) = pe_rclosed p"
  "pe_deadlines (peer_Close p) = pe_deadlines p" "pe_deadlines (closeWrite p) = pe_deadlines p"
  "pe_deadlines (touch_peer i now p) = pe_deadlines p" "pe_deadline (peer_Close p) = pe_deadline p"
  "pe_deadline (closeWrite p) = pe_deadline p"
  by (simp_all add: peer_Close_def closeWrite_def touch_peer_def setDeadlineIfSupported_def)

lemma pe_rclosed_simps [simp]:
  "pe_rclosed (peer_Close p) \<longleftrightarrow> pe_rclosed p \<or> pe_shutdown p \<noteq> SendClose"
  "pe_rclosed (closeWrite p) \<longleftrightarrow> pe_rclosed p \<or> pe_shutdown p = FullClose"
  by (auto simp: peer_Close_def closeWrite_def) (metis shutdown.exhaust)

lemma touch_peer_deadline: "\<not> pe_deadlines p \<Longrightarrow> touch_peer i now p = p"
  by (simp add: touch_peer_def setDeadlineIfSupported_def)

text \<open>The part of the invariant that concerns one direction: the relay from a source to the peer \<open>p\<close>, which was \<open>p0\<close> at the
  start, and whether its return has been noted.\<close>

definition way_inv :: "relayOptions \<Rightarrow> direction \<Rightarrow> peer \<Rightarrow> relay \<Rightarrow> peer \<Rightarrow> bool \<Rightarrow> bool \<Rightarrow> goerror option \<Rightarrow> bool" where
  "way_inv opts dir p0 r p joined cancelled err \<longleftrightarrow> relay_inv opts dir r \<and>
     (joined \<longrightarrow> relay_finished r \<and> (err = None \<longrightarrow> rl_err r = None)) \<and>
     pe_shutdown p = pe_shutdown p0 \<and> pe_deadlines p = pe_deadlines p0 \<and>
     (\<not> pe_deadlines p0 \<longrightarrow> pe_deadline p = None) \<and>
     (\<not> cancelled \<and> pe_shutdown p0 \<noteq> FullClose \<longrightarrow> \<not> pe_rclosed p) \<and>
     (pe_shutdown p0 = FullClose \<and> (\<exists>w. rl_writer r = WDone w) \<longrightarrow> pe_rclosed p)"

definition duplex_inv :: "relayOptions \<Rightarrow> peer \<Rightarrow> peer \<Rightarrow> duplex \<Rightarrow> bool" where
  "duplex_inv opts a b d \<longleftrightarrow>
     way_inv opts DirSent b (du_sent d) (du_b d) (du_sentDone d) (du_cancelled d) (du_err d) \<and>
     way_inv opts DirReceived a (du_received d) (du_a d) (du_receivedDone d) (du_cancelled d) (du_err d)"

lemma relay_step_finished:
  "relay_step opts dir r r' \<Longrightarrow> relay_finished r \<Longrightarrow> r' = r\<lparr>rl_cancelled := True\<rparr>"
  by (erule relay_step.cases) (auto simp: relay_finished_def)

lemma relay_finished_cancelled [simp]: "relay_finished (r\<lparr>rl_cancelled := c\<rparr>) = relay_finished r"
  by (simp add: relay_finished_def)

lemma way_inv_seal [simp]: "way_inv opts dir p0 (seal q r) p joined cancelled err = way_inv opts dir p0 r p joined cancelled err"
  by (simp add: way_inv_def)

lemma way_inv_step:
  assumes "way_inv opts dir p0 r p joined cancelled err" and "relay_step opts dir r r'"
  shows "way_inv opts dir p0 r' (if writer_returned r r' then closeWrite p else p) joined cancelled err"
proof (cases "relay_finished r")
  case True
  from relay_step_finished [OF assms(2) this] assms show ?thesis
    using relay_inv_step [OF _ assms(2)] by (auto simp: way_inv_def writer_returned_def)
next
  case False
  with assms have "\<not> joined" by (auto simp: way_inv_def)
  with assms show ?thesis
    using relay_inv_step [OF _ assms(2)] by (auto simp: way_inv_def writer_returned_def)
qed

lemma way_inv_touch:
  "way_inv opts dir p0 r p joined cancelled err \<Longrightarrow> way_inv opts dir p0 r (touch_peer i now p) joined cancelled err"
  by (auto simp: way_inv_def touch_peer_deadline)

lemma way_inv_join:
  "way_inv opts dir p0 r p joined cancelled err \<Longrightarrow> relay_finished r \<Longrightarrow> (err' = None \<Longrightarrow> err = None \<and> rl_err r = None) \<Longrightarrow>
     (cancelled \<Longrightarrow> cancelled') \<Longrightarrow> way_inv opts dir p0 r p True cancelled' err'"
  by (auto simp: way_inv_def)

lemma way_inv_cancel:
  "way_inv opts dir p0 r p joined cancelled err \<Longrightarrow> (err' = None \<Longrightarrow> err = None) \<Longrightarrow> (cancelled \<Longrightarrow> cancelled') \<Longrightarrow>
     way_inv opts dir p0 r p joined cancelled' err'"
  by (auto simp: way_inv_def)

lemma way_inv_close:
  "way_inv opts dir p0 r p joined True err \<Longrightarrow> way_inv opts dir p0 r (peer_Close p) joined True err"
  by (auto simp: way_inv_def)

lemma group_join_simps [simp]:
  "du_a (group_join e d) = du_a d" "du_b (group_join e d) = du_b d" "du_sent (group_join e d) = du_sent d"
  "du_received (group_join e d) = du_received d" "du_sentDone (group_join e d) = du_sentDone d"
  "du_receivedDone (group_join e d) = du_receivedDone d"
  "du_cancelled d \<Longrightarrow> du_cancelled (group_join e d)" "du_err (group_join e d) = None \<longleftrightarrow> du_err d = None \<and> e = None"
  by (auto simp: group_join_def split: option.splits)

lemma duplex_inv_step:
  assumes "duplex_inv opts a b d" and "duplex_step opts idleTimeout d d'"
  shows "duplex_inv opts a b d'"
proof -
  have w: "way_inv opts DirSent b (du_sent d) (du_b d) (du_sentDone d) (du_cancelled d) (du_err d)"
    "way_inv opts DirReceived a (du_received d) (du_a d) (du_receivedDone d) (du_cancelled d) (du_err d)"
    using assms(1) by (simp_all add: duplex_inv_def)
  from assms(2) show ?thesis
  proof cases
    case (sent r now)
    from way_inv_step [OF w(1) sent(2)] w(2) show ?thesis
      unfolding sent(1) duplex_inv_def settle_def touch_peers_def by (auto intro: way_inv_touch)
  next
    case (received r now)
    from way_inv_step [OF w(2) received(2)] w(1) show ?thesis
      unfolding received(1) duplex_inv_def settle_def touch_peers_def by (auto intro: way_inv_touch)
  next
    case sent_return
    have e: "du_err d' = None \<Longrightarrow> du_err d = None \<and> rl_err (du_sent d) = None" "du_cancelled d \<Longrightarrow> du_cancelled d'"
      using sent_return by simp_all
    have "way_inv opts DirSent b (du_sent d) (du_b d) True (du_cancelled d') (du_err d')"
      by (rule way_inv_join [OF w(1) sent_return(2) e])
    moreover have "way_inv opts DirReceived a (du_received d) (du_a d) (du_receivedDone d) (du_cancelled d') (du_err d')"
      by (rule way_inv_cancel [OF w(2) conjunct1 [OF e(1)] e(2)])
    ultimately show ?thesis unfolding duplex_inv_def sent_return(1) by simp
  next
    case received_return
    have e: "du_err d' = None \<Longrightarrow> du_err d = None \<and> rl_err (du_received d) = None" "du_cancelled d \<Longrightarrow> du_cancelled d'"
      using received_return by simp_all
    have "way_inv opts DirReceived a (du_received d) (du_a d) True (du_cancelled d') (du_err d')"
      by (rule way_inv_join [OF w(2) received_return(2) e])
    moreover have "way_inv opts DirSent b (du_sent d) (du_b d) (du_sentDone d) (du_cancelled d') (du_err d')"
      by (rule way_inv_cancel [OF w(1) conjunct1 [OF e(1)] e(2)])
    ultimately show ?thesis unfolding duplex_inv_def received_return(1) by simp
  next
    case stop_closer
    with w have "way_inv opts DirSent b (du_sent d) (peer_Close (du_b d)) (du_sentDone d) True (du_err d)"
      "way_inv opts DirReceived a (du_received d) (peer_Close (du_a d)) (du_receivedDone d) True (du_err d)"
      using way_inv_close by simp_all
    with stop_closer show ?thesis by (simp add: duplex_inv_def settle_def)
  next
    case outer_cancel
    have "way_inv opts DirSent b (du_sent d) (du_b d) (du_sentDone d) True (du_err d)"
      "way_inv opts DirReceived a (du_received d) (du_a d) (du_receivedDone d) True (du_err d)"
      using w by (auto elim: way_inv_cancel)
    then show ?thesis by (simp add: duplex_inv_def outer_cancel)
  qed
qed

lemma duplex_inv_init: "duplex_start idleTimeout a b d \<Longrightarrow> duplex_inv opts a b d"
  using relay_inv_init
  by (auto simp: duplex_start_def open_peer_def duplex_inv_def way_inv_def duplex_init_def touch_peer_deadline relay_init_def)

lemma duplex_inv_reach: "duplex_reach opts idleTimeout a b d \<Longrightarrow> duplex_inv opts a b d"
  unfolding duplex_reach_def by (erule reach_invariant) (auto intro: duplex_inv_init duplex_inv_step)

lemma relay_finished_clean:
  assumes "relay_inv opts dir r" and "relay_finished r" and "rl_err r = None"
  shows "wr_out (rl_dst r) = rl_read r" and "st_bytes dir (rl_stats r) = int (length (rl_read r))"
  using assms by (auto simp: relay_inv_def relay_finished_def inflight_def held_def reader_holds_def writer_holds_def
    reader_failed_def writer_failed_def split: option.splits)

text \<open>A peer that is closed for reading stays so, and nothing more is read from it.\<close>

lemma closed_peer_silent:
  assumes "duplex_step opts idleTimeout d d'" and "pe_rclosed (du_b d)"
  shows "pe_rclosed (du_b d') \<and> rl_read (du_received d') = rl_read (du_received d)"
  using assms(1)
  by cases (use assms(2) in \<open>auto simp: settle_def touch_peers_def may_step_def\<close>)

subsection \<open>Properties\<close>

text \<open>C8: A relay between two connections never loses, duplicates or reorders bytes in either direction, whatever the
  interleaving of its goroutines, deadlines and failures; and if both directions have returned without an error,
  every byte that was read from either side has been written to the other, the relay reports no error, and its
  counters are exactly the numbers of bytes.\<close>

theorem bidirectional_delivers:
  assumes "duplex_reach opts idleTimeout a b d"
  shows "prefix (wr_out (rl_dst (du_sent d))) (rl_read (du_sent d)) \<and>
    prefix (wr_out (rl_dst (du_received d))) (rl_read (du_received d)) \<and>
    (duplex_joined d \<and> du_err d = None \<longrightarrow>
       wr_out (rl_dst (du_sent d)) = rl_read (du_sent d) \<and> wr_out (rl_dst (du_received d)) = rl_read (du_received d) \<and>
       (\<exists>st. fst (bidirectionalWithOptions ctxErr d) = (st, None) \<and> st_BytesSent st = int (length (rl_read (du_sent d))) \<and>
          st_BytesReceived st = int (length (rl_read (du_received d)))))"
proof -
  have inv: "duplex_inv opts a b d" using duplex_inv_reach [OF assms] .
  then have r: "relay_inv opts DirSent (du_sent d)" "relay_inv opts DirReceived (du_received d)"
    by (simp_all add: duplex_inv_def way_inv_def)
  have "duplex_joined d \<and> du_err d = None \<Longrightarrow> relay_finished (du_sent d) \<and> rl_err (du_sent d) = None \<and>
      relay_finished (du_received d) \<and> rl_err (du_received d) = None"
    using inv by (simp add: duplex_inv_def way_inv_def duplex_joined_def)
  with relay_finished_clean [OF r(1)] relay_finished_clean [OF r(2)] r show ?thesis
    by (auto simp: relay_inv_def bidirectionalWithOptions_def relay_result_def duplex_stats_def Let_def)
qed

text \<open>An example: one side sends two bytes and then ends, the other one ends at once; both are bandwidth limited.\<close>

definition peer_example :: peer where
  "peer_example = \<lparr> pe_shutdown = HalfClose, pe_deadlines = True, pe_deadline = None, pe_rclosed = False, pe_wclosed = False \<rparr>"

definition duplex_example0 :: duplex where
  "duplex_example0 = BidirectionalWithBandwidthLimit 1000 0 0 peer_example peer_example
     \<lparr> wr_out = [], wr_room = None, wr_err = EOF \<rparr> \<lparr> wr_out = [], wr_room = None, wr_err = EOF \<rparr>"

abbreviation limited_example :: peer where
  "limited_example \<equiv> limit_peer 1000 peer_example"

lemma duplex_example0_reach: "duplex_reach defaultRelayOptions 0 limited_example limited_example duplex_example0"
  unfolding duplex_reach_def
proof (rule reach_init)
  have "open_peer limited_example" by (simp add: open_peer_def limit_peer_def bandwidthLimitedRWC_def peer_example_def)
  then show "duplex_start 0 limited_example limited_example duplex_example0"
    unfolding duplex_start_def duplex_example0_def BidirectionalWithBandwidthLimit_def by blast
qed

lemma touch_peers_off [simp]: "touch_peers 0 now r r' d = d"
  by (simp add: touch_peers_def touch_peer_def)

lemma duplex_sent_step:
  assumes "duplex_reach opts 0 a b d" and "relay_step opts DirSent (du_sent d) r"
    and "\<not> pe_rclosed (du_a d)" and "\<not> rl_cancelled r"
  shows "duplex_reach opts 0 a b (settle (d\<lparr>du_sent := r,
    du_b := if writer_returned (du_sent d) r then closeWrite (du_b d) else du_b d\<rparr>))"
  using assms duplex_step.sent [of opts d r 0 0] reach_step [of "duplex_start 0 a b" "duplex_step opts 0" d]
  by (simp add: duplex_reach_def may_step_def)

definition duplex_example :: duplex where
  "duplex_example = duplex_example0\<lparr>du_sent := seal (closeWrite limited_example) relay_example_end, du_b := closeWrite limited_example\<rparr>"

lemma settle_open: "\<not> pe_wclosed (du_a d) \<Longrightarrow> \<not> pe_wclosed (du_b d) \<Longrightarrow> settle d = d"
  by (simp add: settle_def seal_def)

lemma duplex_example_reach: "duplex_reach defaultRelayOptions 0 limited_example limited_example duplex_example"
proof -
  let ?R = "duplex_reach defaultRelayOptions 0 limited_example limited_example"
  have p: "du_a duplex_example0 = limited_example" "du_b duplex_example0 = limited_example"
    "\<not> pe_wclosed limited_example" "\<not> pe_rclosed limited_example"
    by (simp_all add: duplex_example0_def BidirectionalWithBandwidthLimit_def duplex_init_def touch_peer_def limit_peer_def
      bandwidthLimitedRWC_def peer_example_def)
  have 0: "relay_step defaultRelayOptions DirSent (du_sent duplex_example0) relay_example"
    using relay_step.read_data [of "du_sent duplex_example0" "[1, 2]" defaultRelayOptions DirSent "Some EOF"]
    by (simp add: duplex_example0_def BidirectionalWithBandwidthLimit_def duplex_init_def relay_example_def relay_init_def
      defaultRelayOptions_def)
  have b: "duplex_example0\<lparr>du_sent := r, du_b := limited_example\<rparr> = duplex_example0\<lparr>du_sent := r\<rparr>" for r
    by (rule duplex.equality) (simp_all add: p)
  have sent: "?R (duplex_example0\<lparr>du_sent := r\<rparr>)"
    if "?R (duplex_example0\<lparr>du_sent := q\<rparr>)" "relay_step defaultRelayOptions DirSent q r" "\<not> rl_cancelled r" "\<not> writer_returned q r"
    for q r
    using duplex_sent_step [OF that(1), of r] that(2-4) p by (simp add: settle_open b)
  have "?R (duplex_example0\<lparr>du_sent := du_sent duplex_example0\<rparr>)" using duplex_example0_reach by simp
  from sent [OF this 0] have "?R (duplex_example0\<lparr>du_sent := relay_example\<rparr>)"
    by (simp add: writer_returned_def relay_example_defs)
  from sent [OF this relay_example_steps(1)] have "?R (duplex_example0\<lparr>du_sent := relay_example1\<rparr>)"
    by (simp add: writer_returned_def relay_example_defs)
  from sent [OF this relay_example_steps(2)] have "?R (duplex_example0\<lparr>du_sent := relay_example2\<rparr>)"
    by (simp add: writer_returned_def relay_example_defs)
  from sent [OF this relay_example_steps(3)] have "?R (duplex_example0\<lparr>du_sent := relay_example3\<rparr>)"
    by (simp add: writer_returned_def relay_example_defs)
  moreover have "writer_returned relay_example3 relay_example_end" "\<not> rl_cancelled relay_example_end"
    by (simp_all add: writer_returned_def relay_example3_def relay_example_end_def)
  ultimately have "?R (settle (duplex_example0\<lparr>du_sent := relay_example_end, du_b := closeWrite limited_example\<rparr>))"
    using duplex_sent_step [of defaultRelayOptions limited_example limited_example _ relay_example_end] relay_example_steps(4) p
    by fastforce
  moreover have "settle (duplex_example0\<lparr>du_sent := relay_example_end, du_b := closeWrite limited_example\<rparr>) = duplex_example"
    by (rule duplex.equality) (simp_all add: settle_def duplex_example_def p seal_def [of limited_example])
  ultimately show ?thesis by simp
qed

lemma duplex_example_fields:
  "rl_writer (du_sent duplex_example) = WDone None" "wr_out (rl_dst (du_sent duplex_example)) = [1, 2]"
  "rl_read (du_sent duplex_example) = [1, 2]"
  by (simp_all add: duplex_example_def relay_example_end_def)

theorem bidirectional_delivers_witness:
  "prefix (wr_out (rl_dst (du_sent duplex_example))) (rl_read (du_sent duplex_example)) \<and>
   wr_out (rl_dst (du_sent duplex_example)) = [1, 2]"
  using bidirectional_delivers [OF duplex_example_reach] duplex_example_fields by simp

text \<open>C35: Half-closed connections survive a relay: unless the relay is cancelled, the side that was told that no more
  data will come is still open for its answer. With a bandwidth limit this is lost, because the limiting wrapper
  hides \<^verbatim>\<open>CloseWrite\<close>: as soon as one side has finished sending, the other one is closed altogether, and
  nothing that it answers is read any more. The wrapper hides \<^verbatim>\<open>SetDeadline\<close> too, so the idle timeout never applies.\<close>

theorem half_close:
  assumes "duplex_reach opts idleTimeout (limit_peer bps a) (limit_peer bps b) d" and "pe_shutdown b = HalfClose"
    and "rl_writer (du_sent d) = WDone w" and "(duplex_step opts idleTimeout)\<^sup>*\<^sup>* d d'"
  shows "(bps \<le> 0 \<and> \<not> du_cancelled d \<longrightarrow> \<not> pe_rclosed (du_b d)) \<and>
    (bps > 0 \<longrightarrow> pe_rclosed (du_b d) \<and> rl_read (du_received d') = rl_read (du_received d) \<and> pe_deadline (du_b d) = None)"
proof -
  have "pe_rclosed (du_b d) \<Longrightarrow> pe_rclosed (du_b d') \<and> rl_read (du_received d') = rl_read (du_received d)"
    using assms(4) by (induction rule: rtranclp_induct) (auto dest: closed_peer_silent)
  moreover have "way_inv opts DirSent (limit_peer bps b) (du_sent d) (du_b d) (du_sentDone d) (du_cancelled d) (du_err d)"
    using duplex_inv_reach [OF assms(1)] by (simp add: duplex_inv_def)
  ultimately show ?thesis
    using assms(2,3) by (auto simp: way_inv_def limit_peer_def bandwidthLimitedRWC_def)
qed

theorem half_close_witness:
  "pe_rclosed (du_b duplex_example) \<and> pe_deadline (du_b duplex_example) = None"
  using half_close [OF duplex_example_reach, of None duplex_example] duplex_example_fields
  by (simp add: peer_example_def)

end
