(* ===== verification/TE_Agentui.thy ===== *)
theory TE_Agentui
  imports TE_Agent
begin

text \<open>
  The terminal interface of the agent, \<^verbatim>\<open>src/internal/agent/agentui\<close>: the model and its update function, the
  rendering of log lines, the sparkline and the frame, and the writer that turns log output into events. It reads the
  event channel that the agent of \<open>TE_Agent\<close> writes.

  A text is the list of its runes. The list and viewport components and the styles of the Bubble Tea libraries are the
  parameter record \<open>bubbles\<close>. The reason of a closed stream is the text \<open>Error\<close> makes of its error. Clock readings are
  arguments. \<^verbatim>\<open>json.Unmarshal\<close> of a log line is the argument \<open>decode\<close>.
\<close>

subsection \<open>Texts and styles\<close>

type_synonym rune = nat
type_synonym utext = "rune list"

definition runes :: "string \<Rightarrow> utext" where
  "runes s = map of_char s"

datatype style = StyleBrand | StyleEndpoint | StyleRxTx | StyleHeader | StyleBadgeConnected | StyleBadgeConnecting
  | StyleBadgeReconnecting | StyleBadgeDisconnected | StylePane | StyleErr | StyleWarn | StyleInfo | StyleMuted | StyleValue
  | StyleStreamOpen | StyleStreamClose | StyleFooter | StyleSparklineBar | StyleSparklineLabel

text \<open>The width verb \<^verbatim>\<open>%-10s\<close>.\<close>

definition pad_right :: "nat \<Rightarrow> utext \<Rightarrow> utext" where
  "pad_right n t = t @ replicate (n - length t) 32"

definition spaces :: "int \<Rightarrow> utext" where
  "spaces n = replicate (nat n) 32"

definition format_int :: "int \<Rightarrow> utext" where
  "format_int n = (if n < 0 then [45] else []) @ runes (decimal_digits (Suc (nat \<bar>n\<bar>)) (nat \<bar>n\<bar>))"

text \<open>\<^verbatim>\<open>%.1f\<close> of \<^verbatim>\<open>float64(n)/unit\<close>, for a non-negative \<open>n\<close>: the tenths rounded to the nearest, a tie to the even one.\<close>

definition tenths :: "int \<Rightarrow> int \<Rightarrow> int" where
  "tenths n unit = (let q = 10 * n div unit; r = 10 * n mod unit in
     if 2 * r > unit \<or> (2 * r = unit \<and> odd q) then q + 1 else q)"

definition format_tenths :: "int \<Rightarrow> utext" where
  "format_tenths t = format_int (t div 10) @ [46] @ format_int (t mod 10)"

definition formatBytes :: "int \<Rightarrow> utext" where
  "formatBytes n =
     (if n \<ge> 2 ^ 30 then format_tenths (tenths n (2 ^ 30)) @ runes '' GB''
      else if n \<ge> 2 ^ 20 then format_tenths (tenths n (2 ^ 20)) @ runes '' MB''
      else if n \<ge> 2 ^ 10 then format_tenths (tenths n (2 ^ 10)) @ runes '' KB''
      else format_int n @ runes '' B'')"

text \<open>\<^verbatim>\<open>truncate\<close> cuts to \<open>n - 1\<close> runes and an ellipsis; for \<open>n = 0\<close> and a longer text the slice bound is negative.\<close>

definition ui_truncate :: "utext \<Rightarrow> int \<Rightarrow> utext result" where
  "ui_truncate s n = (if int (length s) \<le> n then Ok s else if n < 1 then Panic else Ok (take (nat (n - 1)) s @ [0x2026]))"

subsection \<open>The sparkline\<close>

definition sparkBlocks :: utext where
  "sparkBlocks = [0x2581, 0x2582, 0x2583, 0x2584, 0x2585, 0x2586, 0x2587, 0x2588]"

text \<open>The index of a sample, computed with real numbers where the code has \<^verbatim>\<open>float64\<close>, and truncated.\<close>

definition spark_index :: "int \<Rightarrow> int \<Rightarrow> int" where
  "spark_index peak v = go_div (7 * v) peak"

primrec spark_bars :: "int \<Rightarrow> int list \<Rightarrow> utext result" where
  "spark_bars peak [] = Ok []"
| "spark_bars peak (v # vs) = (let idx = min (spark_index peak v) 7 in
     if idx < 0 then Panic else rbind (spark_bars peak vs) (\<lambda>t. Ok (sparkBlocks ! nat idx # t)))"

definition renderSparkline :: "int list \<Rightarrow> int \<Rightarrow> utext result" where
  "renderSparkline samples maxCols =
     (if maxCols \<le> 0 then Ok []
      else let cols = nat maxCols; dat = (if length samples > cols then drop (length samples - cols) samples else samples) in
        if dat = [] then Ok (replicate cols (sparkBlocks ! 0))
        else rbind (spark_bars (fold max dat 1) dat) (\<lambda>t. Ok (replicate (cols - length dat) (sparkBlocks ! 0) @ t)))"

subsection \<open>The model\<close>

record StreamStats =
  sx_StreamID :: string
  sx_Label :: string
  sx_LocalAddr :: string
  sx_RxBytes :: int
  sx_TxBytes :: int
  sx_OpenedAt :: int

text \<open>Messages of the Bubble Tea runtime; the list and viewport components see all but the first and the third kind.\<close>

datatype 'm tea_msg = WindowSizeMsg int int | KeyMsg string | AgentEventMsg AgentEvent | OtherMsg 'm

datatype 'c tea_cmd = NoCmd | QuitCmd | ListenForEvents | LibCmd 'c | BatchCmd "'c list"

text \<open>\<open>bb_Render style size t\<close> is \<^verbatim>\<open>style.Width(w).Height(h).Render(t)\<close> with the width and height that are given.\<close>

record ('l, 'v, 'm, 'c) bubbles =
  bb_Render :: "style \<Rightarrow> int option \<times> int option \<Rightarrow> utext \<Rightarrow> utext"
  bb_Width :: "utext \<Rightarrow> int"
  bb_JoinHorizontal :: "utext list \<Rightarrow> utext"
  bb_listUpdate :: "'m tea_msg \<Rightarrow> 'l \<Rightarrow> 'l \<times> 'c"
  bb_listSetItems :: "StreamStats list \<Rightarrow> 'l \<Rightarrow> 'l"
  bb_listSetSize :: "int \<Rightarrow> int \<Rightarrow> 'l \<Rightarrow> 'l"
  bb_listView :: "'l \<Rightarrow> utext"
  bb_vpUpdate :: "'m tea_msg \<Rightarrow> 'v \<Rightarrow> 'v \<times> 'c"
  bb_vpSetContent :: "utext \<Rightarrow> 'v \<Rightarrow> 'v"
  bb_vpGotoBottom :: "'v \<Rightarrow> 'v"
  bb_vpResize :: "int \<Rightarrow> int \<Rightarrow> 'v \<Rightarrow> 'v"
  bb_vpHeight :: "'v \<Rightarrow> int"
  bb_vpView :: "'v \<Rightarrow> utext"

record ('l, 'v) MainModel =
  ui_connectionStatus :: string
  ui_tunnelEndpoint :: string
  ui_activeStreams :: "(string, StreamStats) gomap"
  ui_logs :: "utext list"
  ui_rxBytes :: "64 word"
  ui_txBytes :: "64 word"
  ui_bandwidthHistory :: "int list"
  ui_streamList :: 'l
  ui_logVP :: 'v
  ui_width :: int
  ui_height :: int
  ui_quitting :: bool
  ui_cancelled :: bool

text \<open>\<open>l\<close> and \<open>vp\<close> are the fresh components.\<close>

definition ui_New :: "('l, 'v, 'm, 'c) bubbles \<Rightarrow> 'l \<Rightarrow> 'v \<Rightarrow> ('l, 'v) MainModel" where
  "ui_New B l vp = \<lparr> ui_connectionStatus = ''Disconnected'', ui_tunnelEndpoint = [], ui_activeStreams = [], ui_logs = [],
     ui_rxBytes = 0, ui_txBytes = 0, ui_bandwidthHistory = [], ui_streamList = l, ui_logVP = bb_vpSetContent B [] vp,
     ui_width = 0, ui_height = 0, ui_quitting = False, ui_cancelled = False \<rparr>"

subsection \<open>Log lines\<close>

definition statusBadge :: "('l, 'v, 'm, 'c) bubbles \<Rightarrow> string \<Rightarrow> utext" where
  "statusBadge B status =
     (if status = ''Connected'' then bb_Render B StyleBadgeConnected (None, None) (0x25C9 # runes '' Connected'')
      else if status = ''Connecting'' then bb_Render B StyleBadgeConnecting (None, None) (0x25CC # runes '' Connecting'' @ [0x2026])
      else if status = ''Reconnecting'' then bb_Render B StyleBadgeReconnecting (None, None) (0x27F3 # runes '' Reconnecting'' @ [0x2026])
      else bb_Render B StyleBadgeDisconnected (None, None) (0x25CB # runes '' Disconnected''))"

definition renderStatusLine :: "('l, 'v, 'm, 'c) bubbles \<Rightarrow> string \<Rightarrow> string \<Rightarrow> utext" where
  "renderStatusLine B status endpoint = (let badge = statusBadge B status in
     if endpoint \<noteq> [] then badge @ runes ''  endpoint='' @ bb_Render B StyleValue (None, None) (runes endpoint) else badge)"

definition ToLower :: "string \<Rightarrow> string" where
  "ToLower s = map (\<lambda>c. let n = of_char c :: nat in if 65 \<le> n \<and> n \<le> 90 then char_of (n + 32) else c) s"

definition level_tag :: "('l, 'v, 'm, 'c) bubbles \<Rightarrow> string \<Rightarrow> utext" where
  "level_tag B level = (let l = ToLower level in
     if l \<in> {''error'', ''fatal'', ''panic''} then bb_Render B StyleErr (None, None) (runes ''ERR'')
     else if l \<in> {''warn'', ''warning''} then bb_Render B StyleWarn (None, None) (runes ''WRN'')
     else if l \<in> {''debug'', ''trace''} then bb_Render B StyleMuted (None, None) (runes ''DBG'')
     else bb_Render B StyleInfo (None, None) (runes ''INF''))"

fun join_with :: "utext \<Rightarrow> utext list \<Rightarrow> utext" where
  "join_with sep [] = []"
| "join_with sep [t] = t"
| "join_with sep (t # u # ts) = t @ sep @ join_with sep (u # ts)"

definition renderLogEvent :: "('l, 'v, 'm, 'c) bubbles \<Rightarrow> string \<Rightarrow> string \<Rightarrow> (string, string) gomap \<Rightarrow> utext" where
  "renderLogEvent B level message flds =
     level_tag B level @ [32] @ runes message @
     (if flds = [] then [] else runes ''  '' @
        join_with [32] (map (\<lambda>(k, v). bb_Render B StyleMuted (None, None) (runes (k @ ''='')) @ runes v) flds))"

definition open_line :: "string \<Rightarrow> string \<Rightarrow> string \<Rightarrow> utext" where
  "open_line streamID label localAddr = runes ''OPEN  '' @ pad_right 10 (runes streamID) @ [32] @ pad_right 12 (runes label) @
     [32, 0x2192, 32] @ runes localAddr"

definition close_line :: "string \<Rightarrow> utext \<Rightarrow> int \<Rightarrow> int \<Rightarrow> utext" where
  "close_line streamID reason sent received = runes ''CLOSE '' @ pad_right 10 (runes streamID) @ runes '' reason='' @
     pad_right 20 reason @ [32, 32, 0x2193] @ formatBytes sent @ [32, 0x2191] @ formatBytes received"

subsection \<open>The update function\<close>

definition maxLogs :: nat where
  "maxLogs = 100"

definition sparklineLen :: nat where
  "sparklineLen = 60"

definition appendLog :: "('l, 'v, 'm, 'c) bubbles \<Rightarrow> utext \<Rightarrow> ('l, 'v) MainModel \<Rightarrow> ('l, 'v) MainModel" where
  "appendLog B line m =
     (let logs = (if length (ui_logs m) \<ge> maxLogs then tl (ui_logs m) else ui_logs m) @ [line]
      in m\<lparr>ui_logs := logs, ui_logVP := bb_vpGotoBottom B (bb_vpSetContent B (join_with [10] logs) (ui_logVP m))\<rparr>)"

definition syncStreamList :: "('l, 'v, 'm, 'c) bubbles \<Rightarrow> ('l, 'v) MainModel \<Rightarrow> ('l, 'v) MainModel" where
  "syncStreamList B m = m\<lparr>ui_streamList := bb_listSetItems B (map snd (ui_activeStreams m)) (ui_streamList m)\<rparr>"

definition close_reason :: "(goerror \<Rightarrow> string) \<Rightarrow> goerror option \<Rightarrow> string" where
  "close_reason Error reason = (case reason of None \<Rightarrow> ''clean'' | Some e \<Rightarrow> Error e)"

definition short_reason :: "string \<Rightarrow> utext" where
  "short_reason s = (case ui_truncate (runes s) 20 of Ok t \<Rightarrow> t | _ \<Rightarrow> [])"

fun handleAgentEvent ::
  "('l, 'v, 'm, 'c) bubbles \<Rightarrow> (goerror \<Rightarrow> string) \<Rightarrow> int \<Rightarrow> AgentEvent \<Rightarrow> ('l, 'v) MainModel \<Rightarrow> ('l, 'v) MainModel" where
  "handleAgentEvent B Error now (StatusUpdateEvent status endpoint) m =
     appendLog B (renderStatusLine B status endpoint)
       (m\<lparr>ui_connectionStatus := status, ui_tunnelEndpoint := if endpoint \<noteq> [] then endpoint else ui_tunnelEndpoint m\<rparr>)"
| "handleAgentEvent B Error now (StreamOpenedEvent streamID label localAddr) m =
     appendLog B (bb_Render B StyleStreamOpen (None, None) (open_line streamID label localAddr))
       (syncStreamList B (m\<lparr>ui_activeStreams := mput streamID \<lparr> sx_StreamID = streamID, sx_Label = label, sx_LocalAddr = localAddr,
          sx_RxBytes = 0, sx_TxBytes = 0, sx_OpenedAt = now \<rparr> (ui_activeStreams m)\<rparr>))"
| "handleAgentEvent B Error now (StreamClosedEvent streamID label reason sent received) m =
     appendLog B (bb_Render B StyleStreamClose (None, None)
         (close_line streamID (short_reason (close_reason Error reason)) sent received))
       (syncStreamList B (m\<lparr>ui_activeStreams := mdel streamID (ui_activeStreams m)\<rparr>))"
| "handleAgentEvent B Error now (TelemetryTickEvent rxDelta txDelta) m =
     m\<lparr>ui_rxBytes := ui_rxBytes m + rxDelta, ui_txBytes := ui_txBytes m + txDelta,
       ui_bandwidthHistory := (if length (ui_bandwidthHistory m) \<ge> sparklineLen then tl (ui_bandwidthHistory m)
         else ui_bandwidthHistory m) @ [sint (rxDelta + txDelta)]\<rparr>"
| "handleAgentEvent B Error now (LogEvent level message flds) m = appendLog B (renderLogEvent B level message flds) m"

definition ui_resize :: "('l, 'v, 'm, 'c) bubbles \<Rightarrow> ('l, 'v) MainModel \<Rightarrow> ('l, 'v) MainModel" where
  "ui_resize B m =
     (let bodyH = max (ui_height m - 8) 5; leftW = go_div (ui_width m) 3; rightW = max (ui_width m - leftW - 3) 10
      in m\<lparr>ui_streamList := bb_listSetSize B (leftW - 2) bodyH (ui_streamList m), ui_logVP := bb_vpResize B rightW bodyH (ui_logVP m)\<rparr>)"

fun ui_Update ::
  "('l, 'v, 'm, 'c) bubbles \<Rightarrow> (goerror \<Rightarrow> string) \<Rightarrow> int \<Rightarrow> 'm tea_msg \<Rightarrow> ('l, 'v) MainModel \<Rightarrow>
     ('l, 'v) MainModel \<times> 'c tea_cmd" where
  "ui_Update B Error now (WindowSizeMsg w h) m = (ui_resize B (m\<lparr>ui_width := w, ui_height := h\<rparr>), NoCmd)"
| "ui_Update B Error now (KeyMsg key) m =
     (if key = ''ctrl+c'' \<or> key = ''q'' then (m\<lparr>ui_quitting := True, ui_cancelled := True\<rparr>, QuitCmd)
      else case bb_listUpdate B (KeyMsg key) (ui_streamList m) of (l, c) \<Rightarrow> (m\<lparr>ui_streamList := l\<rparr>, LibCmd c))"
| "ui_Update B Error now (AgentEventMsg ev) m = (handleAgentEvent B Error now ev m, ListenForEvents)"
| "ui_Update B Error now (OtherMsg x) m =
     (case bb_vpUpdate B (OtherMsg x) (ui_logVP m) of (v, c1) \<Rightarrow>
      case bb_listUpdate B (OtherMsg x) (ui_streamList m) of (l, c2) \<Rightarrow>
        (m\<lparr>ui_logVP := v, ui_streamList := l\<rparr>, BatchCmd [c1, c2]))"

text \<open>The command \<^verbatim>\<open>listenForEvents\<close>: the next event of the agent's channel, or still waiting.\<close>

definition listenForEvents :: "Agent \<Rightarrow> (AgentEvent \<times> Agent) option" where
  "listenForEvents a = (case ag_eventCh a of Some (ev # buf, cap) \<Rightarrow> Some (ev, a\<lparr>ag_eventCh := Some (buf, cap)\<rparr>) | _ \<Rightarrow> None)"

subsection \<open>The frame\<close>

definition ui_renderHeader :: "('l, 'v, 'm, 'c) bubbles \<Rightarrow> ('l, 'v) MainModel \<Rightarrow> utext" where
  "ui_renderHeader B m =
     (let brand = bb_Render B StyleBrand (None, None) (runes ''TunnelEdge'') @ runes ''  '';
          endpoint = (if ui_tunnelEndpoint m \<noteq> [] then runes ''  '' @ bb_Render B StyleEndpoint (None, None) (runes (ui_tunnelEndpoint m)) else []);
          right = bb_Render B StyleRxTx (None, None) ([32, 32, 0x2193, 32] @ pad_right 8 (formatBytes (sint (ui_rxBytes m))) @
            [32, 32, 0x2191, 32] @ formatBytes (sint (ui_txBytes m)));
          left = brand @ statusBadge B (ui_connectionStatus m) @ endpoint;
          pad = max (ui_width m - bb_Width B left - bb_Width B right - 2) 0
      in bb_Render B StyleHeader (Some (ui_width m), None) (left @ spaces pad @ right))"

definition ui_renderBody :: "('l, 'v, 'm, 'c) bubbles \<Rightarrow> ('l, 'v) MainModel \<Rightarrow> utext" where
  "ui_renderBody B m =
     (let leftW = max (go_div (ui_width m) 3 - 2) 10; h = bb_vpHeight B (ui_logVP m) + 2;
          leftPane = bb_Render B StylePane (Some leftW, Some h) (bb_listView B (ui_streamList m));
          rightPane = bb_Render B StylePane (Some (ui_width m - leftW - 5), Some h) (bb_vpView B (ui_logVP m))
      in bb_JoinHorizontal B [leftPane, runes ''  '', rightPane])"

definition ui_renderFooter :: "('l, 'v, 'm, 'c) bubbles \<Rightarrow> ('l, 'v) MainModel \<Rightarrow> utext result" where
  "ui_renderFooter B m = rbind (renderSparkline (ui_bandwidthHistory m) (go_div (ui_width m) 2)) (\<lambda>spark.
     let right = bb_Render B StyleMuted (None, None) (runes ''  q/ctrl+c quit'');
         leftPart = bb_Render B StyleSparklineLabel (None, None) (runes '' BW '') @ bb_Render B StyleSparklineBar (None, None) spark;
         pad = max (ui_width m - bb_Width B leftPart - bb_Width B right - 2) 0
     in Ok (bb_Render B StyleFooter (Some (ui_width m), None) (leftPart @ spaces pad @ right)))"

definition ui_View :: "('l, 'v, 'm, 'c) bubbles \<Rightarrow> ('l, 'v) MainModel \<Rightarrow> utext result" where
  "ui_View B m =
     (if ui_quitting m then Ok (runes ([CHR 0x0A] @ ''  '') @ bb_Render B StyleBrand (None, None) (runes ''TunnelEdge'') @
          runes (''  agent stopped.'' @ [CHR 0x0A, CHR 0x0A]))
      else if ui_width m = 0 then Ok []
      else rbind (ui_renderFooter B m) (\<lambda>footer. Ok (ui_renderHeader B m @ [10] @ ui_renderBody B m @ [10] @ footer)))"

subsection \<open>Log output as events\<close>

text \<open>The value of a field: a JSON string, null, which unmarshals into an empty string, or any other JSON text.\<close>

datatype raw_message = RawString string | RawNull | RawJSON string

fun raw_text :: "raw_message \<Rightarrow> string" where
  "raw_text (RawString s) = s"
| "raw_text RawNull = []"
| "raw_text (RawJSON s) = s"

definition raw_string :: "raw_message option \<Rightarrow> string option" where
  "raw_string v = (case v of Some (RawString s) \<Rightarrow> Some s | Some RawNull \<Rightarrow> Some [] | _ \<Rightarrow> None)"

definition parseZerologJSON :: "(string, raw_message) gomap \<Rightarrow> AgentEvent" where
  "parseZerologJSON raw =
     (let level = (case raw_string (map_of raw ''level'') of Some s \<Rightarrow> s | None \<Rightarrow> ''info'');
          message = (case raw_string (map_of raw ''message'') of Some s \<Rightarrow> s
            | None \<Rightarrow> (case raw_string (map_of raw ''msg'') of Some s \<Rightarrow> s | None \<Rightarrow> []))
      in LogEvent level message (map (\<lambda>(k, v). (k, raw_text v))
           (filter (\<lambda>(k, v). k \<notin> {''level'', ''message'', ''msg'', ''time''}) raw)))"

definition EventLogWriter_Write ::
  "(string \<Rightarrow> (string, raw_message) gomap option) \<Rightarrow> string \<Rightarrow> AgentEvent list \<times> nat \<Rightarrow> nat \<times> (AgentEvent list \<times> nat)" where
  "EventLogWriter_Write decode p ch = (let line = TrimSpace p in
     (length p,
      if line = [] then ch
      else let ev = (case decode line of None \<Rightarrow> LogEvent ''info'' line [] | Some raw \<Rightarrow> parseZerologJSON raw)
           in case ch of (buf, cap) \<Rightarrow> if length buf < cap then (buf @ [ev], cap) else (buf, cap)))"

subsection \<open>Starting the interface\<close>

text \<open>The options that \<^verbatim>\<open>runTUI\<close> passes to \<^verbatim>\<open>NewAgent\<close>: those of the headless mode and the event channel.\<close>

definition tui_options :: "Config \<Rightarrow> TunnelConfig list \<Rightarrow> AgentOptions" where
  "tui_options cfg tunnels = (agent_options cfg tunnels)\<lparr>ao_EventCh := Some 512\<rparr>"

subsection \<open>What the interface shows\<close>

definition last_n :: "nat \<Rightarrow> 'a list \<Rightarrow> 'a list" where
  "last_n n xs = drop (length xs - n) xs"

lemma last_n_Nil [simp]: "last_n n [] = []"
  by (simp add: last_n_def)

lemma length_last_n [simp]: "length (last_n n xs) = min n (length xs)"
  by (simp add: last_n_def)

text \<open>Appending to a buffer that drops its oldest element when it is full.\<close>

lemma ring_append:
  assumes "0 < n"
  shows "(if n \<le> length (last_n n xs) then tl (last_n n xs) else last_n n xs) @ [x] = last_n n (xs @ [x])"
proof (cases "n \<le> length xs")
  case True
  with assms have "length (xs @ [x]) - n = Suc (length xs - n)" "length xs - n < length xs" by simp_all
  with True show ?thesis by (simp add: last_n_def tl_drop drop_Suc)
next
  case False
  then show ?thesis by (simp add: last_n_def)
qed

fun event_lines :: "('l, 'v, 'm, 'c) bubbles \<Rightarrow> (goerror \<Rightarrow> string) \<Rightarrow> AgentEvent \<Rightarrow> utext list" where
  "event_lines B Error (StatusUpdateEvent status endpoint) = [renderStatusLine B status endpoint]"
| "event_lines B Error (StreamOpenedEvent i label addr) = [bb_Render B StyleStreamOpen (None, None) (open_line i label addr)]"
| "event_lines B Error (StreamClosedEvent i label reason sent received) =
     [bb_Render B StyleStreamClose (None, None) (close_line i (short_reason (close_reason Error reason)) sent received)]"
| "event_lines B Error (TelemetryTickEvent rx tx) = []"
| "event_lines B Error (LogEvent level message flds) = [renderLogEvent B level message flds]"

fun event_deltas :: "AgentEvent \<Rightarrow> (64 word \<times> 64 word) list" where
  "event_deltas (TelemetryTickEvent rx tx) = [(rx, tx)]"
| "event_deltas ev = []"

text \<open>A stream is shown when the last event about it opened it.\<close>

fun shown_after :: "AgentEvent \<Rightarrow> int \<Rightarrow> (string \<Rightarrow> StreamStats option) \<Rightarrow> string \<Rightarrow> StreamStats option" where
  "shown_after (StreamOpenedEvent i label addr) now f = f(i \<mapsto> \<lparr> sx_StreamID = i, sx_Label = label, sx_LocalAddr = addr,
     sx_RxBytes = 0, sx_TxBytes = 0, sx_OpenedAt = now \<rparr>)"
| "shown_after (StreamClosedEvent i label reason sent received) now f = f(i := None)"
| "shown_after ev now f = f"

definition shown_streams :: "(int \<times> AgentEvent) list \<Rightarrow> string \<Rightarrow> StreamStats option" where
  "shown_streams evs = fold (\<lambda>(now, ev). shown_after ev now) evs Map.empty"

fun status_after :: "AgentEvent \<Rightarrow> string \<times> string \<Rightarrow> string \<times> string" where
  "status_after (StatusUpdateEvent status endpoint) p = (status, if endpoint \<noteq> [] then endpoint else snd p)"
| "status_after ev p = p"

definition ui_run :: "('l, 'v, 'm, 'c) bubbles \<Rightarrow> (goerror \<Rightarrow> string) \<Rightarrow> (int \<times> AgentEvent) list \<Rightarrow> ('l, 'v) MainModel \<Rightarrow> ('l, 'v) MainModel" where
  "ui_run B Error evs m = fold (\<lambda>(now, ev). handleAgentEvent B Error now ev) evs m"

lemma appendLog_simps [simp]:
  "ui_connectionStatus (appendLog B t m) = ui_connectionStatus m" "ui_tunnelEndpoint (appendLog B t m) = ui_tunnelEndpoint m"
  "ui_activeStreams (appendLog B t m) = ui_activeStreams m" "ui_rxBytes (appendLog B t m) = ui_rxBytes m"
  "ui_txBytes (appendLog B t m) = ui_txBytes m" "ui_bandwidthHistory (appendLog B t m) = ui_bandwidthHistory m"
  "ui_width (appendLog B t m) = ui_width m"
  by (simp_all add: appendLog_def Let_def)

lemma syncStreamList_simps [simp]:
  "ui_connectionStatus (syncStreamList B m) = ui_connectionStatus m" "ui_tunnelEndpoint (syncStreamList B m) = ui_tunnelEndpoint m"
  "ui_activeStreams (syncStreamList B m) = ui_activeStreams m" "ui_rxBytes (syncStreamList B m) = ui_rxBytes m"
  "ui_txBytes (syncStreamList B m) = ui_txBytes m" "ui_bandwidthHistory (syncStreamList B m) = ui_bandwidthHistory m"
  "ui_logs (syncStreamList B m) = ui_logs m" "ui_width (syncStreamList B m) = ui_width m"
  by (simp_all add: syncStreamList_def)

lemma appendLog_ring: "ui_logs m = last_n 100 xs \<Longrightarrow> ui_logs (appendLog B t m) = last_n 100 (xs @ [t])"
  using ring_append [of 100 xs t] by (simp add: appendLog_def maxLogs_def Let_def split: if_splits)

lemma handleAgentEvent_logs:
  "ui_logs m = last_n 100 xs \<Longrightarrow> ui_logs (handleAgentEvent B Error now ev m) = last_n 100 (xs @ event_lines B Error ev)"
  by (cases ev) (simp_all add: appendLog_ring)

lemma handleAgentEvent_history:
  "ui_bandwidthHistory m = last_n 60 xs \<Longrightarrow>
     ui_bandwidthHistory (handleAgentEvent B Error now ev m) = last_n 60 (xs @ map (\<lambda>(rx, tx). sint (rx + tx)) (event_deltas ev))"
proof (cases ev)
  case (TelemetryTickEvent rx tx)
  assume "ui_bandwidthHistory m = last_n 60 xs"
  with TelemetryTickEvent ring_append [of 60 xs "sint (rx + tx)"] show ?thesis
    by (simp add: sparklineLen_def split: if_splits)
qed simp_all

lemma handleAgentEvent_totals:
  "ui_rxBytes (handleAgentEvent B Error now ev m) = ui_rxBytes m + sum_list (map fst (event_deltas ev))"
  "ui_txBytes (handleAgentEvent B Error now ev m) = ui_txBytes m + sum_list (map snd (event_deltas ev))"
  by (cases ev; simp)+

lemma handleAgentEvent_streams:
  "map_of (ui_activeStreams (handleAgentEvent B Error now ev m)) = shown_after ev now (map_of (ui_activeStreams m))"
  by (cases ev) (auto simp: fun_eq_iff)

lemma handleAgentEvent_status:
  "(ui_connectionStatus (handleAgentEvent B Error now ev m), ui_tunnelEndpoint (handleAgentEvent B Error now ev m)) =
     status_after ev (ui_connectionStatus m, ui_tunnelEndpoint m)"
  by (cases ev) simp_all


subsection \<open>The frame is always drawn\<close>

lemma peak_bound: "v \<in> set vs \<Longrightarrow> v \<le> fold max vs (k::int)" "k \<le> fold max vs k"
proof -
  show "k \<le> fold max vs k" for k :: int
    by (induction vs arbitrary: k) (auto intro: order_trans [OF max.cobounded2])
  show "v \<in> set vs \<Longrightarrow> v \<le> fold max vs (k::int)"
  proof (induction vs arbitrary: k)
    case (Cons w vs)
    have "max w k \<le> fold max vs (max w k)" by (induction vs arbitrary: k w) (auto intro: order_trans [OF max.cobounded2])
    with Cons show ?case by auto
  qed simp
qed

lemma spark_index_range:
  assumes "0 \<le> v" and "v \<le> peak" and "0 < peak"
  shows "0 \<le> spark_index peak v" "spark_index peak v \<le> 7"
proof -
  show "0 \<le> spark_index peak v" using assms by (simp add: spark_index_def go_div_def pos_imp_zdiv_nonneg_iff)
  have "7 * v div peak \<le> 7 * peak div peak" using assms by (intro zdiv_mono1) simp_all
  then show "spark_index peak v \<le> 7" using assms by (simp add: spark_index_def go_div_def)
qed

lemma spark_bars_ok:
  assumes "0 < peak" and "\<And>v. v \<in> set vs \<Longrightarrow> 0 \<le> v \<and> v \<le> peak"
  shows "\<exists>t. spark_bars peak vs = Ok t \<and> length t = length vs \<and> set t \<subseteq> set sparkBlocks"
  using assms(2)
proof (induction vs)
  case (Cons v vs)
  then obtain t where t: "spark_bars peak vs = Ok t" "length t = length vs" "set t \<subseteq> set sparkBlocks" by auto
  have "0 \<le> spark_index peak v" "spark_index peak v \<le> 7" using Cons.prems spark_index_range [of v peak] assms(1) by auto
  moreover from this have "sparkBlocks ! nat (spark_index peak v) \<in> set sparkBlocks"
    by (intro nth_mem) (simp add: sparkBlocks_def)
  ultimately show ?case using t by simp
qed simp

lemma renderSparkline_ok:
  assumes "\<And>v. v \<in> set samples \<Longrightarrow> 0 \<le> v"
  shows "\<exists>t. renderSparkline samples cols = Ok t \<and> length t = nat cols \<and> set t \<subseteq> set sparkBlocks"
proof (cases "cols \<le> 0 \<or> samples = []")
  case True
  then show ?thesis by (auto simp: renderSparkline_def Let_def sparkBlocks_def)
next
  case False
  define dat where "dat = (if length samples > nat cols then drop (length samples - nat cols) samples else samples)"
  have dat: "set dat \<subseteq> set samples" "length dat \<le> nat cols" "dat \<noteq> []"
    using False by (auto simp: dat_def dest: in_set_dropD)
  have "0 \<le> v \<and> v \<le> fold max dat 1" if "v \<in> set dat" for v
    using assms dat(1) peak_bound(1) [OF that] that by auto
  moreover have "0 < fold max dat 1" using peak_bound(2) [of 1 dat] by simp
  ultimately obtain t where t: "spark_bars (fold max dat 1) dat = Ok t" "length t = length dat" "set t \<subseteq> set sparkBlocks"
    using spark_bars_ok [of "fold max dat 1" dat] by blast
  then have "renderSparkline samples cols = Ok (replicate (nat cols - length dat) (sparkBlocks ! 0) @ t)"
    using False dat(3) by (simp add: renderSparkline_def Let_def dat_def)
  moreover have "set (replicate (nat cols - length dat) (sparkBlocks ! 0) @ t) \<subseteq> set sparkBlocks"
    using t(3) by (auto simp: sparkBlocks_def)
  ultimately show ?thesis using t(2) dat(2) by simp
qed

text \<open>A message that does not push a sum of 64-bit counters beyond the range of \<^verbatim>\<open>int\<close>.\<close>

fun msg_in_range :: "'m tea_msg \<Rightarrow> bool" where
  "msg_in_range (AgentEventMsg (TelemetryTickEvent rx tx)) \<longleftrightarrow> 0 \<le> sint (rx + tx)"
| "msg_in_range msg \<longleftrightarrow> True"

definition ui_messages ::
  "('l, 'v, 'm, 'c) bubbles \<Rightarrow> (goerror \<Rightarrow> string) \<Rightarrow> (int \<times> 'm tea_msg) list \<Rightarrow> ('l, 'v) MainModel \<Rightarrow> ('l, 'v) MainModel" where
  "ui_messages B Error msgs m = fold (\<lambda>(now, msg) m. fst (ui_Update B Error now msg m)) msgs m"

lemma ui_Update_history:
  assumes "\<And>v. v \<in> set (ui_bandwidthHistory m) \<Longrightarrow> 0 \<le> v" and "msg_in_range msg"
    and "v \<in> set (ui_bandwidthHistory (fst (ui_Update B Error now msg m)))"
  shows "0 \<le> v"
proof (cases msg)
  case (AgentEventMsg ev)
  with assms show ?thesis
    by (cases ev) (auto simp: sparklineLen_def split: if_splits dest: list.set_sel(2) [rotated])
qed (use assms in \<open>auto simp: ui_resize_def Let_def split: if_splits prod.splits\<close>)

text \<open>Drawing a frame never panics: after any sequence of messages, as long as no telemetry tick exceeds the range of
  \<^verbatim>\<open>int\<close>, the view is a text; and a sparkline of such samples has exactly the requested number of columns.\<close>

theorem ui_never_panics:
  assumes "\<And>now msg. (now, msg) \<in> set msgs \<Longrightarrow> msg_in_range msg"
  shows "(\<exists>t. ui_View B (ui_messages B Error msgs (ui_New B l vp)) = Ok t) \<and>
    (\<exists>t. renderSparkline (ui_bandwidthHistory (ui_messages B Error msgs (ui_New B l vp))) cols = Ok t \<and> length t = nat cols)"
proof -
  have nonneg: "0 \<le> v" if "v \<in> set (ui_bandwidthHistory (ui_messages B Error msgs (ui_New B l vp)))" for v
    using assms that
  proof (induction msgs arbitrary: v rule: rev_induct)
    case Nil
    then show ?case by (simp add: ui_messages_def ui_New_def)
  next
    case (snoc p msgs)
    obtain now msg where p: "p = (now, msg)" by (cases p)
    show ?case
    proof (rule ui_Update_history)
      show "msg_in_range msg" using snoc.prems(1) p by auto
      show "v \<in> set (ui_bandwidthHistory (fst (ui_Update B Error now msg (ui_messages B Error msgs (ui_New B l vp)))))"
        using snoc.prems(2) by (simp add: ui_messages_def p)
    qed (use snoc in auto)
  qed
  then have "\<exists>t. renderSparkline (ui_bandwidthHistory (ui_messages B Error msgs (ui_New B l vp))) cols = Ok t \<and> length t = nat cols" for cols
    using renderSparkline_ok by blast
  moreover from this have "\<exists>t. ui_View B (ui_messages B Error msgs (ui_New B l vp)) = Ok t"
    by (auto simp: ui_View_def ui_renderFooter_def rbind_eq_Ok_iff Let_def)
  ultimately show ?thesis by blast
qed

definition bubbles_example :: "(unit, unit, unit, unit) bubbles" where
  "bubbles_example = \<lparr> bb_Render = (\<lambda>st size t. t), bb_Width = (\<lambda>t. int (length t)), bb_JoinHorizontal = concat,
     bb_listUpdate = (\<lambda>msg l. (l, ())), bb_listSetItems = (\<lambda>items l. l), bb_listSetSize = (\<lambda>w h l. l), bb_listView = (\<lambda>l. []),
     bb_vpUpdate = (\<lambda>msg v. (v, ())), bb_vpSetContent = (\<lambda>t v. v), bb_vpGotoBottom = (\<lambda>v. v), bb_vpResize = (\<lambda>w h v. v),
     bb_vpHeight = (\<lambda>v. 20), bb_vpView = (\<lambda>v. []) \<rparr>"

theorem ui_never_panics_witness:
  "\<exists>t. ui_View bubbles_example (ui_messages bubbles_example (\<lambda>e. ''error'')
     [(0, WindowSizeMsg 80 24), (1, AgentEventMsg (TelemetryTickEvent 5 7))] (ui_New bubbles_example () ())) = Ok t"
  by (rule ui_never_panics [THEN conjunct1]) auto

text \<open>After a resumed session the interface says that the agent is disconnected: the agent reports the status
  \<^verbatim>\<open>Connected (resumed)\<close>, which is none of the four that the badge knows, so it shows the one for no connection.\<close>

theorem resumed_session_shown_disconnected:
  assumes "resumeresp_valid resp" and "rr_Status resp = ResumeStatusResumed" and "length token \<le> maxResumeTokenLen"
    and "wr_room w = None" and "ag_eventCh a = Some (buf, cap)" and "length buf < cap"
  shows "\<exists>w' a'. trySessionResume [] token \<lparr> rd_data = resumeresp_frame resp @ rest, rd_err = err \<rparr> w a = (Inr None, w', a') \<and>
    ag_eventCh a' = Some (buf @ [StatusUpdateEvent ''Connected (resumed)'' []], cap) \<and>
    statusBadge B (ui_connectionStatus (ui_run B Error (map (\<lambda>ev. (now, ev)) (fst (the (ag_eventCh a')))) m)) =
      bb_Render B StyleBadgeDisconnected (None, None) (0x25CB # runes '' Disconnected'')"
proof -
  have "DecodeSessionResumeResp \<lparr> rd_data = resumeresp_frame resp @ rest, rd_err = err \<rparr> = Ok (resp, \<lparr> rd_data = rest, rd_err = err \<rparr>)"
    using resumeresp_codec.roundtrip [OF assms(1)] by (simp add: accepts_def)
  moreover have "\<exists>w'. EncodeSessionResume w token = (Ok (), w')"
    using assms(3,4) by (simp add: EncodeSessionResume_def resume_buf_frame resume_valid_def send_frame_def Write_def)
  moreover obtain w' where "EncodeSessionResume w token = (Ok (), w')" using calculation(2) by blast
  ultimately obtain a' where a': "trySessionResume [] token \<lparr> rd_data = resumeresp_frame resp @ rest, rd_err = err \<rparr> w a = (Inr None, w', a')"
    "ag_eventCh a' = Some (buf @ [StatusUpdateEvent ''Connected (resumed)'' []], cap)"
    using assms(2,5,6) by (simp add: trySessionResume_def Let_def emitEvent_def)
  moreover have "ui_connectionStatus (ui_run B Error (map (\<lambda>ev. (now, ev)) (fst (the (ag_eventCh a')))) m) = ''Connected (resumed)''"
    by (simp add: a'(2) ui_run_def)
  ultimately show ?thesis by (simp add: statusBadge_def)
qed

definition ui_agent_example :: Agent where
  "ui_agent_example = NewAgent \<lparr> ao_GatewayAddr = ''gw:4433'', ao_GatewayAddrs = [], ao_Token = ''tok'', ao_Tunnels = [],
     ao_ReconnectDelay = 1000000000, ao_MaxReconnect = 0, ao_HeartbeatInterval = 1000000000, ao_StreamIdleTimeout = 0,
     ao_TLSCAFile = [], ao_TLSInsecure = False, ao_MTLSEnabled = False, ao_ClientCertFile = [], ao_ClientKeyFile = [],
     ao_PreferredRegion = [], ao_SessionResumeEnabled = True, ao_EventCh = Some 512 \<rparr>"

theorem resumed_session_shown_disconnected_witness:
  "\<exists>w' a'. trySessionResume [] ''tok'' \<lparr> rd_data = resumeresp_frame \<lparr> rr_Status = ResumeStatusResumed, rr_TunnelID = ''t-a'',
      rr_NewToken = [] \<rparr> @ [], rd_err = EOF \<rparr> \<lparr> wr_out = [], wr_room = None, wr_err = EOF \<rparr> ui_agent_example = (Inr None, w', a') \<and>
    ag_eventCh a' = Some ([] @ [StatusUpdateEvent ''Connected (resumed)'' []], 512) \<and>
    statusBadge bubbles_example (ui_connectionStatus (ui_run bubbles_example (\<lambda>e. ''error'') (map (\<lambda>ev. (0, ev)) (fst (the (ag_eventCh a'))))
      (ui_New bubbles_example () ()))) = bb_Render bubbles_example StyleBadgeDisconnected (None, None) (0x25CB # runes '' Disconnected'')"
  by (rule resumed_session_shown_disconnected)
    (simp_all add: resumeresp_valid_def max_defs ui_agent_example_def NewAgent_def)

end
