(* ===== verification/TE_Apiclient.thy ===== *)
theory TE_Apiclient
  imports TE_Agent TE_Tenancy
begin

text \<open>
  The agent's client of the dashboard API, \<^verbatim>\<open>src/internal/agent/api_client.go\<close>, and that client and dashboard agree: sent
  to the server of \<open>TE_Http\<close>, each of its methods does what the corresponding service of \<open>TE_Dashboard\<close> does for the user the
  token stands for.

  \<open>parse\<close> is the check of \<^verbatim>\<open>http.NewRequest\<close> and \<open>Do\<close> the HTTP client, on a state of any type: a response or an
  error. The body is the value that the encoder writes on one side and the decoder finds on the other.
\<close>

record APIClient =
  apc_baseURL :: string
  apc_agentToken :: string

definition NewAPIClient :: "string \<Rightarrow> string \<Rightarrow> APIClient" where
  "NewAPIClient baseURL agentToken = \<lparr> apc_baseURL = baseURL, apc_agentToken = agentToken \<rparr>"

definition format_uint :: "nat \<Rightarrow> string" where
  "format_uint n = decimal_digits (Suc n) n"

definition tunnels_path :: "nat \<Rightarrow> string" where
  "tunnels_path agentProfileID = ''/api/v1/agents/'' @ format_uint agentProfileID @ ''/tunnels''"

definition tunnel_path :: "nat \<Rightarrow> nat \<Rightarrow> string" where
  "tunnel_path agentProfileID tunnelID = tunnels_path agentProfileID @ ''/'' @ format_uint tunnelID"

text \<open>The request: \<open>rq_Path\<close> is the whole URL.\<close>

definition api_request :: "string \<Rightarrow> string \<Rightarrow> string \<Rightarrow> body \<Rightarrow> request" where
  "api_request meth url token bod = \<lparr> rq_Method = meth, rq_Path = url, rq_Query = (\<lambda>k. []),
     rq_Header = (\<lambda>k. if k = ''Authorization'' then ''Bearer '' @ token
       else if k = ''Content-Type'' \<and> bod \<noteq> BadJSON then ''application/json'' else []),
     rq_Cookie = (\<lambda>k. None), rq_RemoteAddr = [], rq_Body = bod \<rparr>"

text \<open>The common course of the four methods: the message of a failed request, the expected status, and what is made
  of the response.\<close>

definition api_call ::
  "(string \<Rightarrow> goerror option) \<Rightarrow> (request \<Rightarrow> 's \<Rightarrow> response result \<times> 's) \<Rightarrow> APIClient \<Rightarrow> string \<Rightarrow> string \<Rightarrow> body \<Rightarrow> string \<Rightarrow>
     nat \<Rightarrow> (response \<Rightarrow> 'a result) \<Rightarrow> 's \<Rightarrow> 'a result \<times> 's" where
  "api_call parse Do c meth path bod failure expected k s =
     (case parse (apc_baseURL c @ path) of
        Some err \<Rightarrow> (Err (WrapErr ''failed to create request'' err), s)
      | None \<Rightarrow> (case Do (api_request meth (apc_baseURL c @ path) (apc_agentToken c) bod) s of
          (Err err, s) \<Rightarrow> (Err (WrapErr failure err), s)
        | (Panic, s) \<Rightarrow> (Panic, s)
        | (Ok resp, s) \<Rightarrow> if rp_Status resp \<noteq> expected then (Err (PlainErr ''API error''), s) else (k resp, s)))"

text \<open>Decoding a list of tunnels takes the label and the address; the only list that the endpoint sends is of tunnels.\<close>

definition decode_tunnels :: "response \<Rightarrow> TunnelConfig list result" where
  "decode_tunnels resp = (case rp_Payload resp of
     TunnelList ts \<Rightarrow> Ok (map (\<lambda>t. \<lparr> TunnelConfig.tc_Label = rtr_Label t, tc_LocalAddr = rtr_LocalAddr t, tc_TunnelType = [] \<rparr>) ts)
   | _ \<Rightarrow> Err (WrapErr ''failed to decode tunnels'' (PlainErr ''json'')))"

definition FetchTunnels ::
  "(string \<Rightarrow> goerror option) \<Rightarrow> (request \<Rightarrow> 's \<Rightarrow> response result \<times> 's) \<Rightarrow> APIClient \<Rightarrow> nat \<Rightarrow> 's \<Rightarrow> TunnelConfig list result \<times> 's" where
  "FetchTunnels parse Do c agentProfileID =
     api_call parse Do c ''GET'' (tunnels_path agentProfileID) BadJSON ''failed to fetch tunnels'' 200 decode_tunnels"

definition CreateTunnel ::
  "(string \<Rightarrow> goerror option) \<Rightarrow> (request \<Rightarrow> 's \<Rightarrow> response result \<times> 's) \<Rightarrow> APIClient \<Rightarrow> nat \<Rightarrow> string \<Rightarrow> string \<Rightarrow> 's \<Rightarrow> unit result \<times> 's" where
  "CreateTunnel parse Do c agentProfileID label localAddr =
     api_call parse Do c ''POST'' (tunnels_path agentProfileID) (TunnelRequest label localAddr []) ''failed to create tunnel'' 201 (\<lambda>_. Ok ())"

definition DeleteTunnel ::
  "(string \<Rightarrow> goerror option) \<Rightarrow> (request \<Rightarrow> 's \<Rightarrow> response result \<times> 's) \<Rightarrow> APIClient \<Rightarrow> nat \<Rightarrow> nat \<Rightarrow> 's \<Rightarrow> unit result \<times> 's" where
  "DeleteTunnel parse Do c agentProfileID tunnelID =
     api_call parse Do c ''DELETE'' (tunnel_path agentProfileID tunnelID) BadJSON ''failed to delete tunnel'' 204 (\<lambda>_. Ok ())"

definition UpdateTunnel ::
  "(string \<Rightarrow> goerror option) \<Rightarrow> (request \<Rightarrow> 's \<Rightarrow> response result \<times> 's) \<Rightarrow> APIClient \<Rightarrow> nat \<Rightarrow> nat \<Rightarrow> string \<Rightarrow> string \<Rightarrow> 's \<Rightarrow> unit result \<times> 's" where
  "UpdateTunnel parse Do c agentProfileID tunnelID label localAddr =
     api_call parse Do c ''PUT'' (tunnel_path agentProfileID tunnelID) (TunnelRequest label localAddr []) ''failed to update tunnel'' 200 (\<lambda>_. Ok ())"

subsection \<open>The way to the server\<close>

text \<open>The HTTP client sends the path of the URL to the dashboard; a handler that panicked answers nothing, the client sees
  the end of the connection.\<close>

definition dashboard_Do ::
  "'l limits \<Rightarrow> (goerror \<Rightarrow> string) \<Rightarrow> (string \<Rightarrow> time option) \<Rightarrow> (AuditFilter \<Rightarrow> metadata AuditEvent list result) \<Rightarrow> env \<Rightarrow>
     ServerOptions \<Rightarrow> string \<Rightarrow> request \<Rightarrow> dash \<times> (string, 'l) gomap \<Rightarrow> response result \<times> dash \<times> (string, 'l) gomap" where
  "dashboard_Do lm Error parse query e opts baseURL r s =
     (case serve lm Error parse query e opts (r\<lparr>rq_Path := TrimPrefix (rq_Path r) baseURL\<rparr>) (fst s) (snd s) of
        (resp, d, visitors) \<Rightarrow> (if rp_Status resp = 0 then Err EOF else Ok resp, d, visitors))"

lemma format_uint_digits: "list_all is_digit (decimal_digits k n)"
  by (induction k arbitrary: n) (auto simp: is_digit_def)

lemma format_uint_nonempty: "decimal_digits (Suc k) n \<noteq> []"
  by simp

lemma decimal_snoc: "decimal (s @ [c]) = decimal s * 10 + digit_val c"
  by (simp add: decimal_def)

lemma decimal_digits_value: "n < 10 ^ k \<Longrightarrow> decimal (decimal_digits k n) = n"
proof (induction k arbitrary: n)
  case 0
  then show ?case by (simp add: decimal_def)
next
  case (Suc k)
  have "n div 10 < 10 ^ k" using Suc.prems by (simp add: div_less_iff_less_mult mult.commute)
  with Suc.IH [of "n div 10"] show ?case
    by (auto simp: decimal_snoc decimal_def digit_val_def)
qed

lemma ParseUint_format: "n < 2 ^ 64 \<Longrightarrow> ParseUint (format_uint n) = Some n"
proof -
  assume n: "n < 2 ^ 64"
  have "n < 2 ^ n" "(2 :: nat) ^ n \<le> 10 ^ n" by (simp_all add: power_mono)
  then have "n < 10 ^ n" by (rule less_le_trans)
  then have "n < 10 ^ Suc n" by simp
  then have "decimal (format_uint n) = n" unfolding format_uint_def by (rule decimal_digits_value)
  moreover have "list_all is_digit (format_uint n)" "format_uint n \<noteq> []"
    unfolding format_uint_def by (rule format_uint_digits format_uint_nonempty)+
  ultimately show ?thesis using n by (simp add: ParseUint_def)
qed

lemma format_uint_slash: "CHR ''/'' \<notin> set (format_uint n)"
proof -
  have "\<not> is_digit (CHR ''/'')" by (simp add: is_digit_def)
  then show ?thesis using format_uint_digits [of "Suc n" n] by (auto simp: format_uint_def list_all_iff simp del: decimal_digits.simps)
qed

lemma format_uint_not_Nil [simp]: "format_uint n \<noteq> []"
  unfolding format_uint_def by (rule format_uint_nonempty)

lemma Split_tunnels:
  "Split (CHR ''/'') (format_uint n @ ''/tunnels'') = [format_uint n, ''tunnels'']"
  "Split (CHR ''/'') (format_uint n @ ''/tunnels'' @ ''/'' @ format_uint t) = [format_uint n, ''tunnels'', format_uint t]"
  using Split_segment [OF format_uint_slash, of n "''tunnels''"] Split_segment [OF format_uint_slash, of n "''tunnels/'' @ format_uint t"]
    Split_segment [of "CHR ''/''" "''tunnels''" "format_uint t"] Split_last [OF format_uint_slash, of t] by simp_all

lemma route_tunnels:
  "api_route opts ''GET'' (tunnels_path n) = Some TunnelsList" "api_route opts ''POST'' (tunnels_path n) = Some TunnelCreate"
  "api_route opts ''PUT'' (tunnel_path n t) = Some TunnelUpdate" "api_route opts ''DELETE'' (tunnel_path n t) = Some TunnelDelete"
  using Split_tunnels [of n] Split_tunnels(2) [of n t]
  by (simp_all add: api_route_def agent_routes_def tunnels_path_def tunnel_path_def)

lemma path_ids:
  "n < 2 ^ 64 \<Longrightarrow> parseAgentID (tunnels_path n) = Some n"
  "n < 2 ^ 64 \<Longrightarrow> t < 2 ^ 64 \<Longrightarrow> parseAgentAndTunnelID (tunnel_path n t) = Some (n, t)"
  using Split_tunnels [of n] Split_tunnels(2) [of n t]
  by (simp_all add: parseAgentID_def parseAgentAndTunnelID_def tunnels_path_def tunnel_path_def TrimPrefix_def ParseUint_format Let_def)

text \<open>The server takes the token from the header; what it makes of it does not depend on the rest of the request.\<close>

lemma to_lower_Bearer: "map to_lower ''Bearer'' = ''bearer''"
  by code_simp

lemma api_request_token: "request_token (api_request meth url token bod) = token"
proof -
  have "Cut (''Bearer '' @ token) (CHR '' '') = (''Bearer'', token, True)"
    by (simp add: Cut_def IndexByte_def Let_def)
  then show ?thesis using to_lower_Bearer by (simp add: request_token_def bearer_token_def api_request_def Let_def)
qed

lemma request_token_path [simp]: "request_token (r\<lparr>rq_Path := p\<rparr>) = request_token r"
  by (simp add: request_token_def bearer_token_def Let_def)

lemma JWTAuthMiddleware_token:
  "request_token r = request_token r' \<Longrightarrow> request_token r \<noteq> [] \<Longrightarrow>
     JWTAuthMiddleware e secret revokedRepo r d = JWTAuthMiddleware e secret revokedRepo r' d"
  by (simp add: JWTAuthMiddleware_def Let_def)

definition token_user :: "env \<Rightarrow> ServerOptions \<Rightarrow> dash \<Rightarrow> string \<Rightarrow> nat \<Rightarrow> bool" where
  "token_user e opts d token u \<longleftrightarrow> token \<noteq> [] \<and> (\<exists>jti. JWTAuthMiddleware e (jc_Secret (so_JWTCfg opts)) (so_RevokedJTIs opts)
     (api_request ''GET'' [] token BadJSON) d = Inr \<lparr> cx_userID = Some u, cx_jti = jti \<rparr>)"

lemma api_request_user:
  assumes "token_user e opts d token u"
  shows "\<exists>jti. JWTAuthMiddleware e (jc_Secret (so_JWTCfg opts)) (so_RevokedJTIs opts)
     ((api_request meth url token bod)\<lparr>rq_Path := p\<rparr>) d = Inr \<lparr> cx_userID = Some u, cx_jti = jti \<rparr>"
  using assms JWTAuthMiddleware_token [of "(api_request meth url token bod)\<lparr>rq_Path := p\<rparr>" "api_request ''GET'' [] token BadJSON"]
  by (simp add: token_user_def api_request_token)

subsection \<open>Client and server agree\<close>

text \<open>What the client makes of a service's result.\<close>

definition seen :: "string \<Rightarrow> ('a \<Rightarrow> 'b) \<Rightarrow> 'a result \<Rightarrow> 'b result" where
  "seen failure k r = (case r of Ok a \<Rightarrow> Ok (k a) | Err err \<Rightarrow> Err (PlainErr ''API error'') | Panic \<Rightarrow> Err (WrapErr failure EOF))"

lemma service_error_status: "rp_Status (writeServiceError err) \<in> {400, 401, 403, 404, 409, 500}"
  by (simp add: writeServiceError_def writeError_def writeJSON_def split: Code.split)

lemma api_call_respond:
  assumes "serve lm Error tparse query e opts ((api_request meth (base @ path) token bod)\<lparr>rq_Path := path\<rparr>) d v =
      (resp, d', v)" and "(resp, d') = respond ok (r, d')" and "parse (base @ path) = None"
    and "\<And>a. r = Ok a \<Longrightarrow> rp_Status (ok a) = expected \<and> k (ok a) = Ok (f a)" and "expected \<in> {200, 201, 204}"
  shows "api_call parse (dashboard_Do lm Error tparse query e opts base) (NewAPIClient base token) meth path bod failure expected k (d, v) =
    (seen failure f r, (d', v))"
proof -
  have "TrimPrefix (base @ path) base = path" by (simp add: TrimPrefix_def)
  then have Do: "dashboard_Do lm Error tparse query e opts base (api_request meth (base @ path) token bod) (d, v) =
      (if rp_Status resp = 0 then Err EOF else Ok resp, d', v)"
    using assms(1) by (simp add: dashboard_Do_def api_request_def)
  show ?thesis
  proof (cases r)
    case (Ok a)
    with assms Do show ?thesis by (auto simp: api_call_def NewAPIClient_def respond_def seen_def)
  next
    case (Err err)
    with assms Do service_error_status [of err] show ?thesis by (auto simp: api_call_def NewAPIClient_def respond_def seen_def)
  next
    case Panic
    with assms Do show ?thesis by (simp add: api_call_def NewAPIClient_def respond_def seen_def aborted_def)
  qed
qed

lemma serve_protected:
  assumes "token_user e opts d token u" and "api_route opts meth path = Some ep" and "meth \<noteq> ''OPTIONS''"
    and "ep \<in> {TunnelsList, TunnelCreate, TunnelUpdate, TunnelDelete}"
  shows "\<exists>ctx. cx_userID ctx = Some u \<and>
    serve lm Error tparse query e opts ((api_request meth url token bod)\<lparr>rq_Path := path\<rparr>) d v =
      (case protected tparse query e opts ep ctx ((api_request meth url token bod)\<lparr>rq_Path := path\<rparr>) d of (resp, d') \<Rightarrow> (resp, d', v))"
proof -
  obtain jti where "JWTAuthMiddleware e (jc_Secret (so_JWTCfg opts)) (so_RevokedJTIs opts)
     ((api_request meth url token bod)\<lparr>rq_Path := path\<rparr>) d = Inr \<lparr> cx_userID = Some u, cx_jti = jti \<rparr>"
    using api_request_user [OF assms(1)] by blast
  moreover have "rq_Method ((api_request meth url token bod)\<lparr>rq_Path := path\<rparr>) = meth" by (simp add: api_request_def)
  ultimately show ?thesis
    using assms(2-4) by (intro exI [of _ "\<lparr> cx_userID = Some u, cx_jti = jti \<rparr>"]) (auto simp: serve_def CORSMiddleware_def Let_def)
qed

lemma api_call_protected:
  assumes "token_user e opts d token u" and "api_route opts meth path = Some ep" and "meth \<noteq> ''OPTIONS''"
    and "ep \<in> {TunnelsList, TunnelCreate, TunnelUpdate, TunnelDelete}" and "parse (base @ path) = None"
    and "\<And>ctx. cx_userID ctx = Some u \<Longrightarrow>
      protected tparse query e opts ep ctx ((api_request meth (base @ path) token bod)\<lparr>rq_Path := path\<rparr>) d = respond ok (r, d')"
    and "\<And>a. r = Ok a \<Longrightarrow> rp_Status (ok a) = expected \<and> k (ok a) = Ok (f a)" and "expected \<in> {200, 201, 204}"
  shows "api_call parse (dashboard_Do lm Error tparse query e opts base) (NewAPIClient base token) meth path bod failure expected k (d, v) =
    (seen failure f r, (d', v))"
proof -
  obtain resp where resp: "respond ok (r, d') = (resp, d')" by (cases r) (auto simp: respond_def)
  obtain ctx where "cx_userID ctx = Some u"
    "serve lm Error tparse query e opts ((api_request meth (base @ path) token bod)\<lparr>rq_Path := path\<rparr>) d v =
      (case protected tparse query e opts ep ctx ((api_request meth (base @ path) token bod)\<lparr>rq_Path := path\<rparr>) d of (resp, d') \<Rightarrow> (resp, d', v))"
    using serve_protected [OF assms(1-4)] by blast
  with assms(6) resp have "serve lm Error tparse query e opts ((api_request meth (base @ path) token bod)\<lparr>rq_Path := path\<rparr>) d v = (resp, d', v)"
    by simp
  then show ?thesis by (rule api_call_respond) (use resp assms(5,7,8) in simp_all)
qed

lemma api_request_body: "rq_Body ((api_request meth url token bod)\<lparr>rq_Path := p\<rparr>) = bod"
  by (simp add: api_request_def)


subsection \<open>An agent with one tunnel\<close>

definition client_dash :: dash where
  "client_dash = two_tenants\<lparr>d_tunnels := [tunnel_row\<lparr>dm_AgentProfileID := 1\<rparr>]\<rparr>"

lemma token_example: "token_user env_example opts_example client_dash ''jwt'' 1"
  by (simp add: token_user_def JWTAuthMiddleware_def api_request_token)
    (simp add: env_example_def opts_example_def client_dash_def two_tenants_def PGRevoked_IsRevoked_def rows_gorm_def uint_of_float_def)

lemma tunnels_example:
  "seen failure (map (\<lambda>t. \<lparr> TunnelConfig.tc_Label = DomainTunnelConfig.tc_Label t,
     tc_LocalAddr = DomainTunnelConfig.tc_LocalAddr t, tc_TunnelType = [] \<rparr>)) (Tunnel_List env_example 1 1 client_dash) =
   Ok [\<lparr> TunnelConfig.tc_Label = ''web'', tc_LocalAddr = ''localhost:80'', tc_TunnelType = [] \<rparr>]"
  by (simp add: seen_def Tunnel_List_def Tunnel_agent_def PGAgent_GetByID_def PGTunnel_ListByAgentProfileID_def wrap_result_def env_example_def
    rows_gorm_def client_dash_def two_tenants_def agent_row_def tunnel_row_def sees_def agent_schema_def tunnel_schema_def modelToAgentProfile_def
    modelToTunnelDef_def conv_result_def)


end
