(* ===== verification/TE_Tls.thy ===== *)
theory TE_Tls
  imports TE_Agent TE_Gateway
begin

text \<open>
  The TLS configurations, \<^verbatim>\<open>src/internal/transport/tls.go\<close>, and which of them the gateway (\<^verbatim>\<open>buildQUICTLSConfig\<close> and
  \<^verbatim>\<open>buildPublicTLSConfig\<close> of \<^verbatim>\<open>src/internal/gateway/gateway.go\<close>) and the agent choose.

  Certificates are values of any type. Reading files, parsing and creating certificates is the parameter record
  \<open>x509\<close>; a certificate pool is the list of its certificates, and parsing fails when it finds none. \<open>verify_hostname\<close> is
  \<^verbatim>\<open>x509.Certificate.VerifyHostname\<close> for names, and \<open>tls_agree\<close> says when a client and a server of a QUIC connection
  complete the handshake: a common protocol, a common version, and the certificates that each side asks for,
  where \<open>trusts\<close> is the verification of a chain against a pool or, without one, the system's.
\<close>

subsection \<open>Configurations\<close>

record 'c TLSConfig =
  tl_Certificates :: "'c list"
  tl_RootCAs :: "'c list option"
  tl_ClientCAs :: "'c list option"
  tl_RequireClientCert :: bool
  tl_NextProtos :: "string list"
  tl_MinVersion :: nat
  tl_InsecureSkipVerify :: bool

record cert_template =
  ct_Organization :: string
  ct_NotBefore :: time
  ct_NotAfter :: time
  ct_IPAddresses :: "string list"
  ct_DNSNames :: "string list"

text \<open>\<open>xc_CreateCertificate\<close> signs with the key that \<open>xc_GenerateKey\<close> has made.\<close>

record 'c x509 =
  xc_LoadX509KeyPair :: "string \<Rightarrow> string \<Rightarrow> 'c result"
  xc_ReadFile :: "string \<Rightarrow> string result"
  xc_AppendCertsFromPEM :: "string \<Rightarrow> 'c list"
  xc_GenerateKey :: "unit result"
  xc_CreateCertificate :: "cert_template \<Rightarrow> 'c result"
  xc_DNSNames :: "'c \<Rightarrow> string list"

definition VersionTLS12 :: nat where
  "VersionTLS12 = 0x0303"

definition VersionTLS13 :: nat where
  "VersionTLS13 = 0x0304"

definition zero_TLSConfig :: "'c TLSConfig" where
  "zero_TLSConfig = \<lparr> tl_Certificates = [], tl_RootCAs = None, tl_ClientCAs = None, tl_RequireClientCert = False,
     tl_NextProtos = [], tl_MinVersion = 0, tl_InsecureSkipVerify = False \<rparr>"

definition buildQUICTLSConfig :: "'c \<Rightarrow> 'c TLSConfig" where
  "buildQUICTLSConfig cert = zero_TLSConfig
     \<lparr>tl_Certificates := [cert], tl_NextProtos := [''tunneledge''], tl_MinVersion := VersionTLS13\<rparr>"

definition buildPublicTLSConfig :: "'c \<Rightarrow> 'c TLSConfig" where
  "buildPublicTLSConfig cert = zero_TLSConfig\<lparr>tl_Certificates := [cert], tl_MinVersion := VersionTLS12\<rparr>"

definition wrap_err :: "string \<Rightarrow> 'a result \<Rightarrow> 'a result" where
  "wrap_err msg r = (case r of Err e \<Rightarrow> Err (WrapErr msg e) | _ \<Rightarrow> r)"

text \<open>\<^verbatim>\<open>generateWildcardCert\<close>; the two clock readings are arguments.\<close>

definition wildcard_template :: "string \<Rightarrow> time \<Rightarrow> time \<Rightarrow> cert_template" where
  "wildcard_template baseDomain now now' = \<lparr> ct_Organization = ''TunnelEdge Dev'', ct_NotBefore = now,
     ct_NotAfter = now' + 365 * 24 * 3600 * 1000000000, ct_IPAddresses = [''127.0.0.1'', ''::1''],
     ct_DNSNames = [baseDomain, ''*.'' @ baseDomain, ''gateway''] \<rparr>"

definition generateWildcardCert :: "'c x509 \<Rightarrow> time \<Rightarrow> time \<Rightarrow> ('c \<Rightarrow> 'c TLSConfig) \<Rightarrow> string \<Rightarrow> 'c TLSConfig result" where
  "generateWildcardCert X now now' build baseDomain =
     rbind (wrap_err ''failed to generate RSA key'' (xc_GenerateKey X)) (\<lambda>_.
     rbind (wrap_err ''failed to create certificate'' (xc_CreateCertificate X (wildcard_template baseDomain now now'))) (\<lambda>cert.
       Ok (build cert)))"

definition GenerateSelfSignedQUICTLSConfig :: "'c x509 \<Rightarrow> time \<Rightarrow> time \<Rightarrow> 'c TLSConfig result" where
  "GenerateSelfSignedQUICTLSConfig X now now' = generateWildcardCert X now now' buildQUICTLSConfig ''localhost''"

definition GenerateWildcardSelfSignedTLSConfig :: "'c x509 \<Rightarrow> time \<Rightarrow> time \<Rightarrow> string \<Rightarrow> 'c TLSConfig result" where
  "GenerateWildcardSelfSignedTLSConfig X now now' baseDomain = generateWildcardCert X now now' buildPublicTLSConfig baseDomain"

definition LoadQUICTLSConfig :: "'c x509 \<Rightarrow> string \<Rightarrow> string \<Rightarrow> 'c TLSConfig result" where
  "LoadQUICTLSConfig X certFile keyFile =
     rbind (wrap_err ''failed to load TLS cert/key'' (xc_LoadX509KeyPair X certFile keyFile)) (\<lambda>cert. Ok (buildQUICTLSConfig cert))"

definition LoadPublicTLSConfig :: "'c x509 \<Rightarrow> string \<Rightarrow> string \<Rightarrow> 'c TLSConfig result" where
  "LoadPublicTLSConfig X certFile keyFile =
     rbind (wrap_err ''failed to load TLS cert/key'' (xc_LoadX509KeyPair X certFile keyFile)) (\<lambda>cert. Ok (buildPublicTLSConfig cert))"

text \<open>Reading a pool from a file, as three of the functions do.\<close>

definition load_pool :: "'c x509 \<Rightarrow> string \<Rightarrow> string \<Rightarrow> 'c list result" where
  "load_pool X what caFile = rbind (wrap_err (''failed to read '' @ what) (xc_ReadFile X caFile)) (\<lambda>caCert.
     case xc_AppendCertsFromPEM X caCert of [] \<Rightarrow> Err (PlainErr (''failed to parse '' @ what)) | pool \<Rightarrow> Ok pool)"

definition ClientTLSConfig :: "'c TLSConfig" where
  "ClientTLSConfig = zero_TLSConfig
     \<lparr>tl_InsecureSkipVerify := True, tl_NextProtos := [''tunneledge''], tl_MinVersion := VersionTLS13\<rparr>"

definition ClientTLSConfigWithCA :: "'c x509 \<Rightarrow> string \<Rightarrow> 'c TLSConfig result" where
  "ClientTLSConfigWithCA X caFile = rbind (load_pool X ''CA cert'' caFile) (\<lambda>pool.
     Ok (zero_TLSConfig\<lparr>tl_RootCAs := Some pool, tl_NextProtos := [''tunneledge''], tl_MinVersion := VersionTLS13\<rparr>))"

definition LoadMTLSServerConfig :: "'c x509 \<Rightarrow> string \<Rightarrow> string \<Rightarrow> string \<Rightarrow> 'c TLSConfig result" where
  "LoadMTLSServerConfig X certFile keyFile clientCAFile =
     rbind (wrap_err ''failed to load server cert/key'' (xc_LoadX509KeyPair X certFile keyFile)) (\<lambda>cert.
     rbind (load_pool X ''client CA cert'' clientCAFile) (\<lambda>pool.
       Ok (zero_TLSConfig\<lparr>tl_Certificates := [cert], tl_ClientCAs := Some pool, tl_RequireClientCert := True,
         tl_NextProtos := [''tunneledge''], tl_MinVersion := VersionTLS13\<rparr>)))"

definition LoadMTLSClientConfig :: "'c x509 \<Rightarrow> string \<Rightarrow> string \<Rightarrow> string \<Rightarrow> 'c TLSConfig result" where
  "LoadMTLSClientConfig X certFile keyFile caFile =
     rbind (wrap_err ''failed to load client cert/key'' (xc_LoadX509KeyPair X certFile keyFile)) (\<lambda>cert.
     rbind (load_pool X ''CA cert'' caFile) (\<lambda>pool.
       Ok (zero_TLSConfig\<lparr>tl_Certificates := [cert], tl_RootCAs := Some pool, tl_NextProtos := [''tunneledge''],
         tl_MinVersion := VersionTLS13\<rparr>)))"

subsection \<open>The choices of gateway and agent\<close>

text \<open>The options of the gateway that concern its listeners and the access rules, beyond those of \<open>TE_Gateway\<close>.\<close>

record GatewaySetup = Options +
  gs_QUICListenAddr :: string
  gs_TLSCertFile :: string
  gs_TLSKeyFile :: string
  gs_MTLSEnabled :: bool
  gs_ClientCAFile :: string
  gs_AuthRateLimitRPM :: int
  gs_TunnelACLs :: "(string \<Rightarrow> TunnelACL list result) option"
  gs_UDPListenAddr :: string

definition gateway_quicTLS :: "'c x509 \<Rightarrow> time \<Rightarrow> time \<Rightarrow> GatewaySetup \<Rightarrow> 'c TLSConfig result" where
  "gateway_quicTLS X now now' s =
     (if gs_MTLSEnabled s \<and> gs_TLSCertFile s \<noteq> [] \<and> gs_TLSKeyFile s \<noteq> [] \<and> gs_ClientCAFile s \<noteq> []
      then LoadMTLSServerConfig X (gs_TLSCertFile s) (gs_TLSKeyFile s) (gs_ClientCAFile s)
      else if gs_TLSCertFile s \<noteq> [] \<and> gs_TLSKeyFile s \<noteq> [] then LoadQUICTLSConfig X (gs_TLSCertFile s) (gs_TLSKeyFile s)
      else GenerateSelfSignedQUICTLSConfig X now now')"

definition gateway_publicTLS :: "'c x509 \<Rightarrow> time \<Rightarrow> time \<Rightarrow> GatewaySetup \<Rightarrow> 'c TLSConfig result" where
  "gateway_publicTLS X now now' s =
     (if gs_TLSCertFile s \<noteq> [] \<and> gs_TLSKeyFile s \<noteq> [] then LoadPublicTLSConfig X (gs_TLSCertFile s) (gs_TLSKeyFile s)
      else GenerateWildcardSelfSignedTLSConfig X now now' (op_BaseDomain s))"

text \<open>What the agent's \<^verbatim>\<open>connect\<close> makes of its choice.\<close>

fun client_config :: "'c x509 \<Rightarrow> tls_config \<Rightarrow> 'c TLSConfig result" where
  "client_config X (MTLSConfig cert key ca) = LoadMTLSClientConfig X cert key ca"
| "client_config X (CAConfig ca) = ClientTLSConfigWithCA X ca"
| "client_config X (PlainConfig insecure) = Ok (if insecure then ClientTLSConfig else ClientTLSConfig\<lparr>tl_InsecureSkipVerify := False\<rparr>)"

subsection \<open>The handshake\<close>

definition tls_agree :: "('c list option \<Rightarrow> 'c \<Rightarrow> bool) \<Rightarrow> 'c TLSConfig \<Rightarrow> 'c TLSConfig \<Rightarrow> bool" where
  "tls_agree trusts c s \<longleftrightarrow>
     tl_MinVersion c \<le> VersionTLS13 \<and> tl_MinVersion s \<le> VersionTLS13 \<and>
     list_ex (\<lambda>p. p \<in> set (tl_NextProtos s)) (tl_NextProtos c) \<and>
     (tl_InsecureSkipVerify c \<or> list_ex (trusts (tl_RootCAs c)) (tl_Certificates s)) \<and>
     (tl_RequireClientCert s \<longrightarrow> list_ex (trusts (tl_ClientCAs s)) (tl_Certificates c))"

text \<open>Host names as \<^verbatim>\<open>crypto/x509\<close> checks them.\<close>

definition lower_ascii :: "string \<Rightarrow> string" where
  "lower_ascii s = map (\<lambda>c. let n = of_char c :: nat in if 65 \<le> n \<and> n \<le> 90 then char_of (n + 32) else c) s"

definition dns_char :: "char \<Rightarrow> bool" where
  "dns_char c \<longleftrightarrow> (let n = of_char c :: nat in 97 \<le> n \<and> n \<le> 122 \<or> 65 \<le> n \<and> n \<le> 90 \<or> 48 \<le> n \<and> n \<le> 57 \<or> n = 45 \<or> n = 95)"

definition host_part :: "string \<Rightarrow> bool" where
  "host_part p \<longleftrightarrow> p \<noteq> [] \<and> hd p \<noteq> CHR ''-'' \<and> list_all dns_char p"

definition validHostname :: "bool \<Rightarrow> string \<Rightarrow> bool" where
  "validHostname isPattern host \<longleftrightarrow> host \<noteq> [] \<and> host \<noteq> ''*'' \<and>
     (case Split (CHR ''.'') host of
        [] \<Rightarrow> False
      | p # ps \<Rightarrow> (host_part p \<or> isPattern \<and> p = ''*'') \<and> list_all host_part ps)"

definition matchHostnames :: "string \<Rightarrow> string \<Rightarrow> bool" where
  "matchHostnames pattern host \<longleftrightarrow> pattern \<noteq> [] \<and> host \<noteq> [] \<and>
     (case (Split (CHR ''.'') (lower_ascii pattern), Split (CHR ''.'') (lower_ascii host)) of
        (p # ps, h # hs) \<Rightarrow> (p = ''*'' \<or> p = h) \<and> ps = hs
      | _ \<Rightarrow> False)"

definition trim_dot :: "string \<Rightarrow> string" where
  "trim_dot s = (if s \<noteq> [] \<and> last s = CHR ''.'' then butlast s else s)"

definition verify_hostname :: "string list \<Rightarrow> string \<Rightarrow> bool" where
  "verify_hostname names host \<longleftrightarrow> list_ex (\<lambda>name.
     if validHostname False (trim_dot host) \<and> validHostname True name then matchHostnames name (trim_dot host)
     else name \<notin> {[], ''.''} \<and> host \<notin> {[], ''.''} \<and> lower_ascii name = lower_ascii host) names"

subsection \<open>Lemmas\<close>

lemma wrap_err_eq_Ok [simp]: "wrap_err msg r = Ok a \<longleftrightarrow> r = Ok a"
  by (cases r) (simp_all add: wrap_err_def)

lemma lower_ascii_dot: "lower_ascii [c] = ''.'' \<longleftrightarrow> c = CHR ''.''"
  by (auto simp: lower_ascii_def Let_def char_of_eq_iff of_char_eq_iff take_bit_eq_mod)

lemma Split_lower: "Split (CHR ''.'') (lower_ascii s) = map lower_ascii (Split (CHR ''.'') s)"
proof (induction s)
  case Nil
  show ?case by (simp add: lower_ascii_def)
next
  case (Cons c s)
  then show ?case using lower_ascii_dot [of c] by (auto simp: lower_ascii_def split: list.split)
qed

lemma host_part_dot: "host_part p \<Longrightarrow> CHR ''.'' \<notin> set p"
  by (auto simp: host_part_def list_all_iff dns_char_def Let_def)

lemma star_no_part: "\<not> host_part ''*''" "\<not> host_part []"
  by (simp_all add: host_part_def dns_char_def)

lemma valid_parts: "validHostname False host \<longleftrightarrow> list_all host_part (Split (CHR ''.'') host)"
  using star_no_part by (cases "host = [] \<or> host = ''*''") (auto simp: validHostname_def split: list.split)

lemma match_parts:
  assumes "pattern \<noteq> []" and "host \<noteq> []" and "Split (CHR ''.'') pattern = p # ps" and "Split (CHR ''.'') host = h # hs"
  shows "matchHostnames pattern host \<longleftrightarrow>
    (lower_ascii p = ''*'' \<or> lower_ascii p = lower_ascii h) \<and> map lower_ascii ps = map lower_ascii hs"
  using assms by (simp add: matchHostnames_def Split_lower)

lemma match_length: "matchHostnames pattern host \<Longrightarrow> length (Split (CHR ''.'') pattern) = length (Split (CHR ''.'') host)"
  by (cases "Split (CHR ''.'') pattern"; cases "Split (CHR ''.'') host")
    (auto simp: matchHostnames_def Split_lower dest: map_eq_imp_length_eq)

lemma valid_not_dotted: "validHostname False host \<Longrightarrow> trim_dot host = host"
proof -
  assume "validHostname False host"
  moreover have "Split (CHR ''.'') (b @ ''.'') = Split (CHR ''.'') b @ [[]]" for b
    using Split_append [of "CHR ''.''" b "[]"] by simp
  ultimately show ?thesis
    using star_no_part by (cases host rule: rev_cases) (auto simp: valid_parts trim_dot_def)
qed

lemma Split_prepend:
  assumes "CHR ''.'' \<notin> set a" and "Split (CHR ''.'') b = p # ps"
  shows "Split (CHR ''.'') (a @ b) = (a @ p) # ps"
  using assms by (induction a) auto

subsection \<open>Properties\<close>

text \<open>What the code relies on: a created certificate carries the names of its template.\<close>

definition x509_spec :: "'c x509 \<Rightarrow> bool" where
  "x509_spec X \<longleftrightarrow> (\<forall>tmpl cert. xc_CreateCertificate X tmpl = Ok cert \<longrightarrow> xc_DNSNames X cert = ct_DNSNames tmpl)"

lemma wildcard_names:
  assumes "validHostname False base" and "list_all host_part (Split (CHR ''.'') agent)"
  shows "verify_hostname [base, ''*.'' @ base, ''gateway''] (agent @ ''.'' @ base) \<longleftrightarrow> CHR ''.'' \<notin> set agent"
proof -
  let ?host = "agent @ ''.'' @ base" and ?S = "Split (CHR ''.'')"
  have parts: "?S ?host = ?S agent @ ?S base" using Split_append [of "CHR ''.''" agent base] by simp
  have star: "?S (''*.'' @ base) = ''*'' # ?S base" by simp
  have host: "validHostname False ?host" using assms parts by (simp add: valid_parts)
  have base: "base \<noteq> []" using assms(1) by (simp add: validHostname_def)
  have pats: "validHostname True base" "validHostname True (''*.'' @ base)" "validHostname True ''gateway''"
    using assms(1) by (auto simp: validHostname_def host_part_def dns_char_def valid_parts [unfolded validHostname_def] split: list.splits)
  have len: "length (?S agent) > 0" "length (?S base) > 0" by simp_all
  have "\<not> matchHostnames base ?host" using match_length [of base ?host] len by (auto simp: Split_append)
  moreover have "\<not> matchHostnames ''gateway'' ?host" using match_length [of "''gateway''" ?host] len by (auto simp: Split_append)
  moreover have "matchHostnames (''*.'' @ base) ?host \<longleftrightarrow> length (?S agent) = 1"
  proof
    assume "matchHostnames (''*.'' @ base) ?host"
    from match_length [OF this] show "length (?S agent) = 1" by (simp add: Split_append)
  next
    assume "length (?S agent) = 1"
    then obtain a where "?S agent = [a]" by (cases "?S agent") auto
    then show "matchHostnames (''*.'' @ base) ?host"
      using match_parts [of "''*.'' @ base" ?host "''*''" "?S base" a "?S base"] by (simp add: Split_append lower_ascii_def)
  qed
  ultimately show ?thesis
    unfolding verify_hostname_def valid_not_dotted [OF host] using host pats Split_single [of "CHR ''.''" agent] by simp
qed

lemma label_char_dns: "label_char c \<or> c = CHR ''-'' \<Longrightarrow> dns_char c" "\<not> label_char (CHR ''-'')"
  by (auto simp: label_char_def in_range_def dns_char_def Let_def)

lemma ValidateLabel_part:
  assumes "ValidateLabel label = Ok ()"
  shows "host_part label \<and> CHR ''.'' \<notin> set label"
proof -
  have "label \<noteq> [] \<and> label_char (hd label) \<and> list_all (\<lambda>c. label_char c \<or> c = CHR ''-'') label"
    using assms by (simp add: ValidateLabel_def MatchString_label split: if_splits)
  then have "host_part label"
    using label_char_dns unfolding host_part_def list_all_iff by metis
  then show ?thesis by (simp add: host_part_dot)
qed

lemma labelled_parts:
  assumes "host_part label" and "list_all host_part (Split (CHR ''.'') agent)"
  shows "list_all host_part (Split (CHR ''.'') (label @ ''-'' @ agent))"
proof -
  obtain p ps where p: "Split (CHR ''.'') agent = p # ps" by (cases "Split (CHR ''.'') agent") auto
  have "host_part (label @ ''-'' @ p)"
    using assms(1,2) p by (auto simp: host_part_def dns_char_def)
  then show ?thesis
    using Split_prepend [of "label @ ''-''", OF _ p] host_part_dot [OF assms(1)] assms(2) p by simp
qed

text \<open>C16: Without a configured certificate the gateway makes one for its base domain that is good for the public names of
  its tunnels, the default one and that of every valid label, if and only if the agent's id has no dot: the
  wildcard stands for a single part of a name.\<close>

theorem public_cert_covers:
  assumes "x509_spec X" and "gateway_publicTLS X now now' s = Ok cfg" and "gs_TLSCertFile s = [] \<or> gs_TLSKeyFile s = []"
    and "validHostname False (op_BaseDomain s)" and "validHostname False agent" and "ValidateLabel label = Ok ()"
    and "r = NewTunnelRouter (op_BaseDomain s)"
  shows "\<exists>cert. tl_Certificates cfg = [cert] \<and>
    (verify_hostname (xc_DNSNames X cert) (HostnameForTunnel r (NewTunnelID agent)) \<longleftrightarrow> CHR ''.'' \<notin> set agent) \<and>
    (verify_hostname (xc_DNSNames X cert) (HostnameForLabel r (NewTunnelID agent) label) \<longleftrightarrow> CHR ''.'' \<notin> set agent)"
proof -
  obtain cert where cert: "xc_CreateCertificate X (wildcard_template (op_BaseDomain s) now now') = Ok cert" "cfg = buildPublicTLSConfig cert"
    using assms(2,3) unfolding gateway_publicTLS_def GenerateWildcardSelfSignedTLSConfig_def generateWildcardCert_def
    by (auto simp: rbind_eq_Ok_iff)
  then have names: "xc_DNSNames X cert = [op_BaseDomain s, ''*.'' @ op_BaseDomain s, ''gateway'']"
    using assms(1) by (simp add: x509_spec_def wildcard_template_def)
  note label = ValidateLabel_part [OF assms(6)]
  have agent: "list_all host_part (Split (CHR ''.'') agent)" using assms(5) by (simp add: valid_parts)
  have "CHR ''.'' \<notin> set (label @ ''-'' @ agent) \<longleftrightarrow> CHR ''.'' \<notin> set agent" using label by simp
  then show ?thesis
    using wildcard_names [OF assms(4) agent] wildcard_names [OF assms(4) labelled_parts [OF _ agent], of label] label cert(2)
    by (simp add: names assms(7) HostnameForTunnel_def HostnameForLabel_def NewTunnelRouter_def NewTunnelID_def TrimPrefix_def
      buildPublicTLSConfig_def zero_TLSConfig_def)
qed

text \<open>A setup and a certificate library in which a certificate is the list of its names.\<close>

definition x509_example :: "string list x509" where
  "x509_example = \<lparr> xc_LoadX509KeyPair = (\<lambda>cert key. Ok [cert]), xc_ReadFile = Ok, xc_AppendCertsFromPEM = (\<lambda>t. [[t]]),
     xc_GenerateKey = Ok (), xc_CreateCertificate = (\<lambda>tmpl. Ok (ct_DNSNames tmpl)), xc_DNSNames = (\<lambda>c. c) \<rparr>"

definition setup_example :: GatewaySetup where
  "setup_example = \<lparr> op_BaseDomain = ''ex.io'', op_PublicListenAddr = '':443'', op_MaxStreams = 2, op_ShutdownTimeout = 0,
     op_StreamIdleTimeout = 0, op_RelayID = ''r1'', op_AdvertiseAddr = [], op_LeaseTTL = 0, op_HealthReportInterval = 0,
     op_MaxTunnelsPerAgent = 0, op_MaxStreamsPerTunnel = 0, op_Region = [], op_SessionResumeEnabled = False,
     op_SessionResumeTTL = 0, op_SessionRepo = False, gs_QUICListenAddr = '':4433'', gs_TLSCertFile = [], gs_TLSKeyFile = [],
     gs_MTLSEnabled = False, gs_ClientCAFile = [], gs_AuthRateLimitRPM = 0, gs_TunnelACLs = None, gs_UDPListenAddr = [] \<rparr>"

theorem public_cert_covers_witness:
  "\<exists>cert. tl_Certificates (buildPublicTLSConfig [''ex.io'', ''*.ex.io'', ''gateway'']) = [cert] \<and>
    verify_hostname (xc_DNSNames x509_example cert) (HostnameForTunnel (NewTunnelRouter ''ex.io'') (NewTunnelID ''a'')) \<and>
    verify_hostname (xc_DNSNames x509_example cert) (HostnameForLabel (NewTunnelRouter ''ex.io'') (NewTunnelID ''a'') ''web'')"
proof -
  have "x509_spec x509_example" by (simp add: x509_spec_def x509_example_def)
  moreover have "gateway_publicTLS x509_example 0 0 setup_example = Ok (buildPublicTLSConfig [''ex.io'', ''*.ex.io'', ''gateway''])"
    by (simp add: gateway_publicTLS_def GenerateWildcardSelfSignedTLSConfig_def generateWildcardCert_def wrap_err_def x509_example_def
      setup_example_def wildcard_template_def)
  moreover have "validHostname False ''ex.io''" "validHostname False ''a''"
    by (simp_all add: validHostname_def host_part_def dns_char_def)
  moreover have "ValidateLabel ''web'' = Ok ()"
    by (simp add: ValidateLabel_def MatchString_label label_char_def in_range_def)
  ultimately show ?thesis
    using public_cert_covers [of x509_example 0 0 setup_example _ "''a''" "''web''"] by (simp add: setup_example_def)
qed

definition mtls_complete :: "GatewaySetup \<Rightarrow> bool" where
  "mtls_complete s \<longleftrightarrow> gs_MTLSEnabled s \<and> gs_TLSCertFile s \<noteq> [] \<and> gs_TLSKeyFile s \<noteq> [] \<and> gs_ClientCAFile s \<noteq> []"

lemma gateway_quicTLS_fields:
  assumes "gateway_quicTLS X now now' s = Ok v"
  shows "tl_NextProtos v = [''tunneledge''] \<and> tl_MinVersion v = VersionTLS13 \<and> (tl_RequireClientCert v \<longleftrightarrow> mtls_complete s)"
  using assms
  by (auto simp: gateway_quicTLS_def LoadMTLSServerConfig_def LoadQUICTLSConfig_def GenerateSelfSignedQUICTLSConfig_def
    generateWildcardCert_def buildQUICTLSConfig_def zero_TLSConfig_def mtls_complete_def rbind_eq_Ok_iff split: if_splits)

lemma client_config_fields:
  assumes "client_config X t = Ok c"
  shows "tl_NextProtos c = [''tunneledge''] \<and> tl_MinVersion c = VersionTLS13 \<and> (tl_InsecureSkipVerify c \<longleftrightarrow> t = PlainConfig True) \<and>
    (tl_Certificates c \<noteq> [] \<longleftrightarrow> (\<exists>cert key ca. t = MTLSConfig cert key ca))"
  using assms
  by (cases t) (auto simp: LoadMTLSClientConfig_def ClientTLSConfigWithCA_def ClientTLSConfig_def zero_TLSConfig_def
    rbind_eq_Ok_iff split: if_splits)


definition tls_agent_example :: "bool \<Rightarrow> Agent" where
  "tls_agent_example mtls = NewAgent \<lparr> ao_GatewayAddr = ''gw:4433'', ao_GatewayAddrs = [], ao_Token = ''tok'', ao_Tunnels = [],
     ao_ReconnectDelay = 1000000000, ao_MaxReconnect = 0, ao_HeartbeatInterval = 1000000000, ao_StreamIdleTimeout = 0,
     ao_TLSCAFile = ''ca'', ao_TLSInsecure = False, ao_MTLSEnabled = mtls, ao_ClientCertFile = ''c'', ao_ClientKeyFile = ''k'',
     ao_PreferredRegion = [], ao_SessionResumeEnabled = False, ao_EventCh = None \<rparr>"

definition mtls_setup_example :: GatewaySetup where
  "mtls_setup_example = setup_example\<lparr>gs_MTLSEnabled := True, gs_TLSCertFile := ''gw'', gs_TLSKeyFile := ''k'', gs_ClientCAFile := ''ca''\<rparr>"

text \<open>Everything is signed by the one authority that both sides know.\<close>

definition trusts_example :: "string list list option \<Rightarrow> string list \<Rightarrow> bool" where
  "trusts_example pool cert \<longleftrightarrow> pool = Some [[''ca'']]"

lemma tls_examples:
  "agent_tls (tls_agent_example mtls) = (if mtls then MTLSConfig ''c'' ''k'' ''ca'' else CAConfig ''ca'')"
  "client_config x509_example (agent_tls (tls_agent_example mtls)) = Ok (zero_TLSConfig\<lparr>tl_Certificates := (if mtls then [[''c'']] else []),
     tl_RootCAs := Some [[''ca'']], tl_NextProtos := [''tunneledge''], tl_MinVersion := VersionTLS13\<rparr>)"
  "gateway_quicTLS x509_example 0 0 mtls_setup_example = Ok (zero_TLSConfig\<lparr>tl_Certificates := [[''gw'']], tl_ClientCAs := Some [[''ca'']],
     tl_RequireClientCert := True, tl_NextProtos := [''tunneledge''], tl_MinVersion := VersionTLS13\<rparr>)"
  by (simp_all add: agent_tls_def tls_agent_example_def NewAgent_def LoadMTLSClientConfig_def ClientTLSConfigWithCA_def load_pool_def
    wrap_err_def x509_example_def gateway_quicTLS_def mtls_setup_example_def setup_example_def LoadMTLSServerConfig_def zero_TLSConfig_def)


end
