(* ===== verification/TE_Run.thy ===== *)
theory TE_Run
  imports TE_Session TE_Tls
begin

text \<open>
  The life of a gateway process: \<^verbatim>\<open>Run\<close>, \<^verbatim>\<open>acceptAgents\<close> and \<^verbatim>\<open>acceptPublicConnections\<close> of
  \<^verbatim>\<open>src/internal/gateway/gateway.go\<close>, from opening the listeners to the end of the shutdown.

  \<open>gateway_Run_start\<close> is \<^verbatim>\<open>Run\<close> up to the point where it waits for the end of its context, with the outcome of opening
  the sockets as an argument; it returns the error or the running gateway. \<open>run_step\<close> is one event of it: a loop accepts
  a connection and starts a worker, a worker makes a step or ends, a loop fails or ends, the context is cancelled,
  or \<^verbatim>\<open>Run\<close> itself goes on. \<open>rn_agents\<close> and \<open>rn_clients\<close> are the workers of the two accept loops that serve a tunnel or a
  stream. When \<open>rn_groupDone\<close> is set, the context of the loops and of their workers is cancelled, and a connection that
  is still accepted is dropped at once, so no step shows it. Every handler runs in one step, as in \<open>TE_Lifecycle\<close>.
\<close>

datatype loop = AcceptAgents | AcceptPublic | HealthLoop | RouterLoop | UDPLoop

datatype run_phase = Serving | Joining | Draining time | Stopped "goerror option"

record run =
  rn_phase :: run_phase
  rn_quicLn :: bool
  rn_publicLn :: bool
  rn_udpLn :: bool
  rn_ctxDone :: bool
  rn_groupDone :: bool
  rn_err :: "goerror option"
  rn_loops :: "loop list"
  rn_agents :: "string list"
  rn_clients :: "string list"
  rn_gw :: Gateway

subsection \<open>Start\<close>

record 'c start_env =
  se_QUICListen :: "string \<Rightarrow> 'c TLSConfig \<Rightarrow> goerror option"
  se_Listen :: "string \<Rightarrow> 'c TLSConfig \<Rightarrow> goerror option"
  se_ResolveUDPAddr :: "string \<Rightarrow> goerror option"
  se_ListenUDP :: "string \<Rightarrow> goerror option"

definition serving :: "bool \<Rightarrow> Gateway \<Rightarrow> run" where
  "serving udp g = \<lparr> rn_phase = Serving, rn_quicLn = True, rn_publicLn = True, rn_udpLn = udp, rn_ctxDone = False, rn_groupDone = False,
     rn_err = None, rn_loops = [AcceptAgents, AcceptPublic, HealthLoop, RouterLoop] @ (if udp then [UDPLoop] else []),
     rn_agents = [], rn_clients = [], rn_gw = g \<rparr>"

definition gateway_Run_start :: "'c x509 \<Rightarrow> 'c start_env \<Rightarrow> time \<Rightarrow> time \<Rightarrow> GatewaySetup \<Rightarrow> Gateway \<Rightarrow> run result" where
  "gateway_Run_start X env now now' s g =
     rbind (wrap_err ''failed to get QUIC TLS config'' (gateway_quicTLS X now now' s)) (\<lambda>quicTLS.
     case se_QUICListen env (gs_QUICListenAddr s) quicTLS of
       Some e \<Rightarrow> Err (WrapErr ''failed to listen QUIC'' e)
     | None \<Rightarrow>
     rbind (wrap_err ''failed to get public TLS config'' (gateway_publicTLS X now now' s)) (\<lambda>publicTLS.
     case se_Listen env (op_PublicListenAddr s) publicTLS of
       Some e \<Rightarrow> Err (WrapErr ''failed to listen public TLS'' e)
     | None \<Rightarrow>
     if gs_UDPListenAddr s = [] then Ok (serving False g)
     else (case se_ResolveUDPAddr env (gs_UDPListenAddr s) of
       Some e \<Rightarrow> Err (WrapErr ''invalid udp_listen_addr'' e)
     | None \<Rightarrow> (case se_ListenUDP env (gs_UDPListenAddr s) of
         Some e \<Rightarrow> Err (WrapErr ''failed to listen UDP'' e)
       | None \<Rightarrow> Ok (serving True g)))))"

subsection \<open>Steps\<close>

definition agent_worker :: "conn_outcome \<Rightarrow> string list" where
  "agent_worker out = (case out of ConnEstablished t \<Rightarrow> [t] | ConnResumed t \<Rightarrow> [t] | _ \<Rightarrow> [])"

definition client_worker :: "public_outcome \<Rightarrow> string list" where
  "client_worker out = (case out of PubStream i t label \<Rightarrow> [i] | _ \<Rightarrow> [])"

text \<open>A loop returns an error to the errgroup: the first one is kept and cancels the group.\<close>

definition loop_failed :: "loop \<Rightarrow> goerror \<Rightarrow> run \<Rightarrow> run" where
  "loop_failed l e r = r\<lparr>rn_loops := remove1 l (rn_loops r), rn_groupDone := True,
     rn_err := (case rn_err r of None \<Rightarrow> Some e | Some e' \<Rightarrow> Some e')\<rparr>"

text \<open>The end of \<^verbatim>\<open>Run\<close> after the label \<^verbatim>\<open>forceClose\<close>, and its deferred calls.\<close>

definition force_close :: "run \<Rightarrow> run" where
  "force_close r = r\<lparr>rn_phase := Stopped None, rn_gw := closeAll (rn_gw r), rn_udpLn := False\<rparr>"

text \<open>Accept loops return an error only while their context is not done; the accept loops wait for their workers when
  they end without one, and the distributed router may end, without error, because the registry's event stream did.\<close>

inductive run_step :: "duration \<Rightarrow> (string \<Rightarrow> TunnelACL list result) option \<Rightarrow> run \<Rightarrow> run \<Rightarrow> bool" for timeout acls where
  accept_agent: "AcceptAgents \<in> set (rn_loops r) \<Longrightarrow> \<not> rn_groupDone r \<Longrightarrow> fresh_lease i (rn_gw r) \<Longrightarrow>
    handleAgentConnection limiter authn i token rtoken now conn remote qs w (rn_gw r) = (out, w', g') \<Longrightarrow> out \<noteq> ConnPanic \<Longrightarrow>
    run_step timeout acls r (r\<lparr>rn_gw := g', rn_agents := rn_agents r @ agent_worker out\<rparr>)"
| accept_public: "AcceptPublic \<in> set (rn_loops r) \<Longrightarrow> \<not> rn_groupDone r \<Longrightarrow> sid \<notin> set (mg_closed (gw_streams (rn_gw r))) \<Longrightarrow>
    handlePublicConnection acls dial sid now handshake remote pqs closeErr (rn_gw r) = (out, g') \<Longrightarrow>
    run_step timeout acls r (r\<lparr>rn_gw := g', rn_clients := rn_clients r @ client_worker out\<rparr>)"
| agent_round: "t \<in> set (rn_agents r) \<Longrightarrow> ev \<in> {CtxDone, AcceptCanceled} \<longrightarrow> rn_groupDone r \<Longrightarrow>
    agent_stream token now t ev (rn_gw r) = (Ok go_on, g') \<Longrightarrow>
    run_step timeout acls r (r\<lparr>rn_gw := g', rn_agents := if go_on then rn_agents r else remove1 t (rn_agents r)\<rparr>)"
| agent_heartbeat: "t \<in> set (rn_agents r) \<Longrightarrow> run_step timeout acls r (r\<lparr>rn_gw := snd (heartbeat_tick now t (rn_gw r))\<rparr>)"
| client_done: "i \<in> set (rn_clients r) \<Longrightarrow>
    run_step timeout acls r (r\<lparr>rn_gw := public_stream_done i (rn_gw r), rn_clients := remove1 i (rn_clients r)\<rparr>)"
| health: "HealthLoop \<in> set (rn_loops r) \<Longrightarrow> run_step timeout acls r (r\<lparr>rn_gw := report_health now (rn_gw r)\<rparr>)"
| router_event: "RouterLoop \<in> set (rn_loops r) \<Longrightarrow>
    run_step timeout acls r (r\<lparr>rn_gw := (rn_gw r)\<lparr>gw_dist := handleEvent event (gw_dist (rn_gw r))\<rparr>\<rparr>)"
| timer: "\<nexists>e. rn_phase r = Stopped e \<Longrightarrow> run_step timeout acls r (r\<lparr>rn_gw := fire_timer n (rn_gw r)\<rparr>)"
| registry: "reg_step (gw_registry (rn_gw r)) s \<Longrightarrow> run_step timeout acls r (r\<lparr>rn_gw := (rn_gw r)\<lparr>gw_registry := s\<rparr>\<rparr>)"
| link: "run_step timeout acls r (r\<lparr>rn_gw := (rn_gw r)\<lparr>gw_regUp := up\<rparr>\<rparr>)"
| accept_error: "l \<in> set (rn_loops r) \<Longrightarrow> l \<in> {AcceptAgents, AcceptPublic} \<Longrightarrow> \<not> rn_groupDone r \<Longrightarrow>
    run_step timeout acls r (loop_failed l e r)"
| watch_error: "RouterLoop \<in> set (rn_loops r) \<Longrightarrow> run_step timeout acls r (loop_failed RouterLoop e r)"
| watch_ended: "RouterLoop \<in> set (rn_loops r) \<Longrightarrow> run_step timeout acls r (r\<lparr>rn_loops := remove1 RouterLoop (rn_loops r)\<rparr>)"
| loop_ended: "l \<in> set (rn_loops r) \<Longrightarrow> rn_groupDone r \<Longrightarrow> l = AcceptAgents \<longrightarrow> rn_agents r = [] \<Longrightarrow>
    l = AcceptPublic \<longrightarrow> rn_clients r = [] \<Longrightarrow> run_step timeout acls r (r\<lparr>rn_loops := remove1 l (rn_loops r)\<rparr>)"
| cancel: "run_step timeout acls r (r\<lparr>rn_ctxDone := True, rn_groupDone := True\<rparr>)"
| stop: "rn_phase r = Serving \<Longrightarrow> rn_ctxDone r \<Longrightarrow>
    run_step timeout acls r (r\<lparr>rn_phase := Joining, rn_quicLn := False, rn_publicLn := False\<rparr>)"
| join_error: "rn_phase r = Joining \<Longrightarrow> rn_loops r = [] \<Longrightarrow> rn_err r = Some e \<Longrightarrow>
    run_step timeout acls r (r\<lparr>rn_phase := Stopped (Some e), rn_udpLn := False\<rparr>)"
| join: "rn_phase r = Joining \<Longrightarrow> rn_loops r = [] \<Longrightarrow> rn_err r = None \<Longrightarrow>
    run_step timeout acls r (r\<lparr>rn_phase := Draining (now + timeout)\<rparr>)"
| drained: "rn_phase r = Draining deadline \<Longrightarrow> Manager_Count (gw_streams (rn_gw r)) = 0 \<Longrightarrow> run_step timeout acls r (force_close r)"
| drain_timeout: "rn_phase r = Draining deadline \<Longrightarrow> deadline \<le> now \<Longrightarrow> run_step timeout acls r (force_close r)"

inductive_cases run_stepE: "run_step timeout acls r r'"

definition run_start :: "GatewaySetup \<Rightarrow> run \<Rightarrow> bool" where
  "run_start s r \<longleftrightarrow> (\<exists>g. gw_start (Options.truncate s) g \<and> r = serving (gs_UDPListenAddr s \<noteq> []) g)"

definition run_reach :: "GatewaySetup \<Rightarrow> run \<Rightarrow> bool" where
  "run_reach s = reach (run_start s) (run_step (gatewayShutdownTimeout (op_ShutdownTimeout s)) (gs_TunnelACLs s))"

text \<open>A successful start is a start of \<open>run_step\<close>.\<close>

lemma gateway_Run_start_serves:
  assumes "gateway_Run_start X env now now' s g = Ok r" and "gw_start (Options.truncate s) g"
  shows "run_start s r"
  using assms by (auto simp: gateway_Run_start_def run_start_def rbind_eq_Ok_iff split: option.splits if_splits)

subsection \<open>What the handlers leave alone\<close>

text \<open>Only a public connection adds a stream, and nothing changes how session resume is configured.\<close>

definition keeps :: "Gateway \<Rightarrow> Gateway \<Rightarrow> bool" where
  "keeps g g' \<longleftrightarrow> gw_sessionRepo g' = gw_sessionRepo g \<and>
     (\<forall>i s. map_of (mg_streams (gw_streams g')) i = Some s \<longrightarrow> map_of (mg_streams (gw_streams g)) i = Some s)"

lemma keeps_refl [simp]: "keeps g g"
  by (simp add: keeps_def)

lemma keeps_trans: "keeps g g' \<Longrightarrow> keeps g' g'' \<Longrightarrow> keeps g g''"
  by (simp add: keeps_def)

lemma keeps_update [simp]:
  "keeps g (h\<lparr>gw_tunnels := a\<rparr>) = keeps g h" "keeps g (h\<lparr>gw_router := b\<rparr>) = keeps g h" "keeps g (h\<lparr>gw_dist := c\<rparr>) = keeps g h"
  "keeps g (h\<lparr>gw_registry := d\<rparr>) = keeps g h" "keeps g (h\<lparr>gw_regUp := e\<rparr>) = keeps g h" "keeps g (h\<lparr>gw_timers := k\<rparr>) = keeps g h"
  "keeps g (h\<lparr>gw_armed := l\<rparr>) = keeps g h" "keeps g (h\<lparr>gw_nextTimer := m\<rparr>) = keeps g h" "keeps g (h\<lparr>gw_connsClosed := n\<rparr>) = keeps g h"
  "keeps g (h\<lparr>gw_activeGauge := q\<rparr>) = keeps g h"
  by (simp_all add: keeps_def)

lemma keeps_calls [simp]:
  "keeps g (snd (reg_call f h)) = keeps g h" "keeps g (CloseWithError conn reason h) = keeps g h" "keeps g (stop_timer t h) = keeps g h"
  "keeps g (snd (repo_SetResumable t tok deadline h)) = keeps g h" "keeps g (addTunnel tunnel c leaseID h) = keeps g h"
  "keeps g (arm_timer t deadline h) = keeps g h"
  by (simp_all add: keeps_def addTunnel_def arm_timer_def repo_SetResumable_def split: prod.split)

lemma keeps_calls_eq: "reg_call f h = (y, h') \<Longrightarrow> keeps g h' = keeps g h" "repo_SetResumable t tok deadline h = (z, h') \<Longrightarrow> keeps g h' = keeps g h"
  using keeps_calls(1) [of g f h] keeps_calls(4) [of g t tok deadline h] by simp_all

lemma close_range_within: "map_of (mg_streams (close_range P xs m)) i = Some s \<Longrightarrow> map_of (mg_streams m) i = Some s"
proof (induction xs arbitrary: m)
  case (Cons x xs)
  obtain j st where x: "x = (j, st)" by (cases x)
  from Cons.IH [OF Cons.prems [unfolded x close_range.simps]] show ?case
    by (auto simp: log_close_def split: if_splits prod.splits)
qed simp

lemma keeps_close [simp]: "keeps g h \<Longrightarrow> keeps g k \<Longrightarrow> keeps g (h\<lparr>gw_streams := CloseByTunnel t (gw_streams k)\<rparr>)"
  by (auto simp: keeps_def CloseByTunnel_def dest!: close_range_within)

lemma keeps_tear_down [simp]: "keeps g h \<Longrightarrow> keeps g (tear_down t reason av h)"
  by (simp add: tear_down_def Let_def)

lemma keeps_removal [simp]:
  "keeps g h \<Longrightarrow> keeps g (removeTunnel t reason h)" "keeps g h \<Longrightarrow> keeps g (finalizeTunnelRemoval t reason h)"
  "keeps g (fire_timer n g)" "keeps g (report_health now g)"
  by (simp_all add: removeTunnel_def finalizeTunnelRemoval_def fire_timer_def report_health_def Let_def split: option.split)

lemma keeps_suspend: "keeps g (snd (suspendTunnel token now t reason g))"
  by (simp add: suspendTunnel_def Let_def keeps_calls_eq split: option.split result.split prod.split)

lemma keeps_agent_stream: "keeps g (snd (agent_stream token now t ev g))"
proof (cases ev)
  case AcceptFailed
  then show ?thesis
    using keeps_suspend [of g token now t "''agent_disconnect''"]
    by (cases "suspendTunnel token now t ''agent_disconnect'' g") (simp add: agent_stream_def)
qed (auto simp: agent_stream_def keeps_calls_eq split: result.split prod.split)

lemma keeps_heartbeat: "keeps g (snd (heartbeat_tick now t g))"
  by (simp add: heartbeat_tick_def keeps_calls_eq split: result.split prod.split option.split)

lemma keeps_V1: "keeps g (snd (snd (handleV1Auth authn i now conn r w g)))"
proof (cases "\<exists>m r' a. DecodeAuth r = Ok (m, r') \<and> authn (am_Token m) = Ok a")
  case False
  then show ?thesis by (auto simp: handleV1Auth_def Let_def split: result.split prod.split)
next
  case True
  then obtain m r' a where m: "DecodeAuth r = Ok (m, r')" "authn (am_Token m) = Ok a" by blast
  obtain h router where reg: "Router_Register (NewTunnelID a) (gw_router g) = (h, router)"
    by (cases "Router_Register (NewTunnelID a) (gw_router g)")
  obtain y g1 where acq: "acquireTunnelLease i now (NewTunnelID a) (g\<lparr>gw_router := router\<rparr>) = (y, g1)"
    by (cases "acquireTunnelLease i now (NewTunnelID a) (g\<lparr>gw_router := router\<rparr>)")
  then have "keeps g g1" by (simp add: acquireTunnelLease_def keeps_calls_eq)
  then show ?thesis
    by (cases y) (simp_all add: handleV1Auth_def Let_def m reg acq split: result.split prod.split)
qed

lemma keeps_V2: "keeps g (snd (snd (handleV2Auth authn i token now conn r w g)))"
proof (cases "\<exists>m r' a. DecodeAuthV2 (unread MsgAuthV2 r) = Ok (m, r') \<and> authn (a2_Token m) = Ok a")
  case False
  then show ?thesis by (auto simp: handleV2Auth_def Let_def split: result.split prod.split)
next
  case True
  then obtain m r' a where m: "DecodeAuthV2 (unread MsgAuthV2 r) = Ok (m, r')" "authn (a2_Token m) = Ok a" by blast
  obtain y g1 where acq: "acquireTunnelLease i now (NewTunnelID a) g = (y, g1)"
    by (cases "acquireTunnelLease i now (NewTunnelID a) g")
  then have "keeps g g1" by (simp add: acquireTunnelLease_def keeps_calls_eq)
  then show ?thesis
    by (cases y) (simp_all add: handleV2Auth_def Let_def m acq split: result.split prod.split)
qed

lemma keeps_resume: "keeps g (snd (snd (snd (handleSessionResume token now conn r w g))))"
proof (cases "\<exists>m r' s. DecodeSessionResume (unread MsgSessionResume r) = Ok (m, r') \<and> gw_sessionRepo g \<and>
    repo_GetResumable now (sr_Token m) g = Ok s")
  case False
  then show ?thesis by (auto simp: handleSessionResume_def Let_def split: result.split prod.split)
next
  case True
  then obtain m r' s where dec: "DecodeSessionResume (unread MsgSessionResume r) = Ok (m, r')" "gw_sessionRepo g"
    "repo_GetResumable now (sr_Token m) g = Ok s" by blast
  show ?thesis
    by (cases "map_of (gw_tunnels g) (ss_TunnelID s)")
      (simp_all add: handleSessionResume_def Let_def dec keeps_calls_eq split: result.split prod.split)
qed

lemma keeps_establish: "keeps g (snd (snd res)) \<Longrightarrow> keeps g (snd (snd (establish now conn res)))"
  by (cases res) (simp add: establish_def close_conn_def keeps_calls_eq split: result.split prod.split)

lemma keeps_auth: "auth_frame_by_type authn i token now conn b r w h = Some (out, w', g') \<Longrightarrow> keeps g h \<Longrightarrow> keeps g g'"
  using keeps_establish [OF keeps_V1, of h now conn authn i now conn "unread MsgAuth r" w]
    keeps_establish [OF keeps_V2, of h now conn authn i token now conn r w]
  by (auto simp: auth_frame_by_type_def split: if_splits intro: keeps_trans)

lemma keeps_dispatch: "dispatch_first authn i token rtoken now conn b r w g = (out, w', g') \<Longrightarrow> keeps g g'"
proof (cases "b = MsgSessionResume")
  case False
  assume "dispatch_first authn i token rtoken now conn b r w g = (out, w', g')"
  with False show ?thesis
    by (auto simp: dispatch_first_def close_conn_def split: option.splits dest: keeps_auth [OF _ keeps_refl])
next
  case True
  assume run: "dispatch_first authn i token rtoken now conn b r w g = (out, w', g')"
  obtain y r2 w2 g2 where res: "handleSessionResume rtoken now conn r w g = (y, r2, w2, g2)"
    by (cases "handleSessionResume rtoken now conn r w g")
  have k: "keeps g g2" using keeps_resume [of g rtoken now conn r w] by (simp add: res)
  have "(\<exists>reason w. close_conn conn reason w g2 = (out, w', g')) \<or>
      (\<exists>b r w. auth_frame_by_type authn i token now conn b r w g2 = Some (out, w', g')) \<or> g' = g2"
    using True res run by (simp add: dispatch_first_def split: option.splits result.splits prod.splits) blast+
  then show ?thesis using keeps_auth [OF _ k] k by (auto simp: close_conn_def)
qed

lemma keeps_agent:
  assumes "handleAgentConnection limiter authn i token rtoken now conn remote qs w g = (out, w', g')" and "out \<noteq> ConnPanic"
  shows "keeps g g'"
proof -
  have "(\<exists>reason w. close_conn conn reason w g = (out, w', g')) \<or>
      (\<exists>b r. dispatch_first authn i token rtoken now conn b r w g = (out, w', g')) \<or> out = ConnPanic"
    using assms(1) unfolding handleAgentConnection_def
    by (simp split: if_splits result.splits prod.splits option.splits) blast+
  with assms(2) show ?thesis using keeps_dispatch by (auto simp: close_conn_def)
qed

lemma public_streams:
  assumes "handlePublicConnection acls dial sid now handshake remote qs closeErr g = (out, g')"
  shows "gw_sessionRepo g' = gw_sessionRepo g \<and> (map_of (mg_streams (gw_streams g')) i = Some s \<longrightarrow>
    map_of (mg_streams (gw_streams g)) i = Some s \<or> i \<in> set (client_worker out))"
proof -
  have "g' = g \<or> (\<exists>t label. out = PubStream sid t label \<and> g' = g\<lparr>gw_streams := snd (Manager_Open sid now t closeErr (gw_streams g))\<rparr>)"
    using assms unfolding handlePublicConnection_def
    by (auto simp: Manager_Open_def Let_def split: result.splits option.splits if_splits prod.splits)
  then show ?thesis by (auto simp: Manager_Open_def client_worker_def Let_def split: if_splits)
qed

lemma done_streams:
  assumes "map_of (mg_streams (gw_streams (public_stream_done j g))) i = Some s"
  shows "sm_state s = StateClosed \<or> i \<noteq> j \<and> map_of (mg_streams (gw_streams g)) i = Some s"
  using assms
  by (auto simp: public_stream_done_def Manager_Close_def Stream_Close_def log_close_def Let_def split: option.splits if_splits)

subsection \<open>The invariant\<close>

lemma run_gw_step: "run_step timeout acls r r' \<Longrightarrow> gw_step (rn_gw r) (rn_gw r') \<or> rn_gw r' = rn_gw r"
proof (induction rule: run_step.induct)
  case (accept_agent r i limiter authn token rtoken now conn remote qs w out w' g')
  then show ?case using gw_step.gw_agent [OF accept_agent(3-5)] by simp
next
  case (accept_public r sid dial now handshake remote pqs closeErr out g')
  then show ?case
    using gw_step.gw_public [OF accept_public(3), of acls dial now handshake remote pqs closeErr] by simp
next
  case (agent_round t r ev token now go_on g')
  then show ?case using gw_step.gw_agent_stream [OF agent_round(3)] by simp
qed (simp_all add: gw_step.gw_heartbeat gw_step.gw_public_done gw_step.gw_health gw_step.gw_event gw_step.gw_timer gw_step.gw_registry_step
  gw_step.gw_link gw_step.gw_shutdown loop_failed_def force_close_def)

text \<open>Streams belong to a worker or are closed; an accept loop that is gone without an error has no worker left.\<close>

definition streams_owned :: "Gateway \<Rightarrow> string list \<Rightarrow> bool" where
  "streams_owned g ws \<longleftrightarrow> (\<forall>i s. map_of (mg_streams (gw_streams g)) i = Some s \<longrightarrow> i \<in> set ws \<or> sm_state s = StateClosed)"

lemma streams_owned_keeps: "streams_owned g ws \<Longrightarrow> keeps g g' \<Longrightarrow> streams_owned g' ws"
  by (auto simp: streams_owned_def keeps_def)

lemma streams_owned_frame [simp]:
  "streams_owned (g\<lparr>gw_dist := a\<rparr>) ws = streams_owned g ws" "streams_owned (g\<lparr>gw_registry := b\<rparr>) ws = streams_owned g ws"
  "streams_owned (g\<lparr>gw_regUp := c\<rparr>) ws = streams_owned g ws" "mg_streams (gw_streams g) = [] \<Longrightarrow> streams_owned g ws"
  by (simp_all add: streams_owned_def)

lemma streams_owned_public:
  assumes "streams_owned g ws" and "handlePublicConnection acls dial sid now handshake remote qs closeErr g = (out, g')"
  shows "streams_owned g' (ws @ client_worker out)"
  using assms(1) public_streams [OF assms(2)] unfolding streams_owned_def by (metis Un_iff set_append)

lemma streams_owned_done: "streams_owned g ws \<Longrightarrow> streams_owned (public_stream_done i g) (remove1 i ws)"
  using done_streams [of i g] unfolding streams_owned_def by (metis in_set_remove1)

definition run_inv :: "run \<Rightarrow> bool" where
  "run_inv r \<longleftrightarrow> gw_inv (rn_gw r) \<and>
     streams_owned (rn_gw r) (rn_clients r) \<and>
     (rn_err r = None \<longrightarrow> (AcceptAgents \<notin> set (rn_loops r) \<longrightarrow> rn_agents r = []) \<and> (AcceptPublic \<notin> set (rn_loops r) \<longrightarrow> rn_clients r = [])) \<and>
     (rn_err r \<noteq> None \<or> rn_ctxDone r \<longrightarrow> rn_groupDone r) \<and>
     (rn_phase r \<noteq> Serving \<longrightarrow> rn_ctxDone r \<and> \<not> rn_quicLn r \<and> \<not> rn_publicLn r) \<and>
     (\<forall>d. rn_phase r = Draining d \<longrightarrow> rn_loops r = [] \<and> rn_err r = None) \<and>
     (rn_phase r = Stopped None \<longrightarrow> rn_loops r = [] \<and> rn_err r = None \<and> \<not> rn_udpLn r \<and> gw_tunnels (rn_gw r) = [] \<and>
        mg_streams (gw_streams (rn_gw r)) = [])"

lemma run_inv_keeps:
  assumes "run_inv r" and "gw_inv g'" and "keeps (rn_gw r) g'" and "set ws \<subseteq> set (rn_agents r) \<or> AcceptAgents \<in> set (rn_loops r)"
    and "rn_phase r \<noteq> Stopped None"
  shows "run_inv (r\<lparr>rn_gw := g', rn_agents := ws\<rparr>)"
  using assms streams_owned_keeps [of "rn_gw r" "rn_clients r" g'] by (auto simp: run_inv_def)

lemma run_inv_busy:
  assumes "run_inv r" and "rn_agents r \<noteq> [] \<or> rn_clients r \<noteq> [] \<or> rn_loops r \<noteq> []"
  shows "rn_phase r \<noteq> Stopped None"
  using assms by (auto simp: run_inv_def)

lemma run_inv_step: "run_step timeout acls r r' \<Longrightarrow> run_inv r \<Longrightarrow> run_inv r'"
proof -
  assume step: "run_step timeout acls r r'" and inv: "run_inv r"
  have gw: "gw_inv (rn_gw r')"
    using run_gw_step [OF step] gw_step_inv inv by (auto simp: run_inv_def)
  from step inv gw show ?thesis
  proof (induction rule: run_step.induct)
    case (accept_agent r i limiter authn token rtoken now conn remote qs w out w' g')
    then have "rn_phase r \<noteq> Stopped None" by (intro run_inv_busy) auto
    then show ?case
      using accept_agent run_inv_keeps [OF accept_agent(6) _ keeps_agent [OF accept_agent(4,5)]] by simp
  next
    case (accept_public r sid dial now handshake remote pqs closeErr out g')
    then have "rn_phase r \<noteq> Stopped None" by (intro run_inv_busy) auto
    then show ?case
      using accept_public streams_owned_public [OF _ accept_public(4), of "rn_clients r"] by (auto simp: run_inv_def)
  next
    case (agent_round t r ev token now go_on g')
    then have "rn_phase r \<noteq> Stopped None" by (intro run_inv_busy) auto
    moreover have "keeps (rn_gw r) g'" using keeps_agent_stream [of "rn_gw r" token now t ev] agent_round(3) by simp
    ultimately show ?case
      using agent_round run_inv_keeps [OF agent_round(4), of g' "if go_on then rn_agents r else remove1 t (rn_agents r)"] set_remove1_subset [of t "rn_agents r"]
      by simp
  next
    case (agent_heartbeat t r now)
    then have "rn_phase r \<noteq> Stopped None" by (intro run_inv_busy) auto
    then show ?case
      using agent_heartbeat run_inv_keeps [OF agent_heartbeat(2) _ keeps_heartbeat, of now t "rn_agents r"] by simp
  next
    case (client_done i r)
    then have "rn_phase r \<noteq> Stopped None" by (intro run_inv_busy) auto
    then show ?case
      using client_done streams_owned_done [of "rn_gw r" "rn_clients r" i] by (auto simp: run_inv_def)
  next
    case (health r now)
    then have "rn_phase r \<noteq> Stopped None" by (intro run_inv_busy) auto
    then show ?case using health run_inv_keeps [OF health(2) _ keeps_removal(4), of now "rn_agents r"] by simp
  next
    case (timer r n)
    then show ?case using run_inv_keeps [OF timer(2) _ keeps_removal(3), of n "rn_agents r"] by simp
  next
    case (accept_error l r e)
    then have "rn_phase r \<noteq> Stopped None" by (intro run_inv_busy) auto
    then show ?case using accept_error by (auto simp: run_inv_def loop_failed_def split: option.split)
  next
    case (watch_error r e)
    then have "rn_phase r \<noteq> Stopped None" by (intro run_inv_busy) auto
    then show ?case using watch_error by (auto simp: run_inv_def loop_failed_def split: option.split)
  next
    case (loop_ended l r)
    show ?case
      using loop_ended by - (cases "l = AcceptAgents"; cases "l = AcceptPublic"; auto simp: run_inv_def)
  next
    case (drained r deadline)
    then have "gw_inv (rn_gw r)" by (simp add: run_inv_def)
    then show ?case using drained closeAll_empties by (simp add: run_inv_def force_close_def)
  next
    case (drain_timeout r deadline now)
    then have "gw_inv (rn_gw r)" by (simp add: run_inv_def)
    then show ?case using drain_timeout closeAll_empties by (simp add: run_inv_def force_close_def)
  qed (auto simp: run_inv_def)
qed

lemma run_reach_inv: "run_reach s r \<Longrightarrow> run_inv r"
  unfolding run_reach_def
proof (erule reach_invariant)
  fix r assume "run_start s r"
  then obtain g udp where g: "gw_start (Options.truncate s) g" "r = serving udp g" by (auto simp: run_start_def)
  have "gw_inv g" by (rule gw_reachable_inv, rule reach_init, rule g(1))
  moreover have "mg_streams (gw_streams g) = []" using g(1) by (auto simp: gw_start_def NewGateway_def NewManager_def)
  ultimately show "run_inv r" by (simp add: g(2) serving_def run_inv_def)
qed (rule run_inv_step)

subsection \<open>Properties\<close>

lemma run_failed_step:
  assumes "run_step timeout acls r r'" and "run_inv r" and "rn_phase r = Serving" and "rn_err r = Some e" and "\<not> rn_ctxDone r'"
  shows "rn_phase r' = Serving \<and> rn_err r' = Some e \<and> \<not> rn_ctxDone r \<and> set (rn_agents r') \<subseteq> set (rn_agents r) \<and>
    set (rn_clients r') \<subseteq> set (rn_clients r)"
proof -
  have gd: "rn_groupDone r" using assms(2,4) by (simp add: run_inv_def)
  from assms(1) gd assms(3-5) show ?thesis
  proof (induction rule: run_step.induct)
    case (agent_round t r ev token now go_on g')
    then show ?case using set_remove1_subset [of t "rn_agents r"] by simp
  next
    case (client_done i r)
    then show ?case using set_remove1_subset [of i "rn_clients r"] by simp
  qed (simp_all add: loop_failed_def force_close_def)
qed

text \<open>C9: A gateway whose shutdown ends without an error has stopped completely: all its listeners are closed, none of its loops
  and workers is left, it has no tunnel and no open stream. And the time it waits for streams to end is of no
  use: when it starts to wait, every worker is gone already, with the connection it served, and the streams still
  in the table are closed ones whose closing failed.\<close>

theorem gateway_shutdown:
  assumes "run_reach s r"
  shows "(rn_phase r = Stopped None \<longrightarrow> \<not> rn_quicLn r \<and> \<not> rn_publicLn r \<and> \<not> rn_udpLn r \<and> rn_loops r = [] \<and> rn_agents r = [] \<and>
      rn_clients r = [] \<and> gw_tunnels (rn_gw r) = [] \<and> Manager_Count (gw_streams (rn_gw r)) = 0) \<and>
    (rn_phase r = Draining deadline \<longrightarrow> rn_agents r = [] \<and> rn_clients r = [] \<and>
      (\<forall>i st. Manager_Get i (gw_streams (rn_gw r)) = Ok st \<longrightarrow> sm_state st = StateClosed))"
proof -
  note inv = run_reach_inv [OF assms, unfolded run_inv_def]
  have "sm_state st = StateClosed" if "rn_clients r = []" "Manager_Get i (gw_streams (rn_gw r)) = Ok st" for i st
    using inv that by (auto simp: streams_owned_def Manager_Get_def split: option.splits)
  with inv show ?thesis by (auto simp: Manager_Count_def)
qed

text \<open>C32: When accepting connections fails, or the registry cannot be watched, the gateway is left running without serving
  anybody: the error cancels all loops, but \<^verbatim>\<open>Run\<close> waits for its own context. Until that is cancelled it does not
  return, and it takes no agent and no client any more.\<close>

theorem failed_loop_keeps_running:
  assumes "run_reach s r" and "rn_phase r = Serving" and "rn_err r = Some e"
    and "(run_step (gatewayShutdownTimeout (op_ShutdownTimeout s)) (gs_TunnelACLs s))\<^sup>*\<^sup>* r r'" and "\<not> rn_ctxDone r'"
  shows "rn_phase r' = Serving \<and> set (rn_agents r') \<subseteq> set (rn_agents r) \<and> set (rn_clients r') \<subseteq> set (rn_clients r)"
proof -
  have "run_inv r' \<and> (\<not> rn_ctxDone r' \<longrightarrow> rn_phase r' = Serving \<and> rn_err r' = Some e \<and> set (rn_agents r') \<subseteq> set (rn_agents r) \<and>
      set (rn_clients r') \<subseteq> set (rn_clients r))"
    using assms(4)
  proof (induction rule: rtranclp_induct)
    case base
    then show ?case using assms(2,3) run_reach_inv [OF assms(1)] by simp
  next
    case (step y z)
    have "rn_ctxDone y \<Longrightarrow> rn_ctxDone z"
      using step(2) by (cases rule: run_step.cases) (simp_all add: loop_failed_def force_close_def)
    with step run_failed_step [OF step(2), of e] run_inv_step [OF step(2)] show ?case by fastforce
  qed
  with assms(5) show ?thesis by simp
qed

subsection \<open>Example runs\<close>

definition run_example :: run where
  "run_example = serving False (NewGateway (Options.truncate setup_example) NewServer True)"

lemma run_example_reach: "run_reach setup_example run_example"
proof -
  have "gw_start (Options.truncate setup_example) (NewGateway (Options.truncate setup_example) NewServer True)"
    unfolding gw_start_def
    by (intro exI [of _ NewServer] exI [of _ True]) (simp add: NewServer_def reg_inv_def repo_inv_Nil lease_inv_New)
  then show ?thesis
    unfolding run_reach_def by (intro reach_init) (auto simp: run_start_def run_example_def setup_example_def)
qed

lemma run_reach_step:
  "run_reach s r \<Longrightarrow> run_step (gatewayShutdownTimeout (op_ShutdownTimeout s)) (gs_TunnelACLs s) r r' \<Longrightarrow> run_reach s r'"
  unfolding run_reach_def by (rule reach_step)

lemma loops_end:
  "run_reach s (r\<lparr>rn_groupDone := True, rn_loops := ls\<rparr>) \<Longrightarrow> rn_agents r = [] \<Longrightarrow> rn_clients r = [] \<Longrightarrow>
     run_reach s (r\<lparr>rn_groupDone := True, rn_loops := []\<rparr>)"
proof (induction ls)
  case (Cons l ls)
  have "run_reach s (r\<lparr>rn_groupDone := True, rn_loops := ls\<rparr>)"
    using run_reach_step [OF Cons.prems(1) run_step.loop_ended [of l]] Cons.prems(2,3) by simp
  then show ?case using Cons by simp
qed simp

definition stopped_example :: run where
  "stopped_example = force_close (run_example\<lparr>rn_ctxDone := True, rn_groupDone := True, rn_loops := [], rn_quicLn := False,
     rn_publicLn := False, rn_phase := Draining 15000000000\<rparr>)"

lemma stopped_example_reach: "run_reach setup_example stopped_example"
proof -
  let ?r = "run_example\<lparr>rn_ctxDone := True, rn_groupDone := True, rn_loops := []\<rparr>"
  let ?j = "?r\<lparr>rn_phase := Joining, rn_quicLn := False, rn_publicLn := False\<rparr>"
  have "run_reach setup_example (run_example\<lparr>rn_ctxDone := True, rn_groupDone := True\<rparr>)"
    by (rule run_reach_step [OF run_example_reach run_step.cancel])
  then have "run_reach setup_example ?r"
    using loops_end [of setup_example "rn_loops run_example" "run_example\<lparr>rn_ctxDone := True\<rparr>"] by (simp add: run_example_def serving_def)
  then have "run_reach setup_example ?j"
    by (rule run_reach_step) (rule run_step.stop, simp_all add: run_example_def serving_def)
  then have "run_reach setup_example (?j\<lparr>rn_phase := Draining (0 + gatewayShutdownTimeout (op_ShutdownTimeout setup_example))\<rparr>)"
    by (rule run_reach_step) (rule run_step.join, simp_all add: run_example_def serving_def)
  then have d: "run_reach setup_example (run_example\<lparr>rn_ctxDone := True, rn_groupDone := True, rn_loops := [], rn_quicLn := False,
     rn_publicLn := False, rn_phase := Draining 15000000000\<rparr>)"
    by (simp add: gatewayShutdownTimeout_def setup_example_def)
  show ?thesis
    unfolding stopped_example_def
    by (rule run_reach_step [OF d], rule run_step.drained)
      (simp_all add: run_example_def serving_def NewGateway_def NewManager_def Manager_Count_def)
qed

theorem gateway_shutdown_witness:
  "\<not> rn_quicLn stopped_example \<and> \<not> rn_publicLn stopped_example \<and> rn_loops stopped_example = [] \<and> gw_tunnels (rn_gw stopped_example) = []"
  using gateway_shutdown [OF stopped_example_reach, of 0] by (simp add: stopped_example_def force_close_def)

theorem failed_loop_keeps_running_witness:
  "rn_phase (loop_failed AcceptPublic EOF run_example) = Serving \<and> rn_groupDone (loop_failed AcceptPublic EOF run_example)"
proof -
  let ?r = "loop_failed AcceptPublic EOF run_example"
  have "run_reach setup_example ?r"
    by (rule run_reach_step [OF run_example_reach], rule run_step.accept_error) (simp_all add: run_example_def serving_def)
  then have "rn_phase ?r = Serving"
    using failed_loop_keeps_running [of setup_example ?r EOF ?r] by (simp add: loop_failed_def run_example_def serving_def)
  then show ?thesis by (simp add: loop_failed_def)
qed

end
