(* ===== verification/TE_Programs.thy ===== *)
theory TE_Programs
  imports TE_Run TE_Auth TE_Http
begin

text \<open>
  How the programs put the services together: the three server programs \<^verbatim>\<open>src/cmd/gateway/main.go\<close>,
  \<^verbatim>\<open>src/cmd/registry/main.go\<close> and \<^verbatim>\<open>src/cmd/dashboard/main.go\<close>, from the configuration to the options of the service, with
  every exit before it serves as an error.

  What the programs get from outside is the argument \<open>main_env\<close>: the loaded configuration and whether tracing, the database,
  the registry, the etcd cluster and the listening socket are available. Logging, metrics and the end of the
  processes are left out.
\<close>

record main_env =
  me_Load :: "Config result"
  me_StartTracing :: "string \<Rightarrow> string \<Rightarrow> goerror option"
  me_NewDB :: "string \<Rightarrow> goerror option"
  me_AutoMigrate :: "goerror option"
  me_DialRegistry :: "string \<Rightarrow> string \<Rightarrow> string \<Rightarrow> goerror option"
  me_DialEtcd :: "string list \<Rightarrow> duration \<Rightarrow> goerror option"
  me_Listen :: "string \<Rightarrow> goerror option"

definition fatal :: "string \<Rightarrow> goerror option \<Rightarrow> unit result" where
  "fatal msg r = (case r of None \<Rightarrow> Ok () | Some e \<Rightarrow> Err (WrapErr msg e))"

text \<open>The beginning of all three programs: load and validate the configuration, start tracing if it is enabled.\<close>

definition main_config :: "ServiceType \<Rightarrow> main_env \<Rightarrow> Config result" where
  "main_config svc env =
     rbind (wrap_err ''failed to load config'' (me_Load env)) (\<lambda>cfg.
     rbind (wrap_err ''invalid config'' (Validate svc cfg)) (\<lambda>_.
     rbind (if oc_TracingEnabled (cf_Observability cfg)
       then fatal ''failed to initialize tracing'' (me_StartTracing env (cf_ServiceName cfg) (oc_TracingEndpoint (cf_Observability cfg)))
       else Ok ()) (\<lambda>_. Ok cfg)))"

text \<open>Opening the database where the configuration has one; the result says whether it has. A failed migration is
  reported with the message \<open>msg\<close>.\<close>

definition open_database :: "string \<Rightarrow> main_env \<Rightarrow> Config \<Rightarrow> bool result" where
  "open_database msg env cfg =
     (if db_Driver (cf_DB cfg) = ''postgres'' \<and> db_DSN (cf_DB cfg) \<noteq> [] then
        rbind (fatal ''failed to connect to database'' (me_NewDB env (db_DSN (cf_DB cfg)))) (\<lambda>_.
        rbind (if db_AutoMigrate (cf_DB cfg) then fatal msg (me_AutoMigrate env) else Ok ()) (\<lambda>_. Ok True))
      else Ok False)"

subsection \<open>The gateway\<close>

datatype authenticator = DBTokens | MemoryTokens TokenAuthenticator

definition resolveAuthenticator :: "main_env \<Rightarrow> Config \<Rightarrow> authenticator result" where
  "resolveAuthenticator env cfg = rbind (open_database ''failed to run auto migrations'' env cfg) (\<lambda>db.
     Ok (if db then DBTokens else MemoryTokens (NewHashedTokenAuthenticator [])))"

definition gateway_setup :: "Config \<Rightarrow> GatewaySetup" where
  "gateway_setup cfg = (let c = cf_Gateway cfg in
     \<lparr> op_BaseDomain = gc_BaseDomain c, op_PublicListenAddr = gc_PublicListenAddr c, op_MaxStreams = gc_MaxStreams c,
       op_ShutdownTimeout = gc_ShutdownTimeout c, op_StreamIdleTimeout = gc_StreamIdleTimeout c, op_RelayID = gc_RelayID c,
       op_AdvertiseAddr = gc_AdvertiseAddr c, op_LeaseTTL = gc_LeaseTTL c, op_HealthReportInterval = gc_HealthReportInterval c,
       op_MaxTunnelsPerAgent = gc_MaxTunnelsPerAgent c, op_MaxStreamsPerTunnel = gc_MaxStreamsPerTunnel c, op_Region = gc_Region c,
       op_SessionResumeEnabled = gc_SessionResumeEnabled c, op_SessionResumeTTL = gc_SessionResumeTTL c, op_SessionRepo = False,
       gs_QUICListenAddr = gc_QUICListenAddr c, gs_TLSCertFile = gc_TLSCertFile c, gs_TLSKeyFile = gc_TLSKeyFile c,
       gs_MTLSEnabled = gc_MTLSEnabled c, gs_ClientCAFile = gc_ClientCAFile c, gs_AuthRateLimitRPM = gc_AuthRateLimitRPM c,
       gs_TunnelACLs = None, gs_UDPListenAddr = gc_UDPListenAddr c \<rparr>)"

definition gateway_main :: "main_env \<Rightarrow> (authenticator \<times> GatewaySetup) result" where
  "gateway_main env =
     rbind (main_config ServiceGateway env) (\<lambda>cfg.
     rbind (resolveAuthenticator env cfg) (\<lambda>authn.
     rbind (fatal ''failed to connect to registry'' (me_DialRegistry env (gc_RegistryAddr (cf_Gateway cfg))
       (gc_RegistryTLSCert (cf_Gateway cfg)) (gc_GRPCAuthToken (cf_Gateway cfg)))) (\<lambda>_.
       Ok (authn, gateway_setup cfg))))"

subsection \<open>The registry\<close>

datatype coordinator_backend = EtcdBackend "string list" duration | MemoryCoordinator

datatype store_backend = PostgresSessions | MemorySessions

definition resolveCoordinator :: "main_env \<Rightarrow> Config \<Rightarrow> coordinator_backend result" where
  "resolveCoordinator env cfg = (let c = cf_Registry cfg in
     if rc_EtcdEndpoints c \<noteq> [] then
       let dialTimeout = (if rc_EtcdDialTimeout c \<le> 0 then 5 * 1000000000 else rc_EtcdDialTimeout c) in
       rbind (fatal ''failed to connect to etcd'' (me_DialEtcd env (rc_EtcdEndpoints c) dialTimeout)) (\<lambda>_.
         Ok (EtcdBackend (rc_EtcdEndpoints c) dialTimeout))
     else Ok MemoryCoordinator)"

definition resolveSessionStore :: "main_env \<Rightarrow> Config \<Rightarrow> store_backend result" where
  "resolveSessionStore env cfg = rbind (open_database ''failed to run auto migrations'' env cfg) (\<lambda>db.
     Ok (if db then PostgresSessions else MemorySessions))"

record registry_setup =
  rs_store :: store_backend
  rs_coord :: coordinator_backend
  rs_cleanupInterval :: duration
  rs_sessionTTL :: duration
  rs_authToken :: string
  rs_rateLimitRPM :: int

definition registry_main :: "main_env \<Rightarrow> registry_setup result" where
  "registry_main env =
     rbind (main_config ServiceRegistry env) (\<lambda>cfg.
     rbind (resolveSessionStore env cfg) (\<lambda>store.
     rbind (resolveCoordinator env cfg) (\<lambda>coord.
     rbind (fatal ''failed to listen'' (me_Listen env (rc_GRPCListenAddr (cf_Registry cfg)))) (\<lambda>_.
       Ok \<lparr> rs_store = store, rs_coord = coord, rs_cleanupInterval = rc_CleanupInterval (cf_Registry cfg),
            rs_sessionTTL = rc_SessionTTL (cf_Registry cfg), rs_authToken = rc_GRPCAuthToken (cf_Registry cfg),
            rs_rateLimitRPM = rc_AuthRateLimitRPM (cf_Registry cfg) \<rparr>))))"

subsection \<open>The dashboard\<close>

definition dashboard_options :: "Config \<Rightarrow> ServerOptions" where
  "dashboard_options cfg = (let c = cf_Dashboard cfg in
     \<lparr> so_JWTCfg = \<lparr> jc_Secret = dc_JWTSecret c, jc_TTL = dc_JWTTTL c \<rparr>, so_BaseURL = dc_BaseURL c, so_EmailService = True,
       so_RevokedJTIs = True, so_RefreshTokens = True, so_RefreshTokenEnabled = dc_RefreshTokenEnabled c,
       so_RefreshTokenTTL = dc_RefreshTokenTTL c, so_AuthRateLimitRPM = dc_AuthRateLimitRPM c, so_TunnelACLs = True,
       so_AuditRepo = True \<rparr>)"

definition dashboard_main :: "main_env \<Rightarrow> ServerOptions result" where
  "dashboard_main env =
     rbind (main_config ServiceDashboard env) (\<lambda>cfg.
     rbind (open_database ''failed to run migrations'' env cfg) (\<lambda>db.
       if db then Ok (dashboard_options cfg) else Err (PlainErr ''dashboard requires postgres database'')))"

subsection \<open>Properties\<close>

lemma closeAll_sessionRepo: "gw_sessionRepo (closeAll g) = gw_sessionRepo g"
proof -
  have "keeps h g \<Longrightarrow> keeps h (fold (\<lambda>i. removeTunnel i ''shutdown'') ks g)" for h ks
    by (induction ks arbitrary: g) simp_all
  from this [of g] show ?thesis by (simp add: closeAll_def Let_def keeps_def)
qed

lemma run_sessionRepo: "run_step timeout acls r r' \<Longrightarrow> gw_sessionRepo (rn_gw r') = gw_sessionRepo (rn_gw r)"
proof (induction rule: run_step.induct)
  case (accept_agent r i limiter authn token rtoken now conn remote qs w out w' g')
  then show ?case using keeps_agent [OF accept_agent(4,5)] by (simp add: keeps_def)
next
  case (accept_public r sid dial now handshake remote pqs closeErr out g')
  then show ?case using public_streams [OF accept_public(4)] by simp
next
  case (agent_round t r ev token now go_on g')
  then show ?case using keeps_agent_stream [of "rn_gw r" token now t ev] by (simp add: keeps_def)
next
  case (agent_heartbeat t r now)
  then show ?case using keeps_heartbeat [of "rn_gw r" now t] by (simp add: keeps_def)
next
  case (health r now)
  then show ?case using keeps_removal(4) [of "rn_gw r" now] by (simp add: keeps_def)
next
  case (timer r n)
  then show ?case using keeps_removal(3) [of "rn_gw r" n] by (simp add: keeps_def)
qed (simp_all add: loop_failed_def force_close_def closeAll_sessionRepo public_stream_done_def)

lemma run_reach_sessionRepo: "run_reach s r \<Longrightarrow> gw_sessionRepo (rn_gw r) = op_SessionRepo s"
  unfolding run_reach_def
  by (erule reach_invariant)
    (auto simp: run_start_def gw_start_def serving_def NewGateway_def Options.truncate_def run_sessionRepo)

text \<open>C22: The gateway program passes neither the access rules nor a session store to the gateway. So whatever rules the
  dashboard has stored for a tunnel, and whatever the settings say, a gateway that it starts admits every client to a
  live tunnel that has room, and an agent that loses its connection loses its tunnel: no session is suspended
  and no attempt to resume one succeeds.\<close>

theorem gateway_program_enforces_no_rules:
  assumes "gateway_main env = Ok (authn, s)" and "run_reach s r" and "LookupWithLabel (gw_router (rn_gw r)) hostname = Some (t, label)"
    and "hostname \<noteq> []" and "getTunnel t (rn_gw r) = Some av" and "av_conn av = Some c"
    and "gw_maxStreams (rn_gw r) > 0 \<Longrightarrow> int (CountByTunnel t (gw_streams (rn_gw r))) < gw_maxStreams (rn_gw r)"
    and "gw_maxStreamsPerTunnel (rn_gw r) > 0 \<Longrightarrow> int (CountByTunnel t (gw_streams (rn_gw r))) < gw_maxStreamsPerTunnel (rn_gw r)"
    and "EncodeStreamLabel w label = (Ok (), w')"
  shows "(\<exists>g'. handlePublicConnection (gs_TunnelACLs s) dial sid now (Ok hostname) remoteAddr (Ok w) closeErr (rn_gw r) =
      (PubStream sid t label, g')) \<and>
    agent_stream token now t AcceptFailed (rn_gw r) = (Ok False, removeTunnel t ''stream_error'' (rn_gw r)) \<and>
    fst (handleSessionResume token now conn qin w (rn_gw r)) \<noteq> Ok (Some u)"
proof -
  obtain cfg where s: "s = gateway_setup cfg"
    using assms(1) by (auto simp: gateway_main_def rbind_eq_Ok_iff)
  have acls: "gs_TunnelACLs s = None" and repo: "\<not> gw_sessionRepo (rn_gw r)"
    using run_reach_sessionRepo [OF assms(2)] by (simp_all add: s gateway_setup_def Let_def)
  have "\<not> av_suspended av"
    using run_reach_inv [OF assms(2)] assms(5,6) by (auto simp: run_inv_def gw_inv_def gw_ok_def getTunnel_def)
  then have "\<exists>g'. handlePublicConnection (gs_TunnelACLs s) dial sid now (Ok hostname) remoteAddr (Ok w) closeErr (rn_gw r) =
      (PubStream sid t label, g')"
    using assms(3-9) by (auto simp: handlePublicConnection_def acls acl_admits_def Manager_Open_def Let_def)
  moreover have "fst (handleSessionResume token now conn qin w (rn_gw r)) \<noteq> Ok (Some u)"
    using repo by (simp add: handleSessionResume_def Let_def split: result.split prod.split)
  ultimately show ?thesis using repo by (simp add: agent_stream_def)
qed

subsection \<open>A gateway with an agent\<close>

definition config_example :: Config where
  "config_example =
     \<lparr> cf_ServiceName = ''gateway'', cf_Log = \<lparr> lc_Level = ''info'', lc_Format = ''json'' \<rparr>,
       cf_Observability = \<lparr> oc_MetricsEnabled = False, oc_MetricsAddr = [], oc_TracingEnabled = False, oc_TracingEndpoint = [] \<rparr>,
       cf_Agent = \<lparr> ac_GatewayAddr = [], ac_GatewayAddrs = [], ac_Token = [], ac_LocalAddr = [], ac_Tunnels = [], ac_ReconnectDelay = 0,
         ac_MaxReconnect = 0, ac_HeartbeatInterval = 0, ac_QUICTimeout = 0, ac_TLSCAFile = [], ac_TLSInsecure = True, ac_MTLSEnabled = False,
         ac_ClientCertFile = [], ac_ClientKeyFile = [], ac_APIURL = [], ac_StreamIdleTimeout = 0, ac_PreferredRegion = [],
         ac_SessionResumeEnabled = False \<rparr>,
       cf_Gateway = \<lparr> gc_QUICListenAddr = '':4433'', gc_PublicListenAddr = '':443'', gc_BaseDomain = ''ex.io'', gc_RegistryAddr = ''reg:50051'',
         gc_RelayID = ''r1'', gc_AdvertiseAddr = [], gc_TLSCertFile = [], gc_TLSKeyFile = [], gc_RegistryTLSCert = ''insecure'',
         gc_LeaseTTL = 45000000000, gc_HealthReportInterval = 15000000000, gc_ShutdownTimeout = 15000000000, gc_MaxStreams = 2,
         gc_GRPCAuthToken = [], gc_StreamIdleTimeout = 30000000000, gc_MTLSEnabled = False, gc_ClientCAFile = [], gc_RegistryMTLS = False,
         gc_RegistryCertFile = [], gc_RegistryKeyFile = [], gc_AuthRateLimitRPM = 0, gc_MaxTunnelsPerAgent = 0, gc_MaxStreamsPerTunnel = 0,
         gc_Region = [], gc_SessionResumeEnabled = True, gc_SessionResumeTTL = 0, gc_UDPListenAddr = [] \<rparr>,
       cf_Registry = \<lparr> rc_GRPCListenAddr = [], rc_TLSCertFile = [], rc_TLSKeyFile = [], rc_SessionTTL = 0, rc_CleanupInterval = 0,
         rc_GRPCAuthToken = [], rc_EtcdEndpoints = [], rc_EtcdDialTimeout = 0, rc_MTLSEnabled = False, rc_ClientCAFile = [],
         rc_AuthRateLimitRPM = 0 \<rparr>,
       cf_Dashboard = \<lparr> dc_HTTPListenAddr = [], dc_JWTSecret = [], dc_JWTTTL = 0, dc_BaseURL = [], dc_SMTPHost = [], dc_SMTPPort = 0,
         dc_SMTPFrom = [], dc_RefreshTokenEnabled = False, dc_RefreshTokenTTL = 0, dc_AuthRateLimitRPM = 0, dc_MaxFailedLogins = 0,
         dc_LockoutDuration = 0 \<rparr>,
       cf_DB = \<lparr> db_Driver = ''postgres'', db_DSN = ''host=db'', db_MaxOpenConns = 10, db_MaxIdleConns = 5, db_ConnMaxLifetime = 0,
         db_AutoMigrate = True \<rparr> \<rparr>"

definition main_env_example :: main_env where
  "main_env_example = \<lparr> me_Load = Ok config_example, me_StartTracing = (\<lambda>name addr. None), me_NewDB = (\<lambda>dsn. None), me_AutoMigrate = None,
     me_DialRegistry = (\<lambda>addr cert token. None), me_DialEtcd = (\<lambda>addrs timeout. None), me_Listen = (\<lambda>addr. None) \<rparr>"

lemma gateway_main_example: "gateway_main main_env_example = Ok (DBTokens, gateway_setup config_example)"
  by (simp add: gateway_main_def main_config_def main_env_example_def config_example_def wrap_err_def Validate_def common_checks_def
    resolveAuthenticator_def open_database_def fatal_def Let_def)

definition program_gateway :: Gateway where
  "program_gateway = NewGateway (Options.truncate (gateway_setup config_example)) NewServer True"

lemma program_gateway_fields:
  "gw_router program_gateway = NewTunnelRouter ''ex.io''" "gw_publicListenAddr program_gateway = '':443''" "gw_regUp program_gateway"
  "gw_registry program_gateway = NewServer" "gw_streams program_gateway = NewManager" "gw_maxStreams program_gateway = 2"
  "gw_maxStreamsPerTunnel program_gateway = 0" "gw_relayID program_gateway = ''r1''" "gw_leaseTTL program_gateway = 45000000000"
  "gw_tunnels program_gateway = []"
  by (simp_all add: program_gateway_def NewGateway_def Options.truncate_def gateway_setup_def config_example_def gatewayLeaseTTL_def Let_def)

text \<open>An agent with the first version of the handshake.\<close>

definition v1_reader :: reader where
  "v1_reader = \<lparr> rd_data = tl (auth_frame \<lparr> am_Token = ''tok'' \<rparr>), rd_err = EOF \<rparr>"

lemma v1_decode: "DecodeAuth (unread MsgAuth v1_reader) = Ok (\<lparr> am_Token = ''tok'' \<rparr>, \<lparr> rd_data = [], rd_err = EOF \<rparr>)"
proof -
  have "unread MsgAuth v1_reader = \<lparr> rd_data = auth_frame \<lparr> am_Token = ''tok'' \<rparr> @ [], rd_err = EOF \<rparr>"
    by (simp add: unread_def v1_reader_def auth_frame_def)
  then show ?thesis using auth_codec.roundtrip [of "\<lparr> am_Token = ''tok'' \<rparr>" "[]" EOF] by (simp add: auth_valid_def max_defs)
qed

definition v1_router :: TunnelRouter where
  "v1_router = snd (Router_Register ''t-a'' (NewTunnelRouter ''ex.io''))"

lemma v1_handshake:
  "\<exists>p q w' g'. handleV1Auth (\<lambda>tok. Ok ''a'') ''l1'' 5 7 (unread MsgAuth v1_reader) fresh_writer program_gateway = (Ok (''a'', ''t-a'', p, q), w', g') \<and>
     gw_router g' = v1_router \<and> gw_streams g' = NewManager \<and> gw_maxStreams g' = 2 \<and> gw_maxStreamsPerTunnel g' = 0"
proof -
  have "\<exists>lease s. acquireTunnelLease ''l1'' 5 ''t-a'' (program_gateway\<lparr>gw_router := v1_router\<rparr>) =
      (Ok lease, program_gateway\<lparr>gw_router := v1_router, gw_registry := s\<rparr>)"
    by (simp add: acquireTunnelLease_def reg_call_def program_gateway_fields client_AcquireLease_def Server_AcquireLease_def
      on_coord_def NewServer_def NewMemCoordinator_def AcquireLease_def currentLeaseLocked_def Let_def mput_def mdel_def
      touch_relay_def go_Publish_def) (rule exI, rule refl)
  then obtain lease s where lease: "acquireTunnelLease ''l1'' 5 ''t-a'' (program_gateway\<lparr>gw_router := v1_router\<rparr>) =
      (Ok lease, program_gateway\<lparr>gw_router := v1_router, gw_registry := s\<rparr>)" by blast
  have reg: "Router_Register ''t-a'' (NewTunnelRouter ''ex.io'') = (''a.ex.io'', v1_router)"
    by (simp add: v1_router_def Router_Register_def HostnameForTunnel_def NewTunnelRouter_def TrimPrefix_def Let_def)
  have send: "\<exists>w'. EncodeAuthResponse fresh_writer AuthStatusOK ''t-a'' ''a.ex.io:443'' = (Ok (), w')"
    by (simp add: EncodeAuthResponse_def authresp_buf_frame authresp_valid_def max_defs Let_def send_frame_def Write_def fresh_writer_def)
  then obtain w' where send: "EncodeAuthResponse fresh_writer AuthStatusOK ''t-a'' ''a.ex.io:443'' = (Ok (), w')" by blast
  show ?thesis
    by (simp add: handleV1Auth_def v1_decode program_gateway_fields NewTunnelID_def reg lease agent_port send addTunnel_def Let_def)
qed

lemma v1_connect:
  "\<exists>w' g' av. handleAgentConnection None (\<lambda>tok. Ok ''a'') ''l1'' (Ok ''tokA'') (Ok ''tokB'') 5 7 ''1.2.3.4:5'' (Ok (unread MsgAuth v1_reader)) fresh_writer
       program_gateway = (ConnEstablished ''t-a'', w', g') \<and>
     gw_router g' = v1_router \<and> gw_streams g' = NewManager \<and> gw_maxStreams g' = 2 \<and> gw_maxStreamsPerTunnel g' = 0 \<and>
     getTunnel ''t-a'' g' = Some av \<and> av_conn av = Some 7"
proof -
  obtain p q w1 g1 where v1: "handleV1Auth (\<lambda>tok. Ok ''a'') ''l1'' 5 7 (unread MsgAuth v1_reader) fresh_writer program_gateway =
      (Ok (''a'', ''t-a'', p, q), w1, g1)" and g1: "gw_router g1 = v1_router" "gw_streams g1 = NewManager" "gw_maxStreams g1 = 2"
      "gw_maxStreamsPerTunnel g1 = 0"
    using v1_handshake by blast
  have auth: "authenticated 7 ''a'' ''t-a'' program_gateway g1" by (rule handleV1Auth_Ok [OF v1])
  then obtain av where av: "map_of (gw_tunnels g1) ''t-a'' = Some av" "av_conn av = Some 7" by (auto simp: authenticated_def)
  have up: "gw_regUp g1" "sv_store (gw_registry g1) = []"
    using auth by (simp_all add: authenticated_def program_gateway_fields NewServer_def)
  obtain l c where cur: "CurrentLease ''t-a'' 5 (sv_coord (gw_registry g1)) = (l, c)"
    by (cases "CurrentLease ''t-a'' 5 (sv_coord (gw_registry g1))")
  have "\<exists>s. establish 5 7 (Ok (''a'', ''t-a'', p, q), w1, g1) =
      (ConnEstablished ''t-a'', w1, g1\<lparr>gw_registry := s, gw_activeGauge := gw_activeGauge g1 + 1\<rparr>)"
    by (simp add: establish_def reg_call_def up client_RegisterTunnel_def RegisterTunnel_def mem_Register_def session_literal_ids
      cur Let_def) (rule exI, rule refl)
  then obtain s where "establish 5 7 (Ok (''a'', ''t-a'', p, q), w1, g1) =
      (ConnEstablished ''t-a'', w1, g1\<lparr>gw_registry := s, gw_activeGauge := gw_activeGauge g1 + 1\<rparr>)" by blast
  moreover have "MsgAuth \<noteq> MsgHello" "MsgAuth \<noteq> MsgSessionResume" "MsgAuth \<noteq> MsgAuthV2"
    by (simp_all add: MsgHello_def MsgAuthV2_def MsgSessionResume_def MsgAuth_def)
  ultimately show ?thesis
    using g1 av
    by (simp add: handleAgentConnection_def ReadMessageType_unread dispatch_first_def auth_frame_by_type_def v1 getTunnel_def)
qed

theorem gateway_program_enforces_no_rules_witness:
  "\<exists>r g'. run_reach (gateway_setup config_example) r \<and>
     handlePublicConnection (gs_TunnelACLs (gateway_setup config_example)) (\<lambda>addr. False) ''s1'' 9 (Ok ''a.ex.io'') ''6.6.6.6:99'' (Ok fresh_writer)
       None (rn_gw r) = (PubStream ''s1'' ''t-a'' ''default'', g')"
proof -
  let ?s = "gateway_setup config_example"
  obtain w' g' av where conn: "handleAgentConnection None (\<lambda>tok. Ok ''a'') ''l1'' (Ok ''tokA'') (Ok ''tokB'') 5 7 ''1.2.3.4:5''
      (Ok (unread MsgAuth v1_reader)) fresh_writer program_gateway = (ConnEstablished ''t-a'', w', g')"
    and g: "gw_router g' = v1_router" "gw_streams g' = NewManager" "gw_maxStreams g' = 2" "gw_maxStreamsPerTunnel g' = 0"
      "getTunnel ''t-a'' g' = Some av" "av_conn av = Some 7"
    using v1_connect by blast
  have "gw_start (Options.truncate ?s) program_gateway"
    unfolding gw_start_def program_gateway_def
    by (intro exI [of _ NewServer] exI [of _ True]) (simp add: NewServer_def reg_inv_def repo_inv_Nil lease_inv_New)
  then have start: "run_reach ?s (serving False program_gateway)"
    unfolding run_reach_def by (intro reach_init) (auto simp: run_start_def gateway_setup_def config_example_def Let_def)
  have "handleAgentConnection None (\<lambda>tok. Ok ''a'') ''l1'' (Ok ''tokA'') (Ok ''tokB'') 5 7 ''1.2.3.4:5''
      (Ok (unread MsgAuth v1_reader)) fresh_writer (rn_gw (serving False program_gateway)) = (ConnEstablished ''t-a'', w', g')"
    using conn by (simp add: serving_def)
  from run_step.accept_agent [OF _ _ _ this]
  have reach: "run_reach ?s ((serving False program_gateway)\<lparr>rn_gw := g',
      rn_agents := rn_agents (serving False program_gateway) @ agent_worker (ConnEstablished ''t-a'')\<rparr>)"
    by (intro run_reach_step [OF start]) (simp add: serving_def program_gateway_fields NewServer_def NewMemCoordinator_def)
  obtain w2 where "EncodeStreamLabel fresh_writer ''default'' = (Ok (), w2)"
    by (simp add: EncodeStreamLabel_def label_buf_frame label_valid_def maxLabelLen_def send_frame_def Write_def fresh_writer_def)
  moreover have "LookupWithLabel v1_router ''a.ex.io'' = Some (''t-a'', ''default'')"
    by (simp add: LookupWithLabel_def v1_router_def Router_Register_def HostnameForTunnel_def NewTunnelRouter_def TrimPrefix_def Let_def)
  ultimately show ?thesis
    using gateway_program_enforces_no_rules [OF gateway_main_example reach, of "''a.ex.io''" "''t-a''" "''default''" av 7 fresh_writer w2
        "\<lambda>addr. False" "''s1''" 9 "''6.6.6.6:99''" None] g reach
    by (auto simp: NewManager_def CountByTunnel_def)
qed

end
