(* ===== verification/Spec2Isabelle.thy ===== *)
theory Spec2Isabelle
  imports TE_Transport TE_Relay TE_Stream TE_Router TE_Registry TE_EndToEnd TE_Persistence TE_Accounts TE_Cluster TE_Duplex TE_Agentui
    TE_Apiclient TE_Programs
begin

text \<open>
  A verification development of TunnelEdge, a tunnel service written in Go: agents behind a firewall open a connection
  to a gateway, the gateway gives every configured tunnel of an agent a public host name, and connections to that name
  are relayed to the agent's local service. A registry with leases lets several gateways share the load, and a
  dashboard manages users, agents, tunnels and access rules in a Postgres database.

  \<^bold>\<open>How the parts interact.\<close> An agent (\<^verbatim>\<open>src/internal/agent\<close>) dials a gateway, says hello and authenticates with a
  token and its list of tunnels, in frames of \<^verbatim>\<open>src/internal/transport\<close>. The gateway (\<^verbatim>\<open>src/internal/gateway\<close>) checks
  the token (\<^verbatim>\<open>src/internal/auth\<close>), takes a lease and registers the tunnel with the registry
  (\<^verbatim>\<open>src/internal/registry\<close>), enters the host names in its router and answers with them. A public connection is looked up
  by server name, admitted by the tunnel's access rules, given a stream (\<^verbatim>\<open>src/internal/stream\<close>) to the agent and copied
  by the relay (\<^verbatim>\<open>src/internal/relay\<close>); if another gateway holds the tunnel it is forwarded there. The registry keeps
  sessions and leases (\<^verbatim>\<open>src/internal/store\<close>) and tells its watchers about changes; gateways mirror them. The dashboard
  (\<^verbatim>\<open>src/internal/dashboard\<close>) writes the same tables from which the gateway's authenticator reads the token hashes.

  \<^bold>\<open>Which theory models which part.\<close>

  \<^item> \<open>TE_Prelude\<close>, \<open>TE_Errs\<close>, \<open>TE_Domain\<close>, \<open>TE_Net\<close>: Go maps as association lists, integer division, reachability and
    invariants, the locale of tables with expiry; error values and results (\<^verbatim>\<open>pkg/errs\<close>); the data types and validation of
    \<^verbatim>\<open>internal/domain\<close> with its regular expressions; strings, addresses and prefixes of the standard library.
  \<^item> \<open>TE_Wire\<close>, \<open>TE_Transport\<close>: readers, writers and buffers with Go's index panics, and every encoder and decoder of
    \<^verbatim>\<open>transport.go\<close>. The locale \<open>wire_codec\<close> is interpreted once per frame and gives the round trips, prefix freedom and
    safe decoding.
  \<^item> \<open>TE_Tls\<close>: the TLS configurations of \<^verbatim>\<open>tls.go\<close>, which of them gateway and agent choose, the certificate the gateway makes
    for itself, and the matching of host names of the standard library.
  \<^item> \<open>TE_Relay\<close>, \<open>TE_Duplex\<close>, \<open>TE_Stream\<close>: one direction of the relay as a step relation of its two goroutines and the
    bounded channel between them; both directions with half-closing, deadlines, cancellation and the bandwidth limit; the
    stream table.
  \<^item> \<open>TE_Memstore\<close>, \<open>TE_Coordinator\<close>, \<open>TE_Registry\<close>: the in-memory stores, the lease coordinator, the registry server,
    its interceptors and its client. The locales \<open>session_store\<close> and \<open>lease_service\<close> are what the server relies on.
  \<^item> \<open>TE_Etcd\<close>, \<open>TE_Cluster\<close>: the coordinator on an etcd cluster with its local tables and watch loop; a fleet of such
    coordinators on one cluster as a step relation.
  \<^item> \<open>TE_Router\<close>, \<open>TE_Auth\<close>: local and distributed routing with relay scores; both authenticators and the rate limiter.
  \<^item> \<open>TE_Gateway\<close>, \<open>TE_Handshake\<close>, \<open>TE_Public\<close>: the gateway's tunnel table, timers and teardown; both handshakes and
    session resume; public TCP and UDP traffic and access rules. \<open>TE_Lifecycle\<close> has the gateway's step relation and
    invariant, \<open>TE_Session\<close> its properties. \<open>TE_Run\<close> is \<^verbatim>\<open>Gateway.Run\<close>: the start with its errors, then a step relation of the
    accept loops, their workers and the phases of the shutdown around the steps of the gateway.
  \<^item> \<open>TE_Config\<close>, \<open>TE_Agent\<close>, \<open>TE_Reconnect\<close>, \<open>TE_EndToEnd\<close>: configuration, defaults, validation and command line; the
    agent; its reconnect loop; agent and gateway together.
  \<^item> \<open>TE_Agentui\<close>, \<open>TE_Apiclient\<close>: the terminal interface (\<^verbatim>\<open>agentui\<close>) with its update function, views and log writer; the
    agent's client of the dashboard API (\<^verbatim>\<open>api_client.go\<close>), composed with the routes of the dashboard.
  \<^item> \<open>TE_Programs\<close>: the three server programs under \<^verbatim>\<open>src/cmd\<close>, from the configuration to the options of the service.
  \<^item> \<open>TE_Pgstore\<close>, \<open>TE_Persistence\<close>: the row types and every method of the Postgres repositories; the Postgres session
    repository against the in-memory one.
  \<^item> \<open>TE_Dashboard\<close>, \<open>TE_Http\<close>, \<open>TE_Tenancy\<close>, \<open>TE_Accounts\<close>: the dashboard's services; its middleware, handlers and
    routes; well-formedness of its tables and isolation of its users; logins, logouts and agent credentials.

  State is passed explicitly: each component has a record of its fields (\<open>Gateway\<close>, \<open>Server\<close>, \<open>MemCoordinator\<close>, \<open>Agent\<close>,
  \<open>dash\<close>, ...) named after the Go struct, and one definition per method, with the method's name; a method that changes state
  returns the new record. Errors are values of \<open>result\<close>, with \<open>Panic\<close> for a run-time panic. Locks do not appear: each
  method body that holds a lock is one step. Goroutines that the code starts and leaves alone (published events, audit
  writes, timers) are pending work in the state which a later step performs, in any order.

  \<^bold>\<open>What is outside.\<close> Clock readings, random bytes, new identifiers, and the answers of the network are arguments. Code
  that is not in the repository is a parameter: bcrypt and HMAC, the JWT library, the token bucket of the rate library,
  the components of the terminal library (\<open>bubbles\<close>), and three interfaces with their documented behaviour as named hypotheses,
  each satisfied by a concrete instance that the witnesses use: the object-relational mapper (\<open>gorm_spec\<close>, by \<open>rows_gorm\<close>), the
  etcd client (\<open>etcd_spec\<close>, by \<open>mem_etcd\<close>) and the making and reading of certificates (\<open>x509_spec\<close>, by \<open>x509_example\<close>).
  gRPC calls reach the server as sent; a call may fail instead.

  \<^bold>\<open>What the theorems show.\<close>

  \<^item> End to end: after a handshake agent and gateway agree on the tunnel, its public names and their routes, and a
    connection to such a name makes the agent dial the configured local address.
  \<^item> Gateway: every reachable state has consistent tables (host names and streams point to live tunnels, an agent has one
    tunnel); teardown removes exactly one tunnel; access rules decide as specified; no stream is opened past a guard; a
    shutdown leaves no listener, loop, worker, tunnel or stream; its certificate is good for the names it gives out, and
    when agent and gateway agree on TLS is known exactly.
  \<^item> Registry: a tunnel has one live lease, leases refine an abstract lease map, watchers receive exactly the events they
    match, the mirror of a gateway refines the event history. With etcd, a relay keeps a tunnel as long as its key is there,
    for operations that do not overlap; leases can be released through every instance.
  \<^item> Wire format: every frame is read back as it was written, decoders accept exactly the frames of valid messages and
    never index out of range.
  \<^item> Relay: in both directions what is written is always a prefix of what was read, and all of it when the relay ends
    without an error, with the right statistics; the queue is bounded, a finished source is drained, and writing a
    chunk returns.
  \<^item> Agent: the delays and the number of its reconnects, and the gateways it dials; its terminal interface shows what the
    events say and never panics; its API client and the dashboard's routes agree on requests and answers.
  \<^item> Dashboard: every request keeps the tables well formed; a request changes only rows of the user it is authenticated
    as; logins require a verified email and the right password; a logout ends its token; rotated and deleted agent tokens
    are refused by the gateway; the Postgres sessions refine the in-memory ones.
  \<^item> Defects found on the way are theorems too, named in the list of findings: resume tokens that never work, a timer that
    removes a live tunnel, a retry budget that is never restored, lockouts that never happen, access rules deletable by
    other users and never enforced by the gateway program, refresh tokens that survive a logout, host names that one
    tunnel can take from another, etcd leases that cannot be renewed, a bandwidth limit that breaks half-closing, a gateway
    that keeps running after its loops have failed.

  \<^bold>\<open>Bounds.\<close> No definition needs fuel: loops over data are structural recursion, loops over the network recurse on the
  list of its answers, and the relay, the fleet and the running gateway are step relations. Word sizes are kept where the code depends on them (lengths and
  ids in frames, int64 durations, addresses); other Go integers are unbounded.

  \<^bold>\<open>Not modelled.\<close> QUIC and sockets, dialling and listening, HTML pages, colours and styles of the terminal interface, mail
  delivery, logging, metrics and tracing are input and output or calls into libraries; so are opening the database and its
  migrations. Reading and writing configuration files is done by libraries. Contexts and timeouts of remote calls appear
  as calls that fail. The echo server and the token script are not part of the service. The interfaces of
  \<^verbatim>\<open>repository.go\<close> and \<^verbatim>\<open>coordinator.go\<close> have no code of their own. The generated protobuf code is represented by the messages
  it carries.
\<close>

end
